(* ===== verification/Prelude.thy ===== *)
theory Prelude
  imports
    Main
    "HOL-Library.Word"
    "HOL-Library.Char_ord"
    "HOL-Library.List_Lexorder"
    "HOL-Library.Sublist"
begin

text \<open>
  Shared vocabulary of the development: the collections of proof rules the component
  theories fill, names for the machine types of Go, generic facts on lists and options,
  decimal rendering of integers (Go's \<^verbatim>\<open>%d\<close> verb), and Go's error values.
\<close>

section \<open>Collections\<close>

named_theorems go_defs \<open>unfolding equations of the small Go helpers\<close>
named_theorems map_laws \<open>lookup laws of the ordered string maps\<close>
named_theorems table_rules \<open>equations that turn a run of map assignments into a table\<close>
named_theorems name_defs \<open>definitions of the resource naming functions\<close>

section \<open>Machine types\<close>

text \<open>Go's \<^verbatim>\<open>int32\<close> and \<^verbatim>\<open>int64\<close> are words read in two's complement by \<^const>\<open>sint\<close>.\<close>

type_synonym int32 = "32 word"
type_synonym int64 = "64 word"
type_synonym byte = "8 word"

section \<open>Lists and options\<close>

lemma map_option_None_eq [simp]: "(None = map_option f x) = (x = None)"
  by (cases x) auto

lemma list_all_replicate [simp]: "list_all P (replicate n x) = (n = 0 \<or> P x)"
  by (induction n) auto

lemma distinct_map_inj: "distinct xs \<Longrightarrow> inj f \<Longrightarrow> distinct (map f xs)"
  by (auto simp: distinct_map intro: inj_on_subset)

section \<open>Decimal rendering\<close>

definition digit_char :: "nat \<Rightarrow> char" where
  "digit_char n = char_of (48 + n)"

fun dec_nat :: "nat \<Rightarrow> string" where
  "dec_nat n = (if n < 10 then [digit_char n] else dec_nat (n div 10) @ [digit_char (n mod 10)])"

declare dec_nat.simps [simp del]

definition dec_int :: "int \<Rightarrow> string" where
  "dec_int i = (if i < 0 then CHR ''-'' # dec_nat (nat (- i)) else dec_nat (nat i))"

text \<open>\<^verbatim>\<open>fmt.Sprintf("%d", x)\<close> for an \<^verbatim>\<open>int32\<close>.\<close>

definition dec_int32 :: "int32 \<Rightarrow> string" where
  "dec_int32 w = dec_int (sint w)"

definition is_digit :: "char \<Rightarrow> bool" where
  "is_digit c = (48 \<le> (of_char c :: nat) \<and> (of_char c :: nat) \<le> 57)"

lemma of_char_digit_char: "n < 10 \<Longrightarrow> (of_char (digit_char n) :: nat) = 48 + n"
  by (simp add: digit_char_def of_char_of)

lemma is_digit_digit_char: "n < 10 \<Longrightarrow> is_digit (digit_char n)"
  by (simp add: is_digit_def of_char_digit_char)

lemma digit_char_inj: "m < 10 \<Longrightarrow> n < 10 \<Longrightarrow> (digit_char m = digit_char n) = (m = n)"
  by (metis of_char_digit_char add_left_cancel)

lemma dec_nat_nonempty [simp]: "dec_nat n \<noteq> []"
  by (subst dec_nat.simps) simp

lemma dec_nat_digits: "\<forall>c \<in> set (dec_nat n). is_digit c"
proof (induction n rule: dec_nat.induct)
  case (1 n)
  then show ?case
    by (cases "n < 10") (simp_all add: dec_nat.simps [of n] is_digit_digit_char)
qed

text \<open>Reading decimal digits back inverts the rendering, so the rendering is injective.\<close>

definition undec_nat :: "string \<Rightarrow> nat" where
  "undec_nat s = foldl (\<lambda>a c. 10 * a + (of_char c - 48)) 0 s"

lemma undec_dec_nat [simp]: "undec_nat (dec_nat n) = n"
proof (induction n rule: dec_nat.induct)
  case (1 n)
  show ?case
  proof (cases "n < 10")
    case True
    then show ?thesis
      by (simp add: dec_nat.simps [of n] undec_nat_def of_char_digit_char)
  next
    case False
    with "1.IH" have "undec_nat (dec_nat (n div 10)) = n div 10" by simp
    with False show ?thesis
      by (simp add: dec_nat.simps [of n] undec_nat_def of_char_digit_char)
  qed
qed

lemma dec_nat_inj [simp]: "(dec_nat m = dec_nat n) = (m = n)"
  by (metis undec_dec_nat)

lemma dash_not_in_dec_nat: "CHR ''-'' \<notin> set (dec_nat n)"
  using dec_nat_digits [of n] by (auto simp: is_digit_def)

lemma dec_int_inj [simp]: "(dec_int i = dec_int j) = (i = j)"
proof -
  have "CHR ''-'' # dec_nat m \<noteq> dec_nat n" for m n
    using dash_not_in_dec_nat [of n] by (metis list.set_intros(1))
  then show ?thesis
    by (auto simp: dec_int_def) (metis)+
qed

lemma dec_int_of_nat [simp]: "dec_int (int n) = dec_nat n"
  by (simp add: dec_int_def)

lemma dec_int32_inj [simp]: "(dec_int32 v = dec_int32 w) = (v = w)"
  by (auto simp: dec_int32_def intro: signed_word_eqI)

section \<open>Errors\<close>

text \<open>
  A Go error: an API-machinery error with the classification the code asks for
  (\<^verbatim>\<open>errors.IsNotFound\<close>, \<^verbatim>\<open>errors.IsAlreadyExists\<close>), a message of
  \<^verbatim>\<open>fmt.Errorf\<close>, or a wrapped error (\<^verbatim>\<open>%w\<close>) with its prefix.
\<close>

datatype goerror =
    NotFound
  | AlreadyExists
  | AlreadyOwned
  | ApiError string
  | Errorf string
  | Wrap string goerror

fun IsNotFound :: "goerror \<Rightarrow> bool" where
  "IsNotFound NotFound = True"
| "IsNotFound (Wrap _ e) = IsNotFound e"
| "IsNotFound _ = False"

fun IsAlreadyExists :: "goerror \<Rightarrow> bool" where
  "IsAlreadyExists AlreadyExists = True"
| "IsAlreadyExists (Wrap _ e) = IsAlreadyExists e"
| "IsAlreadyExists _ = False"

end
