(* ===== verification/GoMap.thy ===== *)
theory GoMap
  imports Prelude
begin

text \<open>
  Go's \<^verbatim>\<open>map[K]V\<close> as an association list kept sorted by key. The representation is
  canonical (two maps with the same entries are the same list), which matches both Go's
  map equality and the key order in which \<^verbatim>\<open>encoding/json\<close> writes a map. The interface the
  renderers rely on is the locale \<open>ordered_map\<close>; the association lists interpret it.
\<close>

section \<open>Interface\<close>

locale ordered_map =
  fixes empty :: "'m"
    and put :: "'m \<Rightarrow> 'k \<Rightarrow> 'v \<Rightarrow> 'm"
    and get :: "'m \<Rightarrow> 'k \<Rightarrow> 'v option"
    and invar :: "'m \<Rightarrow> bool"
  assumes get_empty: "get empty k = None"
    and get_put: "get (put m k v) k' = (if k' = k then Some v else get m k')"
    and invar_empty: "invar empty"
    and invar_put: "invar m \<Longrightarrow> invar (put m k v)"
    and get_ext: "invar m \<Longrightarrow> invar m' \<Longrightarrow> (\<And>k. get m k = get m' k) \<Longrightarrow> m = m'"
begin

text \<open>A conditional assignment, the step every renderer is made of.\<close>

lemma get_put_option:
  "get (case x of None \<Rightarrow> m | Some v \<Rightarrow> put m k v) k' =
     (if k' = k \<and> x \<noteq> None then x else get m k')"
  by (cases x) (simp_all add: get_put)

lemma get_put_if:
  "get (if b then put m k v else m) k' = (if k' = k \<and> b then Some v else get m k')"
  by (simp add: get_put)

lemma invar_put_option: "invar m \<Longrightarrow> invar (case x of None \<Rightarrow> m | Some v \<Rightarrow> put m k v)"
  by (cases x) (simp_all add: invar_put)

text \<open>Assignments to different keys commute, a repeated one overwrites.\<close>

lemma put_commute: "invar m \<Longrightarrow> k \<noteq> k' \<Longrightarrow> put (put m k v) k' v' = put (put m k' v') k v"
  by (rule get_ext) (simp_all add: get_put invar_put)

lemma put_overwrite: "invar m \<Longrightarrow> put (put m k v) k v' = put m k v'"
  by (rule get_ext) (simp_all add: get_put invar_put)

text \<open>
  A run of assignments from a list of entries: what a lookup finds is the last entry for
  the key, and the keys are those of the list and of the start.
\<close>

lemma get_fold_put:
  "get (fold (\<lambda>(k, v) m. put m k v) kvs m) k =
     (case map_of (rev kvs) k of None \<Rightarrow> get m k | Some v \<Rightarrow> Some v)"
proof (induction kvs arbitrary: m)
  case Nil
  then show ?case by simp
next
  case (Cons kv kvs)
  obtain k0 v0 where kv: "kv = (k0, v0)" by (cases kv)
  show ?case
    by (simp add: kv Cons.IH get_put map_add_def split: option.split)
qed

text \<open>
  A run of conditional assignments whose keys are distinct finds for a key exactly the
  value its entry gives, if any, and nothing for a key without an entry.
\<close>

lemma get_fold_option:
  "distinct (map fst tab) \<Longrightarrow>
   get (fold (\<lambda>(k, x) m. case x of None \<Rightarrow> m | Some v \<Rightarrow> put m k v) tab m) k =
     (case map_of tab k of Some (Some v) \<Rightarrow> Some v | _ \<Rightarrow> get m k)"
proof (induction tab arbitrary: m)
  case Nil
  then show ?case by simp
next
  case (Cons e tab)
  obtain k0 x0 where e: "e = (k0, x0)" by (cases e)
  with Cons.prems have "k0 \<notin> fst ` set tab" by simp
  then have "map_of tab k0 = None" by (simp add: map_of_eq_None_iff)
  with Cons e show ?case by (auto simp: get_put split: option.split)
qed

lemma invar_fold_put: "invar m \<Longrightarrow> invar (fold (\<lambda>(k, v) m. put m k v) kvs m)"
  by (induction kvs arbitrary: m) (auto simp: invar_put)

end

section \<open>Sorted association lists\<close>

type_synonym ('k, 'v) gomap = "('k \<times> 'v) list"
type_synonym 'v strmap = "(string, 'v) gomap"

fun map_set :: "('k::linorder, 'v) gomap \<Rightarrow> 'k \<Rightarrow> 'v \<Rightarrow> ('k, 'v) gomap" where
  "map_set [] k v = [(k, v)]"
| "map_set (e # m) k v =
     (if fst e < k then e # map_set m k v
      else if fst e = k then (k, v) # m
      else (k, v) # e # m)"

definition map_get :: "('k, 'v) gomap \<Rightarrow> 'k \<Rightarrow> 'v option" where
  "map_get m k = map_of m k"

definition map_invar :: "('k::linorder, 'v) gomap \<Rightarrow> bool" where
  "map_invar m = sorted_wrt (<) (map fst m)"

text \<open>A map literal \<^verbatim>\<open>map[K]V{k1: v1, ...}\<close> assigns its entries from left to right.\<close>

definition map_lit :: "('k::linorder \<times> 'v) list \<Rightarrow> ('k, 'v) gomap" where
  "map_lit kvs = fold (\<lambda>(k, v) m. map_set m k v) kvs []"

lemma keys_map_set: "fst ` set (map_set m k v) = insert k (fst ` set m)"
  by (induction m) auto

lemma map_get_map_set: "map_get (map_set m k v) k' = (if k' = k then Some v else map_get m k')"
  by (induction m) (auto simp: map_get_def)

lemma map_invar_Nil [simp]: "map_invar []"
  by (simp add: map_invar_def)

lemma map_invar_Cons: "map_invar (e # m) = ((\<forall>k \<in> fst ` set m. fst e < k) \<and> map_invar m)"
  by (auto simp: map_invar_def)

lemma map_invar_set: "map_invar m \<Longrightarrow> map_invar (map_set m k v)"
proof (induction m)
  case Nil
  then show ?case by (simp add: map_invar_Cons)
next
  case (Cons e m)
  then have IH: "map_invar (map_set m k v)" by (simp add: map_invar_Cons)
  from Cons.prems have "\<forall>k' \<in> fst ` set m. fst e < k'" and "map_invar m"
    by (simp_all add: map_invar_Cons)
  with IH show ?case
    unfolding map_set.simps
    by (auto simp: map_invar_Cons keys_map_set)
qed

lemma map_invar_distinct: "map_invar m \<Longrightarrow> distinct (map fst m)"
  by (simp add: map_invar_def strict_sorted_iff)

lemma map_get_Some_iff: "map_invar m \<Longrightarrow> (map_get m k = Some v) = ((k, v) \<in> set m)"
  by (simp add: map_get_def map_invar_distinct map_of_eq_Some_iff)

lemma map_ext:
  assumes "map_invar m" and "map_invar m'" and "\<And>k. map_get m k = map_get m' k"
  shows "m = m'"
proof -
  have "set m = set m'"
    using assms(3) by (auto simp: map_get_Some_iff [OF assms(1), symmetric]
        map_get_Some_iff [OF assms(2), symmetric])
  moreover have "sorted (map fst m)" and "sorted (map fst m')"
    using assms(1,2) by (simp_all add: map_invar_def strict_sorted_imp_sorted)
  moreover have d: "distinct (map fst m)" "distinct (map fst m')"
    using assms(1,2) by (simp_all add: map_invar_distinct)
  moreover have "inj_on fst (set m \<union> set m')"
    using \<open>set m = set m'\<close> d(1) by (simp add: distinct_map)
  ultimately show ?thesis
    by (intro map_sorted_distinct_set_unique [of fst]) simp_all
qed

interpretation gm: ordered_map "[]" map_set map_get map_invar
proof unfold_locales
  show "map_get [] k = None" for k by (simp add: map_get_def)
  show "map_get (map_set m k v) k' = (if k' = k then Some v else map_get m k')" for m k v k'
    by (rule map_get_map_set)
  show "map_invar []" by simp
  show "map_invar (map_set m k v)" if "map_invar m" for m k v
    using that by (rule map_invar_set)
  show "m = m'" if "map_invar m" "map_invar m'" "\<And>k. map_get m k = map_get m' k" for m m'
    using that by (rule map_ext)
qed

lemmas gomap_laws [map_laws] =
  gm.get_empty gm.get_put gm.get_put_option gm.get_put_if

lemma map_invar_lit [simp]: "map_invar (map_lit kvs)"
  unfolding map_lit_def by (rule gm.invar_fold_put) simp

lemma map_get_lit: "map_get (map_lit kvs) k = map_of (rev kvs) k"
  unfolding map_lit_def by (simp add: gm.get_fold_put gm.get_empty split: option.split)

lemma map_set_nonempty [simp]: "map_set m k v \<noteq> []"
  by (cases m) auto

lemma set_map_set: "set (map_set m k v) \<subseteq> insert (k, v) (set m)"
  by (induction m) auto

text \<open>Indexing a Go map of strings: the empty string for a missing key.\<close>

definition str_index :: "string strmap \<Rightarrow> string \<Rightarrow> string" where
  "str_index m k = (case map_get m k of None \<Rightarrow> '''' | Some v \<Rightarrow> v)"

end
