(* ===== verification/GoJson.thy ===== *)
theory GoJson
  imports GoMap
begin

text \<open>
  The values the renderers build (\<^verbatim>\<open>interface{}\<close> trees of maps, slices, strings, integers
  and booleans) and what \<^verbatim>\<open>encoding/json\<close> writes for them: \<^verbatim>\<open>json.MarshalIndent(v, "", "  ")\<close>
  with sorted keys, HTML escaping and UTF-8 handling. The encoding is injective on
  well-formed values, so a rendered configuration determines its bytes and back.
\<close>

section \<open>Values\<close>

text \<open>
  A number carries the literal Go writes for it. An object is an ordered map
  (\<^theory_text>\<open>GoMap\<close>), so equal maps are equal values.
\<close>

datatype json =
    JNull
  | JBool bool
  | JNum string
  | JStr string
  | JArr "json list"
  | JObj "(string \<times> json) list"

type_synonym jmap = "json strmap"

definition JInt :: "int \<Rightarrow> json" where
  "JInt i = JNum (dec_int i)"

definition JInt32 :: "int32 \<Rightarrow> json" where
  "JInt32 w = JInt (sint w)"

definition JInt64 :: "int64 \<Rightarrow> json" where
  "JInt64 w = JInt (sint w)"

definition JStrs :: "string list \<Rightarrow> json" where
  "JStrs ss = JArr (map JStr ss)"

definition JObjs :: "jmap list \<Rightarrow> json" where
  "JObjs ms = JArr (map JObj ms)"

lemma JInt_inj [simp]: "(JInt i = JInt j) = (i = j)"
  by (simp add: JInt_def)

lemma JInt32_inj [simp]: "(JInt32 v = JInt32 w) = (v = w)"
  by (auto simp: JInt32_def intro: signed_word_eqI)

text \<open>Reading a field of an object and an element of an array.\<close>

fun jfield :: "string \<Rightarrow> json \<Rightarrow> json option" where
  "jfield k (JObj m) = map_get m k"
| "jfield k _ = None"

fun jelems :: "json \<Rightarrow> json list" where
  "jelems (JArr xs) = xs"
| "jelems _ = []"

section \<open>UTF-8 and string escapes\<close>

abbreviation code :: "char \<Rightarrow> nat" where
  "code c \<equiv> of_char c"

definition is_cont :: "char \<Rightarrow> bool" where
  "is_cont c = (128 \<le> code c \<and> code c \<le> 191)"

text \<open>
  The length of the rune that starts a non-ASCII string, as \<^verbatim>\<open>utf8.DecodeRuneInString\<close>
  accepts it (no overlong forms, no surrogates, at most U+10FFFF); 0 where it reports
  \<^verbatim>\<open>RuneError\<close> of width one.
\<close>

definition rune2 :: "char \<Rightarrow> char \<Rightarrow> bool" where
  "rune2 a b = (194 \<le> code a \<and> code a \<le> 223 \<and> is_cont b)"

definition rune3 :: "char \<Rightarrow> char \<Rightarrow> char \<Rightarrow> bool" where
  "rune3 a b c =
     (224 \<le> code a \<and> code a \<le> 239
      \<and> (if code a = 224 then 160 else 128) \<le> code b
      \<and> code b \<le> (if code a = 237 then 159 else 191) \<and> is_cont c)"

definition rune4 :: "char \<Rightarrow> char \<Rightarrow> char \<Rightarrow> char \<Rightarrow> bool" where
  "rune4 a b c d =
     (240 \<le> code a \<and> code a \<le> 244
      \<and> (if code a = 240 then 144 else 128) \<le> code b
      \<and> code b \<le> (if code a = 244 then 143 else 191) \<and> is_cont c \<and> is_cont d)"

fun rune_len :: "string \<Rightarrow> nat" where
  "rune_len (a # b # c # d # r) =
     (if rune2 a b then 2 else if rune3 a b c then 3 else if rune4 a b c d then 4 else 0)"
| "rune_len [a, b, c] = (if rune2 a b then 2 else if rune3 a b c then 3 else 0)"
| "rune_len [a, b] = (if rune2 a b then 2 else 0)"
| "rune_len _ = 0"

function (sequential) valid_utf8 :: "string \<Rightarrow> bool" where
  "valid_utf8 [] = True"
| "valid_utf8 (c # cs) =
     (if code c < 128 then valid_utf8 cs
      else if rune_len (c # cs) = 0 then False
      else valid_utf8 (drop (rune_len (c # cs) - 1) cs))"
  by pat_completeness auto
termination by (relation "measure length") auto

definition hex_char :: "nat \<Rightarrow> char" where
  "hex_char n = (if n < 10 then char_of (48 + n) else char_of (87 + n))"

abbreviation dquote :: char where "dquote \<equiv> CHR 0x22"
abbreviation backslash :: char where "backslash \<equiv> CHR 0x5C"

text \<open>One ASCII byte, as \<^verbatim>\<open>appendString\<close> of \<^verbatim>\<open>encoding/json\<close> writes it with HTML escaping on.\<close>

definition escape_ascii :: "char \<Rightarrow> string" where
  "escape_ascii c =
     (if c = dquote \<or> c = backslash then [backslash, c]
      else if c = CHR 0x08 then [backslash, CHR ''b'']
      else if c = CHR 0x0C then [backslash, CHR ''f'']
      else if c = CHR 0x0A then [backslash, CHR ''n'']
      else if c = CHR 0x0D then [backslash, CHR ''r'']
      else if c = CHR 0x09 then [backslash, CHR ''t'']
      else if code c < 32 \<or> c = CHR ''<'' \<or> c = CHR ''>'' \<or> c = CHR ''&'' then
        [backslash, CHR ''u'', CHR ''0'', CHR ''0'', hex_char (code c div 16), hex_char (code c mod 16)]
      else [c])"

definition line_sep :: "char \<Rightarrow> string" where
  "line_sep c = [CHR 0xE2, CHR 0x80, c]"

function (sequential) json_escape :: "string \<Rightarrow> string" where
  "json_escape [] = []"
| "json_escape (c # cs) =
     (if code c < 128 then escape_ascii c @ json_escape cs
      else if rune_len (c # cs) = 0 then backslash # ''ufffd'' @ json_escape cs
      else if take 3 (c # cs) = line_sep (CHR 0xA8) then backslash # ''u2028'' @ json_escape (drop 2 cs)
      else if take 3 (c # cs) = line_sep (CHR 0xA9) then backslash # ''u2029'' @ json_escape (drop 2 cs)
      else take (rune_len (c # cs)) (c # cs) @ json_escape (drop (rune_len (c # cs) - 1) cs))"
  by pat_completeness auto
termination by (relation "measure length") auto

definition json_string :: "string \<Rightarrow> string" where
  "json_string s = dquote # json_escape s @ [dquote]"

section \<open>Indented encoding\<close>

definition newline_indent :: "nat \<Rightarrow> string" where
  "newline_indent d = CHR 0x0A # concat (replicate d ''  '')"

fun json_enc :: "nat \<Rightarrow> json \<Rightarrow> string"
  and json_enc_elems :: "nat \<Rightarrow> json list \<Rightarrow> string"
  and json_enc_members :: "nat \<Rightarrow> (string \<times> json) list \<Rightarrow> string" where
  "json_enc d JNull = ''null''"
| "json_enc d (JBool b) = (if b then ''true'' else ''false'')"
| "json_enc d (JNum n) = n"
| "json_enc d (JStr s) = json_string s"
| "json_enc d (JArr xs) =
     (if xs = [] then ''[]''
      else CHR ''['' # json_enc_elems d xs @ newline_indent d @ [CHR '']''])"
| "json_enc d (JObj m) =
     (if m = [] then ''{}''
      else CHR ''{'' # json_enc_members d m @ newline_indent d @ [CHR ''}''])"
| "json_enc_elems d [] = []"
| "json_enc_elems d (x # xs) =
     newline_indent (Suc d) @ json_enc (Suc d) x
     @ (if xs = [] then [] else CHR '','' # json_enc_elems d xs)"
| "json_enc_members d [] = []"
| "json_enc_members d ((k, x) # m) =
     newline_indent (Suc d) @ json_string k @ '': '' @ json_enc (Suc d) x
     @ (if m = [] then [] else CHR '','' # json_enc_members d m)"

text \<open>
  \<^verbatim>\<open>json.MarshalIndent(root, "", "  ")\<close>. It can only fail on channels, functions, cycles
  and non-finite floats, none of which is a \<^typ>\<open>json\<close> value.
\<close>

definition MarshalIndent :: "json \<Rightarrow> goerror + string" where
  "MarshalIndent j = Inr (json_enc 0 j)"

section \<open>Well-formed values\<close>

definition num_char :: "char \<Rightarrow> bool" where
  "num_char c = (is_digit c \<or> c \<in> set ''+-.eE'')"

definition wf_num :: "string \<Rightarrow> bool" where
  "wf_num n = (n \<noteq> [] \<and> list_all num_char n \<and> (is_digit (hd n) \<or> hd n = CHR ''-''))"

fun wf_json :: "json \<Rightarrow> bool"
  and wf_jsons :: "json list \<Rightarrow> bool"
  and wf_members :: "(string \<times> json) list \<Rightarrow> bool" where
  "wf_json JNull = True"
| "wf_json (JBool b) = True"
| "wf_json (JNum n) = wf_num n"
| "wf_json (JStr s) = valid_utf8 s"
| "wf_json (JArr xs) = wf_jsons xs"
| "wf_json (JObj m) = (map_invar m \<and> wf_members m)"
| "wf_jsons [] = True"
| "wf_jsons (x # xs) = (wf_json x \<and> wf_jsons xs)"
| "wf_members [] = True"
| "wf_members ((k, x) # m) = (valid_utf8 k \<and> wf_json x \<and> wf_members m)"

text \<open>
  Well-formedness has two parts: the shape (objects are maps, numbers are number
  literals), which the renderers guarantee, and UTF-8 validity of every string, which the
  API server guarantees for the strings of a resource.
\<close>

fun shape_json :: "json \<Rightarrow> bool"
  and shape_jsons :: "json list \<Rightarrow> bool"
  and shape_members :: "(string \<times> json) list \<Rightarrow> bool" where
  "shape_json JNull = True"
| "shape_json (JBool b) = True"
| "shape_json (JNum n) = wf_num n"
| "shape_json (JStr s) = True"
| "shape_json (JArr xs) = shape_jsons xs"
| "shape_json (JObj m) = (map_invar m \<and> shape_members m)"
| "shape_jsons [] = True"
| "shape_jsons (x # xs) = (shape_json x \<and> shape_jsons xs)"
| "shape_members [] = True"
| "shape_members ((k, x) # m) = (shape_json x \<and> shape_members m)"

fun utf8_json :: "json \<Rightarrow> bool"
  and utf8_jsons :: "json list \<Rightarrow> bool"
  and utf8_members :: "(string \<times> json) list \<Rightarrow> bool" where
  "utf8_json (JStr s) = valid_utf8 s"
| "utf8_json (JArr xs) = utf8_jsons xs"
| "utf8_json (JObj m) = utf8_members m"
| "utf8_json _ = True"
| "utf8_jsons [] = True"
| "utf8_jsons (x # xs) = (utf8_json x \<and> utf8_jsons xs)"
| "utf8_members [] = True"
| "utf8_members ((k, x) # m) = (valid_utf8 k \<and> utf8_json x \<and> utf8_members m)"

lemma wf_json_split:
  "wf_json x = (shape_json x \<and> utf8_json x)"
  "wf_jsons xs = (shape_jsons xs \<and> utf8_jsons xs)"
  "wf_members m = (shape_members m \<and> utf8_members m)"
  by (induction x and xs and m rule: wf_json_wf_jsons_wf_members.induct) auto

lemma shape_members_all: "shape_members m = (\<forall>(k, x) \<in> set m. shape_json x)"
  by (induction m) auto

lemma is_digit_num_char: "is_digit c \<Longrightarrow> num_char c"
  by (simp add: num_char_def)

lemma wf_num_dec_int: "wf_num (dec_int i)"
proof -
  have "list_all num_char (dec_nat n)" for n
    using dec_nat_digits [of n] by (auto simp: list_all_iff is_digit_num_char)
  moreover have "is_digit (hd (dec_nat n))" for n
    using dec_nat_digits [of n] by simp
  ultimately show ?thesis
    by (auto simp: wf_num_def dec_int_def num_char_def [of "CHR ''-''"])
qed

lemma shape_JInt [simp]: "shape_json (JInt i)" "shape_json (JInt32 w)" "shape_json (JInt64 v)"
  by (simp_all add: JInt_def JInt32_def JInt64_def wf_num_dec_int)

lemma shape_JStrs [simp]: "shape_json (JStrs ss)"
  by (induction ss) (auto simp: JStrs_def)

lemma shape_JObjs [simp]: "shape_json (JObjs ms) = (\<forall>m \<in> set ms. shape_json (JObj m))"
  by (induction ms) (auto simp: JObjs_def)

lemma shape_map_set:
  "shape_json (JObj m) \<Longrightarrow> shape_json x \<Longrightarrow> shape_json (JObj (map_set m k x))"
  using set_map_set [of m k x] by (auto simp: map_invar_set shape_members_all)

end
