(* ===== verification/K8sTypes.thy ===== *)
theory K8sTypes
  imports GoJson
begin

text \<open>
  The Kubernetes API types the operator fills in or passes through (\<^verbatim>\<open>k8s.io/api\<close>), as
  records with the fields the sources name. Data the operator only copies (resource
  requirements, tolerations, node and pod affinity, environment sources it does not
  build) is a \<^typ>\<open>json\<close> value.
\<close>

type_synonym ResourceRequirements = json
type_synonym Toleration = json
type_synonym labels = "string strmap"

record LocalObjectReference =
  lor_Name :: string

record SecretKeySelector =
  sks_LocalObjectReference :: LocalObjectReference
  sks_Key :: string
  sks_Optional :: "bool option"

datatype EnvVarSource =
    SecretKeyRef SecretKeySelector
  | FieldRef string
  | OtherSource json

record EnvVar =
  ev_Name :: string
  ev_Value :: string
  ev_ValueFrom :: "EnvVarSource option"

record WeightedPodAffinityTerm =
  wpa_Weight :: int32
  wpa_MatchLabels :: labels
  wpa_TopologyKey :: string

record PodAntiAffinity =
  paa_Required :: "json list"
  paa_Preferred :: "WeightedPodAffinityTerm list"

record Affinity =
  af_NodeAffinity :: "json option"
  af_PodAffinity :: "json option"
  af_PodAntiAffinity :: "PodAntiAffinity option"

text \<open>\<^verbatim>\<open>apiextensionsv1.JSON\<close>: the raw bytes of an arbitrary JSON field, possibly nil.\<close>

record JSONRaw =
  Raw :: "string option"

record ObjectMeta =
  om_Name :: string
  om_Namespace :: string
  om_UID :: string
  om_Generation :: int64
  om_Labels :: labels
  om_Annotations :: "string strmap"
  om_ControllerOwner :: "string option"

definition zero_LocalObjectReference :: LocalObjectReference where
  "zero_LocalObjectReference = \<lparr>lor_Name = ''''\<rparr>"

definition zero_ObjectMeta :: ObjectMeta where
  "zero_ObjectMeta = \<lparr>om_Name = '''', om_Namespace = '''', om_UID = '''', om_Generation = 0,
     om_Labels = [], om_Annotations = [], om_ControllerOwner = None\<rparr>"

section \<open>Workloads\<close>

datatype VolumeSource =
    ConfigMapSource string
  | EmptyDir
  | SecretSource string

record Volume =
  vol_Name :: string
  vol_Source :: VolumeSource

record VolumeMount =
  vm_Name :: string
  vm_MountPath :: string
  vm_ReadOnly :: bool

record SecurityContext =
  sc_Add :: "string list"
  sc_Drop :: "string list"

record ContainerPort =
  cp_Name :: string
  cp_ContainerPort :: int32
  cp_Protocol :: string

record HTTPProbe =
  hp_Path :: string
  hp_Port :: string
  hp_InitialDelaySeconds :: int32
  hp_PeriodSeconds :: int32

record Container =
  co_Name :: string
  co_Image :: string
  co_ImagePullPolicy :: string
  co_Command :: "string list"
  co_Env :: "EnvVar list"
  co_Resources :: ResourceRequirements
  co_Ports :: "ContainerPort list"
  co_VolumeMounts :: "VolumeMount list"
  co_SecurityContext :: SecurityContext
  co_ReadinessProbe :: "HTTPProbe option"
  co_LivenessProbe :: "HTTPProbe option"

record PodSpec =
  ps_ServiceAccountName :: string
  ps_HostNetwork :: bool
  ps_ShareProcessNamespace :: "bool option"
  ps_InitContainers :: "Container list"
  ps_Containers :: "Container list"
  ps_Volumes :: "Volume list"
  ps_NodeSelector :: "string strmap"
  ps_Tolerations :: "Toleration list"
  ps_Affinity :: "Affinity option"
  ps_ImagePullSecrets :: "LocalObjectReference list"

record PodTemplate =
  pt_Labels :: labels
  pt_Annotations :: "string strmap"
  pt_Spec :: PodSpec

record DeploymentSpec =
  ds_Replicas :: "int32 option"
  ds_Selector :: labels
  ds_Template :: PodTemplate

record Deployment =
  dep_Meta :: ObjectMeta
  dep_Spec :: DeploymentSpec
  dep_ReadyReplicas :: int32

record StatefulSetSpec =
  sts_ServiceName :: string
  sts_PodManagementPolicy :: string
  sts_Replicas :: "int32 option"
  sts_Selector :: labels
  sts_Template :: PodTemplate

record StatefulSet =
  ste_Meta :: ObjectMeta
  ste_Spec :: StatefulSetSpec
  ste_ReadyReplicas :: int32

section \<open>Other objects\<close>

datatype IntOrString = IosInt int32 | IosString string

record ServicePort =
  sp_Name :: string
  sp_Port :: int32
  sp_TargetPort :: IntOrString
  sp_Protocol :: string

record ServiceSpec =
  svs_ClusterIP :: string
  svs_ClusterIPs :: "string list"
  svs_PublishNotReadyAddresses :: bool
  svs_Selector :: labels
  svs_Ports :: "ServicePort list"

record Service =
  svc_Meta :: ObjectMeta
  svc_Spec :: ServiceSpec

record ConfigMap =
  cm_Meta :: ObjectMeta
  cm_Data :: "string strmap"

record Secret =
  sec_Meta :: ObjectMeta
  sec_Type :: string
  sec_Data :: "string strmap"

record ServiceAccount =
  sacc_Meta :: ObjectMeta

record PodMetricsEndpoint =
  pme_Port :: "string option"
  pme_Path :: string
  pme_Interval :: string

record PodMonitorSpec =
  pms_Selector :: labels
  pms_Endpoints :: "PodMetricsEndpoint list"

record PodMonitor =
  pm_Meta :: ObjectMeta
  pm_Spec :: PodMonitorSpec

record RoleBinding =
  rb_Meta :: ObjectMeta
  rb_RoleRefAPIGroup :: string
  rb_RoleRefKind :: string
  rb_RoleRefName :: string
  rb_Subjects :: "(string \<times> string \<times> string) list"

end
