(* ===== verification/ApiTypes.thy ===== *)
theory ApiTypes
  imports K8sTypes
begin

text \<open>
  The custom resources of \<^verbatim>\<open>src/api/v1alpha1\<close>: one record per Go struct, in dependency
  order, with the struct's fields in the struct's order. A pointer field is an option, a
  slice a list, a \<^verbatim>\<open>map[string]string\<close> an ordered map. A status that embeds
  \<^verbatim>\<open>ComponentStatus\<close> is a record extension of it, so that the status operations are stated
  once. \<open>ic_Interfaces\<close> keeps the difference between a nil and an empty slice, since
  the renderers write the field unconditionally. The \<open>zero_\<dots>\<close> constants are Go's zero values.
\<close>

section \<open>Types\<close>

record DatabaseConfig =
  db_Type :: "string"
  db_Persist :: "bool option"
  db_Name :: "string"
  db_Host :: "string"
  db_Port :: "int32 option"
  db_CredentialsSecretRef :: "LocalObjectReference option"
  db_ConnectTimeout :: "int32 option"
  db_MaxReconnectTries :: "int32 option"
  db_ReconnectWaitTime :: "int32 option"
  db_OnFail :: "string"
  db_RetryOnStartup :: "bool option"
  db_LFCInterval :: "int32 option"
  db_MaxRowErrors :: "int32 option"
  db_ReadOnly :: "bool option"
  db_ReadTimeout :: "int32 option"
  db_WriteTimeout :: "int32 option"
  db_TCPUserTimeout :: "int32 option"

record InterfacesConfig =
  ic_Interfaces :: "string list option"
  ic_DHCPSocketType :: "string"
  ic_OutboundInterface :: "string"
  ic_ReDetect :: "bool option"
  ic_ServiceSocketsRequireAll :: "bool option"
  ic_ServiceSocketsMaxRetries :: "int32 option"
  ic_ServiceSocketsRetryWaitTime :: "int32 option"

record OptionData =
  od_Name :: "string"
  od_Code :: "int32 option"
  od_Space :: "string"
  od_CSVFormat :: "bool option"
  od_Data :: "string"
  od_AlwaysSend :: "bool option"
  od_NeverSend :: "bool option"

record OptionDef =
  odf_Name :: "string"
  odf_Code :: "int32"
  odf_Type :: "string"
  odf_Array :: "bool option"
  odf_RecordTypes :: "string"
  odf_Encapsulate :: "string"
  odf_Space :: "string"

record ClientClass =
  cc_Name :: "string"
  cc_Test :: "string"
  cc_OptionData :: "OptionData list"
  cc_OnlyIfRequired :: "bool option"
  cc_ValidLifetime :: "int32 option"
  cc_MinValidLifetime :: "int32 option"
  cc_MaxValidLifetime :: "int32 option"

record HookLibrary =
  hl_Library :: "string"
  hl_Parameters :: "JSONRaw option"

record ControlSocket =
  cs_SocketType :: "string"
  cs_SocketName :: "string"
  cs_SocketPort :: "int32 option"
  cs_SocketAddress :: "string"

record LogOutputOption =
  lo_Output :: "string"
  lo_Maxsize :: "int64 option"
  lo_Maxver :: "int32 option"
  lo_Flush :: "bool option"
  lo_Pattern :: "string"

record LoggerConfig =
  lg_Name :: "string"
  lg_Severity :: "string"
  lg_DebugLevel :: "int32 option"
  lg_OutputOptions :: "LogOutputOption list"

record Reservation =
  rs_HWAddress :: "string"
  rs_ClientID :: "string"
  rs_DUID :: "string"
  rs_CircuitID :: "string"
  rs_FlexID :: "string"
  rs_Hostname :: "string"
  rs_IPAddress :: "string"
  rs_IPAddresses :: "string list"
  rs_Prefixes :: "string list"
  rs_OptionData :: "OptionData list"
  rs_ClientClasses :: "string list"
  rs_NextServer :: "string"
  rs_BootFileName :: "string"
  rs_ServerHostname :: "string"

record RelayInfo =
  ri_IPAddresses :: "string list"

record PodPlacement =
  pp_NodeSelector :: "string strmap"
  pp_Tolerations :: "Toleration list"
  pp_Affinity :: "Affinity option"
  pp_PodAnnotations :: "string strmap"

record ContainerConfig =
  ctr_Image :: "string"
  ctr_ImagePullPolicy :: "string"
  ctr_Resources :: "ResourceRequirements"
  ctr_ImagePullSecrets :: "LocalObjectReference list"

record TLSConfig =
  tls_SecretRef :: "LocalObjectReference"
  tls_CertRequired :: "bool option"

record StorkAgentConfig =
  sa_Enabled :: "bool"
  sa_Image :: "string"
  sa_ImagePullPolicy :: "string"
  sa_Resources :: "ResourceRequirements"
  sa_ServerURL :: "string"
  sa_ServerTokenSecretRef :: "LocalObjectReference option"
  sa_StorkServerRef :: "LocalObjectReference option"
  sa_Port :: "int32 option"
  sa_PrometheusPort :: "int32 option"
  sa_Env :: "EnvVar list"

record ConditionStatus =
  cond_Type :: "string"
  cond_Status :: "string"
  cond_LastTransitionTime :: "string"
  cond_Reason :: "string"
  cond_Message :: "string"

record ComponentStatus =
  st_Conditions :: "ConditionStatus list"
  st_Phase :: "string"
  st_ObservedGeneration :: "int64"
  st_ConfigMapRef :: "string"
  st_ReadyReplicas :: "int32"
  st_ConfigHash :: "string"

record HAPeer =
  peer_Name :: "string"
  peer_URL :: "string"
  peer_Role :: "string"
  peer_Address :: "string"
  peer_AutoFailover :: "bool option"

record HAMultiThreading =
  hamt_EnableMultiThreading :: "bool option"
  hamt_HTTPClientThreads :: "int32 option"
  hamt_HTTPListenerThreads :: "int32 option"

record HAConfig =
  ha_ThisServerName :: "string"
  ha_Mode :: "string"
  ha_HeartbeatDelay :: "int32 option"
  ha_MaxResponseDelay :: "int32 option"
  ha_MaxAckDelay :: "int32 option"
  ha_MaxUnackedClients :: "int32 option"
  ha_Peers :: "HAPeer list"
  ha_TLS :: "TLSConfig option"
  ha_SendLeaseUpdates :: "bool option"
  ha_SyncLeases :: "bool option"
  ha_SyncTimeout :: "int32 option"
  ha_SyncPageLimit :: "int32 option"
  ha_DelayedUpdatesLimit :: "int32 option"
  ha_MultiThreading :: "HAMultiThreading option"

record Pool4 =
  p4_Pool :: "string"
  p4_OptionData :: "OptionData list"
  p4_ClientClass :: "string"
  p4_RequireClientClasses :: "string list"

record Subnet4 =
  s4_ID :: "int32"
  s4_Subnet :: "string"
  s4_Pools :: "Pool4 list"
  s4_OptionData :: "OptionData list"
  s4_Reservations :: "Reservation list"
  s4_ClientClass :: "string"
  s4_RequireClientClasses :: "string list"
  s4_Interface :: "string"
  s4_Relay :: "RelayInfo option"
  s4_ValidLifetime :: "int32 option"
  s4_MinValidLifetime :: "int32 option"
  s4_MaxValidLifetime :: "int32 option"
  s4_RenewTimer :: "int32 option"
  s4_RebindTimer :: "int32 option"
  s4_Authoritative :: "bool option"
  s4_ReservationMode :: "string"
  s4_MatchClientID :: "bool option"
  s4_NextServer :: "string"
  s4_BootFileName :: "string"
  s4_ServerHostname :: "string"
  s4_UserContext :: "string"

record SharedNetwork4 =
  sn4_Name :: "string"
  sn4_Subnet4 :: "Subnet4 list"
  sn4_Interface :: "string"
  sn4_OptionData :: "OptionData list"
  sn4_Relay :: "RelayInfo option"
  sn4_ClientClass :: "string"
  sn4_RequireClientClasses :: "string list"
  sn4_ValidLifetime :: "int32 option"
  sn4_MinValidLifetime :: "int32 option"
  sn4_MaxValidLifetime :: "int32 option"
  sn4_RenewTimer :: "int32 option"
  sn4_RebindTimer :: "int32 option"
  sn4_Authoritative :: "bool option"

record MultiThreadingConfig =
  mt_EnableMultiThreading :: "bool option"
  mt_ThreadPoolSize :: "int32 option"
  mt_PacketQueueSize :: "int32 option"

record KeaDhcp4ServerSpec =
  d4_Container :: "ContainerConfig"
  d4_Replicas :: "int32 option"
  d4_Placement :: "PodPlacement option"
  d4_HostNetwork :: "bool option"
  d4_InterfacesConfig :: "InterfacesConfig"
  d4_LeaseDatabase :: "DatabaseConfig option"
  d4_HostsDatabase :: "DatabaseConfig option"
  d4_HostsDatabases :: "DatabaseConfig list"
  d4_Subnet4 :: "Subnet4 list"
  d4_SharedNetworks :: "SharedNetwork4 list"
  d4_OptionData :: "OptionData list"
  d4_OptionDef :: "OptionDef list"
  d4_ClientClasses :: "ClientClass list"
  d4_Reservations :: "Reservation list"
  d4_HostReservationIdentifiers :: "string list"
  d4_HooksLibraries :: "HookLibrary list"
  d4_ControlSocket :: "ControlSocket option"
  d4_Loggers :: "LoggerConfig list"
  d4_ValidLifetime :: "int32 option"
  d4_MinValidLifetime :: "int32 option"
  d4_MaxValidLifetime :: "int32 option"
  d4_RenewTimer :: "int32 option"
  d4_RebindTimer :: "int32 option"
  d4_CalculateTeeTimes :: "bool option"
  d4_T1Percent :: "string option"
  d4_T2Percent :: "string option"
  d4_Authoritative :: "bool option"
  d4_MatchClientID :: "bool option"
  d4_ServerTag :: "string"
  d4_NextServer :: "string"
  d4_BootFileName :: "string"
  d4_ServerHostname :: "string"
  d4_DDNSSendUpdates :: "bool option"
  d4_DDNSOverrideNoUpdate :: "bool option"
  d4_DDNSOverrideClientUpdate :: "bool option"
  d4_DDNSReplaceClientName :: "string"
  d4_DDNSGeneratedPrefix :: "string"
  d4_DDNSQualifyingSuffix :: "string"
  d4_DDNSUseConflictResolution :: "bool option"
  d4_HighAvailability :: "HAConfig option"
  d4_MultiThreading :: "MultiThreadingConfig option"
  d4_Stork :: "StorkAgentConfig option"

record KeaDhcp4ServerStatus = ComponentStatus +
  d4st_NADAddresses :: "string list"

record KeaDhcp4Server =
  kd4_ObjectMeta :: "ObjectMeta"
  kd4_Spec :: "KeaDhcp4ServerSpec"
  kd4_Status :: "KeaDhcp4ServerStatus"

record Pool6 =
  p6_Pool :: "string"
  p6_OptionData :: "OptionData list"
  p6_ClientClass :: "string"
  p6_RequireClientClasses :: "string list"

record PDPool =
  pd_Prefix :: "string"
  pd_PrefixLen :: "int32"
  pd_DelegatedLen :: "int32"
  pd_ExcludedPrefix :: "string"
  pd_ExcludedPrefixLen :: "int32 option"
  pd_OptionData :: "OptionData list"
  pd_ClientClass :: "string"

record Subnet6 =
  s6_ID :: "int32"
  s6_Subnet :: "string"
  s6_Pools :: "Pool6 list"
  s6_PDPools :: "PDPool list"
  s6_OptionData :: "OptionData list"
  s6_Reservations :: "Reservation list"
  s6_ClientClass :: "string"
  s6_RequireClientClasses :: "string list"
  s6_Interface :: "string"
  s6_InterfaceID :: "string"
  s6_Relay :: "RelayInfo option"
  s6_PreferredLifetime :: "int32 option"
  s6_ValidLifetime :: "int32 option"
  s6_MinValidLifetime :: "int32 option"
  s6_MaxValidLifetime :: "int32 option"
  s6_RenewTimer :: "int32 option"
  s6_RebindTimer :: "int32 option"
  s6_RapidCommit :: "bool option"
  s6_ReservationMode :: "string"

record SharedNetwork6 =
  sn6_Name :: "string"
  sn6_Subnet6 :: "Subnet6 list"
  sn6_Interface :: "string"
  sn6_InterfaceID :: "string"
  sn6_OptionData :: "OptionData list"
  sn6_Relay :: "RelayInfo option"
  sn6_ClientClass :: "string"
  sn6_PreferredLifetime :: "int32 option"
  sn6_ValidLifetime :: "int32 option"
  sn6_RenewTimer :: "int32 option"
  sn6_RebindTimer :: "int32 option"
  sn6_RapidCommit :: "bool option"

record KeaDhcp6ServerSpec =
  d6_Container :: "ContainerConfig"
  d6_Replicas :: "int32 option"
  d6_Placement :: "PodPlacement option"
  d6_HostNetwork :: "bool option"
  d6_InterfacesConfig :: "InterfacesConfig"
  d6_LeaseDatabase :: "DatabaseConfig option"
  d6_HostsDatabase :: "DatabaseConfig option"
  d6_HostsDatabases :: "DatabaseConfig list"
  d6_Subnet6 :: "Subnet6 list"
  d6_SharedNetworks :: "SharedNetwork6 list"
  d6_OptionData :: "OptionData list"
  d6_OptionDef :: "OptionDef list"
  d6_ClientClasses :: "ClientClass list"
  d6_Reservations :: "Reservation list"
  d6_HostReservationIdentifiers :: "string list"
  d6_HooksLibraries :: "HookLibrary list"
  d6_ControlSocket :: "ControlSocket option"
  d6_Loggers :: "LoggerConfig list"
  d6_PreferredLifetime :: "int32 option"
  d6_ValidLifetime :: "int32 option"
  d6_MinValidLifetime :: "int32 option"
  d6_MaxValidLifetime :: "int32 option"
  d6_RenewTimer :: "int32 option"
  d6_RebindTimer :: "int32 option"
  d6_CalculateTeeTimes :: "bool option"
  d6_T1Percent :: "string option"
  d6_T2Percent :: "string option"
  d6_ServerTag :: "string"
  d6_RapidCommit :: "bool option"
  d6_DDNSSendUpdates :: "bool option"
  d6_DDNSQualifyingSuffix :: "string"
  d6_HighAvailability :: "HAConfig option"
  d6_MultiThreading :: "MultiThreadingConfig option"
  d6_Stork :: "StorkAgentConfig option"

type_synonym KeaDhcp6ServerStatus = ComponentStatus

record KeaDhcp6Server =
  kd6_ObjectMeta :: "ObjectMeta"
  kd6_Spec :: "KeaDhcp6ServerSpec"
  kd6_Status :: "KeaDhcp6ServerStatus"

record AgentControlSockets =
  acs_Dhcp4 :: "ControlSocket option"
  acs_Dhcp6 :: "ControlSocket option"
  acs_D2 :: "ControlSocket option"

record AuthClient =
  ac_User :: "string"
  ac_PasswordSecretKeyRef :: "SecretKeySelector option"

record AuthConfig =
  auth_Type :: "string"
  auth_Realm :: "string"
  auth_Clients :: "AuthClient list"
  auth_CredentialsSecretRef :: "LocalObjectReference option"

record KeaControlAgentSpec =
  ca_Container :: "ContainerConfig"
  ca_Replicas :: "int32 option"
  ca_Placement :: "PodPlacement option"
  ca_HTTPHost :: "string"
  ca_HTTPPort :: "int32 option"
  ca_TLS :: "TLSConfig option"
  ca_ControlSockets :: "AgentControlSockets option"
  ca_Authentication :: "AuthConfig option"
  ca_HooksLibraries :: "HookLibrary list"
  ca_Loggers :: "LoggerConfig list"

type_synonym KeaControlAgentStatus = ComponentStatus

record KeaControlAgent =
  kca_ObjectMeta :: "ObjectMeta"
  kca_Spec :: "KeaControlAgentSpec"
  kca_Status :: "KeaControlAgentStatus"

record TSIGKey =
  tk_Name :: "string"
  tk_Algorithm :: "string"
  tk_DigestBits :: "int32 option"
  tk_SecretRef :: "SecretKeySelector option"

record DNSServer =
  dns_IPAddress :: "string"
  dns_Port :: "int32 option"

record DDNSDomain =
  ddom_Name :: "string"
  ddom_KeyName :: "string"
  ddom_DNSServers :: "DNSServer list"

record DDNSConfig =
  ddc_DDNSDomains :: "DDNSDomain list"

record KeaDhcpDdnsSpec =
  dd_Container :: "ContainerConfig"
  dd_Replicas :: "int32 option"
  dd_Placement :: "PodPlacement option"
  dd_IPAddress :: "string"
  dd_Port :: "int32 option"
  dd_DNSServerTimeout :: "int32 option"
  dd_NCRProtocol :: "string"
  dd_NCRFormat :: "string"
  dd_TSIGKeys :: "TSIGKey list"
  dd_ForwardDDNS :: "DDNSConfig option"
  dd_ReverseDDNS :: "DDNSConfig option"
  dd_ControlSocket :: "ControlSocket option"
  dd_HooksLibraries :: "HookLibrary list"
  dd_Loggers :: "LoggerConfig list"

type_synonym KeaDhcpDdnsStatus = ComponentStatus

record KeaDhcpDdns =
  kdd_ObjectMeta :: "ObjectMeta"
  kdd_Spec :: "KeaDhcpDdnsSpec"
  kdd_Status :: "KeaDhcpDdnsStatus"

record StorkServerDatabase =
  sdb_Host :: "string"
  sdb_Port :: "int32 option"
  sdb_Name :: "string"
  sdb_CredentialsSecretRef :: "LocalObjectReference"
  sdb_SSLMode :: "string"

record KeaStorkServerSpec =
  ss_Container :: "ContainerConfig"
  ss_Replicas :: "int32 option"
  ss_Database :: "StorkServerDatabase"
  ss_Port :: "int32 option"
  ss_EnableMetrics :: "bool option"
  ss_Placement :: "PodPlacement option"

record KeaStorkServerStatus = ComponentStatus +
  ssst_URL :: "string"
  ssst_AdminSecretName :: "string"
  ssst_ServerTokenSecretName :: "string"

record KeaStorkServer =
  kss_ObjectMeta :: "ObjectMeta"
  kss_Spec :: "KeaStorkServerSpec"
  kss_Status :: "KeaStorkServerStatus"

record KeaServerSpec =
  ks_Dhcp4 :: "KeaDhcp4ServerSpec option"
  ks_Dhcp6 :: "KeaDhcp6ServerSpec option"
  ks_ControlAgent :: "KeaControlAgentSpec option"
  ks_DhcpDdns :: "KeaDhcpDdnsSpec option"
  ks_StorkServer :: "KeaStorkServerSpec option"

record KeaServerStatus =
  ksst_Conditions :: "ConditionStatus list"
  ksst_ObservedGeneration :: "int64"
  ksst_Phase :: "string"
  ksst_Dhcp4Ready :: "bool"
  ksst_Dhcp6Ready :: "bool"
  ksst_ControlAgentReady :: "bool"
  ksst_DhcpDdnsReady :: "bool"
  ksst_StorkServerReady :: "bool"

record KeaServer =
  ksv_ObjectMeta :: "ObjectMeta"
  ksv_Spec :: "KeaServerSpec"
  ksv_Status :: "KeaServerStatus"

text \<open>Condition types, condition status values and phases (\<^verbatim>\<open>common_types.go\<close>).\<close>

definition ConditionTypeReady :: string where "ConditionTypeReady = ''Ready''"
definition ConditionTypeConfigValid :: string where "ConditionTypeConfigValid = ''ConfigurationValid''"
definition ConditionTypeProgressing :: string where "ConditionTypeProgressing = ''Progressing''"
definition ConditionStatusTrue :: string where "ConditionStatusTrue = ''True''"
definition PhaseRunning :: string where "PhaseRunning = ''Running''"
definition PhaseProgressing :: string where "PhaseProgressing = ''Progressing''"
definition PhaseError :: string where "PhaseError = ''Error''"

lemmas condition_defs = ConditionTypeReady_def ConditionTypeConfigValid_def
  ConditionTypeProgressing_def ConditionStatusTrue_def
lemmas phase_defs = PhaseRunning_def PhaseProgressing_def PhaseError_def

section \<open>Zero values\<close>

definition zero_DatabaseConfig :: DatabaseConfig where
  "zero_DatabaseConfig = \<lparr>db_Type = '''',
     db_Persist = None,
     db_Name = '''',
     db_Host = '''',
     db_Port = None,
     db_CredentialsSecretRef = None,
     db_ConnectTimeout = None,
     db_MaxReconnectTries = None,
     db_ReconnectWaitTime = None,
     db_OnFail = '''',
     db_RetryOnStartup = None,
     db_LFCInterval = None,
     db_MaxRowErrors = None,
     db_ReadOnly = None,
     db_ReadTimeout = None,
     db_WriteTimeout = None,
     db_TCPUserTimeout = None\<rparr>"

definition zero_InterfacesConfig :: InterfacesConfig where
  "zero_InterfacesConfig = \<lparr>ic_Interfaces = None,
     ic_DHCPSocketType = '''',
     ic_OutboundInterface = '''',
     ic_ReDetect = None,
     ic_ServiceSocketsRequireAll = None,
     ic_ServiceSocketsMaxRetries = None,
     ic_ServiceSocketsRetryWaitTime = None\<rparr>"

definition zero_OptionData :: OptionData where
  "zero_OptionData = \<lparr>od_Name = '''',
     od_Code = None,
     od_Space = '''',
     od_CSVFormat = None,
     od_Data = '''',
     od_AlwaysSend = None,
     od_NeverSend = None\<rparr>"

definition zero_OptionDef :: OptionDef where
  "zero_OptionDef = \<lparr>odf_Name = '''',
     odf_Code = 0,
     odf_Type = '''',
     odf_Array = None,
     odf_RecordTypes = '''',
     odf_Encapsulate = '''',
     odf_Space = ''''\<rparr>"

definition zero_ClientClass :: ClientClass where
  "zero_ClientClass = \<lparr>cc_Name = '''',
     cc_Test = '''',
     cc_OptionData = [],
     cc_OnlyIfRequired = None,
     cc_ValidLifetime = None,
     cc_MinValidLifetime = None,
     cc_MaxValidLifetime = None\<rparr>"

definition zero_HookLibrary :: HookLibrary where
  "zero_HookLibrary = \<lparr>hl_Library = '''',
     hl_Parameters = None\<rparr>"

definition zero_ControlSocket :: ControlSocket where
  "zero_ControlSocket = \<lparr>cs_SocketType = '''',
     cs_SocketName = '''',
     cs_SocketPort = None,
     cs_SocketAddress = ''''\<rparr>"

definition zero_LogOutputOption :: LogOutputOption where
  "zero_LogOutputOption = \<lparr>lo_Output = '''',
     lo_Maxsize = None,
     lo_Maxver = None,
     lo_Flush = None,
     lo_Pattern = ''''\<rparr>"

definition zero_LoggerConfig :: LoggerConfig where
  "zero_LoggerConfig = \<lparr>lg_Name = '''',
     lg_Severity = '''',
     lg_DebugLevel = None,
     lg_OutputOptions = []\<rparr>"

definition zero_Reservation :: Reservation where
  "zero_Reservation = \<lparr>rs_HWAddress = '''',
     rs_ClientID = '''',
     rs_DUID = '''',
     rs_CircuitID = '''',
     rs_FlexID = '''',
     rs_Hostname = '''',
     rs_IPAddress = '''',
     rs_IPAddresses = [],
     rs_Prefixes = [],
     rs_OptionData = [],
     rs_ClientClasses = [],
     rs_NextServer = '''',
     rs_BootFileName = '''',
     rs_ServerHostname = ''''\<rparr>"

definition zero_RelayInfo :: RelayInfo where
  "zero_RelayInfo = \<lparr>ri_IPAddresses = []\<rparr>"

definition zero_PodPlacement :: PodPlacement where
  "zero_PodPlacement = \<lparr>pp_NodeSelector = [],
     pp_Tolerations = [],
     pp_Affinity = None,
     pp_PodAnnotations = []\<rparr>"

definition zero_ContainerConfig :: ContainerConfig where
  "zero_ContainerConfig = \<lparr>ctr_Image = '''',
     ctr_ImagePullPolicy = '''',
     ctr_Resources = JNull,
     ctr_ImagePullSecrets = []\<rparr>"

definition zero_TLSConfig :: TLSConfig where
  "zero_TLSConfig = \<lparr>tls_SecretRef = zero_LocalObjectReference,
     tls_CertRequired = None\<rparr>"

definition zero_StorkAgentConfig :: StorkAgentConfig where
  "zero_StorkAgentConfig = \<lparr>sa_Enabled = False,
     sa_Image = '''',
     sa_ImagePullPolicy = '''',
     sa_Resources = JNull,
     sa_ServerURL = '''',
     sa_ServerTokenSecretRef = None,
     sa_StorkServerRef = None,
     sa_Port = None,
     sa_PrometheusPort = None,
     sa_Env = []\<rparr>"

definition zero_ConditionStatus :: ConditionStatus where
  "zero_ConditionStatus = \<lparr>cond_Type = '''',
     cond_Status = '''',
     cond_LastTransitionTime = '''',
     cond_Reason = '''',
     cond_Message = ''''\<rparr>"

definition zero_ComponentStatus :: ComponentStatus where
  "zero_ComponentStatus = \<lparr>st_Conditions = [],
     st_Phase = '''',
     st_ObservedGeneration = 0,
     st_ConfigMapRef = '''',
     st_ReadyReplicas = 0,
     st_ConfigHash = ''''\<rparr>"

definition zero_HAPeer :: HAPeer where
  "zero_HAPeer = \<lparr>peer_Name = '''',
     peer_URL = '''',
     peer_Role = '''',
     peer_Address = '''',
     peer_AutoFailover = None\<rparr>"

definition zero_HAMultiThreading :: HAMultiThreading where
  "zero_HAMultiThreading = \<lparr>hamt_EnableMultiThreading = None,
     hamt_HTTPClientThreads = None,
     hamt_HTTPListenerThreads = None\<rparr>"

definition zero_HAConfig :: HAConfig where
  "zero_HAConfig = \<lparr>ha_ThisServerName = '''',
     ha_Mode = '''',
     ha_HeartbeatDelay = None,
     ha_MaxResponseDelay = None,
     ha_MaxAckDelay = None,
     ha_MaxUnackedClients = None,
     ha_Peers = [],
     ha_TLS = None,
     ha_SendLeaseUpdates = None,
     ha_SyncLeases = None,
     ha_SyncTimeout = None,
     ha_SyncPageLimit = None,
     ha_DelayedUpdatesLimit = None,
     ha_MultiThreading = None\<rparr>"

definition zero_Pool4 :: Pool4 where
  "zero_Pool4 = \<lparr>p4_Pool = '''',
     p4_OptionData = [],
     p4_ClientClass = '''',
     p4_RequireClientClasses = []\<rparr>"

definition zero_Subnet4 :: Subnet4 where
  "zero_Subnet4 = \<lparr>s4_ID = 0,
     s4_Subnet = '''',
     s4_Pools = [],
     s4_OptionData = [],
     s4_Reservations = [],
     s4_ClientClass = '''',
     s4_RequireClientClasses = [],
     s4_Interface = '''',
     s4_Relay = None,
     s4_ValidLifetime = None,
     s4_MinValidLifetime = None,
     s4_MaxValidLifetime = None,
     s4_RenewTimer = None,
     s4_RebindTimer = None,
     s4_Authoritative = None,
     s4_ReservationMode = '''',
     s4_MatchClientID = None,
     s4_NextServer = '''',
     s4_BootFileName = '''',
     s4_ServerHostname = '''',
     s4_UserContext = ''''\<rparr>"

definition zero_SharedNetwork4 :: SharedNetwork4 where
  "zero_SharedNetwork4 = \<lparr>sn4_Name = '''',
     sn4_Subnet4 = [],
     sn4_Interface = '''',
     sn4_OptionData = [],
     sn4_Relay = None,
     sn4_ClientClass = '''',
     sn4_RequireClientClasses = [],
     sn4_ValidLifetime = None,
     sn4_MinValidLifetime = None,
     sn4_MaxValidLifetime = None,
     sn4_RenewTimer = None,
     sn4_RebindTimer = None,
     sn4_Authoritative = None\<rparr>"

definition zero_MultiThreadingConfig :: MultiThreadingConfig where
  "zero_MultiThreadingConfig = \<lparr>mt_EnableMultiThreading = None,
     mt_ThreadPoolSize = None,
     mt_PacketQueueSize = None\<rparr>"

definition zero_KeaDhcp4ServerSpec :: KeaDhcp4ServerSpec where
  "zero_KeaDhcp4ServerSpec = \<lparr>d4_Container = zero_ContainerConfig,
     d4_Replicas = None,
     d4_Placement = None,
     d4_HostNetwork = None,
     d4_InterfacesConfig = zero_InterfacesConfig,
     d4_LeaseDatabase = None,
     d4_HostsDatabase = None,
     d4_HostsDatabases = [],
     d4_Subnet4 = [],
     d4_SharedNetworks = [],
     d4_OptionData = [],
     d4_OptionDef = [],
     d4_ClientClasses = [],
     d4_Reservations = [],
     d4_HostReservationIdentifiers = [],
     d4_HooksLibraries = [],
     d4_ControlSocket = None,
     d4_Loggers = [],
     d4_ValidLifetime = None,
     d4_MinValidLifetime = None,
     d4_MaxValidLifetime = None,
     d4_RenewTimer = None,
     d4_RebindTimer = None,
     d4_CalculateTeeTimes = None,
     d4_T1Percent = None,
     d4_T2Percent = None,
     d4_Authoritative = None,
     d4_MatchClientID = None,
     d4_ServerTag = '''',
     d4_NextServer = '''',
     d4_BootFileName = '''',
     d4_ServerHostname = '''',
     d4_DDNSSendUpdates = None,
     d4_DDNSOverrideNoUpdate = None,
     d4_DDNSOverrideClientUpdate = None,
     d4_DDNSReplaceClientName = '''',
     d4_DDNSGeneratedPrefix = '''',
     d4_DDNSQualifyingSuffix = '''',
     d4_DDNSUseConflictResolution = None,
     d4_HighAvailability = None,
     d4_MultiThreading = None,
     d4_Stork = None\<rparr>"

definition zero_KeaDhcp4ServerStatus :: KeaDhcp4ServerStatus where
  "zero_KeaDhcp4ServerStatus = \<lparr>st_Conditions = [],
     st_Phase = '''',
     st_ObservedGeneration = 0,
     st_ConfigMapRef = '''',
     st_ReadyReplicas = 0,
     st_ConfigHash = '''',
     d4st_NADAddresses = []\<rparr>"

definition zero_KeaDhcp4Server :: KeaDhcp4Server where
  "zero_KeaDhcp4Server = \<lparr>kd4_ObjectMeta = zero_ObjectMeta,
     kd4_Spec = zero_KeaDhcp4ServerSpec,
     kd4_Status = zero_KeaDhcp4ServerStatus\<rparr>"

definition zero_Pool6 :: Pool6 where
  "zero_Pool6 = \<lparr>p6_Pool = '''',
     p6_OptionData = [],
     p6_ClientClass = '''',
     p6_RequireClientClasses = []\<rparr>"

definition zero_PDPool :: PDPool where
  "zero_PDPool = \<lparr>pd_Prefix = '''',
     pd_PrefixLen = 0,
     pd_DelegatedLen = 0,
     pd_ExcludedPrefix = '''',
     pd_ExcludedPrefixLen = None,
     pd_OptionData = [],
     pd_ClientClass = ''''\<rparr>"

definition zero_Subnet6 :: Subnet6 where
  "zero_Subnet6 = \<lparr>s6_ID = 0,
     s6_Subnet = '''',
     s6_Pools = [],
     s6_PDPools = [],
     s6_OptionData = [],
     s6_Reservations = [],
     s6_ClientClass = '''',
     s6_RequireClientClasses = [],
     s6_Interface = '''',
     s6_InterfaceID = '''',
     s6_Relay = None,
     s6_PreferredLifetime = None,
     s6_ValidLifetime = None,
     s6_MinValidLifetime = None,
     s6_MaxValidLifetime = None,
     s6_RenewTimer = None,
     s6_RebindTimer = None,
     s6_RapidCommit = None,
     s6_ReservationMode = ''''\<rparr>"

definition zero_SharedNetwork6 :: SharedNetwork6 where
  "zero_SharedNetwork6 = \<lparr>sn6_Name = '''',
     sn6_Subnet6 = [],
     sn6_Interface = '''',
     sn6_InterfaceID = '''',
     sn6_OptionData = [],
     sn6_Relay = None,
     sn6_ClientClass = '''',
     sn6_PreferredLifetime = None,
     sn6_ValidLifetime = None,
     sn6_RenewTimer = None,
     sn6_RebindTimer = None,
     sn6_RapidCommit = None\<rparr>"

definition zero_KeaDhcp6ServerSpec :: KeaDhcp6ServerSpec where
  "zero_KeaDhcp6ServerSpec = \<lparr>d6_Container = zero_ContainerConfig,
     d6_Replicas = None,
     d6_Placement = None,
     d6_HostNetwork = None,
     d6_InterfacesConfig = zero_InterfacesConfig,
     d6_LeaseDatabase = None,
     d6_HostsDatabase = None,
     d6_HostsDatabases = [],
     d6_Subnet6 = [],
     d6_SharedNetworks = [],
     d6_OptionData = [],
     d6_OptionDef = [],
     d6_ClientClasses = [],
     d6_Reservations = [],
     d6_HostReservationIdentifiers = [],
     d6_HooksLibraries = [],
     d6_ControlSocket = None,
     d6_Loggers = [],
     d6_PreferredLifetime = None,
     d6_ValidLifetime = None,
     d6_MinValidLifetime = None,
     d6_MaxValidLifetime = None,
     d6_RenewTimer = None,
     d6_RebindTimer = None,
     d6_CalculateTeeTimes = None,
     d6_T1Percent = None,
     d6_T2Percent = None,
     d6_ServerTag = '''',
     d6_RapidCommit = None,
     d6_DDNSSendUpdates = None,
     d6_DDNSQualifyingSuffix = '''',
     d6_HighAvailability = None,
     d6_MultiThreading = None,
     d6_Stork = None\<rparr>"

definition zero_KeaDhcp6Server :: KeaDhcp6Server where
  "zero_KeaDhcp6Server = \<lparr>kd6_ObjectMeta = zero_ObjectMeta,
     kd6_Spec = zero_KeaDhcp6ServerSpec,
     kd6_Status = zero_ComponentStatus\<rparr>"

definition zero_AgentControlSockets :: AgentControlSockets where
  "zero_AgentControlSockets = \<lparr>acs_Dhcp4 = None,
     acs_Dhcp6 = None,
     acs_D2 = None\<rparr>"

definition zero_AuthClient :: AuthClient where
  "zero_AuthClient = \<lparr>ac_User = '''',
     ac_PasswordSecretKeyRef = None\<rparr>"

definition zero_AuthConfig :: AuthConfig where
  "zero_AuthConfig = \<lparr>auth_Type = '''',
     auth_Realm = '''',
     auth_Clients = [],
     auth_CredentialsSecretRef = None\<rparr>"

definition zero_KeaControlAgentSpec :: KeaControlAgentSpec where
  "zero_KeaControlAgentSpec = \<lparr>ca_Container = zero_ContainerConfig,
     ca_Replicas = None,
     ca_Placement = None,
     ca_HTTPHost = '''',
     ca_HTTPPort = None,
     ca_TLS = None,
     ca_ControlSockets = None,
     ca_Authentication = None,
     ca_HooksLibraries = [],
     ca_Loggers = []\<rparr>"

definition zero_KeaControlAgent :: KeaControlAgent where
  "zero_KeaControlAgent = \<lparr>kca_ObjectMeta = zero_ObjectMeta,
     kca_Spec = zero_KeaControlAgentSpec,
     kca_Status = zero_ComponentStatus\<rparr>"

definition zero_TSIGKey :: TSIGKey where
  "zero_TSIGKey = \<lparr>tk_Name = '''',
     tk_Algorithm = '''',
     tk_DigestBits = None,
     tk_SecretRef = None\<rparr>"

definition zero_DNSServer :: DNSServer where
  "zero_DNSServer = \<lparr>dns_IPAddress = '''',
     dns_Port = None\<rparr>"

definition zero_DDNSDomain :: DDNSDomain where
  "zero_DDNSDomain = \<lparr>ddom_Name = '''',
     ddom_KeyName = '''',
     ddom_DNSServers = []\<rparr>"

definition zero_DDNSConfig :: DDNSConfig where
  "zero_DDNSConfig = \<lparr>ddc_DDNSDomains = []\<rparr>"

definition zero_KeaDhcpDdnsSpec :: KeaDhcpDdnsSpec where
  "zero_KeaDhcpDdnsSpec = \<lparr>dd_Container = zero_ContainerConfig,
     dd_Replicas = None,
     dd_Placement = None,
     dd_IPAddress = '''',
     dd_Port = None,
     dd_DNSServerTimeout = None,
     dd_NCRProtocol = '''',
     dd_NCRFormat = '''',
     dd_TSIGKeys = [],
     dd_ForwardDDNS = None,
     dd_ReverseDDNS = None,
     dd_ControlSocket = None,
     dd_HooksLibraries = [],
     dd_Loggers = []\<rparr>"

definition zero_KeaDhcpDdns :: KeaDhcpDdns where
  "zero_KeaDhcpDdns = \<lparr>kdd_ObjectMeta = zero_ObjectMeta,
     kdd_Spec = zero_KeaDhcpDdnsSpec,
     kdd_Status = zero_ComponentStatus\<rparr>"

definition zero_StorkServerDatabase :: StorkServerDatabase where
  "zero_StorkServerDatabase = \<lparr>sdb_Host = '''',
     sdb_Port = None,
     sdb_Name = '''',
     sdb_CredentialsSecretRef = zero_LocalObjectReference,
     sdb_SSLMode = ''''\<rparr>"

definition zero_KeaStorkServerSpec :: KeaStorkServerSpec where
  "zero_KeaStorkServerSpec = \<lparr>ss_Container = zero_ContainerConfig,
     ss_Replicas = None,
     ss_Database = zero_StorkServerDatabase,
     ss_Port = None,
     ss_EnableMetrics = None,
     ss_Placement = None\<rparr>"

definition zero_KeaStorkServerStatus :: KeaStorkServerStatus where
  "zero_KeaStorkServerStatus = \<lparr>st_Conditions = [],
     st_Phase = '''',
     st_ObservedGeneration = 0,
     st_ConfigMapRef = '''',
     st_ReadyReplicas = 0,
     st_ConfigHash = '''',
     ssst_URL = '''',
     ssst_AdminSecretName = '''',
     ssst_ServerTokenSecretName = ''''\<rparr>"

definition zero_KeaStorkServer :: KeaStorkServer where
  "zero_KeaStorkServer = \<lparr>kss_ObjectMeta = zero_ObjectMeta,
     kss_Spec = zero_KeaStorkServerSpec,
     kss_Status = zero_KeaStorkServerStatus\<rparr>"

definition zero_KeaServerSpec :: KeaServerSpec where
  "zero_KeaServerSpec = \<lparr>ks_Dhcp4 = None,
     ks_Dhcp6 = None,
     ks_ControlAgent = None,
     ks_DhcpDdns = None,
     ks_StorkServer = None\<rparr>"

definition zero_KeaServerStatus :: KeaServerStatus where
  "zero_KeaServerStatus = \<lparr>ksst_Conditions = [],
     ksst_ObservedGeneration = 0,
     ksst_Phase = '''',
     ksst_Dhcp4Ready = False,
     ksst_Dhcp6Ready = False,
     ksst_ControlAgentReady = False,
     ksst_DhcpDdnsReady = False,
     ksst_StorkServerReady = False\<rparr>"

definition zero_KeaServer :: KeaServer where
  "zero_KeaServer = \<lparr>ksv_ObjectMeta = zero_ObjectMeta,
     ksv_Spec = zero_KeaServerSpec,
     ksv_Status = zero_KeaServerStatus\<rparr>"

lemmas zero_defs =
  zero_DatabaseConfig_def zero_InterfacesConfig_def zero_OptionData_def zero_OptionDef_def zero_ClientClass_def zero_HookLibrary_def zero_ControlSocket_def zero_LogOutputOption_def zero_LoggerConfig_def zero_Reservation_def zero_RelayInfo_def zero_PodPlacement_def zero_ContainerConfig_def zero_TLSConfig_def zero_StorkAgentConfig_def zero_ConditionStatus_def zero_ComponentStatus_def zero_HAPeer_def zero_HAMultiThreading_def zero_HAConfig_def zero_Pool4_def zero_Subnet4_def zero_SharedNetwork4_def zero_MultiThreadingConfig_def zero_KeaDhcp4ServerSpec_def zero_KeaDhcp4ServerStatus_def zero_KeaDhcp4Server_def zero_Pool6_def zero_PDPool_def zero_Subnet6_def zero_SharedNetwork6_def zero_KeaDhcp6ServerSpec_def zero_KeaDhcp6Server_def zero_AgentControlSockets_def zero_AuthClient_def zero_AuthConfig_def zero_KeaControlAgentSpec_def zero_KeaControlAgent_def zero_TSIGKey_def zero_DNSServer_def zero_DDNSDomain_def zero_DDNSConfig_def zero_KeaDhcpDdnsSpec_def zero_KeaDhcpDdns_def zero_StorkServerDatabase_def zero_KeaStorkServerSpec_def zero_KeaStorkServerStatus_def zero_KeaStorkServer_def zero_KeaServerSpec_def zero_KeaServerStatus_def zero_KeaServer_def

end
