(* ===== verification/Names.thy ===== *)
theory Names
  imports ApiTypes
begin

text \<open>
  Naming and labelling of the managed objects (\<^verbatim>\<open>src/internal/resources/names.go\<close>, and the
  name functions of \<^verbatim>\<open>statefulset.go\<close>, \<^verbatim>\<open>podmonitor.go\<close>, \<^verbatim>\<open>route.go\<close>) and the small builders
  \<^verbatim>\<open>configmap.go\<close>, \<^verbatim>\<open>serviceaccount.go\<close>, \<^verbatim>\<open>podmonitor.go\<close>, \<^verbatim>\<open>route.go\<close>. The facts of interest are
  that names of different roles never clash and that label selectors separate the resources.
\<close>

section \<open>names.go\<close>

definition LabelApp :: string where "LabelApp = ''app.kubernetes.io/name''"
definition LabelInstance :: string where "LabelInstance = ''app.kubernetes.io/instance''"
definition LabelComponent :: string where "LabelComponent = ''app.kubernetes.io/component''"
definition LabelManagedBy :: string where "LabelManagedBy = ''app.kubernetes.io/managed-by''"
definition LabelPartOf :: string where "LabelPartOf = ''app.kubernetes.io/part-of''"
definition ManagedByValue :: string where "ManagedByValue = ''kea-operator''"
definition PartOfValue :: string where "PartOfValue = ''kea-dhcp''"

definition ComponentDhcp4 :: string where "ComponentDhcp4 = ''dhcp4''"
definition ComponentDhcp6 :: string where "ComponentDhcp6 = ''dhcp6''"
definition ComponentCtrlAgent :: string where "ComponentCtrlAgent = ''ctrl-agent''"
definition ComponentDdns :: string where "ComponentDdns = ''ddns''"
definition StorkServerComponent :: string where "StorkServerComponent = ''stork-server''"

definition capabilityAll :: string where "capabilityAll = ''ALL''"
definition kindRoute :: string where "kindRoute = ''Route''"
definition portNameStorkProm :: string where "portNameStorkProm = ''stork-prom''"
definition portNameHTTP :: string where "portNameHTTP = ''http''"
definition valueTrue :: string where "valueTrue = ''true''"

lemmas label_keys [name_defs] =
  LabelApp_def LabelInstance_def LabelComponent_def LabelManagedBy_def LabelPartOf_def

lemmas component_names [name_defs] =
  ComponentDhcp4_def ComponentDhcp6_def ComponentCtrlAgent_def ComponentDdns_def StorkServerComponent_def

definition ConfigMapName :: "string \<Rightarrow> string \<Rightarrow> string" where
  "ConfigMapName crName component = crName @ ''-'' @ component"

definition DeploymentName :: "string \<Rightarrow> string \<Rightarrow> string" where
  "DeploymentName crName component = crName @ ''-'' @ component"

definition ServiceName :: "string \<Rightarrow> string \<Rightarrow> string" where
  "ServiceName crName component = crName @ ''-'' @ component"

text \<open>Go's \<^verbatim>\<open>int\<close> ordinals are integers here; every caller passes an index of a slice.\<close>

definition PerPodServiceName :: "string \<Rightarrow> string \<Rightarrow> int \<Rightarrow> string" where
  "PerPodServiceName crName component ordinal = crName @ ''-'' @ component @ ''-'' @ dec_int ordinal"

definition ServiceAccountName :: "string \<Rightarrow> string" where
  "ServiceAccountName crName = crName @ ''-kea''"

definition StorkMetricsServiceName :: "string \<Rightarrow> string \<Rightarrow> string" where
  "StorkMetricsServiceName crName component = crName @ ''-'' @ component @ ''-stork''"

definition StorkAdminSecretName :: "string \<Rightarrow> string" where
  "StorkAdminSecretName crName = crName @ ''-stork-admin''"

definition StorkServerTokenSecretName :: "string \<Rightarrow> string" where
  "StorkServerTokenSecretName crName = crName @ ''-stork-server-token''"

definition CommonLabels :: "string \<Rightarrow> string \<Rightarrow> labels" where
  "CommonLabels crName component =
     map_lit [(LabelApp, ''kea''), (LabelInstance, crName), (LabelComponent, component),
              (LabelManagedBy, ManagedByValue), (LabelPartOf, PartOfValue)]"

section \<open>Names declared beside the builders\<close>

definition StatefulSetName :: "string \<Rightarrow> string \<Rightarrow> string" where
  "StatefulSetName crName component = crName @ ''-'' @ component"

definition HeadlessServiceName :: "string \<Rightarrow> string \<Rightarrow> string" where
  "HeadlessServiceName crName component = crName @ ''-'' @ component @ ''-hl''"

definition HAConfigMapName :: "string \<Rightarrow> string \<Rightarrow> int \<Rightarrow> string" where
  "HAConfigMapName crName component ordinal = crName @ ''-'' @ component @ ''-'' @ dec_int ordinal"

definition PodMonitorName :: "string \<Rightarrow> string \<Rightarrow> string" where
  "PodMonitorName crName component = crName @ ''-'' @ component"

definition StorkRouteName :: "string \<Rightarrow> string \<Rightarrow> string" where
  "StorkRouteName crName component = StorkMetricsServiceName crName component"

section \<open>configmap.go, serviceaccount.go, podmonitor.go, route.go\<close>

definition componentConfigFile :: "string strmap" where
  "componentConfigFile =
     map_lit [(ComponentDhcp4, ''kea-dhcp4.conf''), (ComponentDhcp6, ''kea-dhcp6.conf''),
              (ComponentCtrlAgent, ''kea-ctrl-agent.conf''), (ComponentDdns, ''kea-dhcp-ddns.conf'')]"

definition ConfigFileName :: "string \<Rightarrow> string" where
  "ConfigFileName component =
     (case map_get componentConfigFile component of
        Some name \<Rightarrow> name
      | None \<Rightarrow> ''kea-'' @ component @ ''.conf'')"

definition object_meta :: "string \<Rightarrow> string \<Rightarrow> labels \<Rightarrow> ObjectMeta" where
  "object_meta name namespace lbls =
     zero_ObjectMeta\<lparr>om_Name := name, om_Namespace := namespace, om_Labels := lbls\<rparr>"

definition ConfigMapMeta :: "string \<Rightarrow> string \<Rightarrow> labels \<Rightarrow> ObjectMeta" where
  "ConfigMapMeta name namespace lbls = object_meta name namespace lbls"

definition BuildConfigMap :: "string \<Rightarrow> string \<Rightarrow> string \<Rightarrow> string \<Rightarrow> labels \<Rightarrow> ConfigMap" where
  "BuildConfigMap namespace crName component configJSON lbls =
     (let filename = ConfigFileName component
      in \<lparr>cm_Meta = object_meta (ConfigMapName crName component) namespace lbls,
          cm_Data = map_lit [(filename, configJSON)]\<rparr>)"

definition BuildServiceAccount :: "string \<Rightarrow> string \<Rightarrow> labels \<Rightarrow> ServiceAccount" where
  "BuildServiceAccount namespace crName lbls =
     \<lparr>sacc_Meta = object_meta (ServiceAccountName crName) namespace lbls\<rparr>"

definition BuildPodMonitor :: "string \<Rightarrow> string \<Rightarrow> string \<Rightarrow> PodMonitor" where
  "BuildPodMonitor namespace crName component =
     (let lbls = CommonLabels crName component
      in \<lparr>pm_Meta = object_meta (PodMonitorName crName component) namespace lbls,
          pm_Spec = \<lparr>pms_Selector = lbls,
            pms_Endpoints = [\<lparr>pme_Port = Some ''stork-prom'', pme_Path = ''/metrics'', pme_Interval = ''30s''\<rparr>]\<rparr>\<rparr>)"

text \<open>A Route is unstructured: a JSON object.\<close>

record StorkRouteParams =
  srp_Namespace :: string
  srp_CRName :: string
  srp_Component :: string
  srp_PrometheusPort :: int32

definition route_object :: "string \<Rightarrow> string \<Rightarrow> labels \<Rightarrow> string \<Rightarrow> string \<Rightarrow> json" where
  "route_object routeName namespace lbls svcName targetPort =
     JObj (map_lit
       [(''apiVersion'', JStr ''route.openshift.io/v1''),
        (''kind'', JStr kindRoute),
        (''metadata'', JObj (map_lit
           [(''name'', JStr routeName), (''namespace'', JStr namespace),
            (''labels'', JObj (map (\<lambda>(k, v). (k, JStr v)) lbls))])),
        (''spec'', JObj (map_lit
           [(''to'', JObj (map_lit [(''kind'', JStr ''Service''), (''name'', JStr svcName)])),
            (''port'', JObj (map_lit [(''targetPort'', JStr targetPort)])),
            (''tls'', JObj (map_lit [(''termination'', JStr ''edge'')]))]))])"

definition BuildStorkMetricsRoute :: "StorkRouteParams \<Rightarrow> json" where
  "BuildStorkMetricsRoute p =
     (let lbls = CommonLabels (srp_CRName p) (srp_Component p);
          svcName = StorkMetricsServiceName (srp_CRName p) (srp_Component p);
          routeName = StorkRouteName (srp_CRName p) (srp_Component p)
      in route_object routeName (srp_Namespace p) lbls svcName portNameStorkProm)"

section \<open>Labels\<close>

text \<open>\<open>selects sel lbls\<close>: the equality selector \<open>sel\<close> matches an object with labels \<open>lbls\<close>.\<close>

definition selects :: "labels \<Rightarrow> labels \<Rightarrow> bool" where
  "selects sel lbls = list_all (\<lambda>(k, v). map_get lbls k = Some v) sel"

lemma map_get_CommonLabels:
  "map_get (CommonLabels cr co) LabelInstance = Some cr"
  "map_get (CommonLabels cr co) LabelComponent = Some co"
  by (simp_all add: CommonLabels_def map_get_lit name_defs)

lemma selects_get: "map_invar sel \<Longrightarrow> selects sel lbls = (\<forall>k v. map_get sel k = Some v \<longrightarrow> map_get lbls k = Some v)"
  by (auto simp: selects_def list_all_iff map_get_Some_iff)

lemma map_invar_CommonLabels [simp]: "map_invar (CommonLabels cr co)"
  by (simp add: CommonLabels_def)

text \<open>
  A selector built from the common labels of one resource and component matches the
  objects of exactly that resource and component, so the Services and workloads of
  different resources never select each other's pods.
\<close>

lemma selectors_separate:
  "selects (CommonLabels cr co) (CommonLabels cr' co') = (cr = cr' \<and> co = co')"
proof
  assume "selects (CommonLabels cr co) (CommonLabels cr' co')"
  then have "map_get (CommonLabels cr' co') k = Some v" if "map_get (CommonLabels cr co) k = Some v" for k v
    using that by (simp add: selects_get)
  from this [OF map_get_CommonLabels(1)] this [OF map_get_CommonLabels(2)]
  show "cr = cr' \<and> co = co'" by (simp add: map_get_CommonLabels)
qed (simp add: selects_get)

section \<open>Service names\<close>

text \<open>The roles a Service of a component can have, and the name each gets.\<close>

datatype service_role = MainService | HeadlessService | StorkService | PodService nat

fun service_name_of :: "string \<Rightarrow> string \<Rightarrow> service_role \<Rightarrow> string" where
  "service_name_of cr co MainService = ServiceName cr co"
| "service_name_of cr co HeadlessService = HeadlessServiceName cr co"
| "service_name_of cr co StorkService = StorkMetricsServiceName cr co"
| "service_name_of cr co (PodService n) = PerPodServiceName cr co (int n)"

definition kea_components :: "string list" where
  "kea_components = [ComponentDhcp4, ComponentDhcp6, ComponentCtrlAgent, ComponentDdns]"

text \<open>The components that have Services: the Kea daemons and the Stork server.\<close>

definition service_components :: "string list" where
  "service_components = StorkServerComponent # kea_components"

lemmas service_components_defs = service_components_def kea_components_def name_defs StorkServerComponent_def

lemmas service_name_defs =
  ServiceName_def HeadlessServiceName_def StorkMetricsServiceName_def PerPodServiceName_def

text \<open>Reading a name from its end: the trailing digits, then the rest.\<close>

definition name_tail :: "string \<Rightarrow> string \<times> string" where
  "name_tail s = (takeWhile is_digit (rev s), dropWhile is_digit (rev s))"

lemma name_tail_pod: "name_tail (s @ ''-'' @ dec_nat n) = (rev (dec_nat n), CHR ''-'' # rev s)"
proof -
  have dash: "\<not> is_digit (CHR ''-'')" by (simp add: is_digit_def)
  have "takeWhile is_digit (xs @ CHR ''-'' # ys) = xs \<and> dropWhile is_digit (xs @ CHR ''-'' # ys) = CHR ''-'' # ys"
    if "\<forall>c \<in> set xs. is_digit c" for xs ys
    using that dash by (induction xs) auto
  from this [of "rev (dec_nat n)" "rev s"] show ?thesis
    using dec_nat_digits [of n] by (simp add: name_tail_def)
qed

lemma is_digit_simps [simp]:
  "is_digit (CHR ''4'')" "is_digit (CHR ''6'')" "\<not> is_digit (CHR ''p'')" "\<not> is_digit (CHR ''t'')"
  "\<not> is_digit (CHR ''s'')" "\<not> is_digit (CHR ''l'')" "\<not> is_digit (CHR ''k'')" "\<not> is_digit (CHR ''r'')"
  by (simp_all add: is_digit_def)

lemma pod_name_unique:
  "co \<in> set service_components \<Longrightarrow> role \<noteq> PodService n \<Longrightarrow> co' \<in> set service_components \<Longrightarrow>
   service_name_of cr co role = service_name_of cr' co' (PodService n) \<Longrightarrow> False"
proof (cases role)
  case (PodService m)
  assume "role \<noteq> PodService n" and "service_name_of cr co role = service_name_of cr' co' (PodService n)"
  then have "name_tail ((cr @ ''-'' @ co) @ ''-'' @ dec_nat m) = name_tail ((cr' @ ''-'' @ co') @ ''-'' @ dec_nat n)"
    using PodService by (simp add: PerPodServiceName_def)
  then have "m = n" unfolding name_tail_pod by simp
  with \<open>role \<noteq> PodService n\<close> PodService show False by simp
next
  case MainService
  assume c: "co \<in> set service_components" and "service_name_of cr co role = service_name_of cr' co' (PodService n)"
  then have "name_tail (cr @ ''-'' @ co) = name_tail ((cr' @ ''-'' @ co') @ ''-'' @ dec_nat n)"
    using MainService by (simp add: service_name_defs)
  then have "dropWhile is_digit (rev (cr @ ''-'' @ co)) = CHR ''-'' # rev (cr' @ ''-'' @ co')
      \<and> takeWhile is_digit (rev (cr @ ''-'' @ co)) \<noteq> []"
    unfolding name_tail_pod by (simp add: name_tail_def)
  with c show False by (auto simp: service_components_defs)
next
  case HeadlessService
  assume "service_name_of cr co role = service_name_of cr' co' (PodService n)"
  then have "name_tail (cr @ ''-'' @ co @ ''-hl'') = name_tail ((cr' @ ''-'' @ co') @ ''-'' @ dec_nat n)"
    using HeadlessService by (simp add: service_name_defs)
  then show False unfolding name_tail_pod by (simp add: name_tail_def)
next
  case StorkService
  assume "service_name_of cr co role = service_name_of cr' co' (PodService n)"
  then have "name_tail (cr @ ''-'' @ co @ ''-stork'') = name_tail ((cr' @ ''-'' @ co') @ ''-'' @ dec_nat n)"
    using StorkService by (simp add: service_name_defs)
  then show False unfolding name_tail_pod by (simp add: name_tail_def)
qed

lemma component_suffix_unique:
  assumes "co \<in> set service_components" and "co' \<in> set service_components" and "cr @ ''-'' @ co = cr' @ ''-'' @ co'"
  shows "cr = cr' \<and> co = co'"
proof -
  from assms(3) have "rev (cr @ ''-'' @ co) = rev (cr' @ ''-'' @ co')" by (rule arg_cong)
  with assms(1,2) show ?thesis by (auto simp: service_components_defs)
qed

lemma component_not_role_suffix:
  assumes "co \<in> set service_components"
  shows "cr @ ''-'' @ co \<noteq> s @ ''-hl''" and "cr @ ''-'' @ co \<noteq> s @ ''-stork''"
proof -
  have "rev (cr @ ''-'' @ co) \<noteq> rev (s @ t)" if "t = ''-hl'' \<or> t = ''-stork''" for t
    using assms that by (auto simp: service_components_defs)
  then show "cr @ ''-'' @ co \<noteq> s @ ''-hl''" and "cr @ ''-'' @ co \<noteq> s @ ''-stork''" by blast+
qed

lemma hl_not_stork: "s @ ''-hl'' \<noteq> t @ ''-stork''"
proof -
  have "rev (s @ ''-hl'') \<noteq> rev (t @ ''-stork'')" by simp
  then show ?thesis by metis
qed

text \<open>
  C28: the names of the Services the operator manages in a namespace are unique: two
  Services of the Kea components or the Stork server have the same name only if they belong to
  the same resource, the same component and the same role (main, headless, Stork, or the pod
  with one ordinal).
\<close>

theorem service_names_unique:
  assumes "co \<in> set service_components" and "co' \<in> set service_components"
  shows "(service_name_of cr co role = service_name_of cr' co' role')
     = (cr = cr' \<and> co = co' \<and> role = role')"
proof
  assume eq: "service_name_of cr co role = service_name_of cr' co' role'"
  have split: "cr @ ''-'' @ c @ t = (cr @ ''-'' @ c) @ t" for cr c t :: string by simp
  have role: "role = role'"
    using eq pod_name_unique [OF assms(1) _ assms(2), of role _ cr cr'] pod_name_unique [OF assms(2) _ assms(1), of role' _ cr' cr]
      component_not_role_suffix [OF assms(1), of cr "cr' @ ''-'' @ co'"]
      component_not_role_suffix [OF assms(2), of cr' "cr @ ''-'' @ co"]
      hl_not_stork [of "cr @ ''-'' @ co" "cr' @ ''-'' @ co'"] hl_not_stork [of "cr' @ ''-'' @ co'" "cr @ ''-'' @ co"]
    by (cases role; cases role') (auto simp: service_name_defs, metis+)?
  with eq have "cr @ ''-'' @ co = cr' @ ''-'' @ co'"
    by (cases role') (simp_all add: service_name_defs)
  with role component_suffix_unique [OF assms] show "cr = cr' \<and> co = co' \<and> role = role'" by blast
qed simp

theorem service_names_unique_witness:
  "service_name_of ''a'' ComponentDhcp4 (PodService 1) \<noteq> service_name_of ''a'' ComponentDhcp4 MainService"
  using service_names_unique [of ComponentDhcp4 ComponentDhcp4 "''a''" "PodService 1" "''a''" MainService]
  by (simp add: service_components_def kea_components_def)

end
