(* ===== verification/Services.thy ===== *)
theory Services
  imports Names
begin

text \<open>
  The Service builders of \<^verbatim>\<open>src/internal/resources/service.go\<close>: the main, headless, per-pod and
  Stork metrics Services of a component.
\<close>

record ServiceParams =
  svp_Namespace :: string
  svp_CRName :: string
  svp_Component :: string
  svp_Port :: int32
  svp_Protocol :: string

definition defaultProtocol :: "string \<Rightarrow> string" where
  "defaultProtocol p = (if p = '''' then ''TCP'' else p)"

definition component_port :: "ServiceParams \<Rightarrow> ServicePort" where
  "component_port p =
     \<lparr>sp_Name = svp_Component p, sp_Port = svp_Port p, sp_TargetPort = IosInt (svp_Port p),
      sp_Protocol = defaultProtocol (svp_Protocol p)\<rparr>"

definition BuildHeadlessService :: "ServiceParams \<Rightarrow> Service" where
  "BuildHeadlessService p =
     (let lbls = CommonLabels (svp_CRName p) (svp_Component p)
      in \<lparr>svc_Meta = object_meta (HeadlessServiceName (svp_CRName p) (svp_Component p)) (svp_Namespace p) lbls,
          svc_Spec = \<lparr>svs_ClusterIP = ''None'', svs_ClusterIPs = [], svs_PublishNotReadyAddresses = True,
            svs_Selector = lbls, svs_Ports = [component_port p]\<rparr>\<rparr>)"

definition BuildService :: "ServiceParams \<Rightarrow> Service" where
  "BuildService p =
     (let lbls = CommonLabels (svp_CRName p) (svp_Component p)
      in \<lparr>svc_Meta = object_meta (ServiceName (svp_CRName p) (svp_Component p)) (svp_Namespace p) lbls,
          svc_Spec = \<lparr>svs_ClusterIP = '''', svs_ClusterIPs = [], svs_PublishNotReadyAddresses = False,
            svs_Selector = lbls, svs_Ports = [component_port p]\<rparr>\<rparr>)"

record StorkMetricsServiceParams =
  smp_Namespace :: string
  smp_CRName :: string
  smp_Component :: string
  smp_AgentPort :: int32
  smp_PrometheusPort :: int32

definition BuildStorkMetricsService :: "StorkMetricsServiceParams \<Rightarrow> Service" where
  "BuildStorkMetricsService p =
     (let lbls = CommonLabels (smp_CRName p) (smp_Component p)
      in \<lparr>svc_Meta = object_meta (StorkMetricsServiceName (smp_CRName p) (smp_Component p)) (smp_Namespace p) lbls,
          svc_Spec = \<lparr>svs_ClusterIP = '''', svs_ClusterIPs = [], svs_PublishNotReadyAddresses = False,
            svs_Selector = lbls,
            svs_Ports =
              [\<lparr>sp_Name = portNameStorkProm, sp_Port = smp_PrometheusPort p,
                sp_TargetPort = IosString portNameStorkProm, sp_Protocol = ''TCP''\<rparr>,
               \<lparr>sp_Name = ''stork-agent'', sp_Port = smp_AgentPort p,
                sp_TargetPort = IosString ''stork-agent'', sp_Protocol = ''TCP''\<rparr>]\<rparr>\<rparr>)"

definition BuildPerPodService :: "ServiceParams \<Rightarrow> int \<Rightarrow> Service" where
  "BuildPerPodService p ordinal =
     (let lbls = CommonLabels (svp_CRName p) (svp_Component p);
          stsName = StatefulSetName (svp_CRName p) (svp_Component p);
          podName = stsName @ ''-'' @ dec_int ordinal
      in \<lparr>svc_Meta = object_meta (PerPodServiceName (svp_CRName p) (svp_Component p) ordinal) (svp_Namespace p) lbls,
          svc_Spec = \<lparr>svs_ClusterIP = '''', svs_ClusterIPs = [], svs_PublishNotReadyAddresses = False,
            svs_Selector = map_lit [(''statefulset.kubernetes.io/pod-name'', podName)],
            svs_Ports = [component_port p]\<rparr>\<rparr>)"

lemma per_pod_selector:
  "svs_Selector (svc_Spec (BuildPerPodService p (int n)))
     = [(''statefulset.kubernetes.io/pod-name'', StatefulSetName (svp_CRName p) (svp_Component p) @ ''-'' @ dec_nat n)]"
  by (simp add: BuildPerPodService_def map_lit_def)

end
