(* ===== verification/Validate.thy ===== *)
theory Validate
  imports Prelude
begin

text \<open>
  The shell-input validation of \<^verbatim>\<open>src/internal/resources/validate.go\<close>. Each regular expression
  is an executable predicate; for the one with structure the decomposition it accepts is
  proved. Error messages are kept to their constant part (the quoted operand is left out).
\<close>

section \<open>Shell text\<close>

definition nl :: string where "nl = [CHR 0x0A]"
definition bsl :: string where "bsl = [CHR 0x5C]"
definition sq :: string where "sq = [CHR 0x27]"

section \<open>Patterns\<close>

definition is_letter :: "char \<Rightarrow> bool" where
  "is_letter c = ((65 \<le> (of_char c :: nat) \<and> (of_char c :: nat) \<le> 90)
     \<or> (97 \<le> (of_char c :: nat) \<and> (of_char c :: nat) \<le> 122))"

definition word_char :: "char \<Rightarrow> bool" where
  "word_char c = (is_letter c \<or> is_digit c \<or> c = CHR ''.'' \<or> c = CHR ''_'' \<or> c = CHR ''-'')"

text \<open>\<^verbatim>\<open>^[a-zA-Z0-9._-]+$\<close>\<close>

definition safeInterfaceRe :: "string \<Rightarrow> bool" where
  "safeInterfaceRe s = (s \<noteq> [] \<and> list_all word_char s)"

definition safeHostnameRe :: "string \<Rightarrow> bool" where
  "safeHostnameRe s = (s \<noteq> [] \<and> list_all word_char s)"

text \<open>\<^verbatim>\<open>^[a-zA-Z0-9._/-]+$\<close>\<close>

definition safeCommandRe :: "string \<Rightarrow> bool" where
  "safeCommandRe s = (s \<noteq> [] \<and> list_all (\<lambda>c. word_char c \<or> c = CHR ''/'') s)"

text \<open>
  \<^verbatim>\<open>^[0-9]{1,3}\.[0-9]{1,3}\.[0-9]{1,3}\.[0-9]{1,3}/[0-9]{1,2}$\<close>: a digit group is read
  greedily, which is exact because what follows a group is never a digit.
\<close>

definition digit_group :: "nat \<Rightarrow> string \<Rightarrow> string option" where
  "digit_group hi s =
     (let n = length (takeWhile is_digit s) in if 1 \<le> n \<and> n \<le> hi then Some (drop n s) else None)"

definition expect :: "char \<Rightarrow> string \<Rightarrow> string option" where
  "expect c s = (case s of [] \<Rightarrow> None | d # r \<Rightarrow> if d = c then Some r else None)"

definition safeSubnetV4Re :: "string \<Rightarrow> bool" where
  "safeSubnetV4Re s =
     (Option.bind (digit_group 3 s) (\<lambda>s.
      Option.bind (expect (CHR ''.'') s) (\<lambda>s.
      Option.bind (digit_group 3 s) (\<lambda>s.
      Option.bind (expect (CHR ''.'') s) (\<lambda>s.
      Option.bind (digit_group 3 s) (\<lambda>s.
      Option.bind (expect (CHR ''.'') s) (\<lambda>s.
      Option.bind (digit_group 3 s) (\<lambda>s.
      Option.bind (expect (CHR ''/'') s) (\<lambda>s. digit_group 2 s)))))))) = Some [])"

section \<open>Validation\<close>

definition ValidateNADShellInputs :: "string \<Rightarrow> string \<Rightarrow> string \<Rightarrow> goerror option" where
  "ValidateNADShellInputs nadInterface nadSubnet command =
     (if nadInterface \<noteq> '''' \<and> \<not> safeInterfaceRe nadInterface then Some (Errorf ''invalid NAD interface name'')
      else if nadSubnet \<noteq> '''' \<and> \<not> safeSubnetV4Re nadSubnet then Some (Errorf ''invalid NAD subnet'')
      else if command \<noteq> '''' \<and> \<not> safeCommandRe command then Some (Errorf ''invalid command'')
      else None)"

definition ValidateHostname :: "string \<Rightarrow> goerror option" where
  "ValidateHostname hostname = (if \<not> safeHostnameRe hostname then Some (Errorf ''invalid hostname'') else None)"

section \<open>What is accepted\<close>

text \<open>A run of one to \<open>hi\<close> digits.\<close>

definition digits_upto :: "nat \<Rightarrow> string \<Rightarrow> bool" where
  "digits_upto hi g = (1 \<le> length g \<and> length g \<le> hi \<and> list_all is_digit g)"

lemma digit_group_Some:
  "(digit_group hi s = Some r) = (\<exists>g. s = g @ r \<and> digits_upto hi g \<and> (r = [] \<or> \<not> is_digit (hd r)))"
proof
  assume a: "digit_group hi s = Some r"
  let ?g = "takeWhile is_digit s"
  from a have r: "r = dropWhile is_digit s" and n: "1 \<le> length ?g" "length ?g \<le> hi"
    by (auto simp: digit_group_def Let_def dropWhile_eq_drop split: if_splits)
  have "list_all is_digit ?g" by (auto simp: list_all_iff dest: set_takeWhileD)
  moreover have "r = [] \<or> \<not> is_digit (hd r)" using r hd_dropWhile [of is_digit s] by blast
  ultimately show "\<exists>g. s = g @ r \<and> digits_upto hi g \<and> (r = [] \<or> \<not> is_digit (hd r))"
    using n r by (intro exI [of _ ?g]) (simp add: digits_upto_def)
next
  assume "\<exists>g. s = g @ r \<and> digits_upto hi g \<and> (r = [] \<or> \<not> is_digit (hd r))"
  then obtain g where s: "s = g @ r" and g: "digits_upto hi g" and r: "r = [] \<or> \<not> is_digit (hd r)" by blast
  have "takeWhile is_digit (g @ r) = g"
    using g r by (cases r) (auto simp: digits_upto_def list_all_iff takeWhile_eq_all_conv takeWhile_append)
  with s g show "digit_group hi s = Some r" by (simp add: digit_group_def digits_upto_def)
qed

lemma expect_Some: "(expect c s = Some r) = (s = c # r)"
  by (cases s) (auto simp: expect_def)

lemma bind_Some_iff: "(Option.bind x f = Some y) = (\<exists>z. x = Some z \<and> f z = Some y)"
  by (cases x) auto

lemma not_digit_sep [simp]: "\<not> is_digit (CHR ''.'')" "\<not> is_digit (CHR ''/'')"
  by (simp_all add: is_digit_def)

lemma group_expect:
  assumes "\<not> is_digit c"
  shows "(Option.bind (digit_group hi s) (\<lambda>s. Option.bind (expect c s) f) = Some y)
     = (\<exists>g w. s = g @ c # w \<and> digits_upto hi g \<and> f w = Some y)"
  unfolding bind_Some_iff digit_group_Some expect_Some using assms by fastforce

lemma last_group: "(digit_group hi s = Some []) = digits_upto hi s"
  unfolding digit_group_Some by simp

lemma safeSubnetV4_iff:
  "safeSubnetV4Re s = (\<exists>a b c d p. s = a @ ''.'' @ b @ ''.'' @ c @ ''.'' @ d @ ''/'' @ p
     \<and> digits_upto 3 a \<and> digits_upto 3 b \<and> digits_upto 3 c \<and> digits_upto 3 d \<and> digits_upto 2 p)"
  unfolding safeSubnetV4Re_def
  by (simp only: group_expect [OF not_digit_sep(1)] group_expect [OF not_digit_sep(2)] last_group
      append_Cons append_Nil) blast

text \<open>
  The subnet check accepts exactly the strings of four groups of one to three digits
  separated by dots, a slash and one or two digits.
\<close>

lemma safeSubnetV4_decomposition:
  "safeSubnetV4Re s = (\<exists>a b c d p. s = a @ ''.'' @ b @ ''.'' @ c @ ''.'' @ d @ ''/'' @ p
     \<and> digits_upto 3 a \<and> digits_upto 3 b \<and> digits_upto 3 c \<and> digits_upto 3 d \<and> digits_upto 2 p)"
  by (rule safeSubnetV4_iff)

text \<open>
  The characters that act on a POSIX shell word or end a sed expression: quoting,
  expansion, redirection, separators, globs, white space and the sed delimiter.
\<close>

definition shell_active :: "char \<Rightarrow> bool" where
  "shell_active c =
     (c \<in> set '' $&;|<>()*?[]{}~!#=%^:,@+'' \<or> c \<in> {CHR 0x22, CHR 0x27, CHR 0x5C, CHR 0x60, CHR 0x09, CHR 0x0A, CHR 0x0D})"

lemma word_char_safe: "word_char c \<Longrightarrow> \<not> shell_active c"
  by (auto simp: word_char_def is_letter_def is_digit_def shell_active_def)

lemma digit_safe: "is_digit c \<Longrightarrow> \<not> shell_active c"
  by (rule word_char_safe) (simp add: word_char_def)

lemma sep_safe: "\<not> shell_active (CHR ''.'')" "\<not> shell_active (CHR ''/'')"
  by (simp_all add: shell_active_def)

lemma subnet_safe: "safeSubnetV4Re s \<Longrightarrow> list_all (\<lambda>c. \<not> shell_active c) s"
  unfolding safeSubnetV4_iff
  by (auto simp: digits_upto_def list_all_iff digit_safe sep_safe)

lemma validated_parts_inert:
  assumes "ValidateNADShellInputs nadInterface nadSubnet command = None"
  shows "list_all (\<lambda>c. \<not> shell_active c) (nadInterface @ nadSubnet @ command)"
proof -
  have "list_all (\<lambda>c. \<not> shell_active c) nadInterface"
    using assms by (cases "nadInterface = ''''")
      (auto simp: ValidateNADShellInputs_def safeInterfaceRe_def list_all_iff word_char_safe split: if_splits)
  moreover have "list_all (\<lambda>c. \<not> shell_active c) nadSubnet"
    using assms subnet_safe by (cases "nadSubnet = ''''")
      (auto simp: ValidateNADShellInputs_def split: if_splits)
  moreover have "list_all (\<lambda>c. \<not> shell_active c) command"
    using assms by (cases "command = ''''")
      (auto simp: ValidateNADShellInputs_def safeCommandRe_def list_all_iff word_char_safe sep_safe split: if_splits)
  ultimately show ?thesis by simp
qed

text \<open>
  C33: when the NAD inputs pass validation, none of the three strings that the operator
  interpolates into a shell script contains a character that is active in the shell, so
  interpolation cannot add a command, an expansion or a word.
\<close>

theorem validated_inputs_inert:
  assumes "ValidateNADShellInputs nadInterface nadSubnet command = None"
  shows "list_all (\<lambda>c. \<not> shell_active c) (nadInterface @ nadSubnet @ command)"
  by (rule validated_parts_inert [OF assms])

theorem validated_inputs_inert_witness:
  "list_all (\<lambda>c. \<not> shell_active c) (''net1'' @ ''10.200.0.0/24'' @ ''/usr/sbin/kea-dhcp4'')"
  by (rule validated_inputs_inert) code_simp

end
