(* ===== verification/Pods.thy ===== *)
theory Pods
  imports Services Validate
begin

text \<open>
  What the workload builders share: the constants of \<^verbatim>\<open>src/internal/resources/deployment.go\<close>,
  the default images and commands, the Stork agent sidecar of \<^verbatim>\<open>stork.go\<close>, and the
  well-formedness of a pod (\<open>pod_wf\<close>): volume and container names are unique, every mount
  names a volume of the pod, and no container mounts two volumes at one path.
\<close>

section \<open>Constants and defaults\<close>

definition DefaultKeaDhcp4Image :: string where "DefaultKeaDhcp4Image = ''docker.cloudsmith.io/isc/docker/kea-dhcp4:3.0.2''"
definition DefaultKeaDhcp6Image :: string where "DefaultKeaDhcp6Image = ''docker.cloudsmith.io/isc/docker/kea-dhcp6:3.0.2''"
definition DefaultKeaCtrlAgentImage :: string where "DefaultKeaCtrlAgentImage = ''docker.cloudsmith.io/isc/docker/kea-ctrl-agent:3.0.2''"
definition DefaultKeaDhcpDdnsImage :: string where "DefaultKeaDhcpDdnsImage = ''docker.cloudsmith.io/isc/docker/kea-dhcp-ddns:3.0.2''"

definition ConfigVolumeName :: string where "ConfigVolumeName = ''kea-config''"
definition ConfigMountPath :: string where "ConfigMountPath = ''/etc/kea''"
definition ConfigTemplateMountPath :: string where "ConfigTemplateMountPath = ''/etc/kea-template''"
definition ConfigWritableVolumeName :: string where "ConfigWritableVolumeName = ''kea-config-rendered''"
definition RunVolumeName :: string where "RunVolumeName = ''kea-run''"
definition RunMountPath :: string where "RunMountPath = ''/var/run/kea''"
definition LeaseVolumeName :: string where "LeaseVolumeName = ''kea-leases''"
definition LeaseMountPath :: string where "LeaseMountPath = ''/var/lib/kea''"
definition TLSVolumeName :: string where "TLSVolumeName = ''kea-tls''"
definition TLSMountPath :: string where "TLSMountPath = ''/etc/kea/tls''"
definition ConfigHashAnnotation :: string where "ConfigHashAnnotation = ''kea.openshift.io/config-hash''"

definition defaultComponentImage :: "string strmap" where
  "defaultComponentImage =
     map_lit [(ComponentDhcp4, DefaultKeaDhcp4Image), (ComponentDhcp6, DefaultKeaDhcp6Image),
              (ComponentCtrlAgent, DefaultKeaCtrlAgentImage), (ComponentDdns, DefaultKeaDhcpDdnsImage)]"

definition defaultComponentCommand :: "string strmap" where
  "defaultComponentCommand =
     map_lit [(ComponentDhcp4, ''/usr/sbin/kea-dhcp4''), (ComponentDhcp6, ''/usr/sbin/kea-dhcp6''),
              (ComponentCtrlAgent, ''/usr/sbin/kea-ctrl-agent''), (ComponentDdns, ''/usr/sbin/kea-dhcp-ddns'')]"

definition DefaultImageForComponent :: "string \<Rightarrow> string" where
  "DefaultImageForComponent component = str_index defaultComponentImage component"

definition DefaultCommandForComponent :: "string \<Rightarrow> string" where
  "DefaultCommandForComponent component = str_index defaultComponentCommand component"

section \<open>Building blocks\<close>

definition volume :: "string \<Rightarrow> VolumeSource \<Rightarrow> Volume" where
  "volume name src = \<lparr>vol_Name = name, vol_Source = src\<rparr>"

definition mount :: "string \<Rightarrow> string \<Rightarrow> bool \<Rightarrow> VolumeMount" where
  "mount name path ro = \<lparr>vm_Name = name, vm_MountPath = path, vm_ReadOnly = ro\<rparr>"

definition env_value :: "string \<Rightarrow> string \<Rightarrow> EnvVar" where
  "env_value name val = \<lparr>ev_Name = name, ev_Value = val, ev_ValueFrom = None\<rparr>"

definition zero_Container :: Container where
  "zero_Container = \<lparr>co_Name = '''', co_Image = '''', co_ImagePullPolicy = '''', co_Command = [], co_Env = [],
     co_Resources = JObj [], co_Ports = [], co_VolumeMounts = [],
     co_SecurityContext = \<lparr>sc_Add = [], sc_Drop = []\<rparr>, co_ReadinessProbe = None, co_LivenessProbe = None\<rparr>"

text \<open>Pod annotations: the user's, then the config hash, which wins.\<close>

definition merge_annotations :: "string strmap \<Rightarrow> string \<Rightarrow> string strmap" where
  "merge_annotations userAnns configHash =
     map_set (fold (\<lambda>(k, v) m. map_set m k v) userAnns []) ConfigHashAnnotation configHash"

definition kea_capabilities :: "string \<Rightarrow> SecurityContext" where
  "kea_capabilities nadInterface =
     \<lparr>sc_Add = [''NET_RAW'', ''NET_BIND_SERVICE''] @ (if nadInterface \<noteq> '''' then [''NET_ADMIN''] else []),
      sc_Drop = [capabilityAll]\<rparr>"

section \<open>stork.go\<close>

definition StorkAgentContainerName :: string where "StorkAgentContainerName = ''stork-agent''"
definition DefaultStorkAgentImage :: string where "DefaultStorkAgentImage = ''quay.io/mooyeg/stork-agent:v2.4.0-1''"
definition DefaultStorkAgentPort :: int32 where "DefaultStorkAgentPort = 8080"
definition DefaultStorkPromPort :: int32 where "DefaultStorkPromPort = 9547"

record StorkSidecarParams =
  ssp_Image :: string
  ssp_ImagePullPolicy :: string
  ssp_Resources :: ResourceRequirements
  ssp_ServerURL :: string
  ssp_ServerToken :: string
  ssp_Port :: int32
  ssp_PrometheusPort :: int32
  ssp_ExtraEnv :: "EnvVar list"

definition ResolveStorkParams :: "StorkAgentConfig option \<Rightarrow> string \<Rightarrow> goerror + StorkSidecarParams option" where
  "ResolveStorkParams cfg serverToken =
     (case cfg of
        None \<Rightarrow> Inr None
      | Some c \<Rightarrow>
          if \<not> sa_Enabled c then Inr None
          else Inr (Some
            \<lparr>ssp_Image = (if sa_Image c = '''' then DefaultStorkAgentImage else sa_Image c),
             ssp_ImagePullPolicy = sa_ImagePullPolicy c,
             ssp_Resources = sa_Resources c,
             ssp_ServerURL = sa_ServerURL c,
             ssp_ServerToken = serverToken,
             ssp_Port = (case sa_Port c of None \<Rightarrow> DefaultStorkAgentPort | Some p \<Rightarrow> p),
             ssp_PrometheusPort = (case sa_PrometheusPort c of None \<Rightarrow> DefaultStorkPromPort | Some p \<Rightarrow> p),
             ssp_ExtraEnv = sa_Env c\<rparr>))"

definition stork_own_env :: "StorkSidecarParams \<Rightarrow> EnvVar list" where
  "stork_own_env sp =
     (let env = [env_value ''STORK_AGENT_PORT'' (dec_int32 (ssp_Port sp)),
                 env_value ''STORK_AGENT_PROMETHEUS_KEA_EXPORTER_PORT'' (dec_int32 (ssp_PrometheusPort sp)),
                 env_value ''STORK_AGENT_PROMETHEUS_KEA_EXPORTER_ADDRESS'' ''0.0.0.0'']
      in if ssp_ServerURL sp \<noteq> '''' then
           (let env = env @ [env_value ''STORK_AGENT_SERVER_URL'' (ssp_ServerURL sp),
                             env_value ''STORK_AGENT_NON_INTERACTIVE'' valueTrue];
                env = env @ [\<lparr>ev_Name = ''STORK_AGENT_HOST'', ev_Value = '''',
                              ev_ValueFrom = Some (FieldRef ''status.podIP'')\<rparr>]
            in if ssp_ServerToken sp \<noteq> ''''
               then env @ [env_value ''STORK_AGENT_SERVER_TOKEN'' (ssp_ServerToken sp)] else env)
         else env @ [env_value ''STORK_AGENT_LISTEN_PROMETHEUS_ONLY'' valueTrue])"

definition stork_agent_env :: "StorkSidecarParams \<Rightarrow> EnvVar list" where
  "stork_agent_env sp = stork_own_env sp @ ssp_ExtraEnv sp"

definition buildStorkAgentContainer :: "StorkSidecarParams \<Rightarrow> string \<Rightarrow> Container" where
  "buildStorkAgentContainer sp configVolumeName =
     zero_Container\<lparr>
       co_Name := StorkAgentContainerName,
       co_Image := ssp_Image sp,
       co_ImagePullPolicy := ssp_ImagePullPolicy sp,
       co_Resources := ssp_Resources sp,
       co_Env := stork_agent_env sp,
       co_Ports :=
         [\<lparr>cp_Name = ''stork-agent'', cp_ContainerPort = ssp_Port sp, cp_Protocol = ''TCP''\<rparr>,
          \<lparr>cp_Name = portNameStorkProm, cp_ContainerPort = ssp_PrometheusPort sp, cp_Protocol = ''TCP''\<rparr>],
       co_VolumeMounts := [mount configVolumeName ConfigMountPath True, mount RunVolumeName RunMountPath False],
       co_SecurityContext := \<lparr>sc_Add = [], sc_Drop = [capabilityAll]\<rparr>\<rparr>"

section \<open>Well-formed pods\<close>

definition mounts_ok :: "Volume list \<Rightarrow> Container \<Rightarrow> bool" where
  "mounts_ok vols c =
     (list_all (\<lambda>m. vm_Name m \<in> set (map vol_Name vols)) (co_VolumeMounts c)
      \<and> distinct (map vm_MountPath (co_VolumeMounts c)))"

definition pod_wf :: "PodSpec \<Rightarrow> bool" where
  "pod_wf ps =
     (distinct (map vol_Name (ps_Volumes ps))
      \<and> distinct (map co_Name (ps_InitContainers ps @ ps_Containers ps))
      \<and> list_all (mounts_ok (ps_Volumes ps)) (ps_InitContainers ps @ ps_Containers ps))"

text \<open>Every container drops all capabilities and adds at most the three Kea needs.\<close>

definition caps_ok :: "Container \<Rightarrow> bool" where
  "caps_ok c = (sc_Drop (co_SecurityContext c) = [capabilityAll]
     \<and> list_all (\<lambda>a. a \<in> set [''NET_RAW'', ''NET_BIND_SERVICE'', ''NET_ADMIN'']) (sc_Add (co_SecurityContext c)))"

lemmas pod_consts [go_defs] =
  ConfigVolumeName_def ConfigMountPath_def ConfigTemplateMountPath_def ConfigWritableVolumeName_def
  RunVolumeName_def RunMountPath_def LeaseVolumeName_def LeaseMountPath_def TLSVolumeName_def TLSMountPath_def

lemma merge_annotations_hash: "map_get (merge_annotations anns h) ConfigHashAnnotation = Some h"
  by (simp add: merge_annotations_def map_laws)

lemma merge_annotations_user:
  assumes "k \<noteq> ConfigHashAnnotation" and "map_invar anns"
  shows "map_get (merge_annotations anns h) k = map_get anns k"
proof -
  have "map_of (rev anns) = map_of anns"
    using map_invar_distinct [OF assms(2)] by (simp add: map_of_inject_set rev_map [symmetric])
  with assms(1) show ?thesis
    by (simp add: merge_annotations_def map_laws gm.get_fold_put) (simp add: map_get_def split: option.split)
qed

lemma stork_container_caps: "caps_ok (buildStorkAgentContainer sp v)"
  by (simp add: caps_ok_def buildStorkAgentContainer_def)

definition env_get :: "EnvVar list \<Rightarrow> string \<Rightarrow> EnvVar option" where
  "env_get env name = List.find (\<lambda>e. ev_Name e = name) env"

lemma stork_own_env_get:
  "(env_get (stork_own_env sp) ''STORK_AGENT_SERVER_URL'' = None) = (ssp_ServerURL sp = '''')"
  "(env_get (stork_own_env sp) ''STORK_AGENT_SERVER_TOKEN'' = None) = (ssp_ServerURL sp = '''' \<or> ssp_ServerToken sp = '''')"
  "(env_get (stork_own_env sp) ''STORK_AGENT_LISTEN_PROMETHEUS_ONLY'' = None) = (ssp_ServerURL sp \<noteq> '''')"
  "distinct (map ev_Name (stork_own_env sp))"
  by (cases "ssp_ServerURL sp = ''''"; cases "ssp_ServerToken sp = ''''";
      simp add: stork_own_env_def Let_def env_get_def env_value_def)+

text \<open>
  The Stork sidecar is present exactly when it is enabled, takes the configured image
  and ports or their defaults, and its own environment holds the server's URL, the
  registration token and the pod address exactly when a server URL is configured; without
  one it runs in Prometheus-only mode and never carries a token. The user's variables follow.
\<close>

lemma stork_sidecar_environment:
  "(case ResolveStorkParams cfg token of
      Inl e \<Rightarrow> False
    | Inr None \<Rightarrow> (case cfg of None \<Rightarrow> True | Some c \<Rightarrow> \<not> sa_Enabled c)
    | Inr (Some sp) \<Rightarrow> (case cfg of None \<Rightarrow> False | Some c \<Rightarrow>
        sa_Enabled c
        \<and> ssp_Port sp = (case sa_Port c of None \<Rightarrow> 8080 | Some p \<Rightarrow> p)
        \<and> co_Env (buildStorkAgentContainer sp v) = stork_own_env sp @ sa_Env c
        \<and> distinct (map ev_Name (stork_own_env sp))
        \<and> (env_get (stork_own_env sp) ''STORK_AGENT_SERVER_URL'' = None) = (sa_ServerURL c = '''')
        \<and> (env_get (stork_own_env sp) ''STORK_AGENT_SERVER_TOKEN'' = None) = (sa_ServerURL c = '''' \<or> token = '''')
        \<and> (env_get (stork_own_env sp) ''STORK_AGENT_LISTEN_PROMETHEUS_ONLY'' = None) = (sa_ServerURL c \<noteq> '''')))"
  by (cases cfg)
    (simp_all add: ResolveStorkParams_def stork_own_env_get buildStorkAgentContainer_def stork_agent_env_def
      DefaultStorkAgentPort_def split: option.split)

end
