(* ===== verification/StorkServer.thy ===== *)
theory StorkServer
  imports Pods
begin

text \<open>
  The Stork server's objects, \<^verbatim>\<open>src/internal/resources/stork_server.go\<close>: its Deployment with the
  database migration and the password wrapper, its Service, its two generated Secrets and its
  Route. Scripts are the exact texts of the sources.
\<close>

definition DefaultStorkServerImage :: string where "DefaultStorkServerImage = ''quay.io/mooyeg/stork-server:v2.4.0''"
definition DefaultStorkServerPort :: int32 where "DefaultStorkServerPort = 8080"

record StorkServerParams =
  ssv_Namespace :: string
  ssv_CRName :: string
  ssv_Image :: string
  ssv_ImagePullPolicy :: string
  ssv_Replicas :: "int32 option"
  ssv_Resources :: ResourceRequirements
  ssv_Port :: int32
  ssv_EnableMetrics :: bool
  ssv_ImagePullSecrets :: "LocalObjectReference list"
  ssv_ServiceAccountName :: string
  ssv_DBHost :: string
  ssv_DBPort :: int32
  ssv_DBName :: string
  ssv_DBSSLMode :: string
  ssv_NodeSelector :: "string strmap"
  ssv_Tolerations :: "Toleration list"
  ssv_Affinity :: "Affinity option"
  ssv_PodAnnotations :: "string strmap"
  ssv_SecretEnvVars :: "EnvVar list"
  ssv_AdminSecretName :: string
  ssv_ServerTokenSecretName :: string

section \<open>Scripts\<close>

definition migrationScript :: string where
  \<open>migrationScript =
     ''set -e'' @ nl
     @ ''stork-tool db-init '' @ bsl @ nl
     @ ''  --db-host "$STORK_DATABASE_HOST" '' @ bsl @ nl
     @ ''  --db-port "$STORK_DATABASE_PORT" '' @ bsl @ nl
     @ ''  --db-name "$STORK_DATABASE_NAME" '' @ bsl @ nl
     @ ''  --db-user "$STORK_DATABASE_USER_NAME" '' @ bsl @ nl
     @ ''  --db-password "$STORK_DATABASE_PASSWORD" '' @ bsl @ nl
     @ ''  --db-sslmode "$STORK_DATABASE_SSLMODE"'' @ nl
     @ ''stork-tool db-up '' @ bsl @ nl
     @ ''  --db-host "$STORK_DATABASE_HOST" '' @ bsl @ nl
     @ ''  --db-port "$STORK_DATABASE_PORT" '' @ bsl @ nl
     @ ''  --db-name "$STORK_DATABASE_NAME" '' @ bsl @ nl
     @ ''  --db-user "$STORK_DATABASE_USER_NAME" '' @ bsl @ nl
     @ ''  --db-password "$STORK_DATABASE_PASSWORD" '' @ bsl @ nl
     @ ''  --db-sslmode "$STORK_DATABASE_SSLMODE"'' @ nl
     @ ''echo "Database migration complete"'' @ nl\<close>

definition wrapperScript :: "int32 \<Rightarrow> string" where
  \<open>wrapperScript port =
     ''#!/bin/sh'' @ nl
     @ ''# Start stork-server in the background.'' @ nl
     @ ''stork-server &'' @ nl
     @ ''SERVER_PID=$!'' @ nl
     @ nl
     @ ''# Wait for the server to become ready (up to 120 seconds).'' @ nl
     @ ''for i in $(seq 1 60); do'' @ nl
     @ ''  if curl -sf http://localhost:'' @ dec_int32 port @ ''/api/version > /dev/null 2>&1; then'' @ nl
     @ ''    break'' @ nl
     @ ''  fi'' @ nl
     @ ''  sleep 2'' @ nl
     @ ''done'' @ nl
     @ nl
     @ ''# Extra delay to ensure API is fully initialized.'' @ nl
     @ ''sleep 5'' @ nl
     @ nl
     @ ''# Save password to a file to avoid escaping issues in JSON.'' @ nl
     @ ''printf '' @ sq @ ''%s' "$STORK_ADMIN_PASSWORD" > /tmp/admin_pw'' @ nl
     @ ''ADMIN_PW="$(cat /tmp/admin_pw)"'' @ nl
     @ nl
     @ ''# Try to log in with the desired password (already set from previous run).'' @ nl
     @ ''RESP=$(curl -s -o /dev/null -w '' @ sq @ ''%{http_code}' -X POST http://localhost:'' @ dec_int32 port
     @ ''/api/sessions '' @ bsl @ nl
     @ ''  -H 'Content-Type: application/json' '' @ bsl @ nl
     @ ''  -d "{'' @ bsl @ ''"authenticationMethodId'' @ bsl @ ''":'' @ bsl @ ''"internal'' @ bsl @ ''",''
     @ bsl @ ''"identifier'' @ bsl @ ''":'' @ bsl @ ''"admin'' @ bsl @ ''",'' @ bsl @ ''"secret'' @ bsl
     @ ''":'' @ bsl @ ''"${ADMIN_PW}'' @ bsl @ ''"}")'' @ nl
     @ nl
     @ ''if [ "$RESP" = "200" ]; then'' @ nl
     @ ''  echo "Admin password already set correctly"'' @ nl
     @ ''else'' @ nl
     @ ''  # Log in with default password and change it.'' @ nl
     @ ''  curl -s -c /tmp/cookies -X POST http://localhost:'' @ dec_int32 port @ ''/api/sessions '' @ bsl
     @ nl
     @ ''    -H 'Content-Type: application/json' '' @ bsl @ nl
     @ ''    -d '{"authenticationMethodId":"internal","identifier":"admin","secret":"admin"}' > /tmp/login_result 2>&1''
     @ nl
     @ nl
     @ ''  LOGIN_CODE=$?'' @ nl
     @ ''  echo "Login result: $(cat /tmp/login_result)"'' @ nl
     @ nl
     @ ''  curl -s -b /tmp/cookies -X PUT http://localhost:'' @ dec_int32 port @ ''/api/users/1/password ''
     @ bsl @ nl
     @ ''    -H 'Content-Type: application/json' '' @ bsl @ nl
     @ ''    -d "{'' @ bsl @ ''"oldpassword'' @ bsl @ ''":'' @ bsl @ ''"admin'' @ bsl @ ''",'' @ bsl
     @ ''"newpassword'' @ bsl @ ''":'' @ bsl @ ''"${ADMIN_PW}'' @ bsl @ ''"}" > /tmp/pw_result 2>&1'' @ nl
     @ nl
     @ ''  if grep -q '"message"' /tmp/pw_result; then'' @ nl
     @ ''    echo "Warning: password change response: $(cat /tmp/pw_result)"'' @ nl
     @ ''  else'' @ nl
     @ ''    echo "Admin password updated from Secret"'' @ nl
     @ ''  fi'' @ nl
     @ ''  rm -f /tmp/cookies /tmp/login_result /tmp/pw_result'' @ nl
     @ ''fi'' @ nl
     @ ''rm -f /tmp/admin_pw'' @ nl
     @ nl
     @ ''# Forward signals to stork-server and wait.'' @ nl
     @ ''trap "kill $SERVER_PID" TERM INT'' @ nl
     @ ''wait $SERVER_PID'' @ nl\<close>

section \<open>Environment\<close>

definition secret_env :: "string \<Rightarrow> string \<Rightarrow> string \<Rightarrow> EnvVar" where
  "secret_env name secretName key =
     \<lparr>ev_Name = name, ev_Value = '''',
      ev_ValueFrom = Some (SecretKeyRef
        \<lparr>sks_LocalObjectReference = \<lparr>lor_Name = secretName\<rparr>, sks_Key = key, sks_Optional = None\<rparr>)\<rparr>"

definition stork_server_port :: "StorkServerParams \<Rightarrow> int32" where
  "stork_server_port p = (if ssv_Port p = 0 then DefaultStorkServerPort else ssv_Port p)"

definition stork_server_base_env :: "StorkServerParams \<Rightarrow> EnvVar list" where
  "stork_server_base_env p =
     (let env = [env_value ''STORK_DATABASE_HOST'' (ssv_DBHost p),
                 env_value ''STORK_DATABASE_PORT'' (dec_int32 (ssv_DBPort p)),
                 env_value ''STORK_DATABASE_NAME'' (ssv_DBName p),
                 env_value ''STORK_DATABASE_SSLMODE'' (ssv_DBSSLMode p),
                 env_value ''STORK_REST_HOST'' ''0.0.0.0'',
                 env_value ''STORK_REST_PORT'' (dec_int32 (stork_server_port p))];
          env = (if ssv_EnableMetrics p then env @ [env_value ''STORK_SERVER_ENABLE_METRICS'' valueTrue] else env);
          env = (if ssv_ServerTokenSecretName p \<noteq> ''''
                 then env @ [secret_env ''STORK_SERVER_AGENT_TOKEN'' (ssv_ServerTokenSecretName p) ''token''] else env)
      in env @ ssv_SecretEnvVars p)"

text \<open>The init container gets the base environment and the database credentials once more.\<close>

definition stork_server_init_env :: "StorkServerParams \<Rightarrow> EnvVar list" where
  "stork_server_init_env p = stork_server_base_env p @ ssv_SecretEnvVars p"

definition stork_server_env :: "StorkServerParams \<Rightarrow> EnvVar list" where
  "stork_server_env p =
     stork_server_base_env p @ [secret_env ''STORK_ADMIN_PASSWORD'' (ssv_AdminSecretName p) ''password'']"

section \<open>Objects\<close>

definition stork_server_image :: "StorkServerParams \<Rightarrow> string" where
  "stork_server_image p = (if ssv_Image p = '''' then DefaultStorkServerImage else ssv_Image p)"

definition stork_server_probe :: "int32 \<Rightarrow> int32 \<Rightarrow> HTTPProbe" where
  "stork_server_probe delay period =
     \<lparr>hp_Path = ''/api/version'', hp_Port = portNameHTTP, hp_InitialDelaySeconds = delay, hp_PeriodSeconds = period\<rparr>"

definition stork_server_init_container :: "StorkServerParams \<Rightarrow> Container" where
  "stork_server_init_container p =
     zero_Container\<lparr>
       co_Name := ''db-migrate'',
       co_Image := stork_server_image p,
       co_ImagePullPolicy := ssv_ImagePullPolicy p,
       co_Command := [''sh'', ''-c'', migrationScript],
       co_Env := stork_server_init_env p,
       co_SecurityContext := \<lparr>sc_Add = [], sc_Drop = [capabilityAll]\<rparr>\<rparr>"

definition stork_server_container :: "StorkServerParams \<Rightarrow> Container" where
  "stork_server_container p =
     zero_Container\<lparr>
       co_Name := ''stork-server'',
       co_Image := stork_server_image p,
       co_ImagePullPolicy := ssv_ImagePullPolicy p,
       co_Command := [''sh'', ''-c'', wrapperScript (stork_server_port p)],
       co_Resources := ssv_Resources p,
       co_Env := stork_server_env p,
       co_Ports := [\<lparr>cp_Name = portNameHTTP, cp_ContainerPort = stork_server_port p, cp_Protocol = ''TCP''\<rparr>],
       co_ReadinessProbe := Some (stork_server_probe 10 10),
       co_LivenessProbe := Some (stork_server_probe 30 30),
       co_SecurityContext := \<lparr>sc_Add = [], sc_Drop = [capabilityAll]\<rparr>\<rparr>"

definition BuildStorkServerDeployment :: "StorkServerParams \<Rightarrow> Deployment" where
  "BuildStorkServerDeployment p =
     (let lbls = CommonLabels (ssv_CRName p) StorkServerComponent
      in \<lparr>dep_Meta = object_meta (DeploymentName (ssv_CRName p) StorkServerComponent) (ssv_Namespace p) lbls,
          dep_Spec =
            \<lparr>ds_Replicas = (case ssv_Replicas p of None \<Rightarrow> Some 1 | Some n \<Rightarrow> Some n),
             ds_Selector = lbls,
             ds_Template =
               \<lparr>pt_Labels = lbls,
                pt_Annotations = fold (\<lambda>(k, v) m. map_set m k v) (ssv_PodAnnotations p) [],
                pt_Spec =
                  \<lparr>ps_ServiceAccountName = ssv_ServiceAccountName p,
                   ps_HostNetwork = False,
                   ps_ShareProcessNamespace = None,
                   ps_InitContainers = [stork_server_init_container p],
                   ps_Containers = [stork_server_container p],
                   ps_Volumes = [],
                   ps_NodeSelector = ssv_NodeSelector p,
                   ps_Tolerations = ssv_Tolerations p,
                   ps_Affinity = ssv_Affinity p,
                   ps_ImagePullSecrets = ssv_ImagePullSecrets p\<rparr>\<rparr>\<rparr>,
          dep_ReadyReplicas = 0\<rparr>)"

definition BuildStorkServerService :: "string \<Rightarrow> string \<Rightarrow> int32 \<Rightarrow> Service" where
  "BuildStorkServerService namespace crName port =
     (let lbls = CommonLabels crName StorkServerComponent;
          port = (if port = 0 then DefaultStorkServerPort else port)
      in \<lparr>svc_Meta = object_meta (ServiceName crName StorkServerComponent) namespace lbls,
          svc_Spec = \<lparr>svs_ClusterIP = '''', svs_ClusterIPs = [], svs_PublishNotReadyAddresses = False,
            svs_Selector = lbls,
            svs_Ports = [\<lparr>sp_Name = portNameHTTP, sp_Port = port, sp_TargetPort = IosString portNameHTTP,
                          sp_Protocol = ''TCP''\<rparr>]\<rparr>\<rparr>)"

definition BuildStorkServerAdminSecret :: "string \<Rightarrow> string \<Rightarrow> labels \<Rightarrow> string \<Rightarrow> Secret" where
  "BuildStorkServerAdminSecret namespace secretName lbls password =
     \<lparr>sec_Meta = object_meta secretName namespace lbls, sec_Type = ''Opaque'',
      sec_Data = map_lit [(''username'', ''admin''), (''password'', password)]\<rparr>"

definition BuildStorkServerTokenSecret :: "string \<Rightarrow> string \<Rightarrow> labels \<Rightarrow> string \<Rightarrow> Secret" where
  "BuildStorkServerTokenSecret namespace secretName lbls token =
     \<lparr>sec_Meta = object_meta secretName namespace lbls, sec_Type = ''Opaque'',
      sec_Data = map_lit [(''token'', token)]\<rparr>"

definition BuildStorkServerRoute :: "string \<Rightarrow> string \<Rightarrow> json" where
  "BuildStorkServerRoute namespace crName =
     (let lbls = CommonLabels crName StorkServerComponent;
          svcName = ServiceName crName StorkServerComponent;
          routeName = ServiceName crName StorkServerComponent
      in route_object routeName namespace lbls svcName portNameHTTP)"

section \<open>Properties\<close>

text \<open>
  The pod of the Stork server is well formed and drops every capability, its selector is
  its own pod label set, and its Service routes to the container's named HTTP port, which
  listens on the Service's port number, default included.
\<close>

lemma stork_server_deployment_wf:
  "(let d = BuildStorkServerDeployment p; ps = pt_Spec (ds_Template (dep_Spec d)) in
     pod_wf ps \<and> list_all caps_ok (ps_InitContainers ps @ ps_Containers ps)
     \<and> ds_Selector (dep_Spec d) = pt_Labels (ds_Template (dep_Spec d))
     \<and> map cp_ContainerPort (co_Ports (stork_server_container p))
       = map sp_Port (svs_Ports (svc_Spec (BuildStorkServerService ns cr (ssv_Port p))))
     \<and> map (\<lambda>c. IosString (cp_Name c)) (co_Ports (stork_server_container p))
       = map sp_TargetPort (svs_Ports (svc_Spec (BuildStorkServerService ns cr (ssv_Port p)))))"
  by (simp add: BuildStorkServerDeployment_def pod_wf_def mounts_ok_def caps_ok_def
      stork_server_init_container_def stork_server_container_def zero_Container_def
      BuildStorkServerService_def stork_server_port_def Let_def)

end
