(* ===== verification/Status.thy ===== *)
theory Status
  imports ApiTypes
begin

text \<open>
  Status conditions and phases: \<^verbatim>\<open>setCondition\<close> of \<^verbatim>\<open>src/internal/controller/reconciler.go\<close> and the
  replica-driven part of the status that the component controllers share. The current time
  is an argument (its RFC 3339 text).
\<close>

section \<open>setCondition\<close>

fun setCondition ::
  "string \<Rightarrow> ConditionStatus list \<Rightarrow> string \<Rightarrow> string \<Rightarrow> string \<Rightarrow> string \<Rightarrow> ConditionStatus list" where
  "setCondition now [] condType status reason message =
     [\<lparr>cond_Type = condType, cond_Status = status, cond_LastTransitionTime = now,
       cond_Reason = reason, cond_Message = message\<rparr>]"
| "setCondition now (c # cs) condType status reason message =
     (if cond_Type c = condType
      then c\<lparr>cond_LastTransitionTime := (if cond_Status c \<noteq> status then now else cond_LastTransitionTime c),
              cond_Status := status, cond_Reason := reason, cond_Message := message\<rparr> # cs
      else c # setCondition now cs condType status reason message)"

text \<open>The condition a reader finds for a type: the first one.\<close>

fun find_condition :: "ConditionStatus list \<Rightarrow> string \<Rightarrow> ConditionStatus option" where
  "find_condition [] t = None"
| "find_condition (c # cs) t = (if cond_Type c = t then Some c else find_condition cs t)"

definition cond_status :: "ConditionStatus list \<Rightarrow> string \<Rightarrow> string option" where
  "cond_status cs t = map_option cond_Status (find_condition cs t)"

lemma find_setCondition:
  "find_condition (setCondition now cs t st r m) t' =
     (if t' = t
      then Some \<lparr>cond_Type = t, cond_Status = st,
             cond_LastTransitionTime = (case find_condition cs t of
                 None \<Rightarrow> now | Some c \<Rightarrow> if cond_Status c = st then cond_LastTransitionTime c else now),
             cond_Reason = r, cond_Message = m\<rparr>
      else find_condition cs t')"
  by (induction cs) auto

lemma cond_status_set [simp]:
  "cond_status (setCondition now cs t st r m) t' = (if t' = t then Some st else cond_status cs t')"
  by (simp add: cond_status_def find_setCondition)

lemma types_setCondition:
  "map cond_Type (setCondition now cs t st r m) =
     (if t \<in> set (map cond_Type cs) then map cond_Type cs else map cond_Type cs @ [t])"
  by (induction cs) auto

lemma setCondition_idem:
  "setCondition now' (setCondition now cs t st r m) t st r m = setCondition now cs t st r m"
  by (induction cs) auto

text \<open>
  \<^verbatim>\<open>setCondition\<close> keeps the list a set of conditions keyed by type: types stay unique and
  in order, the written type reads back with the new values, every other type is untouched,
  and the transition time moves exactly when the type is new or its status value changes.
\<close>

lemma setCondition_spec:
  assumes "distinct (map cond_Type cs)"
  shows "distinct (map cond_Type (setCondition now cs t st r m))
     \<and> prefix (map cond_Type cs) (map cond_Type (setCondition now cs t st r m))
     \<and> find_condition (setCondition now cs t st r m) t =
         Some \<lparr>cond_Type = t, cond_Status = st,
             cond_LastTransitionTime = (case find_condition cs t of
                 None \<Rightarrow> now | Some c \<Rightarrow> if cond_Status c = st then cond_LastTransitionTime c else now),
             cond_Reason = r, cond_Message = m\<rparr>
     \<and> (\<forall>t'. t' \<noteq> t \<longrightarrow> find_condition (setCondition now cs t st r m) t' = find_condition cs t')"
  using assms by (auto simp: types_setCondition find_setCondition)

lemma setCondition_spec_example:
  "find_condition (setCondition ''t1'' (setCondition ''t0'' [] ''Ready'' ''False'' ''a'' ''b'') ''Ready'' ''True'' ''c'' ''d'') ''Ready''
     = Some \<lparr>cond_Type = ''Ready'', cond_Status = ''True'', cond_LastTransitionTime = ''t1'',
             cond_Reason = ''c'', cond_Message = ''d''\<rparr>"
proof -
  have "distinct (map cond_Type (setCondition ''t0'' [] ''Ready'' ''False'' ''a'' ''b''))" by simp
  from setCondition_spec [OF this, of "''t1''" "''Ready''" "''True''" "''c''" "''d''"] show ?thesis by simp
qed

section \<open>Readiness from replicas\<close>

text \<open>
  The common tail of the component controllers: phase and conditions from the ready and the
  desired replica counts. The two clock readings are those of the two \<^verbatim>\<open>setCondition\<close> calls.
\<close>

definition replicas_ready :: "int32 \<Rightarrow> int32 \<Rightarrow> bool" where
  "replicas_ready readyReplicas replicas = (0 < sint readyReplicas \<and> readyReplicas = replicas)"

definition ready_message :: "int32 \<Rightarrow> int32 \<Rightarrow> string" where
  "ready_message readyReplicas replicas = dec_int32 readyReplicas @ ''/'' @ dec_int32 replicas @ '' replicas ready''"

definition ready_conditions ::
  "string \<Rightarrow> string \<Rightarrow> int32 \<Rightarrow> int32 \<Rightarrow> ConditionStatus list \<Rightarrow> ConditionStatus list" where
  "ready_conditions now1 now2 readyReplicas replicas cs =
     (if replicas_ready readyReplicas replicas
      then setCondition now2
             (setCondition now1 cs ConditionTypeReady ''True'' ''DeploymentReady'' ''All replicas are ready'')
             ConditionTypeProgressing ''False'' ''DeploymentComplete'' ''Deployment is complete''
      else setCondition now2
             (setCondition now1 cs ConditionTypeReady ''False'' ''DeploymentProgressing''
               (ready_message readyReplicas replicas))
             ConditionTypeProgressing ''True'' ''DeploymentProgressing'' ''Waiting for replicas'')"

definition set_ready_status ::
  "string \<Rightarrow> string \<Rightarrow> int32 \<Rightarrow> int32 \<Rightarrow> 'a ComponentStatus_scheme \<Rightarrow> 'a ComponentStatus_scheme" where
  "set_ready_status now1 now2 readyReplicas replicas st =
     st\<lparr>st_Phase := (if replicas_ready readyReplicas replicas then PhaseRunning else PhaseProgressing),
        st_Conditions := ready_conditions now1 now2 readyReplicas replicas (st_Conditions st)\<rparr>"

lemma ready_conditions_status:
  "cond_status (ready_conditions n1 n2 a b cs) t =
     (if t = ConditionTypeReady then Some (if replicas_ready a b then ''True'' else ''False'')
      else if t = ConditionTypeProgressing then Some (if replicas_ready a b then ''False'' else ''True'')
      else cond_status cs t)"
  by (simp add: ready_conditions_def condition_defs)

lemma setCondition_commute:
  "t \<noteq> t' \<Longrightarrow> t' \<in> set (map cond_Type cs) \<or> t \<in> set (map cond_Type cs) \<Longrightarrow>
   setCondition n (setCondition n' cs t' s' r' m') t s r m = setCondition n' (setCondition n cs t s r m) t' s' r' m'"
  by (induction cs) auto

lemma setCondition_present: "t \<in> set (map cond_Type (setCondition n cs t s r m))"
  by (induction cs) auto

text \<open>Reporting the same replica counts again leaves the conditions as they are.\<close>

lemma ready_conditions_idem:
  "ready_conditions n3 n4 a b (ready_conditions n1 n2 a b cs) = ready_conditions n1 n2 a b cs"
proof -
  have diff: "ConditionTypeReady \<noteq> ConditionTypeProgressing" by (simp add: condition_defs)
  have "setCondition n4 (setCondition n3 (setCondition n2 (setCondition n1 cs ConditionTypeReady s r m)
          ConditionTypeProgressing s' r' m') ConditionTypeReady s r m) ConditionTypeProgressing s' r' m'
      = setCondition n2 (setCondition n1 cs ConditionTypeReady s r m) ConditionTypeProgressing s' r' m'"
    for s r m s' r' m'
    using setCondition_commute [OF diff disjI2 [OF setCondition_present], of n3]
    by (simp add: setCondition_idem)
  then show ?thesis by (simp add: ready_conditions_def)
qed


end
