(* ===== verification/Api.thy ===== *)
theory Api
  imports Services StorkServer Status
begin

text \<open>
  The world of a reconciler: the Kubernetes objects it handles, its client, clock, random
  source and event recorder. The API server, controller-runtime (\<^verbatim>\<open>client.Client\<close>,
  \<^verbatim>\<open>controllerutil\<close>) and the clock are not part of the repository, so they are the fields of an
  environment record \<open>env\<close>, operations on an arbitrary state; the documented behaviour the proofs
  use is stated as predicates on it. Reconcilers are functions in the error-and-state style
  \<open>op\<close>.
\<close>

section \<open>Objects\<close>

text \<open>Objects without a Go type of their own (Routes, SCCs) are unstructured: a JSON tree.\<close>

record Unstructured =
  un_Kind :: string
  un_Owner :: "string option"
  un_Object :: json

datatype kobj =
    OConfigMap ConfigMap
  | ODeployment Deployment
  | OStatefulSet StatefulSet
  | OService Service
  | OSecret Secret
  | OServiceAccount ServiceAccount
  | ORoleBinding RoleBinding
  | OPodMonitor PodMonitor
  | OUnstructured Unstructured
  | ODhcp4 KeaDhcp4Server
  | ODhcp6 KeaDhcp6Server
  | OControlAgent KeaControlAgent
  | ODdns KeaDhcpDdns
  | OStorkServer KeaStorkServer
  | OKeaServer KeaServer
  | ONamespace ObjectMeta
  | OClusterRole ObjectMeta "(string \<times> string \<times> string \<times> string) list"

datatype okind =
    KConfigMap | KDeployment | KStatefulSet | KService | KSecret | KServiceAccount | KRoleBinding
  | KPodMonitor | KUnstructured string | KDhcp4 | KDhcp6 | KControlAgent | KDdns | KStorkServer
  | KKeaServer | KNamespace | KClusterRole

definition json_str :: "json option \<Rightarrow> string" where
  "json_str j = (case j of Some (JStr s) \<Rightarrow> s | _ \<Rightarrow> '''')"

definition un_meta_field :: "Unstructured \<Rightarrow> string \<Rightarrow> string" where
  "un_meta_field u k = json_str (Option.bind (jfield ''metadata'' (un_Object u)) (jfield k))"

fun kind_of :: "kobj \<Rightarrow> okind" where
  "kind_of (OConfigMap _) = KConfigMap"
| "kind_of (ODeployment _) = KDeployment"
| "kind_of (OStatefulSet _) = KStatefulSet"
| "kind_of (OService _) = KService"
| "kind_of (OSecret _) = KSecret"
| "kind_of (OServiceAccount _) = KServiceAccount"
| "kind_of (ORoleBinding _) = KRoleBinding"
| "kind_of (OPodMonitor _) = KPodMonitor"
| "kind_of (OUnstructured u) = KUnstructured (un_Kind u)"
| "kind_of (ODhcp4 _) = KDhcp4"
| "kind_of (ODhcp6 _) = KDhcp6"
| "kind_of (OControlAgent _) = KControlAgent"
| "kind_of (ODdns _) = KDdns"
| "kind_of (OStorkServer _) = KStorkServer"
| "kind_of (OKeaServer _) = KKeaServer"
| "kind_of (ONamespace _) = KNamespace"
| "kind_of (OClusterRole _ _) = KClusterRole"

text \<open>Metadata of an object; for an unstructured one, read off its tree.\<close>

fun obj_meta :: "kobj \<Rightarrow> ObjectMeta" where
  "obj_meta (OConfigMap x) = cm_Meta x"
| "obj_meta (ODeployment x) = dep_Meta x"
| "obj_meta (OStatefulSet x) = ste_Meta x"
| "obj_meta (OService x) = svc_Meta x"
| "obj_meta (OSecret x) = sec_Meta x"
| "obj_meta (OServiceAccount x) = sacc_Meta x"
| "obj_meta (ORoleBinding x) = rb_Meta x"
| "obj_meta (OPodMonitor x) = pm_Meta x"
| "obj_meta (OUnstructured u) =
     zero_ObjectMeta\<lparr>om_Name := un_meta_field u ''name'', om_Namespace := un_meta_field u ''namespace'',
       om_ControllerOwner := un_Owner u\<rparr>"
| "obj_meta (ODhcp4 x) = kd4_ObjectMeta x"
| "obj_meta (ODhcp6 x) = kd6_ObjectMeta x"
| "obj_meta (OControlAgent x) = kca_ObjectMeta x"
| "obj_meta (ODdns x) = kdd_ObjectMeta x"
| "obj_meta (OStorkServer x) = kss_ObjectMeta x"
| "obj_meta (OKeaServer x) = ksv_ObjectMeta x"
| "obj_meta (ONamespace m) = m"
| "obj_meta (OClusterRole m _) = m"

type_synonym okey = "okind \<times> string \<times> string"

definition obj_key :: "kobj \<Rightarrow> okey" where
  "obj_key o' = (kind_of o', om_Namespace (obj_meta o'), om_Name (obj_meta o'))"

definition obj_owner :: "kobj \<Rightarrow> string option" where
  "obj_owner o' = om_ControllerOwner (obj_meta o')"

section \<open>Operations with state and errors\<close>

type_synonym ('s, 'a) op = "'s \<Rightarrow> (goerror + 'a) \<times> 's"

definition ret :: "'a \<Rightarrow> ('s, 'a) op" where
  "ret x s = (Inr x, s)"

definition fail :: "goerror \<Rightarrow> ('s, 'a) op" where
  "fail e s = (Inl e, s)"

definition seq :: "('s, 'a) op \<Rightarrow> ('a \<Rightarrow> ('s, 'b) op) \<Rightarrow> ('s, 'b) op" where
  "seq m f s = (case m s of (Inl e, s') \<Rightarrow> (Inl e, s') | (Inr x, s') \<Rightarrow> f x s')"

text \<open>\<^verbatim>\<open>return fmt.Errorf("...: %w", err)\<close>\<close>

definition wrap_err :: "string \<Rightarrow> ('s, 'a) op \<Rightarrow> ('s, 'a) op" where
  "wrap_err msg m s = (case m s of (Inl e, s') \<Rightarrow> (Inl (Wrap msg e), s') | (Inr x, s') \<Rightarrow> (Inr x, s'))"

text \<open>A call whose error the code inspects itself or only logs.\<close>

definition attempt :: "('s, 'a) op \<Rightarrow> ('s, goerror + 'a) op" where
  "attempt m s = (case m s of (r, s') \<Rightarrow> (Inr r, s'))"

definition lift :: "goerror + 'a \<Rightarrow> ('s, 'a) op" where
  "lift r s = (r, s)"

definition modify :: "('s \<Rightarrow> 's) \<Rightarrow> ('s, unit) op" where
  "modify f s = (Inr (), f s)"

text \<open>\<^verbatim>\<open>for _, x := range xs { if err := f(x); err != nil { return err } }\<close>\<close>

fun for_each :: "('a \<Rightarrow> ('s, unit) op) \<Rightarrow> 'a list \<Rightarrow> ('s, unit) op" where
  "for_each f [] = ret ()"
| "for_each f (x # xs) = seq (f x) (\<lambda>_. for_each f xs)"

section \<open>Environment\<close>

record 's env =
  api_Get :: "okind \<Rightarrow> string \<Rightarrow> string \<Rightarrow> ('s, kobj) op"
  api_List :: "okind \<Rightarrow> string \<Rightarrow> ('s, kobj list) op"
  api_Create :: "kobj \<Rightarrow> ('s, unit) op"
  api_Delete :: "kobj \<Rightarrow> ('s, unit) op"
  api_StatusUpdate :: "kobj \<Rightarrow> ('s, unit) op"
  api_CreateOrUpdate :: "kobj \<Rightarrow> (kobj \<Rightarrow> goerror + kobj) \<Rightarrow> ('s, unit) op"
  api_SetControllerReference :: "ObjectMeta \<Rightarrow> kobj \<Rightarrow> goerror + kobj"
  api_Event :: "kobj \<Rightarrow> string \<Rightarrow> string \<Rightarrow> string \<Rightarrow> 's \<Rightarrow> 's"
  env_Now :: "('s, string) op"
  env_RandRead :: "nat \<Rightarrow> ('s, byte list) op"
  env_IsOpenShift :: bool
  env_Unmarshal :: "string \<Rightarrow> json option"
  env_ErrorText :: "goerror \<Rightarrow> string"
  env_URLHostname :: "string \<Rightarrow> string option"
  env_HostOrder :: "string strmap \<Rightarrow> string strmap"
  env_AddrOrder :: "(int, string) gomap \<Rightarrow> (int, string) gomap"

text \<open>
  \<^verbatim>\<open>SetControllerReference\<close> changes only the controller owner, which becomes the given object,
  and refuses an object that has another controller.
\<close>

definition own :: "string \<Rightarrow> ObjectMeta \<Rightarrow> ObjectMeta" where
  "own uid m = m\<lparr>om_ControllerOwner := Some uid\<rparr>"

fun set_owner :: "string \<Rightarrow> kobj \<Rightarrow> kobj" where
  "set_owner u (OConfigMap x) = OConfigMap (x\<lparr>cm_Meta := own u (cm_Meta x)\<rparr>)"
| "set_owner u (ODeployment x) = ODeployment (x\<lparr>dep_Meta := own u (dep_Meta x)\<rparr>)"
| "set_owner u (OStatefulSet x) = OStatefulSet (x\<lparr>ste_Meta := own u (ste_Meta x)\<rparr>)"
| "set_owner u (OService x) = OService (x\<lparr>svc_Meta := own u (svc_Meta x)\<rparr>)"
| "set_owner u (OSecret x) = OSecret (x\<lparr>sec_Meta := own u (sec_Meta x)\<rparr>)"
| "set_owner u (OServiceAccount x) = OServiceAccount (x\<lparr>sacc_Meta := own u (sacc_Meta x)\<rparr>)"
| "set_owner u (ORoleBinding x) = ORoleBinding (x\<lparr>rb_Meta := own u (rb_Meta x)\<rparr>)"
| "set_owner u (OPodMonitor x) = OPodMonitor (x\<lparr>pm_Meta := own u (pm_Meta x)\<rparr>)"
| "set_owner u (OUnstructured x) = OUnstructured (x\<lparr>un_Owner := Some u\<rparr>)"
| "set_owner u (ODhcp4 x) = ODhcp4 (x\<lparr>kd4_ObjectMeta := own u (kd4_ObjectMeta x)\<rparr>)"
| "set_owner u (ODhcp6 x) = ODhcp6 (x\<lparr>kd6_ObjectMeta := own u (kd6_ObjectMeta x)\<rparr>)"
| "set_owner u (OControlAgent x) = OControlAgent (x\<lparr>kca_ObjectMeta := own u (kca_ObjectMeta x)\<rparr>)"
| "set_owner u (ODdns x) = ODdns (x\<lparr>kdd_ObjectMeta := own u (kdd_ObjectMeta x)\<rparr>)"
| "set_owner u (OStorkServer x) = OStorkServer (x\<lparr>kss_ObjectMeta := own u (kss_ObjectMeta x)\<rparr>)"
| "set_owner u (OKeaServer x) = OKeaServer (x\<lparr>ksv_ObjectMeta := own u (ksv_ObjectMeta x)\<rparr>)"
| "set_owner u (ONamespace m) = ONamespace (own u m)"
| "set_owner u (OClusterRole m rs) = OClusterRole (own u m) rs"

lemma kind_set_owner [simp]: "kind_of (set_owner u x) = kind_of x"
  by (cases x) simp_all

lemma meta_set_owner: "obj_meta (set_owner u x) = own u (obj_meta x)"
  by (cases x) (simp_all add: own_def un_meta_field_def)

lemma key_set_owner [simp]: "obj_key (set_owner u x) = obj_key x"
  by (simp add: obj_key_def meta_set_owner own_def)

lemma owner_set_owner [simp]: "obj_owner (set_owner u x) = Some u"
  by (simp add: obj_owner_def meta_set_owner own_def)

definition claimable :: "string \<Rightarrow> kobj \<Rightarrow> bool" where
  "claimable uid x = (obj_owner x = None \<or> obj_owner x = Some uid)"

definition scr_law :: "'s env \<Rightarrow> bool" where
  "scr_law E = (\<forall>m o' o''. api_SetControllerReference E m o' = Inr o'' \<longrightarrow>
     o'' = set_owner (om_UID m) o' \<and> claimable (om_UID m) o')"

lemma scr_lawD:
  "scr_law E \<Longrightarrow> api_SetControllerReference E m x = Inr y \<Longrightarrow> y = set_owner (om_UID m) x \<and> claimable (om_UID m) x"
  by (simp add: scr_law_def)

section \<open>Invariants of the state\<close>

text \<open>
  \<open>keeps I m\<close>: the operation preserves the state invariant \<open>I\<close>. \<open>env_keeps E W I\<close>: reads, events and the
  clock preserve \<open>I\<close>, and so does every write that \<open>W\<close> permits, by the kind of write and the
  object written. If a reconciler keeps every \<open>I\<close> that its environment keeps for \<open>W\<close>, all it
  does to the cluster is permitted by \<open>W\<close>.
\<close>

datatype wop = WCreate | WApply | WDelete | WStatus

definition keeps :: "('s \<Rightarrow> bool) \<Rightarrow> ('s, 'a) op \<Rightarrow> bool" where
  "keeps I m = (\<forall>s. I s \<longrightarrow> I (snd (m s)))"

text \<open>An update of \<open>l\<close> to \<open>l'\<close> that takes control only of an object no other controller has.\<close>

definition claims :: "kobj \<Rightarrow> kobj \<Rightarrow> bool" where
  "claims l l' = (\<exists>uid. obj_owner l' = Some uid \<and> claimable uid l)"

definition env_keeps :: "'s env \<Rightarrow> (wop \<Rightarrow> kobj \<Rightarrow> bool) \<Rightarrow> ('s \<Rightarrow> bool) \<Rightarrow> bool" where
  "env_keeps E W I =
     ((\<forall>k ns n. keeps I (api_Get E k ns n)) \<and> (\<forall>k ns. keeps I (api_List E k ns))
      \<and> (\<forall>o' t r m s. I s \<longrightarrow> I (api_Event E o' t r m s)) \<and> keeps I (env_Now E) \<and> (\<forall>n. keeps I (env_RandRead E n))
      \<and> (\<forall>o'. W WCreate o' \<longrightarrow> keeps I (api_Create E o')) \<and> (\<forall>o'. W WDelete o' \<longrightarrow> keeps I (api_Delete E o'))
      \<and> (\<forall>o'. W WStatus o' \<longrightarrow> keeps I (api_StatusUpdate E o'))
      \<and> (\<forall>o' f. (\<forall>l l'. obj_key l = obj_key o' \<longrightarrow> f l = Inr l' \<longrightarrow> obj_key l' = obj_key l \<longrightarrow> W WApply l' \<and> claims l l')
           \<longrightarrow> keeps I (api_CreateOrUpdate E o' f)))"

named_theorems keeps_rules \<open>introduction rules for keeps\<close>

lemma keepsD: "keeps I m \<Longrightarrow> I s \<Longrightarrow> m s = (r, s') \<Longrightarrow> I s'"
  by (metis keeps_def snd_conv)

lemma keeps_ret [keeps_rules]: "keeps I (ret x)"
  by (simp add: keeps_def ret_def)

lemma keeps_fail [keeps_rules]: "keeps I (fail e)"
  by (simp add: keeps_def fail_def)

lemma keeps_lift [keeps_rules]: "keeps I (lift r)"
  by (simp add: keeps_def lift_def)

lemma keeps_seq [keeps_rules]: "keeps I m \<Longrightarrow> (\<And>x. keeps I (f x)) \<Longrightarrow> keeps I (seq m f)"
  by (auto simp: keeps_def seq_def split: prod.split sum.split)

lemma keeps_wrap [keeps_rules]: "keeps I m \<Longrightarrow> keeps I (wrap_err msg m)"
  by (auto simp: keeps_def wrap_err_def split: prod.split sum.split)

lemma keeps_attempt [keeps_rules]: "keeps I m \<Longrightarrow> keeps I (attempt m)"
  by (auto simp: keeps_def attempt_def split: prod.split)

lemma keeps_for_each [keeps_rules]: "(\<And>x. x \<in> set xs \<Longrightarrow> keeps I (f x)) \<Longrightarrow> keeps I (for_each f xs)"
  by (induction xs) (auto intro!: keeps_rules)

lemma keeps_if [keeps_rules]: "(b \<Longrightarrow> keeps I m) \<Longrightarrow> (\<not> b \<Longrightarrow> keeps I m') \<Longrightarrow> keeps I (if b then m else m')"
  by simp

lemma keeps_option [keeps_rules]:
  "(x = None \<Longrightarrow> keeps I m) \<Longrightarrow> (\<And>y. x = Some y \<Longrightarrow> keeps I (f y)) \<Longrightarrow> keeps I (case x of None \<Rightarrow> m | Some y \<Rightarrow> f y)"
  by (cases x) auto

lemma keeps_sum [keeps_rules]:
  "(\<And>e. x = Inl e \<Longrightarrow> keeps I (g e)) \<Longrightarrow> (\<And>y. x = Inr y \<Longrightarrow> keeps I (f y)) \<Longrightarrow>
   keeps I (case x of Inl e \<Rightarrow> g e | Inr y \<Rightarrow> f y)"
  by (cases x) auto

lemma keeps_env:
  assumes "env_keeps E W I"
  shows "keeps I (api_Get E k ns n)" "keeps I (api_List E k ns)" "keeps I (env_Now E)" "keeps I (env_RandRead E len)"
    "keeps I (modify (api_Event E o' t r m))"
    "W WCreate o' \<Longrightarrow> keeps I (api_Create E o')" "W WDelete o' \<Longrightarrow> keeps I (api_Delete E o')"
    "W WStatus o' \<Longrightarrow> keeps I (api_StatusUpdate E o')"
  using assms by (simp_all add: env_keeps_def keeps_def modify_def)

lemma keeps_CreateOrUpdate:
  assumes "env_keeps E W I"
    and "\<And>l l'. obj_key l = obj_key o' \<Longrightarrow> f l = Inr l' \<Longrightarrow> obj_key l' = obj_key l \<Longrightarrow> W WApply l' \<and> claims l l'"
  shows "keeps I (api_CreateOrUpdate E o' f)"
  using assms unfolding env_keeps_def by blast

lemma keeps_list [keeps_rules]:
  "(xs = [] \<Longrightarrow> keeps I m) \<Longrightarrow> (\<And>y ys. xs = y # ys \<Longrightarrow> keeps I (f y ys)) \<Longrightarrow>
   keeps I (case xs of [] \<Rightarrow> m | y # ys \<Rightarrow> f y ys)"
  by (cases xs) auto

end
