(* ===== verification/Reconciler.thy ===== *)
theory Reconciler
  imports Api
begin

text \<open>
  The helpers shared by the controllers, \<^verbatim>\<open>src/internal/controller/reconciler.go\<close>, and the cluster
  set-up of \<^verbatim>\<open>src/internal/controller/setup.go\<close>: create-or-update with the mutate functions,
  secret lookup, discovery of the Stork server, Routes, namespaces, SCCs and role bindings.
  Logging is left out. Messages of wrapped errors keep their constant part.
\<close>

section \<open>Mutate functions\<close>

definition with_labels :: "ObjectMeta \<Rightarrow> ObjectMeta \<Rightarrow> ObjectMeta" where
  "with_labels live desired = live\<lparr>om_Labels := om_Labels desired\<rparr>"

text \<open>The Service arm keeps the cluster addresses the API server assigned.\<close>

definition keepClusterIP :: "ServiceSpec \<Rightarrow> ServiceSpec \<Rightarrow> ServiceSpec" where
  "keepClusterIP live desiredSpec =
     (let clusterIP = svs_ClusterIP live; clusterIPs = svs_ClusterIPs live;
          spec = desiredSpec;
          spec = (if clusterIP \<noteq> '''' then spec\<lparr>svs_ClusterIP := clusterIP\<rparr> else spec);
          spec = (if 0 < length clusterIPs then spec\<lparr>svs_ClusterIPs := clusterIPs\<rparr> else spec)
      in spec)"

text \<open>
  What the mutate function does to the live object before it sets the owner: the desired
  object is captured, the live one has been read into the same variable.
\<close>

definition applyDesired :: "kobj \<Rightarrow> kobj \<Rightarrow> kobj" where
  "applyDesired desired live =
     (case desired of
        OConfigMap d \<Rightarrow> (case live of
            OConfigMap l \<Rightarrow> OConfigMap (l\<lparr>cm_Data := cm_Data d, cm_Meta := with_labels (cm_Meta l) (cm_Meta d)\<rparr>)
          | _ \<Rightarrow> live)
      | ODeployment d \<Rightarrow> (case live of
            ODeployment l \<Rightarrow> ODeployment (l\<lparr>dep_Spec := dep_Spec d, dep_Meta := with_labels (dep_Meta l) (dep_Meta d)\<rparr>)
          | _ \<Rightarrow> live)
      | OStatefulSet d \<Rightarrow> (case live of
            OStatefulSet l \<Rightarrow> OStatefulSet (l\<lparr>ste_Spec := ste_Spec d, ste_Meta := with_labels (ste_Meta l) (ste_Meta d)\<rparr>)
          | _ \<Rightarrow> live)
      | OService d \<Rightarrow> (case live of
            OService l \<Rightarrow> OService (l\<lparr>svc_Spec := keepClusterIP (svc_Spec l) (svc_Spec d), svc_Meta := with_labels (svc_Meta l) (svc_Meta d)\<rparr>)
          | _ \<Rightarrow> live)
      | OSecret d \<Rightarrow> (case live of
            OSecret l \<Rightarrow> OSecret (l\<lparr>sec_Data := sec_Data d, sec_Meta := with_labels (sec_Meta l) (sec_Meta d)\<rparr>)
          | _ \<Rightarrow> live)
      | OServiceAccount d \<Rightarrow> (case live of
            OServiceAccount l \<Rightarrow> OServiceAccount (l\<lparr>sacc_Meta := with_labels (sacc_Meta l) (sacc_Meta d)\<rparr>)
          | _ \<Rightarrow> live)
      | ORoleBinding d \<Rightarrow> (case live of
            ORoleBinding l \<Rightarrow> ORoleBinding (l\<lparr>rb_Subjects := rb_Subjects d, rb_RoleRefAPIGroup := rb_RoleRefAPIGroup d, rb_RoleRefKind := rb_RoleRefKind d, rb_RoleRefName := rb_RoleRefName d, rb_Meta := with_labels (rb_Meta l) (rb_Meta d)\<rparr>)
          | _ \<Rightarrow> live)
      | OPodMonitor d \<Rightarrow> (case live of
            OPodMonitor l \<Rightarrow> OPodMonitor (l\<lparr>pm_Spec := pm_Spec d, pm_Meta := with_labels (pm_Meta l) (pm_Meta d)\<rparr>)
          | _ \<Rightarrow> live)
      | _ \<Rightarrow> live)"

definition buildMutateFn :: "'s env \<Rightarrow> ObjectMeta \<Rightarrow> kobj \<Rightarrow> kobj \<Rightarrow> goerror + kobj" where
  "buildMutateFn E owner desired live = api_SetControllerReference E owner (applyDesired desired live)"

section \<open>reconcileResource and reconcileRoute\<close>

definition reconcileResource :: "'s env \<Rightarrow> ObjectMeta \<Rightarrow> kobj \<Rightarrow> ('s, unit) op" where
  "reconcileResource E owner obj =
     seq (wrap_err ''setting controller reference'' (lift (api_SetControllerReference E owner obj)))
       (\<lambda>obj. wrap_err ''reconciling'' (api_CreateOrUpdate E obj (buildMutateFn E owner obj)))"

fun jset :: "string \<Rightarrow> json \<Rightarrow> json \<Rightarrow> json" where
  "jset k v (JObj m) = JObj (map_set m k v)"
| "jset k v j = j"

text \<open>\<^verbatim>\<open>SetNestedMap(route.Object, desiredSpec, "spec")\<close> and \<^verbatim>\<open>SetLabels\<close> on the live Route.\<close>

definition applyRoute :: "Unstructured \<Rightarrow> Unstructured \<Rightarrow> Unstructured" where
  "applyRoute desired live =
     (let obj = (case jfield ''spec'' (un_Object desired) of
                   None \<Rightarrow> un_Object live | Some spec \<Rightarrow> jset ''spec'' spec (un_Object live));
          obj = (case Option.bind (jfield ''metadata'' (un_Object desired)) (jfield ''labels'') of
                   None \<Rightarrow> obj
                 | Some lbls \<Rightarrow>
                     (case jfield ''metadata'' obj of None \<Rightarrow> obj | Some md \<Rightarrow> jset ''metadata'' (jset ''labels'' lbls md) obj))
      in live\<lparr>un_Object := obj\<rparr>)"

definition mutateRoute :: "'s env \<Rightarrow> ObjectMeta \<Rightarrow> kobj \<Rightarrow> kobj \<Rightarrow> goerror + kobj" where
  "mutateRoute E owner desired live =
     (case (desired, live) of
        (OUnstructured d, OUnstructured l) \<Rightarrow> api_SetControllerReference E owner (OUnstructured (applyRoute d l))
      | _ \<Rightarrow> api_SetControllerReference E owner live)"

definition route_obj :: "json \<Rightarrow> kobj" where
  "route_obj j = OUnstructured \<lparr>un_Kind = kindRoute, un_Owner = None, un_Object = j\<rparr>"

definition reconcileRoute :: "'s env \<Rightarrow> ObjectMeta \<Rightarrow> json \<Rightarrow> ('s, unit) op" where
  "reconcileRoute E owner route =
     seq (wrap_err ''setting controller reference on Route'' (lift (api_SetControllerReference E owner (route_obj route))))
       (\<lambda>obj. wrap_err ''reconciling Route'' (api_CreateOrUpdate E obj (mutateRoute E owner obj)))"

section \<open>Status conditions with the clock\<close>

definition setConditionNow ::
  "'s env \<Rightarrow> ConditionStatus list \<Rightarrow> string \<Rightarrow> string \<Rightarrow> string \<Rightarrow> string \<Rightarrow> ('s, ConditionStatus list) op" where
  "setConditionNow E cs condType status reason message =
     seq (env_Now E) (\<lambda>now. ret (setCondition now cs condType status reason message))"

text \<open>The shared tail of the component controllers, with its two clock readings.\<close>

definition setReadyStatus :: "'s env \<Rightarrow> int32 \<Rightarrow> int32 \<Rightarrow> 'a ComponentStatus_scheme \<Rightarrow> ('s, 'a ComponentStatus_scheme) op" where
  "setReadyStatus E readyReplicas replicas st =
     seq (env_Now E) (\<lambda>n1. seq (env_Now E) (\<lambda>n2. ret (set_ready_status n1 n2 readyReplicas replicas st)))"

section \<open>Lookups\<close>

text \<open>A typed \<^verbatim>\<open>Get\<close>: an object of another type would be a decoding error of the client.\<close>

definition decode :: "(kobj \<Rightarrow> 'a option) \<Rightarrow> kobj \<Rightarrow> ('s, 'a) op" where
  "decode sel o' = (case sel o' of None \<Rightarrow> fail (ApiError ''decode'') | Some x \<Rightarrow> ret x)"

definition get_as :: "'s env \<Rightarrow> okind \<Rightarrow> (kobj \<Rightarrow> 'a option) \<Rightarrow> string \<Rightarrow> string \<Rightarrow> ('s, 'a) op" where
  "get_as E k sel ns n = seq (api_Get E k ns n) (decode sel)"

definition as_secret :: "kobj \<Rightarrow> Secret option" where
  "as_secret o' = (case o' of OSecret x \<Rightarrow> Some x | _ \<Rightarrow> None)"
definition as_deployment :: "kobj \<Rightarrow> Deployment option" where
  "as_deployment o' = (case o' of ODeployment x \<Rightarrow> Some x | _ \<Rightarrow> None)"
definition as_statefulset :: "kobj \<Rightarrow> StatefulSet option" where
  "as_statefulset o' = (case o' of OStatefulSet x \<Rightarrow> Some x | _ \<Rightarrow> None)"
definition as_storkserver :: "kobj \<Rightarrow> KeaStorkServer option" where
  "as_storkserver o' = (case o' of OStorkServer x \<Rightarrow> Some x | _ \<Rightarrow> None)"
definition as_dhcp4 :: "kobj \<Rightarrow> KeaDhcp4Server option" where
  "as_dhcp4 o' = (case o' of ODhcp4 x \<Rightarrow> Some x | _ \<Rightarrow> None)"
definition as_dhcp6 :: "kobj \<Rightarrow> KeaDhcp6Server option" where
  "as_dhcp6 o' = (case o' of ODhcp6 x \<Rightarrow> Some x | _ \<Rightarrow> None)"

definition resolveSecretValue :: "'s env \<Rightarrow> string \<Rightarrow> LocalObjectReference option \<Rightarrow> string \<Rightarrow> ('s, string) op" where
  "resolveSecretValue E namespace ref key =
     (case ref of
        None \<Rightarrow> fail (Errorf ''secret reference is nil'')
      | Some r \<Rightarrow>
          seq (attempt (get_as E KSecret as_secret namespace (lor_Name r))) (\<lambda>res.
            case res of
              Inl e \<Rightarrow> if IsNotFound e then fail (Errorf ''secret not found'') else fail (Wrap ''fetching secret'' e)
            | Inr secret \<Rightarrow>
                (case map_get (sec_Data secret) key of
                   None \<Rightarrow> fail (Errorf ''key not found in secret'')
                 | Some val \<Rightarrow> ret val)))"

record StorkServerInfo =
  ssi_ServerURL :: string
  ssi_TokenSecretName :: string

definition storkServerInfoFromCR :: "KeaStorkServer \<Rightarrow> StorkServerInfo" where
  "storkServerInfoFromCR server =
     (let port = (case ss_Port (kss_Spec server) of None \<Rightarrow> DefaultStorkServerPort | Some p \<Rightarrow> p);
          name = om_Name (kss_ObjectMeta server);
          svcName = ServiceName name StorkServerComponent
      in \<lparr>ssi_ServerURL = ''http://'' @ svcName @ ''.'' @ om_Namespace (kss_ObjectMeta server)
            @ ''.svc.cluster.local:'' @ dec_int32 port,
          ssi_TokenSecretName = StorkServerTokenSecretName name\<rparr>)"

definition resolveStorkServer :: "'s env \<Rightarrow> string \<Rightarrow> LocalObjectReference option \<Rightarrow> ('s, StorkServerInfo option) op" where
  "resolveStorkServer E namespace ref =
     (case ref of
        Some r \<Rightarrow>
          seq (attempt (get_as E KStorkServer as_storkserver namespace (lor_Name r))) (\<lambda>res.
            case res of Inl e \<Rightarrow> ret None | Inr server \<Rightarrow> ret (Some (storkServerInfoFromCR server)))
      | None \<Rightarrow>
          seq (attempt (api_List E KStorkServer namespace)) (\<lambda>res.
            case res of
              Inl e \<Rightarrow> ret None
            | Inr items \<Rightarrow>
                (case List.map_filter as_storkserver items of
                   [] \<Rightarrow> ret None
                 | server # _ \<Rightarrow> ret (Some (storkServerInfoFromCR server)))))"

definition stork_enabled :: "StorkAgentConfig option \<Rightarrow> bool" where
  "stork_enabled c = (case c of None \<Rightarrow> False | Some x \<Rightarrow> sa_Enabled x)"

text \<open>A reconcile request is a namespace and a name.\<close>

definition listStorkEnabledDhcp4 :: "'s env \<Rightarrow> string \<Rightarrow> ('s, (string \<times> string) list) op" where
  "listStorkEnabledDhcp4 E namespace =
     seq (attempt (api_List E KDhcp4 namespace)) (\<lambda>res.
       case res of
         Inl e \<Rightarrow> ret []
       | Inr items \<Rightarrow>
           ret (map (\<lambda>s. (om_Namespace (kd4_ObjectMeta s), om_Name (kd4_ObjectMeta s)))
             (filter (\<lambda>s. stork_enabled (d4_Stork (kd4_Spec s))) (List.map_filter as_dhcp4 items))))"

definition listStorkEnabledDhcp6 :: "'s env \<Rightarrow> string \<Rightarrow> ('s, (string \<times> string) list) op" where
  "listStorkEnabledDhcp6 E namespace =
     seq (attempt (api_List E KDhcp6 namespace)) (\<lambda>res.
       case res of
         Inl e \<Rightarrow> ret []
       | Inr items \<Rightarrow>
           ret (map (\<lambda>s. (om_Namespace (kd6_ObjectMeta s), om_Name (kd6_ObjectMeta s)))
             (filter (\<lambda>s. stork_enabled (d6_Stork (kd6_Spec s))) (List.map_filter as_dhcp6 items))))"

definition enqueueStorkDependents ::
  "('s env \<Rightarrow> string \<Rightarrow> ('s, (string \<times> string) list) op) \<Rightarrow> 's env \<Rightarrow> kobj \<Rightarrow> ('s, (string \<times> string) list) op" where
  "enqueueStorkDependents listFn E obj = listFn E (om_Namespace (obj_meta obj))"

text \<open>
  Steps shared by the DHCPv4 and DHCPv6 reconcilers: the sidecar's parameters, with discovery
  of the server and its token when no URL is given.
\<close>

definition resolveStorkAgent :: "'s env \<Rightarrow> string \<Rightarrow> StorkAgentConfig option \<Rightarrow> ('s, StorkSidecarParams option) op" where
  "resolveStorkAgent E namespace stork =
     (case stork of
        None \<Rightarrow> ret None
      | Some cfg \<Rightarrow>
          if \<not> sa_Enabled cfg then ret None
          else
            seq (if sa_ServerURL cfg = ''''
                 then seq (resolveStorkServer E namespace (sa_StorkServerRef cfg)) (\<lambda>info.
                        case info of
                          None \<Rightarrow> ret cfg
                        | Some i \<Rightarrow> ret (cfg\<lparr>sa_ServerURL := ssi_ServerURL i,
                                          sa_ServerTokenSecretRef := Some \<lparr>lor_Name = ssi_TokenSecretName i\<rparr>\<rparr>))
                 else ret cfg) (\<lambda>storkCfg.
            seq (case sa_ServerTokenSecretRef storkCfg of
                   None \<Rightarrow> ret ''''
                 | Some ref \<Rightarrow>
                     seq (attempt (resolveSecretValue E namespace (Some ref) ''token''))
                       (\<lambda>r. ret (case r of Inl _ \<Rightarrow> '''' | Inr t \<Rightarrow> t))) (\<lambda>serverToken.
            wrap_err ''resolving stork agent params'' (lift (ResolveStorkParams (Some storkCfg) serverToken)))))"

section \<open>setup.go\<close>

definition DefaultNamespace :: string where "DefaultNamespace = ''kea-system''"
definition sccName :: string where "sccName = ''kea-dhcp''"
definition sccClusterRole :: string where "sccClusterRole = ''system:openshift:scc:kea-dhcp''"

definition ignore_exists :: "string \<Rightarrow> ('s, unit) op \<Rightarrow> ('s, unit) op" where
  "ignore_exists msg create =
     seq (attempt create) (\<lambda>r. case r of
       Inl e \<Rightarrow> if IsAlreadyExists e then ret () else fail (Wrap msg e)
     | Inr _ \<Rightarrow> ret ())"

definition EnsureDefaultNamespace :: "'s env \<Rightarrow> ('s, unit) op" where
  "EnsureDefaultNamespace E =
     ignore_exists ''creating namespace'' (api_Create E (ONamespace (zero_ObjectMeta\<lparr>om_Name := DefaultNamespace\<rparr>)))"

definition scc_object :: json where
  "scc_object =
     (let t = (\<lambda>s. JObj (map_lit [(''type'', JStr s)])) in
      JObj (map_lit
       [(''apiVersion'', JStr ''security.openshift.io/v1''),
        (''kind'', JStr ''SecurityContextConstraints''),
        (''metadata'', JObj (map_lit
          [(''name'', JStr sccName),
           (''annotations'', JObj (map_lit
             [(''kubernetes.io/description'',
               JStr (''Minimal SCC for Kea DHCP server pods. Grants NET_RAW and NET_BIND_SERVICE ''
                 @ ''(required for raw DHCP sockets and binding to ports < 1024). ''
                 @ ''Optionally allows NET_ADMIN for NAD-attached interfaces.''))]))])),
        (''allowPrivilegedContainer'', JBool False),
        (''allowPrivilegeEscalation'', JBool True),
        (''allowHostDirVolumePlugin'', JBool False),
        (''allowHostIPC'', JBool False),
        (''allowHostNetwork'', JBool False),
        (''allowHostPID'', JBool False),
        (''allowHostPorts'', JBool False),
        (''readOnlyRootFilesystem'', JBool False),
        (''requiredDropCapabilities'', JStrs [''ALL'']),
        (''allowedCapabilities'', JStrs [''NET_RAW'', ''NET_BIND_SERVICE'', ''NET_ADMIN'']),
        (''defaultAddCapabilities'', JArr []),
        (''runAsUser'', t ''RunAsAny''),
        (''seLinuxContext'', t ''MustRunAs''),
        (''fsGroup'', t ''MustRunAs''),
        (''supplementalGroups'', t ''RunAsAny''),
        (''volumes'', JStrs [''configMap'', ''downwardAPI'', ''emptyDir'', ''projected'', ''secret''])]))"

definition EnsureSCC :: "'s env \<Rightarrow> ('s, unit) op" where
  "EnsureSCC E =
     seq (attempt (api_Get E (KUnstructured ''SecurityContextConstraints'') '''' sccName)) (\<lambda>r. case r of
       Inr _ \<Rightarrow> ret ()
     | Inl e \<Rightarrow>
         if \<not> IsNotFound e then fail (Wrap ''checking SCC'' e)
         else wrap_err ''creating SCC''
           (api_Create E (OUnstructured \<lparr>un_Kind = ''SecurityContextConstraints'', un_Owner = None, un_Object = scc_object\<rparr>)))"

definition operator_labels :: labels where
  "operator_labels = map_lit [(''app.kubernetes.io/managed-by'', ''kea-dhcp-operator'')]"

definition EnsureSCCClusterRole :: "'s env \<Rightarrow> ('s, unit) op" where
  "EnsureSCCClusterRole E =
     seq (attempt (api_Get E KClusterRole '''' sccClusterRole)) (\<lambda>r. case r of
       Inr _ \<Rightarrow> ret ()
     | Inl e \<Rightarrow>
         ignore_exists ''creating ClusterRole''
           (api_Create E (OClusterRole (zero_ObjectMeta\<lparr>om_Name := sccClusterRole, om_Labels := operator_labels\<rparr>)
              [(''security.openshift.io'', ''securitycontextconstraints'', sccName, ''use'')])))"

definition scc_binding :: "string \<Rightarrow> string \<Rightarrow> RoleBinding" where
  "scc_binding namespace crName =
     (let saName = ServiceAccountName crName
      in \<lparr>rb_Meta = object_meta (''kea-dhcp-scc-'' @ saName) namespace operator_labels,
          rb_RoleRefAPIGroup = ''rbac.authorization.k8s.io'', rb_RoleRefKind = ''ClusterRole'',
          rb_RoleRefName = sccClusterRole, rb_Subjects = [(''ServiceAccount'', saName, namespace)]\<rparr>)"

definition ensureSCCRoleBinding :: "'s env \<Rightarrow> string \<Rightarrow> string \<Rightarrow> ('s, unit) op" where
  "ensureSCCRoleBinding E namespace crName =
     seq (attempt (api_Get E KRoleBinding namespace (''kea-dhcp-scc-'' @ ServiceAccountName crName))) (\<lambda>r. case r of
       Inr _ \<Rightarrow> ret ()
     | Inl e \<Rightarrow> ignore_exists ''creating SCC RoleBinding'' (api_Create E (ORoleBinding (scc_binding namespace crName))))"

text \<open>The guarded call of the component controllers; its error is only logged.\<close>

definition bindSCC :: "'s env \<Rightarrow> ObjectMeta \<Rightarrow> ('s, unit) op" where
  "bindSCC E owner =
     (if env_IsOpenShift E \<and> om_Namespace owner = DefaultNamespace
      then seq (attempt (ensureSCCRoleBinding E (om_Namespace owner) (om_Name owner))) (\<lambda>_. ret ())
      else ret ())"

section \<open>Effects of the shared steps\<close>

lemma with_labels_fields [simp]:
  "om_Name (with_labels l d) = om_Name l" "om_Namespace (with_labels l d) = om_Namespace l"
  "om_Labels (with_labels l d) = om_Labels d" "om_ControllerOwner (with_labels l d) = om_ControllerOwner l"
  by (simp_all add: with_labels_def)

lemma kind_applyDesired [simp]: "kind_of (applyDesired d l) = kind_of l"
  by (cases d; cases l) (simp_all add: applyDesired_def)

lemma owner_applyDesired [simp]: "obj_owner (applyDesired d l) = obj_owner l"
  by (cases d; cases l) (simp_all add: applyDesired_def obj_owner_def)

lemma key_applyDesired [simp]: "obj_key (applyDesired d l) = obj_key l"
  by (cases d; cases l) (simp_all add: applyDesired_def obj_key_def)

lemma jfield_jset: "jfield k (jset k' v j) = (if k = k' \<and> (\<exists>m. j = JObj m) then Some v else jfield k j)"
  by (cases j) (auto simp: map_laws)

lemma meta_applyRoute:
  "un_meta_field (applyRoute d l) ''name'' = un_meta_field l ''name''"
  "un_meta_field (applyRoute d l) ''namespace'' = un_meta_field l ''namespace''"
  by (auto simp: applyRoute_def un_meta_field_def Let_def jfield_jset bind_eq_Some_conv split: option.split)

lemma owner_applyRoute [simp]: "obj_owner (OUnstructured (applyRoute d l)) = obj_owner (OUnstructured l)"
  by (simp add: obj_owner_def applyRoute_def Let_def)

lemma key_applyRoute [simp]: "obj_key (OUnstructured (applyRoute d l)) = obj_key (OUnstructured l)"
  by (simp add: obj_key_def meta_applyRoute) (simp add: applyRoute_def Let_def)

text \<open>\<open>covers W uid K\<close>: every object with key \<open>K\<close> that \<open>uid\<close> controls may be applied.\<close>

definition covers :: "(wop \<Rightarrow> kobj \<Rightarrow> bool) \<Rightarrow> string \<Rightarrow> okey \<Rightarrow> bool" where
  "covers W uid K = (\<forall>x. obj_key x = K \<longrightarrow> obj_owner x = Some uid \<longrightarrow> W WApply x)"

lemma keeps_owned_write:
  assumes "env_keeps E W I" "scr_law E" "covers W (om_UID owner) (obj_key obj)"
    and "\<And>o' l l'. obj_key l = obj_key obj \<Longrightarrow> mut o' l = Inr l' \<Longrightarrow>
      obj_key l' = obj_key l \<and> obj_owner l' = Some (om_UID owner) \<and> claimable (om_UID owner) l"
  shows "keeps I (seq (wrap_err m1 (lift (api_SetControllerReference E owner obj)))
                   (\<lambda>o'. wrap_err m2 (api_CreateOrUpdate E o' (mut o'))))"
proof (cases "api_SetControllerReference E owner obj")
  case (Inl e)
  then show ?thesis by (simp add: keeps_def seq_def wrap_err_def lift_def)
next
  case (Inr o')
  with assms(2) have o': "o' = set_owner (om_UID owner) obj" using scr_lawD by blast
  have "keeps I (api_CreateOrUpdate E o' (mut o'))"
  proof (rule keeps_CreateOrUpdate [OF assms(1)])
    fix l l' assume "obj_key l = obj_key o'" and "mut o' l = Inr l'"
    with assms(4) [of l o' l'] assms(3) show "W WApply l' \<and> claims l l'" by (simp add: o' covers_def claims_def)
  qed
  then have "keeps I (wrap_err m2 (api_CreateOrUpdate E o' (mut o')))" by (rule keeps_wrap)
  with Inr show ?thesis by (simp add: keeps_def seq_def wrap_err_def lift_def)
qed

lemma keeps_reconcileResource:
  assumes "env_keeps E W I" "scr_law E" "covers W (om_UID owner) (obj_key obj)"
  shows "keeps I (reconcileResource E owner obj)"
  unfolding reconcileResource_def
  by (intro keeps_owned_write [OF assms]) (auto simp: buildMutateFn_def claimable_def dest: scr_lawD [OF assms(2)])

lemma keeps_reconcileRoute:
  assumes "env_keeps E W I" "scr_law E" "covers W (om_UID owner) (obj_key (route_obj route))"
  shows "keeps I (reconcileRoute E owner route)"
  unfolding reconcileRoute_def
proof (intro keeps_owned_write [OF assms])
  fix o' l l' assume k: "obj_key l = obj_key (route_obj route)" and m: "mutateRoute E owner o' l = Inr l'"
  from m obtain x where "api_SetControllerReference E owner x = Inr l'" and "obj_key x = obj_key l" and "obj_owner x = obj_owner l"
    by (cases o'; cases l) (auto simp: mutateRoute_def)
  with assms(2) show "obj_key l' = obj_key l \<and> obj_owner l' = Some (om_UID owner) \<and> claimable (om_UID owner) l"
    by (auto simp: claimable_def dest: scr_lawD)
qed

lemma keeps_get_as: "env_keeps E W I \<Longrightarrow> keeps I (get_as E k sel ns n)"
  unfolding get_as_def decode_def by (intro keeps_rules keeps_env(1))

lemma keeps_resolveSecretValue: "env_keeps E W I \<Longrightarrow> keeps I (resolveSecretValue E ns ref key)"
  unfolding resolveSecretValue_def by (intro keeps_rules keeps_get_as)

lemma keeps_resolveStorkServer: "env_keeps E W I \<Longrightarrow> keeps I (resolveStorkServer E ns ref)"
  unfolding resolveStorkServer_def by (intro keeps_rules keeps_get_as keeps_list) (rule keeps_env)+

lemma keeps_resolveStorkAgent: "env_keeps E W I \<Longrightarrow> keeps I (resolveStorkAgent E ns cfg)"
  unfolding resolveStorkAgent_def
  by (intro keeps_rules keeps_resolveStorkServer keeps_resolveSecretValue)

lemma keeps_setReadyStatus: "env_keeps E W I \<Longrightarrow> keeps I (setReadyStatus E r n st)"
  unfolding setReadyStatus_def by (intro keeps_rules keeps_env(3))

lemma keeps_setConditionNow: "env_keeps E W I \<Longrightarrow> keeps I (setConditionNow E cs t st r m)"
  unfolding setConditionNow_def by (intro keeps_rules keeps_env(3))

lemma keeps_bindSCC:
  assumes "env_keeps E W I" "W WCreate (ORoleBinding (scc_binding (om_Namespace owner) (om_Name owner)))"
  shows "keeps I (bindSCC E owner)"
  unfolding bindSCC_def ensureSCCRoleBinding_def ignore_exists_def
  by (intro keeps_rules keeps_env(1) [OF assms(1)] keeps_env(6) [OF assms(1)] assms(2))

end
