(* ===== verification/ApiStore.thy ===== *)
theory ApiStore
  imports Reconciler
begin

text \<open>
  The cluster as a store of objects. \<open>store_law E look\<close> states what the operator relies on of the
  API server and of \<^verbatim>\<open>controllerutil\<close>: which objects a call may change and how, with \<open>look\<close> the objects
  of a state by key. The store is that of one actor: other writers are not part of a call.
  From the law follow the frame of a reconciler that keeps every permitted invariant, and
  triples on what a successful call leaves in the store. \<open>mem_env\<close> is a concrete environment
  over an in-memory store that satisfies the law.
\<close>

section \<open>Triples\<close>

text \<open>\<open>valid P m Q\<close>: when \<open>m\<close> succeeds from a state in \<open>P\<close>, its result and state are in \<open>Q\<close>.\<close>

definition valid :: "('s \<Rightarrow> bool) \<Rightarrow> ('s, 'a) op \<Rightarrow> ('a \<Rightarrow> 's \<Rightarrow> bool) \<Rightarrow> bool" where
  "valid P m Q = (\<forall>s x s'. P s \<longrightarrow> m s = (Inr x, s') \<longrightarrow> Q x s')"

lemma validI: "(\<And>s x s'. P s \<Longrightarrow> m s = (Inr x, s') \<Longrightarrow> Q x s') \<Longrightarrow> valid P m Q"
  by (auto simp: valid_def)

lemma validD: "valid P m Q \<Longrightarrow> P s \<Longrightarrow> m s = (Inr x, s') \<Longrightarrow> Q x s'"
  by (auto simp: valid_def)

lemma valid_seq: "valid P m R \<Longrightarrow> (\<And>x. valid (R x) (f x) Q) \<Longrightarrow> valid P (seq m f) Q"
  by (fastforce simp: valid_def seq_def split: prod.splits sum.splits)

lemma valid_wrap: "valid P m Q \<Longrightarrow> valid P (wrap_err msg m) Q"
  by (auto simp: valid_def wrap_err_def split: prod.splits sum.splits)

lemma valid_keeps: "keeps I m \<Longrightarrow> valid I m (\<lambda>_. I)"
  by (fastforce simp: valid_def keeps_def)

lemma valid_conj: "valid P m Q \<Longrightarrow> valid P' m Q' \<Longrightarrow> valid (\<lambda>s. P s \<and> P' s) m (\<lambda>x s. Q x s \<and> Q' x s)"
  unfolding valid_def by blast

lemma valid_pre: "valid P m Q \<Longrightarrow> (\<And>s. P' s \<Longrightarrow> P s) \<Longrightarrow> valid P' m Q"
  unfolding valid_def by blast

lemma valid_post: "valid P m Q \<Longrightarrow> (\<And>x s. Q x s \<Longrightarrow> Q' x s) \<Longrightarrow> valid P m Q'"
  unfolding valid_def by blast

section \<open>The law of the store\<close>

text \<open>\<open>set_status live new\<close>: what an update of the status subresource stores.\<close>

definition set_status :: "kobj \<Rightarrow> kobj \<Rightarrow> kobj" where
  "set_status live new =
     (case new of
        ODhcp4 n \<Rightarrow> (case live of ODhcp4 l \<Rightarrow> ODhcp4 (l\<lparr>kd4_Status := kd4_Status n\<rparr>) | _ \<Rightarrow> live)
      | ODhcp6 n \<Rightarrow> (case live of ODhcp6 l \<Rightarrow> ODhcp6 (l\<lparr>kd6_Status := kd6_Status n\<rparr>) | _ \<Rightarrow> live)
      | OControlAgent n \<Rightarrow> (case live of OControlAgent l \<Rightarrow> OControlAgent (l\<lparr>kca_Status := kca_Status n\<rparr>) | _ \<Rightarrow> live)
      | ODdns n \<Rightarrow> (case live of ODdns l \<Rightarrow> ODdns (l\<lparr>kdd_Status := kdd_Status n\<rparr>) | _ \<Rightarrow> live)
      | OStorkServer n \<Rightarrow> (case live of OStorkServer l \<Rightarrow> OStorkServer (l\<lparr>kss_Status := kss_Status n\<rparr>) | _ \<Rightarrow> live)
      | OKeaServer n \<Rightarrow> (case live of OKeaServer l \<Rightarrow> OKeaServer (l\<lparr>ksv_Status := ksv_Status n\<rparr>) | _ \<Rightarrow> live)
      | _ \<Rightarrow> live)"

text \<open>
  \<open>persisted x y\<close>: the server stores \<open>y\<close> for a written \<open>x\<close>. It may assign or default what the
  user leaves open (a UID, cluster addresses, pull policies), but keeps key, owner, the data
  of ConfigMaps and Secrets, and the labels and annotations of pod templates.
\<close>

definition same_template :: "PodTemplate \<Rightarrow> PodTemplate \<Rightarrow> bool" where
  "same_template t t' = (pt_Labels t' = pt_Labels t \<and> pt_Annotations t' = pt_Annotations t)"

definition same_content :: "kobj \<Rightarrow> kobj \<Rightarrow> bool" where
  "same_content x y =
     (case x of
        OConfigMap c \<Rightarrow> (case y of OConfigMap c' \<Rightarrow> cm_Data c' = cm_Data c | _ \<Rightarrow> False)
      | OSecret d \<Rightarrow> (case y of OSecret d' \<Rightarrow> sec_Data d' = sec_Data d | _ \<Rightarrow> False)
      | ODeployment d \<Rightarrow> (case y of ODeployment d' \<Rightarrow> same_template (ds_Template (dep_Spec d)) (ds_Template (dep_Spec d')) | _ \<Rightarrow> False)
      | OStatefulSet d \<Rightarrow> (case y of OStatefulSet d' \<Rightarrow> same_template (sts_Template (ste_Spec d)) (sts_Template (ste_Spec d')) | _ \<Rightarrow> False)
      | _ \<Rightarrow> True)"

definition persisted :: "kobj \<Rightarrow> kobj \<Rightarrow> bool" where
  "persisted x y = (obj_key y = obj_key x \<and> obj_owner y = obj_owner x \<and> same_content x y)"

type_synonym 's look = "'s \<Rightarrow> okey \<Rightarrow> kobj option"

definition read_law :: "'s env \<Rightarrow> 's look \<Rightarrow> bool" where
  "read_law E look =
     ((\<forall>k ns n s r s'. api_Get E k ns n s = (r, s') \<longrightarrow>
         look s' = look s
         \<and> (case r of Inr x \<Rightarrow> look s (k, ns, n) = Some x \<and> obj_key x = (k, ns, n)
                    | Inl e \<Rightarrow> IsNotFound e \<longrightarrow> look s (k, ns, n) = None))
      \<and> (\<forall>k ns s. look (snd (api_List E k ns s)) = look s)
      \<and> (\<forall>o' t r m s. look (api_Event E o' t r m s) = look s)
      \<and> (\<forall>s. look (snd (env_Now E s)) = look s) \<and> (\<forall>n s. look (snd (env_RandRead E n s)) = look s))"

definition write_law :: "'s env \<Rightarrow> 's look \<Rightarrow> bool" where
  "write_law E look =
     ((\<forall>x s r s'. api_Create E x s = (r, s') \<longrightarrow>
         (case r of Inl _ \<Rightarrow> look s' = look s
                  | Inr _ \<Rightarrow> look s (obj_key x) = None \<and> (\<exists>y. persisted x y \<and> look s' = (look s)(obj_key x \<mapsto> y))))
      \<and> (\<forall>x s r s'. api_Delete E x s = (r, s') \<longrightarrow>
         (case r of Inl _ \<Rightarrow> look s' = look s | Inr _ \<Rightarrow> look s' = (look s)(obj_key x := None)))
      \<and> (\<forall>x s r s'. api_StatusUpdate E x s = (r, s') \<longrightarrow>
         (case r of Inl _ \<Rightarrow> look s' = look s
                  | Inr _ \<Rightarrow> (\<exists>l. look s (obj_key x) = Some l \<and> look s' = (look s)(obj_key x \<mapsto> set_status l x))))
      \<and> (\<forall>x f s r s'. api_CreateOrUpdate E x f s = (r, s') \<longrightarrow>
         (case r of Inl _ \<Rightarrow> look s' = look s
                  | Inr _ \<Rightarrow> (\<exists>l' y. f (case look s (obj_key x) of None \<Rightarrow> x | Some l \<Rightarrow> l) = Inr l'
                      \<and> obj_key l' = obj_key x \<and> persisted l' y \<and> look s' = (look s)(obj_key x \<mapsto> y)))))"

definition store_law :: "'s env \<Rightarrow> 's look \<Rightarrow> bool" where
  "store_law E look =
     (scr_law E \<and> read_law E look \<and> write_law E look \<and> (\<forall>s K x. look s K = Some x \<longrightarrow> obj_key x = K))"

lemma store_lawD:
  assumes "store_law E look"
  shows "scr_law E" "read_law E look" "write_law E look" "look s K = Some x \<Longrightarrow> obj_key x = K"
  using assms unfolding store_law_def by blast+

lemma get_look:
  assumes "store_law E look"
  shows "look (snd (api_Get E k ns n s)) = look s"
  using store_lawD(2) [OF assms] unfolding read_law_def by (metis prod.collapse)

lemma get_found:
  assumes "store_law E look" "api_Get E k ns n s = (Inr x, s')"
  shows "look s (k, ns, n) = Some x" "obj_key x = (k, ns, n)"
  using store_lawD(2) [OF assms(1), unfolded read_law_def, THEN conjunct1, rule_format, OF assms(2)] by simp_all

lemma get_missing:
  assumes "store_law E look" "api_Get E k ns n s = (Inl e, s')" "IsNotFound e"
  shows "look s (k, ns, n) = None"
  using store_lawD(2) [OF assms(1), unfolded read_law_def, THEN conjunct1, rule_format, OF assms(2)] assms(3) by simp

lemma create_cases:
  assumes "store_law E look" "api_Create E x s = (r, s')"
  obtains "look s' = look s"
    | y where "look s (obj_key x) = None" "persisted x y" "look s' = (look s)(obj_key x \<mapsto> y)"
  using store_lawD(3) [OF assms(1), unfolded write_law_def, THEN conjunct1, rule_format, OF assms(2)]
  by (cases r) auto

lemma delete_cases:
  assumes "store_law E look" "api_Delete E x s = (r, s')"
  obtains e where "r = Inl e" "look s' = look s" | "r = Inr ()" "look s' = (look s)(obj_key x := None)"
  using store_lawD(3) [OF assms(1), unfolded write_law_def, THEN conjunct2, THEN conjunct1, rule_format, OF assms(2)]
  by (cases r) auto

lemma status_cases:
  assumes "store_law E look" "api_StatusUpdate E x s = (r, s')"
  obtains e where "r = Inl e" "look s' = look s"
    | l where "r = Inr ()" "look s (obj_key x) = Some l" "look s' = (look s)(obj_key x \<mapsto> set_status l x)"
  using store_lawD(3) [OF assms(1), unfolded write_law_def, THEN conjunct2, THEN conjunct2, THEN conjunct1, rule_format, OF assms(2)]
  by (cases r) auto

lemma apply_cases:
  assumes "store_law E look" "api_CreateOrUpdate E x f s = (r, s')"
  obtains e where "r = Inl e" "look s' = look s"
    | l l' y where "r = Inr ()" "l = (case look s (obj_key x) of None \<Rightarrow> x | Some l \<Rightarrow> l)" "obj_key l = obj_key x"
        "f l = Inr l'" "obj_key l' = obj_key x" "persisted l' y" "look s' = (look s)(obj_key x \<mapsto> y)"
proof -
  have "obj_key (case look s (obj_key x) of None \<Rightarrow> x | Some l \<Rightarrow> l) = obj_key x"
    by (simp split: option.split) (metis store_lawD(4) [OF assms(1)])
  with store_lawD(3) [OF assms(1), unfolded write_law_def, THEN conjunct2, THEN conjunct2, THEN conjunct2, rule_format, OF assms(2)] that
  show thesis by (cases r) auto
qed

lemma set_status_meta [simp]: "obj_key (set_status l x) = obj_key l" "obj_owner (set_status l x) = obj_owner l"
  by (cases x; cases l; simp add: set_status_def obj_key_def obj_owner_def)+

lemma set_status_twice: "kind_of l = kind_of x \<Longrightarrow> set_status (set_status l n) x = set_status l x"
  by (cases l; cases x; simp; simp add: set_status_def split: kobj.split)

section \<open>Frames\<close>

text \<open>
  \<open>frame\<close>: compared with \<open>s0\<close>, an object of \<open>s\<close> is unchanged, or an object the owner \<open>uid\<close> controls at
  a key in \<open>A\<close> that had no other controller before, or a new one at a key in \<open>C\<close>, or deleted at a
  key in \<open>D\<close>, or it is the resource at \<open>cr\<close> and only its status changed.
\<close>

definition was_claimable :: "string \<Rightarrow> kobj option \<Rightarrow> bool" where
  "was_claimable uid v = (case v of None \<Rightarrow> True | Some x \<Rightarrow> claimable uid x)"

definition frame :: "'s look \<Rightarrow> 's \<Rightarrow> string \<Rightarrow> okey set \<Rightarrow> okey set \<Rightarrow> okey set \<Rightarrow> okey \<Rightarrow> 's \<Rightarrow> bool" where
  "frame look s0 uid A C D cr s =
     (\<forall>K. look s K = look s0 K
        \<or> K \<in> A \<and> was_claimable uid (look s0 K) \<and> (\<exists>x. look s K = Some x \<and> obj_owner x = Some uid)
        \<or> K \<in> C \<and> look s0 K = None
        \<or> K \<in> D \<and> look s K = None
        \<or> K = cr \<and> (\<exists>x y. look s0 K = Some x \<and> look s K = Some y \<and> set_status y x = x))"

definition permits :: "string \<Rightarrow> okey set \<Rightarrow> okey set \<Rightarrow> okey set \<Rightarrow> okey \<Rightarrow> wop \<Rightarrow> kobj \<Rightarrow> bool" where
  "permits uid A C D cr w x =
     (case w of WApply \<Rightarrow> obj_key x \<in> A \<and> obj_owner x = Some uid
              | WCreate \<Rightarrow> obj_key x \<in> C
              | WDelete \<Rightarrow> obj_key x \<in> D
              | WStatus \<Rightarrow> obj_key x = cr)"

lemma frame_refl [simp]: "frame look s uid A C D cr s"
  by (simp add: frame_def)

lemma frame_same: "look s' = look s \<Longrightarrow> frame look s0 uid A C D cr s \<Longrightarrow> frame look s0 uid A C D cr s'"
  by (simp add: frame_def)

lemma frame_upd:
  assumes "frame look s0 uid A C D cr s" and "look s' = (look s)(K := v)"
    and "v = look s0 K \<or> K \<in> A \<and> was_claimable uid (look s0 K) \<and> (\<exists>x. v = Some x \<and> obj_owner x = Some uid) \<or> K \<in> C \<and> look s0 K = None
        \<or> K \<in> D \<and> v = None \<or> K = cr \<and> (\<exists>x y. look s0 K = Some x \<and> v = Some y \<and> set_status y x = x)"
  shows "frame look s0 uid A C D cr s'"
  using assms by (simp add: frame_def fun_upd_def)

lemma key_kind: "obj_key x = (k, ns, n) \<Longrightarrow> kind_of x = k"
  by (simp add: obj_key_def)

lemma kind_of_same_key: "obj_key x = obj_key y \<Longrightarrow> kind_of x = kind_of y"
  by (simp add: obj_key_def)

lemma frame_status:
  assumes law: "store_law E look" and fr: "frame look s0 uid A C D cr s"
    and K: "obj_key x = cr" "look s cr = Some l" "look s' = (look s)(cr \<mapsto> set_status l x)"
  shows "frame look s0 uid A C D cr s'"
proof (rule frame_upd [OF fr K(3)])
  have kl: "obj_key l = cr" using store_lawD(4) [OF law K(2)] .
  have self: "look s0 cr = Some z \<Longrightarrow> set_status (set_status l x) z = set_status l z" for z
    by (rule set_status_twice) (metis kl kind_of_same_key store_lawD(4) [OF law])
  have id: "set_status z z = z" for z by (cases z) (simp_all add: set_status_def)
  from fr consider "look s cr = look s0 cr" | "cr \<in> A" "was_claimable uid (look s0 cr)" "obj_owner l = Some uid" | "cr \<in> C" "look s0 cr = None"
    | z where "look s0 cr = Some z" "set_status l z = z"
    unfolding frame_def using K(2) by (metis option.inject option.distinct(1))
  then show "Some (set_status l x) = look s0 cr \<or> cr \<in> A \<and> was_claimable uid (look s0 cr) \<and> (\<exists>y. Some (set_status l x) = Some y \<and> obj_owner y = Some uid)
      \<or> cr \<in> C \<and> look s0 cr = None \<or> cr \<in> D \<and> Some (set_status l x) = None
      \<or> cr = cr \<and> (\<exists>z y. look s0 cr = Some z \<and> Some (set_status l x) = Some y \<and> set_status y z = z)"
    by cases (auto simp: K(2) self id dest: sym)
qed

lemma set_status_owner: "set_status y x = x \<Longrightarrow> obj_owner y = obj_owner x"
  by (metis set_status_meta(2))

lemma frame_claimable:
  assumes "frame look s0 uid A C D cr s" "K \<in> A" "K \<notin> D" and "look s K = None \<or> look s K = Some l \<and> claimable uid l"
  shows "was_claimable uid (look s0 K)"
  using assms(1) [unfolded frame_def, THEN spec [of _ K]] assms(2-)
  by (auto simp: was_claimable_def claimable_def split: option.split dest!: set_status_owner)

text \<open>An object of another controller outside \<open>D\<close> and \<open>cr\<close> stays as it is.\<close>

lemma frame_foreign:
  assumes "frame look s0 uid A C D cr s" "look s0 K = Some x" "\<not> claimable uid x" "K \<notin> D" "K \<noteq> cr"
  shows "look s K = Some x"
  using assms(1) [unfolded frame_def, THEN spec [of _ K]] assms(2-) by (auto simp: was_claimable_def)

lemma env_keeps_frame:
  assumes law: "store_law E look" and CD: "C \<inter> D = {}" and AD: "A \<inter> D = {}" and cr: "cr \<notin> C"
  shows "env_keeps E (permits uid A C D cr) (frame look s0 uid A C D cr)"
proof -
  let ?I = "frame look s0 uid A C D cr"
  note rl = store_lawD(2) [OF law, unfolded read_law_def]
  have reads: "look (snd (m s)) = look s \<Longrightarrow> ?I s \<Longrightarrow> ?I (snd (m s))" for m :: "('a, 'b) op" and s
    by (rule frame_same)
  have create: "?I (snd (api_Create E x s))" if x: "obj_key x \<in> C" and fr: "?I s" for x s
  proof (rule create_cases [OF law, of x s "fst (api_Create E x s)" "snd (api_Create E x s)"])
    fix y assume l: "look s (obj_key x) = None" "look (snd (api_Create E x s)) = (look s)(obj_key x \<mapsto> y)"
    from fr l(1) x CD cr have "look s0 (obj_key x) = None"
      unfolding frame_def by (metis disjoint_iff option.distinct(1))
    with x show ?thesis by (auto intro!: frame_upd [OF fr l(2)])
  qed (auto intro: frame_same fr)
  have delete: "?I (snd (api_Delete E x s))" if x: "obj_key x \<in> D" and fr: "?I s" for x s
    by (rule delete_cases [OF law, of x s "fst (api_Delete E x s)" "snd (api_Delete E x s)"])
      (auto intro: frame_same frame_upd fr x)
  have status: "?I (snd (api_StatusUpdate E x s))" if x: "obj_key x = cr" and fr: "?I s" for x s
    by (rule status_cases [OF law, of x s "fst (api_StatusUpdate E x s)" "snd (api_StatusUpdate E x s)"])
      (auto simp: x intro: frame_same frame_status [OF law fr x] fr)
  have applied: "?I (snd (api_CreateOrUpdate E x f s))"
    if ok: "\<And>l l'. obj_key l = obj_key x \<Longrightarrow> f l = Inr l' \<Longrightarrow> obj_key l' = obj_key l \<Longrightarrow> permits uid A C D cr WApply l' \<and> claims l l'"
      and fr: "?I s" for x f s
  proof (rule apply_cases [OF law, of x f s "fst (api_CreateOrUpdate E x f s)" "snd (api_CreateOrUpdate E x f s)"])
    fix l l' y assume l: "obj_key l = obj_key x" "f l = Inr l'" "obj_key l' = obj_key x" "persisted l' y"
      "look (snd (api_CreateOrUpdate E x f s)) = (look s)(obj_key x \<mapsto> y)"
      and live: "l = (case look s (obj_key x) of None \<Rightarrow> x | Some l \<Rightarrow> l)"
    with ok [of l l'] have A: "obj_key x \<in> A" "obj_owner y = Some uid" and cl: "claimable uid l"
      by (auto simp: permits_def persisted_def claims_def)
    from frame_claimable [OF fr A(1), of l] AD A(1) live cl have "was_claimable uid (look s0 (obj_key x))"
      by (auto split: option.splits)
    with A show ?thesis by (auto intro!: frame_upd [OF fr l(5)])
  qed (auto intro: frame_same fr)
  show ?thesis
    unfolding env_keeps_def keeps_def
    using rl create delete status applied get_look [OF law] by (simp add: permits_def reads frame_same)
qed

section \<open>One object\<close>

text \<open>Whatever holds of the object at a key survives writes to other keys.\<close>

lemma env_keeps_look:
  assumes law: "store_law E look"
  shows "env_keeps E (\<lambda>w y. obj_key y \<noteq> K) (\<lambda>s. P (look s K))"
proof -
  note rl = store_lawD(2) [OF law, unfolded read_law_def]
  let ?I = "\<lambda>s. P (look s K)"
  have create: "?I (snd (api_Create E x s))" if "obj_key x \<noteq> K" "?I s" for x s
    by (rule create_cases [OF law, of x s "fst (api_Create E x s)" "snd (api_Create E x s)"]) (use that in auto)
  have delete: "?I (snd (api_Delete E x s))" if "obj_key x \<noteq> K" "?I s" for x s
    by (rule delete_cases [OF law, of x s "fst (api_Delete E x s)" "snd (api_Delete E x s)"]) (use that in auto)
  have status: "?I (snd (api_StatusUpdate E x s))" if "obj_key x \<noteq> K" "?I s" for x s
    by (rule status_cases [OF law, of x s "fst (api_StatusUpdate E x s)" "snd (api_StatusUpdate E x s)"]) (use that in auto)
  have applied: "?I (snd (api_CreateOrUpdate E x f s))"
    if "\<And>l l'. obj_key l = obj_key x \<Longrightarrow> f l = Inr l' \<Longrightarrow> obj_key l' = obj_key l \<Longrightarrow> obj_key l' \<noteq> K \<and> claims l l'" "?I s" for x f s
  proof (rule apply_cases [OF law, of x f s "fst (api_CreateOrUpdate E x f s)" "snd (api_CreateOrUpdate E x f s)"])
    fix l l' y assume l: "obj_key l = obj_key x" "f l = Inr l'" "obj_key l' = obj_key x"
      "look (snd (api_CreateOrUpdate E x f s)) = (look s)(obj_key x \<mapsto> y)"
    with that(1) [of l l'] that(2) show ?thesis by auto
  qed (use that(2) in simp_all)
  show ?thesis
    unfolding env_keeps_def keeps_def
    using rl create delete status applied get_look [OF law] by simp
qed

lemma covers_other: "K' \<noteq> K \<Longrightarrow> covers (\<lambda>w y. obj_key y \<noteq> K) uid K'"
  by (simp add: covers_def)

text \<open>A successful \<^verbatim>\<open>reconcileResource\<close> leaves the desired object, controlled by the owner.\<close>

lemma same_content_applied:
  "kind_of l = kind_of d \<Longrightarrow> same_content (set_owner u (applyDesired d l)) y = same_content (set_owner u d) y"
  by (cases d; cases l; simp; simp add: applyDesired_def same_content_def split: kobj.split)

lemma persisted_applied:
  assumes "obj_key l = obj_key d" "persisted (set_owner u (applyDesired d l)) y"
  shows "persisted (set_owner u d) y"
  using assms same_content_applied [OF kind_of_same_key] by (simp add: persisted_def)

lemma reconcileResource_post:
  assumes law: "store_law E look"
  shows "valid (\<lambda>_. True) (reconcileResource E owner obj)
           (\<lambda>_ s. \<exists>y. look s (obj_key obj) = Some y \<and> persisted (set_owner (om_UID owner) obj) y)"
proof (rule validI)
  fix s u s' assume m: "reconcileResource E owner obj s = (Inr u, s')"
  let ?o = "set_owner (om_UID owner) obj"
  from m have c: "api_CreateOrUpdate E ?o (buildMutateFn E owner ?o) s = (Inr u, s')"
    by (auto simp: reconcileResource_def seq_def wrap_err_def lift_def split: sum.splits prod.splits
        dest!: scr_lawD [OF store_lawD(1) [OF law]])
  show "\<exists>y. look s' (obj_key obj) = Some y \<and> persisted ?o y"
  proof (rule apply_cases [OF law c])
    fix l l' y assume l: "obj_key l = obj_key ?o" "buildMutateFn E owner ?o l = Inr l'" "persisted l' y"
      "look s' = (look s)(obj_key ?o \<mapsto> y)"
    from l(2) have "l' = set_owner (om_UID owner) (applyDesired ?o l)"
      by (auto simp: buildMutateFn_def dest: scr_lawD [OF store_lawD(1) [OF law]])
    with persisted_applied [of l ?o "om_UID owner" y] l have "persisted (set_owner (om_UID owner) ?o) y" by simp
    moreover have "set_owner (om_UID owner) ?o = ?o" by (cases obj) (simp_all add: own_def)
    ultimately show ?thesis using l(4) by auto
  qed simp
qed

section \<open>Reads only\<close>

lemma env_keeps_reads:
  assumes law: "store_law E look"
  shows "env_keeps E (\<lambda>_ _. False) (\<lambda>s. P (look s))"
proof -
  note rl = store_lawD(2) [OF law, unfolded read_law_def]
  have applied: "look (snd (api_CreateOrUpdate E x f s)) = look s"
    if "\<And>l l'. obj_key l = obj_key x \<Longrightarrow> f l = Inr l' \<Longrightarrow> obj_key l' \<noteq> obj_key l" for x f s
  proof (rule apply_cases [OF law, of x f s "fst (api_CreateOrUpdate E x f s)" "snd (api_CreateOrUpdate E x f s)"])
    fix l l' assume "obj_key l = obj_key x" "f l = Inr l'" "obj_key l' = obj_key x"
    with that [of l l'] show ?thesis by simp
  qed simp_all
  show ?thesis
    unfolding env_keeps_def keeps_def using rl applied get_look [OF law] by simp
qed

end
