(* ===== verification/Deployment.thy ===== *)
theory Deployment
  imports Pods
begin

text \<open>
  \<^verbatim>\<open>BuildDeployment\<close> of \<^verbatim>\<open>src/internal/resources/deployment.go\<close>: volumes and mounts, with the
  template indirection when secrets are passed as environment variables, the NAD start-up
  script, the placeholder substitution script, the Stork sidecar. Shell scripts are the exact
  texts the sources build.
\<close>

record DeploymentParams =
  dp_Namespace :: string
  dp_CRName :: string
  dp_Component :: string
  dp_Command :: string
  dp_ConfigFileName :: string
  dp_ConfigMapName :: string
  dp_Image :: string
  dp_ImagePullPolicy :: string
  dp_Replicas :: "int32 option"
  dp_Resources :: ResourceRequirements
  dp_HostNetwork :: bool
  dp_NodeSelector :: "string strmap"
  dp_Tolerations :: "Toleration list"
  dp_Affinity :: "Affinity option"
  dp_TLSSecretName :: string
  dp_ServiceAccountName :: string
  dp_ConfigHash :: string
  dp_ImagePullSecrets :: "LocalObjectReference list"
  dp_PodAnnotations :: "string strmap"
  dp_NADInterface :: string
  dp_NADSubnet :: string
  dp_StorkAgent :: "StorkSidecarParams option"
  dp_SecretEnvVars :: "EnvVar list"

definition zero_DeploymentParams :: DeploymentParams where
  "zero_DeploymentParams =
     \<lparr>dp_Namespace = '''', dp_CRName = '''', dp_Component = '''', dp_Command = '''',
      dp_ConfigFileName = '''', dp_ConfigMapName = '''', dp_Image = '''', dp_ImagePullPolicy = '''',
      dp_Replicas = None, dp_Resources = JObj [], dp_HostNetwork = False, dp_NodeSelector = [],
      dp_Tolerations = [], dp_Affinity = None, dp_TLSSecretName = '''', dp_ServiceAccountName = '''',
      dp_ConfigHash = '''', dp_ImagePullSecrets = [], dp_PodAnnotations = [], dp_NADInterface = '''',
      dp_NADSubnet = '''', dp_StorkAgent = None, dp_SecretEnvVars = []\<rparr>"

section \<open>Scripts\<close>

definition nad_command :: "string \<Rightarrow> string \<Rightarrow> string \<Rightarrow> string \<Rightarrow> string" where
  \<open>nad_command nadInterface nadSubnet command configFileName =
     ''IFS='./' read a b c d prefix <<EOF'' @ nl
     @ nadSubnet @ nl
     @ ''EOF'' @ nl
     @ ''ip_last=$((d + 2)); ip addr add ${a}.${b}.${c}.${ip_last}/${prefix} dev '' @ nadInterface
     @ '' 2>/dev/null || true; echo "Assigned ${a}.${b}.${c}.${ip_last}/${prefix} to '' @ nadInterface
     @ ''"; exec '' @ command @ '' -c '' @ ConfigMountPath @ ''/'' @ configFileName\<close>

definition sed_expr :: "EnvVar \<Rightarrow> string" where
  \<open>sed_expr ev =
       ''sed -i "s|'' @ bsl @ ''$'' @ ev_Name ev @ ''|${'' @ ev_Name ev @ ''}|g" '' @ ConfigMountPath
       @ ''/*.json; ''\<close>

fun join_args :: "string list \<Rightarrow> string" where
  "join_args [] = ''''"
| "join_args [a] = a"
| "join_args (a # as) = a @ '' '' @ join_args as"

definition buildSecretEnvSubstCommand :: "EnvVar list \<Rightarrow> string list \<Rightarrow> string list" where
  "buildSecretEnvSubstCommand envVars origCmd =
     (let sedExpr = concat (map sed_expr envVars);
          origCmdStr = join_args origCmd;
          script = ''cp '' @ ConfigTemplateMountPath @ ''/* '' @ ConfigMountPath @ ''/ && '' @ sedExpr @ ''exec ''
          @ origCmdStr
      in [''sh'', ''-c'', script])"

section \<open>Volumes\<close>

definition deployment_volumes :: "DeploymentParams \<Rightarrow> Volume list" where
  "deployment_volumes p =
     [volume ConfigVolumeName (ConfigMapSource (dp_ConfigMapName p)),
      volume RunVolumeName EmptyDir,
      volume LeaseVolumeName EmptyDir]
     @ (if 0 < length (dp_SecretEnvVars p) then [volume ConfigWritableVolumeName EmptyDir] else [])
     @ (if dp_TLSSecretName p \<noteq> '''' then [volume TLSVolumeName (SecretSource (dp_TLSSecretName p))] else [])"

definition deployment_mounts :: "DeploymentParams \<Rightarrow> VolumeMount list" where
  "deployment_mounts p =
     [mount ConfigVolumeName (if 0 < length (dp_SecretEnvVars p) then ConfigTemplateMountPath else ConfigMountPath) True,
      mount RunVolumeName RunMountPath False,
      mount LeaseVolumeName LeaseMountPath False]
     @ (if 0 < length (dp_SecretEnvVars p) then [mount ConfigWritableVolumeName ConfigMountPath False] else [])
     @ (if dp_TLSSecretName p \<noteq> '''' then [mount TLSVolumeName TLSMountPath True] else [])"

section \<open>Command and object\<close>

definition nad_configured :: "string \<Rightarrow> string \<Rightarrow> string \<Rightarrow> bool" where
  "nad_configured nadInterface nadSubnet command =
     (nadInterface \<noteq> '''' \<and> nadSubnet \<noteq> '''' \<and> ValidateNADShellInputs nadInterface nadSubnet command = None)"

definition deployment_command :: "DeploymentParams \<Rightarrow> string list" where
  "deployment_command p =
     (let mainCmd = [dp_Command p, ''-c'', ConfigMountPath @ ''/'' @ dp_ConfigFileName p];
          mainCmd = (if nad_configured (dp_NADInterface p) (dp_NADSubnet p) (dp_Command p)
                     then [''sh'', ''-c'', nad_command (dp_NADInterface p) (dp_NADSubnet p) (dp_Command p) (dp_ConfigFileName p)]
                     else mainCmd)
      in if 0 < length (dp_SecretEnvVars p) then buildSecretEnvSubstCommand (dp_SecretEnvVars p) mainCmd else mainCmd)"

definition deployment_container :: "DeploymentParams \<Rightarrow> Container" where
  "deployment_container p =
     zero_Container\<lparr>
       co_Name := dp_Component p,
       co_Image := (if dp_Image p = '''' then DefaultImageForComponent (dp_Component p) else dp_Image p),
       co_ImagePullPolicy := dp_ImagePullPolicy p,
       co_Command := deployment_command p,
       co_Env := dp_SecretEnvVars p,
       co_Resources := dp_Resources p,
       co_VolumeMounts := deployment_mounts p,
       co_SecurityContext := kea_capabilities (dp_NADInterface p)\<rparr>"

definition BuildDeployment :: "DeploymentParams \<Rightarrow> Deployment" where
  "BuildDeployment p =
     (let lbls = CommonLabels (dp_CRName p) (dp_Component p);
          containers = deployment_container p #
            (case dp_StorkAgent p of None \<Rightarrow> [] | Some sp \<Rightarrow> [buildStorkAgentContainer sp ConfigVolumeName]);
          shareProcessNamespace = (case dp_StorkAgent p of None \<Rightarrow> None | Some _ \<Rightarrow> Some True)
      in \<lparr>dep_Meta = object_meta (DeploymentName (dp_CRName p) (dp_Component p)) (dp_Namespace p) lbls,
          dep_Spec =
            \<lparr>ds_Replicas = dp_Replicas p,
             ds_Selector = lbls,
             ds_Template =
               \<lparr>pt_Labels = lbls,
                pt_Annotations = merge_annotations (dp_PodAnnotations p) (dp_ConfigHash p),
                pt_Spec =
                  \<lparr>ps_ServiceAccountName = dp_ServiceAccountName p,
                   ps_HostNetwork = dp_HostNetwork p,
                   ps_ShareProcessNamespace = shareProcessNamespace,
                   ps_InitContainers = [],
                   ps_Containers = containers,
                   ps_Volumes = deployment_volumes p,
                   ps_NodeSelector = dp_NodeSelector p,
                   ps_Tolerations = dp_Tolerations p,
                   ps_Affinity = dp_Affinity p,
                   ps_ImagePullSecrets = dp_ImagePullSecrets p\<rparr>\<rparr>\<rparr>,
          dep_ReadyReplicas = 0\<rparr>)"

section \<open>Properties\<close>

lemma deployment_volume_names:
  "map vol_Name (deployment_volumes p) =
     [ConfigVolumeName, RunVolumeName, LeaseVolumeName]
     @ (if dp_SecretEnvVars p = [] then [] else [ConfigWritableVolumeName])
     @ (if dp_TLSSecretName p = '''' then [] else [TLSVolumeName])"
  by (simp add: deployment_volumes_def volume_def)

lemma deployment_pod_spec:
  "ps_Containers (pt_Spec (ds_Template (dep_Spec (BuildDeployment p)))) =
     deployment_container p #
       (case dp_StorkAgent p of None \<Rightarrow> [] | Some sp \<Rightarrow> [buildStorkAgentContainer sp ConfigVolumeName])"
  "ps_InitContainers (pt_Spec (ds_Template (dep_Spec (BuildDeployment p)))) = []"
  "ps_Volumes (pt_Spec (ds_Template (dep_Spec (BuildDeployment p)))) = deployment_volumes p"
  by (simp_all add: BuildDeployment_def Let_def)

lemma deployment_mounts_ok: "mounts_ok (deployment_volumes p) (deployment_container p)"
  unfolding mounts_ok_def deployment_volume_names
  by (simp add: deployment_container_def deployment_mounts_def mount_def go_defs)

lemma deployment_stork_ok: "mounts_ok (deployment_volumes p) (buildStorkAgentContainer sp ConfigVolumeName)"
  unfolding mounts_ok_def deployment_volume_names
  by (simp add: buildStorkAgentContainer_def mount_def go_defs)

text \<open>
  C27: the Deployment of a component is well formed. For a component that is not itself called
  like the Stork sidecar, volume and container names are unique, every mount names a volume of
  the pod, no container mounts two volumes at one path, capabilities are dropped except those
  Kea needs, the selector is the pod's label set, and the pod carries the hash of its
  configuration, whatever annotations the user supplies.
\<close>

theorem deployment_wf:
  assumes "dp_Component p \<noteq> StorkAgentContainerName"
  shows "(let d = dep_Spec (BuildDeployment p); ps = pt_Spec (ds_Template d) in
     pod_wf ps \<and> list_all caps_ok (ps_Containers ps)
     \<and> ds_Selector d = pt_Labels (ds_Template d)
     \<and> map_get (pt_Annotations (ds_Template d)) ConfigHashAnnotation = Some (dp_ConfigHash p))"
proof -
  have "caps_ok (deployment_container p)"
    by (simp add: caps_ok_def deployment_container_def kea_capabilities_def)
  moreover have "distinct (map vol_Name (deployment_volumes p))"
    unfolding deployment_volume_names by (simp add: go_defs)
  moreover have "co_Name (deployment_container p) \<noteq> co_Name (buildStorkAgentContainer sp v)" for sp v
    using assms by (simp add: deployment_container_def buildStorkAgentContainer_def)
  ultimately show ?thesis
    by (simp add: pod_wf_def deployment_pod_spec deployment_mounts_ok deployment_stork_ok stork_container_caps
        Let_def split: option.split)
      (simp add: BuildDeployment_def Let_def merge_annotations_hash)
qed

theorem deployment_wf_witness:
  "pod_wf (pt_Spec (ds_Template (dep_Spec (BuildDeployment (zero_DeploymentParams\<lparr>dp_Component := ComponentDhcp4\<rparr>)))))"
  using deployment_wf [of "zero_DeploymentParams\<lparr>dp_Component := ComponentDhcp4\<rparr>"]
  by (simp add: Let_def StorkAgentContainerName_def name_defs)

lemma validated_inert:
  assumes "ValidateNADShellInputs i s c = None"
  shows "list_all (\<lambda>x. \<not> shell_active x) i" "list_all (\<lambda>x. \<not> shell_active x) s" "list_all (\<lambda>x. \<not> shell_active x) c"
  using validated_parts_inert [OF assms] by simp_all

text \<open>
  A NAD start-up script is used only for inputs that are inert in the shell. Without
  secrets, the container either runs the daemon directly or runs the script for an interface,
  subnet and command none of whose characters is active in the shell; a value that fails
  validation never reaches a script.
\<close>

lemma deployment_nad_script_guarded:
  assumes "dp_SecretEnvVars p = []"
  shows "co_Command (deployment_container p) = [dp_Command p, ''-c'', ConfigMountPath @ ''/'' @ dp_ConfigFileName p]
     \<or> (co_Command (deployment_container p)
          = [''sh'', ''-c'', nad_command (dp_NADInterface p) (dp_NADSubnet p) (dp_Command p) (dp_ConfigFileName p)]
        \<and> list_all (\<lambda>x. \<not> shell_active x) (dp_NADInterface p @ dp_NADSubnet p @ dp_Command p)
        \<and> dp_NADInterface p \<noteq> '''' \<and> safeSubnetV4Re (dp_NADSubnet p))"
proof (cases "nad_configured (dp_NADInterface p) (dp_NADSubnet p) (dp_Command p)")
  case True
  then have v: "ValidateNADShellInputs (dp_NADInterface p) (dp_NADSubnet p) (dp_Command p) = None"
    by (simp add: nad_configured_def)
  with True have "safeSubnetV4Re (dp_NADSubnet p)"
    by (auto simp: nad_configured_def ValidateNADShellInputs_def split: if_splits)
  with True validated_inert [OF v] assms show ?thesis
    by (simp add: deployment_container_def deployment_command_def nad_configured_def)
next
  case False
  with assms show ?thesis by (simp add: deployment_container_def deployment_command_def)
qed

lemma deployment_nad_script_guarded_example:
  "co_Command (deployment_container (zero_DeploymentParams\<lparr>dp_Command := ''kea'', dp_NADInterface := ''a;b'', dp_NADSubnet := ''10.0.0.0/8''\<rparr>))
     = [''kea'', ''-c'', ConfigMountPath @ ''/'']"
  using deployment_nad_script_guarded [of "zero_DeploymentParams\<lparr>dp_Command := ''kea'', dp_NADInterface := ''a;b'', dp_NADSubnet := ''10.0.0.0/8''\<rparr>"]
  by (simp add: zero_DeploymentParams_def shell_active_def)

section \<open>What the substitution script does\<close>

text \<open>
  The commands of the start-up script: \<^verbatim>\<open>cp SRC/* DST/\<close>, \<^verbatim>\<open>sed -i EXPR GLOB\<close> and \<^verbatim>\<open>exec CMD\<close>; their
  text, and their effect on the files of the container. A glob's star stands for characters
  other than a slash, and no glob names a file whose name starts with a dot. What a \<^verbatim>\<open>sed\<close> expression does to a text is left open (\<open>edit\<close>).
\<close>

datatype shell_cmd = Cp string string | SedI string string | Exec string

type_synonym files = "string \<Rightarrow> string option"

fun show_cmd :: "shell_cmd \<Rightarrow> string" where
  "show_cmd (Cp src dst) = ''cp '' @ src @ ''/* '' @ dst @ ''/ && ''"
| "show_cmd (SedI expr glob) = ''sed -i '' @ expr @ '' '' @ glob @ ''; ''"
| "show_cmd (Exec cmd) = ''exec '' @ cmd"

fun glob_match :: "string \<Rightarrow> string \<Rightarrow> bool" where
  "glob_match [] s = (s = [])"
| "glob_match (c # p) [] = (c = CHR ''*'' \<and> glob_match p [])"
| "glob_match (c # p) (x # s) =
     (if c = CHR ''*'' then glob_match p (x # s) \<or> (x \<noteq> CHR ''/'' \<and> glob_match (c # p) s)
      else x = c \<and> glob_match p s)"

definition base_name :: "string \<Rightarrow> string" where
  "base_name path = rev (takeWhile (\<lambda>c. c \<noteq> CHR ''/'') (rev path))"

definition visible :: "string \<Rightarrow> bool" where
  "visible path = (base_name path \<noteq> [] \<and> take 1 (base_name path) \<noteq> ''.'')"

definition base_in :: "string \<Rightarrow> string \<Rightarrow> string option" where
  "base_in dir path = (if path = dir @ ''/'' @ base_name path \<and> visible path then Some (base_name path) else None)"

fun run_cmd :: "(string \<Rightarrow> string \<Rightarrow> string) \<Rightarrow> shell_cmd \<Rightarrow> files \<Rightarrow> files" where
  "run_cmd edit (Cp src dst) fs =
     (\<lambda>path. case base_in dst path of
        None \<Rightarrow> fs path
      | Some b \<Rightarrow> (case fs (src @ ''/'' @ b) of None \<Rightarrow> fs path | Some txt \<Rightarrow> Some txt))"
| "run_cmd edit (SedI expr glob) fs =
     (\<lambda>path. if glob_match glob path \<and> visible path then map_option (edit expr) (fs path) else fs path)"
| "run_cmd edit (Exec cmd) fs = fs"

definition run_cmds :: "(string \<Rightarrow> string \<Rightarrow> string) \<Rightarrow> shell_cmd list \<Rightarrow> files \<Rightarrow> files" where
  "run_cmds edit cmds fs = fold (run_cmd edit) cmds fs"

text \<open>The commands the substitution script of a Deployment consists of.\<close>

definition sed_cmd :: "EnvVar \<Rightarrow> shell_cmd" where
  \<open>sed_cmd ev = SedI (''"s|'' @ bsl @ ''$'' @ ev_Name ev @ ''|${'' @ ev_Name ev @ ''}|g"'') (ConfigMountPath @ ''/*.json'')\<close>

definition subst_cmds :: "EnvVar list \<Rightarrow> string list \<Rightarrow> shell_cmd list" where
  "subst_cmds envVars origCmd =
     Cp ConfigTemplateMountPath ConfigMountPath # map sed_cmd envVars @ [Exec (join_args origCmd)]"

lemma show_sed_cmd: "show_cmd (sed_cmd ev) = sed_expr ev"
  by (simp add: sed_cmd_def sed_expr_def)

lemma subst_script:
  "buildSecretEnvSubstCommand envVars origCmd = [''sh'', ''-c'', concat (map show_cmd (subst_cmds envVars origCmd))]"
  by (simp add: buildSecretEnvSubstCommand_def subst_cmds_def Let_def comp_def show_sed_cmd)

lemma glob_prefix: "CHR ''*'' \<notin> set q \<Longrightarrow> glob_match (q @ p) s \<Longrightarrow> \<exists>t. s = q @ t \<and> glob_match p t"
proof (induction q arbitrary: s)
  case (Cons c q)
  then show ?case by (cases s) auto
qed simp

lemma glob_literal: "CHR ''*'' \<notin> set p \<Longrightarrow> glob_match p s \<Longrightarrow> s = p"
  using glob_prefix [of p "[]" s] by auto

lemma glob_star: "glob_match (CHR ''*'' # p) s \<Longrightarrow> \<exists>u t. s = u @ t \<and> glob_match p t"
proof (induction s)
  case Nil
  then show ?case by simp
next
  case (Cons x s)
  then consider "glob_match p (x # s)" | "glob_match (CHR ''*'' # p) s" by auto
  then show ?case
  proof cases
    case 1
    then show ?thesis by (intro exI [of _ "[]"] exI [of _ "x # s"]) simp
  next
    case 2
    then obtain u t where "s = u @ t" "glob_match p t" using Cons.IH by blast
    then show ?thesis by (intro exI [of _ "x # u"] exI [of _ t]) simp
  qed
qed

lemma json_glob_suffix:
  assumes "glob_match (ConfigMountPath @ ''/*.json'') path"
  shows "suffix ''.json'' path"
proof -
  have "CHR ''*'' \<notin> set (ConfigMountPath @ ''/'')" by (simp add: go_defs)
  moreover have "glob_match ((ConfigMountPath @ ''/'') @ ''*.json'') path" using assms by simp
  ultimately obtain t where t: "path = (ConfigMountPath @ ''/'') @ t" "glob_match ''*.json'' t" using glob_prefix by blast
  then obtain u w where "t = u @ w" "glob_match ''.json'' w" using glob_star [of "''.json''" t] by auto
  moreover have "w = ''.json''" using calculation(2) glob_literal [of "''.json''" w] by simp
  ultimately show ?thesis using t(1) by (auto simp: suffix_def intro: exI [of _ "(ConfigMountPath @ ''/'') @ u"])
qed

lemma suffix_ConfigFileName: "suffix ''.conf'' (ConfigFileName component)"
proof -
  have "suffix ''.conf'' f" if "map_get componentConfigFile component = Some f" for f
    using that by (auto simp: componentConfigFile_def map_get_lit suffix_def split: if_splits)
  then show ?thesis
    by (auto simp: ConfigFileName_def suffix_def split: option.split)
qed

lemma conf_not_json:
  assumes "suffix ''.conf'' f"
  shows "\<not> suffix ''.json'' (d @ f)"
proof
  assume "suffix ''.json'' (d @ f)"
  with assms suffix_same_cases [of "''.json''" "d @ f" "''.conf''"]
  have "suffix ''.conf'' ''.json'' \<or> suffix ''.json'' ''.conf''" by (auto simp: suffix_appendI)
  then show False by (simp add: suffix_def append_eq_Cons_conv Cons_eq_append_conv)
qed

lemma base_name_file: "CHR ''/'' \<notin> set f \<Longrightarrow> base_name (dir @ ''/'' @ f) = f"
proof -
  assume "CHR ''/'' \<notin> set f"
  then have "takeWhile (\<lambda>c. c \<noteq> CHR ''/'') (rev f) = rev f" by auto
  then show ?thesis by (simp add: base_name_def takeWhile_tail del: takeWhile_eq_all_conv)
qed

lemma base_in_file:
  assumes "CHR ''/'' \<notin> set f" "f \<noteq> []" "take 1 f \<noteq> ''.''"
  shows "base_in dir (dir @ ''/'' @ f) = Some f"
  using assms by (simp add: base_in_def visible_def base_name_file del: append_Cons append_Nil)

lemma kea_config_file:
  assumes "component \<in> set kea_components"
  shows "CHR ''/'' \<notin> set (ConfigFileName component)" "ConfigFileName component \<noteq> []"
    "take 1 (ConfigFileName component) \<noteq> ''.''"
  using assms by (auto simp: kea_components_def ConfigFileName_def componentConfigFile_def map_get_lit name_defs)

lemma seds_miss:
  assumes "\<not> suffix ''.json'' path"
  shows "fold (run_cmd edit) (map sed_cmd envVars) fs path = fs path"
proof (induction envVars arbitrary: fs)
  case (Cons ev evs)
  have "\<not> glob_match (ConfigMountPath @ ''/*.json'') path" using assms json_glob_suffix by blast
  then show ?case using Cons by (simp add: sed_cmd_def)
qed simp

lemma subst_cmds_keep_template:
  assumes "component \<in> set kea_components"
    and "fs (ConfigTemplateMountPath @ ''/'' @ ConfigFileName component) = Some txt"
  shows "run_cmds edit (subst_cmds envVars origCmd) fs (ConfigMountPath @ ''/'' @ ConfigFileName component) = Some txt"
proof -
  have "\<not> suffix ''.json'' (ConfigMountPath @ ''/'' @ ConfigFileName component)"
    using conf_not_json [OF suffix_ConfigFileName, of "ConfigMountPath @ ''/''" component] by simp
  moreover have "run_cmd edit (Cp ConfigTemplateMountPath ConfigMountPath) fs (ConfigMountPath @ ''/'' @ ConfigFileName component) = Some txt"
    using assms(2) base_in_file [OF kea_config_file [OF assms(1)], of ConfigMountPath]
    by (simp del: append_Cons append_Nil)
  ultimately show ?thesis by (simp add: run_cmds_def subst_cmds_def seds_miss del: append_Cons append_Nil run_cmd.simps(1))
qed


definition sample_dep :: DeploymentParams where
  "sample_dep = zero_DeploymentParams\<lparr>dp_Component := ComponentDhcp4, dp_Command := ''kea-dhcp4'',
     dp_ConfigFileName := ConfigFileName ComponentDhcp4,
     dp_SecretEnvVars := [\<lparr>ev_Name = ''DB_PASSWORD'', ev_Value = '''', ev_ValueFrom = None\<rparr>]\<rparr>"


end
