(* ===== verification/StatefulSet.thy ===== *)
theory StatefulSet
  imports Deployment
begin

text \<open>
  \<^verbatim>\<open>BuildStatefulSet\<close> of \<^verbatim>\<open>src/internal/resources/statefulset.go\<close>: one config volume per
  ordinal, the init container that selects the pod's configuration and resolves the peers,
  the NAD start-up script with static or computed addresses, the anti-affinity merge. The
  sources range over two Go maps while they build scripts; the order of such a loop is not
  specified, so it is an argument (\<open>hostOrder\<close>, \<open>addrOrder\<close>) of the model.
\<close>

definition ActiveConfigVolumeName :: string where "ActiveConfigVolumeName = ''kea-active-config''"
definition ActiveConfigMountPath :: string where "ActiveConfigMountPath = ''/etc/kea/active''"
definition ConfigsBaseMountPath :: string where "ConfigsBaseMountPath = ''/etc/kea/configs''"
definition DefaultInitContainerImage :: string where "DefaultInitContainerImage = ''docker.io/busybox:1.37''"

lemmas sts_consts [go_defs] = ActiveConfigVolumeName_def ActiveConfigMountPath_def ConfigsBaseMountPath_def

record StatefulSetParams =
  stp_Namespace :: string
  stp_CRName :: string
  stp_Component :: string
  stp_Command :: string
  stp_ConfigFileName :: string
  stp_Image :: string
  stp_ImagePullPolicy :: string
  stp_Replicas :: "int32 option"
  stp_Resources :: ResourceRequirements
  stp_HostNetwork :: bool
  stp_NodeSelector :: "string strmap"
  stp_Tolerations :: "Toleration list"
  stp_Affinity :: "Affinity option"
  stp_TLSSecretName :: string
  stp_ServiceAccountName :: string
  stp_ConfigHash :: string
  stp_ImagePullSecrets :: "LocalObjectReference list"
  stp_PodAnnotations :: "string strmap"
  stp_ConfigMapNames :: "(int, string) gomap"
  stp_PeerHostnameMap :: "string strmap"
  stp_NADInterface :: string
  stp_NADSubnet :: string
  stp_PeerAddresses :: "(int, string) gomap"
  stp_InitContainerImage :: string
  stp_StorkAgent :: "StorkSidecarParams option"
  stp_SecretEnvVars :: "EnvVar list"

definition zero_StatefulSetParams :: StatefulSetParams where
  "zero_StatefulSetParams =
     \<lparr>stp_Namespace = '''', stp_CRName = '''', stp_Component = '''', stp_Command = '''',
      stp_ConfigFileName = '''', stp_Image = '''', stp_ImagePullPolicy = '''',
      stp_Replicas = None, stp_Resources = JObj [], stp_HostNetwork = False, stp_NodeSelector = [],
      stp_Tolerations = [], stp_Affinity = None, stp_TLSSecretName = '''', stp_ServiceAccountName = '''',
      stp_ConfigHash = '''', stp_ImagePullSecrets = [], stp_PodAnnotations = [], stp_ConfigMapNames = [],
      stp_PeerHostnameMap = [], stp_NADInterface = '''', stp_NADSubnet = '''', stp_PeerAddresses = [],
      stp_InitContainerImage = '''', stp_StorkAgent = None, stp_SecretEnvVars = []\<rparr>"

section \<open>Volumes per ordinal\<close>

definition sts_replicas :: "StatefulSetParams \<Rightarrow> int32" where
  "sts_replicas p = (case stp_Replicas p of None \<Rightarrow> 2 | Some n \<Rightarrow> n)"

text \<open>\<^verbatim>\<open>for i := int32(0); i < replicas; i++\<close>: no iteration for a negative count.\<close>

definition sts_ordinals :: "StatefulSetParams \<Rightarrow> nat list" where
  "sts_ordinals p = [0..<nat (sint (sts_replicas p))]"

definition ordinal_volume_name :: "nat \<Rightarrow> string" where
  "ordinal_volume_name i = ''kea-config-'' @ dec_nat i"

definition ordinal_volume :: "StatefulSetParams \<Rightarrow> nat \<Rightarrow> Volume" where
  "ordinal_volume p i =
     (let cmName = (case map_get (stp_ConfigMapNames p) (int i) of
                      Some n \<Rightarrow> n
                    | None \<Rightarrow> HAConfigMapName (stp_CRName p) (stp_Component p) (int i))
      in volume (ordinal_volume_name i) (ConfigMapSource cmName))"

definition ordinal_mount :: "nat \<Rightarrow> VolumeMount" where
  "ordinal_mount i = mount (ordinal_volume_name i) (ConfigsBaseMountPath @ ''/'' @ dec_nat i) True"

definition sts_volumes :: "StatefulSetParams \<Rightarrow> Volume list" where
  "sts_volumes p =
     [volume ActiveConfigVolumeName EmptyDir, volume RunVolumeName EmptyDir, volume LeaseVolumeName EmptyDir]
     @ map (ordinal_volume p) (sts_ordinals p)
     @ (if stp_TLSSecretName p \<noteq> '''' then [volume TLSVolumeName (SecretSource (stp_TLSSecretName p))] else [])"

definition sts_init_mounts :: "StatefulSetParams \<Rightarrow> VolumeMount list" where
  "sts_init_mounts p =
     [mount ActiveConfigVolumeName ActiveConfigMountPath False, mount RunVolumeName RunMountPath False]
     @ map ordinal_mount (sts_ordinals p)"

definition sts_main_mounts :: "StatefulSetParams \<Rightarrow> VolumeMount list" where
  "sts_main_mounts p =
     [mount ActiveConfigVolumeName ConfigMountPath True, mount RunVolumeName RunMountPath False,
      mount LeaseVolumeName LeaseMountPath False]
     @ (if stp_TLSSecretName p \<noteq> '''' then [mount TLSVolumeName TLSMountPath True] else [])"

section \<open>Scripts\<close>

definition init_select :: "string \<Rightarrow> string \<Rightarrow> string" where
  \<open>init_select configFileName configDst =
     ''chmod 750 '' @ RunMountPath @ ''; ordinal=${HOSTNAME##*-}; cp '' @ ConfigsBaseMountPath
     @ ''/${ordinal}/'' @ configFileName @ '' '' @ configDst
     @ ''; echo "Selected config for ordinal ${ordinal}"''\<close>

definition init_peer :: "string \<Rightarrow> string \<Rightarrow> string \<times> string \<Rightarrow> string" where
  \<open>init_peer stsName configDst hosts =
    (let (configHostname, serviceHostname) = hosts in
     nl
     @ ''if echo "'' @ configHostname @ ''" | grep -q "^'' @ stsName @ ''-${ordinal}'' @ bsl @ ''."; then''
     @ nl
     @ ''  pod_ip=$(hostname -i | awk '{print $1}')'' @ nl
     @ ''  sed -i "s|'' @ configHostname @ ''|$pod_ip|g" '' @ configDst @ nl
     @ ''  echo "This server: '' @ configHostname @ '' -> $pod_ip (pod IP)"'' @ nl
     @ ''else'' @ nl
     @ ''  resolved=""'' @ nl
     @ ''  for i in 1 2 3 4 5 6 7 8 9 10 11 12 13 14 15; do'' @ nl
     @ ''    resolved=$(nslookup '' @ serviceHostname
     @ '' 2>/dev/null | tail -n +3 | awk '/^Address/{print $NF}' | grep -v ':' | head -1)'' @ nl
     @ ''    if [ -n "$resolved" ]; then break; fi'' @ nl
     @ ''    echo "Waiting for DNS resolution of '' @ serviceHostname @ '' (attempt $i)..."'' @ nl
     @ ''    sleep 2'' @ nl
     @ ''  done'' @ nl
     @ ''  if [ -n "$resolved" ]; then'' @ nl
     @ ''    sed -i "s|'' @ configHostname @ ''|$resolved|g" '' @ configDst @ nl
     @ ''    echo "Resolved '' @ configHostname @ '' -> $resolved (via '' @ serviceHostname @ '')"'' @ nl
     @ ''  else'' @ nl
     @ ''    echo "WARNING: Could not resolve '' @ serviceHostname @ '', keeping hostname"'' @ nl
     @ ''  fi'' @ nl
     @ ''fi'')\<close>

definition init_sed :: "string \<Rightarrow> EnvVar \<Rightarrow> string" where
  \<open>init_sed configDst ev =
     ''; sed -i "s|'' @ bsl @ ''$'' @ ev_Name ev @ ''|${'' @ ev_Name ev @ ''}|g" '' @ configDst\<close>

definition init_final :: "string \<Rightarrow> string" where
  \<open>init_final configDst =
     nl
     @ ''echo '=== Final config ==='; cat '' @ configDst\<close>

definition sts_init_script :: "(string strmap \<Rightarrow> string strmap) \<Rightarrow> StatefulSetParams \<Rightarrow> string" where
  "sts_init_script hostOrder p =
     (let configDst = ActiveConfigMountPath @ ''/'' @ stp_ConfigFileName p;
          stsName = StatefulSetName (stp_CRName p) (stp_Component p);
          initScript = init_select (stp_ConfigFileName p) configDst;
          initScript = initScript @ concat (map (init_peer stsName configDst) (hostOrder (stp_PeerHostnameMap p)));
          initScript = initScript @ concat (map (init_sed configDst) (stp_SecretEnvVars p))
      in initScript @ init_final configDst)"

definition nad_case_head :: "string \<Rightarrow> string" where
  \<open>nad_case_head nadSubnet =
     ''ordinal=${HOSTNAME##*-}; prefix=$(echo '' @ nadSubnet @ '' | cut -d/ -f2); case $ordinal in ''\<close>

definition nad_case_arm :: "int \<times> string \<Rightarrow> string" where
  \<open>nad_case_arm oa =
    (let (ord, addr) = oa in
     dec_int ord @ '') ip_addr="'' @ addr @ ''/${prefix}" ;; '')\<close>

definition nad_case_tail :: "string \<Rightarrow> string \<Rightarrow> string \<Rightarrow> string \<Rightarrow> string" where
  \<open>nad_case_tail nadInterface nadSubnet command configFileName =
     ''*) base=$(echo '' @ nadSubnet @ '' | cut -d/ -f1); IFS=. read -r a b c d <<EOF'' @ nl
     @ ''$base'' @ nl
     @ ''EOF'' @ nl
     @ ''ip_last=$((d + ordinal + 2)); ip_addr="${a}.${b}.${c}.${ip_last}/${prefix}" ;; esac; ip addr add $ip_addr dev ''
     @ nadInterface @ '' 2>/dev/null || true; echo "Assigned $ip_addr to '' @ nadInterface @ ''"; exec ''
     @ command @ '' -c '' @ ConfigMountPath @ ''/'' @ configFileName\<close>

definition nad_auto_command :: "string \<Rightarrow> string \<Rightarrow> string \<Rightarrow> string \<Rightarrow> string" where
  \<open>nad_auto_command nadInterface nadSubnet command configFileName =
     ''ordinal=${HOSTNAME##*-}; base=$(echo '' @ nadSubnet @ '' | cut -d/ -f1); prefix=$(echo '' @ nadSubnet
     @ '' | cut -d/ -f2); IFS=. read -r a b c d <<EOF'' @ nl
     @ ''$base'' @ nl
     @ ''EOF'' @ nl
     @ ''ip_last=$((d + ordinal + 2)); ip addr add ${a}.${b}.${c}.${ip_last}/${prefix} dev '' @ nadInterface
     @ '' 2>/dev/null || true; echo "Assigned ${a}.${b}.${c}.${ip_last}/${prefix} to '' @ nadInterface
     @ ''"; exec '' @ command @ '' -c '' @ ConfigMountPath @ ''/'' @ configFileName\<close>

definition sts_command :: "((int, string) gomap \<Rightarrow> (int, string) gomap) \<Rightarrow> StatefulSetParams \<Rightarrow> string list" where
  "sts_command addrOrder p =
     (if nad_configured (stp_NADInterface p) (stp_NADSubnet p) (stp_Command p)
      then if 0 < length (stp_PeerAddresses p)
           then [''sh'', ''-c'',
                 nad_case_head (stp_NADSubnet p)
                 @ concat (map nad_case_arm (addrOrder (stp_PeerAddresses p)))
                 @ nad_case_tail (stp_NADInterface p) (stp_NADSubnet p) (stp_Command p) (stp_ConfigFileName p)]
           else [''sh'', ''-c'', nad_auto_command (stp_NADInterface p) (stp_NADSubnet p) (stp_Command p) (stp_ConfigFileName p)]
      else [stp_Command p, ''-c'', ConfigMountPath @ ''/'' @ stp_ConfigFileName p])"

section \<open>Object\<close>

definition sts_init_container :: "(string strmap \<Rightarrow> string strmap) \<Rightarrow> StatefulSetParams \<Rightarrow> Container" where
  "sts_init_container hostOrder p =
     zero_Container\<lparr>
       co_Name := ''config-selector'',
       co_Image := (if stp_InitContainerImage p \<noteq> '''' then stp_InitContainerImage p else DefaultInitContainerImage),
       co_Command := [''sh'', ''-c'', sts_init_script hostOrder p],
       co_Env := stp_SecretEnvVars p,
       co_VolumeMounts := sts_init_mounts p,
       co_SecurityContext := \<lparr>sc_Add = [], sc_Drop = [capabilityAll]\<rparr>\<rparr>"

definition sts_container :: "((int, string) gomap \<Rightarrow> (int, string) gomap) \<Rightarrow> StatefulSetParams \<Rightarrow> Container" where
  "sts_container addrOrder p =
     zero_Container\<lparr>
       co_Name := stp_Component p,
       co_Image := (if stp_Image p = '''' then DefaultImageForComponent (stp_Component p) else stp_Image p),
       co_ImagePullPolicy := stp_ImagePullPolicy p,
       co_Command := sts_command addrOrder p,
       co_Resources := stp_Resources p,
       co_VolumeMounts := sts_main_mounts p,
       co_SecurityContext := kea_capabilities (stp_NADInterface p)\<rparr>"

definition ha_affinity :: "labels \<Rightarrow> Affinity option \<Rightarrow> Affinity" where
  "ha_affinity lbls user =
     (let anti = \<lparr>paa_Required = [], paa_Preferred =
                   [\<lparr>wpa_Weight = 100, wpa_MatchLabels = lbls, wpa_TopologyKey = ''kubernetes.io/hostname''\<rparr>]\<rparr>
      in case user of
           None \<Rightarrow> \<lparr>af_NodeAffinity = None, af_PodAffinity = None, af_PodAntiAffinity = Some anti\<rparr>
         | Some u \<Rightarrow> \<lparr>af_NodeAffinity = af_NodeAffinity u, af_PodAffinity = af_PodAffinity u,
                      af_PodAntiAffinity = Some anti\<rparr>)"

definition BuildStatefulSet ::
  "(string strmap \<Rightarrow> string strmap) \<Rightarrow> ((int, string) gomap \<Rightarrow> (int, string) gomap) \<Rightarrow>
   StatefulSetParams \<Rightarrow> StatefulSet" where
  "BuildStatefulSet hostOrder addrOrder p =
     (let lbls = CommonLabels (stp_CRName p) (stp_Component p);
          containers = sts_container addrOrder p #
            (case stp_StorkAgent p of None \<Rightarrow> [] | Some s \<Rightarrow> [buildStorkAgentContainer s ActiveConfigVolumeName]);
          shareProcessNamespace = (case stp_StorkAgent p of None \<Rightarrow> None | Some _ \<Rightarrow> Some True)
      in \<lparr>ste_Meta = object_meta (StatefulSetName (stp_CRName p) (stp_Component p)) (stp_Namespace p) lbls,
          ste_Spec =
            \<lparr>sts_ServiceName = HeadlessServiceName (stp_CRName p) (stp_Component p),
             sts_PodManagementPolicy = ''Parallel'',
             sts_Replicas = Some (sts_replicas p),
             sts_Selector = lbls,
             sts_Template =
               \<lparr>pt_Labels = lbls,
                pt_Annotations = merge_annotations (stp_PodAnnotations p) (stp_ConfigHash p),
                pt_Spec =
                  \<lparr>ps_ServiceAccountName = stp_ServiceAccountName p,
                   ps_HostNetwork = stp_HostNetwork p,
                   ps_ShareProcessNamespace = shareProcessNamespace,
                   ps_InitContainers = [sts_init_container hostOrder p],
                   ps_Containers = containers,
                   ps_Volumes = sts_volumes p,
                   ps_NodeSelector = stp_NodeSelector p,
                   ps_Tolerations = stp_Tolerations p,
                   ps_Affinity = Some (ha_affinity lbls (stp_Affinity p)),
                   ps_ImagePullSecrets = stp_ImagePullSecrets p\<rparr>\<rparr>\<rparr>,
          ste_ReadyReplicas = 0\<rparr>)"

section \<open>Properties\<close>

lemma ordinal_volume_name_inj: "inj ordinal_volume_name"
  by (simp add: inj_def ordinal_volume_name_def)

lemma vol_Name_ordinal [simp]: "vol_Name (ordinal_volume p i) = ordinal_volume_name i"
  by (simp add: ordinal_volume_def volume_def Let_def)

lemma sts_volume_names:
  "map vol_Name (sts_volumes p) =
     [ActiveConfigVolumeName, RunVolumeName, LeaseVolumeName] @ map ordinal_volume_name (sts_ordinals p)
     @ (if stp_TLSSecretName p = '''' then [] else [TLSVolumeName])"
  by (simp add: sts_volumes_def volume_def)

lemma fixed_names_not_ordinal:
  "ActiveConfigVolumeName \<noteq> ordinal_volume_name i" "RunVolumeName \<noteq> ordinal_volume_name i"
  "LeaseVolumeName \<noteq> ordinal_volume_name i" "TLSVolumeName \<noteq> ordinal_volume_name i"
  by (simp_all add: go_defs ordinal_volume_name_def)

lemma sts_volumes_distinct: "distinct (map vol_Name (sts_volumes p))"
proof -
  have "distinct (map ordinal_volume_name (sts_ordinals p))"
    by (rule distinct_map_inj [OF _ ordinal_volume_name_inj]) (simp add: sts_ordinals_def)
  moreover have "distinct [ActiveConfigVolumeName, RunVolumeName, LeaseVolumeName, TLSVolumeName]"
    by (simp add: go_defs)
  ultimately show ?thesis
    unfolding sts_volume_names using fixed_names_not_ordinal by auto
qed

lemma ordinal_path_inj: "(ConfigsBaseMountPath @ ''/'' @ dec_nat i = ConfigsBaseMountPath @ ''/'' @ dec_nat j) = (i = j)"
  by simp

lemma sts_init_mounts_ok: "mounts_ok (sts_volumes p) (sts_init_container hostOrder p)"
proof -
  have "distinct (map (\<lambda>i. ConfigsBaseMountPath @ ''/'' @ dec_nat i) (sts_ordinals p))"
    by (rule distinct_map_inj) (simp_all add: sts_ordinals_def inj_def)
  moreover have "ActiveConfigMountPath \<noteq> ConfigsBaseMountPath @ t" "RunMountPath \<noteq> ConfigsBaseMountPath @ t" for t
    by (simp_all add: go_defs)
  moreover have "ActiveConfigMountPath \<noteq> RunMountPath" by (simp add: go_defs)
  ultimately show ?thesis
    unfolding mounts_ok_def sts_volume_names
    by (auto simp: sts_init_container_def sts_init_mounts_def mount_def ordinal_mount_def list_all_iff comp_def)
qed

lemma sts_main_mounts_ok: "mounts_ok (sts_volumes p) (sts_container addrOrder p)"
  unfolding mounts_ok_def sts_volume_names
  by (simp add: sts_container_def sts_main_mounts_def mount_def go_defs)

lemma sts_stork_mounts_ok: "mounts_ok (sts_volumes p) (buildStorkAgentContainer s ActiveConfigVolumeName)"
  unfolding mounts_ok_def sts_volume_names
  by (simp add: buildStorkAgentContainer_def mount_def go_defs)

lemma sts_pod_spec:
  "ps_Containers (pt_Spec (sts_Template (ste_Spec (BuildStatefulSet ho ao p)))) =
     sts_container ao p #
       (case stp_StorkAgent p of None \<Rightarrow> [] | Some s \<Rightarrow> [buildStorkAgentContainer s ActiveConfigVolumeName])"
  "ps_InitContainers (pt_Spec (sts_Template (ste_Spec (BuildStatefulSet ho ao p)))) = [sts_init_container ho p]"
  "ps_Volumes (pt_Spec (sts_Template (ste_Spec (BuildStatefulSet ho ao p)))) = sts_volumes p"
  by (simp_all add: BuildStatefulSet_def Let_def)

lemma sts_container_names:
  "co_Name (sts_container ao p) = stp_Component p"
  "co_Name (sts_init_container ho p) = ''config-selector''"
  "co_Name (buildStorkAgentContainer s v) = ''stork-agent''"
  by (simp_all add: sts_container_def sts_init_container_def buildStorkAgentContainer_def StorkAgentContainerName_def)

text \<open>
  C25: the StatefulSet of an HA component is well formed for every number of replicas: volume
  and container names are unique, every mount of the init container, the daemon and the sidecar
  names a volume of the pod and no path is mounted twice; the selector is the pod's label set,
  the governing Service is the headless one, and the pod carries its configuration hash.
\<close>

theorem statefulset_wf:
  assumes "stp_Component p \<in> set kea_components"
  shows "(let d = ste_Spec (BuildStatefulSet hostOrder addrOrder p); ps = pt_Spec (sts_Template d) in
     pod_wf ps \<and> list_all caps_ok (ps_InitContainers ps @ ps_Containers ps)
     \<and> sts_Selector d = pt_Labels (sts_Template d)
     \<and> sts_ServiceName d = HeadlessServiceName (stp_CRName p) (stp_Component p)
     \<and> map_get (pt_Annotations (sts_Template d)) ConfigHashAnnotation = Some (stp_ConfigHash p))"
proof -
  have "caps_ok (sts_container addrOrder p)" "caps_ok (sts_init_container hostOrder p)"
    by (simp_all add: caps_ok_def sts_container_def sts_init_container_def kea_capabilities_def)
  moreover have "stp_Component p \<noteq> ''config-selector''" "stp_Component p \<noteq> ''stork-agent''"
    using assms by (auto simp: kea_components_def name_defs)
  ultimately show ?thesis
    by (simp add: pod_wf_def sts_pod_spec sts_volumes_distinct sts_init_mounts_ok sts_main_mounts_ok
        sts_stork_mounts_ok sts_container_names stork_container_caps Let_def split: option.split)
      (simp add: BuildStatefulSet_def Let_def merge_annotations_hash)
qed

definition sample_sts :: StatefulSetParams where
  "sample_sts = zero_StatefulSetParams\<lparr>stp_CRName := ''ha'', stp_Component := ComponentDhcp4,
     stp_ConfigFileName := ''kea-dhcp4.conf'', stp_PeerHostnameMap := [(''a'', ''x''), (''b'', ''y'')]\<rparr>"

theorem statefulset_wf_witness:
  "pod_wf (pt_Spec (sts_Template (ste_Spec (BuildStatefulSet id id sample_sts))))"
  using statefulset_wf [of sample_sts id id] by (simp add: Let_def sample_sts_def kea_components_def)

section \<open>Pods of a StatefulSet\<close>

text \<open>
  What Kubernetes documents of the pod with an ordinal: its name, which is also its host name,
  is the StatefulSet's name and the ordinal; its labels are those of the template and its name.
\<close>

definition sts_pod_name :: "StatefulSet \<Rightarrow> nat \<Rightarrow> string" where
  "sts_pod_name s n = om_Name (ste_Meta s) @ ''-'' @ dec_nat n"

definition sts_pod_labels :: "StatefulSet \<Rightarrow> nat \<Rightarrow> labels" where
  "sts_pod_labels s n =
     map_set (pt_Labels (sts_Template (ste_Spec s))) ''statefulset.kubernetes.io/pod-name'' (sts_pod_name s n)"

lemma sts_meta:
  "om_Name (ste_Meta (BuildStatefulSet ho ao p)) = StatefulSetName (stp_CRName p) (stp_Component p)"
  "pt_Labels (sts_Template (ste_Spec (BuildStatefulSet ho ao p))) = CommonLabels (stp_CRName p) (stp_Component p)"
  by (simp_all add: BuildStatefulSet_def object_meta_def Let_def)

lemma selects_pod_name:
  "selects [(''statefulset.kubernetes.io/pod-name'', v)] (sts_pod_labels s n) = (v = sts_pod_name s n)"
  by (auto simp: selects_def sts_pod_labels_def map_laws)

text \<open>
  C29: a per-pod Service of a component selects, among the pods of that component's
  StatefulSet, exactly the pod with its own ordinal, while the headless Service selects
  them all, ready or not, and carries no cluster address.
\<close>

theorem per_pod_service_targets_one_pod:
  "let pod = sts_pod_labels (BuildStatefulSet hostOrder addrOrder
       (q\<lparr>stp_CRName := svp_CRName p, stp_Component := svp_Component p\<rparr>)) m in
   selects (svs_Selector (svc_Spec (BuildPerPodService p (int n)))) pod = (n = m)
   \<and> selects (svs_Selector (svc_Spec (BuildHeadlessService p))) pod
   \<and> svs_ClusterIP (svc_Spec (BuildHeadlessService p)) = ''None''
   \<and> svs_PublishNotReadyAddresses (svc_Spec (BuildHeadlessService p))"
proof -
  let ?l = "CommonLabels (svp_CRName p) (svp_Component p)"
  let ?s = "BuildStatefulSet hostOrder addrOrder (q\<lparr>stp_CRName := svp_CRName p, stp_Component := svp_Component p\<rparr>)"
  have "map_get ?l ''statefulset.kubernetes.io/pod-name'' = None"
    by (simp add: CommonLabels_def map_get_lit name_defs)
  then have "selects ?l (sts_pod_labels ?s m)"
    by (auto simp: selects_get sts_pod_labels_def map_laws sts_meta)
  then show ?thesis
    by (simp add: per_pod_selector selects_pod_name sts_pod_name_def sts_meta BuildHeadlessService_def Let_def)
qed

section \<open>What the init script copies\<close>

text \<open>
  The two shell expansions the script relies on: \<^verbatim>\<open>${HOSTNAME##*-}\<close>, the text after the last
  dash, and \<^verbatim>\<open>${var}\<close> for a variable that is set.
\<close>

definition after_last_dash :: "string \<Rightarrow> string" where
  "after_last_dash s = rev (takeWhile (\<lambda>c. c \<noteq> CHR ''-'') (rev s))"

fun expand_var :: "string \<Rightarrow> string \<Rightarrow> string \<Rightarrow> string" where
  "expand_var var val [] = []"
| "expand_var var val (c # s) =
     (if prefix (''${'' @ var @ ''}'') (c # s) then val @ expand_var var val (drop (length var + 2) s)
      else c # expand_var var val s)"

lemma after_last_dash_ordinal: "after_last_dash (n @ ''-'' @ dec_nat i) = dec_nat i"
proof -
  have "takeWhile (\<lambda>c. c \<noteq> CHR ''-'') (rev (dec_nat i)) = rev (dec_nat i)"
    using dash_not_in_dec_nat [of i] by auto
  then show ?thesis by (simp add: after_last_dash_def takeWhile_tail del: takeWhile_eq_all_conv)
qed

lemma expand_var_literal: "CHR ''$'' \<notin> set s \<Longrightarrow> expand_var var val s = s"
  by (induction s) auto

lemma expand_var_skip: "CHR ''$'' \<notin> set s \<Longrightarrow> expand_var var val (s @ t) = s @ expand_var var val t"
  by (induction s) auto

lemma expand_var_hit: "expand_var var val (''${'' @ var @ ''}'' @ t) = val @ expand_var var val t"
  by simp

lemma expand_cp_source:
  assumes "CHR ''$'' \<notin> set file"
  shows "expand_var ''ordinal'' v (ConfigsBaseMountPath @ ''/${ordinal}/'' @ file) = ConfigsBaseMountPath @ ''/'' @ v @ ''/'' @ file"
proof -
  have "ConfigsBaseMountPath @ ''/${ordinal}/'' @ file
      = (ConfigsBaseMountPath @ ''/'') @ ''${'' @ ''ordinal'' @ ''}'' @ (''/'' @ file)" by simp
  then have "expand_var ''ordinal'' v (ConfigsBaseMountPath @ ''/${ordinal}/'' @ file)
      = (ConfigsBaseMountPath @ ''/'') @ expand_var ''ordinal'' v (''${'' @ ''ordinal'' @ ''}'' @ (''/'' @ file))"
    by (rule ssubst) (rule expand_var_skip, simp add: go_defs)
  moreover have "expand_var ''ordinal'' v (''/'' @ file) = ''/'' @ file"
    by (rule expand_var_literal) (use assms in simp)
  ultimately show ?thesis unfolding expand_var_hit by simp
qed



text \<open>
  HA pods prefer different nodes, whatever the user configures: the pod anti-affinity is
  the operator's own term on the component's labels, while the user's node affinity and pod
  affinity are kept.
\<close>

lemma statefulset_anti_affinity:
  "\<exists>a anti. ps_Affinity (pt_Spec (sts_Template (ste_Spec (BuildStatefulSet hostOrder addrOrder p)))) = Some a
     \<and> af_PodAntiAffinity a = Some anti
     \<and> map wpa_MatchLabels (paa_Preferred anti) = [CommonLabels (stp_CRName p) (stp_Component p)]
     \<and> map wpa_TopologyKey (paa_Preferred anti) = [''kubernetes.io/hostname'']
     \<and> af_NodeAffinity a = Option.bind (stp_Affinity p) af_NodeAffinity
     \<and> af_PodAffinity a = Option.bind (stp_Affinity p) af_PodAffinity"
  by (simp add: BuildStatefulSet_def Let_def ha_affinity_def split: option.split)

section \<open>The order of the peers\<close>

text \<open>What the script does for a peer: look its Service up, and write an address over its name.\<close>

definition peer_lookup :: "string \<Rightarrow> string" where
  "peer_lookup service = ''resolved=$(nslookup '' @ service @ '' 2>/dev/null''"

definition peer_rewrite :: "string \<Rightarrow> string \<Rightarrow> string \<Rightarrow> string" where
  \<open>peer_rewrite host address file = ''sed -i "s|'' @ host @ ''|'' @ address @ ''|g" '' @ file\<close>

definition dquote :: char where \<open>dquote = CHR ''"''\<close>

lemma init_peer_head:
  \<open>\<exists>a b. init_peer n dst hs = nl @ ''if echo '' @ [dquote] @ fst hs @ [dquote] @ a
     @ peer_rewrite (fst hs) ''$pod_ip'' dst @ b\<close>
proof -
  have \<open>\<exists>b. init_peer n dst hs = nl @ ''if echo '' @ [dquote] @ fst hs @ [dquote]
     @ ('' | grep -q "^'' @ n @ ''-${ordinal}'' @ bsl @ ''."; then'' @ nl @ ''  pod_ip=$(hostname -i | awk '{print $1}')'' @ nl @ ''  '')
     @ peer_rewrite (fst hs) ''$pod_ip'' dst @ b\<close>
    by (cases hs) (simp add: init_peer_def peer_rewrite_def dquote_def)
  then show ?thesis by blast
qed

lemma init_peer_tail:
  \<open>\<exists>a b c. init_peer n dst hs = a @ peer_lookup (snd hs) @ b @ peer_rewrite (fst hs) ''$resolved'' dst @ c\<close>
proof -
  obtain h s where hs: "hs = (h, s)" by (cases hs)
  have \<open>init_peer n dst (h, s) =
      (nl @ ''if echo "'' @ h @ ''" | grep -q "^'' @ n @ ''-${ordinal}'' @ bsl @ ''."; then'' @ nl
       @ ''  pod_ip=$(hostname -i | awk '{print $1}')'' @ nl @ ''  '' @ peer_rewrite h ''$pod_ip'' dst @ nl
       @ ''  echo "This server: '' @ h @ '' -> $pod_ip (pod IP)"'' @ nl @ ''else'' @ nl @ ''  resolved=""'' @ nl
       @ ''  for i in 1 2 3 4 5 6 7 8 9 10 11 12 13 14 15; do'' @ nl @ ''    '')
      @ peer_lookup s
      @ ('' | tail -n +3 | awk '/^Address/{print $NF}' | grep -v ':' | head -1)'' @ nl
         @ ''    if [ -n "$resolved" ]; then break; fi'' @ nl
         @ ''    echo "Waiting for DNS resolution of '' @ s @ '' (attempt $i)..."'' @ nl @ ''    sleep 2'' @ nl @ ''  done'' @ nl
         @ ''  if [ -n "$resolved" ]; then'' @ nl @ ''    '')
      @ peer_rewrite h ''$resolved'' dst
      @ (nl @ ''    echo "Resolved '' @ h @ '' -> $resolved (via '' @ s @ '')"'' @ nl @ ''  else'' @ nl
         @ ''    echo "WARNING: Could not resolve '' @ s @ '', keeping hostname"'' @ nl @ ''  fi'' @ nl @ ''fi'')\<close>
    by (simp add: init_peer_def peer_rewrite_def peer_lookup_def)
  then show ?thesis unfolding hs fst_conv snd_conv by blast
qed

text \<open>The name of the first peer can be read off the sections: it ends at a double quote.\<close>

lemma delimited_eq:
  "q \<notin> set h \<Longrightarrow> q \<notin> set h' \<Longrightarrow> h @ q # t = h' @ q # t' \<Longrightarrow> h = h'"
  by (simp add: append_eq_append_conv2) (auto simp: Cons_eq_append_conv append_eq_Cons_conv)

lemma init_peer_name:
  assumes "init_peer n dst hs @ t = init_peer n dst hs' @ t'"
    and "dquote \<notin> set (fst hs)" "dquote \<notin> set (fst hs')"
  shows "fst hs = fst hs'"
proof -
  obtain a b where "init_peer n dst hs = nl @ ''if echo '' @ [dquote] @ fst hs @ dquote # a @ b"
    using init_peer_head [of n dst hs] by auto
  moreover obtain a' b' where "init_peer n dst hs' = nl @ ''if echo '' @ [dquote] @ fst hs' @ dquote # a' @ b'"
    using init_peer_head [of n dst hs'] by auto
  ultimately have "fst hs @ dquote # (a @ b @ t) = fst hs' @ dquote # (a' @ b' @ t')" using assms(1) by simp
  then show ?thesis using delimited_eq assms(2,3) by metis
qed

lemma init_peers_inj:
  assumes "concat (map (init_peer n dst) xs) @ t = concat (map (init_peer n dst) ys) @ t"
    and "length xs = length ys" and "set xs \<subseteq> set hosts" "set ys \<subseteq> set hosts"
    and "distinct (map fst hosts)" and "list_all (\<lambda>h. dquote \<notin> set (fst h)) hosts"
  shows "xs = ys"
  using assms(2,1,3,4)
proof (induction xs ys rule: list_induct2)
  case (Cons x xs y ys)
  have xy: "x \<in> set hosts" "y \<in> set hosts" using Cons.prems by auto
  moreover have "init_peer n dst x @ (concat (map (init_peer n dst) xs) @ t) = init_peer n dst y @ (concat (map (init_peer n dst) ys) @ t)"
    using Cons.prems(1) by simp
  ultimately have "fst x = fst y" using init_peer_name assms(6) by (metis list_all_iff)
  then have "x = y" using xy assms(5) by (metis eq_key_imp_eq_value prod.collapse)
  then show ?case using Cons by simp
qed simp

definition init_script_of :: "StatefulSet \<Rightarrow> string" where
  "init_script_of s = concat (concat (map co_Command (ps_InitContainers (pt_Spec (sts_Template (ste_Spec s))))))"

lemma init_script_of_Build: "init_script_of (BuildStatefulSet ho ao p) = ''sh-c'' @ sts_init_script ho p"
  unfolding init_script_of_def sts_pod_spec by (simp add: sts_init_container_def)

lemma sts_init_script_split:
  "\<exists>pre post. \<forall>ho. sts_init_script ho p = pre
     @ concat (map (init_peer (StatefulSetName (stp_CRName p) (stp_Component p)) (ActiveConfigMountPath @ ''/'' @ stp_ConfigFileName p))
         (ho (stp_PeerHostnameMap p))) @ post"
  by (intro exI allI) (simp add: sts_init_script_def Let_def)

lemma BuildStatefulSet_cong: "ho (stp_PeerHostnameMap p) = ho' (stp_PeerHostnameMap p) \<Longrightarrow> BuildStatefulSet ho ao p = BuildStatefulSet ho' ao p"
  by (simp add: BuildStatefulSet_def sts_init_container_def sts_init_script_def)

lemma init_script_order:
  assumes "distinct (map fst (stp_PeerHostnameMap p))"
    and "list_all (\<lambda>h. dquote \<notin> set (fst h)) (stp_PeerHostnameMap p)"
    and "distinct (o1 (stp_PeerHostnameMap p))" "set (o1 (stp_PeerHostnameMap p)) = set (stp_PeerHostnameMap p)"
    and "distinct (o2 (stp_PeerHostnameMap p))" "set (o2 (stp_PeerHostnameMap p)) = set (stp_PeerHostnameMap p)"
  shows "(BuildStatefulSet o1 ao p = BuildStatefulSet o2 ao p) = (o1 (stp_PeerHostnameMap p) = o2 (stp_PeerHostnameMap p))"
proof
  assume "BuildStatefulSet o1 ao p = BuildStatefulSet o2 ao p"
  then have "sts_init_script o1 p = sts_init_script o2 p"
    using init_script_of_Build [of o1 ao p] init_script_of_Build [of o2 ao p] by simp
  moreover have "length (o1 (stp_PeerHostnameMap p)) = length (o2 (stp_PeerHostnameMap p))"
    using assms(3-6) by (metis distinct_card)
  moreover obtain pre post where "\<forall>ho. sts_init_script ho p = pre @ concat (map (init_peer (StatefulSetName (stp_CRName p) (stp_Component p))
      (ActiveConfigMountPath @ ''/'' @ stp_ConfigFileName p)) (ho (stp_PeerHostnameMap p))) @ post"
    using sts_init_script_split [of p] by (elim exE) blast
  ultimately show "o1 (stp_PeerHostnameMap p) = o2 (stp_PeerHostnameMap p)"
    using init_peers_inj [OF _ _ _ _ assms(1,2)] assms(4,6) by (simp only: same_append_eq subset_refl)
next
  assume "o1 (stp_PeerHostnameMap p) = o2 (stp_PeerHostnameMap p)"
  then show "BuildStatefulSet o1 ao p = BuildStatefulSet o2 ao p" by (rule BuildStatefulSet_cong)
qed

lemma rev_differs: "distinct xs \<Longrightarrow> 2 \<le> length xs \<Longrightarrow> rev xs \<noteq> xs"
proof
  assume d: "distinct xs" and l: "2 \<le> length xs" and "rev xs = xs"
  moreover have "rev xs ! 0 = xs ! (length xs - 1)" using l by (subst rev_nth) auto
  ultimately have "xs ! 0 = xs ! (length xs - 1)" by simp
  then have "0 = length xs - 1" using d l by (subst (asm) nth_eq_iff_index_eq) auto
  then show False using l by simp
qed

definition peer_handled :: "string \<Rightarrow> string \<Rightarrow> string \<times> string \<Rightarrow> bool" where
  "peer_handled script dst hs =
     (sublist (peer_rewrite (fst hs) ''$pod_ip'' dst) script
      \<and> sublist (peer_lookup (snd hs)) script \<and> sublist (peer_rewrite (fst hs) ''$resolved'' dst) script)"

lemma sublist_concat_map: "x \<in> set xs \<Longrightarrow> sublist (f x) (concat (map f xs))"
  by (metis concat.simps(2) concat_append in_set_conv_decomp list.simps(9) map_append sublist_appendI)

lemma init_script_handles:
  assumes "hs \<in> set (ho (stp_PeerHostnameMap p))"
  shows "peer_handled (init_script_of (BuildStatefulSet ho ao p)) (ActiveConfigMountPath @ ''/'' @ stp_ConfigFileName p) hs"
proof -
  let ?d = "ActiveConfigMountPath @ ''/'' @ stp_ConfigFileName p"
  let ?n = "StatefulSetName (stp_CRName p) (stp_Component p)"
  obtain pre post where "sts_init_script ho p = pre @ concat (map (init_peer ?n ?d) (ho (stp_PeerHostnameMap p))) @ post"
    using sts_init_script_split [of p] by blast
  then have "init_script_of (BuildStatefulSet ho ao p)
      = (''sh-c'' @ pre) @ concat (map (init_peer ?n ?d) (ho (stp_PeerHostnameMap p))) @ post"
    unfolding init_script_of_Build by simp
  then have sub: "sublist (init_peer ?n ?d hs) (init_script_of (BuildStatefulSet ho ao p))"
    using sublist_concat_map [OF assms, of "init_peer ?n ?d"] sublist_appendI sublist_order.order.trans by metis
  obtain a b where "init_peer ?n ?d hs = (nl @ ''if echo '' @ [dquote] @ fst hs @ [dquote] @ a) @ peer_rewrite (fst hs) ''$pod_ip'' ?d @ b"
    using init_peer_head [of ?n ?d hs] unfolding append_assoc by (elim exE) blast
  then have "sublist (peer_rewrite (fst hs) ''$pod_ip'' ?d) (init_peer ?n ?d hs)" by (simp only: sublist_appendI)
  moreover obtain a b c where t: "init_peer ?n ?d hs = a @ peer_lookup (snd hs) @ b @ peer_rewrite (fst hs) ''$resolved'' ?d @ c"
    using init_peer_tail [of ?n ?d hs] by (elim exE) blast
  then have "sublist (peer_lookup (snd hs)) (init_peer ?n ?d hs)" by (simp only: sublist_appendI)
  moreover have "init_peer ?n ?d hs = (a @ peer_lookup (snd hs) @ b) @ peer_rewrite (fst hs) ''$resolved'' ?d @ c"
    unfolding t append_assoc by (rule refl)
  then have "sublist (peer_rewrite (fst hs) ''$resolved'' ?d) (init_peer ?n ?d hs)" by (simp only: sublist_appendI)
  ultimately show ?thesis using sub unfolding peer_handled_def by (meson sublist_order.order.trans)
qed

text \<open>
  C34: the StatefulSet of an HA server is a function of its inputs only up to the iteration
  order of a Go map. Every peer is handled by the init script, whatever the order: the script
  writes the pod's own address over the configured name of the pod itself, and otherwise looks
  the peer's Service up and writes the resolved address over that name in the selected
  configuration file. But the StatefulSets built under two orders of the peers are equal only
  when the orders are, and with two or more peers the reversed order gives another pod template,
  so a reconciliation without any change can replace the template. Host names contain no
  double quote.
\<close>

theorem statefulset_depends_on_map_order:
  assumes "distinct (map fst (stp_PeerHostnameMap p))"
    and "list_all (\<lambda>h. dquote \<notin> set (fst h)) (stp_PeerHostnameMap p)"
    and "distinct (o1 (stp_PeerHostnameMap p))" "set (o1 (stp_PeerHostnameMap p)) = set (stp_PeerHostnameMap p)"
    and "distinct (o2 (stp_PeerHostnameMap p))" "set (o2 (stp_PeerHostnameMap p)) = set (stp_PeerHostnameMap p)"
  shows "list_all (peer_handled (init_script_of (BuildStatefulSet o1 addrOrder p)) (ActiveConfigMountPath @ ''/'' @ stp_ConfigFileName p))
       (stp_PeerHostnameMap p)
     \<and> (BuildStatefulSet o1 addrOrder p = BuildStatefulSet o2 addrOrder p) = (o1 (stp_PeerHostnameMap p) = o2 (stp_PeerHostnameMap p))
     \<and> (2 \<le> length (stp_PeerHostnameMap p) \<longrightarrow>
          sts_Template (ste_Spec (BuildStatefulSet rev addrOrder p)) \<noteq> sts_Template (ste_Spec (BuildStatefulSet id addrOrder p)))"
proof (intro conjI impI)
  show "list_all (peer_handled (init_script_of (BuildStatefulSet o1 addrOrder p)) (ActiveConfigMountPath @ ''/'' @ stp_ConfigFileName p)) (stp_PeerHostnameMap p)"
    using init_script_handles assms(4) by (auto simp: list_all_iff)
  show "(BuildStatefulSet o1 addrOrder p = BuildStatefulSet o2 addrOrder p) = (o1 (stp_PeerHostnameMap p) = o2 (stp_PeerHostnameMap p))"
    by (rule init_script_order [of p o1 o2 addrOrder]) (fact assms)+
  assume len: "2 \<le> length (stp_PeerHostnameMap p)"
  have d: "distinct (stp_PeerHostnameMap p)" using assms(1) by (simp add: distinct_map)
  have "BuildStatefulSet rev addrOrder p \<noteq> BuildStatefulSet id addrOrder p"
    using init_script_order [of p rev id addrOrder] assms(1,2) rev_differs [OF d len] d by simp
  then show "sts_Template (ste_Spec (BuildStatefulSet rev addrOrder p)) \<noteq> sts_Template (ste_Spec (BuildStatefulSet id addrOrder p))"
    by (simp add: BuildStatefulSet_def Let_def)
qed

theorem statefulset_depends_on_map_order_witness:
  "BuildStatefulSet rev id sample_sts \<noteq> BuildStatefulSet id id sample_sts"
proof -
  have h: "stp_PeerHostnameMap sample_sts = [(''a'', ''x''), (''b'', ''y'')]"
    by (simp add: sample_sts_def)
  have "list_all (\<lambda>h. dquote \<notin> set (fst h)) (stp_PeerHostnameMap sample_sts)"
    unfolding h dquote_def by simp
  then have "sts_Template (ste_Spec (BuildStatefulSet rev id sample_sts)) \<noteq> sts_Template (ste_Spec (BuildStatefulSet id id sample_sts))"
    using statefulset_depends_on_map_order [of sample_sts rev id id] unfolding h by auto
  then show ?thesis by metis
qed

end
