(* ===== verification/GoJsonInj.thy ===== *)
theory GoJsonInj
  imports GoJson
begin

text \<open>
  The indented encoding is uniquely decodable: a reference decoder undoes the string
  escapes, and from it \<open>json_enc\<close> is shown to be a prefix code up to the delimiters the
  encoder writes after a value. The consequence the operator relies on is that two
  well-formed configurations with the same bytes are the same configuration.
\<close>

section \<open>Undoing the escapes\<close>

definition hex_val :: "char \<Rightarrow> nat" where
  "hex_val c = (if code c < 58 then code c - 48 else code c - 87)"

text \<open>The escapes \<^verbatim>\<open>\uXXXX\<close> the encoder writes: ASCII bytes and the two line separators.\<close>

definition unescape_u :: "char \<Rightarrow> char \<Rightarrow> char \<Rightarrow> char \<Rightarrow> string" where
  "unescape_u a b c d =
     (if a = CHR ''0'' then [char_of (16 * hex_val c + hex_val d)]
      else if d = CHR ''8'' then line_sep (CHR 0xA8) else line_sep (CHR 0xA9))"

definition unescape_short :: "char \<Rightarrow> char" where
  "unescape_short e =
     (if e = CHR ''b'' then CHR 0x08 else if e = CHR ''f'' then CHR 0x0C
      else if e = CHR ''n'' then CHR 0x0A else if e = CHR ''r'' then CHR 0x0D
      else if e = CHR ''t'' then CHR 0x09 else e)"

definition prepend :: "string \<Rightarrow> (string \<times> string) option \<Rightarrow> (string \<times> string) option" where
  "prepend s r = map_option (apfst ((@) s)) r"

function (sequential) json_unescape :: "string \<Rightarrow> (string \<times> string) option" where
  "json_unescape [] = None"
| "json_unescape (x # xs) =
     (if x = dquote then Some ([], xs)
      else if x = backslash then
        (case xs of
           [] \<Rightarrow> None
         | e # ys \<Rightarrow>
             if e = CHR ''u'' then
               (case ys of
                  a # b # c # d # zs \<Rightarrow> prepend (unescape_u a b c d) (json_unescape zs)
                | _ \<Rightarrow> None)
             else prepend [unescape_short e] (json_unescape ys))
      else prepend [x] (json_unescape xs))"
  by pat_completeness auto
termination by (relation "measure length") auto

lemma prepend_append: "prepend s (prepend t r) = prepend (s @ t) r"
  by (cases r) (auto simp: prepend_def)

lemma prepend_Some [simp]: "prepend s (Some (t, r)) = Some (s @ t, r)"
  by (simp add: prepend_def)

lemma unescape_plain:
  "\<forall>c \<in> set s. c \<noteq> dquote \<and> c \<noteq> backslash \<Longrightarrow>
     json_unescape (s @ r) = prepend s (json_unescape r)"
proof (induction s)
  case Nil
  then show ?case by (cases "json_unescape r") (auto simp: prepend_def)
next
  case (Cons c s)
  then show ?case by (simp add: prepend_append)
qed

lemma hex_val_hex_char: "n < 16 \<Longrightarrow> hex_val (hex_char n) = n"
  by (auto simp: hex_val_def hex_char_def of_char_of)

lemma unescape_u_hex:
  assumes "code c < 128"
  shows "unescape_u (CHR ''0'') b (hex_char (code c div 16)) (hex_char (code c mod 16)) = [c]"
proof -
  have "code c div 16 < 16" using assms by simp
  then have "unescape_u (CHR ''0'') b (hex_char (code c div 16)) (hex_char (code c mod 16))
      = [char_of (code c)]"
    by (simp add: unescape_u_def hex_val_hex_char)
  then show ?thesis by simp
qed

lemma unescape_ascii:
  assumes "code c < 128"
  shows "json_unescape (escape_ascii c @ r) = prepend [c] (json_unescape r)"
proof -
  let ?S = "{dquote, backslash, CHR 0x08, CHR 0x0C, CHR 0x0A, CHR 0x0D, CHR 0x09}"
  let ?h = "code c < 32 \<or> c = CHR ''<'' \<or> c = CHR ''>'' \<or> c = CHR ''&''"
  show ?thesis
  proof (cases "c \<in> ?S")
    case True
    then show ?thesis by (auto simp: escape_ascii_def unescape_short_def)
  next
    case notin: False
    show ?thesis
    proof (cases ?h)
    case True
    with notin have "escape_ascii c = [backslash, CHR ''u'', CHR ''0'', CHR ''0'',
        hex_char (code c div 16), hex_char (code c mod 16)]"
      unfolding escape_ascii_def by auto
    then show ?thesis using unescape_u_hex [OF assms] by simp
    next
    case False
    with notin have "escape_ascii c = [c]" unfolding escape_ascii_def by auto
    with notin show ?thesis by simp
    qed
  qed
qed

lemma rune_high:
  "rune2 a b \<Longrightarrow> 128 \<le> code a \<and> 128 \<le> code b"
  "rune3 a b c \<Longrightarrow> 128 \<le> code a \<and> 128 \<le> code b \<and> 128 \<le> code c"
  "rune4 a b c d \<Longrightarrow> 128 \<le> code a \<and> 128 \<le> code b \<and> 128 \<le> code c \<and> 128 \<le> code d"
  by (auto simp: rune2_def rune3_def rune4_def is_cont_def split: if_splits)

lemma rune_bytes_high:
  "rune_len s \<noteq> 0 \<Longrightarrow> \<forall>c \<in> set (take (rune_len s) s). 128 \<le> code c"
  by (cases s rule: rune_len.cases) (auto dest: rune_high split: if_splits)

lemma unescape_rune:
  assumes "rune_len s \<noteq> 0"
  shows "json_unescape (take (rune_len s) s @ r) = prepend (take (rune_len s) s) (json_unescape r)"
  using rune_bytes_high [OF assms] by (intro unescape_plain) force

lemma rune_len_line_sep:
  "take 3 s = line_sep c \<Longrightarrow> rune_len s \<noteq> 0 \<Longrightarrow> rune_len s = 3"
  by (cases s rule: rune_len.cases) (auto simp: line_sep_def rune2_def rune4_def split: if_splits)

lemma unescape_u_sep:
  "json_unescape (backslash # ''u2028'' @ r) = prepend (line_sep (CHR 0xA8)) (json_unescape r)"
  "json_unescape (backslash # ''u2029'' @ r) = prepend (line_sep (CHR 0xA9)) (json_unescape r)"
  by (simp_all add: unescape_u_def)

text \<open>A line separator in front, which is escaped, and any other rune, which is not.\<close>

lemma unescape_sep_step:
  assumes "take 3 (c # cs) = line_sep e" and "\<And>r. json_unescape (esc @ r) = prepend (line_sep e) (json_unescape r)"
    and "json_escape (c # cs) = esc @ json_escape (drop 2 cs)"
    and "json_unescape (json_escape (drop 2 cs) @ dquote # r) = Some (drop 2 cs, r)"
  shows "json_unescape (json_escape (c # cs) @ dquote # r) = Some (c # cs, r)"
proof -
  have "line_sep e @ drop 2 cs = c # cs" using assms(1) append_take_drop_id [of 3 "c # cs"] by simp
  moreover have "json_unescape (json_escape (c # cs) @ dquote # r) = Some (line_sep e @ drop 2 cs, r)"
    by (simp only: assms(3) append_assoc assms(2,4) prepend_Some)
  ultimately show ?thesis by (simp only:)
qed

lemma unescape_rune_step:
  assumes n: "rune_len (c # cs) = n" "n \<noteq> 0" and "json_escape (c # cs) = take n (c # cs) @ json_escape (drop (n - 1) cs)"
    and "json_unescape (json_escape (drop (n - 1) cs) @ dquote # r) = Some (drop (n - 1) cs, r)"
  shows "json_unescape (json_escape (c # cs) @ dquote # r) = Some (c # cs, r)"
proof -
  have "take n (c # cs) @ drop (n - 1) cs = c # cs" using n(2) append_take_drop_id [of n "c # cs"] by (cases n) auto
  moreover have "json_unescape (json_escape (c # cs) @ dquote # r) = Some (take n (c # cs) @ drop (n - 1) cs, r)"
    by (simp only: assms(3) append_assoc unescape_rune [of "c # cs", unfolded n(1), OF n(2)] assms(4) prepend_Some)
  ultimately show ?thesis by (simp only:)
qed

lemma unescape_escape:
  "valid_utf8 s \<Longrightarrow> json_unescape (json_escape s @ dquote # r) = Some (s, r)"
proof (induction s rule: json_escape.induct)
  case (2 c cs)
  let ?n = "rune_len (c # cs)"
  show ?case
  proof (cases "code c < 128")
    case False
    with "2.prems" have n: "?n \<noteq> 0" and v: "valid_utf8 (drop (?n - 1) cs)" by (auto split: if_splits)
    have three: "?n = 3" if "take 3 (c # cs) = line_sep e" for e using rune_len_line_sep n that by blast
    consider (a) "take 3 (c # cs) = line_sep (CHR 0xA8)"
      | (b) "take 3 (c # cs) \<noteq> line_sep (CHR 0xA8)" "take 3 (c # cs) = line_sep (CHR 0xA9)"
      | (c) "take 3 (c # cs) \<noteq> line_sep (CHR 0xA8)" "take 3 (c # cs) \<noteq> line_sep (CHR 0xA9)"
      by blast
    then show ?thesis
    proof cases
      case a
      from a show ?thesis
        by (rule unescape_sep_step [where esc = "backslash # ''u2028''"])
          (use "2.IH"(3) False n v a three [OF a] unescape_u_sep(1) in simp_all)
    next
      case b
      from b(2) show ?thesis
        by (rule unescape_sep_step [where esc = "backslash # ''u2029''"])
          (use "2.IH"(4) False n v b three [OF b(2)] unescape_u_sep(2) in simp_all)
    next
      case c
      show ?thesis by (rule unescape_rune_step [OF refl n]) (use "2.IH"(5) False n v c in simp_all)
    qed
  qed (use "2" in \<open>simp add: unescape_ascii\<close>)
qed simp

lemma json_string_prefix_free:
  assumes "valid_utf8 s" and "valid_utf8 t" and "json_string s @ r = json_string t @ q"
  shows "s = t \<and> r = q"
proof -
  have "json_escape s @ dquote # r = json_escape t @ dquote # q"
    using assms(3) by (simp add: json_string_def)
  then show ?thesis
    using unescape_escape [OF assms(1), of r] unescape_escape [OF assms(2), of q]
    by (metis option.inject prod.inject)
qed

section \<open>Values\<close>

text \<open>What may follow a value: nothing, or a character that cannot continue a number.\<close>

definition delim :: "string \<Rightarrow> bool" where
  "delim r = (r = [] \<or> \<not> num_char (hd r))"

lemma delim_simps [simp]:
  "delim []" "delim (CHR '','' # r)" "delim (newline_indent d @ r)"
  by (simp_all add: delim_def newline_indent_def num_char_def is_digit_def)

lemma num_prefix_free:
  assumes "list_all num_char m" and "list_all num_char n" and "delim r" and "delim q"
    and "m @ r = n @ q"
  shows "m = n \<and> r = q"
proof -
  have tw: "takeWhile num_char (s @ t) = s" if "list_all num_char s" "delim t" for s t
    using that by (cases t) (auto simp: takeWhile_append list_all_iff delim_def)
  have "m = n" using tw [OF assms(1,3)] tw [OF assms(2,4)] assms(5) by simp
  with assms(5) show ?thesis by simp
qed

text \<open>The first character of an encoding tells its kind.\<close>

datatype kind = KNull | KBool | KNum | KStr | KArr | KObj

fun kind_of :: "json \<Rightarrow> kind" where
  "kind_of JNull = KNull"
| "kind_of (JBool _) = KBool"
| "kind_of (JNum _) = KNum"
| "kind_of (JStr _) = KStr"
| "kind_of (JArr _) = KArr"
| "kind_of (JObj _) = KObj"

definition first_kind :: "string \<Rightarrow> kind" where
  "first_kind s =
     (case s of [] \<Rightarrow> KNull
      | c # _ \<Rightarrow> if c = CHR ''n'' then KNull else if c = CHR ''t'' \<or> c = CHR ''f'' then KBool
          else if c = dquote then KStr else if c = CHR ''['' then KArr
          else if c = CHR ''{'' then KObj else KNum)"

lemma first_kind_enc: "wf_json x \<Longrightarrow> first_kind (json_enc d x @ r) = kind_of x"
proof (cases x)
  case (JNum n)
  assume "wf_json x"
  then obtain c n' where "n = c # n'" and "is_digit c \<or> c = CHR ''-''"
    using JNum by (cases n) (auto simp: wf_num_def)
  then show ?thesis using JNum by (auto simp: first_kind_def is_digit_def)
qed (auto simp: first_kind_def json_string_def)

lemma kind_of_cases:
  "kind_of x = KNull \<Longrightarrow> x = JNull"
  "kind_of x = KBool \<Longrightarrow> \<exists>b. x = JBool b"
  "kind_of x = KNum \<Longrightarrow> \<exists>n. x = JNum n"
  "kind_of x = KStr \<Longrightarrow> \<exists>s. x = JStr s"
  "kind_of x = KArr \<Longrightarrow> \<exists>xs. x = JArr xs"
  "kind_of x = KObj \<Longrightarrow> \<exists>m. x = JObj m"
  by (cases x; simp)+

lemma enc_same_kind:
  "wf_json x \<Longrightarrow> wf_json y \<Longrightarrow> json_enc d x @ r = json_enc d y @ q \<Longrightarrow> kind_of x = kind_of y"
  by (metis first_kind_enc)

lemma newline_indent_hd: "newline_indent d = CHR 0x0A # concat (replicate d ''  '')"
  by (simp add: newline_indent_def)

text \<open>
  Arrays and objects alike: a bracketed sequence and the rest of one after its first item,
  when the sequence itself can be read back.
\<close>

lemma enc_tail:
  assumes "xs \<noteq> [] \<Longrightarrow> ys \<noteq> [] \<Longrightarrow> e xs @ newline_indent d @ c # r = e ys @ newline_indent d @ c # q \<Longrightarrow> xs = ys \<and> r = q"
    and "(if xs = [] then [] else CHR '','' # e xs) @ newline_indent d @ c # r = (if ys = [] then [] else CHR '','' # e ys) @ newline_indent d @ c # q"
  shows "xs = ys \<and> r = q"
proof (cases "xs = [] \<or> ys = []")
  case True
  then show ?thesis using assms(2) by (auto simp: newline_indent_hd split: if_splits)
qed (use assms in simp)

lemma enc_bracket:
  assumes "xs \<noteq> [] \<Longrightarrow> ys \<noteq> [] \<Longrightarrow> e xs @ newline_indent d @ c # r = e ys @ newline_indent d @ c # q \<Longrightarrow> xs = ys \<and> r = q"
    and "\<And>zs t. zs \<noteq> [] \<Longrightarrow> hd (e zs @ t) \<noteq> c"
    and "(if xs = [] then [b, c] else b # e xs @ newline_indent d @ [c]) @ r = (if ys = [] then [b, c] else b # e ys @ newline_indent d @ [c]) @ q"
  shows "xs = ys \<and> r = q"
proof (cases "xs = [] \<or> ys = []")
  case True
  then show ?thesis using assms(3) assms(2) [of xs] assms(2) [of ys] by (auto split: if_splits) (metis list.sel(1))+
qed (use assms(1,3) in auto)

lemma enc_hd [simp]:
  "zs \<noteq> [] \<Longrightarrow> hd (json_enc_elems d zs @ t) \<noteq> CHR '']''" "ms \<noteq> [] \<Longrightarrow> hd (json_enc_members d ms @ t) \<noteq> CHR ''}''"
  by (cases zs; auto simp: newline_indent_hd) (cases ms; auto simp: newline_indent_hd)

lemma json_enc_prefix_free:
  "wf_json x \<Longrightarrow> wf_json y \<Longrightarrow> delim r \<Longrightarrow> delim q \<Longrightarrow>
     json_enc d x @ r = json_enc d y @ q \<Longrightarrow> x = y \<and> r = q"
  "wf_jsons xs \<Longrightarrow> wf_jsons ys \<Longrightarrow> xs \<noteq> [] \<Longrightarrow> ys \<noteq> [] \<Longrightarrow>
     json_enc_elems d xs @ newline_indent d @ CHR '']'' # r
       = json_enc_elems d ys @ newline_indent d @ CHR '']'' # q \<Longrightarrow> xs = ys \<and> r = q"
  "wf_members m \<Longrightarrow> wf_members n \<Longrightarrow> m \<noteq> [] \<Longrightarrow> n \<noteq> [] \<Longrightarrow>
     json_enc_members d m @ newline_indent d @ CHR ''}'' # r
       = json_enc_members d n @ newline_indent d @ CHR ''}'' # q \<Longrightarrow> m = n \<and> r = q"
proof (induction d x and d xs and d m arbitrary: y r q and ys r q and n r q
    rule: json_enc_json_enc_elems_json_enc_members.induct)
  case (1 d)
  with enc_same_kind [OF "1.prems"(1,2,5)] kind_of_cases(1) [of y] show ?case by simp
next
  case (2 d b)
  with enc_same_kind [OF "2.prems"(1,2,5)] kind_of_cases(2) [of y] show ?case by (auto split: if_splits)
next
  case (3 d n)
  then obtain n' where "y = JNum n'" using enc_same_kind [OF "3.prems"(1,2,5)] kind_of_cases(3) [of y] by auto
  with "3" show ?case using num_prefix_free [of n n' r q] by (auto simp: wf_num_def)
next
  case (4 d s)
  then obtain s' where "y = JStr s'" using enc_same_kind [OF "4.prems"(1,2,5)] kind_of_cases(4) [of y] by auto
  with "4" show ?case using json_string_prefix_free [of s s' r q] by simp
next
  case (5 d xs)
  then obtain ys where y: "y = JArr ys" using enc_same_kind [OF "5.prems"(1,2,5)] kind_of_cases(5) [of y] by auto
  have "xs = ys \<and> r = q"
  proof (rule enc_bracket [where e = "json_enc_elems d" and b = "CHR ''[''", OF _ enc_hd(1)])
    show "xs = ys \<and> r = q" if "xs \<noteq> []" "ys \<noteq> []" "json_enc_elems d xs @ newline_indent d @ CHR '']'' # r = json_enc_elems d ys @ newline_indent d @ CHR '']'' # q"
      by (rule "5.IH") (use "5.prems"(1,2) y that in simp_all)
  qed (use "5.prems"(5) y in \<open>simp_all only: json_enc.simps simp_thms\<close>)
  with y show ?case by simp
next
  case (6 d m)
  then obtain n where y: "y = JObj n" using enc_same_kind [OF "6.prems"(1,2,5)] kind_of_cases(6) [of y] by auto
  have "m = n \<and> r = q"
  proof (rule enc_bracket [where e = "json_enc_members d" and b = "CHR ''{''", OF _ enc_hd(2)])
    show "m = n \<and> r = q" if "m \<noteq> []" "n \<noteq> []" "json_enc_members d m @ newline_indent d @ CHR ''}'' # r = json_enc_members d n @ newline_indent d @ CHR ''}'' # q"
      by (rule "6.IH") (use "6.prems"(1,2) y that in simp_all)
  qed (use "6.prems"(5) y in \<open>simp_all only: json_enc.simps simp_thms\<close>)
  with y show ?case by simp
next
  case (8 d x xs)
  from "8.prems"(4) obtain y0 ys0 where ys: "ys = y0 # ys0" by (cases ys) auto
  let ?t = "\<lambda>zs r. (if zs = [] then [] else CHR '','' # json_enc_elems d zs) @ newline_indent d @ CHR '']'' # r"
  have eq: "x = y0 \<and> ?t xs r = ?t ys0 q"
    by (rule "8.IH"(1)) (use "8.prems" ys in simp_all)
  have "xs = ys0 \<and> r = q"
  proof (rule enc_tail [where e = "json_enc_elems d", OF _ conjunct2 [OF eq]])
    show "xs = ys0 \<and> r = q" if "xs \<noteq> []" "ys0 \<noteq> []" "json_enc_elems d xs @ newline_indent d @ CHR '']'' # r = json_enc_elems d ys0 @ newline_indent d @ CHR '']'' # q"
      by (rule "8.IH"(2)) (use "8.prems"(1,2) ys that in simp_all)
  qed
  with eq ys show ?case by simp
next
  case (10 d k x m)
  from "10.prems"(4) obtain k0 y0 n0 where n: "n = (k0, y0) # n0" by (cases n) auto
  let ?t = "\<lambda>zs r. (if zs = [] then [] else CHR '','' # json_enc_members d zs) @ newline_indent d @ CHR ''}'' # r"
  have str: "json_string k @ '': '' @ json_enc (Suc d) x @ ?t m r = json_string k0 @ '': '' @ json_enc (Suc d) y0 @ ?t n0 q"
    using "10.prems"(5) n by simp
  have "valid_utf8 k" "valid_utf8 k0" using "10.prems"(1,2) n by simp_all
  from json_string_prefix_free [OF this str]
  have k: "k = k0" and v: "json_enc (Suc d) x @ ?t m r = json_enc (Suc d) y0 @ ?t n0 q" by simp_all
  have eq: "x = y0 \<and> ?t m r = ?t n0 q" by (rule "10.IH"(1)) (use "10.prems"(1,2) n v in simp_all)
  have "m = n0 \<and> r = q"
  proof (rule enc_tail [where e = "json_enc_members d", OF _ conjunct2 [OF eq]])
    show "m = n0 \<and> r = q" if "m \<noteq> []" "n0 \<noteq> []" "json_enc_members d m @ newline_indent d @ CHR ''}'' # r = json_enc_members d n0 @ newline_indent d @ CHR ''}'' # q"
      by (rule "10.IH"(2)) (use "10.prems"(1,2) n that in simp_all)
  qed
  with eq n k show ?case by simp
qed simp_all

lemma MarshalIndent_inject:
  "wf_json x \<Longrightarrow> wf_json y \<Longrightarrow> (MarshalIndent x = MarshalIndent y) = (x = y)"
  using json_enc_prefix_free(1) [of x y "[]" "[]" 0] by (auto simp: MarshalIndent_def)

end
