(* ===== verification/KeaConfig.thy ===== *)
theory KeaConfig
  imports ApiTypes GoJsonInj
begin

text \<open>
  The renderers shared by the four Kea daemons: \<^verbatim>\<open>src/internal/kea/config.go\<close> and
  \<^verbatim>\<open>src/internal/kea/ha_config.go\<close>. A renderer fills a \<^verbatim>\<open>map[string]interface{}\<close> by a run of
  assignments; \<open>run_table\<close> is the declarative reading of such a run, a table of
  keys with optional values, and every renderer is shown equal to the run of its table.
  The decoder \<^verbatim>\<open>json.Unmarshal\<close> of hook parameters is the argument \<open>unm\<close>.
\<close>

section \<open>Conditional assignment\<close>

text \<open>
  \<^verbatim>\<open>setIfNotNil\<close> dereferences a non-nil pointer; the option argument is the pointer with
  its target already read as a JSON value.
\<close>

definition setIfNotNil :: "jmap \<Rightarrow> string \<Rightarrow> json option \<Rightarrow> jmap" where
  "setIfNotNil m key val = (case val of None \<Rightarrow> m | Some v \<Rightarrow> map_set m key v)"

definition setIfNotEmpty :: "jmap \<Rightarrow> string \<Rightarrow> string \<Rightarrow> jmap" where
  "setIfNotEmpty m key val = (if val \<noteq> '''' then map_set m key (JStr val) else m)"

text \<open>The assignments \<^verbatim>\<open>if len(xs) > 0 { m[key] = xs }\<close> and \<^verbatim>\<open>if ys != nil { m[key] = ys }\<close>.\<close>

definition setStrs :: "jmap \<Rightarrow> string \<Rightarrow> string list \<Rightarrow> jmap" where
  "setStrs m key xs = (if 0 < length xs then map_set m key (JStrs xs) else m)"

definition setObjs :: "jmap \<Rightarrow> string \<Rightarrow> jmap list option \<Rightarrow> jmap" where
  "setObjs m key ys = (case ys of None \<Rightarrow> m | Some ms \<Rightarrow> map_set m key (JObjs ms))"

definition setObj :: "jmap \<Rightarrow> string \<Rightarrow> jmap option \<Rightarrow> jmap" where
  "setObj m key y = (case y of None \<Rightarrow> m | Some o' \<Rightarrow> map_set m key (JObj o'))"

text \<open>
  The same with the elements rendered in place (\<^verbatim>\<open>for _, x := range xs { ys = append(ys, f(x)) }\<close>),
  and for a nested block: \<^verbatim>\<open>if len(block) > 0 { m[key] = block }\<close>.
\<close>

definition setSlice :: "jmap \<Rightarrow> string \<Rightarrow> ('a \<Rightarrow> jmap) \<Rightarrow> 'a list \<Rightarrow> jmap" where
  "setSlice m key f xs = (if 0 < length xs then map_set m key (JObjs (map f xs)) else m)"

definition setBlock :: "jmap \<Rightarrow> string \<Rightarrow> jmap \<Rightarrow> jmap" where
  "setBlock m key b = (if 0 < length b then map_set m key (JObj b) else m)"

text \<open>The result shape of every slice renderer: nil for an empty slice, else one map per element.\<close>

definition render_slice :: "('a \<Rightarrow> jmap) \<Rightarrow> 'a list \<Rightarrow> jmap list option" where
  "render_slice f xs = (if length xs = 0 then None else Some (map f xs))"

section \<open>config.go\<close>

definition renderOptionDataItem :: "OptionData \<Rightarrow> jmap" where
  "renderOptionDataItem o' =
     (let om = [];
          om = setIfNotEmpty om ''name'' (od_Name o');
          om = setIfNotNil om ''code'' (map_option JInt32 (od_Code o'));
          om = setIfNotEmpty om ''space'' (od_Space o');
          om = setIfNotNil om ''csv-format'' (map_option JBool (od_CSVFormat o'));
          om = setIfNotEmpty om ''data'' (od_Data o');
          om = setIfNotNil om ''always-send'' (map_option JBool (od_AlwaysSend o'));
          om = setIfNotNil om ''never-send'' (map_option JBool (od_NeverSend o'))
      in om)"

definition renderOptionData :: "OptionData list \<Rightarrow> jmap list option" where
  "renderOptionData opts = render_slice renderOptionDataItem opts"

definition renderOptionDefItem :: "OptionDef \<Rightarrow> jmap" where
  "renderOptionDefItem d =
     (let dm = map_lit [(''name'', JStr (odf_Name d)), (''code'', JInt32 (odf_Code d)), (''type'', JStr (odf_Type d))];
          dm = setIfNotNil dm ''array'' (map_option JBool (odf_Array d));
          dm = setIfNotEmpty dm ''record-types'' (odf_RecordTypes d);
          dm = setIfNotEmpty dm ''encapsulate'' (odf_Encapsulate d);
          dm = setIfNotEmpty dm ''space'' (odf_Space d)
      in dm)"

definition renderOptionDef :: "OptionDef list \<Rightarrow> jmap list option" where
  "renderOptionDef defs = render_slice renderOptionDefItem defs"

definition renderClientClass :: "ClientClass \<Rightarrow> jmap" where
  "renderClientClass c =
     (let cm = map_lit [(''name'', JStr (cc_Name c))];
          cm = setIfNotEmpty cm ''test'' (cc_Test c);
          cm = setObjs cm ''option-data'' (renderOptionData (cc_OptionData c));
          cm = setIfNotNil cm ''only-if-required'' (map_option JBool (cc_OnlyIfRequired c));
          cm = setIfNotNil cm ''valid-lifetime'' (map_option JInt32 (cc_ValidLifetime c));
          cm = setIfNotNil cm ''min-valid-lifetime'' (map_option JInt32 (cc_MinValidLifetime c));
          cm = setIfNotNil cm ''max-valid-lifetime'' (map_option JInt32 (cc_MaxValidLifetime c))
      in cm)"

definition renderClientClasses :: "ClientClass list \<Rightarrow> jmap list option" where
  "renderClientClasses classes = render_slice renderClientClass classes"

definition renderReservation :: "Reservation \<Rightarrow> jmap" where
  "renderReservation r =
     (let rm = [];
          rm = setIfNotEmpty rm ''hw-address'' (rs_HWAddress r);
          rm = setIfNotEmpty rm ''client-id'' (rs_ClientID r);
          rm = setIfNotEmpty rm ''duid'' (rs_DUID r);
          rm = setIfNotEmpty rm ''circuit-id'' (rs_CircuitID r);
          rm = setIfNotEmpty rm ''flex-id'' (rs_FlexID r);
          rm = setIfNotEmpty rm ''hostname'' (rs_Hostname r);
          rm = setIfNotEmpty rm ''ip-address'' (rs_IPAddress r);
          rm = setStrs rm ''ip-addresses'' (rs_IPAddresses r);
          rm = setStrs rm ''prefixes'' (rs_Prefixes r);
          rm = setObjs rm ''option-data'' (renderOptionData (rs_OptionData r));
          rm = setStrs rm ''client-classes'' (rs_ClientClasses r);
          rm = setIfNotEmpty rm ''next-server'' (rs_NextServer r);
          rm = setIfNotEmpty rm ''boot-file-name'' (rs_BootFileName r);
          rm = setIfNotEmpty rm ''server-hostname'' (rs_ServerHostname r)
      in rm)"

definition renderReservations :: "Reservation list \<Rightarrow> jmap list option" where
  "renderReservations rs = render_slice renderReservation rs"

definition renderHookLibrary :: "(string \<Rightarrow> json option) \<Rightarrow> HookLibrary \<Rightarrow> jmap" where
  "renderHookLibrary unm h =
     (let hm = map_lit [(''library'', JStr (hl_Library h))]
      in case hl_Parameters h of
           None \<Rightarrow> hm
         | Some p \<Rightarrow>
             (case Raw p of
                None \<Rightarrow> hm
              | Some raw \<Rightarrow>
                  (case unm raw of None \<Rightarrow> hm | Some params \<Rightarrow> map_set hm ''parameters'' params)))"

definition renderHooksLibraries :: "(string \<Rightarrow> json option) \<Rightarrow> HookLibrary list \<Rightarrow> jmap list option" where
  "renderHooksLibraries unm hooks = render_slice (renderHookLibrary unm) hooks"

definition hookLibPath :: string where "hookLibPath = ''/usr/lib/kea/hooks/''"
definition haHookLib :: string where "haHookLib = hookLibPath @ ''libdhcp_ha.so''"
definition leaseCmdsHookLib :: string where "leaseCmdsHookLib = hookLibPath @ ''libdhcp_lease_cmds.so''"
definition mysqlHookLib :: string where "mysqlHookLib = hookLibPath @ ''libdhcp_mysql.so''"
definition pgsqlHookLib :: string where "pgsqlHookLib = hookLibPath @ ''libdhcp_pgsql.so''"

definition renderDBHook :: "DatabaseConfig option \<Rightarrow> jmap option" where
  "renderDBHook db =
     (case db of
        None \<Rightarrow> None
      | Some d \<Rightarrow>
          if db_Type d = ''mysql'' then Some (map_lit [(''library'', JStr mysqlHookLib)])
          else if db_Type d = ''postgresql'' then Some (map_lit [(''library'', JStr pgsqlHookLib)])
          else None)"

definition renderControlSocket :: "ControlSocket option \<Rightarrow> jmap option" where
  "renderControlSocket cs =
     (case cs of
        None \<Rightarrow> None
      | Some c \<Rightarrow>
          (let csm = map_lit [(''socket-type'', JStr (cs_SocketType c))];
               csm = setIfNotEmpty csm ''socket-name'' (cs_SocketName c);
               csm = setIfNotNil csm ''socket-port'' (map_option JInt32 (cs_SocketPort c));
               csm = setIfNotEmpty csm ''socket-address'' (cs_SocketAddress c)
           in Some csm))"

definition renderLogOutput :: "LogOutputOption \<Rightarrow> jmap" where
  "renderLogOutput o' =
     (let om = map_lit [(''output'', JStr (lo_Output o'))];
          om = setIfNotNil om ''maxsize'' (map_option JInt64 (lo_Maxsize o'));
          om = setIfNotNil om ''maxver'' (map_option JInt32 (lo_Maxver o'));
          om = setIfNotNil om ''flush'' (map_option JBool (lo_Flush o'));
          om = setIfNotEmpty om ''pattern'' (lo_Pattern o')
      in om)"

definition renderLogger :: "LoggerConfig \<Rightarrow> jmap" where
  "renderLogger l =
     (let lm = map_lit [(''name'', JStr (lg_Name l))];
          lm = setIfNotEmpty lm ''severity'' (lg_Severity l);
          lm = setIfNotNil lm ''debuglevel'' (map_option JInt32 (lg_DebugLevel l));
          lm = setSlice lm ''output-options'' renderLogOutput (lg_OutputOptions l)
      in lm)"

definition renderLoggers :: "LoggerConfig list \<Rightarrow> jmap list option" where
  "renderLoggers loggers = render_slice renderLogger loggers"

definition renderDatabaseConfig :: "DatabaseConfig \<Rightarrow> string \<Rightarrow> string \<Rightarrow> jmap" where
  "renderDatabaseConfig db resolvedUser resolvedPassword =
     (let dm = map_lit [(''type'', JStr (db_Type db))];
          dm = setIfNotNil dm ''persist'' (map_option JBool (db_Persist db));
          dm = setIfNotEmpty dm ''name'' (db_Name db);
          dm = setIfNotEmpty dm ''host'' (db_Host db);
          dm = setIfNotNil dm ''port'' (map_option JInt32 (db_Port db));
          dm = setIfNotEmpty dm ''user'' resolvedUser;
          dm = setIfNotEmpty dm ''password'' resolvedPassword;
          dm = setIfNotNil dm ''connect-timeout'' (map_option JInt32 (db_ConnectTimeout db));
          dm = setIfNotNil dm ''max-reconnect-tries'' (map_option JInt32 (db_MaxReconnectTries db));
          dm = setIfNotNil dm ''reconnect-wait-time'' (map_option JInt32 (db_ReconnectWaitTime db));
          dm = setIfNotEmpty dm ''on-fail'' (db_OnFail db);
          dm = setIfNotNil dm ''retry-on-startup'' (map_option JBool (db_RetryOnStartup db));
          dm = setIfNotNil dm ''lfc-interval'' (map_option JInt32 (db_LFCInterval db));
          dm = setIfNotNil dm ''max-row-errors'' (map_option JInt32 (db_MaxRowErrors db));
          dm = setIfNotNil dm ''readonly'' (map_option JBool (db_ReadOnly db));
          dm = setIfNotNil dm ''read-timeout'' (map_option JInt32 (db_ReadTimeout db));
          dm = setIfNotNil dm ''write-timeout'' (map_option JInt32 (db_WriteTimeout db));
          dm = setIfNotNil dm ''tcp-user-timeout'' (map_option JInt32 (db_TCPUserTimeout db))
      in dm)"

section \<open>ha\_config.go\<close>

definition renderHAPeer :: "HAPeer \<Rightarrow> jmap" where
  "renderHAPeer p =
     (let pm = map_lit [(''name'', JStr (peer_Name p)), (''url'', JStr (peer_URL p)), (''role'', JStr (peer_Role p))];
          pm = setIfNotNil pm ''auto-failover'' (map_option JBool (peer_AutoFailover p))
      in pm)"

definition renderHAMultiThreading :: "HAMultiThreading \<Rightarrow> jmap" where
  "renderHAMultiThreading t =
     (let mt = [];
          mt = setIfNotNil mt ''enable-multi-threading'' (map_option JBool (hamt_EnableMultiThreading t));
          mt = setIfNotNil mt ''http-client-threads'' (map_option JInt32 (hamt_HTTPClientThreads t));
          mt = setIfNotNil mt ''http-listener-threads'' (map_option JInt32 (hamt_HTTPListenerThreads t))
      in mt)"

definition renderHAConfig :: "HAConfig \<Rightarrow> string \<Rightarrow> int32 \<Rightarrow> jmap" where
  "renderHAConfig ha serverNameOverride haListenerPort =
     (let serverName = (if serverNameOverride \<noteq> '''' then serverNameOverride else ha_ThisServerName ha);
          hc = map_lit [(''this-server-name'', JStr serverName)];
          hc = setIfNotEmpty hc ''mode'' (ha_Mode ha);
          hc = setIfNotNil hc ''heartbeat-delay'' (map_option JInt32 (ha_HeartbeatDelay ha));
          hc = setIfNotNil hc ''max-response-delay'' (map_option JInt32 (ha_MaxResponseDelay ha));
          hc = setIfNotNil hc ''max-ack-delay'' (map_option JInt32 (ha_MaxAckDelay ha));
          hc = setIfNotNil hc ''max-unacked-clients'' (map_option JInt32 (ha_MaxUnackedClients ha));
          hc = setIfNotNil hc ''send-lease-updates'' (map_option JBool (ha_SendLeaseUpdates ha));
          hc = setIfNotNil hc ''sync-leases'' (map_option JBool (ha_SyncLeases ha));
          hc = setIfNotNil hc ''sync-timeout'' (map_option JInt32 (ha_SyncTimeout ha));
          hc = setIfNotNil hc ''sync-page-limit'' (map_option JInt32 (ha_SyncPageLimit ha));
          hc = setIfNotNil hc ''delayed-updates-limit'' (map_option JInt32 (ha_DelayedUpdatesLimit ha));
          hc = setSlice hc ''peers'' renderHAPeer (ha_Peers ha);
          hc = (case ha_MultiThreading ha of
                  None \<Rightarrow> hc
                | Some t \<Rightarrow> setBlock hc ''multi-threading'' (renderHAMultiThreading t));
          hc = (if 0 < sint haListenerPort
                then map_set (map_set (map_set hc ''http-dedicated-listener'' (JBool True))
                       ''http-listener-address'' (JStr ''0.0.0.0''))
                       ''http-listener-port'' (JInt32 haListenerPort)
                else hc)
      in hc)"

definition renderHAHooks :: "HAConfig option \<Rightarrow> string \<Rightarrow> int32 \<Rightarrow> jmap list option" where
  "renderHAHooks ha serverNameOverride haListenerPort =
     (case ha of
        None \<Rightarrow> None
      | Some h \<Rightarrow>
          Some
            [map_lit [(''library'', JStr leaseCmdsHookLib)],
             map_lit
               [(''library'', JStr haHookLib),
                (''parameters'',
                 JObj (map_lit [(''high-availability'',
                   JObjs [renderHAConfig h serverNameOverride haListenerPort])]))]])"

section \<open>Runs of assignments as tables\<close>

type_synonym table = "(string \<times> json option) list"

definition run_table :: "table \<Rightarrow> jmap \<Rightarrow> jmap" where
  "run_table tab m = fold (\<lambda>(k, x) m. case x of None \<Rightarrow> m | Some v \<Rightarrow> map_set m k v) tab m"

text \<open>The value of a table at a key.\<close>

definition table_get :: "table \<Rightarrow> string \<Rightarrow> json option" where
  "table_get tab k = (case map_of tab k of Some (Some v) \<Rightarrow> Some v | _ \<Rightarrow> None)"

definition ostr :: "string \<Rightarrow> json option" where
  "ostr s = (if s = '''' then None else Some (JStr s))"

definition ostrs :: "string list \<Rightarrow> json option" where
  "ostrs xs = (if xs = [] then None else Some (JStrs xs))"

definition oobjs :: "('a \<Rightarrow> jmap) \<Rightarrow> 'a list \<Rightarrow> json option" where
  "oobjs f xs = (if xs = [] then None else Some (JObjs (map f xs)))"

definition oblock :: "jmap \<Rightarrow> json option" where
  "oblock b = (if b = [] then None else Some (JObj b))"

lemma run_table_snoc [table_rules]:
  "setIfNotNil (run_table tab m) k x = run_table (tab @ [(k, x)]) m"
  by (simp add: run_table_def setIfNotNil_def)

lemma setIfNotEmpty_snoc [table_rules]:
  "setIfNotEmpty (run_table tab m) k s = run_table (tab @ [(k, ostr s)]) m"
  by (simp add: run_table_def setIfNotEmpty_def ostr_def)

lemma setStrs_snoc [table_rules]:
  "setStrs (run_table tab m) k xs = run_table (tab @ [(k, ostrs xs)]) m"
  by (simp add: run_table_def setStrs_def ostrs_def)

lemma setObjs_slice_snoc [table_rules]:
  "setObjs (run_table tab m) k (render_slice f xs) = run_table (tab @ [(k, oobjs f xs)]) m"
  by (simp add: run_table_def setObjs_def render_slice_def oobjs_def)

lemma setSlice_snoc [table_rules]:
  "setSlice (run_table tab m) k f xs = run_table (tab @ [(k, oobjs f xs)]) m"
  by (simp add: run_table_def setSlice_def oobjs_def)

lemma setBlock_snoc [table_rules]:
  "setBlock (run_table tab m) k b = run_table (tab @ [(k, oblock b)]) m"
  by (simp add: run_table_def setBlock_def oblock_def)

lemma case_block_snoc [table_rules]:
  "(case x of None \<Rightarrow> run_table tab m | Some t \<Rightarrow> run_table (tab @ [(k, oblock (f t))]) m)
     = run_table (tab @ [(k, Option.bind x (\<lambda>t. oblock (f t)))]) m"
  by (cases x) (simp_all add: run_table_def)

lemma setObj_snoc [table_rules]:
  "setObj (run_table tab m) k y = run_table (tab @ [(k, map_option JObj y)]) m"
  by (cases y) (simp_all add: run_table_def setObj_def)

lemma map_set_snoc [table_rules]:
  "map_set (run_table tab m) k v = run_table (tab @ [(k, Some v)]) m"
  by (simp add: run_table_def)

lemma if_snoc [table_rules]:
  "(if b then run_table (tab @ [(k, Some v)]) m else run_table tab m)
     = run_table (tab @ [(k, if b then Some v else None)]) m"
  by (simp add: run_table_def)

lemma if3_snoc [table_rules]:
  "(if b then run_table (((tab @ [(k1, Some v1)]) @ [(k2, Some v2)]) @ [(k3, Some v3)]) m else run_table tab m)
     = run_table (((tab @ [(k1, if b then Some v1 else None)]) @ [(k2, if b then Some v2 else None)])
         @ [(k3, if b then Some v3 else None)]) m"
  by (simp add: run_table_def)

lemma map_lit_table: "map_lit kvs = run_table (map (\<lambda>(k, v). (k, Some v)) kvs) []"
proof -
  have "fold (\<lambda>(k, v) m. map_set m k v) kvs m
      = fold (\<lambda>(k, x) m. case x of None \<Rightarrow> m | Some v \<Rightarrow> map_set m k v) (map (\<lambda>(k, v). (k, Some v)) kvs) m"
    for m by (induction kvs arbitrary: m) auto
  then show ?thesis by (simp add: map_lit_def run_table_def)
qed

text \<open>What a table fills in: with distinct keys, exactly its values; the result is a map.\<close>

lemma run_table_get:
  "distinct (map fst tab) \<Longrightarrow> map_get (run_table tab []) k = table_get tab k"
  unfolding run_table_def table_get_def
  by (simp add: gm.get_fold_option gm.get_empty split: option.split)

lemma run_table_invar: "map_invar m \<Longrightarrow> map_invar (run_table tab m)"
  by (induction tab arbitrary: m) (auto simp: run_table_def map_invar_set split: option.split)

lemma run_table_members:
  "set (run_table tab m) \<subseteq> set m \<union> {(k, v). (k, Some v) \<in> set tab}"
proof (induction tab arbitrary: m)
  case Nil
  then show ?case by (simp add: run_table_def)
next
  case (Cons e tab)
  obtain k x where e: "e = (k, x)" by (cases e)
  have "run_table (e # tab) m = run_table tab (case x of None \<Rightarrow> m | Some v \<Rightarrow> map_set m k v)"
    by (simp add: run_table_def e)
  also have "set \<dots> \<subseteq> set (case x of None \<Rightarrow> m | Some v \<Rightarrow> map_set m k v)
      \<union> {(k, v). (k, Some v) \<in> set tab}"
    by (rule Cons.IH)
  also have "\<dots> \<subseteq> set m \<union> {(k, v). (k, Some v) \<in> set (e # tab)}"
    using set_map_set [of m k "the x"] e by (auto split: option.splits)
  finally show ?case .
qed

definition shape_table :: "table \<Rightarrow> bool" where
  "shape_table tab = list_all (\<lambda>(k, x). case x of None \<Rightarrow> True | Some v \<Rightarrow> shape_json v) tab"

lemma shape_run_table: "shape_table tab \<Longrightarrow> shape_json (JObj (run_table tab []))"
  using run_table_members [of tab "[]"] run_table_invar [of "[]" tab]
  by (fastforce simp: shape_members_all shape_table_def list_all_iff)

text \<open>UTF-8 validity of a rendered map, read off its table.\<close>

lemma utf8_members_all: "utf8_members m = (\<forall>(k, x) \<in> set m. valid_utf8 k \<and> utf8_json x)"
  by (induction m) auto

definition utf8_table :: "table \<Rightarrow> bool" where
  "utf8_table tab = list_all (\<lambda>(k, x). case x of None \<Rightarrow> True | Some v \<Rightarrow> valid_utf8 k \<and> utf8_json v) tab"

lemma utf8_run_table: "utf8_table tab \<Longrightarrow> utf8_json (JObj (run_table tab []))"
  using run_table_members [of tab "[]"]
  by (fastforce simp: utf8_members_all utf8_table_def list_all_iff)

lemma shape_table_simps [simp]:
  "shape_table []"
  "shape_table ((k, x) # tab) = ((\<forall>v. x = Some v \<longrightarrow> shape_json v) \<and> shape_table tab)"
  by (auto simp: shape_table_def split: option.splits)

lemma table_get_simps [simp]:
  "table_get [] k = None"
  "table_get ((k0, x) # tab) k = (if k = k0 then x else table_get tab k)"
  by (auto simp: table_get_def split: option.splits)

lemma shape_ostr [simp]: "(ostr s = Some v) = (s \<noteq> '''' \<and> v = JStr s)"
  by (auto simp: ostr_def)

lemma shape_ostrs [simp]: "(ostrs xs = Some v) = (xs \<noteq> [] \<and> v = JStrs xs)"
  by (auto simp: ostrs_def)

lemma shape_oobjs [simp]: "(oobjs f xs = Some v) = (xs \<noteq> [] \<and> v = JObjs (map f xs))"
  by (auto simp: oobjs_def)

lemma map_option_eq_Some' [simp]: "(map_option f x = Some v) = (\<exists>y. x = Some y \<and> v = f y)"
  by (cases x) auto

lemma jelems_JObjs [simp]: "jelems (JObjs ms) = map JObj ms"
  by (simp add: JObjs_def)

text \<open>The elements of an optional array field of the rendered object.\<close>

definition elems_at :: "jmap \<Rightarrow> string \<Rightarrow> json list" where
  "elems_at m k = (case map_get m k of None \<Rightarrow> [] | Some j \<Rightarrow> jelems j)"

lemma elems_at_oobjs: "map_get m k = oobjs f xs \<Longrightarrow> elems_at m k = map (\<lambda>x. JObj (f x)) xs"
  by (simp add: elems_at_def oobjs_def)

section \<open>Shape of the rendered maps\<close>

named_theorems shape_rules \<open>conditional rewrite rules for the shape of a rendered map\<close>

definition shape_map :: "jmap \<Rightarrow> bool" where
  "shape_map m = shape_json (JObj m)"

lemma shape_map_Nil [simp]: "shape_map []"
  by (simp add: shape_map_def)

lemma shape_map_map_set [shape_rules]:
  "shape_map m \<Longrightarrow> shape_json v \<Longrightarrow> shape_map (map_set m k v)"
  unfolding shape_map_def by (rule shape_map_set)

lemma shape_setIfNotNil [shape_rules]:
  "shape_map m \<Longrightarrow> (\<And>v. x = Some v \<Longrightarrow> shape_json v) \<Longrightarrow> shape_map (setIfNotNil m k x)"
  by (auto simp: setIfNotNil_def shape_map_map_set split: option.split)

lemma shape_setIfNotEmpty [shape_rules]: "shape_map m \<Longrightarrow> shape_map (setIfNotEmpty m k s)"
  by (simp add: setIfNotEmpty_def shape_map_map_set)

lemma shape_setStrs [shape_rules]: "shape_map m \<Longrightarrow> shape_map (setStrs m k xs)"
  by (simp add: setStrs_def shape_map_map_set)

definition shape_maps :: "jmap list option \<Rightarrow> bool" where
  "shape_maps ys = (\<forall>ms. ys = Some ms \<longrightarrow> list_all shape_map ms)"

lemma shape_JObjs_map: "shape_json (JObjs ms) = list_all shape_map ms"
  by (simp add: shape_map_def list_all_iff del: shape_json.simps)

lemma shape_setObjs [shape_rules]: "shape_map m \<Longrightarrow> shape_maps ys \<Longrightarrow> shape_map (setObjs m k ys)"
  by (auto simp: setObjs_def shape_maps_def shape_map_map_set shape_JObjs_map
      simp del: shape_JObjs split: option.split)

lemma shape_setObj [shape_rules]:
  "shape_map m \<Longrightarrow> (\<And>o'. y = Some o' \<Longrightarrow> shape_map o') \<Longrightarrow> shape_map (setObj m k y)"
  by (auto simp: setObj_def intro: shape_map_map_set simp: shape_map_def [symmetric]
      simp del: shape_json.simps split: option.split)

lemma shape_map_lit [shape_rules]:
  "list_all (\<lambda>(k, v). shape_json v) kvs \<Longrightarrow> shape_map (map_lit kvs)"
  unfolding map_lit_table shape_map_def
  by (rule shape_run_table) (auto simp: shape_table_def list_all_iff)

lemma shape_render_slice [shape_rules]:
  "(\<And>x. x \<in> set xs \<Longrightarrow> shape_map (f x)) \<Longrightarrow> shape_maps (render_slice f xs)"
  by (auto simp: shape_maps_def render_slice_def list_all_iff)

lemma shape_JObj_map: "shape_json (JObj m) = shape_map m"
  by (simp add: shape_map_def)

lemmas shape_sets = shape_rules shape_JObj_map shape_JObjs_map list_all_iff

lemma shape_setSlice [shape_rules]:
  "shape_map m \<Longrightarrow> (\<And>x. x \<in> set xs \<Longrightarrow> shape_map (f x)) \<Longrightarrow> shape_map (setSlice m k f xs)"
  by (auto simp: setSlice_def shape_JObjs_map list_all_iff simp del: shape_JObjs intro!: shape_map_map_set)

lemma shape_setBlock [shape_rules]: "shape_map m \<Longrightarrow> shape_map b \<Longrightarrow> shape_map (setBlock m k b)"
  by (simp add: setBlock_def shape_map_map_set shape_JObj_map del: shape_json.simps)

lemma shape_OptionData [shape_rules]: "shape_map (renderOptionDataItem o')"
  "shape_maps (renderOptionData os)"
  unfolding renderOptionData_def
  by (auto simp: renderOptionDataItem_def Let_def intro!: shape_rules)

lemma shape_OptionDef [shape_rules]: "shape_maps (renderOptionDef ds)"
  unfolding renderOptionDef_def
  by (auto simp: renderOptionDefItem_def Let_def intro!: shape_rules)

lemma shape_ClientClasses [shape_rules]: "shape_maps (renderClientClasses cs)"
  unfolding renderClientClasses_def
  by (auto simp: renderClientClass_def Let_def intro!: shape_rules)

lemma shape_Reservations [shape_rules]: "shape_maps (renderReservations rs)"
  unfolding renderReservations_def
  by (auto simp: renderReservation_def Let_def intro!: shape_rules)

text \<open>The decoder of hook parameters returns JSON values (\<open>unm_shape\<close>).\<close>

definition unm_shape :: "(string \<Rightarrow> json option) \<Rightarrow> bool" where
  "unm_shape unm = (\<forall>s j. unm s = Some j \<longrightarrow> shape_json j)"

lemma shape_HooksLibraries [shape_rules]:
  "unm_shape unm \<Longrightarrow> shape_maps (renderHooksLibraries unm hs)"
  unfolding renderHooksLibraries_def
  by (auto simp: renderHookLibrary_def Let_def unm_shape_def intro!: shape_rules split: option.split)

lemma shape_DBHook: "renderDBHook db = Some h \<Longrightarrow> shape_map h"
  by (auto simp: renderDBHook_def intro!: shape_rules split: option.splits if_splits)

lemma shape_ControlSocket: "renderControlSocket cs = Some h \<Longrightarrow> shape_map h"
  by (auto simp: renderControlSocket_def Let_def intro!: shape_rules split: option.splits)

lemma shape_Loggers [shape_rules]: "shape_maps (renderLoggers ls)"
  unfolding renderLoggers_def
  by (auto simp: renderLogger_def renderLogOutput_def Let_def intro!: shape_rules)

lemma shape_DatabaseConfig [shape_rules]: "shape_map (renderDatabaseConfig db u p)"
  by (auto simp: renderDatabaseConfig_def Let_def intro!: shape_rules)

section \<open>Tables of the database and HA sections\<close>

text \<open>What a database section holds, key by key.\<close>

definition db_table :: "DatabaseConfig \<Rightarrow> string \<Rightarrow> string \<Rightarrow> table" where
  "db_table db u p =
     [(''type'', Some (JStr (db_Type db))),
      (''persist'', map_option JBool (db_Persist db)),
      (''name'', ostr (db_Name db)),
      (''host'', ostr (db_Host db)),
      (''port'', map_option JInt32 (db_Port db)),
      (''user'', ostr u),
      (''password'', ostr p),
      (''connect-timeout'', map_option JInt32 (db_ConnectTimeout db)),
      (''max-reconnect-tries'', map_option JInt32 (db_MaxReconnectTries db)),
      (''reconnect-wait-time'', map_option JInt32 (db_ReconnectWaitTime db)),
      (''on-fail'', ostr (db_OnFail db)),
      (''retry-on-startup'', map_option JBool (db_RetryOnStartup db)),
      (''lfc-interval'', map_option JInt32 (db_LFCInterval db)),
      (''max-row-errors'', map_option JInt32 (db_MaxRowErrors db)),
      (''readonly'', map_option JBool (db_ReadOnly db)),
      (''read-timeout'', map_option JInt32 (db_ReadTimeout db)),
      (''write-timeout'', map_option JInt32 (db_WriteTimeout db)),
      (''tcp-user-timeout'', map_option JInt32 (db_TCPUserTimeout db))]"

lemma renderDatabaseConfig_table: "renderDatabaseConfig db u p = run_table (db_table db u p) []"
  by (simp add: renderDatabaseConfig_def db_table_def Let_def map_lit_table table_rules)

lemma db_table_distinct: "distinct (map fst (db_table db u p))"
  by (simp add: db_table_def)

lemma renderDatabaseConfig_get:
  "map_get (renderDatabaseConfig db u p) k = table_get (db_table db u p) k"
  unfolding renderDatabaseConfig_table by (rule run_table_get [OF db_table_distinct])

text \<open>
  The HA section. The three listener keys appear together, and only for a positive port;
  an HA multi-threading block with no field set is dropped.
\<close>

definition ha_table :: "HAConfig \<Rightarrow> string \<Rightarrow> int32 \<Rightarrow> table" where
  "ha_table ha name port =
     [(''this-server-name'', Some (JStr (if name = '''' then ha_ThisServerName ha else name))),
      (''mode'', ostr (ha_Mode ha)),
      (''heartbeat-delay'', map_option JInt32 (ha_HeartbeatDelay ha)),
      (''max-response-delay'', map_option JInt32 (ha_MaxResponseDelay ha)),
      (''max-ack-delay'', map_option JInt32 (ha_MaxAckDelay ha)),
      (''max-unacked-clients'', map_option JInt32 (ha_MaxUnackedClients ha)),
      (''send-lease-updates'', map_option JBool (ha_SendLeaseUpdates ha)),
      (''sync-leases'', map_option JBool (ha_SyncLeases ha)),
      (''sync-timeout'', map_option JInt32 (ha_SyncTimeout ha)),
      (''sync-page-limit'', map_option JInt32 (ha_SyncPageLimit ha)),
      (''delayed-updates-limit'', map_option JInt32 (ha_DelayedUpdatesLimit ha)),
      (''peers'', oobjs renderHAPeer (ha_Peers ha)),
      (''multi-threading'', Option.bind (ha_MultiThreading ha) (\<lambda>t. oblock (renderHAMultiThreading t))),
      (''http-dedicated-listener'', if 0 < sint port then Some (JBool True) else None),
      (''http-listener-address'', if 0 < sint port then Some (JStr ''0.0.0.0'') else None),
      (''http-listener-port'', if 0 < sint port then Some (JInt32 port) else None)]"

lemma renderHAConfig_table: "renderHAConfig ha name port = run_table (ha_table ha name port) []"
proof -
  have base: "map_lit [(k, v)] = run_table [(k, Some v)] []" for k v
    by (simp add: map_lit_table)
  show ?thesis
    unfolding renderHAConfig_def Let_def
    by (simp only: base table_rules) (simp add: ha_table_def)
qed

lemma ha_table_distinct: "distinct (map fst (ha_table ha name port))"
  by (simp add: ha_table_def)

lemma renderHAConfig_get:
  "map_get (renderHAConfig ha name port) k = table_get (ha_table ha name port) k"
  unfolding renderHAConfig_table by (rule run_table_get [OF ha_table_distinct])

lemma oblock_Some [simp]: "(oblock b = Some v) = (b \<noteq> [] \<and> v = JObj b)"
  by (auto simp: oblock_def)

lemma shape_HAPeer: "shape_map (renderHAPeer p)"
  by (auto simp: renderHAPeer_def Let_def intro!: shape_rules)

lemma shape_HAConfig [shape_rules]: "shape_map (renderHAConfig ha name port)"
  by (auto simp: renderHAConfig_def Let_def renderHAMultiThreading_def
      intro!: shape_rules shape_HAPeer split: option.split)

lemma shape_HAHooks [shape_rules]: "shape_maps (renderHAHooks ha name port)"
proof -
  have "shape_map (map_lit [(''high-availability'', JObjs [renderHAConfig h name port])])" for h
    by (rule shape_map_lit) (simp add: shape_JObjs_map shape_HAConfig del: shape_JObjs)
  then show ?thesis
    by (auto simp: renderHAHooks_def shape_maps_def shape_JObj_map
        simp del: shape_json.simps(6) intro!: shape_map_lit split: option.splits)
qed

section \<open>The ConfigRenderer interface\<close>

text \<open>
  \<^verbatim>\<open>ConfigRenderer\<close> of config.go: something with a \<^verbatim>\<open>RenderJSON\<close> method. What its clients
  rely on is that it writes one object under a fixed root key and that the object is a
  proper map; from this, rendering never fails and its bytes determine the object.
\<close>

locale config_renderer =
  fixes root :: string
    and body :: "'r \<Rightarrow> jmap"
    and render :: "'r \<Rightarrow> goerror + string"
    and ok :: "'r \<Rightarrow> bool"
  assumes render_body: "render r = MarshalIndent (JObj (map_lit [(root, JObj (body r))]))"
    and root_utf8: "valid_utf8 root"
    and body_shape: "ok r \<Longrightarrow> shape_map (body r)"
begin

lemma render_total: "\<exists>bytes. render r = Inr bytes"
  by (simp add: render_body MarshalIndent_def)

lemma root_wf: "ok r \<Longrightarrow> utf8_json (JObj (body r)) \<Longrightarrow> wf_json (JObj (map_lit [(root, JObj (body r))]))"
  using body_shape [of r] root_utf8
  by (simp add: wf_json_split shape_map_def map_lit_def map_invar_Cons)

lemma render_inject:
  assumes "ok r" and "ok r'" and "utf8_json (JObj (body r))" and "utf8_json (JObj (body r'))"
  shows "(render r = render r') = (\<forall>k. map_get (body r) k = map_get (body r') k)"
proof -
  have "(render r = render r') = (body r = body r')"
    unfolding render_body MarshalIndent_inject [OF root_wf [OF assms(1,3)] root_wf [OF assms(2,4)]]
    by (simp add: map_lit_def)
  also have "\<dots> = (\<forall>k. map_get (body r) k = map_get (body r') k)"
    using body_shape [OF assms(1)] body_shape [OF assms(2)] by (auto simp: shape_map_def intro: map_ext)
  finally show ?thesis .
qed

end

end
