(* ===== verification/Dhcp4Config.thy ===== *)
theory Dhcp4Config
  imports KeaConfig
begin

text \<open>
  The DHCPv4 renderer, \<^verbatim>\<open>src/internal/kea/dhcp4_config.go\<close>: the renderer struct with the
  resolved credentials, the subnet, pool and shared-network sections, the assembly of the
  hook libraries and the root object. The main facts are the table of the root object,
  the order of the hook libraries and the position of the HA server name.
\<close>

section \<open>Renderer\<close>

record DBCredentials =
  creds_User :: string
  creds_Password :: string

definition zero_DBCredentials :: DBCredentials where
  "zero_DBCredentials = \<lparr>creds_User = '''', creds_Password = ''''\<rparr>"

record Dhcp4ConfigRenderer =
  r4_Spec :: KeaDhcp4ServerSpec
  r4_LeaseDBCreds :: DBCredentials
  r4_HostsDBCreds :: DBCredentials
  r4_HostsDBsCreds :: "DBCredentials list"

definition NewDhcp4ConfigRenderer :: "KeaDhcp4ServerSpec \<Rightarrow> Dhcp4ConfigRenderer" where
  "NewDhcp4ConfigRenderer spec =
     \<lparr>r4_Spec = spec, r4_LeaseDBCreds = zero_DBCredentials,
      r4_HostsDBCreds = zero_DBCredentials, r4_HostsDBsCreds = []\<rparr>"

section \<open>Sections\<close>

definition renderInterfacesConfig :: "InterfacesConfig \<Rightarrow> jmap" where
  "renderInterfacesConfig ic =
     (let m = map_lit [(''interfaces'', case ic_Interfaces ic of None \<Rightarrow> JNull | Some xs \<Rightarrow> JStrs xs)];
          m = setIfNotEmpty m ''dhcp-socket-type'' (ic_DHCPSocketType ic);
          m = setIfNotEmpty m ''outbound-interface'' (ic_OutboundInterface ic);
          m = setIfNotNil m ''re-detect'' (map_option JBool (ic_ReDetect ic));
          m = setIfNotNil m ''service-sockets-require-all'' (map_option JBool (ic_ServiceSocketsRequireAll ic));
          m = setIfNotNil m ''service-sockets-max-retries'' (map_option JInt32 (ic_ServiceSocketsMaxRetries ic));
          m = setIfNotNil m ''service-sockets-retry-wait-time'' (map_option JInt32 (ic_ServiceSocketsRetryWaitTime ic))
      in m)"

text \<open>\<^verbatim>\<open>if x.Relay != nil && len(x.Relay.IPAddresses) > 0\<close>\<close>

definition renderRelay :: "RelayInfo option \<Rightarrow> jmap option" where
  "renderRelay r =
     (case r of
        None \<Rightarrow> None
      | Some ri \<Rightarrow> if 0 < length (ri_IPAddresses ri)
                   then Some (map_lit [(''ip-addresses'', JStrs (ri_IPAddresses ri))]) else None)"

definition renderPool4 :: "Pool4 \<Rightarrow> jmap" where
  "renderPool4 p =
     (let pm = map_lit [(''pool'', JStr (p4_Pool p))];
          pm = setObjs pm ''option-data'' (renderOptionData (p4_OptionData p));
          pm = setIfNotEmpty pm ''client-class'' (p4_ClientClass p);
          pm = setStrs pm ''require-client-classes'' (p4_RequireClientClasses p)
      in pm)"

definition renderSubnet4 :: "Subnet4 \<Rightarrow> jmap" where
  "renderSubnet4 sub =
     (let sm = map_lit [(''id'', JInt32 (s4_ID sub)), (''subnet'', JStr (s4_Subnet sub))];
          sm = setSlice sm ''pools'' renderPool4 (s4_Pools sub);
          sm = setObjs sm ''option-data'' (renderOptionData (s4_OptionData sub));
          sm = setObjs sm ''reservations'' (renderReservations (s4_Reservations sub));
          sm = setIfNotEmpty sm ''client-class'' (s4_ClientClass sub);
          sm = setStrs sm ''require-client-classes'' (s4_RequireClientClasses sub);
          sm = setIfNotEmpty sm ''interface'' (s4_Interface sub);
          sm = setObj sm ''relay'' (renderRelay (s4_Relay sub));
          sm = setIfNotNil sm ''valid-lifetime'' (map_option JInt32 (s4_ValidLifetime sub));
          sm = setIfNotNil sm ''min-valid-lifetime'' (map_option JInt32 (s4_MinValidLifetime sub));
          sm = setIfNotNil sm ''max-valid-lifetime'' (map_option JInt32 (s4_MaxValidLifetime sub));
          sm = setIfNotNil sm ''renew-timer'' (map_option JInt32 (s4_RenewTimer sub));
          sm = setIfNotNil sm ''rebind-timer'' (map_option JInt32 (s4_RebindTimer sub));
          sm = setIfNotNil sm ''authoritative'' (map_option JBool (s4_Authoritative sub));
          sm = setIfNotEmpty sm ''reservation-mode'' (s4_ReservationMode sub);
          sm = setIfNotNil sm ''match-client-id'' (map_option JBool (s4_MatchClientID sub));
          sm = setIfNotEmpty sm ''next-server'' (s4_NextServer sub);
          sm = setIfNotEmpty sm ''boot-file-name'' (s4_BootFileName sub);
          sm = setIfNotEmpty sm ''server-hostname'' (s4_ServerHostname sub);
          sm = setIfNotEmpty sm ''user-context'' (s4_UserContext sub)
      in sm)"

definition renderSubnets4 :: "Dhcp4ConfigRenderer \<Rightarrow> jmap list option" where
  "renderSubnets4 r = render_slice renderSubnet4 (d4_Subnet4 (r4_Spec r))"

definition renderSharedNetwork4 :: "SharedNetwork4 \<Rightarrow> jmap" where
  "renderSharedNetwork4 sn =
     (let snm = map_lit [(''name'', JStr (sn4_Name sn))];
          snm = setSlice snm ''subnet4'' renderSubnet4 (sn4_Subnet4 sn);
          snm = setIfNotEmpty snm ''interface'' (sn4_Interface sn);
          snm = setObjs snm ''option-data'' (renderOptionData (sn4_OptionData sn));
          snm = setObj snm ''relay'' (renderRelay (sn4_Relay sn));
          snm = setIfNotEmpty snm ''client-class'' (sn4_ClientClass sn);
          snm = setStrs snm ''require-client-classes'' (sn4_RequireClientClasses sn);
          snm = setIfNotNil snm ''valid-lifetime'' (map_option JInt32 (sn4_ValidLifetime sn));
          snm = setIfNotNil snm ''min-valid-lifetime'' (map_option JInt32 (sn4_MinValidLifetime sn));
          snm = setIfNotNil snm ''max-valid-lifetime'' (map_option JInt32 (sn4_MaxValidLifetime sn));
          snm = setIfNotNil snm ''renew-timer'' (map_option JInt32 (sn4_RenewTimer sn));
          snm = setIfNotNil snm ''rebind-timer'' (map_option JInt32 (sn4_RebindTimer sn));
          snm = setIfNotNil snm ''authoritative'' (map_option JBool (sn4_Authoritative sn))
      in snm)"

definition renderSharedNetworks4 :: "Dhcp4ConfigRenderer \<Rightarrow> jmap list option" where
  "renderSharedNetworks4 r = render_slice renderSharedNetwork4 (d4_SharedNetworks (r4_Spec r))"

text \<open>The hosts-databases loop: the credentials of entry \<open>i\<close> if there are that many, else none.\<close>

definition renderHostsDatabases :: "DatabaseConfig list \<Rightarrow> DBCredentials list \<Rightarrow> jmap list" where
  "renderHostsDatabases dbs creds =
     map (\<lambda>i. let c = (if i < length creds then creds ! i else zero_DBCredentials)
               in renderDatabaseConfig (dbs ! i) (creds_User c) (creds_Password c))
       [0..<length dbs]"

definition haPortOf :: "ControlSocket option \<Rightarrow> int32" where
  "haPortOf cs =
     (case cs of
        None \<Rightarrow> 0
      | Some c \<Rightarrow> (case cs_SocketPort c of None \<Rightarrow> 0 | Some p \<Rightarrow> p))"

text \<open>User hooks first, then the database hook, then the HA hooks.\<close>

definition assembleHooks ::
  "(string \<Rightarrow> json option) \<Rightarrow> HookLibrary list \<Rightarrow> DatabaseConfig option \<Rightarrow> HAConfig option \<Rightarrow>
   ControlSocket option \<Rightarrow> string \<Rightarrow> jmap list" where
  "assembleHooks unm libs leaseDB ha cs serverNameOverride =
     (let hooks = (case renderHooksLibraries unm libs of None \<Rightarrow> [] | Some hs \<Rightarrow> hs);
          hooks = (case renderDBHook leaseDB of None \<Rightarrow> hooks | Some h \<Rightarrow> hooks @ [h]);
          hooks = (if ha \<noteq> None
                   then hooks @ (case renderHAHooks ha serverNameOverride (haPortOf cs) of None \<Rightarrow> [] | Some hs \<Rightarrow> hs)
                   else hooks)
      in hooks)"

definition renderMultiThreading :: "MultiThreadingConfig \<Rightarrow> jmap" where
  "renderMultiThreading t =
     (let mt = [];
          mt = setIfNotNil mt ''enable-multi-threading'' (map_option JBool (mt_EnableMultiThreading t));
          mt = setIfNotNil mt ''thread-pool-size'' (map_option JInt32 (mt_ThreadPoolSize t));
          mt = setIfNotNil mt ''packet-queue-size'' (map_option JInt32 (mt_PacketQueueSize t))
      in mt)"

section \<open>Root object\<close>

definition renderDhcp4Map :: "(string \<Rightarrow> json option) \<Rightarrow> Dhcp4ConfigRenderer \<Rightarrow> string \<Rightarrow> jmap" where
  "renderDhcp4Map unm r serverNameOverride =
     (let s = r4_Spec r;
          dhcp4 = [];
          dhcp4 = map_set dhcp4 ''interfaces-config'' (JObj (renderInterfacesConfig (d4_InterfacesConfig s)));
          dhcp4 = setObj dhcp4 ''lease-database''
            (map_option (\<lambda>db. renderDatabaseConfig db (creds_User (r4_LeaseDBCreds r)) (creds_Password (r4_LeaseDBCreds r)))
              (d4_LeaseDatabase s));
          dhcp4 = setObj dhcp4 ''hosts-database''
            (map_option (\<lambda>db. renderDatabaseConfig db (creds_User (r4_HostsDBCreds r)) (creds_Password (r4_HostsDBCreds r)))
              (d4_HostsDatabase s));
          dhcp4 = setSlice dhcp4 ''hosts-databases'' id (renderHostsDatabases (d4_HostsDatabases s) (r4_HostsDBsCreds r));
          dhcp4 = setObjs dhcp4 ''subnet4'' (renderSubnets4 r);
          dhcp4 = setObjs dhcp4 ''shared-networks'' (renderSharedNetworks4 r);
          dhcp4 = setObjs dhcp4 ''option-data'' (renderOptionData (d4_OptionData s));
          dhcp4 = setObjs dhcp4 ''option-def'' (renderOptionDef (d4_OptionDef s));
          dhcp4 = setObjs dhcp4 ''client-classes'' (renderClientClasses (d4_ClientClasses s));
          dhcp4 = setObjs dhcp4 ''reservations'' (renderReservations (d4_Reservations s));
          dhcp4 = setStrs dhcp4 ''host-reservation-identifiers'' (d4_HostReservationIdentifiers s);
          dhcp4 = setSlice dhcp4 ''hooks-libraries'' id
            (assembleHooks unm (d4_HooksLibraries s) (d4_LeaseDatabase s) (d4_HighAvailability s)
              (d4_ControlSocket s) serverNameOverride);
          dhcp4 = setObj dhcp4 ''control-socket'' (renderControlSocket (d4_ControlSocket s));
          dhcp4 = setObjs dhcp4 ''loggers'' (renderLoggers (d4_Loggers s));
          dhcp4 = setIfNotNil dhcp4 ''valid-lifetime'' (map_option JInt32 (d4_ValidLifetime s));
          dhcp4 = setIfNotNil dhcp4 ''min-valid-lifetime'' (map_option JInt32 (d4_MinValidLifetime s));
          dhcp4 = setIfNotNil dhcp4 ''max-valid-lifetime'' (map_option JInt32 (d4_MaxValidLifetime s));
          dhcp4 = setIfNotNil dhcp4 ''renew-timer'' (map_option JInt32 (d4_RenewTimer s));
          dhcp4 = setIfNotNil dhcp4 ''rebind-timer'' (map_option JInt32 (d4_RebindTimer s));
          dhcp4 = setIfNotNil dhcp4 ''calculate-tee-times'' (map_option JBool (d4_CalculateTeeTimes s));
          dhcp4 = setIfNotNil dhcp4 ''t1-percent'' (map_option JStr (d4_T1Percent s));
          dhcp4 = setIfNotNil dhcp4 ''t2-percent'' (map_option JStr (d4_T2Percent s));
          dhcp4 = setIfNotNil dhcp4 ''authoritative'' (map_option JBool (d4_Authoritative s));
          dhcp4 = setIfNotNil dhcp4 ''match-client-id'' (map_option JBool (d4_MatchClientID s));
          dhcp4 = setIfNotEmpty dhcp4 ''server-tag'' (d4_ServerTag s);
          dhcp4 = setIfNotEmpty dhcp4 ''next-server'' (d4_NextServer s);
          dhcp4 = setIfNotEmpty dhcp4 ''boot-file-name'' (d4_BootFileName s);
          dhcp4 = setIfNotEmpty dhcp4 ''server-hostname'' (d4_ServerHostname s);
          dhcp4 = setIfNotNil dhcp4 ''ddns-send-updates'' (map_option JBool (d4_DDNSSendUpdates s));
          dhcp4 = setIfNotNil dhcp4 ''ddns-override-no-update'' (map_option JBool (d4_DDNSOverrideNoUpdate s));
          dhcp4 = setIfNotNil dhcp4 ''ddns-override-client-update'' (map_option JBool (d4_DDNSOverrideClientUpdate s));
          dhcp4 = setIfNotEmpty dhcp4 ''ddns-replace-client-name'' (d4_DDNSReplaceClientName s);
          dhcp4 = setIfNotEmpty dhcp4 ''ddns-generated-prefix'' (d4_DDNSGeneratedPrefix s);
          dhcp4 = setIfNotEmpty dhcp4 ''ddns-qualifying-suffix'' (d4_DDNSQualifyingSuffix s);
          dhcp4 = setIfNotNil dhcp4 ''ddns-use-conflict-resolution'' (map_option JBool (d4_DDNSUseConflictResolution s));
          dhcp4 = (case d4_MultiThreading s of
                     None \<Rightarrow> dhcp4
                   | Some t \<Rightarrow> setBlock dhcp4 ''multi-threading'' (renderMultiThreading t))
      in dhcp4)"

definition renderJSONInternal4 :: "(string \<Rightarrow> json option) \<Rightarrow> Dhcp4ConfigRenderer \<Rightarrow> string \<Rightarrow> goerror + string" where
  "renderJSONInternal4 unm r serverNameOverride =
     MarshalIndent (JObj (map_lit [(''Dhcp4'', JObj (renderDhcp4Map unm r serverNameOverride))]))"

definition RenderJSON4 :: "(string \<Rightarrow> json option) \<Rightarrow> Dhcp4ConfigRenderer \<Rightarrow> goerror + string" where
  "RenderJSON4 unm r = renderJSONInternal4 unm r ''''"

definition RenderJSONWithServerName4 ::
  "(string \<Rightarrow> json option) \<Rightarrow> Dhcp4ConfigRenderer \<Rightarrow> string \<Rightarrow> goerror + string" where
  "RenderJSONWithServerName4 unm r serverName = renderJSONInternal4 unm r serverName"

section \<open>The table of the root object\<close>

definition dhcp4_table :: "(string \<Rightarrow> json option) \<Rightarrow> Dhcp4ConfigRenderer \<Rightarrow> string \<Rightarrow> table" where
  "dhcp4_table unm r name =
     (let s = r4_Spec r in
     [(''interfaces-config'', Some (JObj (renderInterfacesConfig (d4_InterfacesConfig s)))),
      (''lease-database'', map_option (\<lambda>db. JObj (renderDatabaseConfig db
          (creds_User (r4_LeaseDBCreds r)) (creds_Password (r4_LeaseDBCreds r)))) (d4_LeaseDatabase s)),
      (''hosts-database'', map_option (\<lambda>db. JObj (renderDatabaseConfig db
          (creds_User (r4_HostsDBCreds r)) (creds_Password (r4_HostsDBCreds r)))) (d4_HostsDatabase s)),
      (''hosts-databases'', oobjs id (renderHostsDatabases (d4_HostsDatabases s) (r4_HostsDBsCreds r))),
      (''subnet4'', oobjs renderSubnet4 (d4_Subnet4 s)),
      (''shared-networks'', oobjs renderSharedNetwork4 (d4_SharedNetworks s)),
      (''option-data'', oobjs renderOptionDataItem (d4_OptionData s)),
      (''option-def'', oobjs renderOptionDefItem (d4_OptionDef s)),
      (''client-classes'', oobjs renderClientClass (d4_ClientClasses s)),
      (''reservations'', oobjs renderReservation (d4_Reservations s)),
      (''host-reservation-identifiers'', ostrs (d4_HostReservationIdentifiers s)),
      (''hooks-libraries'', oobjs id (assembleHooks unm (d4_HooksLibraries s) (d4_LeaseDatabase s)
          (d4_HighAvailability s) (d4_ControlSocket s) name)),
      (''control-socket'', map_option JObj (renderControlSocket (d4_ControlSocket s))),
      (''loggers'', oobjs renderLogger (d4_Loggers s)),
      (''valid-lifetime'', map_option JInt32 (d4_ValidLifetime s)),
      (''min-valid-lifetime'', map_option JInt32 (d4_MinValidLifetime s)),
      (''max-valid-lifetime'', map_option JInt32 (d4_MaxValidLifetime s)),
      (''renew-timer'', map_option JInt32 (d4_RenewTimer s)),
      (''rebind-timer'', map_option JInt32 (d4_RebindTimer s)),
      (''calculate-tee-times'', map_option JBool (d4_CalculateTeeTimes s)),
      (''t1-percent'', map_option JStr (d4_T1Percent s)),
      (''t2-percent'', map_option JStr (d4_T2Percent s)),
      (''authoritative'', map_option JBool (d4_Authoritative s)),
      (''match-client-id'', map_option JBool (d4_MatchClientID s)),
      (''server-tag'', ostr (d4_ServerTag s)),
      (''next-server'', ostr (d4_NextServer s)),
      (''boot-file-name'', ostr (d4_BootFileName s)),
      (''server-hostname'', ostr (d4_ServerHostname s)),
      (''ddns-send-updates'', map_option JBool (d4_DDNSSendUpdates s)),
      (''ddns-override-no-update'', map_option JBool (d4_DDNSOverrideNoUpdate s)),
      (''ddns-override-client-update'', map_option JBool (d4_DDNSOverrideClientUpdate s)),
      (''ddns-replace-client-name'', ostr (d4_DDNSReplaceClientName s)),
      (''ddns-generated-prefix'', ostr (d4_DDNSGeneratedPrefix s)),
      (''ddns-qualifying-suffix'', ostr (d4_DDNSQualifyingSuffix s)),
      (''ddns-use-conflict-resolution'', map_option JBool (d4_DDNSUseConflictResolution s)),
      (''multi-threading'', Option.bind (d4_MultiThreading s) (\<lambda>t. oblock (renderMultiThreading t)))])"

lemma renderDhcp4Map_table: "renderDhcp4Map unm r name = run_table (dhcp4_table unm r name) []"
proof -
  have base: "map_set [] k v = run_table [(k, Some v)] []" for k v
    by (simp add: run_table_def)
  show ?thesis
    unfolding renderDhcp4Map_def Let_def renderSubnets4_def renderSharedNetworks4_def
      renderOptionData_def renderOptionDef_def renderClientClasses_def renderReservations_def renderLoggers_def
    by (simp only: base table_rules) (simp add: dhcp4_table_def Let_def option.map_comp comp_def)
qed

lemma dhcp4_table_distinct: "distinct (map fst (dhcp4_table unm r name))"
  by (simp add: dhcp4_table_def Let_def)

lemma renderDhcp4Map_get: "map_get (renderDhcp4Map unm r name) k = table_get (dhcp4_table unm r name) k"
  unfolding renderDhcp4Map_table by (rule run_table_get [OF dhcp4_table_distinct])

section \<open>Shape\<close>

lemma shape_InterfacesConfig [shape_rules]: "shape_map (renderInterfacesConfig ic)"
  by (auto simp: renderInterfacesConfig_def Let_def intro!: shape_rules split: option.split)

lemma shape_Relay: "renderRelay r = Some m \<Longrightarrow> shape_map m"
  by (auto simp: renderRelay_def intro!: shape_rules split: option.splits if_splits)

lemma shape_Pool4 [shape_rules]: "shape_map (renderPool4 p)"
  by (auto simp: renderPool4_def Let_def intro!: shape_rules)

lemma shape_Subnet4 [shape_rules]: "shape_map (renderSubnet4 sub)"
  by (auto simp: renderSubnet4_def Let_def intro!: shape_rules intro: shape_Relay)

lemma shape_SharedNetwork4 [shape_rules]: "shape_map (renderSharedNetwork4 sn)"
  by (auto simp: renderSharedNetwork4_def Let_def intro!: shape_rules intro: shape_Relay)

lemma shape_HostsDatabases: "m \<in> set (renderHostsDatabases dbs creds) \<Longrightarrow> shape_map m"
  by (auto simp: renderHostsDatabases_def Let_def intro!: shape_rules)

lemma shape_MultiThreading [shape_rules]: "shape_map (renderMultiThreading t)"
  by (auto simp: renderMultiThreading_def Let_def intro!: shape_rules)

lemma shape_assembleHooks:
  assumes "unm_shape unm" and "m \<in> set (assembleHooks unm libs db ha cs name)"
  shows "shape_map m"
  using assms shape_HooksLibraries [of unm libs] shape_HAHooks [of ha name "haPortOf cs"]
  by (auto simp: assembleHooks_def Let_def shape_maps_def list_all_iff intro: shape_DBHook dest: sym
      split: option.splits if_splits)

lemma shape_single_obj [shape_rules]: "shape_map m \<Longrightarrow> shape_map [(k, JObj m)]"
  using shape_map_map_set [of "[]" "JObj m" k] by (simp add: shape_JObj_map del: shape_json.simps)

lemma shape_Dhcp4Map:
  assumes "unm_shape unm"
  shows "shape_map (renderDhcp4Map unm r name)"
  unfolding renderDhcp4Map_def Let_def renderSubnets4_def renderSharedNetworks4_def
  using assms
  by (auto intro!: shape_rules intro: shape_HostsDatabases shape_assembleHooks shape_ControlSocket
      split: option.split)

section \<open>Hook libraries\<close>

definition dbHookLibs :: "DatabaseConfig option \<Rightarrow> string list" where
  "dbHookLibs db =
     (case db of
        None \<Rightarrow> []
      | Some d \<Rightarrow> if db_Type d = ''mysql'' then [mysqlHookLib]
                  else if db_Type d = ''postgresql'' then [pgsqlHookLib] else [])"

definition haHookLibs :: "HAConfig option \<Rightarrow> string list" where
  "haHookLibs ha = (if ha = None then [] else [leaseCmdsHookLib, haHookLib])"

lemma library_renderHookLibrary: "map_get (renderHookLibrary unm h) ''library'' = Some (JStr (hl_Library h))"
  by (simp add: renderHookLibrary_def Let_def map_laws map_get_lit split: option.split)

lemma library_DBHook:
  "map (\<lambda>m. map_get m ''library'') (case renderDBHook db of None \<Rightarrow> [] | Some h \<Rightarrow> [h])
     = map (\<lambda>l. Some (JStr l)) (dbHookLibs db)"
  by (simp add: renderDBHook_def dbHookLibs_def map_get_lit split: option.split)

lemma library_HAHooks:
  "map (\<lambda>m. map_get m ''library'') (case renderHAHooks ha name port of None \<Rightarrow> [] | Some hs \<Rightarrow> hs)
     = map (\<lambda>l. Some (JStr l)) (haHookLibs ha)"
  by (simp add: renderHAHooks_def haHookLibs_def map_get_lit split: option.split)

lemma assembleHooks_append:
  "assembleHooks unm libs db ha cs name =
     map (renderHookLibrary unm) libs
     @ (case renderDBHook db of None \<Rightarrow> [] | Some h \<Rightarrow> [h])
     @ (case renderHAHooks ha name (haPortOf cs) of None \<Rightarrow> [] | Some hs \<Rightarrow> hs)"
  by (simp add: assembleHooks_def Let_def renderHooksLibraries_def render_slice_def
      renderHAHooks_def split: option.split)

lemma assembleHooks_libraries:
  "map (\<lambda>m. map_get m ''library'') (assembleHooks unm libs db ha cs name)
     = map (\<lambda>l. Some (JStr l)) (map hl_Library libs @ dbHookLibs db @ haHookLibs ha)"
  unfolding assembleHooks_append map_append library_DBHook library_HAHooks
  by (simp add: library_renderHookLibrary)

section \<open>Properties\<close>

text \<open>
  C23: the hook libraries of the rendered DHCPv4 configuration are, in this order, the
  user's libraries, the database backend's library for a MySQL or PostgreSQL lease
  database, and for high availability the lease-commands library before the HA library
  that depends on it; nothing else is loaded.
\<close>

theorem dhcp4_hook_libraries:
  "map (jfield ''library'') (elems_at (renderDhcp4Map unm r name) ''hooks-libraries'')
     = map (\<lambda>l. Some (JStr l))
         (map hl_Library (d4_HooksLibraries (r4_Spec r))
          @ dbHookLibs (d4_LeaseDatabase (r4_Spec r))
          @ haHookLibs (d4_HighAvailability (r4_Spec r)))"
proof -
  let ?s = "r4_Spec r"
  let ?hs = "assembleHooks unm (d4_HooksLibraries ?s) (d4_LeaseDatabase ?s) (d4_HighAvailability ?s)
               (d4_ControlSocket ?s) name"
  have "map_get (renderDhcp4Map unm r name) ''hooks-libraries'' = oobjs id ?hs"
    unfolding renderDhcp4Map_get by (simp add: dhcp4_table_def Let_def)
  then have "elems_at (renderDhcp4Map unm r name) ''hooks-libraries'' = map (\<lambda>m. JObj m) ?hs"
    by (simp add: elems_at_oobjs)
  then show ?thesis
    using assembleHooks_libraries [of unm "d4_HooksLibraries ?s" "d4_LeaseDatabase ?s"
        "d4_HighAvailability ?s" "d4_ControlSocket ?s" name]
    by (simp add: comp_def)
qed

definition with_server_name4 :: "Dhcp4ConfigRenderer \<Rightarrow> string \<Rightarrow> Dhcp4ConfigRenderer" where
  "with_server_name4 r name =
     r\<lparr>r4_Spec := (r4_Spec r)\<lparr>d4_HighAvailability :=
        map_option (\<lambda>h. h\<lparr>ha_ThisServerName := name\<rparr>) (d4_HighAvailability (r4_Spec r))\<rparr>\<rparr>"

lemma renderHAConfig_override:
  "name \<noteq> '''' \<Longrightarrow> renderHAConfig h name port = renderHAConfig (h\<lparr>ha_ThisServerName := name\<rparr>) '''' port"
  by (simp add: renderHAConfig_def)

lemma assembleHooks_override:
  "name \<noteq> '''' \<Longrightarrow> assembleHooks unm libs db ha cs name
     = assembleHooks unm libs db (map_option (\<lambda>h. h\<lparr>ha_ThisServerName := name\<rparr>) ha) cs ''''"
  unfolding assembleHooks_append
  by (cases ha) (simp_all add: renderHAHooks_def renderHAConfig_override [symmetric])

lemma renderDhcp4Map_override:
  "name \<noteq> '''' \<Longrightarrow> renderDhcp4Map unm r name = renderDhcp4Map unm (with_server_name4 r name) ''''"
  unfolding renderDhcp4Map_table dhcp4_table_def with_server_name4_def Let_def
  by (simp add: assembleHooks_override)

text \<open>
  C15: the per-pod configuration written for a server name is exactly the configuration of
  the same spec with \<^verbatim>\<open>thisServerName\<close> set to that name: the override changes nothing else.
\<close>

theorem dhcp4_server_name_override:
  assumes "name \<noteq> ''''"
  shows "RenderJSONWithServerName4 unm r name = RenderJSON4 unm (with_server_name4 r name)"
  using renderDhcp4Map_override [OF assms]
  by (simp add: RenderJSONWithServerName4_def RenderJSON4_def renderJSONInternal4_def)

theorem dhcp4_server_name_override_witness:
  "RenderJSONWithServerName4 (\<lambda>_. None) (NewDhcp4ConfigRenderer zero_KeaDhcp4ServerSpec) ''server1''
     = RenderJSON4 (\<lambda>_. None) (with_server_name4 (NewDhcp4ConfigRenderer zero_KeaDhcp4ServerSpec) ''server1'')"
  by (rule dhcp4_server_name_override) simp

interpretation rd4: config_renderer "''Dhcp4''" "\<lambda>(unm, r, n). renderDhcp4Map unm r n"
  "\<lambda>(unm, r, n). renderJSONInternal4 unm r n" "\<lambda>(unm, r, n). unm_shape unm"
  by unfold_locales (auto simp: renderJSONInternal4_def shape_Dhcp4Map)

text \<open>
  C14: the bytes of a DHCPv4 configuration determine it. For resources whose strings are
  valid UTF-8, two renderings are byte-for-byte equal exactly when every key of the Dhcp4
  object has the same value in both, the values being those the declarative table
  \<open>dhcp4_table\<close> lists; so the config hash changes only with the configuration.
\<close>

theorem dhcp4_bytes_determine_config:
  assumes "unm_shape unm"
    and "utf8_json (JObj (renderDhcp4Map unm r n))" and "utf8_json (JObj (renderDhcp4Map unm r' n'))"
  shows "(RenderJSONWithServerName4 unm r n = RenderJSONWithServerName4 unm r' n')
     = (\<forall>k. table_get (dhcp4_table unm r n) k = table_get (dhcp4_table unm r' n') k)"
  using rd4.render_inject [of "(unm, r, n)" "(unm, r', n')"] assms
  by (simp add: RenderJSONWithServerName4_def renderDhcp4Map_get)

definition sample_spec4 :: KeaDhcp4ServerSpec where
  "sample_spec4 = zero_KeaDhcp4ServerSpec\<lparr>
     d4_InterfacesConfig := zero_InterfacesConfig\<lparr>ic_Interfaces := Some [''eth0'']\<rparr>,
     d4_ValidLifetime := Some 3600\<rparr>"

theorem dhcp4_bytes_determine_config_witness:
  "RenderJSONWithServerName4 (\<lambda>_. None) (NewDhcp4ConfigRenderer sample_spec4) ''a''
     \<noteq> RenderJSONWithServerName4 (\<lambda>_. None) (NewDhcp4ConfigRenderer (sample_spec4\<lparr>d4_ValidLifetime := Some 7200\<rparr>)) ''a''"
proof -
  have u: "unm_shape (\<lambda>_. None)" by (simp add: unm_shape_def)
  have utf8: "utf8_json (JObj (renderDhcp4Map (\<lambda>_. None)
      (NewDhcp4ConfigRenderer (sample_spec4\<lparr>d4_ValidLifetime := x\<rparr>)) ''a''))" for x
    unfolding renderDhcp4Map_table
    by (rule utf8_run_table)
      (simp add: utf8_table_def dhcp4_table_def sample_spec4_def NewDhcp4ConfigRenderer_def
        zero_KeaDhcp4ServerSpec_def zero_InterfacesConfig_def renderInterfacesConfig_def
        setIfNotEmpty_def setIfNotNil_def map_lit_def ostr_def ostrs_def oobjs_def JStrs_def
        JInt32_def JInt_def assembleHooks_append renderHAHooks_def renderDBHook_def
        renderHostsDatabases_def renderControlSocket_def split: option.split)
  have a: "utf8_json (JObj (renderDhcp4Map (\<lambda>_. None) (NewDhcp4ConfigRenderer sample_spec4) ''a''))"
    using utf8 [of "Some 3600"] by (simp add: sample_spec4_def)
  note b = utf8 [of "Some 7200"]
  have "table_get (dhcp4_table (\<lambda>_. None) (NewDhcp4ConfigRenderer sample_spec4) ''a'') ''valid-lifetime''
     \<noteq> table_get (dhcp4_table (\<lambda>_. None)
         (NewDhcp4ConfigRenderer (sample_spec4\<lparr>d4_ValidLifetime := Some 7200\<rparr>)) ''a'') ''valid-lifetime''"
    by (simp add: dhcp4_table_def NewDhcp4ConfigRenderer_def sample_spec4_def)
  then show ?thesis
    unfolding dhcp4_bytes_determine_config [OF u a b] by blast
qed

text \<open>The HA object at its place in the hooks, and the listener keys of its table.\<close>

lemma last_assembleHooks:
  "last (assembleHooks unm libs db (Some h) cs name) =
     map_lit [(''library'', JStr haHookLib),
       (''parameters'', JObj (map_lit [(''high-availability'', JObjs [renderHAConfig h name (haPortOf cs)])]))]"
  by (simp add: assembleHooks_append renderHAHooks_def)

lemma assembleHooks_ha_nonempty: "assembleHooks unm libs db (Some h) cs name \<noteq> []"
  by (simp add: assembleHooks_append renderHAHooks_def)

lemma ha_table_listener:
  "table_get (ha_table h name port) ''http-dedicated-listener'' = (if 0 < sint port then Some (JBool True) else None)"
  "table_get (ha_table h name port) ''http-listener-port'' = (if 0 < sint port then Some (JInt32 port) else None)"
  "table_get (ha_table h name port) ''peers'' = oobjs renderHAPeer (ha_Peers h)"
  "table_get (ha_table h name port) ''this-server-name''
     = Some (JStr (if name = '''' then ha_ThisServerName h else name))"
  by (simp_all add: ha_table_def)

text \<open>
  C24: with high availability configured, the last hook of the DHCPv4 configuration carries
  one HA object. Its server name is the override when there is one and the spec's otherwise,
  its peers are those of the spec in order, and the dedicated listener with its port appears
  exactly when the control socket has a positive port.
\<close>

theorem dhcp4_ha_section:
  assumes "d4_HighAvailability (r4_Spec r) = Some h"
  shows "\<exists>m. jfield ''parameters'' (last (elems_at (renderDhcp4Map unm r name) ''hooks-libraries''))
        = Some (JObj [(''high-availability'', JArr [JObj m])])
     \<and> map_get m ''this-server-name'' = Some (JStr (if name = '''' then ha_ThisServerName h else name))
     \<and> map_get m ''peers'' = oobjs renderHAPeer (ha_Peers h)
     \<and> (let port = haPortOf (d4_ControlSocket (r4_Spec r)) in
        map_get m ''http-dedicated-listener'' = (if 0 < sint port then Some (JBool True) else None)
        \<and> map_get m ''http-listener-port'' = (if 0 < sint port then Some (JInt32 port) else None))"
proof -
  let ?s = "r4_Spec r"
  let ?p = "haPortOf (d4_ControlSocket ?s)"
  let ?m = "renderHAConfig h name ?p"
  have "map_get (renderDhcp4Map unm r name) ''hooks-libraries''
      = oobjs id (assembleHooks unm (d4_HooksLibraries ?s) (d4_LeaseDatabase ?s) (Some h) (d4_ControlSocket ?s) name)"
    unfolding renderDhcp4Map_get by (simp add: dhcp4_table_def Let_def assms)
  then have "last (elems_at (renderDhcp4Map unm r name) ''hooks-libraries'')
      = JObj (last (assembleHooks unm (d4_HooksLibraries ?s) (d4_LeaseDatabase ?s) (Some h) (d4_ControlSocket ?s) name))"
    by (simp add: elems_at_oobjs last_map assembleHooks_ha_nonempty)
  then have "jfield ''parameters'' (last (elems_at (renderDhcp4Map unm r name) ''hooks-libraries''))
        = Some (JObj [(''high-availability'', JArr [JObj ?m])])"
    by (simp add: last_assembleHooks map_get_lit) (simp add: map_lit_def JObjs_def)
  then show ?thesis
    by (intro exI [of _ ?m]) (simp add: renderHAConfig_get ha_table_listener Let_def)
qed

definition sample_ha :: HAConfig where
  "sample_ha = zero_HAConfig\<lparr>ha_ThisServerName := ''s1'', ha_Mode := ''hot-standby''\<rparr>"

theorem dhcp4_ha_section_witness:
  "\<exists>m. jfield ''parameters'' (last (elems_at (renderDhcp4Map (\<lambda>_. None)
          (NewDhcp4ConfigRenderer (sample_spec4\<lparr>d4_HighAvailability := Some sample_ha\<rparr>)) ''s2'') ''hooks-libraries''))
        = Some (JObj [(''high-availability'', JArr [JObj m])])
     \<and> map_get m ''this-server-name'' = Some (JStr ''s2'')"
proof -
  have "d4_HighAvailability (r4_Spec (NewDhcp4ConfigRenderer (sample_spec4\<lparr>d4_HighAvailability := Some sample_ha\<rparr>)))
      = Some sample_ha" by (simp add: NewDhcp4ConfigRenderer_def)
  from dhcp4_ha_section [OF this, of "\<lambda>_. None" "''s2''"] show ?thesis by auto
qed

lemma hosts_databases_elems:
  "elems_at (renderDhcp4Map unm r name) ''hosts-databases''
     = map JObj (renderHostsDatabases (d4_HostsDatabases (r4_Spec r)) (r4_HostsDBsCreds r))"
proof -
  have "map_get (renderDhcp4Map unm r name) ''hosts-databases''
      = oobjs id (renderHostsDatabases (d4_HostsDatabases (r4_Spec r)) (r4_HostsDBsCreds r))"
    unfolding renderDhcp4Map_get by (simp add: dhcp4_table_def Let_def)
  then show ?thesis by (simp add: elems_at_oobjs)
qed

lemma nth_renderHostsDatabases:
  "i < length dbs \<Longrightarrow> renderHostsDatabases dbs creds ! i =
     renderDatabaseConfig (dbs ! i)
       (creds_User (if i < length creds then creds ! i else zero_DBCredentials))
       (creds_Password (if i < length creds then creds ! i else zero_DBCredentials))"
  by (simp add: renderHostsDatabases_def Let_def)

lemma length_renderHostsDatabases [simp]: "length (renderHostsDatabases dbs creds) = length dbs"
  by (simp add: renderHostsDatabases_def)

text \<open>
  Entry \<open>i\<close> of \<^verbatim>\<open>hosts-databases\<close> describes database \<open>i\<close> of the spec and carries the
  credentials with index \<open>i\<close>; a database without resolved credentials, or with empty ones,
  gets no user and no password key, and no entry takes those of another.
\<close>

lemma dhcp4_hosts_databases_aligned:
  assumes "i < length (d4_HostsDatabases (r4_Spec r))"
  shows "length (elems_at (renderDhcp4Map unm r name) ''hosts-databases'') = length (d4_HostsDatabases (r4_Spec r))
     \<and> (let c = (if i < length (r4_HostsDBsCreds r) then r4_HostsDBsCreds r ! i else zero_DBCredentials);
            e = elems_at (renderDhcp4Map unm r name) ''hosts-databases'' ! i
        in jfield ''type'' e = Some (JStr (db_Type (d4_HostsDatabases (r4_Spec r) ! i)))
           \<and> jfield ''user'' e = ostr (creds_User c) \<and> jfield ''password'' e = ostr (creds_Password c))"
  unfolding hosts_databases_elems
  using assms by (simp add: nth_renderHostsDatabases renderDatabaseConfig_get Let_def) (simp add: db_table_def)

lemma dhcp4_hosts_databases_aligned_example:
  "length (elems_at (renderDhcp4Map (\<lambda>_. None) (NewDhcp4ConfigRenderer
      (sample_spec4\<lparr>d4_HostsDatabases := [zero_DatabaseConfig]\<rparr>)) ''a'') ''hosts-databases'') = 1"
  using dhcp4_hosts_databases_aligned [of 0 "NewDhcp4ConfigRenderer
      (sample_spec4\<lparr>d4_HostsDatabases := [zero_DatabaseConfig]\<rparr>)" "\<lambda>_. None" "''a''"]
  by (simp add: NewDhcp4ConfigRenderer_def)

end
