(* ===== verification/Credentials.thy ===== *)
theory Credentials
  imports Dhcp4Config Names
begin

text \<open>
  Credentials and peer addresses the controllers put into a configuration
  (\<^verbatim>\<open>src/internal/controller/reconciler.go\<close>): environment variables that refer to Secrets with the
  placeholders that stand for them in the JSON, the per-index credential loops of the
  controllers, and \<^verbatim>\<open>fillPeerURLs\<close>.
\<close>

section \<open>Environment variables for Secrets\<close>

definition secretKeyUsername :: string where "secretKeyUsername = ''username''"
definition secretKeyPassword :: string where "secretKeyPassword = ''password''"

definition secret_ref_env :: "string \<Rightarrow> LocalObjectReference \<Rightarrow> string \<Rightarrow> EnvVar" where
  "secret_ref_env name ref key =
     \<lparr>ev_Name = name, ev_Value = '''',
      ev_ValueFrom = Some (SecretKeyRef \<lparr>sks_LocalObjectReference = ref, sks_Key = key, sks_Optional = None\<rparr>)\<rparr>"

definition dbCredentialEnvVars :: "string \<Rightarrow> DatabaseConfig option \<Rightarrow> EnvVar list \<times> string \<times> string" where
  "dbCredentialEnvVars pre db =
     (case Option.bind db db_CredentialsSecretRef of
        None \<Rightarrow> ([], '''', '''')
      | Some ref \<Rightarrow>
          (let userEnvName = pre @ ''_USER''; passEnvName = pre @ ''_PASSWORD''
           in ([secret_ref_env userEnvName ref secretKeyUsername,
                secret_ref_env passEnvName ref secretKeyPassword],
               CHR ''$'' # userEnvName, CHR ''$'' # passEnvName)))"

definition secretKeyRefEnvVar :: "string \<Rightarrow> SecretKeySelector \<Rightarrow> EnvVar \<times> string" where
  "secretKeyRefEnvVar envName sel =
     (\<lparr>ev_Name = envName, ev_Value = '''', ev_ValueFrom = Some (SecretKeyRef sel)\<rparr>, CHR ''$'' # envName)"

section \<open>Database credentials of a server\<close>

text \<open>\<^verbatim>\<open>for len(creds) <= i { creds = append(creds, DBCredentials{}) }\<close>\<close>

function pad_creds :: "nat \<Rightarrow> DBCredentials list \<Rightarrow> DBCredentials list" where
  "pad_creds i creds = (if length creds \<le> i then pad_creds i (creds @ [zero_DBCredentials]) else creds)"
  by pat_completeness auto
termination by (relation "measure (\<lambda>(i, creds). Suc i - length creds)") auto

declare pad_creds.simps [simp del]

definition hosts_prefix :: "nat \<Rightarrow> string" where
  "hosts_prefix i = ''KEA_HOSTS_DBS_'' @ dec_nat i"

definition hosts_step ::
  "EnvVar list \<times> DBCredentials list \<Rightarrow> nat \<times> DatabaseConfig \<Rightarrow> EnvVar list \<times> DBCredentials list" where
  "hosts_step acc e =
     (case acc of (secretEnvVars, creds) \<Rightarrow> case e of (i, db) \<Rightarrow>
        if db_CredentialsSecretRef db \<noteq> None
        then (case dbCredentialEnvVars (hosts_prefix i) (Some db) of (envs, userPh, passPh) \<Rightarrow>
                (secretEnvVars @ envs,
                 (pad_creds i creds)[i := \<lparr>creds_User = userPh, creds_Password = passPh\<rparr>]))
        else (secretEnvVars, creds))"

record db_resolution =
  dr_Env :: "EnvVar list"
  dr_Lease :: DBCredentials
  dr_Hosts :: DBCredentials
  dr_HostsDBs :: "DBCredentials list"

definition single_db :: "string \<Rightarrow> DatabaseConfig option \<Rightarrow> EnvVar list \<times> DBCredentials" where
  "single_db pre db =
     (case Option.bind db db_CredentialsSecretRef of
        None \<Rightarrow> ([], zero_DBCredentials)
      | Some _ \<Rightarrow> (case dbCredentialEnvVars pre db of (envs, userPh, passPh) \<Rightarrow>
                    (envs, \<lparr>creds_User = userPh, creds_Password = passPh\<rparr>)))"

text \<open>Step 3 of the DHCPv4 and DHCPv6 reconcilers.\<close>

definition resolveDBCredentials ::
  "DatabaseConfig option \<Rightarrow> DatabaseConfig option \<Rightarrow> DatabaseConfig list \<Rightarrow> db_resolution" where
  "resolveDBCredentials lease hosts hostsDBs =
     (case single_db ''KEA_LEASE_DB'' lease of (e1, c1) \<Rightarrow>
      case single_db ''KEA_HOSTS_DB'' hosts of (e2, c2) \<Rightarrow>
      case foldl hosts_step (e1 @ e2, []) (enumerate 0 hostsDBs) of (envs, cs) \<Rightarrow>
        \<lparr>dr_Env = envs, dr_Lease = c1, dr_Hosts = c2, dr_HostsDBs = cs\<rparr>)"

section \<open>Placeholders of lists of secrets\<close>

text \<open>
  Step 2 of the control agent and DDNS reconcilers: one variable per entry with a reference,
  named by its index, and a map from the entry's name to its placeholder.
\<close>

definition secrets_step ::
  "string \<Rightarrow> EnvVar list \<times> string strmap \<Rightarrow> nat \<times> string \<times> SecretKeySelector option \<Rightarrow> EnvVar list \<times> string strmap" where
  "secrets_step base acc e =
     (case acc of (secretEnvVars, placeholders) \<Rightarrow> case e of (i, name, ref) \<Rightarrow>
        (case ref of
           None \<Rightarrow> (secretEnvVars, placeholders)
         | Some sel \<Rightarrow>
             (case secretKeyRefEnvVar (base @ dec_nat i) sel of (ev, placeholder) \<Rightarrow>
                (secretEnvVars @ [ev], map_set placeholders name placeholder))))"

definition resolveNamedSecrets ::
  "string \<Rightarrow> (string \<times> SecretKeySelector option) list \<Rightarrow> EnvVar list \<times> string strmap" where
  "resolveNamedSecrets base entries = foldl (secrets_step base) ([], []) (enumerate 0 entries)"

section \<open>fillPeerURLs\<close>

definition peer_url :: "string \<Rightarrow> string \<Rightarrow> string \<Rightarrow> int32 \<Rightarrow> nat \<Rightarrow> string" where
  "peer_url namespace crName component port i =
     ''http://'' @ StatefulSetName crName component @ ''-'' @ dec_nat i @ ''.'' @ HeadlessServiceName crName component
     @ ''.'' @ namespace @ ''.svc.cluster.local:'' @ dec_int32 port @ ''/''"

definition fill_peer :: "string \<Rightarrow> string \<Rightarrow> string \<Rightarrow> int32 \<Rightarrow> nat \<times> HAPeer \<Rightarrow> HAPeer" where
  "fill_peer namespace crName component port e =
     (case e of (i, p) \<Rightarrow>
        if peer_URL p = '''' then p\<lparr>peer_URL := peer_url namespace crName component port i\<rparr> else p)"

definition fill_peers :: "string \<Rightarrow> string \<Rightarrow> string \<Rightarrow> int32 \<Rightarrow> HAPeer list \<Rightarrow> HAPeer list" where
  "fill_peers namespace crName component port ps = map (fill_peer namespace crName component port) (enumerate 0 ps)"

definition fillPeerURLs :: "HAConfig option \<Rightarrow> string \<Rightarrow> string \<Rightarrow> string \<Rightarrow> int32 \<Rightarrow> HAConfig option" where
  "fillPeerURLs ha namespace crName component port =
     (case ha of
        None \<Rightarrow> None
      | Some h \<Rightarrow> Some (h\<lparr>ha_Peers := fill_peers namespace crName component port (ha_Peers h)\<rparr>))"

section \<open>Facts on peer URLs\<close>

lemma length_fill_peers [simp]: "length (fill_peers ns cr co port ps) = length ps"
  by (simp add: fill_peers_def)

lemma nth_fill_peers:
  "i < length ps \<Longrightarrow> fill_peers ns cr co port ps ! i
     = (if peer_URL (ps ! i) = '''' then (ps ! i)\<lparr>peer_URL := peer_url ns cr co port i\<rparr> else ps ! i)"
  by (simp add: fill_peers_def fill_peer_def nth_enumerate_eq)

lemma peer_url_nonempty: "peer_url ns cr co port i \<noteq> ''''"
  by (simp add: peer_url_def)

lemma fill_idem: "fill_peers ns cr co port (fill_peers ns' cr' co' port' ps) = fill_peers ns' cr' co' port' ps"
  by (rule nth_equalityI) (simp_all add: nth_fill_peers peer_url_nonempty)

text \<open>
  C30: \<^verbatim>\<open>fillPeerURLs\<close> completes an HA configuration and changes nothing else: peers keep their
  number, order and every other field, a URL the user gave is kept, an empty one becomes the
  address of the pod with the peer's index under the headless Service, and afterwards no URL
  is empty, so running it again (as every reconciliation does) has no effect.
\<close>

theorem fillPeerURLs_completes:
  "\<exists>h'. fillPeerURLs (Some h) ns cr co port = Some h'
     \<and> h' = h\<lparr>ha_Peers := ha_Peers h'\<rparr> \<and> length (ha_Peers h') = length (ha_Peers h)
     \<and> list_all (\<lambda>i. ha_Peers h' ! i = (ha_Peers h ! i)\<lparr>peer_URL := peer_URL (ha_Peers h' ! i)\<rparr>
          \<and> peer_URL (ha_Peers h' ! i) =
              (if peer_URL (ha_Peers h ! i) = '''' then peer_url ns cr co port i else peer_URL (ha_Peers h ! i))
          \<and> peer_URL (ha_Peers h' ! i) \<noteq> '''') [0..<length (ha_Peers h)]
     \<and> fillPeerURLs (Some h') ns cr co port = Some h'"
  by (auto simp: fillPeerURLs_def list_all_iff nth_fill_peers peer_url_nonempty fill_idem)

section \<open>Facts on credentials\<close>

lemma pad_creds_eq: "pad_creds i cs = cs @ replicate (Suc i - length cs) zero_DBCredentials"
proof (induction i cs rule: pad_creds.induct)
  case (1 i cs)
  show ?case
  proof (cases "length cs \<le> i")
    case True
    then have "Suc i - length cs = Suc (Suc i - length (cs @ [zero_DBCredentials]))" by simp
    with True "1.IH" show ?thesis by (simp add: pad_creds.simps [of i cs])
  next
    case False
    then show ?thesis by (simp add: pad_creds.simps [of i cs])
  qed
qed

definition db_creds :: "string \<Rightarrow> DatabaseConfig \<Rightarrow> DBCredentials" where
  "db_creds pre db =
     (if db_CredentialsSecretRef db = None then zero_DBCredentials
      else \<lparr>creds_User = CHR ''$'' # pre @ ''_USER'', creds_Password = CHR ''$'' # pre @ ''_PASSWORD''\<rparr>)"

definition db_envs :: "string \<Rightarrow> DatabaseConfig \<Rightarrow> EnvVar list" where
  "db_envs pre db =
     (case db_CredentialsSecretRef db of
        None \<Rightarrow> []
      | Some ref \<Rightarrow> [secret_ref_env (pre @ ''_USER'') ref secretKeyUsername,
                     secret_ref_env (pre @ ''_PASSWORD'') ref secretKeyPassword])"

definition creds_at :: "DBCredentials list \<Rightarrow> nat \<Rightarrow> DBCredentials" where
  "creds_at cs i = (if i < length cs then cs ! i else zero_DBCredentials)"

lemma creds_at_Nil [simp]: "creds_at [] i = zero_DBCredentials"
  by (simp add: creds_at_def)

lemma hosts_step_spec:
  assumes "length cs \<le> i"
  shows "fst (hosts_step (envs, cs) (i, db)) = envs @ db_envs (hosts_prefix i) db"
    and "creds_at (snd (hosts_step (envs, cs) (i, db))) j = (if j = i then db_creds (hosts_prefix i) db else creds_at cs j)"
    and "length (snd (hosts_step (envs, cs) (i, db))) \<le> Suc i"
  using assms
  by (auto simp: hosts_step_def dbCredentialEnvVars_def db_envs_def db_creds_def creds_at_def pad_creds_eq
      nth_append nth_list_update Let_def split: option.split)

lemma hosts_fold:
  assumes "length cs \<le> k"
  shows "fst (foldl hosts_step (envs, cs) (enumerate k dbs))
           = envs @ concat (map (\<lambda>(i, db). db_envs (hosts_prefix i) db) (enumerate k dbs))
     \<and> (\<forall>j. creds_at (snd (foldl hosts_step (envs, cs) (enumerate k dbs))) j
           = (if k \<le> j \<and> j < k + length dbs then db_creds (hosts_prefix j) (dbs ! (j - k)) else creds_at cs j))"
  using assms
proof (induction dbs arbitrary: k envs cs)
  case Nil
  then show ?case by auto
next
  case (Cons db dbs)
  obtain envs' cs' where step: "hosts_step (envs, cs) (k, db) = (envs', cs')" by (cases "hosts_step (envs, cs) (k, db)")
  note spec = hosts_step_spec [OF Cons.prems, of envs db, unfolded step fst_conv snd_conv]
  from Cons.IH [OF spec(3)] spec(1,2) show ?case
    by (auto simp: step nth_Cons' Suc_diff_le)
qed

lemma single_db_spec:
  "fst (single_db pre db) = (case db of None \<Rightarrow> [] | Some d \<Rightarrow> db_envs pre d)"
  "snd (single_db pre db) = (case db of None \<Rightarrow> zero_DBCredentials | Some d \<Rightarrow> db_creds pre d)"
  by (auto simp: single_db_def dbCredentialEnvVars_def db_envs_def db_creds_def Let_def split: option.splits)

lemma resolveDBCredentials_spec:
  "dr_Env (resolveDBCredentials lease hosts dbs) =
     (case lease of None \<Rightarrow> [] | Some d \<Rightarrow> db_envs ''KEA_LEASE_DB'' d)
     @ (case hosts of None \<Rightarrow> [] | Some d \<Rightarrow> db_envs ''KEA_HOSTS_DB'' d)
     @ concat (map (\<lambda>(i, db). db_envs (hosts_prefix i) db) (enumerate 0 dbs))"
  "dr_Lease (resolveDBCredentials lease hosts dbs) = (case lease of None \<Rightarrow> zero_DBCredentials | Some d \<Rightarrow> db_creds ''KEA_LEASE_DB'' d)"
  "dr_Hosts (resolveDBCredentials lease hosts dbs) = (case hosts of None \<Rightarrow> zero_DBCredentials | Some d \<Rightarrow> db_creds ''KEA_HOSTS_DB'' d)"
  "creds_at (dr_HostsDBs (resolveDBCredentials lease hosts dbs)) j =
     (if j < length dbs then db_creds (hosts_prefix j) (dbs ! j) else zero_DBCredentials)"
  using single_db_spec [of "''KEA_LEASE_DB''" lease] single_db_spec [of "''KEA_HOSTS_DB''" hosts]
    hosts_fold [of "[]" 0 "fst (single_db ''KEA_LEASE_DB'' lease) @ fst (single_db ''KEA_HOSTS_DB'' hosts)" dbs]
  by (auto simp: resolveDBCredentials_def split: prod.splits)

section \<open>Names of the variables\<close>

lemma hosts_prefix_inj [simp]: "(hosts_prefix i = hosts_prefix j) = (i = j)"
  by (simp add: hosts_prefix_def)

lemma user_not_password: "a @ ''_USER'' \<noteq> b @ ''_PASSWORD''"
proof -
  have "rev (a @ ''_USER'') \<noteq> rev (b @ ''_PASSWORD'')" by simp
  then show ?thesis by metis
qed

definition db_names :: "string \<Rightarrow> string set" where
  "db_names pre = {pre @ ''_USER'', pre @ ''_PASSWORD''}"

lemma db_envs_names: "set (map ev_Name (db_envs pre db)) \<subseteq> db_names pre" "distinct (map ev_Name (db_envs pre db))"
  by (auto simp: db_envs_def db_names_def secret_ref_env_def user_not_password split: option.split)

lemma db_names_disjoint: "i \<noteq> j \<Longrightarrow> db_names (hosts_prefix i) \<inter> db_names (hosts_prefix j) = {}"
  using user_not_password [of "hosts_prefix i" "hosts_prefix j"] user_not_password [of "hosts_prefix j" "hosts_prefix i"]
  by (auto simp: db_names_def)

lemma single_names_disjoint:
  "db_names ''KEA_LEASE_DB'' \<inter> db_names ''KEA_HOSTS_DB'' = {}"
  "db_names ''KEA_LEASE_DB'' \<inter> db_names (hosts_prefix i) = {}"
  "db_names ''KEA_HOSTS_DB'' \<inter> db_names (hosts_prefix i) = {}"
  by (auto simp: db_names_def hosts_prefix_def)

lemma hosts_envs_distinct:
  "distinct (map ev_Name (concat (map (\<lambda>(i, db). db_envs (hosts_prefix i) db) (enumerate k dbs))))
   \<and> set (map ev_Name (concat (map (\<lambda>(i, db). db_envs (hosts_prefix i) db) (enumerate k dbs))))
       \<subseteq> (\<Union>i \<in> {k..<k + length dbs}. db_names (hosts_prefix i))"
proof (induction dbs arbitrary: k)
  case Nil
  then show ?case by simp
next
  case (Cons db dbs)
  let ?rest = "map ev_Name (concat (map (\<lambda>(i, db). db_envs (hosts_prefix i) db) (enumerate (Suc k) dbs)))"
  have IH: "distinct ?rest" "set ?rest \<subseteq> (\<Union>i \<in> {Suc k..<Suc k + length dbs}. db_names (hosts_prefix i))"
    using Cons.IH [of "Suc k"] by blast+
  have "db_names (hosts_prefix k) \<inter> (\<Union>i \<in> {Suc k..<Suc k + length dbs}. db_names (hosts_prefix i)) = {}"
    by (intro equals0I) (use db_names_disjoint [of k] in force)
  then have "set (map ev_Name (db_envs (hosts_prefix k) db)) \<inter> set ?rest = {}"
    using IH(2) db_envs_names(1) [of "hosts_prefix k" db] by blast
  moreover have "set (map ev_Name (db_envs (hosts_prefix k) db)) \<union> set ?rest
      \<subseteq> (\<Union>i \<in> {k..<k + length (db # dbs)}. db_names (hosts_prefix i))"
    using IH(2) db_envs_names(1) [of "hosts_prefix k" db] by fastforce
  ultimately show ?case using IH(1) db_envs_names(2) by simp
qed

lemma optional_envs_names:
  "distinct (map ev_Name (case db of None \<Rightarrow> [] | Some d \<Rightarrow> db_envs pre d))"
  "set (map ev_Name (case db of None \<Rightarrow> [] | Some d \<Rightarrow> db_envs pre d)) \<subseteq> db_names pre"
  using db_envs_names by (auto split: option.split)

lemma dr_Env_distinct: "distinct (map ev_Name (dr_Env (resolveDBCredentials lease hosts dbs)))"
proof -
  let ?l = "case lease of None \<Rightarrow> [] | Some d \<Rightarrow> db_envs ''KEA_LEASE_DB'' d"
  let ?h = "case hosts of None \<Rightarrow> [] | Some d \<Rightarrow> db_envs ''KEA_HOSTS_DB'' d"
  let ?r = "concat (map (\<lambda>(i, db). db_envs (hosts_prefix i) db) (enumerate 0 dbs))"
  let ?n = "\<lambda>es. set (map ev_Name es)"
  have sub: "?n ?l \<subseteq> db_names ''KEA_LEASE_DB''" "?n ?h \<subseteq> db_names ''KEA_HOSTS_DB''"
    "?n ?r \<subseteq> (\<Union>i. db_names (hosts_prefix i))"
    using optional_envs_names(2) hosts_envs_distinct [of 0 dbs] by blast+
  have "?n ?l \<inter> ?n ?h = {}" "?n ?l \<inter> ?n ?r = {}" "?n ?h \<inter> ?n ?r = {}"
    using sub single_names_disjoint by blast+
  then show ?thesis
    unfolding resolveDBCredentials_spec(1)
    using optional_envs_names(1) hosts_envs_distinct [of 0 dbs] by (auto simp: disjoint_iff)
qed

section \<open>Credentials by reference\<close>

text \<open>The renderer a DHCPv4 reconciliation works with (step 3), and the container's variables.\<close>

definition dhcp4_renderer :: "KeaDhcp4ServerSpec \<Rightarrow> EnvVar list \<times> Dhcp4ConfigRenderer" where
  "dhcp4_renderer spec =
     (let dr = resolveDBCredentials (d4_LeaseDatabase spec) (d4_HostsDatabase spec) (d4_HostsDatabases spec)
      in (dr_Env dr, (NewDhcp4ConfigRenderer spec)\<lparr>r4_LeaseDBCreds := dr_Lease dr, r4_HostsDBCreds := dr_Hosts dr,
            r4_HostsDBsCreds := dr_HostsDBs dr\<rparr>))"

lemma dr_Env_members:
  "i < length dbs \<Longrightarrow> set (db_envs (hosts_prefix i) (dbs ! i)) \<subseteq> set (dr_Env (resolveDBCredentials lease hosts dbs))"
proof -
  assume "i < length dbs"
  then have "(i, dbs ! i) \<in> set (enumerate 0 dbs)" by (simp add: in_set_enumerate_eq)
  then show ?thesis unfolding resolveDBCredentials_spec(1) by fastforce
qed

lemma dr_Env_by_reference:
  "list_all (\<lambda>v. ev_Value v = '''' \<and> ev_ValueFrom v \<noteq> None) (dr_Env (resolveDBCredentials lease hosts dbs))"
  unfolding resolveDBCredentials_spec(1)
  by (auto simp: list_all_iff db_envs_def secret_ref_env_def split: option.splits)

text \<open>
  A rendered database \<open>e\<close> carries its credentials by reference: without a credentials Secret it has
  neither user nor password; with one, both are placeholders of container variables with the
  given prefix that read the \<^verbatim>\<open>username\<close> and the \<^verbatim>\<open>password\<close> key of that Secret.
\<close>

definition by_reference :: "EnvVar list \<Rightarrow> string \<Rightarrow> DatabaseConfig \<Rightarrow> json \<Rightarrow> bool" where
  "by_reference envs pre db e =
     (case db_CredentialsSecretRef db of
        None \<Rightarrow> jfield ''user'' e = None \<and> jfield ''password'' e = None
      | Some ref \<Rightarrow>
          jfield ''user'' e = Some (JStr (CHR ''$'' # pre @ ''_USER''))
          \<and> jfield ''password'' e = Some (JStr (CHR ''$'' # pre @ ''_PASSWORD''))
          \<and> secret_ref_env (pre @ ''_USER'') ref ''username'' \<in> set envs
          \<and> secret_ref_env (pre @ ''_PASSWORD'') ref ''password'' \<in> set envs)"

lemma by_referenceI:
  assumes "set (db_envs pre db) \<subseteq> set envs"
    and "e = JObj (renderDatabaseConfig db (creds_User (db_creds pre db)) (creds_Password (db_creds pre db)))"
  shows "by_reference envs pre db e"
  using assms(1) unfolding assms(2)
  by (cases "db_CredentialsSecretRef db")
    (simp_all add: by_reference_def db_creds_def db_envs_def zero_DBCredentials_def renderDatabaseConfig_get
      secretKeyUsername_def secretKeyPassword_def, simp_all add: db_table_def ostr_def)

lemma renderer_fields:
  "r4_Spec (snd (dhcp4_renderer spec)) = spec"
  "fst (dhcp4_renderer spec) = dr_Env (resolveDBCredentials (d4_LeaseDatabase spec) (d4_HostsDatabase spec) (d4_HostsDatabases spec))"
  "r4_LeaseDBCreds (snd (dhcp4_renderer spec))
     = dr_Lease (resolveDBCredentials (d4_LeaseDatabase spec) (d4_HostsDatabase spec) (d4_HostsDatabases spec))"
  "r4_HostsDBCreds (snd (dhcp4_renderer spec))
     = dr_Hosts (resolveDBCredentials (d4_LeaseDatabase spec) (d4_HostsDatabase spec) (d4_HostsDatabases spec))"
  "r4_HostsDBsCreds (snd (dhcp4_renderer spec))
     = dr_HostsDBs (resolveDBCredentials (d4_LeaseDatabase spec) (d4_HostsDatabase spec) (d4_HostsDatabases spec))"
  by (simp_all add: dhcp4_renderer_def NewDhcp4ConfigRenderer_def Let_def)

lemma single_databases_by_reference:
  "rel_option (by_reference (fst (dhcp4_renderer spec)) ''KEA_LEASE_DB'') (d4_LeaseDatabase spec)
     (map_get (renderDhcp4Map unm (snd (dhcp4_renderer spec)) name) ''lease-database'')"
  "rel_option (by_reference (fst (dhcp4_renderer spec)) ''KEA_HOSTS_DB'') (d4_HostsDatabase spec)
     (map_get (renderDhcp4Map unm (snd (dhcp4_renderer spec)) name) ''hosts-database'')"
  unfolding renderDhcp4Map_get
  by (auto simp: dhcp4_table_def Let_def renderer_fields resolveDBCredentials_spec option.rel_map intro!: by_referenceI
      split: option.split)

lemma hosts_databases_by_reference:
  "list_all2 (\<lambda>d e. by_reference (fst (dhcp4_renderer spec)) (hosts_prefix (fst d)) (snd d) e)
     (enumerate 0 (d4_HostsDatabases spec))
     (elems_at (renderDhcp4Map unm (snd (dhcp4_renderer spec)) name) ''hosts-databases'')"
  unfolding hosts_databases_elems
proof (rule list_all2_all_nthI)
  show "length (enumerate 0 (d4_HostsDatabases spec))
      = length (map JObj (renderHostsDatabases (d4_HostsDatabases (r4_Spec (snd (dhcp4_renderer spec)))) (r4_HostsDBsCreds (snd (dhcp4_renderer spec)))))"
    by (simp add: renderer_fields length_renderHostsDatabases)
  fix i assume "i < length (enumerate 0 (d4_HostsDatabases spec))"
  then have i: "i < length (d4_HostsDatabases spec)" by simp
  let ?dr = "resolveDBCredentials (d4_LeaseDatabase spec) (d4_HostsDatabase spec) (d4_HostsDatabases spec)"
  have c: "creds_at (dr_HostsDBs ?dr) i = db_creds (hosts_prefix i) (d4_HostsDatabases spec ! i)"
    using i by (simp add: resolveDBCredentials_spec(4))
  have "by_reference (fst (dhcp4_renderer spec)) (hosts_prefix i) (d4_HostsDatabases spec ! i)
      (JObj (renderHostsDatabases (d4_HostsDatabases spec) (dr_HostsDBs ?dr) ! i))"
    by (rule by_referenceI)
      (use i c dr_Env_members [OF i] in \<open>auto simp: renderer_fields nth_renderHostsDatabases creds_at_def\<close>)
  then show "by_reference (fst (dhcp4_renderer spec)) (hosts_prefix (fst (enumerate 0 (d4_HostsDatabases spec) ! i)))
      (snd (enumerate 0 (d4_HostsDatabases spec) ! i))
      (map JObj (renderHostsDatabases (d4_HostsDatabases (r4_Spec (snd (dhcp4_renderer spec)))) (r4_HostsDBsCreds (snd (dhcp4_renderer spec)))) ! i)"
    using i by (simp add: nth_enumerate_eq renderer_fields length_renderHostsDatabases)
qed

text \<open>
  C20: database credentials reach Kea by reference only, for every database of a DHCPv4 server. The
  configuration has a \<^verbatim>\<open>lease-database\<close>, a \<^verbatim>\<open>hosts-database\<close> and the entries of \<^verbatim>\<open>hosts-databases\<close>
  exactly when the spec has them, in its order, and in each the rendered user and password are
  placeholders of two container variables that read the \<^verbatim>\<open>username\<close> and \<^verbatim>\<open>password\<close> keys of that
  database's own Secret; a database without a Secret has neither key. All variables of the
  container have different names and none carries a literal value.
\<close>

theorem dhcp4_credentials_by_reference:
  "let envs = fst (dhcp4_renderer spec); m = renderDhcp4Map unm (snd (dhcp4_renderer spec)) name in
     distinct (map ev_Name envs)
     \<and> list_all (\<lambda>v. ev_Value v = '''' \<and> ev_ValueFrom v \<noteq> None) envs
     \<and> rel_option (by_reference envs ''KEA_LEASE_DB'') (d4_LeaseDatabase spec) (map_get m ''lease-database'')
     \<and> rel_option (by_reference envs ''KEA_HOSTS_DB'') (d4_HostsDatabase spec) (map_get m ''hosts-database'')
     \<and> list_all2 (\<lambda>d e. by_reference envs (hosts_prefix (fst d)) (snd d) e)
         (enumerate 0 (d4_HostsDatabases spec)) (elems_at m ''hosts-databases'')"
  using single_databases_by_reference hosts_databases_by_reference dr_Env_distinct dr_Env_by_reference
  by (simp add: Let_def renderer_fields(2))

definition sample_db :: DatabaseConfig where
  "sample_db = zero_DatabaseConfig\<lparr>db_Type := ''mysql'', db_CredentialsSecretRef := Some \<lparr>lor_Name = ''db-creds''\<rparr>\<rparr>"

theorem dhcp4_credentials_by_reference_witness:
  "case map_get (renderDhcp4Map (\<lambda>_. None) (snd (dhcp4_renderer (zero_KeaDhcp4ServerSpec\<lparr>d4_LeaseDatabase := Some sample_db\<rparr>))) ''s'')
      ''lease-database'' of
     None \<Rightarrow> False | Some e \<Rightarrow> jfield ''user'' e = Some (JStr ''$KEA_LEASE_DB_USER'')"
  using dhcp4_credentials_by_reference [of "zero_KeaDhcp4ServerSpec\<lparr>d4_LeaseDatabase := Some sample_db\<rparr>" "\<lambda>_. None" "''s''"]
  by (simp add: Let_def option_rel_Some1 by_reference_def sample_db_def split: option.splits)

section \<open>Named secrets\<close>

definition ref_placeholder :: "string \<Rightarrow> nat \<Rightarrow> string \<times> SecretKeySelector option \<Rightarrow> string option" where
  "ref_placeholder base i e = (case snd e of None \<Rightarrow> None | Some _ \<Rightarrow> Some (CHR ''$'' # base @ dec_nat i))"

definition ref_env :: "string \<Rightarrow> nat \<times> string \<times> SecretKeySelector option \<Rightarrow> EnvVar list" where
  "ref_env base e =
     (case snd (snd e) of None \<Rightarrow> []
      | Some sel \<Rightarrow> [\<lparr>ev_Name = base @ dec_nat (fst e), ev_Value = '''', ev_ValueFrom = Some (SecretKeyRef sel)\<rparr>])"

lemma secrets_fold:
  assumes "distinct (map fst es)" and "\<forall>n \<in> set (map fst es). map_get m n = None"
  shows "fst (foldl (secrets_step base) (envs, m) (enumerate k es)) = envs @ concat (map (ref_env base) (enumerate k es))
     \<and> (\<forall>i < length es. map_get (snd (foldl (secrets_step base) (envs, m) (enumerate k es))) (fst (es ! i))
          = ref_placeholder base (k + i) (es ! i))
     \<and> (\<forall>n. n \<notin> set (map fst es) \<longrightarrow>
          map_get (snd (foldl (secrets_step base) (envs, m) (enumerate k es))) n = map_get m n)"
  using assms
proof (induction es arbitrary: k envs m)
  case Nil
  then show ?case by simp
next
  case (Cons e es)
  obtain n r where e: "e = (n, r)" by (cases e)
  define m' where "m' = (case r of None \<Rightarrow> m | Some _ \<Rightarrow> map_set m n (CHR ''$'' # base @ dec_nat k))"
  have step: "secrets_step base (envs, m) (k, e) = (envs @ ref_env base (k, e), m')"
    by (simp add: secrets_step_def secretKeyRefEnvVar_def e ref_env_def m'_def split: option.split)
  have n: "n \<notin> set (map fst es)" "map_get m n = None" using Cons.prems e by auto
  have get: "map_get m' x = (if x = n then ref_placeholder base k e else map_get m x)" for x
    using n(2) by (simp add: m'_def map_laws ref_placeholder_def e split: option.split)
  have prems: "distinct (map fst es)" "\<forall>x \<in> set (map fst es). map_get m' x = None"
    using Cons.prems n(1) by (auto simp: get)
  note IH = Cons.IH [OF prems, of "envs @ ref_env base (k, e)" "Suc k"]
  have fe: "fst e = n" by (simp add: e)
  show ?case
    using IH get n by (auto simp: step fe nth_Cons' gr0_conv_Suc)
qed

lemma ref_env_names: "map ev_Name (ref_env base (i, e)) \<in> {[], [base @ dec_nat i]}"
  by (simp add: ref_env_def split: option.split)

lemma named_envs_distinct:
  "distinct (map ev_Name (concat (map (ref_env base) (enumerate k es))))
   \<and> set (map ev_Name (concat (map (ref_env base) (enumerate k es)))) \<subseteq> (\<lambda>i. base @ dec_nat i) ` {k..<k + length es}"
proof (induction es arbitrary: k)
  case Nil
  then show ?case by simp
next
  case (Cons e es)
  let ?r = "map ev_Name (concat (map (ref_env base) (enumerate (Suc k) es)))"
  have IH: "distinct ?r" "set ?r \<subseteq> (\<lambda>i. base @ dec_nat i) ` {Suc k..<Suc k + length es}"
    using Cons.IH [of "Suc k"] by blast+
  have "base @ dec_nat k \<notin> (\<lambda>i. base @ dec_nat i) ` {Suc k..<Suc k + length es}" by auto
  then have "base @ dec_nat k \<notin> set ?r" using IH(2) by blast
  moreover have "map ev_Name (concat (map (ref_env base) (enumerate k (e # es)))) = map ev_Name (ref_env base (k, e)) @ ?r"
    by simp
  moreover have "(\<lambda>i. base @ dec_nat i) ` {Suc k..<Suc k + length es} \<subseteq> (\<lambda>i. base @ dec_nat i) ` {k..<k + length (e # es)}"
    by (rule image_mono) auto
  moreover have "base @ dec_nat k \<in> (\<lambda>i. base @ dec_nat i) ` {k..<k + length (e # es)}" by (rule imageI) simp
  ultimately show ?case
    using IH ref_env_names [of base k e] by (elim insertE emptyE) (simp_all only: distinct_append set_append, auto)
qed

text \<open>
  The passwords of control agent clients and the TSIG secrets are passed by reference and
  by position: for entries with different names, the placeholder found under an entry's name
  is that of the variable with the entry's own index, present exactly when the entry refers to
  a Secret, and the variables have different names and no literal value.
\<close>

lemma named_secrets_by_reference:
  assumes "distinct (map fst es)" and "i < length es"
  shows "map_get (snd (resolveNamedSecrets base es)) (fst (es ! i))
       = (case snd (es ! i) of None \<Rightarrow> None | Some _ \<Rightarrow> Some (CHR ''$'' # base @ dec_nat i))
     \<and> fst (resolveNamedSecrets base es) = concat (map (ref_env base) (enumerate 0 es))
     \<and> distinct (map ev_Name (fst (resolveNamedSecrets base es)))
     \<and> list_all (\<lambda>v. ev_Value v = '''') (fst (resolveNamedSecrets base es))"
proof -
  have "\<forall>n \<in> set (map fst es). map_get [] n = None" by (simp add: map_get_def)
  note f = secrets_fold [OF assms(1) this, of base "[]" 0, simplified]
  have "list_all (\<lambda>v. ev_Value v = '''') (concat (map (ref_env base) (enumerate 0 es)))"
    by (auto simp: list_all_iff ref_env_def split: option.splits)
  with f assms(2) named_envs_distinct [of base 0 es] show ?thesis
    by (simp add: resolveNamedSecrets_def ref_placeholder_def)
qed

definition sample_selector :: SecretKeySelector where
  "sample_selector = \<lparr>sks_LocalObjectReference = \<lparr>lor_Name = ''s''\<rparr>, sks_Key = ''k'', sks_Optional = None\<rparr>"

lemma named_secrets_by_reference_example:
  "map_get (snd (resolveNamedSecrets ''KEA_AUTH_PASSWORD_'' [(''a'', None), (''b'', Some sample_selector)])) ''b''
     = Some ''$KEA_AUTH_PASSWORD_1''"
proof -
  have one: "dec_nat (Suc 0) = ''1''" by code_simp
  have "distinct (map fst [(''a'', None), (''b'', Some sample_selector)])"
    and "1 < length [(''a'', None), (''b'', Some sample_selector)]" by simp_all
  from named_secrets_by_reference [OF this, of "''KEA_AUTH_PASSWORD_''"] show ?thesis by (simp add: one)
qed

text \<open>
  The start-up scripts replace placeholders textually, and with more than ten entries one
  placeholder is a proper prefix of another: replacing \<^verbatim>\<open>$KEA_AUTH_PASSWORD_1\<close> also rewrites the
  beginning of \<^verbatim>\<open>$KEA_AUTH_PASSWORD_10\<close>. Up to ten entries no placeholder is a prefix of another.
\<close>

lemma placeholder_prefix_clash:
  "strict_prefix (snd (secretKeyRefEnvVar (base @ dec_nat 1) sel)) (snd (secretKeyRefEnvVar (base @ dec_nat 10) sel'))
   \<and> list_all (\<lambda>i. list_all (\<lambda>j.
        prefix (snd (secretKeyRefEnvVar (base @ dec_nat i) sel)) (snd (secretKeyRefEnvVar (base @ dec_nat j) sel')) = (i = j))
      [0..<10]) [0..<10]"
proof -
  have ten: "dec_nat 10 = ''10''" and one: "dec_nat (Suc 0) = ''1''" by code_simp+
  have "prefix (dec_nat i) (dec_nat j) = (i = j)" if "i < 10" "j < 10" for i j
    using that by (simp add: dec_nat.simps [of i] dec_nat.simps [of j] digit_char_inj)
  then show ?thesis
    by (simp add: secretKeyRefEnvVar_def list_all_iff ten one strict_prefix_def)
qed

end
