(* ===== verification/NetAddr.thy ===== *)
theory NetAddr
  imports Validate
begin

text \<open>
  The address arithmetic of \<^verbatim>\<open>computeNADAddresses\<close>
  (\<^verbatim>\<open>src/internal/controller/keadhcp4server_controller.go\<close>) over models of the parts of Go's
  \<^verbatim>\<open>net\<close> and \<^verbatim>\<open>net/netip\<close> it uses: \<^verbatim>\<open>ParseCIDR\<close> (IPv4, IPv6 and embedded IPv4 forms),
  \<^verbatim>\<open>IP.To4\<close> and \<^verbatim>\<open>IP.String\<close>. Octets are bytes, so the last one wraps.
\<close>

section \<open>Parsing addresses\<close>

definition digit_val :: "char \<Rightarrow> nat" where
  "digit_val c = of_char c - 48"

text \<open>\<^verbatim>\<open>parseIPv4Fields\<close>: the value and the length of the current field, then the fields read.\<close>

fun parse4 :: "nat \<Rightarrow> nat \<Rightarrow> nat list \<Rightarrow> string \<Rightarrow> nat list option" where
  "parse4 val n fields [] = (if length fields < 3 then None else Some (fields @ [val]))"
| "parse4 val n fields (c # cs) =
     (if is_digit c then
        if n = 1 \<and> val = 0 then None
        else if 255 < val * 10 + digit_val c then None
        else parse4 (val * 10 + digit_val c) (Suc n) fields cs
      else if c = CHR ''.'' then
        if n = 0 \<or> cs = [] then None
        else if length fields = 3 then None
        else parse4 0 0 (fields @ [val]) cs
      else None)"

definition is_hex_digit :: "char \<Rightarrow> bool" where
  "is_hex_digit c = (is_digit c \<or> (97 \<le> (of_char c :: nat) \<and> (of_char c :: nat) \<le> 102)
     \<or> (65 \<le> (of_char c :: nat) \<and> (of_char c :: nat) \<le> 70))"

definition hex_digit_val :: "char \<Rightarrow> nat" where
  "hex_digit_val c = (if is_digit c then of_char c - 48 else if 97 \<le> (of_char c :: nat) then of_char c - 87 else of_char c - 55)"

definition hex_group_val :: "string \<Rightarrow> nat" where
  "hex_group_val g = foldl (\<lambda>a c. a * 16 + hex_digit_val c) 0 g"

text \<open>The end of \<^verbatim>\<open>parseIPv6\<close>: expand the ellipsis.\<close>

definition finish6 :: "nat list \<Rightarrow> nat option \<Rightarrow> string \<Rightarrow> nat list option" where
  "finish6 bs ell s =
     (if s \<noteq> [] then None
      else if length bs < 16
      then (case ell of None \<Rightarrow> None | Some e \<Rightarrow> Some (take e bs @ replicate (16 - length bs) 0 @ drop e bs))
      else (if ell \<noteq> None then None else Some bs))"

function parse6 :: "nat list \<Rightarrow> nat option \<Rightarrow> string \<Rightarrow> nat list option" where
  "parse6 bs ell s =
     (if 16 \<le> length bs then finish6 bs ell s
      else
        (let g = takeWhile is_hex_digit s; off = length g; rest = drop off s in
         if off = 0 \<or> 4 < off then None
         else if rest \<noteq> [] \<and> hd rest = CHR ''.'' then
           if ell = None \<and> length bs \<noteq> 12 then None
           else if 16 < length bs + 4 then None
           else (case parse4 0 0 [] s of None \<Rightarrow> None | Some f \<Rightarrow> finish6 (bs @ f) ell [])
         else
           (let acc = hex_group_val g; bs' = bs @ [acc div 256, acc mod 256] in
            if rest = [] then finish6 bs' ell []
            else if hd rest \<noteq> CHR '':'' then None
            else if length rest = 1 then None
            else if hd (tl rest) = CHR '':'' then
              if ell \<noteq> None then None
              else if tl (tl rest) = [] then finish6 bs' (Some (length bs')) []
              else parse6 bs' (Some (length bs')) (tl (tl rest))
            else parse6 bs' ell (tl rest))))"
  by pat_completeness auto
termination
  by (relation "measure (\<lambda>(bs, ell, s). length s)") auto

declare parse6.simps [simp del]

definition parseIPv6 :: "string \<Rightarrow> nat list option" where
  "parseIPv6 s =
     (if take 2 s = ''::''
      then if length s = 2 then Some (replicate 16 0) else parse6 [] (Some 0) (drop 2 s)
      else parse6 [] None s)"

text \<open>
  \<^verbatim>\<open>netip.ParseAddr\<close>, then \<^verbatim>\<open>As16\<close>, with the bit length of the address. An address with a
  zone is an error for \<^verbatim>\<open>ParseCIDR\<close>, so any percent sign is.
\<close>

definition ParseAddr :: "string \<Rightarrow> (nat list \<times> nat) option" where
  "ParseAddr s =
     (case List.find (\<lambda>c. c \<in> set ''.:%'') s of
        Some c \<Rightarrow>
          if c = CHR ''.'' then map_option (\<lambda>f. (replicate 10 0 @ [255, 255] @ f, 32)) (parse4 0 0 [] s)
          else if c = CHR '':'' \<and> CHR ''%'' \<notin> set s then map_option (\<lambda>bs. (bs, 128)) (parseIPv6 s)
          else None
      | None \<Rightarrow> None)"

text \<open>\<^verbatim>\<open>dtoi\<close>: the value, or None at 0xFFFFFF and beyond; a rest that is not digits is an error here.\<close>

fun dtoi :: "nat \<Rightarrow> string \<Rightarrow> nat option" where
  "dtoi n [] = Some n"
| "dtoi n (c # cs) =
     (if \<not> is_digit c then None
      else if 16777215 \<le> n * 10 + digit_val c then None
      else dtoi (n * 10 + digit_val c) cs)"

definition ParseCIDR :: "string \<Rightarrow> nat list option" where
  "ParseCIDR s =
     (let addr = takeWhile (\<lambda>c. c \<noteq> CHR ''/'') s; rest = dropWhile (\<lambda>c. c \<noteq> CHR ''/'') s in
      if rest = [] then None
      else (case ParseAddr addr of
              None \<Rightarrow> None
            | Some (ip, bits) \<Rightarrow>
                if tl rest = [] then None
                else (case dtoi 0 (tl rest) of
                        None \<Rightarrow> None
                      | Some n \<Rightarrow> if n \<le> bits then Some ip else None)))"

definition To4 :: "nat list \<Rightarrow> nat list option" where
  "To4 ip = (if take 12 ip = replicate 10 0 @ [255, 255] then Some (drop 12 ip) else None)"

definition dotted :: "nat \<Rightarrow> nat \<Rightarrow> nat \<Rightarrow> nat \<Rightarrow> string" where
  "dotted a b c d = dec_nat a @ ''.'' @ dec_nat b @ ''.'' @ dec_nat c @ ''.'' @ dec_nat d"

section \<open>computeNADAddresses\<close>

text \<open>\<^verbatim>\<open>addr[3] += byte(i + 2)\<close> on a copy of the four octets, printed.\<close>

definition nad_address :: "nat list \<Rightarrow> nat \<Rightarrow> string" where
  "nad_address ip i =
     (let last = (word_of_nat (ip ! 3) :: byte) + word_of_nat (i + 2)
      in dotted (ip ! 0) (ip ! 1) (ip ! 2) (unat last))"

text \<open>
  nil is the empty list. A negative replica count makes \<^verbatim>\<open>make([]string, replicas)\<close> panic, which
  is the left value.
\<close>

definition computeNADAddresses :: "string \<Rightarrow> int \<Rightarrow> goerror + string list" where
  "computeNADAddresses subnetCIDR replicas =
     (if subnetCIDR = '''' \<or> replicas = 0 then Inr []
      else (case ParseCIDR subnetCIDR of
              None \<Rightarrow> Inr []
            | Some ip \<Rightarrow>
                (case To4 ip of
                   None \<Rightarrow> Inr []
                 | Some ip4 \<Rightarrow>
                     if replicas < 0 then Inl (Errorf ''makeslice: len out of range'')
                     else Inr (map (nad_address ip4) [0..<nat replicas]))))"

section \<open>Parsing printed addresses\<close>

lemma digit_val_digit_char: "n < 10 \<Longrightarrow> digit_val (digit_char n) = n"
  by (simp add: digit_val_def of_char_digit_char)

lemma dec_nat_1: "a < 10 \<Longrightarrow> dec_nat a = [digit_char a]"
  by (simp add: dec_nat.simps)

lemma dec_nat_2: "10 \<le> a \<Longrightarrow> a < 100 \<Longrightarrow> dec_nat a = [digit_char (a div 10), digit_char (a mod 10)]"
  by (simp add: dec_nat.simps [of a] dec_nat_1)

lemma dec_nat_3:
  assumes "100 \<le> a" and "a < 1000"
  shows "dec_nat a = [digit_char (a div 100), digit_char (a div 10 mod 10), digit_char (a mod 10)]"
proof -
  have "dec_nat (a div 10) = [digit_char (a div 10 div 10), digit_char (a div 10 mod 10)]"
    using assms by (intro dec_nat_2) auto
  moreover have "a div 10 div 10 = a div 100" by (simp add: div_mult2_eq [symmetric])
  ultimately show ?thesis using assms by (simp add: dec_nat.simps [of a])
qed

lemma parse4_digit:
  "d < 10 \<Longrightarrow> \<not> (n = 1 \<and> v = 0) \<Longrightarrow> v * 10 + d \<le> 255 \<Longrightarrow>
   parse4 v n fs (digit_char d # r) = parse4 (v * 10 + d) (Suc n) fs r"
  by (auto simp: is_digit_digit_char digit_val_digit_char)

lemma parse4_dec:
  assumes "a < 256"
  shows "\<exists>n. 0 < n \<and> parse4 0 0 fs (dec_nat a @ r) = parse4 a n fs r"
proof -
  consider "a < 10" | "10 \<le> a" "a < 100" | "100 \<le> a" by linarith
  then show ?thesis
  proof cases
    case 1
    then show ?thesis using assms by (intro exI [of _ 1]) (simp add: dec_nat_1 parse4_digit del: parse4.simps)
  next
    case 2
    then have "parse4 0 0 fs (dec_nat a @ r) = parse4 (a div 10 * 10 + a mod 10) 2 fs r"
      using assms by (simp add: dec_nat_2 parse4_digit numeral_2_eq_2 del: parse4.simps)
    then show ?thesis by (intro exI [of _ 2]) simp
  next
    case 3
    have ten: "a div 100 * 10 + a div 10 mod 10 = a div 10"
      using div_mult_mod_eq [of "a div 10" 10] by (simp add: div_mult2_eq [symmetric])
    have "parse4 0 0 fs (dec_nat a @ r) = parse4 (a div 100) 1 fs (digit_char (a div 10 mod 10) # digit_char (a mod 10) # r)"
      using 3 assms by (simp add: dec_nat_3 parse4_digit del: parse4.simps)
    also have "\<dots> = parse4 (a div 10) 2 fs (digit_char (a mod 10) # r)"
      using 3 assms ten parse4_digit [of "a div 10 mod 10" 1 "a div 100" fs]
      by (simp add: numeral_2_eq_2 del: parse4.simps)
    also have "\<dots> = parse4 a 3 fs r"
      using 3 assms parse4_digit [of "a mod 10" 2 "a div 10" fs r]
      by (simp add: numeral_3_eq_3 numeral_2_eq_2 del: parse4.simps)
    finally show ?thesis by (intro exI [of _ 3]) simp
  qed
qed

lemma parse4_dot: "0 < n \<Longrightarrow> r \<noteq> [] \<Longrightarrow> length fs < 3 \<Longrightarrow> parse4 v n fs (CHR ''.'' # r) = parse4 0 0 (fs @ [v]) r"
  by simp

lemma parse4_field:
  "a < 256 \<Longrightarrow> r \<noteq> [] \<Longrightarrow> length fs < 3 \<Longrightarrow> parse4 0 0 fs (dec_nat a @ ''.'' @ r) = parse4 0 0 (fs @ [a]) r"
  using parse4_dec [of a fs "CHR ''.'' # r"] parse4_dot by (metis append_Cons append_Nil)

lemma parse4_dotted:
  assumes "a < 256" "b < 256" "c < 256" "d < 256"
  shows "parse4 0 0 [] (dotted a b c d) = Some [a, b, c, d]"
proof -
  obtain n where "parse4 0 0 [a, b, c] (dec_nat d @ []) = parse4 d n [a, b, c] []"
    using parse4_dec [OF assms(4), of "[a, b, c]" "[]"] by blast
  then show ?thesis
    using assms by (simp add: dotted_def parse4_field del: append_Cons append_Nil parse4.simps(2)) simp
qed

lemma dec_nat_chars: "c \<in> set (dec_nat n) \<Longrightarrow> c \<noteq> CHR ''.'' \<and> c \<noteq> CHR '':'' \<and> c \<noteq> CHR ''%'' \<and> c \<noteq> CHR ''/''"
  using dec_nat_digits [of n] by (auto simp: is_digit_def)

lemma find_skip: "\<forall>x \<in> set xs. \<not> P x \<Longrightarrow> List.find P (xs @ ys) = List.find P ys"
  by (induction xs) auto

lemma find_dotted: "List.find (\<lambda>c. c \<in> set ''.:%'') (dotted a b c d) = Some (CHR ''.'')"
  unfolding dotted_def by (subst find_skip) (auto dest: dec_nat_chars)

lemma dtoi_dec: "p \<le> 32 \<Longrightarrow> dtoi 0 (dec_nat p) = Some p"
proof -
  assume p: "p \<le> 32"
  consider "p < 10" | "10 \<le> p" by linarith
  then show ?thesis
  proof cases
    case 1
    then show ?thesis by (simp add: dec_nat_1 is_digit_digit_char digit_val_digit_char)
  next
    case 2
    then show ?thesis using p by (simp add: dec_nat_2 is_digit_digit_char digit_val_digit_char)
  qed
qed

lemma dotted_no_slash: "\<forall>x \<in> set (dotted a b c d). x \<noteq> CHR ''/''"
  by (auto simp: dotted_def dest: dec_nat_chars)

lemma ParseCIDR_dotted:
  assumes "a < 256" "b < 256" "c < 256" "d < 256" "p \<le> 32"
  shows "ParseCIDR (dotted a b c d @ ''/'' @ dec_nat p) = Some (replicate 10 0 @ [255, 255, a, b, c, d])"
proof -
  let ?s = "dotted a b c d"
  have cut: "takeWhile (\<lambda>c. c \<noteq> CHR ''/'') (?s @ CHR ''/'' # t) = ?s"
    "dropWhile (\<lambda>c. c \<noteq> CHR ''/'') (?s @ CHR ''/'' # t) = CHR ''/'' # t" for t
    using dotted_no_slash [of a b c d]
    by (simp_all add: takeWhile_append2 dropWhile_append2 takeWhile_eq_all_conv)
  have addr: "ParseAddr ?s = Some (replicate 10 0 @ [255, 255, a, b, c, d], 32)"
    unfolding ParseAddr_def find_dotted by (simp add: parse4_dotted assms)
  show ?thesis
    unfolding ParseCIDR_def using assms(5) by (simp add: cut addr dtoi_dec)
qed

section \<open>Properties\<close>

lemma byte_add: "d < 256 \<Longrightarrow> unat ((word_of_nat d :: byte) + word_of_nat k) = (d + k) mod 256"
  by (simp add: unat_word_ariths unat_of_nat mod_add_left_eq mod_add_right_eq)

text \<open>
  C32: for an IPv4 subnet in CIDR notation and a positive replica count the reported NAD
  addresses are one per pod, in ordinal order: the subnet's base address with its last octet
  increased by the ordinal plus two, modulo 256. The start-up script of the pods adds without
  wrapping, so the reported address is the one the pod takes exactly when the sum stays
  below 256.
\<close>

theorem nad_addresses_formula:
  assumes "a < 256" "b < 256" "c < 256" "d < 256" "p \<le> 32"
  shows "computeNADAddresses (dotted a b c d @ ''/'' @ dec_nat p) (int n)
       = Inr (map (\<lambda>i. dotted a b c ((d + i + 2) mod 256)) [0..<n])
     \<and> (\<forall>i. (dotted a b c ((d + i + 2) mod 256) = dotted a b c (d + i + 2)) = (d + i + 2 < 256))"
proof -
  have "To4 (replicate 10 0 @ [255, 255, a, b, c, d]) = Some [a, b, c, d]"
    by (simp add: To4_def numeral_eq_Suc)
  moreover have "nad_address [a, b, c, d] i = dotted a b c ((d + i + 2) mod 256)" for i
    using byte_add [OF assms(4), of "i + 2"] by (simp add: nad_address_def Let_def add.assoc)
  moreover have "(k mod 256 = k) = (k < 256)" for k :: nat
    by (metis mod_less mod_less_divisor zero_less_numeral)
  ultimately show ?thesis
    using ParseCIDR_dotted [OF assms] by (auto simp: computeNADAddresses_def) (auto simp: dotted_def)
qed

theorem nad_addresses_formula_witness:
  "computeNADAddresses ''192.168.50.0/24'' 2 = Inr [''192.168.50.2'', ''192.168.50.3'']"
proof -
  have "dotted 192 168 50 0 @ ''/'' @ dec_nat 24 = ''192.168.50.0/24''"
    and "map (\<lambda>i. dotted 192 168 50 ((0 + i + 2) mod 256)) [0..<2] = [''192.168.50.2'', ''192.168.50.3'']"
    by code_simp+
  then show ?thesis using nad_addresses_formula [of 192 168 50 0 24 2] by simp
qed

end
