(* ===== verification/GoSha.thy ===== *)
theory GoSha
  imports GoJson
begin

text \<open>
  SHA-256 (\<^verbatim>\<open>crypto/sha256\<close>, FIPS 180-4) on \<^typ>\<open>32 word\<close>, hexadecimal printing of a digest
  (the \<^verbatim>\<open>%x\<close> verb) and \<^verbatim>\<open>ComputeHash\<close> of \<^verbatim>\<open>src/internal/kea/config.go\<close>, the first sixteen
  hexadecimal digits of the digest, by which the operator detects a changed configuration.
\<close>

unbundle bit_operations_syntax

section \<open>The compression function\<close>

definition rotr :: "nat \<Rightarrow> int32 \<Rightarrow> int32" where
  "rotr n x = drop_bit n x OR push_bit (32 - n) x"

text \<open>
  The constants of the standard are the first 32 bits of the fractional parts of the cube
  roots of the first 64 primes, and of the square roots of the first eight. The root is found
  bit by bit: \<open>root_bits k b acc n\<close> extends \<open>acc\<close> by the bits below \<open>b\<close> while the power stays
  within \<open>n\<close>.
\<close>

fun root_bits :: "nat \<Rightarrow> nat \<Rightarrow> int \<Rightarrow> int \<Rightarrow> int" where
  "root_bits k 0 acc n = acc"
| "root_bits k (Suc b) acc n = root_bits k b (if (acc + 2 ^ b) ^ k \<le> n then acc + 2 ^ b else acc) n"

definition root_frac :: "nat \<Rightarrow> int \<Rightarrow> int32" where
  "root_frac k p = word_of_int (root_bits k 40 0 (p * 2 ^ (32 * k)))"

definition sha_primes :: "int list" where
  "sha_primes =
    [2, 3, 5, 7, 11, 13, 17, 19, 23, 29, 31, 37, 41, 43, 47, 53,
     59, 61, 67, 71, 73, 79, 83, 89, 97, 101, 103, 107, 109, 113, 127, 131,
     137, 139, 149, 151, 157, 163, 167, 173, 179, 181, 191, 193, 197, 199, 211, 223,
     227, 229, 233, 239, 241, 251, 257, 263, 269, 271, 277, 281, 283, 293, 307, 311]"

definition sha_K :: "int32 list" where
  "sha_K = map (root_frac 3) sha_primes"

definition sha_H0 :: "int32 list" where
  "sha_H0 = map (root_frac 2) (take 8 sha_primes)"

text \<open>The message schedule, grown one word at a time, newest word first.\<close>

definition sched_next :: "int32 list \<Rightarrow> int32" where
  "sched_next w =
     (let w2 = w ! 1; w7 = w ! 6; w15 = w ! 14; w16 = w ! 15;
          s1 = rotr 17 w2 XOR rotr 19 w2 XOR drop_bit 10 w2;
          s0 = rotr 7 w15 XOR rotr 18 w15 XOR drop_bit 3 w15
      in s1 + w7 + s0 + w16)"

fun schedule :: "nat \<Rightarrow> int32 list \<Rightarrow> int32 list" where
  "schedule 0 w = w"
| "schedule (Suc n) w = schedule n (sched_next w # w)"

type_synonym sha_state = "int32 list"

definition sha_round :: "sha_state \<Rightarrow> int32 \<times> int32 \<Rightarrow> sha_state" where
  "sha_round st kw =
     (case st of
        [a, b, c, d, e, f, g, h] \<Rightarrow>
          (let t1 = h + (rotr 6 e XOR rotr 11 e XOR rotr 25 e) + ((e AND f) XOR (NOT e AND g)) + fst kw + snd kw;
               t2 = (rotr 2 a XOR rotr 13 a XOR rotr 22 a) + ((a AND b) XOR (a AND c) XOR (b AND c))
           in [t1 + t2, a, b, c, d + t1, e, f, g])
      | _ \<Rightarrow> st)"

definition sha_block :: "sha_state \<Rightarrow> int32 list \<Rightarrow> sha_state" where
  "sha_block st block =
     map2 (+) st (foldl sha_round st (zip sha_K (rev (schedule 48 (rev block)))))"

section \<open>Padding and digest\<close>

definition byte_word :: "nat \<Rightarrow> nat \<Rightarrow> nat \<Rightarrow> nat \<Rightarrow> int32" where
  "byte_word a b c d = word_of_nat (((a * 256 + b) * 256 + c) * 256 + d)"

fun words_of_bytes :: "nat list \<Rightarrow> int32 list" where
  "words_of_bytes (a # b # c # d # r) = byte_word a b c d # words_of_bytes r"
| "words_of_bytes _ = []"

definition length_bytes :: "nat \<Rightarrow> nat list" where
  "length_bytes n = map (\<lambda>i. (n * 8) div (256 ^ i) mod 256) (rev [0..<8])"

definition sha_pad :: "nat list \<Rightarrow> nat list" where
  "sha_pad bs =
     bs @ [128] @ replicate ((119 - length bs mod 64) mod 64) 0 @ length_bytes (length bs)"

fun chunks16 :: "nat \<Rightarrow> int32 list \<Rightarrow> int32 list list" where
  "chunks16 0 w = []"
| "chunks16 (Suc n) w = take 16 w # chunks16 n (drop 16 w)"

definition sha256 :: "string \<Rightarrow> int32 list" where
  "sha256 s =
     (let ws = words_of_bytes (sha_pad (map of_char s))
      in foldl sha_block sha_H0 (chunks16 (length ws div 16) ws))"

text \<open>\<^verbatim>\<open>fmt.Sprintf("%x", h)\<close>: two lower-case hexadecimal digits per byte.\<close>

definition hex_word :: "int32 \<Rightarrow> string" where
  "hex_word w = map (\<lambda>i. hex_char (unat w div 16 ^ i mod 16)) (rev [0..<8])"

definition hex_digest :: "int32 list \<Rightarrow> string" where
  "hex_digest ws = concat (map hex_word ws)"

definition ComputeHash :: "string \<Rightarrow> string" where
  "ComputeHash data = take 16 (hex_digest (sha256 data))"

section \<open>Shape of a hash\<close>

definition is_hex :: "char \<Rightarrow> bool" where
  "is_hex c = (is_digit c \<or> (97 \<le> code c \<and> code c \<le> 102))"

lemma hex_char_is_hex: "n < 16 \<Longrightarrow> is_hex (hex_char n)"
  by (auto simp: is_hex_def hex_char_def is_digit_def of_char_of)

lemma hex_word_shape: "length (hex_word w) = 8" "list_all is_hex (hex_word w)"
  by (simp_all add: hex_word_def list_all_iff hex_char_is_hex)

lemma hex_digest_length: "length (hex_digest ws) = 8 * length ws"
  by (induction ws) (simp_all add: hex_digest_def hex_word_shape)

lemma hex_digest_hex: "list_all is_hex (hex_digest ws)"
  using hex_word_shape(2) by (induction ws) (auto simp: hex_digest_def)

lemma sha_round_length: "length (sha_round st kw) = length st"
  by (auto simp: sha_round_def Let_def split: list.split)

lemma foldl_sha_round_length: "length (foldl sha_round st kws) = length st"
  by (induction kws arbitrary: st) (simp_all add: sha_round_length)

lemma sha256_length: "length (sha256 s) = 8"
proof -
  have "length (foldl sha_block st bs) = length st" for st bs
    by (induction bs arbitrary: st) (simp_all add: sha_block_def foldl_sha_round_length)
  then show ?thesis by (simp add: sha256_def Let_def sha_H0_def sha_primes_def)
qed

lemma ComputeHash_shape: "length (ComputeHash data) = 16 \<and> list_all is_hex (ComputeHash data)"
  using hex_digest_hex [of "sha256 data"]
  by (auto simp: ComputeHash_def hex_digest_length sha256_length list_all_iff dest: in_set_takeD)

text \<open>Every padded message is a whole number of blocks, so no input byte is dropped.\<close>

lemma pad_fill: "(n + 1 + (119 - n mod 64) mod 64 + 8) mod 64 = (0::nat)"
proof -
  define r where "r = n mod 64"
  have r: "r < 64" and n: "n = 64 * (n div 64) + r" by (simp_all add: r_def)
  have "(119 - r) mod 64 = (if r \<le> 55 then 55 - r else 119 - r)"
    using r by (auto simp: le_mod_geq)
  then have "r + 1 + (119 - r) mod 64 + 8 = (if r \<le> 55 then 64 else 128)" using r by auto
  then have "n + 1 + (119 - r) mod 64 + 8 = 64 * (n div 64 + (if r \<le> 55 then 1 else 2))"
    using n by auto
  then show ?thesis by (simp add: r_def)
qed

lemma sha_pad_length: "length (sha_pad bs) mod 64 = 0"
  using pad_fill [of "length bs"] by (simp add: sha_pad_def length_bytes_def ac_simps)

lemma words_of_bytes_length: "length (words_of_bytes bs) = length bs div 4"
  by (induction bs rule: words_of_bytes.induct) auto

end
