(* ===== verification/CtrlAgentConfig.thy ===== *)
theory CtrlAgentConfig
  imports KeaConfig
begin

text \<open>
  The control agent's renderer, \<^verbatim>\<open>src/internal/kea/ctrl_agent_config.go\<close>. The resolved
  passwords are a map from user to password, possibly nil; the password of a client is
  looked up by its user name, and a missing or empty one is left out.
\<close>

record CtrlAgentConfigRenderer =
  rca_Spec :: KeaControlAgentSpec
  rca_ResolvedAuthPasswords :: "string strmap option"

definition NewCtrlAgentConfigRenderer :: "KeaControlAgentSpec \<Rightarrow> CtrlAgentConfigRenderer" where
  "NewCtrlAgentConfigRenderer spec = \<lparr>rca_Spec = spec, rca_ResolvedAuthPasswords = None\<rparr>"

definition renderTLS :: "jmap \<Rightarrow> TLSConfig option \<Rightarrow> jmap" where
  "renderTLS agent tls =
     (case tls of
        None \<Rightarrow> agent
      | Some t \<Rightarrow>
          (let agent = map_set agent ''trust-anchor'' (JStr ''/etc/kea/tls/ca.crt'');
               agent = map_set agent ''cert-file'' (JStr ''/etc/kea/tls/tls.crt'');
               agent = map_set agent ''key-file'' (JStr ''/etc/kea/tls/tls.key'')
           in setIfNotNil agent ''cert-required'' (map_option JBool (tls_CertRequired t))))"

definition renderAgentControlSockets :: "AgentControlSockets \<Rightarrow> jmap" where
  "renderAgentControlSockets cs =
     (let sockets = [];
          sockets = setObj sockets ''dhcp4'' (renderControlSocket (acs_Dhcp4 cs));
          sockets = setObj sockets ''dhcp6'' (renderControlSocket (acs_Dhcp6 cs));
          sockets = setObj sockets ''d2'' (renderControlSocket (acs_D2 cs))
      in sockets)"

definition renderAuthClient :: "string strmap option \<Rightarrow> AuthClient \<Rightarrow> jmap" where
  "renderAuthClient passwords c =
     (let cm = map_lit [(''user'', JStr (ac_User c))]
      in case passwords of
           None \<Rightarrow> cm
         | Some m \<Rightarrow> setIfNotEmpty cm ''password'' (str_index m (ac_User c)))"

definition renderAuthentication :: "string strmap option \<Rightarrow> AuthConfig \<Rightarrow> jmap" where
  "renderAuthentication passwords a =
     (let auth = [];
          auth = setIfNotEmpty auth ''type'' (auth_Type a);
          auth = setIfNotEmpty auth ''realm'' (auth_Realm a);
          auth = setSlice auth ''clients'' (renderAuthClient passwords) (auth_Clients a)
      in auth)"

definition renderCtrlAgentMap :: "(string \<Rightarrow> json option) \<Rightarrow> CtrlAgentConfigRenderer \<Rightarrow> jmap" where
  "renderCtrlAgentMap unm r =
     (let s = rca_Spec r;
          agent = [];
          agent = setIfNotEmpty agent ''http-host'' (ca_HTTPHost s);
          agent = setIfNotNil agent ''http-port'' (map_option JInt32 (ca_HTTPPort s));
          agent = renderTLS agent (ca_TLS s);
          agent = (case ca_ControlSockets s of
                     None \<Rightarrow> agent
                   | Some cs \<Rightarrow> setBlock agent ''control-sockets'' (renderAgentControlSockets cs));
          agent = (case ca_Authentication s of
                     None \<Rightarrow> agent
                   | Some a \<Rightarrow> setBlock agent ''authentication'' (renderAuthentication (rca_ResolvedAuthPasswords r) a));
          agent = setObjs agent ''hooks-libraries'' (renderHooksLibraries unm (ca_HooksLibraries s));
          agent = setObjs agent ''loggers'' (renderLoggers (ca_Loggers s))
      in agent)"

definition RenderJSONCtrlAgent :: "(string \<Rightarrow> json option) \<Rightarrow> CtrlAgentConfigRenderer \<Rightarrow> goerror + string" where
  "RenderJSONCtrlAgent unm r =
     MarshalIndent (JObj (map_lit [(''Control-agent'', JObj (renderCtrlAgentMap unm r))]))"

section \<open>The table of the root object\<close>

definition ctrl_agent_table :: "(string \<Rightarrow> json option) \<Rightarrow> CtrlAgentConfigRenderer \<Rightarrow> table" where
  "ctrl_agent_table unm r =
     (let s = rca_Spec r in
     [(''http-host'', ostr (ca_HTTPHost s)),
      (''http-port'', map_option JInt32 (ca_HTTPPort s)),
      (''trust-anchor'', map_option (\<lambda>_. JStr ''/etc/kea/tls/ca.crt'') (ca_TLS s)),
      (''cert-file'', map_option (\<lambda>_. JStr ''/etc/kea/tls/tls.crt'') (ca_TLS s)),
      (''key-file'', map_option (\<lambda>_. JStr ''/etc/kea/tls/tls.key'') (ca_TLS s)),
      (''cert-required'', Option.bind (ca_TLS s) (\<lambda>t. map_option JBool (tls_CertRequired t))),
      (''control-sockets'', Option.bind (ca_ControlSockets s) (\<lambda>cs. oblock (renderAgentControlSockets cs))),
      (''authentication'', Option.bind (ca_Authentication s)
         (\<lambda>a. oblock (renderAuthentication (rca_ResolvedAuthPasswords r) a))),
      (''hooks-libraries'', oobjs (renderHookLibrary unm) (ca_HooksLibraries s)),
      (''loggers'', oobjs renderLogger (ca_Loggers s))])"

lemma renderTLS_table:
  "renderTLS (run_table tab m) tls =
     run_table (tab @ [(''trust-anchor'', map_option (\<lambda>_. JStr ''/etc/kea/tls/ca.crt'') tls),
      (''cert-file'', map_option (\<lambda>_. JStr ''/etc/kea/tls/tls.crt'') tls),
      (''key-file'', map_option (\<lambda>_. JStr ''/etc/kea/tls/tls.key'') tls),
      (''cert-required'', Option.bind tls (\<lambda>t. map_option JBool (tls_CertRequired t)))]) m"
  by (cases tls) (simp_all add: renderTLS_def run_table_def setIfNotNil_def Let_def)

lemma renderCtrlAgentMap_table: "renderCtrlAgentMap unm r = run_table (ctrl_agent_table unm r) []"
proof -
  have base: "setIfNotEmpty [] k v = run_table [(k, ostr v)] []" for k v
    by (simp add: run_table_def setIfNotEmpty_def ostr_def)
  show ?thesis
    unfolding renderCtrlAgentMap_def Let_def renderHooksLibraries_def renderLoggers_def
    by (simp only: base table_rules renderTLS_table) (simp add: ctrl_agent_table_def Let_def)
qed

lemma ctrl_agent_table_distinct: "distinct (map fst (ctrl_agent_table unm r))"
  by (simp add: ctrl_agent_table_def Let_def)

lemma renderCtrlAgentMap_get: "map_get (renderCtrlAgentMap unm r) k = table_get (ctrl_agent_table unm r) k"
  unfolding renderCtrlAgentMap_table by (rule run_table_get [OF ctrl_agent_table_distinct])

section \<open>Shape\<close>

lemma shape_renderTLS [shape_rules]: "shape_map m \<Longrightarrow> shape_map (renderTLS m tls)"
  by (auto simp: renderTLS_def Let_def intro!: shape_rules split: option.split)

lemma shape_AgentControlSockets [shape_rules]: "shape_map (renderAgentControlSockets cs)"
  by (auto simp: renderAgentControlSockets_def Let_def intro!: shape_rules intro: shape_ControlSocket)

lemma shape_AuthClient [shape_rules]: "shape_map (renderAuthClient pw c)"
  by (auto simp: renderAuthClient_def Let_def intro!: shape_rules split: option.split)

lemma shape_Authentication [shape_rules]: "shape_map (renderAuthentication pw a)"
  by (auto simp: renderAuthentication_def Let_def intro!: shape_rules)

lemma shape_CtrlAgentMap: "unm_shape unm \<Longrightarrow> shape_map (renderCtrlAgentMap unm r)"
  by (auto simp: renderCtrlAgentMap_def Let_def intro!: shape_rules split: option.split)

section \<open>Properties\<close>

lemma renderAuthClient_get:
  "map_get (renderAuthClient pw c) ''password''
     = (case pw of None \<Rightarrow> None | Some m \<Rightarrow> ostr (str_index m (ac_User c)))"
  "map_get (renderAuthClient pw c) ''user'' = Some (JStr (ac_User c))"
  by (simp_all add: renderAuthClient_def Let_def setIfNotEmpty_def ostr_def map_laws map_get_lit split: option.split)

lemma renderAuthentication_clients:
  "map_get (renderAuthentication pw a) ''clients'' = oobjs (renderAuthClient pw) (auth_Clients a)"
proof -
  have "map_get (setIfNotEmpty m k s) ''clients'' = map_get m ''clients''" if "k \<noteq> ''clients''" for m k s
    using that by (simp add: setIfNotEmpty_def map_laws)
  then show ?thesis
    unfolding renderAuthentication_def Let_def setSlice_def oobjs_def by (simp add: map_laws)
qed

text \<open>The client entries of a rendered control agent configuration.\<close>

definition auth_client_entries :: "jmap \<Rightarrow> json list" where
  "auth_client_entries m =
     (case map_get m ''authentication'' of Some (JObj au) \<Rightarrow> elems_at au ''clients'' | _ \<Rightarrow> [])"

text \<open>
  The control agent's configuration names the three TLS files together and only when TLS
  is configured, and its authentication section lists one entry per client of the spec, in
  order, with the client's user and the password resolved for exactly that user, left out
  when none was resolved.
\<close>

lemma ctrl_agent_tls_and_clients:
  "list_all (\<lambda>k. (map_get (renderCtrlAgentMap unm r) k = None) = (ca_TLS (rca_Spec r) = None))
     [''trust-anchor'', ''cert-file'', ''key-file'']
   \<and> map (\<lambda>e. (jfield ''user'' e, jfield ''password'' e)) (auth_client_entries (renderCtrlAgentMap unm r))
     = map (\<lambda>c. (Some (JStr (ac_User c)),
          case rca_ResolvedAuthPasswords r of None \<Rightarrow> None | Some pw \<Rightarrow> ostr (str_index pw (ac_User c))))
         (case ca_Authentication (rca_Spec r) of None \<Rightarrow> [] | Some a \<Rightarrow> auth_Clients a)"
proof -
  have "elems_at (renderAuthentication pw a) ''clients'' = map (\<lambda>c. JObj (renderAuthClient pw c)) (auth_Clients a)"
    for pw a by (rule elems_at_oobjs [OF renderAuthentication_clients])
  moreover have "auth_Clients a = []" if "renderAuthentication pw a = []" for pw a
    using that renderAuthentication_clients [of pw a] by (auto simp: gm.get_empty oobjs_def split: if_splits)
  ultimately have "auth_client_entries (renderCtrlAgentMap unm r)
      = map (\<lambda>c. JObj (renderAuthClient (rca_ResolvedAuthPasswords r) c))
         (case ca_Authentication (rca_Spec r) of None \<Rightarrow> [] | Some a \<Rightarrow> auth_Clients a)"
    unfolding auth_client_entries_def renderCtrlAgentMap_get
    by (auto simp: ctrl_agent_table_def Let_def oblock_def split: option.split)
  then show ?thesis
    by (simp add: renderCtrlAgentMap_get renderAuthClient_get comp_def) (simp add: ctrl_agent_table_def Let_def)
qed

interpretation rca: config_renderer "''Control-agent''" "\<lambda>(unm, r). renderCtrlAgentMap unm r"
  "\<lambda>(unm, r). RenderJSONCtrlAgent unm r" "\<lambda>(unm, r). unm_shape unm"
  by unfold_locales (auto simp: RenderJSONCtrlAgent_def shape_CtrlAgentMap)

end
