(* ===== verification/DdnsConfig.thy ===== *)
theory DdnsConfig
  imports CtrlAgentConfig
begin

text \<open>
  The DDNS daemon's renderer, \<^verbatim>\<open>src/internal/kea/ddns_config.go\<close>: TSIG keys with the secrets
  resolved by key name, forward and reverse domains with their servers, and the root object.
\<close>

record DdnsConfigRenderer =
  rdd_Spec :: KeaDhcpDdnsSpec
  rdd_ResolvedTSIGSecrets :: "string strmap option"

definition NewDdnsConfigRenderer :: "KeaDhcpDdnsSpec \<Rightarrow> DdnsConfigRenderer" where
  "NewDdnsConfigRenderer spec = \<lparr>rdd_Spec = spec, rdd_ResolvedTSIGSecrets = None\<rparr>"

definition renderTSIGKey :: "string strmap option \<Rightarrow> TSIGKey \<Rightarrow> jmap" where
  "renderTSIGKey secrets k =
     (let km = map_lit [(''name'', JStr (tk_Name k)), (''algorithm'', JStr (tk_Algorithm k))];
          km = setIfNotNil km ''digest-bits'' (map_option JInt32 (tk_DigestBits k))
      in case secrets of
           None \<Rightarrow> km
         | Some m \<Rightarrow> setIfNotEmpty km ''secret'' (str_index m (tk_Name k)))"

definition renderDNSServer :: "DNSServer \<Rightarrow> jmap" where
  "renderDNSServer srv =
     (let sm = map_lit [(''ip-address'', JStr (dns_IPAddress srv))]
      in setIfNotNil sm ''port'' (map_option JInt32 (dns_Port srv)))"

definition renderDDNSDomain :: "DDNSDomain \<Rightarrow> jmap" where
  "renderDDNSDomain d =
     (let dm = map_lit [(''name'', JStr (ddom_Name d))];
          dm = setIfNotEmpty dm ''key-name'' (ddom_KeyName d);
          dm = setSlice dm ''dns-servers'' renderDNSServer (ddom_DNSServers d)
      in dm)"

definition renderDDNSConfig :: "DDNSConfig option \<Rightarrow> jmap" where
  "renderDDNSConfig cfg =
     (case cfg of
        None \<Rightarrow> []
      | Some c \<Rightarrow> setSlice [] ''ddns-domains'' renderDDNSDomain (ddc_DDNSDomains c))"

definition renderDdnsMap :: "(string \<Rightarrow> json option) \<Rightarrow> DdnsConfigRenderer \<Rightarrow> jmap" where
  "renderDdnsMap unm r =
     (let s = rdd_Spec r;
          ddns = [];
          ddns = setIfNotEmpty ddns ''ip-address'' (dd_IPAddress s);
          ddns = setIfNotNil ddns ''port'' (map_option JInt32 (dd_Port s));
          ddns = setIfNotNil ddns ''dns-server-timeout'' (map_option JInt32 (dd_DNSServerTimeout s));
          ddns = setIfNotEmpty ddns ''ncr-protocol'' (dd_NCRProtocol s);
          ddns = setIfNotEmpty ddns ''ncr-format'' (dd_NCRFormat s);
          ddns = setSlice ddns ''tsig-keys'' (renderTSIGKey (rdd_ResolvedTSIGSecrets r)) (dd_TSIGKeys s);
          ddns = setObj ddns ''forward-ddns'' (map_option (\<lambda>c. renderDDNSConfig (Some c)) (dd_ForwardDDNS s));
          ddns = setObj ddns ''reverse-ddns'' (map_option (\<lambda>c. renderDDNSConfig (Some c)) (dd_ReverseDDNS s));
          ddns = setObj ddns ''control-socket'' (renderControlSocket (dd_ControlSocket s));
          ddns = setObjs ddns ''hooks-libraries'' (renderHooksLibraries unm (dd_HooksLibraries s));
          ddns = setObjs ddns ''loggers'' (renderLoggers (dd_Loggers s))
      in ddns)"

definition RenderJSONDdns :: "(string \<Rightarrow> json option) \<Rightarrow> DdnsConfigRenderer \<Rightarrow> goerror + string" where
  "RenderJSONDdns unm r = MarshalIndent (JObj (map_lit [(''DhcpDdns'', JObj (renderDdnsMap unm r))]))"

section \<open>The table of the root object\<close>

definition ddns_table :: "(string \<Rightarrow> json option) \<Rightarrow> DdnsConfigRenderer \<Rightarrow> table" where
  "ddns_table unm r =
     (let s = rdd_Spec r in
     [(''ip-address'', ostr (dd_IPAddress s)),
      (''port'', map_option JInt32 (dd_Port s)),
      (''dns-server-timeout'', map_option JInt32 (dd_DNSServerTimeout s)),
      (''ncr-protocol'', ostr (dd_NCRProtocol s)),
      (''ncr-format'', ostr (dd_NCRFormat s)),
      (''tsig-keys'', oobjs (renderTSIGKey (rdd_ResolvedTSIGSecrets r)) (dd_TSIGKeys s)),
      (''forward-ddns'', map_option (\<lambda>c. JObj (renderDDNSConfig (Some c))) (dd_ForwardDDNS s)),
      (''reverse-ddns'', map_option (\<lambda>c. JObj (renderDDNSConfig (Some c))) (dd_ReverseDDNS s)),
      (''control-socket'', map_option JObj (renderControlSocket (dd_ControlSocket s))),
      (''hooks-libraries'', oobjs (renderHookLibrary unm) (dd_HooksLibraries s)),
      (''loggers'', oobjs renderLogger (dd_Loggers s))])"

lemma renderDdnsMap_table: "renderDdnsMap unm r = run_table (ddns_table unm r) []"
proof -
  have base: "setIfNotEmpty [] k v = run_table [(k, ostr v)] []" for k v
    by (simp add: run_table_def setIfNotEmpty_def ostr_def)
  show ?thesis
    unfolding renderDdnsMap_def Let_def renderHooksLibraries_def renderLoggers_def
    by (simp only: base table_rules) (simp add: ddns_table_def Let_def option.map_comp comp_def)
qed

lemma ddns_table_distinct: "distinct (map fst (ddns_table unm r))"
  by (simp add: ddns_table_def Let_def)

lemma renderDdnsMap_get: "map_get (renderDdnsMap unm r) k = table_get (ddns_table unm r) k"
  unfolding renderDdnsMap_table by (rule run_table_get [OF ddns_table_distinct])

section \<open>Shape\<close>

lemma shape_TSIGKey [shape_rules]: "shape_map (renderTSIGKey s k)"
  by (auto simp: renderTSIGKey_def Let_def intro!: shape_rules split: option.split)

lemma shape_DDNSDomain [shape_rules]: "shape_map (renderDDNSDomain d)"
  by (auto simp: renderDDNSDomain_def renderDNSServer_def Let_def intro!: shape_rules)

lemma shape_DDNSConfig [shape_rules]: "shape_map (renderDDNSConfig c)"
  by (auto simp: renderDDNSConfig_def intro!: shape_rules split: option.split)

lemma shape_DdnsMap: "unm_shape unm \<Longrightarrow> shape_map (renderDdnsMap unm r)"
  by (auto simp: renderDdnsMap_def Let_def intro!: shape_rules intro: shape_ControlSocket)

section \<open>Properties\<close>

lemma renderTSIGKey_get:
  "map_get (renderTSIGKey sec k) ''secret''
     = (case sec of None \<Rightarrow> None | Some m \<Rightarrow> ostr (str_index m (tk_Name k)))"
  "map_get (renderTSIGKey sec k) ''name'' = Some (JStr (tk_Name k))"
  "map_get (renderTSIGKey sec k) ''algorithm'' = Some (JStr (tk_Algorithm k))"
  by (simp_all add: renderTSIGKey_def Let_def setIfNotEmpty_def setIfNotNil_def ostr_def map_laws map_get_lit
      split: option.split)

text \<open>
  The TSIG keys of the DDNS configuration are those of the spec, in order, each with its
  name and algorithm and with the secret resolved under its own name, left out when none was
  resolved; forward and reverse sections appear exactly when they are configured.
\<close>

lemma ddns_tsig_keys:
  "map (\<lambda>e. (jfield ''name'' e, jfield ''algorithm'' e, jfield ''secret'' e))
       (elems_at (renderDdnsMap unm r) ''tsig-keys'')
     = map (\<lambda>k. (Some (JStr (tk_Name k)), Some (JStr (tk_Algorithm k)),
          case rdd_ResolvedTSIGSecrets r of None \<Rightarrow> None | Some m \<Rightarrow> ostr (str_index m (tk_Name k))))
         (dd_TSIGKeys (rdd_Spec r))
   \<and> (map_get (renderDdnsMap unm r) ''forward-ddns'' = None) = (dd_ForwardDDNS (rdd_Spec r) = None)
   \<and> (map_get (renderDdnsMap unm r) ''reverse-ddns'' = None) = (dd_ReverseDDNS (rdd_Spec r) = None)"
proof -
  have "map_get (renderDdnsMap unm r) ''tsig-keys''
      = oobjs (renderTSIGKey (rdd_ResolvedTSIGSecrets r)) (dd_TSIGKeys (rdd_Spec r))"
    unfolding renderDdnsMap_get by (simp add: ddns_table_def Let_def)
  from elems_at_oobjs [OF this] show ?thesis
    by (simp add: renderTSIGKey_get comp_def renderDdnsMap_get) (simp add: ddns_table_def Let_def)
qed

interpretation rdd: config_renderer "''DhcpDdns''" "\<lambda>(unm, r). renderDdnsMap unm r"
  "\<lambda>(unm, r). RenderJSONDdns unm r" "\<lambda>(unm, r). unm_shape unm"
  by unfold_locales (auto simp: RenderJSONDdns_def shape_DdnsMap)

end
