(* ===== verification/Dhcp6Config.thy ===== *)
theory Dhcp6Config
  imports Dhcp4Config
begin

text \<open>
  The DHCPv6 renderer, \<^verbatim>\<open>src/internal/kea/dhcp6_config.go\<close>: pools, prefix-delegation pools,
  subnets, shared networks and the root object. The hook assembly, the interface section and
  the database sections are those of DHCPv4 (\<open>Dhcp4Config\<close>), as in the sources.
\<close>

section \<open>Renderer\<close>

record Dhcp6ConfigRenderer =
  r6_Spec :: KeaDhcp6ServerSpec
  r6_LeaseDBCreds :: DBCredentials
  r6_HostsDBCreds :: DBCredentials
  r6_HostsDBsCreds :: "DBCredentials list"

definition NewDhcp6ConfigRenderer :: "KeaDhcp6ServerSpec \<Rightarrow> Dhcp6ConfigRenderer" where
  "NewDhcp6ConfigRenderer spec =
     \<lparr>r6_Spec = spec, r6_LeaseDBCreds = zero_DBCredentials,
      r6_HostsDBCreds = zero_DBCredentials, r6_HostsDBsCreds = []\<rparr>"

section \<open>Sections\<close>

definition renderPool6 :: "Pool6 \<Rightarrow> jmap" where
  "renderPool6 p =
     (let pm = map_lit [(''pool'', JStr (p6_Pool p))];
          pm = setObjs pm ''option-data'' (renderOptionData (p6_OptionData p));
          pm = setIfNotEmpty pm ''client-class'' (p6_ClientClass p);
          pm = setStrs pm ''require-client-classes'' (p6_RequireClientClasses p)
      in pm)"

definition renderPDPool :: "PDPool \<Rightarrow> jmap" where
  "renderPDPool pd =
     (let pm = map_lit [(''prefix'', JStr (pd_Prefix pd)), (''prefix-len'', JInt32 (pd_PrefixLen pd)),
                        (''delegated-len'', JInt32 (pd_DelegatedLen pd))];
          pm = setIfNotEmpty pm ''excluded-prefix'' (pd_ExcludedPrefix pd);
          pm = setIfNotNil pm ''excluded-prefix-len'' (map_option JInt32 (pd_ExcludedPrefixLen pd));
          pm = setObjs pm ''option-data'' (renderOptionData (pd_OptionData pd));
          pm = setIfNotEmpty pm ''client-class'' (pd_ClientClass pd)
      in pm)"

definition renderSubnet6 :: "Subnet6 \<Rightarrow> jmap" where
  "renderSubnet6 sub =
     (let sm = map_lit [(''id'', JInt32 (s6_ID sub)), (''subnet'', JStr (s6_Subnet sub))];
          sm = setSlice sm ''pools'' renderPool6 (s6_Pools sub);
          sm = setSlice sm ''pd-pools'' renderPDPool (s6_PDPools sub);
          sm = setObjs sm ''option-data'' (renderOptionData (s6_OptionData sub));
          sm = setObjs sm ''reservations'' (renderReservations (s6_Reservations sub));
          sm = setIfNotEmpty sm ''client-class'' (s6_ClientClass sub);
          sm = setStrs sm ''require-client-classes'' (s6_RequireClientClasses sub);
          sm = setIfNotEmpty sm ''interface'' (s6_Interface sub);
          sm = setIfNotEmpty sm ''interface-id'' (s6_InterfaceID sub);
          sm = setObj sm ''relay'' (renderRelay (s6_Relay sub));
          sm = setIfNotNil sm ''preferred-lifetime'' (map_option JInt32 (s6_PreferredLifetime sub));
          sm = setIfNotNil sm ''valid-lifetime'' (map_option JInt32 (s6_ValidLifetime sub));
          sm = setIfNotNil sm ''min-valid-lifetime'' (map_option JInt32 (s6_MinValidLifetime sub));
          sm = setIfNotNil sm ''max-valid-lifetime'' (map_option JInt32 (s6_MaxValidLifetime sub));
          sm = setIfNotNil sm ''renew-timer'' (map_option JInt32 (s6_RenewTimer sub));
          sm = setIfNotNil sm ''rebind-timer'' (map_option JInt32 (s6_RebindTimer sub));
          sm = setIfNotNil sm ''rapid-commit'' (map_option JBool (s6_RapidCommit sub));
          sm = setIfNotEmpty sm ''reservation-mode'' (s6_ReservationMode sub)
      in sm)"

definition renderSubnets6 :: "Dhcp6ConfigRenderer \<Rightarrow> jmap list option" where
  "renderSubnets6 r = render_slice renderSubnet6 (d6_Subnet6 (r6_Spec r))"

definition renderSharedNetwork6 :: "SharedNetwork6 \<Rightarrow> jmap" where
  "renderSharedNetwork6 sn =
     (let snm = map_lit [(''name'', JStr (sn6_Name sn))];
          snm = setSlice snm ''subnet6'' renderSubnet6 (sn6_Subnet6 sn);
          snm = setIfNotEmpty snm ''interface'' (sn6_Interface sn);
          snm = setIfNotEmpty snm ''interface-id'' (sn6_InterfaceID sn);
          snm = setObjs snm ''option-data'' (renderOptionData (sn6_OptionData sn));
          snm = setObj snm ''relay'' (renderRelay (sn6_Relay sn));
          snm = setIfNotEmpty snm ''client-class'' (sn6_ClientClass sn);
          snm = setIfNotNil snm ''preferred-lifetime'' (map_option JInt32 (sn6_PreferredLifetime sn));
          snm = setIfNotNil snm ''valid-lifetime'' (map_option JInt32 (sn6_ValidLifetime sn));
          snm = setIfNotNil snm ''renew-timer'' (map_option JInt32 (sn6_RenewTimer sn));
          snm = setIfNotNil snm ''rebind-timer'' (map_option JInt32 (sn6_RebindTimer sn));
          snm = setIfNotNil snm ''rapid-commit'' (map_option JBool (sn6_RapidCommit sn))
      in snm)"

definition renderSharedNetworks6 :: "Dhcp6ConfigRenderer \<Rightarrow> jmap list option" where
  "renderSharedNetworks6 r = render_slice renderSharedNetwork6 (d6_SharedNetworks (r6_Spec r))"

section \<open>Root object\<close>

definition renderDhcp6Map :: "(string \<Rightarrow> json option) \<Rightarrow> Dhcp6ConfigRenderer \<Rightarrow> string \<Rightarrow> jmap" where
  "renderDhcp6Map unm r serverNameOverride =
     (let s = r6_Spec r;
          dhcp6 = [];
          dhcp6 = map_set dhcp6 ''interfaces-config'' (JObj (renderInterfacesConfig (d6_InterfacesConfig s)));
          dhcp6 = setObj dhcp6 ''lease-database''
            (map_option (\<lambda>db. renderDatabaseConfig db (creds_User (r6_LeaseDBCreds r)) (creds_Password (r6_LeaseDBCreds r)))
              (d6_LeaseDatabase s));
          dhcp6 = setObj dhcp6 ''hosts-database''
            (map_option (\<lambda>db. renderDatabaseConfig db (creds_User (r6_HostsDBCreds r)) (creds_Password (r6_HostsDBCreds r)))
              (d6_HostsDatabase s));
          dhcp6 = setSlice dhcp6 ''hosts-databases'' id (renderHostsDatabases (d6_HostsDatabases s) (r6_HostsDBsCreds r));
          dhcp6 = setObjs dhcp6 ''subnet6'' (renderSubnets6 r);
          dhcp6 = setObjs dhcp6 ''shared-networks'' (renderSharedNetworks6 r);
          dhcp6 = setObjs dhcp6 ''option-data'' (renderOptionData (d6_OptionData s));
          dhcp6 = setObjs dhcp6 ''option-def'' (renderOptionDef (d6_OptionDef s));
          dhcp6 = setObjs dhcp6 ''client-classes'' (renderClientClasses (d6_ClientClasses s));
          dhcp6 = setObjs dhcp6 ''reservations'' (renderReservations (d6_Reservations s));
          dhcp6 = setStrs dhcp6 ''host-reservation-identifiers'' (d6_HostReservationIdentifiers s);
          dhcp6 = setSlice dhcp6 ''hooks-libraries'' id
            (assembleHooks unm (d6_HooksLibraries s) (d6_LeaseDatabase s) (d6_HighAvailability s)
              (d6_ControlSocket s) serverNameOverride);
          dhcp6 = setObj dhcp6 ''control-socket'' (renderControlSocket (d6_ControlSocket s));
          dhcp6 = setObjs dhcp6 ''loggers'' (renderLoggers (d6_Loggers s));
          dhcp6 = setIfNotNil dhcp6 ''preferred-lifetime'' (map_option JInt32 (d6_PreferredLifetime s));
          dhcp6 = setIfNotNil dhcp6 ''valid-lifetime'' (map_option JInt32 (d6_ValidLifetime s));
          dhcp6 = setIfNotNil dhcp6 ''min-valid-lifetime'' (map_option JInt32 (d6_MinValidLifetime s));
          dhcp6 = setIfNotNil dhcp6 ''max-valid-lifetime'' (map_option JInt32 (d6_MaxValidLifetime s));
          dhcp6 = setIfNotNil dhcp6 ''renew-timer'' (map_option JInt32 (d6_RenewTimer s));
          dhcp6 = setIfNotNil dhcp6 ''rebind-timer'' (map_option JInt32 (d6_RebindTimer s));
          dhcp6 = setIfNotNil dhcp6 ''calculate-tee-times'' (map_option JBool (d6_CalculateTeeTimes s));
          dhcp6 = setIfNotNil dhcp6 ''t1-percent'' (map_option JStr (d6_T1Percent s));
          dhcp6 = setIfNotNil dhcp6 ''t2-percent'' (map_option JStr (d6_T2Percent s));
          dhcp6 = setIfNotEmpty dhcp6 ''server-tag'' (d6_ServerTag s);
          dhcp6 = setIfNotNil dhcp6 ''rapid-commit'' (map_option JBool (d6_RapidCommit s));
          dhcp6 = setIfNotNil dhcp6 ''ddns-send-updates'' (map_option JBool (d6_DDNSSendUpdates s));
          dhcp6 = setIfNotEmpty dhcp6 ''ddns-qualifying-suffix'' (d6_DDNSQualifyingSuffix s);
          dhcp6 = (case d6_MultiThreading s of
                     None \<Rightarrow> dhcp6
                   | Some t \<Rightarrow> setBlock dhcp6 ''multi-threading'' (renderMultiThreading t))
      in dhcp6)"

definition renderJSONInternal6 :: "(string \<Rightarrow> json option) \<Rightarrow> Dhcp6ConfigRenderer \<Rightarrow> string \<Rightarrow> goerror + string" where
  "renderJSONInternal6 unm r serverNameOverride =
     MarshalIndent (JObj (map_lit [(''Dhcp6'', JObj (renderDhcp6Map unm r serverNameOverride))]))"

definition RenderJSON6 :: "(string \<Rightarrow> json option) \<Rightarrow> Dhcp6ConfigRenderer \<Rightarrow> goerror + string" where
  "RenderJSON6 unm r = renderJSONInternal6 unm r ''''"

definition RenderJSONWithServerName6 ::
  "(string \<Rightarrow> json option) \<Rightarrow> Dhcp6ConfigRenderer \<Rightarrow> string \<Rightarrow> goerror + string" where
  "RenderJSONWithServerName6 unm r serverName = renderJSONInternal6 unm r serverName"

section \<open>The table of the root object\<close>

definition dhcp6_table :: "(string \<Rightarrow> json option) \<Rightarrow> Dhcp6ConfigRenderer \<Rightarrow> string \<Rightarrow> table" where
  "dhcp6_table unm r name =
     (let s = r6_Spec r in
     [(''interfaces-config'', Some (JObj (renderInterfacesConfig (d6_InterfacesConfig s)))),
      (''lease-database'', map_option (\<lambda>db. JObj (renderDatabaseConfig db
          (creds_User (r6_LeaseDBCreds r)) (creds_Password (r6_LeaseDBCreds r)))) (d6_LeaseDatabase s)),
      (''hosts-database'', map_option (\<lambda>db. JObj (renderDatabaseConfig db
          (creds_User (r6_HostsDBCreds r)) (creds_Password (r6_HostsDBCreds r)))) (d6_HostsDatabase s)),
      (''hosts-databases'', oobjs id (renderHostsDatabases (d6_HostsDatabases s) (r6_HostsDBsCreds r))),
      (''subnet6'', oobjs renderSubnet6 (d6_Subnet6 s)),
      (''shared-networks'', oobjs renderSharedNetwork6 (d6_SharedNetworks s)),
      (''option-data'', oobjs renderOptionDataItem (d6_OptionData s)),
      (''option-def'', oobjs renderOptionDefItem (d6_OptionDef s)),
      (''client-classes'', oobjs renderClientClass (d6_ClientClasses s)),
      (''reservations'', oobjs renderReservation (d6_Reservations s)),
      (''host-reservation-identifiers'', ostrs (d6_HostReservationIdentifiers s)),
      (''hooks-libraries'', oobjs id (assembleHooks unm (d6_HooksLibraries s) (d6_LeaseDatabase s)
          (d6_HighAvailability s) (d6_ControlSocket s) name)),
      (''control-socket'', map_option JObj (renderControlSocket (d6_ControlSocket s))),
      (''loggers'', oobjs renderLogger (d6_Loggers s)),
      (''preferred-lifetime'', map_option JInt32 (d6_PreferredLifetime s)),
      (''valid-lifetime'', map_option JInt32 (d6_ValidLifetime s)),
      (''min-valid-lifetime'', map_option JInt32 (d6_MinValidLifetime s)),
      (''max-valid-lifetime'', map_option JInt32 (d6_MaxValidLifetime s)),
      (''renew-timer'', map_option JInt32 (d6_RenewTimer s)),
      (''rebind-timer'', map_option JInt32 (d6_RebindTimer s)),
      (''calculate-tee-times'', map_option JBool (d6_CalculateTeeTimes s)),
      (''t1-percent'', map_option JStr (d6_T1Percent s)),
      (''t2-percent'', map_option JStr (d6_T2Percent s)),
      (''server-tag'', ostr (d6_ServerTag s)),
      (''rapid-commit'', map_option JBool (d6_RapidCommit s)),
      (''ddns-send-updates'', map_option JBool (d6_DDNSSendUpdates s)),
      (''ddns-qualifying-suffix'', ostr (d6_DDNSQualifyingSuffix s)),
      (''multi-threading'', Option.bind (d6_MultiThreading s) (\<lambda>t. oblock (renderMultiThreading t)))])"

lemma renderDhcp6Map_table: "renderDhcp6Map unm r name = run_table (dhcp6_table unm r name) []"
proof -
  have base: "map_set [] k v = run_table [(k, Some v)] []" for k v
    by (simp add: run_table_def)
  show ?thesis
    unfolding renderDhcp6Map_def Let_def renderSubnets6_def renderSharedNetworks6_def
      renderOptionData_def renderOptionDef_def renderClientClasses_def renderReservations_def renderLoggers_def
    by (simp only: base table_rules) (simp add: dhcp6_table_def Let_def option.map_comp comp_def)
qed

lemma dhcp6_table_distinct: "distinct (map fst (dhcp6_table unm r name))"
  by (simp add: dhcp6_table_def Let_def)

lemma renderDhcp6Map_get: "map_get (renderDhcp6Map unm r name) k = table_get (dhcp6_table unm r name) k"
  unfolding renderDhcp6Map_table by (rule run_table_get [OF dhcp6_table_distinct])

section \<open>Shape\<close>

lemma shape_Pool6 [shape_rules]: "shape_map (renderPool6 p)"
  by (auto simp: renderPool6_def Let_def intro!: shape_rules)

lemma shape_PDPool [shape_rules]: "shape_map (renderPDPool p)"
  by (auto simp: renderPDPool_def Let_def intro!: shape_rules)

lemma shape_Subnet6 [shape_rules]: "shape_map (renderSubnet6 sub)"
  by (auto simp: renderSubnet6_def Let_def intro!: shape_rules intro: shape_Relay)

lemma shape_SharedNetwork6 [shape_rules]: "shape_map (renderSharedNetwork6 sn)"
  by (auto simp: renderSharedNetwork6_def Let_def intro!: shape_rules intro: shape_Relay)

lemma shape_Dhcp6Map:
  assumes "unm_shape unm"
  shows "shape_map (renderDhcp6Map unm r name)"
  unfolding renderDhcp6Map_def Let_def renderSubnets6_def renderSharedNetworks6_def
  using assms
  by (auto intro!: shape_rules intro: shape_HostsDatabases shape_assembleHooks shape_ControlSocket
      split: option.split)

section \<open>Properties\<close>

interpretation rd6: config_renderer "''Dhcp6''" "\<lambda>(unm, r, n). renderDhcp6Map unm r n"
  "\<lambda>(unm, r, n). renderJSONInternal6 unm r n" "\<lambda>(unm, r, n). unm_shape unm"
  by unfold_locales (auto simp: renderJSONInternal6_def shape_Dhcp6Map)

text \<open>
  The bytes of a DHCPv6 configuration determine it: for resources whose strings are
  valid UTF-8, two renderings are byte-for-byte equal exactly when every key of the Dhcp6
  object has the same value in both, the values being those of \<open>dhcp6_table\<close>.
\<close>

lemma dhcp6_bytes_determine_config:
  assumes "unm_shape unm"
    and "utf8_json (JObj (renderDhcp6Map unm r n))" and "utf8_json (JObj (renderDhcp6Map unm r' n'))"
  shows "(RenderJSONWithServerName6 unm r n = RenderJSONWithServerName6 unm r' n')
     = (\<forall>k. table_get (dhcp6_table unm r n) k = table_get (dhcp6_table unm r' n') k)"
  using rd6.render_inject [of "(unm, r, n)" "(unm, r', n')"] assms
  by (simp add: RenderJSONWithServerName6_def renderDhcp6Map_get)

definition sample_spec6 :: KeaDhcp6ServerSpec where
  "sample_spec6 = zero_KeaDhcp6ServerSpec\<lparr>
     d6_InterfacesConfig := zero_InterfacesConfig\<lparr>ic_Interfaces := Some [''eth0'']\<rparr>,
     d6_PreferredLifetime := Some 3000\<rparr>"

lemma dhcp6_bytes_determine_config_example:
  "RenderJSONWithServerName6 (\<lambda>_. None) (NewDhcp6ConfigRenderer sample_spec6) ''a''
     \<noteq> RenderJSONWithServerName6 (\<lambda>_. None) (NewDhcp6ConfigRenderer (sample_spec6\<lparr>d6_PreferredLifetime := None\<rparr>)) ''a''"
proof -
  have u: "unm_shape (\<lambda>_. None)" by (simp add: unm_shape_def)
  have utf8: "utf8_json (JObj (renderDhcp6Map (\<lambda>_. None)
      (NewDhcp6ConfigRenderer (sample_spec6\<lparr>d6_PreferredLifetime := x\<rparr>)) ''a''))" for x
    unfolding renderDhcp6Map_table
    by (rule utf8_run_table)
      (simp add: utf8_table_def dhcp6_table_def sample_spec6_def NewDhcp6ConfigRenderer_def
        zero_KeaDhcp6ServerSpec_def zero_InterfacesConfig_def renderInterfacesConfig_def
        setIfNotEmpty_def setIfNotNil_def map_lit_def ostr_def ostrs_def oobjs_def JStrs_def
        JInt32_def JInt_def assembleHooks_append renderHAHooks_def renderDBHook_def
        renderHostsDatabases_def renderControlSocket_def split: option.split)
  have a: "utf8_json (JObj (renderDhcp6Map (\<lambda>_. None) (NewDhcp6ConfigRenderer sample_spec6) ''a''))"
    using utf8 [of "Some 3000"] by (simp add: sample_spec6_def)
  note b = utf8 [of None]
  have "table_get (dhcp6_table (\<lambda>_. None) (NewDhcp6ConfigRenderer sample_spec6) ''a'') ''preferred-lifetime''
     \<noteq> table_get (dhcp6_table (\<lambda>_. None)
         (NewDhcp6ConfigRenderer (sample_spec6\<lparr>d6_PreferredLifetime := None\<rparr>)) ''a'') ''preferred-lifetime''"
    by (simp add: dhcp6_table_def NewDhcp6ConfigRenderer_def sample_spec6_def)
  then show ?thesis
    unfolding dhcp6_bytes_determine_config [OF u a b] by blast
qed

end
