(* ===== verification/ComponentSteps.thy ===== *)
theory ComponentSteps
  imports ApiStore Deployment StatefulSet Credentials NetAddr GoSha Validate CtrlAgentConfig DdnsConfig Dhcp6Config
begin

text \<open>
  Steps that the component controllers of \<^verbatim>\<open>src/internal/controller\<close> repeat with the same text:
  the fetch of the custom resource, the render-error exit, pod parameters, the control Service,
  the Stork monitoring objects, and the status update. Each controller theory instantiates them
  for its own resource. A status-carrying write takes the function \<open>wr\<close> that puts a
  status into the custom resource at hand.
\<close>

section \<open>Fetching the resource\<close>

text \<open>
  The head of every \<^verbatim>\<open>Reconcile\<close>: a resource that is gone is not an error, any other failure
  is returned, otherwise the rest runs on the fetched copy.
\<close>

definition fetch_and :: "'s env \<Rightarrow> okind \<Rightarrow> (kobj \<Rightarrow> 'a option) \<Rightarrow> ('a \<Rightarrow> ('s, unit) op) \<Rightarrow> string \<Rightarrow> string \<Rightarrow> ('s, unit) op" where
  "fetch_and E k sel body ns n =
     seq (attempt (get_as E k sel ns n)) (\<lambda>r.
       case r of
         Inl e \<Rightarrow> if IsNotFound e then ret () else fail e
       | Inr cr \<Rightarrow> body cr)"

definition event :: "'s env \<Rightarrow> kobj \<Rightarrow> string \<Rightarrow> string \<Rightarrow> string \<Rightarrow> ('s, unit) op" where
  "event E obj typ reason msg = modify (api_Event E obj typ reason msg)"

section \<open>Parameters\<close>

definition replicas_or_one :: "int32 option \<Rightarrow> int32" where
  "replicas_or_one r = (case r of None \<Rightarrow> 1 | Some n \<Rightarrow> n)"

definition control_port :: "ControlSocket option \<Rightarrow> int32" where
  "control_port sock =
     (case sock of None \<Rightarrow> 8000 | Some c \<Rightarrow> (case cs_SocketPort c of None \<Rightarrow> 8000 | Some p \<Rightarrow> p))"

text \<open>The ordinals \<^verbatim>\<open>for i := int32(0); i < *replicas; i++\<close> runs over.\<close>

definition ordinals :: "int32 \<Rightarrow> nat list" where
  "ordinals replicas = [0..<nat (sint replicas)]"

record podParams =
  pod_image :: string
  pod_hostNetwork :: bool
  pod_nodeSelector :: "string strmap"
  pod_tolerations :: "Toleration list"
  pod_affinity :: "Affinity option"
  pod_podAnnotations :: "string strmap"
  pod_tlsSecretName :: string

definition resolvePodParams :: "ContainerConfig \<Rightarrow> bool option \<Rightarrow> PodPlacement option \<Rightarrow> TLSConfig option \<Rightarrow> podParams" where
  "resolvePodParams ctr hostNetwork placement tls =
     (let pp = \<lparr>pod_image = ctr_Image ctr, pod_hostNetwork = False, pod_nodeSelector = [], pod_tolerations = [],
                pod_affinity = None, pod_podAnnotations = [], pod_tlsSecretName = ''''\<rparr>;
          pp = (case hostNetwork of None \<Rightarrow> pp | Some b \<Rightarrow> pp\<lparr>pod_hostNetwork := b\<rparr>);
          pp = (case placement of
                  None \<Rightarrow> pp
                | Some p \<Rightarrow> pp\<lparr>pod_nodeSelector := pp_NodeSelector p, pod_tolerations := pp_Tolerations p,
                              pod_affinity := pp_Affinity p, pod_podAnnotations := pp_PodAnnotations p\<rparr>);
          pp = (case tls of None \<Rightarrow> pp | Some t \<Rightarrow> pp\<lparr>pod_tlsSecretName := lor_Name (tls_SecretRef t)\<rparr>)
      in pp)"

text \<open>The parameters of a component's Deployment that come from the common part of the specs.\<close>

definition deployment_params ::
  "ObjectMeta \<Rightarrow> string \<Rightarrow> ContainerConfig \<Rightarrow> podParams \<Rightarrow> int32 \<Rightarrow> string \<Rightarrow> EnvVar list \<Rightarrow> DeploymentParams" where
  "deployment_params meta component ctr pp replicas configHash secretEnvVars =
     zero_DeploymentParams
       \<lparr>dp_Namespace := om_Namespace meta, dp_CRName := om_Name meta, dp_Component := component,
        dp_Command := DefaultCommandForComponent component, dp_ConfigFileName := ConfigFileName component,
        dp_ConfigMapName := ConfigMapName (om_Name meta) component,
        dp_Image := pod_image pp, dp_ImagePullPolicy := ctr_ImagePullPolicy ctr, dp_Replicas := Some replicas,
        dp_Resources := ctr_Resources ctr, dp_HostNetwork := pod_hostNetwork pp, dp_NodeSelector := pod_nodeSelector pp,
        dp_Tolerations := pod_tolerations pp, dp_Affinity := pod_affinity pp, dp_TLSSecretName := pod_tlsSecretName pp,
        dp_ServiceAccountName := ServiceAccountName (om_Name meta), dp_ConfigHash := configHash,
        dp_ImagePullSecrets := ctr_ImagePullSecrets ctr, dp_PodAnnotations := pod_podAnnotations pp,
        dp_SecretEnvVars := secretEnvVars\<rparr>"

section \<open>Reconciliation steps\<close>

definition reconcile_as :: "string \<Rightarrow> 's env \<Rightarrow> ObjectMeta \<Rightarrow> kobj \<Rightarrow> ('s, unit) op" where
  "reconcile_as what E owner obj = wrap_err (''reconciling '' @ what) (reconcileResource E owner obj)"

definition renderErrorExit ::
  "'s env \<Rightarrow> ('a ComponentStatus_scheme \<Rightarrow> kobj) \<Rightarrow> 'a ComponentStatus_scheme \<Rightarrow> goerror \<Rightarrow> ('s, 'b) op" where
  "renderErrorExit E wr st err =
     seq (setConditionNow E (st_Conditions st) ConditionTypeConfigValid ''False'' ''RenderError'' (env_ErrorText E err)) (\<lambda>cs.
     (let st' = st\<lparr>st_Conditions := cs, st_Phase := PhaseError\<rparr>
      in seq (attempt (api_StatusUpdate E (wr st'))) (\<lambda>_.
         seq (event E (wr st') ''Warning'' ''ConfigRenderError'' (''Failed to render configuration: '' @ env_ErrorText E err)) (\<lambda>_.
         fail (Wrap ''rendering config'' err)))))"

definition markConfigValid :: "'s env \<Rightarrow> 'a ComponentStatus_scheme \<Rightarrow> ('s, 'a ComponentStatus_scheme) op" where
  "markConfigValid E st =
     seq (setConditionNow E (st_Conditions st) ConditionTypeConfigValid ''True'' ''ConfigRendered'' ''Configuration rendered successfully'')
       (\<lambda>cs. ret (st\<lparr>st_Conditions := cs\<rparr>))"

definition service_params :: "ObjectMeta \<Rightarrow> string \<Rightarrow> int32 \<Rightarrow> string \<Rightarrow> ServiceParams" where
  "service_params meta component port protocol =
     \<lparr>svp_Namespace = om_Namespace meta, svp_CRName = om_Name meta, svp_Component = component,
      svp_Port = port, svp_Protocol = protocol\<rparr>"

definition reconcileControlService :: "'s env \<Rightarrow> ObjectMeta \<Rightarrow> ControlSocket option \<Rightarrow> string \<Rightarrow> ('s, unit) op" where
  "reconcileControlService E meta sock component =
     (case sock of
        None \<Rightarrow> ret ()
      | Some c \<Rightarrow>
          if cs_SocketType c \<noteq> ''http'' then ret ()
          else reconcile_as ''Service'' E meta
                 (OService (BuildService (service_params meta component (control_port sock) ''TCP''))))"

definition reconcileStorkMonitoring ::
  "'s env \<Rightarrow> ObjectMeta \<Rightarrow> string \<Rightarrow> StorkSidecarParams option \<Rightarrow> ('s, unit) op" where
  "reconcileStorkMonitoring E meta component storkAgent =
     (case storkAgent of
        None \<Rightarrow> ret ()
      | Some agent \<Rightarrow>
          seq (attempt (reconcileResource E meta (OPodMonitor (BuildPodMonitor (om_Namespace meta) (om_Name meta) component)))) (\<lambda>_.
          seq (reconcile_as ''Stork metrics Service'' E meta (OService (BuildStorkMetricsService
                 \<lparr>smp_Namespace = om_Namespace meta, smp_CRName = om_Name meta, smp_Component = component,
                  smp_AgentPort = ssp_Port agent, smp_PrometheusPort = ssp_PrometheusPort agent\<rparr>))) (\<lambda>_.
          if env_IsOpenShift E
          then seq (attempt (reconcileRoute E meta (BuildStorkMetricsRoute
                  \<lparr>srp_Namespace = om_Namespace meta, srp_CRName = om_Name meta, srp_Component = component,
                   srp_PrometheusPort = ssp_PrometheusPort agent\<rparr>))) (\<lambda>_. ret ())
          else ret ())))"

text \<open>Ready replicas of the workload; a failed read counts as none.\<close>

definition readyReplicasOf :: "'s env \<Rightarrow> okind \<Rightarrow> (kobj \<Rightarrow> 'a option) \<Rightarrow> ('a \<Rightarrow> int32) \<Rightarrow> string \<Rightarrow> string \<Rightarrow> ('s, int32) op" where
  "readyReplicasOf E k sel rdy ns name =
     seq (attempt (get_as E k sel ns name)) (\<lambda>r. ret (case r of Inl _ \<Rightarrow> 0 | Inr w \<Rightarrow> rdy w))"

definition component_status ::
  "ObjectMeta \<Rightarrow> string \<Rightarrow> string \<Rightarrow> int32 \<Rightarrow> 'a ComponentStatus_scheme \<Rightarrow> 'a ComponentStatus_scheme" where
  "component_status meta component configHash readyReplicas st =
     st\<lparr>st_ReadyReplicas := readyReplicas, st_ConfigHash := configHash,
        st_ConfigMapRef := ConfigMapName (om_Name meta) component, st_ObservedGeneration := om_Generation meta\<rparr>"

text \<open>Phase and conditions from the replica counts, and the write of the status; gives the status written.\<close>

definition writeReadyStatus ::
  "'s env \<Rightarrow> ('a ComponentStatus_scheme \<Rightarrow> kobj) \<Rightarrow> int32 \<Rightarrow> int32 \<Rightarrow> 'a ComponentStatus_scheme \<Rightarrow>
   ('s, 'a ComponentStatus_scheme) op" where
  "writeReadyStatus E wr readyReplicas replicas st =
     seq (setReadyStatus E readyReplicas replicas st) (\<lambda>st'.
     seq (wrap_err ''updating status'' (api_StatusUpdate E (wr st'))) (\<lambda>_. ret st'))"

section \<open>What the steps write\<close>

lemma obj_key_BuildX [simp]:
  "obj_key (OService (BuildService p)) = (KService, svp_Namespace p, ServiceName (svp_CRName p) (svp_Component p))"
  "obj_key (OService (BuildHeadlessService p)) = (KService, svp_Namespace p, HeadlessServiceName (svp_CRName p) (svp_Component p))"
  "obj_key (OService (BuildPerPodService p i)) = (KService, svp_Namespace p, PerPodServiceName (svp_CRName p) (svp_Component p) i)"
  "obj_key (OService (BuildStorkMetricsService q)) =
     (KService, smp_Namespace q, StorkMetricsServiceName (smp_CRName q) (smp_Component q))"
  "obj_key (OPodMonitor (BuildPodMonitor ns cr co)) = (KPodMonitor, ns, PodMonitorName cr co)"
  "obj_key (OServiceAccount (BuildServiceAccount ns cr lbls)) = (KServiceAccount, ns, ServiceAccountName cr)"
  "obj_key (OConfigMap (BuildConfigMap ns cr co js lbls)) = (KConfigMap, ns, ConfigMapName cr co)"
  by (simp_all add: obj_key_def BuildService_def BuildHeadlessService_def BuildPerPodService_def BuildStorkMetricsService_def
      BuildPodMonitor_def BuildServiceAccount_def BuildConfigMap_def object_meta_def Let_def)

lemma obj_key_route_object [simp]:
  "obj_key (route_obj (route_object n ns lbls svc tp)) = (KUnstructured kindRoute, ns, n)"
  by (simp add: obj_key_def route_obj_def route_object_def un_meta_field_def json_str_def map_get_lit)

lemma obj_key_BuildStorkMetricsRoute [simp]:
  "obj_key (route_obj (BuildStorkMetricsRoute p)) = (KUnstructured kindRoute, srp_Namespace p, StorkRouteName (srp_CRName p) (srp_Component p))"
  by (simp add: BuildStorkMetricsRoute_def Let_def)

lemma obj_key_BuildDeployment [simp]:
  "obj_key (ODeployment (BuildDeployment p)) = (KDeployment, dp_Namespace p, DeploymentName (dp_CRName p) (dp_Component p))"
  by (simp add: obj_key_def BuildDeployment_def object_meta_def Let_def)

lemma obj_key_BuildStatefulSet [simp]:
  "obj_key (OStatefulSet (BuildStatefulSet h a p)) = (KStatefulSet, stp_Namespace p, StatefulSetName (stp_CRName p) (stp_Component p))"
  by (simp add: obj_key_def BuildStatefulSet_def object_meta_def Let_def)

lemma deployment_params_fields [simp]:
  "dp_Namespace (deployment_params m co ctr pp n h env) = om_Namespace m"
  "dp_CRName (deployment_params m co ctr pp n h env) = om_Name m"
  "dp_Component (deployment_params m co ctr pp n h env) = co"
  "dp_ConfigHash (deployment_params m co ctr pp n h env) = h"
  "dp_ConfigMapName (deployment_params m co ctr pp n h env) = ConfigMapName (om_Name m) co"
  by (simp_all add: deployment_params_def)

lemma service_params_fields [simp]:
  "svp_Namespace (service_params m co p pr) = om_Namespace m" "svp_CRName (service_params m co p pr) = om_Name m"
  "svp_Component (service_params m co p pr) = co" "svp_Port (service_params m co p pr) = p"
  by (simp_all add: service_params_def)

text \<open>
  A permission to write: the environment keeps \<open>I\<close> under the writes \<open>W\<close> permits, and \<open>W\<close> permits
  the creation of the SCC binding of the custom resource with metadata \<open>meta\<close> and updates of
  its status (the objects \<open>wr st\<close>).
\<close>

definition may_write :: "'s env \<Rightarrow> (wop \<Rightarrow> kobj \<Rightarrow> bool) \<Rightarrow> ('s \<Rightarrow> bool) \<Rightarrow> ObjectMeta \<Rightarrow> ('st \<Rightarrow> kobj) \<Rightarrow> bool" where
  "may_write E W I meta wr =
     (env_keeps E W I \<and> scr_law E \<and> W WCreate (ORoleBinding (scc_binding (om_Namespace meta) (om_Name meta))) \<and> (\<forall>st. W WStatus (wr st)))"

lemma may_writeD:
  assumes "may_write E W I meta wr"
  shows "env_keeps E W I" "scr_law E" "W WCreate (ORoleBinding (scc_binding (om_Namespace meta) (om_Name meta)))" "W WStatus (wr st)"
  using assms by (simp_all add: may_write_def)

lemma keeps_reconcile_as:
  "env_keeps E W I \<Longrightarrow> scr_law E \<Longrightarrow> covers W (om_UID owner) (obj_key obj) \<Longrightarrow> keeps I (reconcile_as what E owner obj)"
  unfolding reconcile_as_def by (intro keeps_rules keeps_reconcileResource)

lemma keeps_event: "env_keeps E W I \<Longrightarrow> keeps I (event E obj t r m)"
  unfolding event_def by (rule keeps_env)

lemma keeps_Let [keeps_rules]: "keeps I (f x) \<Longrightarrow> keeps I (let y = x in f y)"
  by simp

lemma keeps_renderErrorExit:
  assumes "env_keeps E W I" "\<And>st. W WStatus (wr st)"
  shows "keeps I (renderErrorExit E wr st err)"
  unfolding renderErrorExit_def
  by (intro keeps_rules keeps_setConditionNow [OF assms(1)] keeps_event [OF assms(1)] keeps_env(8) [OF assms(1)] assms(2))

lemma keeps_markConfigValid: "env_keeps E W I \<Longrightarrow> keeps I (markConfigValid E st)"
  unfolding markConfigValid_def by (intro keeps_rules keeps_setConditionNow)

lemma keeps_reconcileControlService:
  assumes "env_keeps E W I" "scr_law E" "covers W (om_UID meta) (KService, om_Namespace meta, ServiceName (om_Name meta) co)"
  shows "keeps I (reconcileControlService E meta sock co)"
  unfolding reconcileControlService_def
  by (intro keeps_rules keeps_reconcile_as [OF assms(1,2)]) (simp add: assms(3))

definition stork_keys :: "ObjectMeta \<Rightarrow> string \<Rightarrow> okey set" where
  "stork_keys meta co =
     {(KPodMonitor, om_Namespace meta, PodMonitorName (om_Name meta) co),
      (KService, om_Namespace meta, StorkMetricsServiceName (om_Name meta) co),
      (KUnstructured kindRoute, om_Namespace meta, StorkRouteName (om_Name meta) co)}"

lemma keeps_reconcileStorkMonitoring:
  assumes "env_keeps E W I" "scr_law E" "\<forall>K \<in> stork_keys meta co. covers W (om_UID meta) K"
  shows "keeps I (reconcileStorkMonitoring E meta co agent)"
  unfolding reconcileStorkMonitoring_def
  using assms(3)
  by (intro keeps_rules keeps_reconcile_as [OF assms(1,2)] keeps_reconcileResource [OF assms(1,2)] keeps_reconcileRoute [OF assms(1,2)])
    (simp_all add: stork_keys_def)

lemma keeps_readyReplicasOf: "env_keeps E W I \<Longrightarrow> keeps I (readyReplicasOf E k sel r ns n)"
  unfolding readyReplicasOf_def by (intro keeps_rules keeps_get_as)

lemma keeps_writeReadyStatus:
  assumes "env_keeps E W I" "\<And>st. W WStatus (wr st)"
  shows "keeps I (writeReadyStatus E wr a b st)"
  unfolding writeReadyStatus_def
  by (intro keeps_rules keeps_setReadyStatus [OF assms(1)] keeps_env(8) [OF assms(1)] assms(2))

lemmas keeps_steps = keeps_rules keeps_reconcile_as keeps_event keeps_renderErrorExit keeps_markConfigValid
  keeps_reconcileControlService keeps_reconcileStorkMonitoring keeps_readyReplicasOf keeps_writeReadyStatus
  keeps_bindSCC keeps_resolveStorkAgent keeps_reconcileResource

section \<open>Successful runs\<close>

lemma seq_success:
  assumes "seq m f s = (Inr y, s')"
  obtains x s1 where "m s = (Inr x, s1)" "f x s1 = (Inr y, s')"
  using assms by (auto simp: seq_def split: prod.splits sum.splits)

lemma wrap_success: "wrap_err w m s = (Inr y, s') \<Longrightarrow> m s = (Inr y, s')"
  by (auto simp: wrap_err_def split: prod.splits sum.splits)

text \<open>A run on a resource that exists fails on the read, or is a run of the body.\<close>

lemma fetch_runs:
  assumes law: "store_law E look" and x: "look s (k, ns, n) = Some x" "sel x = Some cr"
    and m: "fetch_and E k sel body ns n s = (r, s')"
  obtains e where "r = Inl e" "look s' = look s" | s1 where "look s1 = look s" "body cr s1 = (r, s')"
proof -
  obtain g s1 where g: "api_Get E k ns n s = (g, s1)" by fastforce
  have same: "look s1 = look s" using get_look [OF law, of k ns n s] g by simp
  show thesis
  proof (cases g)
    case (Inl e)
    with get_missing [OF law] g x have "\<not> IsNotFound e" by auto
    with Inl m g same that(1) show thesis by (auto simp: fetch_and_def get_as_def seq_def attempt_def fail_def)
  next
    case (Inr x')
    with get_found [OF law, of k ns n s x' s1] g x(1) have "x' = x" by simp
    with Inr g x(2) m have "body cr s1 = (r, s')"
      by (simp add: fetch_and_def get_as_def seq_def attempt_def decode_def ret_def)
    with same that(2) show thesis by blast
  qed
qed

lemma fetch_success:
  assumes "store_law E look" "look s (k, ns, n) = Some x" "sel x = Some cr" "fetch_and E k sel body ns n s = (Inr u, s')"
  obtains s1 where "look s1 = look s" "body cr s1 = (Inr u, s')"
  using fetch_runs [OF assms] by blast

section \<open>The contract of a component controller\<close>

text \<open>
  What the five component controllers have in common: the kind \<open>kd\<close> they reconcile, the
  typed view \<open>sel\<close> of a fetched object, the objects \<open>wr cr st\<close> whose status they write, a footprint of
  keys they apply, and a body that writes only there. From it follow, once for all, what a
  whole \<^verbatim>\<open>Reconcile\<close> may change in a cluster.
\<close>

definition scc_key :: "string \<Rightarrow> string \<Rightarrow> okey" where
  "scc_key ns n = (KRoleBinding, ns, ''kea-dhcp-scc-'' @ ServiceAccountName n)"

lemma key_scc_binding [simp]: "obj_key (ORoleBinding (scc_binding ns n)) = scc_key ns n"
  by (simp add: obj_key_def scc_binding_def scc_key_def object_meta_def Let_def)

locale component_controller =
  fixes kd :: okind
    and sel :: "kobj \<Rightarrow> 'a option"
    and meta :: "'a \<Rightarrow> ObjectMeta"
    and wr :: "'a \<Rightarrow> 'st \<Rightarrow> kobj"
    and foot :: "'a \<Rightarrow> okey set"
    and body :: "'s env \<Rightarrow> 'a \<Rightarrow> ('s, unit) op"
  assumes sel_meta: "sel x = Some cr \<Longrightarrow> obj_meta x = meta cr"
    and wr_key: "obj_key (wr cr st) = (kd, om_Namespace (meta cr), om_Name (meta cr))"
    and kd_binding: "kd \<noteq> KRoleBinding"
    and body_keeps: "may_write E W I (meta cr) (wr cr) \<Longrightarrow> \<forall>K \<in> foot cr. covers W (om_UID (meta cr)) K \<Longrightarrow> keeps I (body E cr)"
begin

lemma body_frame:
  assumes law: "store_law E look" and fr: "frame look s0 (om_UID (meta cr)) (foot cr)
      {scc_key (om_Namespace (meta cr)) (om_Name (meta cr))} {} (kd, om_Namespace (meta cr), om_Name (meta cr)) s"
  shows "frame look s0 (om_UID (meta cr)) (foot cr)
      {scc_key (om_Namespace (meta cr)) (om_Name (meta cr))} {} (kd, om_Namespace (meta cr), om_Name (meta cr)) (snd (body E cr s))"
proof -
  let ?cr = "(kd, om_Namespace (meta cr), om_Name (meta cr))"
  let ?C = "{scc_key (om_Namespace (meta cr)) (om_Name (meta cr))}"
  have E: "env_keeps E (permits (om_UID (meta cr)) (foot cr) ?C {} ?cr) (frame look s0 (om_UID (meta cr)) (foot cr) ?C {} ?cr)"
    by (rule env_keeps_frame [OF law]) (auto simp: scc_key_def kd_binding)
  have "may_write E (permits (om_UID (meta cr)) (foot cr) ?C {} ?cr) (frame look s0 (om_UID (meta cr)) (foot cr) ?C {} ?cr) (meta cr) (wr cr)"
    unfolding may_write_def using E store_lawD(1) [OF law] by (simp add: permits_def wr_key)
  from body_keeps [OF this] fr show ?thesis by (simp add: covers_def permits_def keeps_def)
qed

lemma reconcile_frame:
  assumes law: "store_law E look" and x: "look s (kd, ns, n) = Some x" "sel x = Some cr"
  shows "frame look s (om_UID (meta cr)) (foot cr) {scc_key ns n} {} (kd, ns, n) (snd (fetch_and E kd sel (body E) ns n s))"
proof -
  obtain r s1 where g: "api_Get E kd ns n s = (r, s1)" by fastforce
  have same: "look s1 = look s" using get_look [OF law, of kd ns n s] g by simp
  have key: "om_Namespace (meta cr) = ns" "om_Name (meta cr) = n"
    using store_lawD(4) [OF law x(1)] sel_meta [OF x(2)] by (simp_all add: obj_key_def)
  have fr: "frame look s (om_UID (meta cr)) (foot cr) {scc_key ns n} {} (kd, ns, n) s1" using same by (rule frame_same) simp
  show ?thesis
  proof (cases r)
    case (Inl e)
    with g fr show ?thesis by (simp add: fetch_and_def get_as_def seq_def attempt_def ret_def fail_def)
  next
    case (Inr x')
    with get_found [OF law, of kd ns n s x' s1] g x(1) have "x' = x" by simp
    with Inr g x(2) have "fetch_and E kd sel (body E) ns n s = body E cr s1"
      by (simp add: fetch_and_def get_as_def seq_def attempt_def decode_def ret_def)
    with body_frame [OF law, of s cr s1] fr key show ?thesis by simp
  qed
qed

end

end
