(* ===== verification/Progress.thy ===== *)
theory Progress
  imports ComponentSteps
begin

text \<open>
  When a reconciliation succeeds. \<open>up_law E look\<close> states that the API server answers: reads give
  the stored object, writes whose mutate function succeeds are accepted, and an object that no
  other controller has can be owned. From a state in which nobody else controls the objects of
  its footprint, a component controller then runs to its end; the steps it shares with the
  others are treated here once.
\<close>

section \<open>Availability\<close>

definition up_law :: "'s env \<Rightarrow> 's look \<Rightarrow> bool" where
  "up_law E look =
     ((\<forall>k ns n s. case look s (k, ns, n) of
          Some x \<Rightarrow> fst (api_Get E k ns n s) = Inr x
        | None \<Rightarrow> (\<exists>e. fst (api_Get E k ns n s) = Inl e \<and> IsNotFound e))
      \<and> (\<forall>x f s l'. f (case look s (obj_key x) of None \<Rightarrow> x | Some l \<Rightarrow> l) = Inr l' \<longrightarrow> obj_key l' = obj_key x \<longrightarrow>
           fst (api_CreateOrUpdate E x f s) = Inr ())
      \<and> (\<forall>x s. look s (obj_key x) \<noteq> None \<longrightarrow> fst (api_StatusUpdate E x s) = Inr ())
      \<and> (\<forall>m x. claimable (om_UID m) x \<longrightarrow> (\<exists>y. api_SetControllerReference E m x = Inr y))
      \<and> (\<forall>s. \<exists>t. fst (env_Now E s) = Inr t) \<and> (\<forall>n s. \<exists>bs. fst (env_RandRead E n s) = Inr bs))"

lemma up_lawD:
  assumes "up_law E look"
  shows "look s (k, ns, n) = Some x \<Longrightarrow> fst (api_Get E k ns n s) = Inr x"
    and "look s (k, ns, n) = None \<Longrightarrow> \<exists>e. fst (api_Get E k ns n s) = Inl e \<and> IsNotFound e"
    and "f (case look s (obj_key x) of None \<Rightarrow> x | Some l \<Rightarrow> l) = Inr l' \<Longrightarrow> obj_key l' = obj_key x \<Longrightarrow>
           fst (api_CreateOrUpdate E x f s) = Inr ()"
    and "look s (obj_key x) \<noteq> None \<Longrightarrow> fst (api_StatusUpdate E x s) = Inr ()"
    and "claimable (om_UID m) x \<Longrightarrow> \<exists>y. api_SetControllerReference E m x = Inr y"
    and "\<exists>t. fst (env_Now E s) = Inr t" and "\<exists>bs. fst (env_RandRead E len s) = Inr bs"
proof -
  note law = assms [unfolded up_law_def]
  show "look s (k, ns, n) = Some x \<Longrightarrow> fst (api_Get E k ns n s) = Inr x"
    and "look s (k, ns, n) = None \<Longrightarrow> \<exists>e. fst (api_Get E k ns n s) = Inl e \<and> IsNotFound e"
    using conjunct1 [OF law, THEN spec [of _ k], THEN spec [of _ ns], THEN spec [of _ n], THEN spec [of _ s]] by simp_all
  show "f (case look s (obj_key x) of None \<Rightarrow> x | Some l \<Rightarrow> l) = Inr l' \<Longrightarrow> obj_key l' = obj_key x \<Longrightarrow>
           fst (api_CreateOrUpdate E x f s) = Inr ()"
    and "look s (obj_key x) \<noteq> None \<Longrightarrow> fst (api_StatusUpdate E x s) = Inr ()"
    and "claimable (om_UID m) x \<Longrightarrow> \<exists>y. api_SetControllerReference E m x = Inr y"
    and "\<exists>t. fst (env_Now E s) = Inr t" and "\<exists>bs. fst (env_RandRead E len s) = Inr bs"
    using conjunct2 [OF law] by blast+
qed

text \<open>
  A list holds each object of the kind in the namespace once. Nothing is known about its
  order: the manager's client lists from a cache.
\<close>

definition list_law :: "'s env \<Rightarrow> 's look \<Rightarrow> bool" where
  "list_law E look =
     (\<forall>k ns s. \<exists>xs. fst (api_List E k ns s) = Inr xs \<and> distinct xs \<and> set xs = {x. \<exists>n. look s (k, ns, n) = Some x})"

lemma list_lawE:
  assumes "store_law E look" "list_law E look"
  obtains xs s' where "api_List E k ns s = (Inr xs, s')" "look s' = look s" "distinct xs"
    "\<And>x. x \<in> set xs \<longleftrightarrow> (\<exists>n. look s (k, ns, n) = Some x)"
proof -
  have "look (snd (api_List E k ns s)) = look s" using store_lawD(2) [OF assms(1)] by (simp add: read_law_def)
  moreover obtain xs where "fst (api_List E k ns s) = Inr xs" "distinct xs" "set xs = {x. \<exists>n. look s (k, ns, n) = Some x}"
    using assms(2) unfolding list_law_def by blast
  ultimately show thesis by (intro that [of xs "snd (api_List E k ns s)"]) (simp_all add: prod_eq_iff)
qed

section \<open>Runs that succeed\<close>

text \<open>\<open>succeeds I m\<close>: from a state in \<open>I\<close>, \<open>m\<close> returns a value and ends in \<open>I\<close>.\<close>

definition succeeds :: "('s \<Rightarrow> bool) \<Rightarrow> ('s, 'a) op \<Rightarrow> bool" where
  "succeeds I m = (\<forall>s. I s \<longrightarrow> (\<exists>x s'. m s = (Inr x, s') \<and> I s'))"

named_theorems succeeds_rules \<open>introduction rules for succeeds\<close>

lemma succeedsI:
  "keeps I m \<Longrightarrow> (\<And>s. I s \<Longrightarrow> \<exists>x. fst (m s) = Inr x) \<Longrightarrow> succeeds I m"
  unfolding succeeds_def keeps_def by (metis prod.collapse)

lemma succeedsD: "succeeds I m \<Longrightarrow> I s \<Longrightarrow> \<exists>x s'. m s = (Inr x, s') \<and> I s'"
  by (simp add: succeeds_def)

lemma succeeds_ret [succeeds_rules]: "succeeds I (ret x)"
  by (simp add: succeeds_def ret_def)

lemma succeeds_lift: "r = Inr x \<Longrightarrow> succeeds I (lift r)"
  by (simp add: succeeds_def lift_def)

lemma succeeds_seq [succeeds_rules]: "succeeds I m \<Longrightarrow> (\<And>x. succeeds I (f x)) \<Longrightarrow> succeeds I (seq m f)"
  unfolding succeeds_def seq_def by (metis (no_types, lifting) prod.case sum.case(2))

lemma succeeds_wrap [succeeds_rules]: "succeeds I m \<Longrightarrow> succeeds I (wrap_err msg m)"
  unfolding succeeds_def wrap_err_def by fastforce

lemma succeeds_attempt [succeeds_rules]: "keeps I m \<Longrightarrow> succeeds I (attempt m)"
  by (rule succeedsI, erule keeps_attempt) (simp add: attempt_def split: prod.split)

lemma succeeds_for_each [succeeds_rules]: "(\<And>x. x \<in> set xs \<Longrightarrow> succeeds I (f x)) \<Longrightarrow> succeeds I (for_each f xs)"
  by (induction xs) (auto intro!: succeeds_rules)

lemma succeeds_if [succeeds_rules]:
  "(b \<Longrightarrow> succeeds I m) \<Longrightarrow> (\<not> b \<Longrightarrow> succeeds I m') \<Longrightarrow> succeeds I (if b then m else m')"
  by simp

lemma succeeds_option [succeeds_rules]:
  "(x = None \<Longrightarrow> succeeds I m) \<Longrightarrow> (\<And>y. x = Some y \<Longrightarrow> succeeds I (f y)) \<Longrightarrow>
   succeeds I (case x of None \<Rightarrow> m | Some y \<Rightarrow> f y)"
  by (cases x) auto

lemma succeeds_list [succeeds_rules]:
  "(xs = [] \<Longrightarrow> succeeds I m) \<Longrightarrow> (\<And>y ys. xs = y # ys \<Longrightarrow> succeeds I (f y ys)) \<Longrightarrow>
   succeeds I (case xs of [] \<Rightarrow> m | y # ys \<Rightarrow> f y ys)"
  by (cases xs) auto

section \<open>Nobody else controls the footprint\<close>

definition ready :: "'s look \<Rightarrow> string \<Rightarrow> okey set \<Rightarrow> okey \<Rightarrow> 's \<Rightarrow> bool" where
  "ready look uid A cr s = ((\<forall>K \<in> A. was_claimable uid (look s K)) \<and> look s cr \<noteq> None)"

definition harmless :: "string \<Rightarrow> wop \<Rightarrow> kobj \<Rightarrow> bool" where
  "harmless uid w x =
     (case w of WCreate \<Rightarrow> obj_owner x = None | WApply \<Rightarrow> obj_owner x = Some uid | WStatus \<Rightarrow> True | WDelete \<Rightarrow> False)"

lemma ready_upd:
  "ready look uid A cr s \<Longrightarrow> look s' = (look s)(K \<mapsto> y) \<Longrightarrow> was_claimable uid (Some y) \<or> K \<notin> A \<Longrightarrow> ready look uid A cr s'"
  by (auto simp: ready_def)

lemma ready_same: "look s' = look s \<Longrightarrow> ready look uid A cr s \<Longrightarrow> ready look uid A cr s'"
  by (simp add: ready_def)

lemma env_keeps_ready:
  assumes law: "store_law E look"
  shows "env_keeps E (harmless uid) (ready look uid A cr)"
proof -
  let ?I = "ready look uid A cr"
  note rl = store_lawD(2) [OF law, unfolded read_law_def]
  have reads: "look (snd (m s)) = look s \<Longrightarrow> ?I s \<Longrightarrow> ?I (snd (m s))" for m :: "('a, 'b) op" and s
    by (rule ready_same)
  have create: "?I (snd (api_Create E x s))" if "obj_owner x = None" "?I s" for x s
    by (rule create_cases [OF law, of x s "fst (api_Create E x s)" "snd (api_Create E x s)"])
      (use that in \<open>auto intro: ready_same ready_upd simp: was_claimable_def claimable_def persisted_def\<close>)
  have status: "?I (snd (api_StatusUpdate E x s))" if I: "?I s" for x s
  proof (rule status_cases [OF law, of x s "fst (api_StatusUpdate E x s)" "snd (api_StatusUpdate E x s)"])
    fix l assume "look s (obj_key x) = Some l" and u: "look (snd (api_StatusUpdate E x s)) = (look s)(obj_key x \<mapsto> set_status l x)"
    with I have "was_claimable uid (Some (set_status l x)) \<or> obj_key x \<notin> A"
      by (auto simp: ready_def was_claimable_def claimable_def)
    then show ?thesis by (rule ready_upd [OF I u])
  qed (auto intro: ready_same I)
  have applied: "?I (snd (api_CreateOrUpdate E x f s))"
    if ok: "\<And>l l'. obj_key l = obj_key x \<Longrightarrow> f l = Inr l' \<Longrightarrow> obj_key l' = obj_key l \<Longrightarrow> harmless uid WApply l' \<and> claims l l'"
      and I: "?I s" for x f s
  proof (rule apply_cases [OF law, of x f s "fst (api_CreateOrUpdate E x f s)" "snd (api_CreateOrUpdate E x f s)"])
    fix l l' y assume "obj_key l = obj_key x" "f l = Inr l'" "obj_key l' = obj_key x" "persisted l' y"
      and u: "look (snd (api_CreateOrUpdate E x f s)) = (look s)(obj_key x \<mapsto> y)"
    with ok [of l l'] have "was_claimable uid (Some y) \<or> obj_key x \<notin> A"
      by (simp add: harmless_def persisted_def was_claimable_def claimable_def)
    then show ?thesis by (rule ready_upd [OF I u])
  qed (auto intro: ready_same I)
  show ?thesis
    unfolding env_keeps_def keeps_def
    using rl create status applied get_look [OF law] by (simp add: harmless_def reads ready_same)
qed

lemma harmless_covers: "covers (harmless uid) uid K"
  by (simp add: covers_def harmless_def)

section \<open>The shared steps\<close>

definition answers :: "'s env \<Rightarrow> 's look \<Rightarrow> bool" where
  "answers E look = (store_law E look \<and> up_law E look)"

lemma answersD:
  assumes "answers E look"
  shows "store_law E look" "up_law E look" "scr_law E" "env_keeps E (harmless uid) (ready look uid A cr)"
  using assms env_keeps_ready store_lawD(1) unfolding answers_def by blast+

lemma succeeds_reconcileResource:
  assumes E: "answers E look" and obj: "obj_key obj \<in> A" "obj_owner obj = None"
  shows "succeeds (ready look (om_UID owner) A cr) (reconcileResource E owner obj)"
proof (rule succeedsI [OF keeps_reconcileResource [OF answersD(4,3) [OF E] harmless_covers]])
  let ?u = "om_UID owner"
  fix s assume I: "ready look ?u A cr s"
  have scr: "claimable ?u x \<Longrightarrow> api_SetControllerReference E owner x = Inr (set_owner ?u x)" for x
    using up_lawD(5) [OF answersD(2) [OF E], of owner x] scr_lawD [OF answersD(3) [OF E], of owner x] by auto
  let ?o = "set_owner ?u obj"
  let ?l = "case look s (obj_key ?o) of None \<Rightarrow> ?o | Some l \<Rightarrow> l"
  have "claimable ?u ?l" using I obj(1) by (auto simp: ready_def was_claimable_def claimable_def split: option.split)
  moreover have "obj_key ?l = obj_key obj"
    using store_lawD(4) [OF answersD(1) [OF E], of s "obj_key obj"] by (auto split: option.split)
  ultimately have "fst (api_CreateOrUpdate E ?o (buildMutateFn E owner ?o) s) = Inr ()"
    by (intro up_lawD(3) [OF answersD(2) [OF E], where l' = "set_owner ?u (applyDesired ?o ?l)"])
      (simp_all add: buildMutateFn_def scr claimable_def)
  moreover have "api_SetControllerReference E owner obj = Inr ?o" by (rule scr) (simp add: claimable_def obj(2))
  ultimately show "\<exists>x. fst (reconcileResource E owner obj s) = Inr x"
    by (cases "api_CreateOrUpdate E ?o (buildMutateFn E owner ?o) s") (simp add: reconcileResource_def seq_def wrap_err_def lift_def)
qed

lemma succeeds_reconcile_as:
  "answers E look \<Longrightarrow> obj_key obj \<in> A \<Longrightarrow> obj_owner obj = None \<Longrightarrow>
   succeeds (ready look (om_UID owner) A cr) (reconcile_as what E owner obj)"
  unfolding reconcile_as_def by (intro succeeds_rules succeeds_reconcileResource)

lemma succeeds_Now: "answers E look \<Longrightarrow> succeeds (ready look u A cr) (env_Now E)"
  by (rule succeedsI [OF keeps_env(3)], erule answersD(4)) (auto dest: answersD(2) up_lawD(6))

lemma succeeds_RandRead: "answers E look \<Longrightarrow> succeeds (ready look u A cr) (env_RandRead E n)"
  by (rule succeedsI [OF keeps_env(4)], erule answersD(4)) (auto dest: answersD(2) up_lawD(7))

lemma succeeds_status:
  assumes "answers E look" "obj_key x = cr"
  shows "succeeds (ready look u A cr) (api_StatusUpdate E x)"
proof (rule succeedsI)
  show "keeps (ready look u A cr) (api_StatusUpdate E x)"
    by (rule keeps_env(8) [OF answersD(4) [OF assms(1)]]) (simp add: harmless_def)
  show "\<exists>r. fst (api_StatusUpdate E x s) = Inr r" if "ready look u A cr s" for s
    using that assms(2) by (intro exI, rule_tac up_lawD(4) [OF answersD(2) [OF assms(1)]]) (simp add: ready_def)
qed

lemma succeeds_event: "answers E look \<Longrightarrow> succeeds (ready look u A cr) (event E obj t r m)"
  by (rule succeedsI [OF keeps_event], erule answersD(4)) (simp add: event_def modify_def)

lemma succeeds_setConditionNow: "answers E look \<Longrightarrow> succeeds (ready look u A cr) (setConditionNow E cs t st r m)"
  unfolding setConditionNow_def by (intro succeeds_rules succeeds_Now)

lemma succeeds_markConfigValid: "answers E look \<Longrightarrow> succeeds (ready look u A cr) (markConfigValid E st)"
  unfolding markConfigValid_def by (intro succeeds_rules succeeds_setConditionNow)

lemma succeeds_setReadyStatus: "answers E look \<Longrightarrow> succeeds (ready look u A cr) (setReadyStatus E a b st)"
  unfolding setReadyStatus_def by (intro succeeds_rules succeeds_Now)

lemma succeeds_writeReadyStatus:
  "answers E look \<Longrightarrow> (\<And>st. obj_key (wr st) = cr) \<Longrightarrow> succeeds (ready look u A cr) (writeReadyStatus E wr a b st)"
  unfolding writeReadyStatus_def by (intro succeeds_rules succeeds_setReadyStatus succeeds_status)

lemma succeeds_readyReplicasOf: "answers E look \<Longrightarrow> succeeds (ready look u A cr) (readyReplicasOf E k sel r ns n)"
  unfolding readyReplicasOf_def by (intro succeeds_rules keeps_get_as) (rule answersD)

lemma succeeds_bindSCC: "answers E look \<Longrightarrow> succeeds (ready look u A cr) (bindSCC E owner)"
  unfolding bindSCC_def ensureSCCRoleBinding_def ignore_exists_def
  by (intro succeeds_rules keeps_rules keeps_env(1) [OF answersD(4)] keeps_env(6) [OF answersD(4)])
    (auto simp: harmless_def scc_binding_def obj_owner_def object_meta_def zero_ObjectMeta_def Let_def)

lemma succeeds_resolveStorkServer: "answers E look \<Longrightarrow> succeeds (ready look u A cr) (resolveStorkServer E ns ref)"
  unfolding resolveStorkServer_def
  by (intro succeeds_rules)
    (auto intro!: succeeds_rules keeps_get_as keeps_env(2) answersD(4) split: sum.split)

text \<open>The sidecar's parameters: a missing Stork server or token is never an error.\<close>

lemma succeeds_resolveStorkAgent:
  assumes "answers E look"
  shows "succeeds (ready look u A cr) (resolveStorkAgent E ns cfg)"
proof -
  have lift: "succeeds I (lift (ResolveStorkParams (Some c) t))" for I c t
    by (simp add: succeeds_def lift_def ResolveStorkParams_def)
  show ?thesis
    unfolding resolveStorkAgent_def
    by (intro succeeds_rules succeeds_resolveStorkServer [OF assms] lift keeps_resolveSecretValue [OF answersD(4) [OF assms]])
qed

lemma owner_BuildX [simp]:
  "obj_owner (OService (BuildService p)) = None" "obj_owner (OService (BuildHeadlessService p)) = None"
  "obj_owner (OService (BuildPerPodService p i)) = None" "obj_owner (OService (BuildStorkMetricsService q)) = None"
  "obj_owner (OPodMonitor (BuildPodMonitor ns cr co)) = None" "obj_owner (OServiceAccount (BuildServiceAccount ns cr lbls)) = None"
  "obj_owner (OConfigMap (BuildConfigMap ns cr co js lbls)) = None" "obj_owner (ODeployment (BuildDeployment d)) = None"
  "obj_owner (OStatefulSet (BuildStatefulSet h a st)) = None"
  by (simp_all add: obj_owner_def BuildService_def BuildHeadlessService_def BuildPerPodService_def BuildStorkMetricsService_def
      BuildPodMonitor_def BuildServiceAccount_def BuildConfigMap_def BuildDeployment_def BuildStatefulSet_def
      object_meta_def zero_ObjectMeta_def Let_def)

lemma succeeds_reconcileControlService:
  "answers E look \<Longrightarrow> (KService, om_Namespace meta, ServiceName (om_Name meta) co) \<in> A \<Longrightarrow>
   succeeds (ready look (om_UID meta) A cr) (reconcileControlService E meta sock co)"
  unfolding reconcileControlService_def by (intro succeeds_rules succeeds_reconcile_as) simp_all

lemma succeeds_reconcileStorkMonitoring:
  assumes E: "answers E look" and A: "stork_keys meta co \<subseteq> A"
  shows "succeeds (ready look (om_UID meta) A cr) (reconcileStorkMonitoring E meta co agent)"
  unfolding reconcileStorkMonitoring_def
  using A
  by (intro succeeds_rules succeeds_reconcile_as [OF E] keeps_reconcileRoute [OF answersD(4,3) [OF E] harmless_covers]
      keeps_reconcileResource [OF answersD(4,3) [OF E] harmless_covers])
    (simp_all add: stork_keys_def)

section \<open>The contract\<close>

text \<open>
  A component controller whose body succeeds for the resources that satisfy \<open>sound\<close>, a condition on
  the environment's pure functions and the spec alone. The whole \<^verbatim>\<open>Reconcile\<close> then returns without
  error, and leaves a state it would again succeed from.
\<close>

locale live_controller = component_controller kd sel meta wr foot body
  for kd :: okind and sel :: "kobj \<Rightarrow> 'a option" and meta :: "'a \<Rightarrow> ObjectMeta" and wr :: "'a \<Rightarrow> 'st \<Rightarrow> kobj"
    and foot :: "'a \<Rightarrow> okey set" and body :: "'s env \<Rightarrow> 'a \<Rightarrow> ('s, unit) op" +
  fixes sound :: "'s env \<Rightarrow> 'a \<Rightarrow> bool"
  assumes body_succeeds: "answers E look \<Longrightarrow> sound E cr \<Longrightarrow>
    succeeds (ready look (om_UID (meta cr)) (foot cr) (kd, om_Namespace (meta cr), om_Name (meta cr))) (body E cr)"
begin

lemma reconcile_succeeds:
  assumes E: "answers E look" and x: "look s (kd, ns, n) = Some x" "sel x = Some cr" and "sound E cr"
    and free: "\<forall>K \<in> foot cr. was_claimable (om_UID (meta cr)) (look s K)"
  shows "\<exists>s'. fetch_and E kd sel (body E) ns n s = (Inr (), s') \<and> (\<forall>K \<in> foot cr. was_claimable (om_UID (meta cr)) (look s' K))"
proof -
  obtain s1 where g: "api_Get E kd ns n s = (Inr x, s1)"
    using up_lawD(1) [OF answersD(2) [OF E] x(1)] by (metis prod.collapse)
  have same: "look s1 = look s" using get_look [OF answersD(1) [OF E], of kd ns n s] g by simp
  have key: "om_Namespace (meta cr) = ns" "om_Name (meta cr) = n"
    using store_lawD(4) [OF answersD(1) [OF E] x(1)] sel_meta [OF x(2)] by (simp_all add: obj_key_def)
  have "ready look (om_UID (meta cr)) (foot cr) (kd, ns, n) s1" using free x(1) by (simp add: ready_def same)
  from succeedsD [OF body_succeeds [OF E assms(4), unfolded key] this] g x(2)
  show ?thesis by (auto simp: fetch_and_def get_as_def seq_def attempt_def decode_def ret_def ready_def)
qed

end

end
