(* ===== verification/MemEnv.thy ===== *)
theory MemEnv
  imports Progress
begin

text \<open>
  A concrete environment: an in-memory store with a counting clock, a constant random source
  and an event log. It satisfies the laws the properties assume of the API server, and the
  closed examples run the reconcilers on it.
\<close>

record mem =
  mem_objs :: "kobj list"
  mem_clock :: nat
  mem_events :: "(okey \<times> string \<times> string) list"

definition mem_look :: "mem look" where
  "mem_look s K = List.find (\<lambda>x. obj_key x = K) (mem_objs s)"

definition mem_del :: "okey \<Rightarrow> mem \<Rightarrow> mem" where
  "mem_del K s = s\<lparr>mem_objs := filter (\<lambda>x. obj_key x \<noteq> K) (mem_objs s)\<rparr>"

definition mem_put :: "kobj \<Rightarrow> mem \<Rightarrow> mem" where
  "mem_put x s = s\<lparr>mem_objs := x # filter (\<lambda>y. obj_key y \<noteq> obj_key x) (mem_objs s)\<rparr>"

definition mem_Get :: "okind \<Rightarrow> string \<Rightarrow> string \<Rightarrow> (mem, kobj) op" where
  "mem_Get k ns n s = (case mem_look s (k, ns, n) of None \<Rightarrow> (Inl NotFound, s) | Some x \<Rightarrow> (Inr x, s))"

text \<open>A list is in the order of the store's keys.\<close>

definition mem_keys :: "okind \<Rightarrow> string \<Rightarrow> mem \<Rightarrow> okey list" where
  "mem_keys k ns s = remdups (filter (\<lambda>K. fst K = k \<and> fst (snd K) = ns) (map obj_key (mem_objs s)))"

definition mem_List :: "okind \<Rightarrow> string \<Rightarrow> (mem, kobj list) op" where
  "mem_List k ns s = (Inr (List.map_filter (mem_look s) (mem_keys k ns s)), s)"

definition mem_Create :: "kobj \<Rightarrow> (mem, unit) op" where
  "mem_Create x s = (case mem_look s (obj_key x) of Some _ \<Rightarrow> (Inl AlreadyExists, s) | None \<Rightarrow> (Inr (), mem_put x s))"

definition mem_Delete :: "kobj \<Rightarrow> (mem, unit) op" where
  "mem_Delete x s = (case mem_look s (obj_key x) of None \<Rightarrow> (Inl NotFound, s) | Some _ \<Rightarrow> (Inr (), mem_del (obj_key x) s))"

definition mem_StatusUpdate :: "kobj \<Rightarrow> (mem, unit) op" where
  "mem_StatusUpdate x s =
     (case mem_look s (obj_key x) of None \<Rightarrow> (Inl NotFound, s) | Some l \<Rightarrow> (Inr (), mem_put (set_status l x) s))"

definition mem_CreateOrUpdate :: "kobj \<Rightarrow> (kobj \<Rightarrow> goerror + kobj) \<Rightarrow> (mem, unit) op" where
  "mem_CreateOrUpdate x f s =
     (case f (case mem_look s (obj_key x) of None \<Rightarrow> x | Some l \<Rightarrow> l) of
        Inl e \<Rightarrow> (Inl e, s)
      | Inr l' \<Rightarrow> if obj_key l' = obj_key x then (Inr (), mem_put l' s) else (Inl (Errorf ''key changed''), s))"

definition mem_SetControllerReference :: "ObjectMeta \<Rightarrow> kobj \<Rightarrow> goerror + kobj" where
  "mem_SetControllerReference m x =
     (if obj_owner x = None \<or> obj_owner x = Some (om_UID m) then Inr (set_owner (om_UID m) x) else Inl AlreadyOwned)"

definition mem_env :: "bool \<Rightarrow> mem env" where
  "mem_env openshift =
     \<lparr>api_Get = mem_Get, api_List = mem_List, api_Create = mem_Create, api_Delete = mem_Delete,
      api_StatusUpdate = mem_StatusUpdate, api_CreateOrUpdate = mem_CreateOrUpdate,
      api_SetControllerReference = mem_SetControllerReference,
      api_Event = (\<lambda>x t r m s. s\<lparr>mem_events := mem_events s @ [(obj_key x, t, r)]\<rparr>),
      env_Now = (\<lambda>s. (Inr (dec_nat (mem_clock s)), s\<lparr>mem_clock := Suc (mem_clock s)\<rparr>)),
      env_RandRead = (\<lambda>n s. (Inr (replicate n 0), s)),
      env_IsOpenShift = openshift, env_Unmarshal = (\<lambda>_. None), env_ErrorText = (\<lambda>_. ''error''),
      env_URLHostname = (\<lambda>_. None), env_HostOrder = id, env_AddrOrder = id\<rparr>"

definition mem_init :: "kobj list \<Rightarrow> mem" where
  "mem_init xs = \<lparr>mem_objs = xs, mem_clock = 0, mem_events = []\<rparr>"

lemmas mem_env_simps = mem_env_def mem_Get_def mem_List_def mem_Create_def mem_Delete_def mem_StatusUpdate_def
  mem_CreateOrUpdate_def mem_SetControllerReference_def

lemma find_filter: "List.find P (filter Q xs) = List.find (\<lambda>x. Q x \<and> P x) xs"
  by (induction xs) auto

lemma find_key_other: "K' \<noteq> K \<Longrightarrow> List.find (\<lambda>x. obj_key x \<noteq> K \<and> obj_key x = K') xs = List.find (\<lambda>x. obj_key x = K') xs"
  by (induction xs) auto

lemma mem_look_del: "mem_look (mem_del K s) = (mem_look s)(K := None)"
  by (rule ext) (auto simp: mem_look_def mem_del_def find_filter find_key_other find_None_iff)

lemma mem_look_put: "mem_look (mem_put x s) = (mem_look s)(obj_key x \<mapsto> x)"
  by (rule ext) (auto simp: mem_look_def mem_put_def find_filter find_key_other)

lemma mem_look_key: "mem_look s K = Some x \<Longrightarrow> obj_key x = K"
  by (auto simp: mem_look_def find_Some_iff)

lemma persisted_refl: "persisted x x"
  by (cases x) (simp_all add: persisted_def same_content_def same_template_def)

lemma mem_look_upd [simp]: "mem_look (s\<lparr>mem_clock := c\<rparr>) = mem_look s" "mem_look (s\<lparr>mem_events := e\<rparr>) = mem_look s"
  by (auto simp: mem_look_def)

lemma mem_store_law: "store_law (mem_env b) mem_look"
proof -
  have 1: "scr_law (mem_env b)" by (auto simp: scr_law_def claimable_def mem_env_simps split: if_splits)
  have 2: "read_law (mem_env b) mem_look"
    by (auto simp: read_law_def mem_env_simps dest: mem_look_key split: option.splits)
  have 3: "write_law (mem_env b) mem_look"
    unfolding write_law_def
  proof (intro conjI allI impI)
    fix x s r s' assume "api_Create (mem_env b) x s = (r, s')"
    then show "case r of Inl _ \<Rightarrow> mem_look s' = mem_look s
      | Inr _ \<Rightarrow> mem_look s (obj_key x) = None \<and> (\<exists>y. persisted x y \<and> mem_look s' = (mem_look s)(obj_key x \<mapsto> y))"
      by (fastforce simp: mem_env_simps mem_look_put split: option.splits intro: persisted_refl)
  next
    fix x s r s' assume "api_Delete (mem_env b) x s = (r, s')"
    then show "case r of Inl _ \<Rightarrow> mem_look s' = mem_look s | Inr _ \<Rightarrow> mem_look s' = (mem_look s)(obj_key x := None)"
      by (auto simp: mem_env_simps mem_look_del split: option.splits)
  next
    fix x s r s' assume "api_StatusUpdate (mem_env b) x s = (r, s')"
    then show "case r of Inl _ \<Rightarrow> mem_look s' = mem_look s
      | Inr _ \<Rightarrow> \<exists>l. mem_look s (obj_key x) = Some l \<and> mem_look s' = (mem_look s)(obj_key x \<mapsto> set_status l x)"
      by (auto simp: mem_env_simps mem_look_put mem_look_key split: option.splits)
  next
    fix x f s r s' assume "api_CreateOrUpdate (mem_env b) x f s = (r, s')"
    then show "case r of Inl _ \<Rightarrow> mem_look s' = mem_look s
      | Inr _ \<Rightarrow> \<exists>l' y. f (case mem_look s (obj_key x) of None \<Rightarrow> x | Some l \<Rightarrow> l) = Inr l' \<and> obj_key l' = obj_key x
          \<and> persisted l' y \<and> mem_look s' = (mem_look s)(obj_key x \<mapsto> y)"
      by (cases "f (case mem_look s (obj_key x) of None \<Rightarrow> x | Some l \<Rightarrow> l)")
        (fastforce simp: mem_env_simps mem_look_put split: if_splits intro: persisted_refl)+
  qed
  from 1 2 3 show ?thesis by (auto simp: store_law_def mem_look_key)
qed

lemma mem_up_law: "up_law (mem_env b) mem_look"
  by (auto simp: up_law_def mem_env_simps claimable_def split: option.splits)

lemma mem_look_keys: "mem_look s (k, ns, n) = Some x \<Longrightarrow> (k, ns, n) \<in> set (mem_keys k ns s)"
  unfolding mem_look_def mem_keys_def by (force simp: find_Some_iff image_iff in_set_conv_nth)

lemma set_map_filter: "x \<in> set (List.map_filter f Ks) \<longleftrightarrow> (\<exists>K \<in> set Ks. f K = Some x)"
  by (induction Ks) (auto simp: map_filter_simps split: option.split)

lemma distinct_map_filter:
  assumes inv: "\<And>K x. f K = Some x \<Longrightarrow> g x = K"
  shows "distinct Ks \<Longrightarrow> distinct (List.map_filter f Ks)"
proof (induction Ks)
  case (Cons K Ks)
  then have "x \<notin> set (List.map_filter f Ks)" if "f K = Some x" for x
    using inv [OF that] by (auto simp: set_map_filter dest: inv)
  with Cons show ?case by (auto simp: map_filter_simps split: option.split)
qed (simp add: map_filter_simps)

lemma mem_list_law: "list_law (mem_env b) mem_look"
  unfolding list_law_def
proof (intro allI exI conjI)
  fix k ns s
  show "fst (api_List (mem_env b) k ns s) = Inr (List.map_filter (mem_look s) (mem_keys k ns s))"
    by (simp add: mem_env_simps)
  show "distinct (List.map_filter (mem_look s) (mem_keys k ns s))"
    by (rule distinct_map_filter [where g = obj_key]) (simp_all add: mem_keys_def mem_look_key)
  show "set (List.map_filter (mem_look s) (mem_keys k ns s)) = {x. \<exists>n. mem_look s (k, ns, n) = Some x}"
  proof (intro set_eqI iffI)
    fix x assume "x \<in> {x. \<exists>n. mem_look s (k, ns, n) = Some x}"
    then obtain n where "mem_look s (k, ns, n) = Some x" by blast
    with mem_look_keys [OF this] show "x \<in> set (List.map_filter (mem_look s) (mem_keys k ns s))"
      by (auto simp: set_map_filter)
  next
    fix x assume "x \<in> set (List.map_filter (mem_look s) (mem_keys k ns s))"
    then obtain k' ns' n where "(k', ns', n) \<in> set (mem_keys k ns s)" "mem_look s (k', ns', n) = Some x"
      by (auto simp: set_map_filter)
    then show "x \<in> {x. \<exists>n. mem_look s (k, ns, n) = Some x}" by (auto simp: mem_keys_def)
  qed
qed

lemma mem_answers: "answers (mem_env b) mem_look"
  by (simp add: answers_def mem_store_law mem_up_law)

end
