(* ===== verification/Dhcp4Controller.thy ===== *)
theory Dhcp4Controller
  imports MemEnv
begin

text \<open>
  The reconciler of \<^verbatim>\<open>KeaDhcp4Server\<close> (\<^verbatim>\<open>src/internal/controller/keadhcp4server_controller.go\<close>):
  configuration per replica in HA mode, StatefulSet or Deployment, Services, Stork objects
  and status. The server argument is the reconciler's in-memory copy of the resource.
\<close>

definition nadInterface :: "KeaDhcp4Server \<Rightarrow> string" where
  "nadInterface server =
     (case List.find (\<lambda>iface. iface \<noteq> ''*'' \<and> iface \<noteq> ''eth0'' \<and> iface \<noteq> ''lo'')
             (case ic_Interfaces (d4_InterfacesConfig (kd4_Spec server)) of None \<Rightarrow> [] | Some is \<Rightarrow> is) of
        None \<Rightarrow> '''' | Some iface \<Rightarrow> iface)"

definition nadSubnet :: "KeaDhcp4Server \<Rightarrow> string" where
  "nadSubnet server = (case d4_Subnet4 (kd4_Spec server) of [] \<Rightarrow> '''' | s # _ \<Rightarrow> s4_Subnet s)"

definition resolveDhcp4PodParams :: "KeaDhcp4Server \<Rightarrow> podParams" where
  "resolveDhcp4PodParams server =
     (let spec = kd4_Spec server
      in resolvePodParams (d4_Container spec) (d4_HostNetwork spec) (d4_Placement spec)
           (Option.bind (d4_HighAvailability spec) ha_TLS))"

definition resolveDhcp4StorkAgent :: "'s env \<Rightarrow> KeaDhcp4Server \<Rightarrow> ('s, StorkSidecarParams option) op" where
  "resolveDhcp4StorkAgent E server =
     resolveStorkAgent E (om_Namespace (kd4_ObjectMeta server)) (d4_Stork (kd4_Spec server))"

section \<open>HA configuration\<close>

text \<open>The name of the server at an ordinal: the peer's, or a generated one past the list.\<close>

definition ha_server_name :: "HAPeer list \<Rightarrow> nat \<Rightarrow> string" where
  "ha_server_name peers i = (if i < length peers then peer_Name (peers ! i) else ''server'' @ dec_nat (i + 1))"

definition ha_config_map :: "ObjectMeta \<Rightarrow> string \<Rightarrow> labels \<Rightarrow> nat \<Rightarrow> string \<Rightarrow> ConfigMap" where
  "ha_config_map meta component lbls i configJSON =
     \<lparr>cm_Meta = ConfigMapMeta (HAConfigMapName (om_Name meta) component (int i)) (om_Namespace meta) lbls,
      cm_Data = map_lit [(ConfigFileName component, configJSON)]\<rparr>"

text \<open>
  The loop of \<^verbatim>\<open>reconcileHAConfigs\<close>; it gives the concatenated hashes. A failed rendering
  skips the ordinal, a failed write of the ConfigMap is only logged.
\<close>

fun ha_configs_loop ::
  "'s env \<Rightarrow> Dhcp4ConfigRenderer \<Rightarrow> ObjectMeta \<Rightarrow> HAPeer list \<Rightarrow> string \<Rightarrow> labels \<Rightarrow> nat list \<Rightarrow> string \<Rightarrow> ('s, string) op" where
  "ha_configs_loop E r meta peers component lbls [] combinedHash = ret combinedHash"
| "ha_configs_loop E r meta peers component lbls (i # is) combinedHash =
     (case RenderJSONWithServerName4 (env_Unmarshal E) r (ha_server_name peers i) of
        Inl err \<Rightarrow> ha_configs_loop E r meta peers component lbls is combinedHash
      | Inr configJSON \<Rightarrow>
          seq (attempt (reconcileResource E meta (OConfigMap (ha_config_map meta component lbls i configJSON)))) (\<lambda>_.
          ha_configs_loop E r meta peers component lbls is (combinedHash @ ComputeHash configJSON)))"

definition reconcileHAConfigs ::
  "'s env \<Rightarrow> Dhcp4ConfigRenderer \<Rightarrow> ObjectMeta \<Rightarrow> HAConfig \<Rightarrow> string \<Rightarrow> labels \<Rightarrow> int32 \<Rightarrow> ('s, string) op" where
  "reconcileHAConfigs E r meta ha component lbls replicas =
     seq (ha_configs_loop E r meta (ha_Peers ha) component lbls (ordinals replicas) '''')
       (\<lambda>combinedHash. ret (ComputeHash combinedHash))"

section \<open>Workloads\<close>

text \<open>
  The map from the hostnames in the peer URLs to the per-pod Services: a URL that does not
  parse is skipped, a hostname that is not valid ends the reconciliation.
\<close>

fun peer_hostnames ::
  "(string \<Rightarrow> string option) \<Rightarrow> ObjectMeta \<Rightarrow> string \<Rightarrow> (nat \<times> HAPeer) list \<Rightarrow> string strmap \<Rightarrow> goerror + string strmap" where
  "peer_hostnames hostname meta component [] m = Inr m"
| "peer_hostnames hostname meta component ((i, peer) # ps) m =
     (case hostname (peer_URL peer) of
        None \<Rightarrow> peer_hostnames hostname meta component ps m
      | Some headlessHostname \<Rightarrow>
          (case ValidateHostname headlessHostname of
             Some err \<Rightarrow> Inl (Wrap ''HA peer URL'' err)
           | None \<Rightarrow>
               peer_hostnames hostname meta component ps
                 (map_set m headlessHostname
                   (PerPodServiceName (om_Name meta) component (int i) @ ''.'' @ om_Namespace meta @ ''.svc.cluster.local''))))"

definition peer_addresses :: "HAPeer list \<Rightarrow> (int, string) gomap" where
  "peer_addresses peers =
     fold (\<lambda>(i, peer) m. if peer_Address peer \<noteq> '''' then map_set m (int i) (peer_Address peer) else m) (enumerate 0 peers) []"

definition ha_cm_names :: "ObjectMeta \<Rightarrow> string \<Rightarrow> int32 \<Rightarrow> (int, string) gomap" where
  "ha_cm_names meta component replicas =
     fold (\<lambda>i m. map_set m (int i) (HAConfigMapName (om_Name meta) component (int i))) (ordinals replicas) []"

definition ha_statefulset_params ::
  "KeaDhcp4Server \<Rightarrow> string \<Rightarrow> podParams \<Rightarrow> int32 \<Rightarrow> string \<Rightarrow> EnvVar list \<Rightarrow> StorkSidecarParams option \<Rightarrow>
   HAPeer list \<Rightarrow> string strmap \<Rightarrow> StatefulSetParams" where
  "ha_statefulset_params server component pp replicas configHash secretEnvVars storkAgent peers peerHostnameMap =
     (let meta = kd4_ObjectMeta server; ctr = d4_Container (kd4_Spec server)
      in zero_StatefulSetParams
       \<lparr>stp_Namespace := om_Namespace meta, stp_CRName := om_Name meta, stp_Component := component,
        stp_Command := DefaultCommandForComponent component, stp_ConfigFileName := ConfigFileName component,
        stp_Image := pod_image pp, stp_ImagePullPolicy := ctr_ImagePullPolicy ctr, stp_Replicas := Some replicas,
        stp_Resources := ctr_Resources ctr, stp_HostNetwork := pod_hostNetwork pp, stp_NodeSelector := pod_nodeSelector pp,
        stp_Tolerations := pod_tolerations pp, stp_Affinity := pod_affinity pp, stp_TLSSecretName := pod_tlsSecretName pp,
        stp_ServiceAccountName := ServiceAccountName (om_Name meta), stp_ConfigHash := configHash,
        stp_ImagePullSecrets := ctr_ImagePullSecrets ctr, stp_PodAnnotations := pod_podAnnotations pp,
        stp_ConfigMapNames := ha_cm_names meta component replicas, stp_PeerHostnameMap := peerHostnameMap,
        stp_NADInterface := nadInterface server, stp_NADSubnet := nadSubnet server,
        stp_PeerAddresses := peer_addresses peers, stp_StorkAgent := storkAgent, stp_SecretEnvVars := secretEnvVars\<rparr>)"

definition reconcileDhcp4HAWorkload ::
  "'s env \<Rightarrow> KeaDhcp4Server \<Rightarrow> string \<Rightarrow> podParams \<Rightarrow> int32 \<Rightarrow> string \<Rightarrow> EnvVar list \<Rightarrow> StorkSidecarParams option \<Rightarrow>
   HAConfig \<Rightarrow> ('s, int32) op" where
  "reconcileDhcp4HAWorkload E server component pp replicas configHash secretEnvVars storkAgent ha =
     (let meta = kd4_ObjectMeta server;
          haPort = control_port (d4_ControlSocket (kd4_Spec server));
          svcParams = service_params meta component haPort ''TCP''
      in seq (reconcile_as ''headless Service'' E meta (OService (BuildHeadlessService svcParams))) (\<lambda>_.
         seq (for_each (\<lambda>i. reconcile_as ''per-pod Service'' E meta (OService (BuildPerPodService svcParams (int i))))
                (ordinals replicas)) (\<lambda>_.
         seq (lift (peer_hostnames (env_URLHostname E) meta component (enumerate 0 (ha_Peers ha)) [])) (\<lambda>peerHostnameMap.
         seq (reconcile_as ''StatefulSet'' E meta
                (OStatefulSet (BuildStatefulSet (env_HostOrder E) (env_AddrOrder E)
                   (ha_statefulset_params server component pp replicas configHash secretEnvVars storkAgent (ha_Peers ha) peerHostnameMap)))) (\<lambda>_.
         readyReplicasOf E KStatefulSet as_statefulset ste_ReadyReplicas (om_Namespace meta) (StatefulSetName (om_Name meta) component))))))"

definition reconcileDhcp4Deployment ::
  "'s env \<Rightarrow> KeaDhcp4Server \<Rightarrow> string \<Rightarrow> podParams \<Rightarrow> int32 \<Rightarrow> string \<Rightarrow> EnvVar list \<Rightarrow> StorkSidecarParams option \<Rightarrow> ('s, int32) op" where
  "reconcileDhcp4Deployment E server component pp replicas configHash secretEnvVars storkAgent =
     (let meta = kd4_ObjectMeta server;
          dp = (deployment_params meta component (d4_Container (kd4_Spec server)) pp replicas configHash secretEnvVars)
                 \<lparr>dp_NADInterface := nadInterface server, dp_NADSubnet := nadSubnet server, dp_StorkAgent := storkAgent\<rparr>
      in seq (reconcile_as ''Deployment'' E meta (ODeployment (BuildDeployment dp))) (\<lambda>_.
         readyReplicasOf E KDeployment as_deployment dep_ReadyReplicas (om_Namespace meta) (DeploymentName (om_Name meta) component)))"

definition reconcileDhcp4Workload ::
  "'s env \<Rightarrow> KeaDhcp4Server \<Rightarrow> string \<Rightarrow> podParams \<Rightarrow> int32 \<Rightarrow> string \<Rightarrow> EnvVar list \<Rightarrow> StorkSidecarParams option \<Rightarrow> ('s, int32) op" where
  "reconcileDhcp4Workload E server component pp replicas configHash secretEnvVars storkAgent =
     (case d4_HighAvailability (kd4_Spec server) of
        Some ha \<Rightarrow> reconcileDhcp4HAWorkload E server component pp replicas configHash secretEnvVars storkAgent ha
      | None \<Rightarrow> reconcileDhcp4Deployment E server component pp replicas configHash secretEnvVars storkAgent)"

definition reconcileDhcp4ControlService :: "'s env \<Rightarrow> KeaDhcp4Server \<Rightarrow> string \<Rightarrow> ('s, unit) op" where
  "reconcileDhcp4ControlService E server component =
     reconcileControlService E (kd4_ObjectMeta server) (d4_ControlSocket (kd4_Spec server)) component"

definition reconcileDhcp4StorkMonitoring :: "'s env \<Rightarrow> KeaDhcp4Server \<Rightarrow> string \<Rightarrow> StorkSidecarParams option \<Rightarrow> ('s, unit) op" where
  "reconcileDhcp4StorkMonitoring E server component storkAgent =
     reconcileStorkMonitoring E (kd4_ObjectMeta server) component storkAgent"

section \<open>Status\<close>

definition with_status4 :: "KeaDhcp4Server \<Rightarrow> KeaDhcp4ServerStatus \<Rightarrow> kobj" where
  "with_status4 server st = ODhcp4 (server\<lparr>kd4_Status := st\<rparr>)"

definition updateDhcp4Status ::
  "'s env \<Rightarrow> KeaDhcp4Server \<Rightarrow> KeaDhcp4ServerStatus \<Rightarrow> string \<Rightarrow> string \<Rightarrow> int32 \<Rightarrow> int32 \<Rightarrow> ('s, KeaDhcp4ServerStatus) op" where
  "updateDhcp4Status E server st component configHash readyReplicas replicas =
     seq (lift (computeNADAddresses (nadSubnet server) (sint replicas))) (\<lambda>addrs.
     writeReadyStatus E (with_status4 server) readyReplicas replicas
       ((component_status (kd4_ObjectMeta server) component configHash readyReplicas st)\<lparr>d4st_NADAddresses := addrs\<rparr>))"

section \<open>Reconcile\<close>

text \<open>Step 2: the in-memory copy with its peer URLs filled in.\<close>

definition fill_server4 :: "KeaDhcp4Server \<Rightarrow> KeaDhcp4Server" where
  "fill_server4 server =
     (let meta = kd4_ObjectMeta server; spec = kd4_Spec server
      in server\<lparr>kd4_Spec := spec\<lparr>d4_HighAvailability :=
           fillPeerURLs (d4_HighAvailability spec) (om_Namespace meta) (om_Name meta) ComponentDhcp4
             (control_port (d4_ControlSocket spec))\<rparr>\<rparr>)"

text \<open>Step 4: the configuration; gives its hash.\<close>

definition reconcileDhcp4Config ::
  "'s env \<Rightarrow> KeaDhcp4Server \<Rightarrow> Dhcp4ConfigRenderer \<Rightarrow> string \<Rightarrow> labels \<Rightarrow> int32 \<Rightarrow> ('s, string) op" where
  "reconcileDhcp4Config E server renderer component lbls replicas =
     (let meta = kd4_ObjectMeta server
      in case d4_HighAvailability (kd4_Spec server) of
           Some ha \<Rightarrow> reconcileHAConfigs E renderer meta ha component lbls replicas
         | None \<Rightarrow>
             (case RenderJSON4 (env_Unmarshal E) renderer of
                Inl err \<Rightarrow> renderErrorExit E (with_status4 server) (kd4_Status server) err
              | Inr configJSON \<Rightarrow>
                  seq (reconcile_as ''ConfigMap'' E meta
                         (OConfigMap (BuildConfigMap (om_Namespace meta) (om_Name meta) component configJSON lbls))) (\<lambda>_.
                  ret (ComputeHash configJSON))))"

text \<open>Steps 7 to 9 and the closing event.\<close>

definition publishDhcp4 ::
  "'s env \<Rightarrow> KeaDhcp4Server \<Rightarrow> KeaDhcp4ServerStatus \<Rightarrow> string \<Rightarrow> int32 \<Rightarrow> int32 \<Rightarrow> StorkSidecarParams option \<Rightarrow> ('s, unit) op" where
  "publishDhcp4 E server st configHash readyReplicas replicas storkAgent =
     (let component = ComponentDhcp4
      in seq (reconcileDhcp4ControlService E server component) (\<lambda>_.
         seq (reconcileDhcp4StorkMonitoring E server component storkAgent) (\<lambda>_.
         seq (updateDhcp4Status E server st component configHash readyReplicas replicas) (\<lambda>st'.
         event E (with_status4 server st') ''Normal'' ''Reconciled'' ''Successfully reconciled KeaDhcp4Server''))))"

text \<open>What follows the configuration: service account, SCC binding, sidecar and workload.\<close>

definition rolloutDhcp4 ::
  "'s env \<Rightarrow> KeaDhcp4Server \<Rightarrow> labels \<Rightarrow> int32 \<Rightarrow> EnvVar list \<Rightarrow> string \<Rightarrow> ('s, unit) op" where
  "rolloutDhcp4 E server lbls replicas secretEnvVars configHash =
     (let component = ComponentDhcp4; meta = kd4_ObjectMeta server
      in seq (markConfigValid E (kd4_Status server)) (\<lambda>st.
         seq (reconcile_as ''ServiceAccount'' E meta (OServiceAccount (BuildServiceAccount (om_Namespace meta) (om_Name meta) lbls))) (\<lambda>_.
         seq (bindSCC E meta) (\<lambda>_.
         seq (resolveDhcp4StorkAgent E server) (\<lambda>storkAgent.
         seq (reconcileDhcp4Workload E server component (resolveDhcp4PodParams server) replicas configHash secretEnvVars storkAgent) (\<lambda>readyReplicas.
         publishDhcp4 E server st configHash readyReplicas replicas storkAgent))))))"

definition reconcileDhcp4Server :: "'s env \<Rightarrow> KeaDhcp4Server \<Rightarrow> ('s, unit) op" where
  "reconcileDhcp4Server E fetched =
     (let component = ComponentDhcp4;
          lbls = CommonLabels (om_Name (kd4_ObjectMeta fetched)) component;
          replicas = replicas_or_one (d4_Replicas (kd4_Spec fetched));
          server = fill_server4 fetched;
          secretEnvVars = fst (dhcp4_renderer (kd4_Spec server));
          renderer = snd (dhcp4_renderer (kd4_Spec server))
      in seq (reconcileDhcp4Config E server renderer component lbls replicas)
           (rolloutDhcp4 E server lbls replicas secretEnvVars))"

definition ReconcileDhcp4 :: "'s env \<Rightarrow> string \<Rightarrow> string \<Rightarrow> ('s, unit) op" where
  "ReconcileDhcp4 E ns name = fetch_and E KDhcp4 as_dhcp4 (reconcileDhcp4Server E) ns name"

section \<open>What the reconciler writes\<close>

definition config_keys4 :: "KeaDhcp4Server \<Rightarrow> okey set" where
  "config_keys4 server =
     (let ns = om_Namespace (kd4_ObjectMeta server); n = om_Name (kd4_ObjectMeta server)
      in case d4_HighAvailability (kd4_Spec server) of
           None \<Rightarrow> {(KConfigMap, ns, ConfigMapName n ComponentDhcp4)}
         | Some _ \<Rightarrow> (\<lambda>i. (KConfigMap, ns, HAConfigMapName n ComponentDhcp4 (int i)))
                        ` set (ordinals (replicas_or_one (d4_Replicas (kd4_Spec server)))))"

definition workload_keys4 :: "KeaDhcp4Server \<Rightarrow> okey set" where
  "workload_keys4 server =
     (let ns = om_Namespace (kd4_ObjectMeta server); n = om_Name (kd4_ObjectMeta server)
      in case d4_HighAvailability (kd4_Spec server) of
           None \<Rightarrow> {(KDeployment, ns, DeploymentName n ComponentDhcp4)}
         | Some _ \<Rightarrow>
             {(KStatefulSet, ns, StatefulSetName n ComponentDhcp4), (KService, ns, HeadlessServiceName n ComponentDhcp4)}
             \<union> (\<lambda>i. (KService, ns, PerPodServiceName n ComponentDhcp4 (int i)))
                 ` set (ordinals (replicas_or_one (d4_Replicas (kd4_Spec server)))))"

definition publish_keys4 :: "KeaDhcp4Server \<Rightarrow> okey set" where
  "publish_keys4 server =
     {(KService, om_Namespace (kd4_ObjectMeta server), ServiceName (om_Name (kd4_ObjectMeta server)) ComponentDhcp4)}
     \<union> stork_keys (kd4_ObjectMeta server) ComponentDhcp4"

definition rollout_keys4 :: "KeaDhcp4Server \<Rightarrow> okey set" where
  "rollout_keys4 server =
     {(KServiceAccount, om_Namespace (kd4_ObjectMeta server), ServiceAccountName (om_Name (kd4_ObjectMeta server)))}
     \<union> workload_keys4 server \<union> publish_keys4 server"

definition footprint4 :: "KeaDhcp4Server \<Rightarrow> okey set" where
  "footprint4 server = config_keys4 server \<union> rollout_keys4 server"

lemma fill_server4_fields [simp]:
  "kd4_ObjectMeta (fill_server4 s) = kd4_ObjectMeta s" "kd4_Status (fill_server4 s) = kd4_Status s"
  "d4_Replicas (kd4_Spec (fill_server4 s)) = d4_Replicas (kd4_Spec s)"
  "d4_ControlSocket (kd4_Spec (fill_server4 s)) = d4_ControlSocket (kd4_Spec s)"
  "(d4_HighAvailability (kd4_Spec (fill_server4 s)) = None) = (d4_HighAvailability (kd4_Spec s) = None)"
  by (auto simp: fill_server4_def fillPeerURLs_def Let_def split: option.split)

lemma fill_server4_keys [simp]:
  "config_keys4 (fill_server4 s) = config_keys4 s" "rollout_keys4 (fill_server4 s) = rollout_keys4 s"
  "workload_keys4 (fill_server4 s) = workload_keys4 s" "publish_keys4 (fill_server4 s) = publish_keys4 s"
  by (auto simp: config_keys4_def rollout_keys4_def workload_keys4_def publish_keys4_def fill_server4_def fillPeerURLs_def Let_def
      split: option.split)

lemma keeps_ha_configs_loop:
  assumes "env_keeps E W I" "scr_law E"
    and "\<forall>i \<in> set is. covers W (om_UID meta) (KConfigMap, om_Namespace meta, HAConfigMapName (om_Name meta) co (int i))"
  shows "keeps I (ha_configs_loop E r meta peers co lbls is h)"
  using assms(3)
proof (induction "is" arbitrary: h)
  case Nil
  then show ?case by (simp add: keeps_ret)
next
  case (Cons i "is")
  then show ?case
    by (auto simp: ha_config_map_def ConfigMapMeta_def obj_key_def object_meta_def
        intro!: keeps_rules keeps_reconcileResource [OF assms(1,2)])
qed

lemma keeps_reconcileDhcp4Config:
  assumes "env_keeps E W I" "scr_law E" "\<And>st. W WStatus (with_status4 server st)"
    and "\<forall>K \<in> config_keys4 server. covers W (om_UID (kd4_ObjectMeta server)) K"
  shows "keeps I (reconcileDhcp4Config E server r ComponentDhcp4 lbls (replicas_or_one (d4_Replicas (kd4_Spec server))))"
  unfolding reconcileDhcp4Config_def reconcileHAConfigs_def Let_def
  using assms(4)
  by (intro keeps_rules keeps_ha_configs_loop [OF assms(1,2)] keeps_renderErrorExit [OF assms(1,3)] keeps_reconcile_as [OF assms(1,2)])
    (auto simp: config_keys4_def Let_def)

lemma keeps_reconcileDhcp4Workload:
  assumes "env_keeps E W I" "scr_law E"
    and "\<forall>K \<in> workload_keys4 server. covers W (om_UID (kd4_ObjectMeta server)) K"
  shows "keeps I (reconcileDhcp4Workload E server ComponentDhcp4 pp (replicas_or_one (d4_Replicas (kd4_Spec server))) h env agent)"
  unfolding reconcileDhcp4Workload_def reconcileDhcp4HAWorkload_def reconcileDhcp4Deployment_def Let_def
  using assms(3)
  by (intro keeps_rules keeps_readyReplicasOf [OF assms(1)] keeps_reconcile_as [OF assms(1,2)])
    (auto simp: workload_keys4_def Let_def ha_statefulset_params_def)

lemma keeps_publishDhcp4:
  assumes "env_keeps E W I" "scr_law E" "\<And>st. W WStatus (with_status4 server st)"
    and "\<forall>K \<in> publish_keys4 server. covers W (om_UID (kd4_ObjectMeta server)) K"
  shows "keeps I (publishDhcp4 E server st h a b agent)"
  unfolding publishDhcp4_def updateDhcp4Status_def reconcileDhcp4ControlService_def reconcileDhcp4StorkMonitoring_def Let_def
  using assms(4)
  by (intro keeps_rules keeps_writeReadyStatus [OF assms(1,3)] keeps_event [OF assms(1)]
      keeps_reconcileControlService [OF assms(1,2)] keeps_reconcileStorkMonitoring [OF assms(1,2)])
    (auto simp: publish_keys4_def)

lemma keeps_rolloutDhcp4:
  assumes mw: "may_write E W I (kd4_ObjectMeta server) (with_status4 server)"
    and fp: "\<forall>K \<in> rollout_keys4 server. covers W (om_UID (kd4_ObjectMeta server)) K"
  shows "keeps I (rolloutDhcp4 E server lbls (replicas_or_one (d4_Replicas (kd4_Spec server))) env h)"
proof -
  note E = may_writeD(1) [OF mw] and scr = may_writeD(2) [OF mw]
  show ?thesis
    unfolding rolloutDhcp4_def resolveDhcp4StorkAgent_def Let_def
    using fp
    by (intro keeps_rules keeps_markConfigValid [OF E] keeps_resolveStorkAgent [OF E] keeps_bindSCC [OF E] may_writeD(3) [OF mw]
        keeps_reconcile_as [OF E scr] keeps_reconcileDhcp4Workload [OF E scr] keeps_publishDhcp4 [OF E scr] may_writeD(4) [OF mw])
      (auto simp: rollout_keys4_def)
qed

lemma keeps_reconcileDhcp4Server:
  assumes mw: "may_write E W I (kd4_ObjectMeta server) (with_status4 (fill_server4 server))"
    and fp: "\<forall>K \<in> footprint4 server. covers W (om_UID (kd4_ObjectMeta server)) K"
  shows "keeps I (reconcileDhcp4Server E server)"
proof -
  let ?s = "fill_server4 server"
  note E = may_writeD(1) [OF mw] and scr = may_writeD(2) [OF mw]
  have 1: "keeps I (reconcileDhcp4Config E ?s r ComponentDhcp4 lbls (replicas_or_one (d4_Replicas (kd4_Spec server))))" for r lbls
    using keeps_reconcileDhcp4Config [OF E scr may_writeD(4) [OF mw], of r lbls] fp by (simp add: footprint4_def)
  have 2: "keeps I (rolloutDhcp4 E ?s lbls (replicas_or_one (d4_Replicas (kd4_Spec server))) env h)" for lbls env h
    using keeps_rolloutDhcp4 [of E W I ?s lbls env h] mw fp by (simp add: footprint4_def)
  show ?thesis unfolding reconcileDhcp4Server_def Let_def by (intro keeps_rules 1 2)
qed

section \<open>The contract\<close>

interpretation c4: component_controller KDhcp4 as_dhcp4 kd4_ObjectMeta "\<lambda>s. with_status4 (fill_server4 s)" footprint4 reconcileDhcp4Server
proof unfold_locales
  fix x cr assume "as_dhcp4 x = Some cr"
  then show "obj_meta x = kd4_ObjectMeta cr" by (cases x) (simp_all add: as_dhcp4_def)
next
  show "obj_key (with_status4 (fill_server4 cr) st) = (KDhcp4, om_Namespace (kd4_ObjectMeta cr), om_Name (kd4_ObjectMeta cr))" for cr st
    by (simp add: with_status4_def obj_key_def)
next
  fix E :: "'s env" and W I cr
  assume "may_write E W I (kd4_ObjectMeta cr) (with_status4 (fill_server4 cr))"
    and "\<forall>K \<in> footprint4 cr. covers W (om_UID (kd4_ObjectMeta cr)) K"
  then show "keeps I (reconcileDhcp4Server E cr)" by (rule keeps_reconcileDhcp4Server)
qed simp

section \<open>Progress\<close>

text \<open>The peers' hostnames, as the environment parses their URLs, pass validation.\<close>

definition peers_valid :: "(string \<Rightarrow> string option) \<Rightarrow> HAPeer list \<Rightarrow> bool" where
  "peers_valid hostname peers =
     list_all (\<lambda>p. case hostname (peer_URL p) of None \<Rightarrow> True | Some h \<Rightarrow> ValidateHostname h = None) peers"

definition sound4 :: "'s env \<Rightarrow> KeaDhcp4Server \<Rightarrow> bool" where
  "sound4 E cr =
     (0 \<le> sint (replicas_or_one (d4_Replicas (kd4_Spec cr)))
      \<and> (case d4_HighAvailability (kd4_Spec (fill_server4 cr)) of
           None \<Rightarrow> True | Some ha \<Rightarrow> peers_valid (env_URLHostname E) (ha_Peers ha)))"

lemma peer_hostnames_result:
  "(\<exists>m'. peer_hostnames hn meta co ps m = Inr m') = peers_valid hn (map snd ps)"
  by (induction hn meta co ps m rule: peer_hostnames.induct) (auto simp: peers_valid_def split: option.splits)

lemma nad_total: "0 \<le> k \<Longrightarrow> \<exists>as. computeNADAddresses sub k = Inr as"
  by (auto simp: computeNADAddresses_def split: option.split)

lemma succeeds_ha_configs_loop:
  "answers E look \<Longrightarrow> succeeds (ready look (om_UID meta) A cr) (ha_configs_loop E r meta peers co lbls is h)"
proof (induction "is" arbitrary: h)
  case (Cons i "is")
  then show ?case
    by (auto intro!: succeeds_rules keeps_reconcileResource [OF answersD(4,3) [OF Cons.prems] harmless_covers] split: sum.split)
qed (simp add: succeeds_ret)

lemma RenderJSON4_total: "\<exists>json. RenderJSON4 unm r = Inr json"
  using rd4.render_total by (fastforce simp: RenderJSON4_def RenderJSONWithServerName4_def)

lemma succeeds_reconcileDhcp4Config:
  assumes E: "answers E look" and A: "config_keys4 server \<subseteq> A"
  shows "succeeds (ready look (om_UID (kd4_ObjectMeta server)) A cr) (reconcileDhcp4Config E server r ComponentDhcp4 lbls k)"
proof -
  obtain json where j: "RenderJSON4 (env_Unmarshal E) r = Inr json" using RenderJSON4_total by blast
  show ?thesis
    unfolding reconcileDhcp4Config_def reconcileHAConfigs_def Let_def j sum.case
    using A by (intro succeeds_rules succeeds_ha_configs_loop [OF E] succeeds_reconcile_as [OF E]) (simp_all add: config_keys4_def)
qed

lemma succeeds_reconcileDhcp4Workload:
  assumes E: "answers E look" and A: "workload_keys4 server \<subseteq> A"
    and valid: "case d4_HighAvailability (kd4_Spec server) of None \<Rightarrow> True | Some ha \<Rightarrow> peers_valid (env_URLHostname E) (ha_Peers ha)"
  shows "succeeds (ready look (om_UID (kd4_ObjectMeta server)) A cr)
           (reconcileDhcp4Workload E server ComponentDhcp4 pp (replicas_or_one (d4_Replicas (kd4_Spec server))) h env agent)"
proof -
  have lift: "succeeds I (lift (peer_hostnames (env_URLHostname E) meta co (enumerate 0 (ha_Peers ha)) m))"
    if "d4_HighAvailability (kd4_Spec server) = Some ha" for I :: "'a \<Rightarrow> bool" and meta co ha m
    using peer_hostnames_result [of "env_URLHostname E" meta co "enumerate 0 (ha_Peers ha)" m] valid that
    by (auto intro: succeeds_lift)
  show ?thesis
    unfolding reconcileDhcp4Workload_def reconcileDhcp4HAWorkload_def reconcileDhcp4Deployment_def Let_def
    using A
    by (intro succeeds_rules succeeds_readyReplicasOf [OF E] succeeds_reconcile_as [OF E] lift)
      (auto simp: workload_keys4_def Let_def ha_statefulset_params_def)
qed

lemma succeeds_publishDhcp4:
  assumes E: "answers E look" and A: "publish_keys4 server \<subseteq> A" and k: "0 \<le> sint k"
    and cr: "cr = (KDhcp4, om_Namespace (kd4_ObjectMeta server), om_Name (kd4_ObjectMeta server))"
  shows "succeeds (ready look (om_UID (kd4_ObjectMeta server)) A cr) (publishDhcp4 E server st h a k agent)"
proof -
  from nad_total [OF k] have lift: "succeeds I (lift (computeNADAddresses (nadSubnet server) (sint k)))" for I :: "'a \<Rightarrow> bool"
    by (metis succeeds_lift)
  show ?thesis
    unfolding publishDhcp4_def updateDhcp4Status_def reconcileDhcp4ControlService_def reconcileDhcp4StorkMonitoring_def Let_def
    using A
    by (intro succeeds_rules succeeds_writeReadyStatus [OF E] succeeds_event [OF E] lift
        succeeds_reconcileControlService [OF E] succeeds_reconcileStorkMonitoring [OF E])
      (auto simp: publish_keys4_def with_status4_def obj_key_def cr)
qed

lemma succeeds_reconcileDhcp4Server:
  assumes E: "answers E look" and "sound4 E server"
  shows "succeeds (ready look (om_UID (kd4_ObjectMeta server)) (footprint4 server)
           (KDhcp4, om_Namespace (kd4_ObjectMeta server), om_Name (kd4_ObjectMeta server))) (reconcileDhcp4Server E server)"
proof -
  let ?s = "fill_server4 server" let ?k = "replicas_or_one (d4_Replicas (kd4_Spec server))"
  let ?I = "ready look (om_UID (kd4_ObjectMeta server)) (footprint4 server)
              (KDhcp4, om_Namespace (kd4_ObjectMeta server), om_Name (kd4_ObjectMeta server))"
  have sub: "config_keys4 ?s \<subseteq> footprint4 server" "workload_keys4 ?s \<subseteq> footprint4 server" "publish_keys4 ?s \<subseteq> footprint4 server"
    by (auto simp: footprint4_def rollout_keys4_def)
  have 1: "succeeds ?I (reconcileDhcp4Config E ?s r ComponentDhcp4 lbls ?k)" for r lbls
    using succeeds_reconcileDhcp4Config [OF E sub(1)] by simp
  have 2: "succeeds ?I (reconcileDhcp4Workload E ?s ComponentDhcp4 pp ?k h env agent)" for pp h env agent
    using succeeds_reconcileDhcp4Workload [OF E sub(2), of _ pp h env agent] assms(2) by (simp add: sound4_def)
  have 3: "succeeds ?I (publishDhcp4 E ?s st h a ?k agent)" for st h a agent
    using succeeds_publishDhcp4 [OF E sub(3), of ?k] assms(2) by (simp add: sound4_def)
  show ?thesis
    unfolding reconcileDhcp4Server_def rolloutDhcp4_def resolveDhcp4StorkAgent_def Let_def fill_server4_fields
    using succeeds_reconcile_as [OF E, of _ "footprint4 server" "kd4_ObjectMeta server"]
    by (intro succeeds_rules 1 2 3 succeeds_markConfigValid [OF E] succeeds_bindSCC [OF E] succeeds_resolveStorkAgent [OF E])
      (simp_all add: footprint4_def rollout_keys4_def)
qed

interpretation l4: live_controller KDhcp4 as_dhcp4 kd4_ObjectMeta "\<lambda>s. with_status4 (fill_server4 s)" footprint4 reconcileDhcp4Server sound4
  by unfold_locales (rule succeeds_reconcileDhcp4Server)

section \<open>Properties\<close>

definition sample4 :: KeaDhcp4Server where
  "sample4 = zero_KeaDhcp4Server\<lparr>kd4_ObjectMeta := zero_ObjectMeta\<lparr>om_Name := ''d'', om_Namespace := ''kea'', om_UID := ''u1''\<rparr>\<rparr>"

text \<open>The configuration step and the rollout, seen from one object each.\<close>

lemma fill_server4_none: "d4_HighAvailability (kd4_Spec cr) = None \<Longrightarrow> fill_server4 cr = cr"
  by (cases cr) (simp add: fill_server4_def fillPeerURLs_def Let_def)

lemma config_post:
  assumes law: "store_law E look" and "d4_HighAvailability (kd4_Spec cr) = None"
    and j: "RenderJSON4 (env_Unmarshal E) r = Inr json"
  shows "valid (\<lambda>_. True) (reconcileDhcp4Config E cr r co lbls k)
     (\<lambda>h s. h = ComputeHash json \<and>
        (\<exists>cm. look s (KConfigMap, om_Namespace (kd4_ObjectMeta cr), ConfigMapName (om_Name (kd4_ObjectMeta cr)) co) = Some (OConfigMap cm)
           \<and> cm_Data cm = map_lit [(ConfigFileName co, json)]))"
proof (rule validI)
  fix s h s' assume m: "reconcileDhcp4Config E cr r co lbls k s = (Inr h, s')"
  let ?o = "OConfigMap (BuildConfigMap (om_Namespace (kd4_ObjectMeta cr)) (om_Name (kd4_ObjectMeta cr)) co json lbls)"
  from m assms(2) j have h: "h = ComputeHash json" and r: "reconcileResource E (kd4_ObjectMeta cr) ?o s = (Inr (), s')"
    by (auto simp: reconcileDhcp4Config_def reconcile_as_def ret_def Let_def elim!: seq_success dest!: wrap_success)
  from validD [OF reconcileResource_post [OF law] TrueI r] obtain y
    where "look s' (obj_key ?o) = Some y" "persisted (set_owner (om_UID (kd4_ObjectMeta cr)) ?o) y" by blast
  moreover have "cm_Data (BuildConfigMap (om_Namespace (kd4_ObjectMeta cr)) (om_Name (kd4_ObjectMeta cr)) co json lbls)
      = map_lit [(ConfigFileName co, json)]" by (simp add: BuildConfigMap_def Let_def)
  ultimately show "h = ComputeHash json \<and>
      (\<exists>cm. look s' (KConfigMap, om_Namespace (kd4_ObjectMeta cr), ConfigMapName (om_Name (kd4_ObjectMeta cr)) co) = Some (OConfigMap cm)
         \<and> cm_Data cm = map_lit [(ConfigFileName co, json)])"
    by (cases y) (auto simp: h persisted_def same_content_def)
qed

text \<open>The workload of a server and the hash its pods carry.\<close>

definition workload_key4 :: "KeaDhcp4Server \<Rightarrow> okey" where
  "workload_key4 server =
     (let ns = om_Namespace (kd4_ObjectMeta server); n = om_Name (kd4_ObjectMeta server)
      in case d4_HighAvailability (kd4_Spec server) of
           None \<Rightarrow> (KDeployment, ns, DeploymentName n ComponentDhcp4)
         | Some _ \<Rightarrow> (KStatefulSet, ns, StatefulSetName n ComponentDhcp4))"

definition pod_hash :: "kobj \<Rightarrow> string option" where
  "pod_hash x =
     (case x of
        ODeployment d \<Rightarrow> map_get (pt_Annotations (ds_Template (dep_Spec d))) ConfigHashAnnotation
      | OStatefulSet d \<Rightarrow> map_get (pt_Annotations (sts_Template (ste_Spec d))) ConfigHashAnnotation
      | _ \<Rightarrow> None)"

lemma pod_hash_persisted: "persisted x y \<Longrightarrow> pod_hash x = Some h \<Longrightarrow> pod_hash y = Some h"
  by (cases x; cases y) (auto simp: persisted_def same_content_def same_template_def pod_hash_def)

lemma pod_hash_set_owner [simp]: "pod_hash (set_owner u x) = pod_hash x"
  by (cases x) (simp_all add: pod_hash_def)

lemma reconcile_hash_post:
  assumes law: "store_law E look" and "obj_key x = K" "pod_hash x = Some h"
  shows "valid (\<lambda>_. True) (reconcile_as w E owner x) (\<lambda>_ s. \<exists>y. look s K = Some y \<and> pod_hash y = Some h)"
proof (rule validI)
  fix s u s' assume "reconcile_as w E owner x s = (Inr u, s')"
  then have "reconcileResource E owner x s = (Inr u, s')" by (auto simp: reconcile_as_def dest!: wrap_success)
  from validD [OF reconcileResource_post [OF law] TrueI this] assms(2,3) show "\<exists>y. look s' K = Some y \<and> pod_hash y = Some h"
    by (auto dest: pod_hash_persisted [where h = h])
qed

lemma workload_post:
  assumes law: "store_law E look"
  shows "valid (\<lambda>_. True) (reconcileDhcp4Workload E cr ComponentDhcp4 pp k h env agent)
     (\<lambda>_ s. \<exists>x. look s (workload_key4 cr) = Some x \<and> pod_hash x = Some h)"
proof -
  let ?Q = "\<lambda>s. \<exists>x. look s (workload_key4 cr) = Some x \<and> pod_hash x = Some h"
  have rest: "valid ?Q (readyReplicasOf E k' sel r ns' n') (\<lambda>_. ?Q)" for k' n' ns' sel and r :: "'c \<Rightarrow> int32"
    by (rule valid_keeps [OF keeps_readyReplicasOf [OF env_keeps_reads [OF law, where P = "\<lambda>L. \<exists>x. L (workload_key4 cr) = Some x \<and> pod_hash x = Some h"]]])
  have dep: "valid (\<lambda>_. True) (reconcile_as w E (kd4_ObjectMeta cr) (ODeployment (BuildDeployment p))) (\<lambda>_. ?Q)"
    if "obj_key (ODeployment (BuildDeployment p)) = workload_key4 cr" "dp_ConfigHash p = h" for w p
    by (rule reconcile_hash_post [OF law that(1)]) (simp add: pod_hash_def BuildDeployment_def Let_def merge_annotations_hash that(2))
  have sts: "valid (\<lambda>_. True) (reconcile_as w E (kd4_ObjectMeta cr) (OStatefulSet (BuildStatefulSet ho ao p))) (\<lambda>_. ?Q)"
    if "obj_key (OStatefulSet (BuildStatefulSet ho ao p)) = workload_key4 cr" "stp_ConfigHash p = h" for w p ho ao
    by (rule reconcile_hash_post [OF law that(1)]) (simp add: pod_hash_def BuildStatefulSet_def Let_def merge_annotations_hash that(2))
  show ?thesis
  proof (cases "d4_HighAvailability (kd4_Spec cr)")
    case None
    show ?thesis
      unfolding reconcileDhcp4Workload_def reconcileDhcp4Deployment_def Let_def None option.case
      by (intro valid_seq [OF dep rest]) (simp_all add: workload_key4_def None deployment_params_def)
  next
    case (Some ha)
    have any: "valid (\<lambda>_. True) m (\<lambda>_ _. True)" for m :: "('a, 'd) op" by (simp add: valid_def)
    show ?thesis
      unfolding reconcileDhcp4Workload_def reconcileDhcp4HAWorkload_def Let_def Some option.case
      by (intro valid_seq [OF any valid_seq [OF any valid_seq [OF any valid_seq [OF sts rest]]]])
        (simp_all add: workload_key4_def Some ha_statefulset_params_def Let_def)
  qed
qed

lemma status_post:
  assumes law: "store_law E look"
    and K: "K = (KDhcp4, om_Namespace (kd4_ObjectMeta cr), om_Name (kd4_ObjectMeta cr))"
  shows "valid (\<lambda>s. look s K = Some (ODhcp4 stored)) (updateDhcp4Status E cr st co h a b)
     (\<lambda>st' s. look s K = Some (ODhcp4 (stored\<lparr>kd4_Status := st'\<rparr>)) \<and> st_ConfigHash st' = h
        \<and> st_ObservedGeneration st' = om_Generation (kd4_ObjectMeta cr)
        \<and> st_Phase st' = (if replicas_ready a b then PhaseRunning else PhaseProgressing))"
proof (rule validI)
  fix s st' s' assume l: "look s K = Some (ODhcp4 stored)" and m: "updateDhcp4Status E cr st co h a b s = (Inr st', s')"
  from m obtain addrs s1 where r: "setReadyStatus E a b ((component_status (kd4_ObjectMeta cr) co h a st)\<lparr>d4st_NADAddresses := addrs\<rparr>) s = (Inr st', s1)"
      and u: "api_StatusUpdate E (with_status4 cr st') s1 = (Inr (), s')"
    by (auto simp: updateDhcp4Status_def writeReadyStatus_def lift_def ret_def elim!: seq_success dest!: wrap_success)
  have "look s1 = look s"
    using keepsD [OF keeps_setReadyStatus [OF env_keeps_reads [OF law, where P = "\<lambda>L. L = look s"]] refl r] .
  moreover have k: "obj_key (with_status4 cr st') = K" by (simp add: with_status4_def obj_key_def K)
  obtain l' where "look s1 K = Some l'" "look s' = (look s1)(K \<mapsto> set_status l' (with_status4 cr st'))"
    by (rule status_cases [OF law u]) (simp_all add: k)
  ultimately have "look s' K = Some (ODhcp4 (stored\<lparr>kd4_Status := st'\<rparr>))"
    using l by (auto simp: set_status_def with_status4_def)
  moreover from r obtain n1 n2 where
    "st' = set_ready_status n1 n2 a b ((component_status (kd4_ObjectMeta cr) co h a st)\<lparr>d4st_NADAddresses := addrs\<rparr>)"
    by (auto simp: setReadyStatus_def ret_def elim!: seq_success)
  ultimately show "look s' K = Some (ODhcp4 (stored\<lparr>kd4_Status := st'\<rparr>)) \<and> st_ConfigHash st' = h
      \<and> st_ObservedGeneration st' = om_Generation (kd4_ObjectMeta cr)
      \<and> st_Phase st' = (if replicas_ready a b then PhaseRunning else PhaseProgressing)"
    by (simp add: set_ready_status_def component_status_def)
qed

lemma rollout_post:
  assumes law: "store_law E look"
    and K: "K = (KDhcp4, om_Namespace (kd4_ObjectMeta cr), om_Name (kd4_ObjectMeta cr))"
    and l: "look s K = Some (ODhcp4 stored)"
    and m: "rolloutDhcp4 E cr lbls (replicas_or_one (d4_Replicas (kd4_Spec cr))) env h s = (Inr (), s')"
  shows "\<exists>x st. look s' (workload_key4 cr) = Some x \<and> pod_hash x = Some h
     \<and> look s' K = Some (ODhcp4 (stored\<lparr>kd4_Status := st\<rparr>)) \<and> st_ConfigHash st = h
     \<and> st_ObservedGeneration st = om_Generation (kd4_ObjectMeta cr)
     \<and> st_Phase st \<in> {PhaseRunning, PhaseProgressing}"
proof -
  let ?D = "workload_key4 cr"
  let ?k = "replicas_or_one (d4_Replicas (kd4_Spec cr))" let ?m = "kd4_ObjectMeta cr"
  let ?P = "\<lambda>v. v = Some (ODhcp4 stored)"
  let ?Q = "\<lambda>v. \<exists>x. v = Some x \<and> pod_hash x = Some h"
  note EK = env_keeps_look [OF law, where K = K and P = ?P] and scr = store_lawD(1) [OF law]
  from m obtain st1 s1 s2 s3 agent s4 a s5 where
      1: "markConfigValid E (kd4_Status cr) s = (Inr st1, s1)"
    and 2: "reconcile_as ''ServiceAccount'' E ?m (OServiceAccount (BuildServiceAccount (om_Namespace ?m) (om_Name ?m) lbls)) s1 = (Inr (), s2)"
    and 3: "bindSCC E ?m s2 = (Inr (), s3)" and 4: "resolveDhcp4StorkAgent E cr s3 = (Inr agent, s4)"
    and 5: "reconcileDhcp4Workload E cr ComponentDhcp4 (resolveDhcp4PodParams cr) ?k h env agent s4 = (Inr a, s5)"
    and pub: "publishDhcp4 E cr st1 h a ?k agent s5 = (Inr (), s')"
    unfolding rolloutDhcp4_def Let_def by (auto elim!: seq_success)
  from pub obtain s6 s7 st2 s8 where
        6: "reconcileDhcp4ControlService E cr ComponentDhcp4 s5 = (Inr (), s6)"
    and 7: "reconcileDhcp4StorkMonitoring E cr ComponentDhcp4 agent s6 = (Inr (), s7)"
    and 8: "updateDhcp4Status E cr st1 ComponentDhcp4 h a ?k s7 = (Inr st2, s8)"
    and 9: "event E (with_status4 cr st2) ''Normal'' ''Reconciled'' ''Successfully reconciled KeaDhcp4Server'' s8 = (Inr (), s')"
    unfolding publishDhcp4_def Let_def by (auto elim!: seq_success)
  have other: "covers (\<lambda>w y. obj_key y \<noteq> K) u (k', x)" if "k' \<noteq> KDhcp4" for k' x u
    using that by (intro covers_other) (auto simp: K)
  have scc: "obj_key (ORoleBinding (scc_binding (om_Namespace ?m) (om_Name ?m))) \<noteq> K" by (simp add: K scc_key_def)
  have "?P (look s1 K)" using keepsD [OF keeps_markConfigValid [OF EK] _ 1] l by blast
  then have "?P (look s2 K)" using keepsD [OF keeps_reconcile_as [OF EK scr] _ 2] other by simp
  then have "?P (look s3 K)" using keepsD [OF keeps_bindSCC [OF EK scc] _ 3] by blast
  then have "?P (look s4 K)" using keepsD [OF keeps_resolveStorkAgent [OF EK] _ 4 [unfolded resolveDhcp4StorkAgent_def]] by blast
  then have "?P (look s5 K)"
    using keepsD [OF keeps_reconcileDhcp4Workload [OF EK scr] _ 5] other by (auto simp: workload_keys4_def Let_def split: option.splits)
  then have "?P (look s6 K)"
    using keepsD [OF keeps_reconcileControlService [OF EK scr] _ 6 [unfolded reconcileDhcp4ControlService_def]] other by simp
  then have l7: "?P (look s7 K)"
    using keepsD [OF keeps_reconcileStorkMonitoring [OF EK scr] _ 7 [unfolded reconcileDhcp4StorkMonitoring_def]] other
    by (auto simp: stork_keys_def)
  have st: "look s8 K = Some (ODhcp4 (stored\<lparr>kd4_Status := st2\<rparr>)) \<and> st_ConfigHash st2 = h
      \<and> st_ObservedGeneration st2 = om_Generation ?m \<and> st_Phase st2 \<in> {PhaseRunning, PhaseProgressing}"
    using validD [OF status_post [OF law K] l7 8] by simp
  have "look s' = look s8" using keepsD [OF keeps_event [OF env_keeps_reads [OF law, where P = "\<lambda>L. L = look s8"]] refl 9] .
  moreover have q5: "?Q (look s5 ?D)" using validD [OF workload_post [OF law] TrueI 5] .
  have kp: "keeps (\<lambda>s. ?Q (look s ?D)) (publishDhcp4 E cr st1 h a ?k agent)"
    by (rule keeps_publishDhcp4 [OF env_keeps_look [OF law] scr])
      (auto simp: with_status4_def obj_key_def publish_keys4_def stork_keys_def covers_def workload_key4_def Let_def split: option.splits)
  from keepsD [OF kp q5 pub] have "?Q (look s' ?D)" .
  ultimately show ?thesis using st by metis
qed

text \<open>
  C5: a successful reconciliation of a DHCPv4 server without HA leaves the cluster
  consistent. The ConfigMap holds exactly the rendered configuration under the daemon's file
  name; the pod template of the Deployment carries the hash of those very bytes, so pods
  restart exactly when the configuration changes; and the status of the resource, which is
  otherwise unchanged, reports the same hash and the generation it was computed from.
\<close>

theorem dhcp4_rollout_consistent:
  assumes "store_law E look" and "look s (KDhcp4, ns, n) = Some (ODhcp4 cr)"
    and "d4_HighAvailability (kd4_Spec cr) = None" and "ReconcileDhcp4 E ns n s = (Inr (), s')"
  shows "\<exists>json cm dep st. RenderJSON4 (env_Unmarshal E) (snd (dhcp4_renderer (kd4_Spec cr))) = Inr json
     \<and> look s' (KConfigMap, ns, ConfigMapName n ComponentDhcp4) = Some (OConfigMap cm)
     \<and> cm_Data cm = map_lit [(ConfigFileName ComponentDhcp4, json)]
     \<and> look s' (KDeployment, ns, DeploymentName n ComponentDhcp4) = Some (ODeployment dep)
     \<and> map_get (pt_Annotations (ds_Template (dep_Spec dep))) ConfigHashAnnotation = Some (ComputeHash json)
     \<and> look s' (KDhcp4, ns, n) = Some (ODhcp4 (cr\<lparr>kd4_Status := st\<rparr>))
     \<and> st_ConfigHash st = ComputeHash json \<and> st_ObservedGeneration st = om_Generation (kd4_ObjectMeta cr)
     \<and> st_Phase st \<in> {PhaseRunning, PhaseProgressing}"
proof -
  note law = assms(1)
  have key: "om_Namespace (kd4_ObjectMeta cr) = ns" "om_Name (kd4_ObjectMeta cr) = n"
    using store_lawD(4) [OF law assms(2)] by (simp_all add: obj_key_def)
  let ?lbls = "CommonLabels n ComponentDhcp4" let ?k = "replicas_or_one (d4_Replicas (kd4_Spec cr))"
  let ?r = "snd (dhcp4_renderer (kd4_Spec cr))" let ?e = "fst (dhcp4_renderer (kd4_Spec cr))"
  obtain s1 where s1: "look s1 = look s" and b: "reconcileDhcp4Server E cr s1 = (Inr (), s')"
    using fetch_success [OF law assms(2) _ assms(4) [unfolded ReconcileDhcp4_def], of cr] by (auto simp: as_dhcp4_def)
  from b obtain h s2 where c: "reconcileDhcp4Config E cr ?r ComponentDhcp4 ?lbls ?k s1 = (Inr h, s2)"
      and r: "rolloutDhcp4 E cr ?lbls ?k ?e h s2 = (Inr (), s')"
    by (auto simp: reconcileDhcp4Server_def fill_server4_none [OF assms(3)] Let_def key elim!: seq_success)
  obtain json where j: "RenderJSON4 (env_Unmarshal E) ?r = Inr json"
    using rd4.render_total by (fastforce simp: RenderJSON4_def RenderJSONWithServerName4_def)
  let ?C = "(KConfigMap, ns, ConfigMapName n ComponentDhcp4)"
  let ?Q = "\<lambda>v. \<exists>cm. v = Some (OConfigMap cm) \<and> cm_Data cm = map_lit [(ConfigFileName ComponentDhcp4, json)]"
  have h: "h = ComputeHash json" and q: "?Q (look s2 ?C)"
    using validD [OF config_post [OF law assms(3) j] TrueI c] key by simp_all
  have "keeps (\<lambda>s. look s (KDhcp4, ns, n) = Some (ODhcp4 cr)) (reconcileDhcp4Config E cr ?r ComponentDhcp4 ?lbls ?k)"
    using j key assms(3) store_lawD(1) [OF law]
    by (auto simp: reconcileDhcp4Config_def Let_def covers_def
        intro!: keeps_rules keeps_reconcile_as [OF env_keeps_look [OF law, where P = "\<lambda>v. v = Some (ODhcp4 cr)"]])
  from keepsD [OF this _ c] s1 assms(2) have l2: "look s2 (KDhcp4, ns, n) = Some (ODhcp4 cr)" by simp
  have "may_write E (\<lambda>w y. obj_key y \<noteq> ?C) (\<lambda>s. ?Q (look s ?C)) (kd4_ObjectMeta cr) (with_status4 cr)"
    unfolding may_write_def using env_keeps_look [OF law, where K = ?C and P = ?Q] store_lawD(1) [OF law]
    by (simp add: scc_key_def) (simp add: with_status4_def obj_key_def)
  from keeps_rolloutDhcp4 [OF this] have "keeps (\<lambda>s. ?Q (look s ?C)) (rolloutDhcp4 E cr ?lbls ?k ?e h)"
    by (simp add: assms(3) rollout_keys4_def workload_keys4_def publish_keys4_def stork_keys_def covers_other)
  from keepsD [OF this q r] obtain cm where "look s' ?C = Some (OConfigMap cm)" "cm_Data cm = map_lit [(ConfigFileName ComponentDhcp4, json)]"
    by blast
  moreover obtain x st where x: "look s' (workload_key4 cr) = Some x" "pod_hash x = Some h"
    and "look s' (KDhcp4, ns, n) = Some (ODhcp4 (cr\<lparr>kd4_Status := st\<rparr>))" "st_ConfigHash st = h"
      "st_ObservedGeneration st = om_Generation (kd4_ObjectMeta cr)" "st_Phase st \<in> {PhaseRunning, PhaseProgressing}"
    using rollout_post [OF law refl, where cr = cr and stored = cr, unfolded key, OF l2 r] by blast
  moreover from x store_lawD(4) [OF law x(1)] obtain dep where "x = ODeployment dep"
    by (cases x) (auto simp: workload_key4_def assms(3) obj_key_def)
  ultimately show ?thesis using j by (auto simp: h workload_key4_def pod_hash_def assms(3) key)
qed

text \<open>A cluster that holds only the resource itself.\<close>

lemma mem_single: "mem_look (mem_init [x]) K = (if obj_key x = K then Some x else None)"
  by (simp add: mem_look_def mem_init_def)

lemma sample4_alone:
  "mem_look (mem_init [ODhcp4 sample4]) (KDhcp4, ''kea'', ''d'') = Some (ODhcp4 sample4)"
  "\<forall>K \<in> A. was_claimable u (mem_look (mem_init [ODhcp4 sample4]) K)" "sound4 (mem_env b) sample4"
  by (simp_all add: mem_single obj_key_def was_claimable_def claimable_def obj_owner_def sample4_def zero_ObjectMeta_def
      sound4_def fill_server4_def fillPeerURLs_def zero_KeaDhcp4Server_def zero_KeaDhcp4ServerSpec_def replicas_or_one_def Let_def)

theorem dhcp4_rollout_consistent_witness:
  "\<exists>s' json cm dep. ReconcileDhcp4 (mem_env True) ''kea'' ''d'' (mem_init [ODhcp4 sample4]) = (Inr (), s')
     \<and> mem_look s' (KConfigMap, ''kea'', ConfigMapName ''d'' ComponentDhcp4) = Some (OConfigMap cm)
     \<and> cm_Data cm = map_lit [(ConfigFileName ComponentDhcp4, json)]
     \<and> mem_look s' (KDeployment, ''kea'', DeploymentName ''d'' ComponentDhcp4) = Some (ODeployment dep)
     \<and> map_get (pt_Annotations (ds_Template (dep_Spec dep))) ConfigHashAnnotation = Some (ComputeHash json)"
proof -
  obtain s' where r: "ReconcileDhcp4 (mem_env True) ''kea'' ''d'' (mem_init [ODhcp4 sample4]) = (Inr (), s')"
    using l4.reconcile_succeeds [OF mem_answers sample4_alone(1) _ sample4_alone(3,2)] by (auto simp: ReconcileDhcp4_def as_dhcp4_def)
  have "d4_HighAvailability (kd4_Spec sample4) = None"
    by (simp add: sample4_def zero_KeaDhcp4Server_def zero_KeaDhcp4ServerSpec_def)
  from dhcp4_rollout_consistent [OF mem_store_law sample4_alone(1) this r] r show ?thesis by blast
qed

definition sample4_ha :: KeaDhcp4Server where
  "sample4_ha = sample4\<lparr>kd4_Spec := (kd4_Spec sample4)\<lparr>d4_Replicas := Some 2,
     d4_HighAvailability := Some (zero_HAConfig\<lparr>ha_Peers := [zero_HAPeer\<lparr>peer_Name := ''a''\<rparr>]\<rparr>)\<rparr>\<rparr>"

section \<open>A peer that does not validate\<close>

definition fails :: "('s, 'a) op \<Rightarrow> bool" where
  "fails m = (\<forall>s. \<exists>e. fst (m s) = Inl e)"

lemma fails_run: "fails m \<Longrightarrow> \<exists>e s'. m s = (Inl e, s')"
  unfolding fails_def by (metis prod.collapse)

lemma seq_fails: "fails m \<Longrightarrow> \<exists>e. seq m f s = (Inl e, snd (m s))"
  using fails_run [of m s] by (auto simp: seq_def)

lemma fails_first: "fails m \<Longrightarrow> fails (seq m f)"
  unfolding fails_def [of "seq m f"] using seq_fails by (metis fst_conv)

lemma fails_rest: "(\<And>x. fails (f x)) \<Longrightarrow> fails (seq m f)"
  by (auto simp: fails_def seq_def split: prod.split sum.split)

lemma keeps_seq_fails: "fails m \<Longrightarrow> keeps I m \<Longrightarrow> keeps I (seq m f)"
  unfolding keeps_def using seq_fails by (metis snd_conv)

lemma fails_lift: "r = Inl e \<Longrightarrow> fails (lift r)"
  by (simp add: fails_def lift_def)

text \<open>The kinds of object a reconciliation may have touched when it reaches the peer check.\<close>

definition early_kinds :: "okind set" where
  "early_kinds = {KConfigMap, KServiceAccount, KRoleBinding, KService}"

lemma bad_peer_workload:
  assumes ha: "d4_HighAvailability (kd4_Spec server) = Some ha" and bad: "\<not> peers_valid (env_URLHostname E) (ha_Peers ha)"
  shows "fails (reconcileDhcp4Workload E server co pp k h env agent)"
    and "store_law E look \<Longrightarrow> fst K \<notin> early_kinds \<Longrightarrow>
      keeps (\<lambda>s. P (look s K)) (reconcileDhcp4Workload E server co pp k h env agent)"
proof -
  let ?l = "lift (peer_hostnames (env_URLHostname E) (kd4_ObjectMeta server) co (enumerate 0 (ha_Peers ha)) [])"
  have l: "fails ?l"
    using peer_hostnames_result [of "env_URLHostname E" "kd4_ObjectMeta server" co "enumerate 0 (ha_Peers ha)" "[]"] bad
    by (cases "peer_hostnames (env_URLHostname E) (kd4_ObjectMeta server) co (enumerate 0 (ha_Peers ha)) []") (auto intro: fails_lift)
  show "fails (reconcileDhcp4Workload E server co pp k h env agent)"
    by (simp add: reconcileDhcp4Workload_def reconcileDhcp4HAWorkload_def ha Let_def) (intro fails_rest fails_first l)
  assume law: "store_law E look" and K: "fst K \<notin> early_kinds"
  note r = keeps_reconcile_as [OF env_keeps_look [OF law] store_lawD(1) [OF law] covers_other]
  show "keeps (\<lambda>s. P (look s K)) (reconcileDhcp4Workload E server co pp k h env agent)"
    using K
    by (simp add: reconcileDhcp4Workload_def reconcileDhcp4HAWorkload_def ha Let_def)
      (intro keeps_seq keeps_for_each keeps_seq_fails [OF l] keeps_lift r; auto simp: early_kinds_def)
qed

lemma bad_peer_body:
  assumes ha: "d4_HighAvailability (kd4_Spec (fill_server4 cr)) = Some ha" and bad: "\<not> peers_valid (env_URLHostname E) (ha_Peers ha)"
  shows "fails (reconcileDhcp4Server E cr)"
    and "store_law E look \<Longrightarrow> fst K \<notin> early_kinds \<Longrightarrow> keeps (\<lambda>s. P (look s K)) (reconcileDhcp4Server E cr)"
proof -
  note w = bad_peer_workload [OF ha bad]
  show "fails (reconcileDhcp4Server E cr)"
    unfolding reconcileDhcp4Server_def rolloutDhcp4_def Let_def by (intro fails_rest fails_first [OF w(1)])
  assume law: "store_law E look" and K: "fst K \<notin> early_kinds"
  note E = env_keeps_look [OF law] and r = store_lawD(1) [OF law] covers_other
  show "keeps (\<lambda>s. P (look s K)) (reconcileDhcp4Server E cr)"
    unfolding reconcileDhcp4Server_def rolloutDhcp4_def resolveDhcp4StorkAgent_def reconcileDhcp4Config_def reconcileHAConfigs_def
      Let_def ha option.case
    using K
    by (intro keeps_seq keeps_ret keeps_seq_fails [OF w(1)] w(2) [OF law] keeps_markConfigValid [OF E] keeps_resolveStorkAgent [OF E]
        keeps_bindSCC [OF E] keeps_reconcile_as [OF E r] keeps_ha_configs_loop [OF E r(1)])
      (auto simp: early_kinds_def scc_key_def intro!: r(2))
qed

text \<open>
  C10: a peer whose URL has an invalid hostname stops the reconciliation of a high-availability
  server before the workload: the result is an error, and no object other than ConfigMaps,
  Services, the service account and its SCC binding is changed. The StatefulSet, the status of
  the resource and every Deployment stay as they were.
\<close>

theorem dhcp4_invalid_peer_stops:
  assumes "store_law E look" and "look s (KDhcp4, ns, n) = Some (ODhcp4 cr)"
    and "d4_HighAvailability (kd4_Spec (fill_server4 cr)) = Some ha"
    and "peer \<in> set (ha_Peers ha)" and "env_URLHostname E (peer_URL peer) = Some h" and "ValidateHostname h \<noteq> None"
  shows "(\<exists>e. fst (ReconcileDhcp4 E ns n s) = Inl e)
     \<and> (\<forall>K. fst K \<notin> {KConfigMap, KServiceAccount, KRoleBinding, KService} \<longrightarrow> look (snd (ReconcileDhcp4 E ns n s)) K = look s K)"
proof -
  have bad: "\<not> peers_valid (env_URLHostname E) (ha_Peers ha)" using assms(4-6) by (force simp: peers_valid_def list_all_iff)
  note b = bad_peer_body [OF assms(3) bad]
  obtain r s' where m: "ReconcileDhcp4 E ns n s = (r, s')" by fastforce
  have body: "(\<exists>e. r = Inl e) \<and> (\<forall>K. fst K \<notin> early_kinds \<longrightarrow> look s' K = look s K)"
    if "look s1 = look s" "reconcileDhcp4Server E cr s1 = (r, s')" for s1
    using b(1) keepsD [OF b(2) [OF assms(1), of _ "\<lambda>v. v = look s _"] _ that(2)] that
    by (auto simp: fails_def) (metis fst_conv)
  show ?thesis
    by (rule fetch_runs [OF assms(1,2) _ m [unfolded ReconcileDhcp4_def], of cr])
      (use m body in \<open>auto simp: as_dhcp4_def early_kinds_def\<close>)
qed

definition sample4_bad :: KeaDhcp4Server where
  "sample4_bad = sample4_ha\<lparr>kd4_Spec := (kd4_Spec sample4_ha)\<lparr>d4_HighAvailability :=
     Some (zero_HAConfig\<lparr>ha_Peers := [zero_HAPeer\<lparr>peer_Name := ''a'', peer_URL := ''http://a b/''\<rparr>]\<rparr>)\<rparr>\<rparr>"

theorem dhcp4_invalid_peer_stops_witness:
  "\<exists>e. fst (ReconcileDhcp4 ((mem_env True)\<lparr>env_URLHostname := \<lambda>_. Some ''a b''\<rparr>) ''kea'' ''d'' (mem_init [ODhcp4 sample4_bad])) = Inl e"
proof -
  let ?E = "(mem_env True)\<lparr>env_URLHostname := \<lambda>_. Some ''a b''\<rparr>"
  have law: "store_law ?E mem_look"
    using mem_store_law [of True] by (simp add: store_law_def scr_law_def read_law_def write_law_def)
  have "mem_look (mem_init [ODhcp4 sample4_bad]) (KDhcp4, ''kea'', ''d'') = Some (ODhcp4 sample4_bad)"
    by (simp add: mem_single obj_key_def sample4_bad_def sample4_ha_def sample4_def)
  moreover have "d4_HighAvailability (kd4_Spec (fill_server4 sample4_bad)) =
      Some (zero_HAConfig\<lparr>ha_Peers := [zero_HAPeer\<lparr>peer_Name := ''a'', peer_URL := ''http://a b/''\<rparr>]\<rparr>)"
    by (simp add: fill_server4_def fillPeerURLs_def sample4_bad_def fill_peers_def fill_peer_def Let_def)
  moreover have "ValidateHostname ''a b'' \<noteq> None" by code_simp
  ultimately show ?thesis using dhcp4_invalid_peer_stops [OF law, of "mem_init [ODhcp4 sample4_bad]"] by fastforce
qed

end
