(* ===== verification/Dhcp6Controller.thy ===== *)
theory Dhcp6Controller
  imports Progress
begin

text \<open>
  The reconciler of \<^verbatim>\<open>KeaDhcp6Server\<close> (\<^verbatim>\<open>src/internal/controller/keadhcp6server_controller.go\<close>).
  It has no StatefulSet mode: the workload is always a Deployment.
\<close>

definition dhcp6_renderer :: "KeaDhcp6ServerSpec \<Rightarrow> EnvVar list \<times> Dhcp6ConfigRenderer" where
  "dhcp6_renderer spec =
     (let dr = resolveDBCredentials (d6_LeaseDatabase spec) (d6_HostsDatabase spec) (d6_HostsDatabases spec)
      in (dr_Env dr, (NewDhcp6ConfigRenderer spec)\<lparr>r6_LeaseDBCreds := dr_Lease dr, r6_HostsDBCreds := dr_Hosts dr,
            r6_HostsDBsCreds := dr_HostsDBs dr\<rparr>))"

definition resolveDhcp6PodParams :: "KeaDhcp6Server \<Rightarrow> podParams" where
  "resolveDhcp6PodParams server =
     (let spec = kd6_Spec server
      in resolvePodParams (d6_Container spec) (d6_HostNetwork spec) (d6_Placement spec)
           (Option.bind (d6_HighAvailability spec) ha_TLS))"

definition resolveDhcp6StorkAgent :: "'s env \<Rightarrow> KeaDhcp6Server \<Rightarrow> ('s, StorkSidecarParams option) op" where
  "resolveDhcp6StorkAgent E server =
     resolveStorkAgent E (om_Namespace (kd6_ObjectMeta server)) (d6_Stork (kd6_Spec server))"

definition reconcileDhcp6ControlService :: "'s env \<Rightarrow> KeaDhcp6Server \<Rightarrow> string \<Rightarrow> ('s, unit) op" where
  "reconcileDhcp6ControlService E server component =
     reconcileControlService E (kd6_ObjectMeta server) (d6_ControlSocket (kd6_Spec server)) component"

definition reconcileDhcp6StorkMonitoring :: "'s env \<Rightarrow> KeaDhcp6Server \<Rightarrow> string \<Rightarrow> StorkSidecarParams option \<Rightarrow> ('s, unit) op" where
  "reconcileDhcp6StorkMonitoring E server component storkAgent =
     reconcileStorkMonitoring E (kd6_ObjectMeta server) component storkAgent"

definition with_status6 :: "KeaDhcp6Server \<Rightarrow> KeaDhcp6ServerStatus \<Rightarrow> kobj" where
  "with_status6 server st = ODhcp6 (server\<lparr>kd6_Status := st\<rparr>)"

definition updateDhcp6Status ::
  "'s env \<Rightarrow> KeaDhcp6Server \<Rightarrow> KeaDhcp6ServerStatus \<Rightarrow> string \<Rightarrow> string \<Rightarrow> int32 \<Rightarrow> ('s, KeaDhcp6ServerStatus) op" where
  "updateDhcp6Status E server st component configHash replicas =
     (let meta = kd6_ObjectMeta server
      in seq (readyReplicasOf E KDeployment as_deployment dep_ReadyReplicas (om_Namespace meta) (DeploymentName (om_Name meta) component)) (\<lambda>readyReplicas.
         writeReadyStatus E (with_status6 server) readyReplicas replicas
           (component_status meta component configHash readyReplicas st)))"

definition fill_server6 :: "KeaDhcp6Server \<Rightarrow> KeaDhcp6Server" where
  "fill_server6 server =
     (let meta = kd6_ObjectMeta server; spec = kd6_Spec server
      in server\<lparr>kd6_Spec := spec\<lparr>d6_HighAvailability :=
           fillPeerURLs (d6_HighAvailability spec) (om_Namespace meta) (om_Name meta) ComponentDhcp6
             (control_port (d6_ControlSocket spec))\<rparr>\<rparr>)"

definition reconcileDhcp6Server :: "'s env \<Rightarrow> KeaDhcp6Server \<Rightarrow> ('s, unit) op" where
  "reconcileDhcp6Server E fetched =
     (let component = ComponentDhcp6;
          server = fill_server6 fetched;
          meta = kd6_ObjectMeta server;
          secretEnvVars = fst (dhcp6_renderer (kd6_Spec server));
          renderer = snd (dhcp6_renderer (kd6_Spec server))
      in case RenderJSON6 (env_Unmarshal E) renderer of
           Inl err \<Rightarrow> renderErrorExit E (with_status6 server) (kd6_Status server) err
         | Inr configJSON \<Rightarrow>
             (let configHash = ComputeHash configJSON;
                  lbls = CommonLabels (om_Name meta) component;
                  replicas = replicas_or_one (d6_Replicas (kd6_Spec server))
              in seq (markConfigValid E (kd6_Status server)) (\<lambda>st.
                 seq (reconcile_as ''ConfigMap'' E meta (OConfigMap (BuildConfigMap (om_Namespace meta) (om_Name meta) component configJSON lbls))) (\<lambda>_.
                 seq (reconcile_as ''ServiceAccount'' E meta (OServiceAccount (BuildServiceAccount (om_Namespace meta) (om_Name meta) lbls))) (\<lambda>_.
                 seq (bindSCC E meta) (\<lambda>_.
                 seq (resolveDhcp6StorkAgent E server) (\<lambda>storkAgent.
                 seq (reconcile_as ''Deployment'' E meta (ODeployment (BuildDeployment
                        ((deployment_params meta component (d6_Container (kd6_Spec server)) (resolveDhcp6PodParams server) replicas configHash secretEnvVars)
                           \<lparr>dp_StorkAgent := storkAgent\<rparr>)))) (\<lambda>_.
                 seq (reconcileDhcp6ControlService E server component) (\<lambda>_.
                 seq (reconcileDhcp6StorkMonitoring E server component storkAgent) (\<lambda>_.
                 seq (updateDhcp6Status E server st component configHash replicas) (\<lambda>st'.
                 event E (with_status6 server st') ''Normal'' ''Reconciled'' ''Successfully reconciled KeaDhcp6Server'')))))))))))"

definition ReconcileDhcp6 :: "'s env \<Rightarrow> string \<Rightarrow> string \<Rightarrow> ('s, unit) op" where
  "ReconcileDhcp6 E ns name = fetch_and E KDhcp6 as_dhcp6 (reconcileDhcp6Server E) ns name"

section \<open>What the reconciler writes\<close>

definition footprint6 :: "KeaDhcp6Server \<Rightarrow> okey set" where
  "footprint6 server =
     (let ns = om_Namespace (kd6_ObjectMeta server); n = om_Name (kd6_ObjectMeta server)
      in {(KConfigMap, ns, ConfigMapName n ComponentDhcp6), (KDeployment, ns, DeploymentName n ComponentDhcp6),
          (KServiceAccount, ns, ServiceAccountName n), (KService, ns, ServiceName n ComponentDhcp6)}
         \<union> stork_keys (kd6_ObjectMeta server) ComponentDhcp6)"

lemma fill_server6_fields [simp]:
  "kd6_ObjectMeta (fill_server6 s) = kd6_ObjectMeta s" "kd6_Status (fill_server6 s) = kd6_Status s"
  by (simp_all add: fill_server6_def Let_def)

lemma keeps_reconcileDhcp6Server:
  assumes mw: "may_write E W I (kd6_ObjectMeta server) (with_status6 (fill_server6 server))"
    and fp: "\<forall>K \<in> footprint6 server. covers W (om_UID (kd6_ObjectMeta server)) K"
  shows "keeps I (reconcileDhcp6Server E server)"
proof -
  note E = may_writeD(1) [OF mw] and scr = may_writeD(2) [OF mw]
  show ?thesis
    unfolding reconcileDhcp6Server_def Let_def fill_server6_fields resolveDhcp6StorkAgent_def updateDhcp6Status_def
      reconcileDhcp6ControlService_def reconcileDhcp6StorkMonitoring_def
    using fp
    by (intro keeps_rules keeps_renderErrorExit [OF E] keeps_writeReadyStatus [OF E] keeps_readyReplicasOf [OF E]
        keeps_event [OF E] keeps_markConfigValid [OF E] keeps_resolveStorkAgent [OF E]
        keeps_bindSCC [OF E] may_writeD(3,4) [OF mw] keeps_reconcile_as [OF E scr]
        keeps_reconcileControlService [OF E scr] keeps_reconcileStorkMonitoring [OF E scr])
      (auto simp: footprint6_def Let_def)
qed

interpretation c6: component_controller KDhcp6 as_dhcp6 kd6_ObjectMeta "\<lambda>s. with_status6 (fill_server6 s)" footprint6 reconcileDhcp6Server
proof unfold_locales
  fix x cr assume "as_dhcp6 x = Some cr"
  then show "obj_meta x = kd6_ObjectMeta cr" by (cases x) (simp_all add: as_dhcp6_def)
next
  show "obj_key (with_status6 (fill_server6 cr) st) = (KDhcp6, om_Namespace (kd6_ObjectMeta cr), om_Name (kd6_ObjectMeta cr))" for cr st
    by (simp add: with_status6_def obj_key_def)
next
  fix E :: "'s env" and W I cr
  assume "may_write E W I (kd6_ObjectMeta cr) (with_status6 (fill_server6 cr))"
    and "\<forall>K \<in> footprint6 cr. covers W (om_UID (kd6_ObjectMeta cr)) K"
  then show "keeps I (reconcileDhcp6Server E cr)" by (rule keeps_reconcileDhcp6Server)
qed simp


section \<open>Progress\<close>

lemma RenderJSON6_total: "\<exists>json. RenderJSON6 unm r = Inr json"
  using rd6.render_total by (fastforce simp: RenderJSON6_def renderJSONInternal6_def)

lemma succeeds_reconcileDhcp6Server:
  assumes E: "answers E look"
  shows "succeeds (ready look (om_UID (kd6_ObjectMeta cr)) (footprint6 cr) (KDhcp6, om_Namespace (kd6_ObjectMeta cr), om_Name (kd6_ObjectMeta cr)))
           (reconcileDhcp6Server E cr)"
proof -
  obtain json where j: "RenderJSON6 (env_Unmarshal E) (snd (dhcp6_renderer (kd6_Spec (fill_server6 cr)))) = Inr json"
    using RenderJSON6_total by blast
  show ?thesis
    unfolding reconcileDhcp6Server_def Let_def fill_server6_fields resolveDhcp6StorkAgent_def updateDhcp6Status_def
      reconcileDhcp6ControlService_def reconcileDhcp6StorkMonitoring_def j sum.case
    by (intro succeeds_rules succeeds_writeReadyStatus [OF E] succeeds_readyReplicasOf [OF E] succeeds_event [OF E]
        succeeds_markConfigValid [OF E] succeeds_resolveStorkAgent [OF E] succeeds_bindSCC [OF E] succeeds_reconcile_as [OF E]
        succeeds_reconcileControlService [OF E] succeeds_reconcileStorkMonitoring [OF E])
      (auto simp: footprint6_def Let_def c6.wr_key)
qed

interpretation l6: live_controller KDhcp6 as_dhcp6 kd6_ObjectMeta "\<lambda>s. with_status6 (fill_server6 s)" footprint6 reconcileDhcp6Server "\<lambda>_ _. True"
  by unfold_locales (rule succeeds_reconcileDhcp6Server)

end
