(* ===== verification/CtrlAgentController.thy ===== *)
theory CtrlAgentController
  imports Progress
begin

text \<open>
  The reconciler of \<^verbatim>\<open>KeaControlAgent\<close> (\<^verbatim>\<open>src/internal/controller/keacontrolagent_controller.go\<close>).
\<close>

text \<open>Step 2: the passwords of the auth clients as container variables, and the renderer with their placeholders.\<close>

definition ctrl_agent_renderer :: "KeaControlAgentSpec \<Rightarrow> EnvVar list \<times> CtrlAgentConfigRenderer" where
  "ctrl_agent_renderer spec =
     (let clients = (case ca_Authentication spec of None \<Rightarrow> [] | Some a \<Rightarrow> auth_Clients a)
      in if clients = [] then ([], NewCtrlAgentConfigRenderer spec)
         else case resolveNamedSecrets ''KEA_AUTH_PASSWORD_'' (map (\<lambda>c. (ac_User c, ac_PasswordSecretKeyRef c)) clients) of
           (envs, placeholders) \<Rightarrow> (envs, (NewCtrlAgentConfigRenderer spec)\<lparr>rca_ResolvedAuthPasswords := Some placeholders\<rparr>))"

definition with_status_ca :: "KeaControlAgent \<Rightarrow> KeaControlAgentStatus \<Rightarrow> kobj" where
  "with_status_ca cr st = OControlAgent (cr\<lparr>kca_Status := st\<rparr>)"

text \<open>Step 7: the Service of the HTTP endpoint always exists.\<close>

definition reconcileControlAgentService :: "'s env \<Rightarrow> KeaControlAgent \<Rightarrow> string \<Rightarrow> ('s, unit) op" where
  "reconcileControlAgentService E cr component =
     (let httpPort = (case ca_HTTPPort (kca_Spec cr) of None \<Rightarrow> 8000 | Some p \<Rightarrow> p)
      in reconcile_as ''Service'' E (kca_ObjectMeta cr)
           (OService (BuildService (service_params (kca_ObjectMeta cr) component httpPort ''TCP''))))"

definition reconcileKeaControlAgent :: "'s env \<Rightarrow> KeaControlAgent \<Rightarrow> ('s, unit) op" where
  "reconcileKeaControlAgent E cr =
     (let component = ComponentCtrlAgent;
          meta = kca_ObjectMeta cr; spec = kca_Spec cr;
          secretEnvVars = fst (ctrl_agent_renderer spec);
          renderer = snd (ctrl_agent_renderer spec)
      in case RenderJSONCtrlAgent (env_Unmarshal E) renderer of
           Inl err \<Rightarrow> renderErrorExit E (with_status_ca cr) (kca_Status cr) err
         | Inr configJSON \<Rightarrow>
             (let configHash = ComputeHash configJSON;
                  lbls = CommonLabels (om_Name meta) component;
                  replicas = replicas_or_one (ca_Replicas spec);
                  pp = resolvePodParams (ca_Container spec) None (ca_Placement spec) (ca_TLS spec)
              in seq (markConfigValid E (kca_Status cr)) (\<lambda>st.
                 seq (reconcile_as ''ConfigMap'' E meta (OConfigMap (BuildConfigMap (om_Namespace meta) (om_Name meta) component configJSON lbls))) (\<lambda>_.
                 seq (reconcile_as ''ServiceAccount'' E meta (OServiceAccount (BuildServiceAccount (om_Namespace meta) (om_Name meta) lbls))) (\<lambda>_.
                 seq (bindSCC E meta) (\<lambda>_.
                 seq (reconcile_as ''Deployment'' E meta (ODeployment (BuildDeployment
                        (deployment_params meta component (ca_Container spec) pp replicas configHash secretEnvVars)))) (\<lambda>_.
                 seq (reconcileControlAgentService E cr component) (\<lambda>_.
                 seq (readyReplicasOf E KDeployment as_deployment dep_ReadyReplicas (om_Namespace meta) (DeploymentName (om_Name meta) component)) (\<lambda>readyReplicas.
                 seq (writeReadyStatus E (with_status_ca cr) readyReplicas replicas
                        (component_status meta component configHash readyReplicas st)) (\<lambda>st'.
                 event E (with_status_ca cr st') ''Normal'' ''Reconciled'' ''Successfully reconciled KeaControlAgent''))))))))))"

definition as_ca :: "kobj \<Rightarrow> KeaControlAgent option" where
  "as_ca x = (case x of OControlAgent y \<Rightarrow> Some y | _ \<Rightarrow> None)"

definition ReconcileControlAgent :: "'s env \<Rightarrow> string \<Rightarrow> string \<Rightarrow> ('s, unit) op" where
  "ReconcileControlAgent E ns name = fetch_and E KControlAgent as_ca (reconcileKeaControlAgent E) ns name"

section \<open>What the reconciler writes\<close>

definition footprint_ca :: "KeaControlAgent \<Rightarrow> okey set" where
  "footprint_ca cr =
     (let ns = om_Namespace (kca_ObjectMeta cr); n = om_Name (kca_ObjectMeta cr)
      in {(KConfigMap, ns, ConfigMapName n ComponentCtrlAgent), (KDeployment, ns, DeploymentName n ComponentCtrlAgent),
          (KServiceAccount, ns, ServiceAccountName n), (KService, ns, ServiceName n ComponentCtrlAgent)})"

lemma keeps_reconcileKeaControlAgent:
  assumes mw: "may_write E W I (kca_ObjectMeta cr) (with_status_ca cr)"
    and fp: "\<forall>K \<in> footprint_ca cr. covers W (om_UID (kca_ObjectMeta cr)) K"
  shows "keeps I (reconcileKeaControlAgent E cr)"
proof -
  note E = may_writeD(1) [OF mw] and scr = may_writeD(2) [OF mw]
  show ?thesis
    unfolding reconcileKeaControlAgent_def reconcileControlAgentService_def Let_def
    using fp
    by (intro keeps_rules keeps_renderErrorExit [OF E] keeps_writeReadyStatus [OF E] keeps_readyReplicasOf [OF E]
        keeps_event [OF E] keeps_markConfigValid [OF E] keeps_bindSCC [OF E] may_writeD(3,4) [OF mw] keeps_reconcile_as [OF E scr])
      (auto simp: footprint_ca_def Let_def)
qed

interpretation cca: component_controller KControlAgent as_ca kca_ObjectMeta with_status_ca footprint_ca reconcileKeaControlAgent
proof unfold_locales
  fix x cr assume "as_ca x = Some cr"
  then show "obj_meta x = kca_ObjectMeta cr" by (cases x) (simp_all add: as_ca_def)
next
  show "obj_key (with_status_ca cr st) = (KControlAgent, om_Namespace (kca_ObjectMeta cr), om_Name (kca_ObjectMeta cr))" for cr st
    by (simp add: with_status_ca_def obj_key_def)
next
  fix E :: "'s env" and W I cr
  assume "may_write E W I (kca_ObjectMeta cr) (with_status_ca cr)"
    and "\<forall>K \<in> footprint_ca cr. covers W (om_UID (kca_ObjectMeta cr)) K"
  then show "keeps I (reconcileKeaControlAgent E cr)" by (rule keeps_reconcileKeaControlAgent)
qed simp


section \<open>Progress\<close>

lemma RenderJSONCtrlAgent_total: "\<exists>json. RenderJSONCtrlAgent unm r = Inr json"
  using rca.render_total by (fastforce simp: RenderJSONCtrlAgent_def)

lemma succeeds_reconcileKeaControlAgent:
  assumes E: "answers E look"
  shows "succeeds (ready look (om_UID (kca_ObjectMeta cr)) (footprint_ca cr) (KControlAgent, om_Namespace (kca_ObjectMeta cr), om_Name (kca_ObjectMeta cr)))
           (reconcileKeaControlAgent E cr)"
proof -
  obtain json where j: "RenderJSONCtrlAgent (env_Unmarshal E) (snd (ctrl_agent_renderer (kca_Spec cr))) = Inr json"
    using RenderJSONCtrlAgent_total by blast
  show ?thesis
    unfolding reconcileKeaControlAgent_def reconcileControlAgentService_def Let_def j sum.case
    by (intro succeeds_rules succeeds_writeReadyStatus [OF E] succeeds_readyReplicasOf [OF E] succeeds_event [OF E]
        succeeds_markConfigValid [OF E] succeeds_bindSCC [OF E] succeeds_reconcile_as [OF E])
      (auto simp: footprint_ca_def Let_def cca.wr_key)
qed

interpretation lca: live_controller KControlAgent as_ca kca_ObjectMeta with_status_ca footprint_ca reconcileKeaControlAgent "\<lambda>_ _. True"
  by unfold_locales (rule succeeds_reconcileKeaControlAgent)

end
