(* ===== verification/DdnsController.thy ===== *)
theory DdnsController
  imports Progress
begin

text \<open>
  The reconciler of \<^verbatim>\<open>KeaDhcpDdns\<close> (\<^verbatim>\<open>src/internal/controller/keadhcpddns_controller.go\<close>).
\<close>

text \<open>Step 2: the TSIG secrets as container variables, and the renderer with their placeholders.\<close>

definition ddns_renderer :: "KeaDhcpDdnsSpec \<Rightarrow> EnvVar list \<times> DdnsConfigRenderer" where
  "ddns_renderer spec =
     (if dd_TSIGKeys spec = [] then ([], NewDdnsConfigRenderer spec)
      else case resolveNamedSecrets ''KEA_TSIG_SECRET_'' (map (\<lambda>k. (tk_Name k, tk_SecretRef k)) (dd_TSIGKeys spec)) of
        (envs, placeholders) \<Rightarrow> (envs, (NewDdnsConfigRenderer spec)\<lparr>rdd_ResolvedTSIGSecrets := Some placeholders\<rparr>))"

definition with_status_dd :: "KeaDhcpDdns \<Rightarrow> KeaDhcpDdnsStatus \<Rightarrow> kobj" where
  "with_status_dd cr st = ODdns (cr\<lparr>kdd_Status := st\<rparr>)"

text \<open>Step 7: a UDP Service, only if the port is defined.\<close>

definition reconcileDdnsService :: "'s env \<Rightarrow> KeaDhcpDdns \<Rightarrow> string \<Rightarrow> ('s, unit) op" where
  "reconcileDdnsService E cr component =
     (case dd_Port (kdd_Spec cr) of
        None \<Rightarrow> ret ()
      | Some port \<Rightarrow> reconcile_as ''Service'' E (kdd_ObjectMeta cr)
          (OService (BuildService (service_params (kdd_ObjectMeta cr) component port ''UDP''))))"

definition reconcileKeaDhcpDdns :: "'s env \<Rightarrow> KeaDhcpDdns \<Rightarrow> ('s, unit) op" where
  "reconcileKeaDhcpDdns E cr =
     (let component = ComponentDdns;
          meta = kdd_ObjectMeta cr; spec = kdd_Spec cr;
          secretEnvVars = fst (ddns_renderer spec);
          renderer = snd (ddns_renderer spec)
      in case RenderJSONDdns (env_Unmarshal E) renderer of
           Inl err \<Rightarrow> renderErrorExit E (with_status_dd cr) (kdd_Status cr) err
         | Inr configJSON \<Rightarrow>
             (let configHash = ComputeHash configJSON;
                  lbls = CommonLabels (om_Name meta) component;
                  replicas = replicas_or_one (dd_Replicas spec);
                  pp = resolvePodParams (dd_Container spec) None (dd_Placement spec) None
              in seq (markConfigValid E (kdd_Status cr)) (\<lambda>st.
                 seq (reconcile_as ''ConfigMap'' E meta (OConfigMap (BuildConfigMap (om_Namespace meta) (om_Name meta) component configJSON lbls))) (\<lambda>_.
                 seq (reconcile_as ''ServiceAccount'' E meta (OServiceAccount (BuildServiceAccount (om_Namespace meta) (om_Name meta) lbls))) (\<lambda>_.
                 seq (bindSCC E meta) (\<lambda>_.
                 seq (reconcile_as ''Deployment'' E meta (ODeployment (BuildDeployment
                        (deployment_params meta component (dd_Container spec) pp replicas configHash secretEnvVars)))) (\<lambda>_.
                 seq (reconcileDdnsService E cr component) (\<lambda>_.
                 seq (readyReplicasOf E KDeployment as_deployment dep_ReadyReplicas (om_Namespace meta) (DeploymentName (om_Name meta) component)) (\<lambda>readyReplicas.
                 seq (writeReadyStatus E (with_status_dd cr) readyReplicas replicas
                        (component_status meta component configHash readyReplicas st)) (\<lambda>st'.
                 event E (with_status_dd cr st') ''Normal'' ''Reconciled'' ''Successfully reconciled KeaDhcpDdns''))))))))))"

definition as_dd :: "kobj \<Rightarrow> KeaDhcpDdns option" where
  "as_dd x = (case x of ODdns y \<Rightarrow> Some y | _ \<Rightarrow> None)"

definition ReconcileDdns :: "'s env \<Rightarrow> string \<Rightarrow> string \<Rightarrow> ('s, unit) op" where
  "ReconcileDdns E ns name = fetch_and E KDdns as_dd (reconcileKeaDhcpDdns E) ns name"

section \<open>What the reconciler writes\<close>

definition footprint_dd :: "KeaDhcpDdns \<Rightarrow> okey set" where
  "footprint_dd cr =
     (let ns = om_Namespace (kdd_ObjectMeta cr); n = om_Name (kdd_ObjectMeta cr)
      in {(KConfigMap, ns, ConfigMapName n ComponentDdns), (KDeployment, ns, DeploymentName n ComponentDdns),
          (KServiceAccount, ns, ServiceAccountName n), (KService, ns, ServiceName n ComponentDdns)})"

lemma keeps_reconcileKeaDhcpDdns:
  assumes mw: "may_write E W I (kdd_ObjectMeta cr) (with_status_dd cr)"
    and fp: "\<forall>K \<in> footprint_dd cr. covers W (om_UID (kdd_ObjectMeta cr)) K"
  shows "keeps I (reconcileKeaDhcpDdns E cr)"
proof -
  note E = may_writeD(1) [OF mw] and scr = may_writeD(2) [OF mw]
  show ?thesis
    unfolding reconcileKeaDhcpDdns_def reconcileDdnsService_def Let_def
    using fp
    by (intro keeps_rules keeps_renderErrorExit [OF E] keeps_writeReadyStatus [OF E] keeps_readyReplicasOf [OF E]
        keeps_event [OF E] keeps_markConfigValid [OF E] keeps_bindSCC [OF E] may_writeD(3,4) [OF mw] keeps_reconcile_as [OF E scr])
      (auto simp: footprint_dd_def Let_def)
qed

interpretation cdd: component_controller KDdns as_dd kdd_ObjectMeta with_status_dd footprint_dd reconcileKeaDhcpDdns
proof unfold_locales
  fix x cr assume "as_dd x = Some cr"
  then show "obj_meta x = kdd_ObjectMeta cr" by (cases x) (simp_all add: as_dd_def)
next
  show "obj_key (with_status_dd cr st) = (KDdns, om_Namespace (kdd_ObjectMeta cr), om_Name (kdd_ObjectMeta cr))" for cr st
    by (simp add: with_status_dd_def obj_key_def)
next
  fix E :: "'s env" and W I cr
  assume "may_write E W I (kdd_ObjectMeta cr) (with_status_dd cr)"
    and "\<forall>K \<in> footprint_dd cr. covers W (om_UID (kdd_ObjectMeta cr)) K"
  then show "keeps I (reconcileKeaDhcpDdns E cr)" by (rule keeps_reconcileKeaDhcpDdns)
qed simp


section \<open>Progress\<close>

lemma RenderJSONDdns_total: "\<exists>json. RenderJSONDdns unm r = Inr json"
  using rdd.render_total by (fastforce simp: RenderJSONDdns_def)

lemma succeeds_reconcileKeaDhcpDdns:
  assumes E: "answers E look"
  shows "succeeds (ready look (om_UID (kdd_ObjectMeta cr)) (footprint_dd cr) (KDdns, om_Namespace (kdd_ObjectMeta cr), om_Name (kdd_ObjectMeta cr)))
           (reconcileKeaDhcpDdns E cr)"
proof -
  obtain json where j: "RenderJSONDdns (env_Unmarshal E) (snd (ddns_renderer (kdd_Spec cr))) = Inr json"
    using RenderJSONDdns_total by blast
  show ?thesis
    unfolding reconcileKeaDhcpDdns_def reconcileDdnsService_def Let_def j sum.case
    by (intro succeeds_rules succeeds_writeReadyStatus [OF E] succeeds_readyReplicasOf [OF E] succeeds_event [OF E]
        succeeds_markConfigValid [OF E] succeeds_bindSCC [OF E] succeeds_reconcile_as [OF E])
      (auto simp: footprint_dd_def Let_def cdd.wr_key)
qed

interpretation ldd: live_controller KDdns as_dd kdd_ObjectMeta with_status_dd footprint_dd reconcileKeaDhcpDdns "\<lambda>_ _. True"
  by unfold_locales (rule succeeds_reconcileKeaDhcpDdns)

end
