(* ===== verification/GoBase64.thy ===== *)
theory GoBase64
  imports Prelude
begin

text \<open>
  Go's \<^verbatim>\<open>base64.RawURLEncoding.EncodeToString\<close>: the URL alphabet, no padding. A reader for it
  shows that no bit of the encoded bytes is lost.
\<close>

definition b64_alphabet :: string where
  "b64_alphabet = ''ABCDEFGHIJKLMNOPQRSTUVWXYZabcdefghijklmnopqrstuvwxyz0123456789-_''"

definition b64_char :: "nat \<Rightarrow> char" where
  "b64_char n = b64_alphabet ! (n mod 64)"

text \<open>Three bytes are 24 bits, read as four groups of six; a rest of one or two bytes is padded with zero bits.\<close>

fun b64_encode :: "byte list \<Rightarrow> string" where
  "b64_encode [] = []"
| "b64_encode [a] =
     (let val = unat a * 65536 in [b64_char (val div 262144), b64_char (val div 4096)])"
| "b64_encode [a, b] =
     (let val = unat a * 65536 + unat b * 256
      in [b64_char (val div 262144), b64_char (val div 4096), b64_char (val div 64)])"
| "b64_encode (a # b # c # bs) =
     (let val = unat a * 65536 + unat b * 256 + unat c
      in [b64_char (val div 262144), b64_char (val div 4096), b64_char (val div 64), b64_char val] @ b64_encode bs)"

section \<open>Reading back\<close>

fun index_of :: "'a \<Rightarrow> 'a list \<Rightarrow> nat" where
  "index_of x [] = 0"
| "index_of x (y # ys) = (if x = y then 0 else Suc (index_of x ys))"

lemma index_of_nth: "distinct xs \<Longrightarrow> i < length xs \<Longrightarrow> index_of (xs ! i) xs = i"
  by (induction xs arbitrary: i) (auto simp: nth_Cons' split: if_splits)

definition b64_val :: "char \<Rightarrow> nat" where
  "b64_val c = index_of c b64_alphabet"

lemma b64_alphabet_props: "distinct b64_alphabet" "length b64_alphabet = 64"
  by (simp_all add: b64_alphabet_def)

lemma b64_val_char [simp]: "b64_val (b64_char n) = n mod 64"
  by (simp add: b64_val_def b64_char_def index_of_nth b64_alphabet_props)

fun b64_decode :: "string \<Rightarrow> byte list" where
  "b64_decode (p # q # r # s # cs) =
     (let val = b64_val p * 262144 + b64_val q * 4096 + b64_val r * 64 + b64_val s
      in [word_of_nat (val div 65536), word_of_nat (val div 256), word_of_nat val] @ b64_decode cs)"
| "b64_decode [p, q, r] =
     (let val = b64_val p * 262144 + b64_val q * 4096 + b64_val r * 64
      in [word_of_nat (val div 65536), word_of_nat (val div 256)])"
| "b64_decode [p, q] = [word_of_nat ((b64_val p * 262144 + b64_val q * 4096) div 65536)]"
| "b64_decode _ = []"

lemma sextets:
  assumes "(n::nat) < 16777216"
  shows "n div 262144 mod 64 * 262144 + n div 4096 mod 64 * 4096 + n div 64 mod 64 * 64 + n mod 64 = n"
proof -
  have "n div 64 div 64 = n div 4096" "n div 4096 div 64 = n div 262144" by (simp_all flip: div_mult2_eq)
  then have "n = 64 * (n div 64) + n mod 64" "n div 64 = 64 * (n div 4096) + n div 64 mod 64"
    "n div 4096 = 64 * (n div 262144) + n div 4096 mod 64"
    by (metis mult_div_mod_eq)+
  moreover have "n div 262144 mod 64 = n div 262144" using assms by (simp add: less_mult_imp_div_less)
  ultimately show ?thesis by linarith
qed

lemma byte_lt: "unat (a :: byte) < 256"
  using unsigned_less [of a, where ?'a = nat] by simp

lemma byte_of_nat: "word_of_nat (unat a + 256 * k) = (a :: byte)"
proof -
  have "(word_of_nat 256 :: byte) = 0" by simp
  then show ?thesis by (simp only: of_nat_add of_nat_mult) simp
qed

lemma b64_group:
  fixes a b c :: byte
  defines "n \<equiv> unat a * 65536 + unat b * 256 + unat c"
  shows "n < 16777216" "word_of_nat (n div 65536) = a" "word_of_nat (n div 256) = b" "word_of_nat n = c"
proof -
  note lt = byte_lt [of a] byte_lt [of b] byte_lt [of c]
  show "n < 16777216" using lt by (simp add: n_def)
  have "n div 65536 = unat a + 256 * 0" "n div 256 = unat b + 256 * unat a" "n = unat c + 256 * (256 * unat a + unat b)"
    using lt by (simp_all add: n_def)
  then show "word_of_nat (n div 65536) = a" "word_of_nat (n div 256) = b" "word_of_nat n = c"
    by (metis byte_of_nat)+
qed

text \<open>What the groups of a value decode to; the zero bits of a short group are dropped again.\<close>

lemma decode_group:
  assumes "n < 16777216"
  shows "b64_decode ([b64_char (n div 262144), b64_char (n div 4096), b64_char (n div 64), b64_char n] @ cs)
           = [word_of_nat (n div 65536), word_of_nat (n div 256), word_of_nat n] @ b64_decode cs"
    and "n mod 64 = 0 \<Longrightarrow> b64_decode [b64_char (n div 262144), b64_char (n div 4096), b64_char (n div 64)]
           = [word_of_nat (n div 65536), word_of_nat (n div 256)]"
    and "n mod 64 = 0 \<Longrightarrow> n div 64 mod 64 = 0 \<Longrightarrow> b64_decode [b64_char (n div 262144), b64_char (n div 4096)]
           = [word_of_nat (n div 65536)]"
proof -
  show "b64_decode ([b64_char (n div 262144), b64_char (n div 4096), b64_char (n div 64), b64_char n] @ cs)
      = [word_of_nat (n div 65536), word_of_nat (n div 256), word_of_nat n] @ b64_decode cs"
    by (simp only: append_Cons append_Nil b64_decode.simps Let_def b64_val_char sextets [OF assms])
next
  assume "n mod 64 = 0"
  with sextets [OF assms] have "n div 262144 mod 64 * 262144 + n div 4096 mod 64 * 4096 + n div 64 mod 64 * 64 = n" by linarith
  then show "b64_decode [b64_char (n div 262144), b64_char (n div 4096), b64_char (n div 64)]
      = [word_of_nat (n div 65536), word_of_nat (n div 256)]"
    by (simp only: b64_decode.simps Let_def b64_val_char)
next
  assume "n mod 64 = 0" "n div 64 mod 64 = 0"
  with sextets [OF assms] have "n div 262144 mod 64 * 262144 + n div 4096 mod 64 * 4096 = n" by linarith
  then show "b64_decode [b64_char (n div 262144), b64_char (n div 4096)] = [word_of_nat (n div 65536)]"
    by (simp only: b64_decode.simps b64_val_char)
qed

lemma b64_decode_encode: "b64_decode (b64_encode bs) = bs"
proof (induction bs rule: b64_encode.induct)
  case (2 a)
  have "unat a * 65536 = 64 * (64 * (unat a * 16))" by simp
  then have z: "unat a * 65536 mod 64 = 0" "unat a * 65536 div 64 mod 64 = 0" by simp_all
  have n: "unat a * 65536 < 16777216" and w: "word_of_nat (unat a * 65536 div 65536) = a"
    using b64_group(1,2) [of a 0 0] by simp_all
  show ?case by (simp only: b64_encode.simps Let_def decode_group(3) [OF n z] w)
next
  case (3 a b)
  let ?n = "unat a * 65536 + unat b * 256"
  have "?n = 64 * (unat a * 1024 + unat b * 4)" by simp
  then have z: "?n mod 64 = 0" by simp
  have n: "?n < 16777216" and w: "word_of_nat (?n div 65536) = a" "word_of_nat (?n div 256) = b"
    using b64_group(1,2,3) [of a b 0] by simp_all
  show ?case by (simp only: b64_encode.simps Let_def decode_group(2) [OF n z] w)
next
  case (4 a b c bs)
  then have "b64_decode (b64_encode bs) = bs" by blast
  then show ?case
    by (simp only: b64_encode.simps Let_def decode_group(1) [OF b64_group(1)] b64_group) simp
qed simp

lemma length_b64_encode: "length (b64_encode bs) = (4 * length bs + 2) div 3"
  by (induction bs rule: b64_encode.induct) (simp_all add: Let_def)

lemma set_b64_encode: "set (b64_encode bs) \<subseteq> set b64_alphabet"
proof -
  have "b64_char n \<in> set b64_alphabet" for n
    by (simp add: b64_char_def b64_alphabet_props)
  then show ?thesis by (induction bs rule: b64_encode.induct) (auto simp: Let_def)
qed

lemma b64_encode_inj: "(b64_encode bs = b64_encode bs') = (bs = bs')"
  using b64_decode_encode by metis

end
