(* ===== verification/StorkController.thy ===== *)
theory StorkController
  imports MemEnv GoBase64
begin

text \<open>
  The reconciler of \<^verbatim>\<open>KeaStorkServer\<close> (\<^verbatim>\<open>src/internal/controller/keastorkserver_controller.go\<close>):
  generated Secrets, Deployment, Service, Route and status with the URL of the web UI.
\<close>

section \<open>Route URL\<close>

fun nestedField :: "json \<Rightarrow> string list \<Rightarrow> json option" where
  "nestedField val [] = Some val"
| "nestedField val (field # path) =
     (case val of
        JObj m \<Rightarrow> (case map_get m field of None \<Rightarrow> None | Some v \<Rightarrow> nestedField v path)
      | _ \<Rightarrow> None)"

text \<open>Value, presence and error: absent is \<open>Inr None\<close>, a value of another type is an error.\<close>

definition unstructuredNestedString :: "json \<Rightarrow> string list \<Rightarrow> goerror + string option" where
  "unstructuredNestedString obj path =
     (case nestedField obj path of
        None \<Rightarrow> Inr None
      | Some (JStr s) \<Rightarrow> Inr (Some s)
      | Some _ \<Rightarrow> Inl (Errorf ''field is not a string''))"

definition unstructuredNestedSlice :: "json \<Rightarrow> string list \<Rightarrow> goerror + json list option" where
  "unstructuredNestedSlice obj path =
     (case nestedField obj path of
        None \<Rightarrow> Inr None
      | Some (JArr xs) \<Rightarrow> Inr (Some xs)
      | Some _ \<Rightarrow> Inl (Errorf ''field is not a slice''))"

definition route_url :: "string \<Rightarrow> string" where
  "route_url host = (if host = '''' then '''' else ''https://'' @ host)"

definition ingress_host :: "json \<Rightarrow> string" where
  "ingress_host first = (case first of JObj m \<Rightarrow> (case map_get m ''host'' of Some (JStr h) \<Rightarrow> h | _ \<Rightarrow> '''') | _ \<Rightarrow> '''')"

definition urlOfRoute :: "json \<Rightarrow> string" where
  "urlOfRoute route =
     (case unstructuredNestedString route [''spec'', ''host''] of
        Inr (Some (c # host)) \<Rightarrow> route_url (c # host)
      | _ \<Rightarrow>
          (case unstructuredNestedSlice route [''status'', ''ingress''] of
             Inr (Some (first # _)) \<Rightarrow> route_url (ingress_host first)
           | _ \<Rightarrow> ''''))"

definition as_unstructured :: "kobj \<Rightarrow> Unstructured option" where
  "as_unstructured x = (case x of OUnstructured u \<Rightarrow> Some u | _ \<Rightarrow> None)"

definition getRouteURL :: "'s env \<Rightarrow> string \<Rightarrow> string \<Rightarrow> ('s, string) op" where
  "getRouteURL E namespace name =
     seq (attempt (get_as E (KUnstructured kindRoute) as_unstructured namespace name)) (\<lambda>r.
       ret (case r of Inl _ \<Rightarrow> '''' | Inr u \<Rightarrow> urlOfRoute (un_Object u)))"

section \<open>Generated Secrets\<close>

definition generatePassword :: "byte list \<Rightarrow> string" where
  "generatePassword bytes = b64_encode bytes @ ''!A''"

definition generateToken :: "byte list \<Rightarrow> string" where
  "generateToken bytes = b64_encode bytes"

text \<open>Steps 5 and 6: a Secret is generated only when it does not exist.\<close>

definition ensureSecret ::
  "'s env \<Rightarrow> ObjectMeta \<Rightarrow> string \<Rightarrow> string \<Rightarrow> string \<Rightarrow> (byte list \<Rightarrow> Secret) \<Rightarrow> ('s, unit) op" where
  "ensureSecret E meta what generating name build =
     seq (attempt (get_as E KSecret as_secret (om_Namespace meta) name)) (\<lambda>r.
       case r of
         Inr _ \<Rightarrow> ret ()
       | Inl e \<Rightarrow>
           if IsNotFound e
           then seq (wrap_err generating (env_RandRead E 24)) (\<lambda>bytes. reconcile_as what E meta (OSecret (build bytes)))
           else fail (Wrap (''fetching '' @ what) e))"

definition admin_secret :: "ObjectMeta \<Rightarrow> byte list \<Rightarrow> Secret" where
  "admin_secret meta bytes =
     BuildStorkServerAdminSecret (om_Namespace meta) (StorkAdminSecretName (om_Name meta))
       (CommonLabels (om_Name meta) StorkServerComponent) (generatePassword bytes)"

definition token_secret :: "ObjectMeta \<Rightarrow> byte list \<Rightarrow> Secret" where
  "token_secret meta bytes =
     BuildStorkServerTokenSecret (om_Namespace meta) (StorkServerTokenSecretName (om_Name meta))
       (CommonLabels (om_Name meta) StorkServerComponent) (generateToken bytes)"

definition reconcileAdminSecret :: "'s env \<Rightarrow> ObjectMeta \<Rightarrow> ('s, unit) op" where
  "reconcileAdminSecret E meta =
     ensureSecret E meta ''admin Secret'' ''generating admin password'' (StorkAdminSecretName (om_Name meta)) (admin_secret meta)"

definition reconcileTokenSecret :: "'s env \<Rightarrow> ObjectMeta \<Rightarrow> ('s, unit) op" where
  "reconcileTokenSecret E meta =
     ensureSecret E meta ''server token Secret'' ''generating server token'' (StorkServerTokenSecretName (om_Name meta)) (token_secret meta)"

section \<open>Reconcile\<close>

text \<open>Steps 2, 3 and the parameters of step 7.\<close>

definition storkServerParams :: "KeaStorkServer \<Rightarrow> StorkServerParams" where
  "storkServerParams server =
     (let meta = kss_ObjectMeta server; spec = kss_Spec server; db = ss_Database spec; ctr = ss_Container spec;
          pp = resolvePodParams ctr None (ss_Placement spec) None
      in \<lparr>ssv_Namespace = om_Namespace meta, ssv_CRName = om_Name meta, ssv_Image = ctr_Image ctr,
          ssv_ImagePullPolicy = ctr_ImagePullPolicy ctr, ssv_Replicas = ss_Replicas spec, ssv_Resources = ctr_Resources ctr,
          ssv_Port = (case ss_Port spec of None \<Rightarrow> DefaultStorkServerPort | Some p \<Rightarrow> p),
          ssv_EnableMetrics = (case ss_EnableMetrics spec of None \<Rightarrow> True | Some b \<Rightarrow> b),
          ssv_ImagePullSecrets = ctr_ImagePullSecrets ctr, ssv_ServiceAccountName = ServiceAccountName (om_Name meta),
          ssv_DBHost = sdb_Host db,
          ssv_DBPort = (case sdb_Port db of None \<Rightarrow> 5432 | Some p \<Rightarrow> p),
          ssv_DBName = (if sdb_Name db \<noteq> '''' then sdb_Name db else ''stork''),
          ssv_DBSSLMode = (if sdb_SSLMode db \<noteq> '''' then sdb_SSLMode db else ''disable''),
          ssv_NodeSelector = pod_nodeSelector pp, ssv_Tolerations = pod_tolerations pp, ssv_Affinity = pod_affinity pp,
          ssv_PodAnnotations = pod_podAnnotations pp,
          ssv_SecretEnvVars =
            [secret_ref_env ''STORK_DATABASE_USER_NAME'' (sdb_CredentialsSecretRef db) secretKeyUsername,
             secret_ref_env ''STORK_DATABASE_PASSWORD'' (sdb_CredentialsSecretRef db) secretKeyPassword],
          ssv_AdminSecretName = StorkAdminSecretName (om_Name meta),
          ssv_ServerTokenSecretName = StorkServerTokenSecretName (om_Name meta)\<rparr>)"

definition with_status_ss :: "KeaStorkServer \<Rightarrow> KeaStorkServerStatus \<Rightarrow> kobj" where
  "with_status_ss server st = OStorkServer (server\<lparr>kss_Status := st\<rparr>)"

text \<open>Step 9: the Route, whose failure is only logged, and the provisional URL.\<close>

definition reconcileStorkRoute :: "'s env \<Rightarrow> KeaStorkServer \<Rightarrow> ('s, KeaStorkServerStatus) op" where
  "reconcileStorkRoute E server =
     (let meta = kss_ObjectMeta server
      in if env_IsOpenShift E
         then seq (attempt (reconcileRoute E meta (BuildStorkServerRoute (om_Namespace meta) (om_Name meta)))) (\<lambda>_.
              ret ((kss_Status server)\<lparr>ssst_URL := ''https://'' @ ServiceName (om_Name meta) StorkServerComponent @ ''-''
                     @ om_Namespace meta @ ''.apps.'' @ ''cluster.local''\<rparr>))
         else ret (kss_Status server))"

text \<open>Step 10: the URL of the admitted Route replaces the provisional one.\<close>

definition actualRouteURL :: "'s env \<Rightarrow> KeaStorkServer \<Rightarrow> KeaStorkServerStatus \<Rightarrow> ('s, KeaStorkServerStatus) op" where
  "actualRouteURL E server st =
     (let meta = kss_ObjectMeta server
      in if env_IsOpenShift E
         then seq (getRouteURL E (om_Namespace meta) (ServiceName (om_Name meta) StorkServerComponent)) (\<lambda>routeURL.
              ret (if routeURL \<noteq> '''' then st\<lparr>ssst_URL := routeURL\<rparr> else st))
         else ret st)"

definition reconcileKeaStorkServer :: "'s env \<Rightarrow> KeaStorkServer \<Rightarrow> ('s, unit) op" where
  "reconcileKeaStorkServer E server =
     (let component = StorkServerComponent;
          meta = kss_ObjectMeta server;
          lbls = CommonLabels (om_Name meta) component;
          sp = storkServerParams server;
          replicas = replicas_or_one (ss_Replicas (kss_Spec server))
      in seq (reconcile_as ''ServiceAccount'' E meta (OServiceAccount (BuildServiceAccount (om_Namespace meta) (om_Name meta) lbls))) (\<lambda>_.
         seq (reconcileAdminSecret E meta) (\<lambda>_.
         seq (reconcileTokenSecret E meta) (\<lambda>_.
         seq (reconcile_as ''Deployment'' E meta (ODeployment (BuildStorkServerDeployment sp))) (\<lambda>_.
         seq (reconcile_as ''Service'' E meta (OService (BuildStorkServerService (om_Namespace meta) (om_Name meta) (ssv_Port sp)))) (\<lambda>_.
         seq (reconcileStorkRoute E server) (\<lambda>st.
         seq (readyReplicasOf E KDeployment as_deployment dep_ReadyReplicas (om_Namespace meta) (DeploymentName (om_Name meta) component)) (\<lambda>readyReplicas.
         seq (setReadyStatus E readyReplicas replicas
                (st\<lparr>st_ReadyReplicas := readyReplicas, st_ObservedGeneration := om_Generation meta,
                    ssst_AdminSecretName := ssv_AdminSecretName sp, ssst_ServerTokenSecretName := ssv_ServerTokenSecretName sp\<rparr>)) (\<lambda>st.
         seq (actualRouteURL E server st) (\<lambda>st.
         seq (wrap_err ''updating status'' (api_StatusUpdate E (with_status_ss server st))) (\<lambda>_.
         event E (with_status_ss server st) ''Normal'' ''Reconciled'' ''Successfully reconciled KeaStorkServer'')))))))))))"

definition ReconcileStorkServer :: "'s env \<Rightarrow> string \<Rightarrow> string \<Rightarrow> ('s, unit) op" where
  "ReconcileStorkServer E ns name = fetch_and E KStorkServer as_storkserver (reconcileKeaStorkServer E) ns name"

section \<open>What the reconciler writes\<close>

definition footprint_ss :: "KeaStorkServer \<Rightarrow> okey set" where
  "footprint_ss server =
     (let ns = om_Namespace (kss_ObjectMeta server); n = om_Name (kss_ObjectMeta server)
      in {(KServiceAccount, ns, ServiceAccountName n), (KSecret, ns, StorkAdminSecretName n),
          (KSecret, ns, StorkServerTokenSecretName n), (KDeployment, ns, DeploymentName n StorkServerComponent),
          (KService, ns, ServiceName n StorkServerComponent), (KUnstructured kindRoute, ns, ServiceName n StorkServerComponent)})"

lemma obj_key_stork [simp]:
  "obj_key (OSecret (admin_secret meta bs)) = (KSecret, om_Namespace meta, StorkAdminSecretName (om_Name meta))"
  "obj_key (OSecret (token_secret meta bs)) = (KSecret, om_Namespace meta, StorkServerTokenSecretName (om_Name meta))"
  "obj_key (ODeployment (BuildStorkServerDeployment p)) = (KDeployment, ssv_Namespace p, DeploymentName (ssv_CRName p) StorkServerComponent)"
  "obj_key (OService (BuildStorkServerService ns n port)) = (KService, ns, ServiceName n StorkServerComponent)"
  by (simp_all add: obj_key_def admin_secret_def token_secret_def BuildStorkServerAdminSecret_def BuildStorkServerTokenSecret_def
      BuildStorkServerDeployment_def BuildStorkServerService_def object_meta_def Let_def)

lemma obj_key_BuildStorkServerRoute [simp]:
  "obj_key (route_obj (BuildStorkServerRoute ns n)) = (KUnstructured kindRoute, ns, ServiceName n StorkServerComponent)"
  by (simp add: BuildStorkServerRoute_def Let_def)

lemma storkServerParams_fields [simp]:
  "ssv_Namespace (storkServerParams s) = om_Namespace (kss_ObjectMeta s)" "ssv_CRName (storkServerParams s) = om_Name (kss_ObjectMeta s)"
  by (simp_all add: storkServerParams_def Let_def)

lemma keeps_ensureSecret:
  assumes "env_keeps E W I" "scr_law E" "\<And>bs. covers W (om_UID meta) (obj_key (OSecret (build bs)))"
  shows "keeps I (ensureSecret E meta what gen name build)"
  unfolding ensureSecret_def
  by (intro keeps_rules keeps_get_as [OF assms(1)] keeps_env(4) [OF assms(1)] keeps_reconcile_as [OF assms(1,2)] assms(3))

lemma keeps_reconcileKeaStorkServer:
  assumes mw: "may_write E W I (kss_ObjectMeta cr) (with_status_ss cr)"
    and fp: "\<forall>K \<in> footprint_ss cr. covers W (om_UID (kss_ObjectMeta cr)) K"
  shows "keeps I (reconcileKeaStorkServer E cr)"
proof -
  note E = may_writeD(1) [OF mw] and scr = may_writeD(2) [OF mw]
  show ?thesis
    unfolding reconcileKeaStorkServer_def reconcileAdminSecret_def reconcileTokenSecret_def reconcileStorkRoute_def
      actualRouteURL_def getRouteURL_def Let_def
    using fp
    by (intro keeps_rules keeps_setReadyStatus [OF E] keeps_readyReplicasOf [OF E] keeps_get_as [OF E] keeps_env(8) [OF E]
        keeps_event [OF E] may_writeD(4) [OF mw] keeps_reconcile_as [OF E scr] keeps_reconcileRoute [OF E scr] keeps_ensureSecret [OF E scr])
      (auto simp: footprint_ss_def Let_def)
qed

interpretation css: component_controller KStorkServer as_storkserver kss_ObjectMeta with_status_ss footprint_ss reconcileKeaStorkServer
proof unfold_locales
  fix x cr assume "as_storkserver x = Some cr"
  then show "obj_meta x = kss_ObjectMeta cr" by (cases x) (simp_all add: as_storkserver_def)
next
  show "obj_key (with_status_ss cr st) = (KStorkServer, om_Namespace (kss_ObjectMeta cr), om_Name (kss_ObjectMeta cr))" for cr st
    by (simp add: with_status_ss_def obj_key_def)
next
  fix E :: "'s env" and W I cr
  assume "may_write E W I (kss_ObjectMeta cr) (with_status_ss cr)"
    and "\<forall>K \<in> footprint_ss cr. covers W (om_UID (kss_ObjectMeta cr)) K"
  then show "keeps I (reconcileKeaStorkServer E cr)" by (rule keeps_reconcileKeaStorkServer)
qed simp


section \<open>Progress\<close>

lemma owner_stork [simp]:
  "obj_owner (OSecret (admin_secret meta bs)) = None" "obj_owner (OSecret (token_secret meta bs)) = None"
  "obj_owner (ODeployment (BuildStorkServerDeployment p)) = None" "obj_owner (OService (BuildStorkServerService ns n port)) = None"
  by (simp_all add: obj_owner_def admin_secret_def token_secret_def BuildStorkServerAdminSecret_def BuildStorkServerTokenSecret_def
      BuildStorkServerDeployment_def BuildStorkServerService_def object_meta_def zero_ObjectMeta_def Let_def)

lemma get_as_answers:
  assumes E: "answers E look" and "\<And>x. obj_key x = (k, ns, n) \<Longrightarrow> sel x \<noteq> None"
  shows "(\<exists>x. fst (get_as E k sel ns n s) = Inr x) \<or> (\<exists>e. fst (get_as E k sel ns n s) = Inl e \<and> IsNotFound e)"
proof (cases "look s (k, ns, n)")
  case None
  with up_lawD(2) [OF answersD(2) [OF E] None] show ?thesis by (auto simp: get_as_def seq_def split: prod.split)
next
  case (Some x)
  from assms(2) [OF store_lawD(4) [OF answersD(1) [OF E] Some]] up_lawD(1) [OF answersD(2) [OF E] Some]
  show ?thesis by (auto simp: get_as_def seq_def decode_def ret_def split: prod.split)
qed

lemma secret_decodes: "obj_key x = (KSecret, ns, n) \<Longrightarrow> as_secret x \<noteq> None"
  by (cases x) (simp_all add: obj_key_def as_secret_def)

lemma succeeds_ensureSecret:
  assumes E: "answers E look" and "\<And>bs. obj_key (OSecret (build bs)) \<in> A" "\<And>bs. obj_owner (OSecret (build bs)) = None"
  shows "succeeds (ready look (om_UID meta) A cr) (ensureSecret E meta what gen name build)"
proof (rule succeedsI)
  let ?I = "ready look (om_UID meta) A cr"
  show "keeps ?I (ensureSecret E meta what gen name build)"
    by (rule keeps_ensureSecret [OF answersD(4,3) [OF E] harmless_covers])
  fix s assume I: "?I s"
  let ?g = "get_as E KSecret as_secret (om_Namespace meta) name"
  let ?k = "seq (wrap_err gen (env_RandRead E 24)) (\<lambda>bytes. reconcile_as what E meta (OSecret (build bytes)))"
  have k: "succeeds ?I ?k" by (intro succeeds_rules succeeds_RandRead [OF E] succeeds_reconcile_as [OF E] assms(2,3))
  have "?I (snd (?g s))" by (rule keeps_get_as [OF answersD(4) [OF E], unfolded keeps_def, THEN spec, THEN mp, OF I])
  from succeedsD [OF k this] obtain u s' where "?k (snd (?g s)) = (Inr u, s')" by auto
  moreover have "(\<exists>x. fst (?g s) = Inr x) \<or> (\<exists>e. fst (?g s) = Inl e \<and> IsNotFound e)"
    by (rule get_as_answers [OF E secret_decodes])
  ultimately show "\<exists>x. fst (ensureSecret E meta what gen name build s) = Inr x"
    by (cases "?g s") (auto simp: ensureSecret_def seq_def [of "attempt _"] attempt_def ret_def)
qed

lemma succeeds_reconcileKeaStorkServer:
  assumes E: "answers E look"
  shows "succeeds (ready look (om_UID (kss_ObjectMeta cr)) (footprint_ss cr) (KStorkServer, om_Namespace (kss_ObjectMeta cr), om_Name (kss_ObjectMeta cr)))
           (reconcileKeaStorkServer E cr)"
  unfolding reconcileKeaStorkServer_def reconcileAdminSecret_def reconcileTokenSecret_def reconcileStorkRoute_def
    actualRouteURL_def getRouteURL_def Let_def
  by (intro succeeds_rules succeeds_setReadyStatus [OF E] succeeds_readyReplicasOf [OF E] succeeds_event [OF E] succeeds_status [OF E]
      succeeds_reconcile_as [OF E] succeeds_ensureSecret [OF E] keeps_get_as [OF answersD(4) [OF E]]
      keeps_reconcileRoute [OF answersD(4,3) [OF E] harmless_covers])
    (auto simp: footprint_ss_def Let_def css.wr_key)

interpretation lss: live_controller KStorkServer as_storkserver kss_ObjectMeta with_status_ss footprint_ss reconcileKeaStorkServer "\<lambda>_ _. True"
  by unfold_locales (rule succeeds_reconcileKeaStorkServer)

section \<open>Secrets are generated once\<close>

text \<open>What becomes of the Secret at a key that held \<open>v\<close>: an existing one stays, a new one has random data.\<close>

definition secret_after :: "'s env \<Rightarrow> string \<Rightarrow> (byte list \<Rightarrow> Secret) \<Rightarrow> kobj option \<Rightarrow> kobj option \<Rightarrow> bool" where
  "secret_after E uid build v w =
     (case v of
        Some x \<Rightarrow> w = Some x
      | None \<Rightarrow> (\<exists>bs t t' y. env_RandRead E 24 t = (Inr bs, t') \<and> w = Some y \<and> persisted (set_owner uid (OSecret (build bs))) y))"

lemma ensureSecret_stable:
  assumes law: "store_law E look"
  shows "keeps (\<lambda>s. look s (KSecret, om_Namespace meta, name) = Some x) (ensureSecret E meta what gen name build)"
proof -
  let ?g = "get_as E KSecret as_secret (om_Namespace meta) name"
  have "look (snd (ensureSecret E meta what gen name build s)) = look s" if x: "look s (KSecret, om_Namespace meta, name) = Some x" for s
  proof -
    obtain r s1 where g: "api_Get E KSecret (om_Namespace meta) name s = (r, s1)" by fastforce
    have same: "look s1 = look s" using get_look [OF law, of KSecret "om_Namespace meta" name s] g by simp
    show ?thesis
    proof (cases r)
      case (Inl e)
      with get_missing [OF law] g x have "\<not> IsNotFound e" by auto
      with Inl g same show ?thesis by (simp add: ensureSecret_def get_as_def seq_def attempt_def fail_def)
    next
      case (Inr y)
      with get_found [OF law, of KSecret _ _ _ y s1] g secret_decodes obtain d where "as_secret y = Some d" by blast
      with Inr g same show ?thesis by (simp add: ensureSecret_def get_as_def seq_def attempt_def decode_def ret_def)
    qed
  qed
  then show ?thesis by (simp add: keeps_def)
qed

lemma ensureSecret_post:
  assumes law: "store_law E look" and key: "\<And>bs. obj_key (OSecret (build bs)) = (KSecret, om_Namespace meta, name)"
  shows "valid (\<lambda>s. look s (KSecret, om_Namespace meta, name) = v) (ensureSecret E meta what gen name build)
           (\<lambda>_ s. secret_after E (om_UID meta) build v (look s (KSecret, om_Namespace meta, name)))"
proof (cases v)
  case (Some x)
  then show ?thesis using valid_keeps [OF ensureSecret_stable [OF law]] by (simp add: secret_after_def)
next
  case None
  show ?thesis
  proof (rule validI)
    let ?K = "(KSecret, om_Namespace meta, name)"
    fix s u s' assume v: "look s ?K = v" and m: "ensureSecret E meta what gen name build s = (Inr u, s')"
    obtain r s1 where g: "api_Get E KSecret (om_Namespace meta) name s = (r, s1)" by fastforce
    with get_found [OF law, of KSecret _ _ _ _ s1] v None obtain e where "r = Inl e" by (cases r) auto
    with g m have "seq (wrap_err gen (env_RandRead E 24)) (\<lambda>bytes. reconcile_as what E meta (OSecret (build bytes))) s1 = (Inr u, s')"
      by (simp add: ensureSecret_def get_as_def seq_def [of "attempt _"] seq_def [of "api_Get _ _ _ _"] attempt_def fail_def split: if_splits)
    then obtain bs s2 where r: "env_RandRead E 24 s1 = (Inr bs, s2)" and w: "reconcileResource E meta (OSecret (build bs)) s2 = (Inr u, s')"
      by (auto simp: reconcile_as_def elim!: seq_success dest!: wrap_success)
    from validD [OF reconcileResource_post [OF law] TrueI w] r
    show "secret_after E (om_UID meta) build v (look s' ?K)" by (auto simp: secret_after_def None key)
  qed
qed

text \<open>The two Secrets, and the steps that leave a Secret alone.\<close>

lemma stork_secret_names: "StorkAdminSecretName n \<noteq> StorkServerTokenSecretName n"
  by (simp add: StorkAdminSecretName_def StorkServerTokenSecretName_def)

lemma keeps_other_secret:
  assumes "store_law E look" "name \<noteq> name'" and "\<And>bs. obj_key (OSecret (build bs)) = (KSecret, om_Namespace meta, name)"
  shows "keeps (\<lambda>s. P (look s (KSecret, om_Namespace meta, name'))) (ensureSecret E meta what gen name build)"
  using assms(2)
  by (intro keeps_ensureSecret [OF env_keeps_look [OF assms(1)] store_lawD(1) [OF assms(1)] covers_other]) (simp add: assms(3))

lemma stork_secrets_valid:
  fixes cr :: KeaStorkServer
  assumes law: "store_law E look"
  defines "meta \<equiv> kss_ObjectMeta cr"
  shows "valid (\<lambda>s. look s (KSecret, om_Namespace meta, StorkAdminSecretName (om_Name meta)) = v) (reconcileKeaStorkServer E cr)
      (\<lambda>_ s. secret_after E (om_UID meta) (admin_secret meta) v (look s (KSecret, om_Namespace meta, StorkAdminSecretName (om_Name meta))))"
    and "valid (\<lambda>s. look s (KSecret, om_Namespace meta, StorkServerTokenSecretName (om_Name meta)) = v) (reconcileKeaStorkServer E cr)
      (\<lambda>_ s. secret_after E (om_UID meta) (token_secret meta) v (look s (KSecret, om_Namespace meta, StorkServerTokenSecretName (om_Name meta))))"
proof -
  note E = env_keeps_look [OF law] and scr = store_lawD(1) [OF law]
  note steps = keeps_rules keeps_setReadyStatus [OF E] keeps_readyReplicasOf [OF E] keeps_get_as [OF E] keeps_env(8) [OF E]
    keeps_event [OF E] keeps_reconcile_as [OF E scr] keeps_reconcileRoute [OF E scr]
  note post = ensureSecret_post [OF law obj_key_stork(1)] ensureSecret_post [OF law obj_key_stork(2)]
  note other = keeps_other_secret [OF law _ obj_key_stork(1)] keeps_other_secret [OF law _ obj_key_stork(2)]
  show "valid (\<lambda>s. look s (KSecret, om_Namespace meta, StorkAdminSecretName (om_Name meta)) = v) (reconcileKeaStorkServer E cr)
      (\<lambda>_ s. secret_after E (om_UID meta) (admin_secret meta) v (look s (KSecret, om_Namespace meta, StorkAdminSecretName (om_Name meta))))"
    unfolding reconcileKeaStorkServer_def reconcileAdminSecret_def reconcileTokenSecret_def reconcileStorkRoute_def
      actualRouteURL_def getRouteURL_def Let_def meta_def [symmetric]
    by (rule valid_seq [OF valid_keeps valid_seq [OF post(1) valid_seq [OF valid_keeps [OF other(2)] valid_keeps]]];
        (intro steps)?; auto intro!: covers_other simp: css.wr_key stork_secret_names dest: sym)
  show "valid (\<lambda>s. look s (KSecret, om_Namespace meta, StorkServerTokenSecretName (om_Name meta)) = v) (reconcileKeaStorkServer E cr)
      (\<lambda>_ s. secret_after E (om_UID meta) (token_secret meta) v (look s (KSecret, om_Namespace meta, StorkServerTokenSecretName (om_Name meta))))"
    unfolding reconcileKeaStorkServer_def reconcileAdminSecret_def reconcileTokenSecret_def reconcileStorkRoute_def
      actualRouteURL_def getRouteURL_def Let_def meta_def [symmetric]
    by (rule valid_seq [OF valid_keeps valid_seq [OF valid_keeps [OF other(1)] valid_seq [OF post(2) valid_keeps]]];
        (intro steps)?; auto intro!: covers_other simp: css.wr_key stork_secret_names)
qed

lemma stork_secrets_keep:
  fixes cr :: KeaStorkServer
  assumes law: "store_law E look"
  defines "meta \<equiv> kss_ObjectMeta cr"
  shows "keeps (\<lambda>s. look s (KSecret, om_Namespace meta, name) = Some x) (reconcileKeaStorkServer E cr)"
proof -
  note E = env_keeps_look [OF law, of _ "\<lambda>v. v = Some x"] and scr = store_lawD(1) [OF law]
  let ?I = "\<lambda>s. look s (KSecret, om_Namespace meta, name) = Some x"
  have one: "keeps ?I (ensureSecret E meta w g name' build)"
    if "\<And>bs. obj_key (OSecret (build bs)) = (KSecret, om_Namespace meta, name')" for w g name' build
    using ensureSecret_stable [OF law] keeps_other_secret [OF law _ that, of name "\<lambda>v. v = Some x"]
    by (cases "name' = name") simp_all
  note secrets = one [OF obj_key_stork(1)] one [OF obj_key_stork(2)]
  show ?thesis
    unfolding reconcileKeaStorkServer_def reconcileAdminSecret_def reconcileTokenSecret_def reconcileStorkRoute_def
      actualRouteURL_def getRouteURL_def Let_def meta_def [symmetric]
    by (intro keeps_rules secrets keeps_setReadyStatus [OF E] keeps_readyReplicasOf [OF E] keeps_get_as [OF E] keeps_env(8) [OF E]
        keeps_event [OF E] keeps_reconcile_as [OF E scr] keeps_reconcileRoute [OF E scr])
      (auto intro!: covers_other simp: css.wr_key)
qed

lemma new_secret:
  assumes "secret_after E u build None w"
  shows "\<exists>d bs t t'. w = Some (OSecret d) \<and> obj_owner (OSecret d) = Some u \<and> env_RandRead E 24 t = (Inr bs, t')
      \<and> sec_Data d = sec_Data (build bs)"
proof -
  from assms obtain bs t t' y where r: "env_RandRead E 24 t = (Inr bs, t')" and w: "w = Some y"
      and y: "persisted (set_owner u (OSecret (build bs))) y"
    unfolding secret_after_def by auto
  from y obtain d where d: "y = OSecret d" by (cases y) (simp_all add: persisted_def same_content_def)
  from y have "obj_owner y = Some u" by (simp only: persisted_def owner_set_owner)
  with y d have "obj_owner (OSecret d) = Some u" "sec_Data d = sec_Data (build bs)" by (simp_all add: persisted_def same_content_def)
  with r w d show ?thesis by blast
qed

lemma secret_contents:
  "map_get (sec_Data (admin_secret m bs)) ''password'' = Some (b64_encode bs @ ''!A'')"
  "map_get (sec_Data (token_secret m bs)) ''token'' = Some (b64_encode bs)"
  by (simp_all add: admin_secret_def BuildStorkServerAdminSecret_def generatePassword_def
      token_secret_def BuildStorkServerTokenSecret_def generateToken_def map_get_lit)

text \<open>
  C11: the Stork admin and token Secrets are generated once. A Secret that exists when the
  reconciliation starts is the same afterwards, whatever happens, even if another controller
  made it. If it does not exist, a reconciliation that succeeds leaves one owned by the
  resource whose password (token) is the encoding of 24 random bytes, so that different
  random bytes give different secrets.
\<close>

theorem stork_secrets_generated_once:
  assumes "store_law E look" and "look s (KStorkServer, ns, n) = Some (OStorkServer cr)" and "ReconcileStorkServer E ns n s = (r, s')"
  shows "(case look s (KSecret, ns, StorkAdminSecretName n) of
            Some x \<Rightarrow> look s' (KSecret, ns, StorkAdminSecretName n) = Some x
          | None \<Rightarrow> r = Inr () \<longrightarrow> (\<exists>d bs t t'. look s' (KSecret, ns, StorkAdminSecretName n) = Some (OSecret d)
              \<and> obj_owner (OSecret d) = Some (om_UID (kss_ObjectMeta cr)) \<and> env_RandRead E 24 t = (Inr bs, t')
              \<and> map_get (sec_Data d) ''password'' = Some (b64_encode bs @ ''!A'')))
     \<and> (case look s (KSecret, ns, StorkServerTokenSecretName n) of
            Some x \<Rightarrow> look s' (KSecret, ns, StorkServerTokenSecretName n) = Some x
          | None \<Rightarrow> r = Inr () \<longrightarrow> (\<exists>d bs t t'. look s' (KSecret, ns, StorkServerTokenSecretName n) = Some (OSecret d)
              \<and> obj_owner (OSecret d) = Some (om_UID (kss_ObjectMeta cr)) \<and> env_RandRead E 24 t = (Inr bs, t')
              \<and> map_get (sec_Data d) ''token'' = Some (b64_encode bs)))"
proof -
  note law = assms(1)
  have key: "om_Namespace (kss_ObjectMeta cr) = ns" "om_Name (kss_ObjectMeta cr) = n"
    using store_lawD(4) [OF law assms(2)] by (simp_all add: obj_key_def)
  have "?thesis" if s1: "look s1 = look s" and m: "reconcileKeaStorkServer E cr s1 = (r, s')" for s1
  proof -
    have keep: "look s (KSecret, ns, name) = Some x \<Longrightarrow> look s' (KSecret, ns, name) = Some x" for name x
      using keepsD [OF stork_secrets_keep [OF law, of cr name x] _ m] by (simp add: key s1)
    have new: "secret_after E (om_UID (kss_ObjectMeta cr)) (admin_secret (kss_ObjectMeta cr)) (look s (KSecret, ns, StorkAdminSecretName n))
          (look s' (KSecret, ns, StorkAdminSecretName n))"
      "secret_after E (om_UID (kss_ObjectMeta cr)) (token_secret (kss_ObjectMeta cr)) (look s (KSecret, ns, StorkServerTokenSecretName n))
          (look s' (KSecret, ns, StorkServerTokenSecretName n))" if "r = Inr ()"
      using validD [OF stork_secrets_valid(1) [OF law, of cr] refl m [unfolded that]]
        validD [OF stork_secrets_valid(2) [OF law, of cr] refl m [unfolded that]] by (simp_all add: key s1)
    show ?thesis
    proof (intro conjI)
      show "case look s (KSecret, ns, StorkAdminSecretName n) of
            Some x \<Rightarrow> look s' (KSecret, ns, StorkAdminSecretName n) = Some x
          | None \<Rightarrow> r = Inr () \<longrightarrow> (\<exists>d bs t t'. look s' (KSecret, ns, StorkAdminSecretName n) = Some (OSecret d)
              \<and> obj_owner (OSecret d) = Some (om_UID (kss_ObjectMeta cr)) \<and> env_RandRead E 24 t = (Inr bs, t')
              \<and> map_get (sec_Data d) ''password'' = Some (b64_encode bs @ ''!A''))"
        by (cases "look s (KSecret, ns, StorkAdminSecretName n)"; auto simp: keep secret_contents dest!: new(1) new_secret; blast)
      show "case look s (KSecret, ns, StorkServerTokenSecretName n) of
            Some x \<Rightarrow> look s' (KSecret, ns, StorkServerTokenSecretName n) = Some x
          | None \<Rightarrow> r = Inr () \<longrightarrow> (\<exists>d bs t t'. look s' (KSecret, ns, StorkServerTokenSecretName n) = Some (OSecret d)
              \<and> obj_owner (OSecret d) = Some (om_UID (kss_ObjectMeta cr)) \<and> env_RandRead E 24 t = (Inr bs, t')
              \<and> map_get (sec_Data d) ''token'' = Some (b64_encode bs))"
        by (cases "look s (KSecret, ns, StorkServerTokenSecretName n)"; auto simp: keep secret_contents dest!: new(2) new_secret; blast)
    qed
  qed
  then show ?thesis
    by (rule_tac fetch_runs [OF law assms(2) _ assms(3) [unfolded ReconcileStorkServer_def], of cr])
      (simp_all add: as_storkserver_def split: option.split)
qed

definition sample_stork :: KeaStorkServer where
  "sample_stork = zero_KeaStorkServer\<lparr>kss_ObjectMeta := zero_ObjectMeta\<lparr>om_Name := ''st'', om_Namespace := ''kea'', om_UID := ''u5''\<rparr>\<rparr>"

definition own_password :: Secret where
  "own_password = \<lparr>sec_Meta = zero_ObjectMeta\<lparr>om_Name := ''st-stork-admin'', om_Namespace := ''kea''\<rparr>, sec_Type = ''Opaque'',
     sec_Data = [(''password'', ''mine'')]\<rparr>"

text \<open>An administrator's own password stays, the token is generated.\<close>

theorem stork_secrets_generated_once_witness:
  "\<exists>s' d bs. ReconcileStorkServer (mem_env True) ''kea'' ''st'' (mem_init [OStorkServer sample_stork, OSecret own_password]) = (Inr (), s')
     \<and> mem_look s' (KSecret, ''kea'', ''st-stork-admin'') = Some (OSecret own_password)
     \<and> mem_look s' (KSecret, ''kea'', ''st-stork-server-token'') = Some (OSecret d)
     \<and> map_get (sec_Data d) ''token'' = Some (b64_encode bs)"
proof -
  let ?s = "mem_init [OStorkServer sample_stork, OSecret own_password]"
  have l: "mem_look ?s (KStorkServer, ''kea'', ''st'') = Some (OStorkServer sample_stork)"
    "mem_look ?s (KSecret, ''kea'', ''st-stork-admin'') = Some (OSecret own_password)"
    "mem_look ?s (KSecret, ''kea'', ''st-stork-server-token'') = None"
    by (simp_all add: mem_look_def mem_init_def obj_key_def sample_stork_def own_password_def)
  have "was_claimable u (mem_look ?s K)" for u K
    by (auto simp: mem_look_def mem_init_def was_claimable_def claimable_def obj_owner_def sample_stork_def own_password_def zero_ObjectMeta_def)
  then obtain s' where r: "ReconcileStorkServer (mem_env True) ''kea'' ''st'' ?s = (Inr (), s')"
    using lss.reconcile_succeeds [of "mem_env True" mem_look ?s "''kea''" "''st''" "OStorkServer sample_stork" sample_stork] mem_answers l(1)
    by (simp add: ReconcileStorkServer_def as_storkserver_def) blast
  from stork_secrets_generated_once [OF mem_store_law l(1) r] l(2,3) r show ?thesis
    by (auto simp: StorkAdminSecretName_def StorkServerTokenSecretName_def)
qed


text \<open>
  C38: the generated secrets lose nothing of the random bytes. The bytes can be read back from
  a token and from a password, so different bytes give different secrets; the lengths are
  fixed by the number of bytes; a token has only characters that need no quoting in a URL, a
  shell word or a Secret, and a password has an upper-case letter and a special character.
\<close>

theorem stork_credentials_roundtrip:
  "b64_decode (generateToken bs) = bs
   \<and> (generateToken bs = generateToken bs') = (bs = bs')
   \<and> b64_decode (take (length (generatePassword bs) - 2) (generatePassword bs)) = bs
   \<and> (generatePassword bs = generatePassword bs') = (bs = bs')
   \<and> length (generateToken bs) = (4 * length bs + 2) div 3
   \<and> length (generatePassword bs) = (4 * length bs + 2) div 3 + 2
   \<and> set (generateToken bs) \<subseteq> set b64_alphabet
   \<and> {CHR ''!'', CHR ''A''} \<subseteq> set (generatePassword bs)"
  by (simp add: generateToken_def generatePassword_def b64_decode_encode b64_encode_inj length_b64_encode set_b64_encode)

end
