(* ===== verification/KeaServerController.thy ===== *)
theory KeaServerController
  imports ComponentSteps MemEnv
begin

text \<open>
  The reconciler of the umbrella resource \<^verbatim>\<open>KeaServer\<close>
  (\<^verbatim>\<open>src/internal/controller/keaserver_controller.go\<close>): one child resource per configured component,
  deletion of the others, and a status aggregated from the children.
\<close>

section \<open>Children\<close>

text \<open>
  The five child steps have one shape: read the child by its conventional name; without a
  spec, delete what is there; with one, create or update it. \<open>child\<close> is an empty child with
  the given metadata, \<open>put\<close> writes the spec into a live child.
\<close>

definition reconcileChild ::
  "'s env \<Rightarrow> ObjectMeta \<Rightarrow> okind \<Rightarrow> string \<Rightarrow> 'sp option \<Rightarrow> (ObjectMeta \<Rightarrow> kobj) \<Rightarrow> ('sp \<Rightarrow> kobj \<Rightarrow> kobj) \<Rightarrow> ('s, unit) op" where
  "reconcileChild E owner k childName spec child put =
     seq (attempt (api_Get E k (om_Namespace owner) childName)) (\<lambda>r.
       case spec of
         None \<Rightarrow> (case r of
                    Inr existing \<Rightarrow> api_Delete E existing
                  | Inl err \<Rightarrow> if IsNotFound err then ret () else fail err)
       | Some sp \<Rightarrow>
           api_CreateOrUpdate E (child (zero_ObjectMeta\<lparr>om_Name := childName, om_Namespace := om_Namespace owner\<rparr>))
             (\<lambda>live. api_SetControllerReference E owner (put sp live)))"

definition put_dhcp4 :: "KeaDhcp4ServerSpec \<Rightarrow> kobj \<Rightarrow> kobj" where
  "put_dhcp4 sp x = (case x of ODhcp4 c \<Rightarrow> ODhcp4 (c\<lparr>kd4_Spec := sp\<rparr>) | _ \<Rightarrow> x)"

definition reconcileDhcp4 :: "'s env \<Rightarrow> KeaServer \<Rightarrow> ('s, unit) op" where
  "reconcileDhcp4 E server =
     reconcileChild E (ksv_ObjectMeta server) KDhcp4 (om_Name (ksv_ObjectMeta server) @ ''-dhcp4'') (ks_Dhcp4 (ksv_Spec server))
       (\<lambda>m. ODhcp4 (zero_KeaDhcp4Server\<lparr>kd4_ObjectMeta := m\<rparr>)) put_dhcp4"

definition put_dhcp6 :: "KeaDhcp6ServerSpec \<Rightarrow> kobj \<Rightarrow> kobj" where
  "put_dhcp6 sp x = (case x of ODhcp6 c \<Rightarrow> ODhcp6 (c\<lparr>kd6_Spec := sp\<rparr>) | _ \<Rightarrow> x)"

definition reconcileDhcp6 :: "'s env \<Rightarrow> KeaServer \<Rightarrow> ('s, unit) op" where
  "reconcileDhcp6 E server =
     reconcileChild E (ksv_ObjectMeta server) KDhcp6 (om_Name (ksv_ObjectMeta server) @ ''-dhcp6'') (ks_Dhcp6 (ksv_Spec server))
       (\<lambda>m. ODhcp6 (zero_KeaDhcp6Server\<lparr>kd6_ObjectMeta := m\<rparr>)) put_dhcp6"

definition put_control_agent :: "KeaControlAgentSpec \<Rightarrow> kobj \<Rightarrow> kobj" where
  "put_control_agent sp x = (case x of OControlAgent c \<Rightarrow> OControlAgent (c\<lparr>kca_Spec := sp\<rparr>) | _ \<Rightarrow> x)"

definition reconcileControlAgent :: "'s env \<Rightarrow> KeaServer \<Rightarrow> ('s, unit) op" where
  "reconcileControlAgent E server =
     reconcileChild E (ksv_ObjectMeta server) KControlAgent (om_Name (ksv_ObjectMeta server) @ ''-ctrl-agent'') (ks_ControlAgent (ksv_Spec server))
       (\<lambda>m. OControlAgent (zero_KeaControlAgent\<lparr>kca_ObjectMeta := m\<rparr>)) put_control_agent"

definition put_ddns :: "KeaDhcpDdnsSpec \<Rightarrow> kobj \<Rightarrow> kobj" where
  "put_ddns sp x = (case x of ODdns c \<Rightarrow> ODdns (c\<lparr>kdd_Spec := sp\<rparr>) | _ \<Rightarrow> x)"

definition reconcileDhcpDdns :: "'s env \<Rightarrow> KeaServer \<Rightarrow> ('s, unit) op" where
  "reconcileDhcpDdns E server =
     reconcileChild E (ksv_ObjectMeta server) KDdns (om_Name (ksv_ObjectMeta server) @ ''-ddns'') (ks_DhcpDdns (ksv_Spec server))
       (\<lambda>m. ODdns (zero_KeaDhcpDdns\<lparr>kdd_ObjectMeta := m\<rparr>)) put_ddns"

definition put_stork :: "KeaStorkServerSpec \<Rightarrow> kobj \<Rightarrow> kobj" where
  "put_stork sp x = (case x of OStorkServer c \<Rightarrow> OStorkServer (c\<lparr>kss_Spec := sp\<rparr>) | _ \<Rightarrow> x)"

definition reconcileStorkServer :: "'s env \<Rightarrow> KeaServer \<Rightarrow> ('s, unit) op" where
  "reconcileStorkServer E server =
     reconcileChild E (ksv_ObjectMeta server) KStorkServer (om_Name (ksv_ObjectMeta server) @ ''-stork-server'') (ks_StorkServer (ksv_Spec server))
       (\<lambda>m. OStorkServer (zero_KeaStorkServer\<lparr>kss_ObjectMeta := m\<rparr>)) put_stork"

section \<open>Readiness of a child\<close>

text \<open>The type switch of \<^verbatim>\<open>isChildReady\<close>: phase and conditions of a child.\<close>

definition phase_and_conditions :: "kobj \<Rightarrow> (string \<times> ConditionStatus list) option" where
  "phase_and_conditions x =
     (case x of
        ODhcp4 c \<Rightarrow> Some (st_Phase (kd4_Status c), st_Conditions (kd4_Status c))
      | ODhcp6 c \<Rightarrow> Some (st_Phase (kd6_Status c), st_Conditions (kd6_Status c))
      | OControlAgent c \<Rightarrow> Some (st_Phase (kca_Status c), st_Conditions (kca_Status c))
      | ODdns c \<Rightarrow> Some (st_Phase (kdd_Status c), st_Conditions (kdd_Status c))
      | OStorkServer c \<Rightarrow> Some (st_Phase (kss_Status c), st_Conditions (kss_Status c))
      | _ \<Rightarrow> None)"

definition child_ready :: "kobj \<Rightarrow> bool" where
  "child_ready x =
     (case phase_and_conditions x of
        None \<Rightarrow> False
      | Some (phase, conditions) \<Rightarrow>
          if phase \<noteq> PhaseRunning then False
          else (case find_condition conditions ConditionTypeReady of
                  Some c \<Rightarrow> cond_Status c = ConditionStatusTrue
                | None \<Rightarrow> True))"

definition isChildReady :: "'s env \<Rightarrow> string \<Rightarrow> string \<Rightarrow> okind \<Rightarrow> ('s, bool) op" where
  "isChildReady E namespace name k =
     seq (attempt (api_Get E k namespace name)) (\<lambda>r. ret (case r of Inl _ \<Rightarrow> False | Inr obj \<Rightarrow> child_ready obj))"

section \<open>Aggregated status\<close>

text \<open>Which components are configured, each with its readiness as the status has it.\<close>

definition configured_ready :: "KeaServerSpec \<Rightarrow> KeaServerStatus \<Rightarrow> bool list" where
  "configured_ready spec st =
     (if ks_Dhcp4 spec \<noteq> None then [ksst_Dhcp4Ready st] else [])
     @ (if ks_Dhcp6 spec \<noteq> None then [ksst_Dhcp6Ready st] else [])
     @ (if ks_ControlAgent spec \<noteq> None then [ksst_ControlAgentReady st] else [])
     @ (if ks_DhcpDdns spec \<noteq> None then [ksst_DhcpDdnsReady st] else [])
     @ (if ks_StorkServer spec \<noteq> None then [ksst_StorkServerReady st] else [])"

definition overallPhase :: "'s env \<Rightarrow> KeaServerSpec \<Rightarrow> KeaServerStatus \<Rightarrow> ('s, KeaServerStatus) op" where
  "overallPhase E spec st =
     (let anyConfigured = (configured_ready spec st \<noteq> []); allReady = list_all id (configured_ready spec st)
      in if \<not> anyConfigured
         then seq (setConditionNow E (ksst_Conditions st) ConditionTypeReady ''False'' ''NoComponents'' ''No components configured'') (\<lambda>cs.
              ret (st\<lparr>ksst_Phase := ''Pending'', ksst_Conditions := cs\<rparr>))
         else if allReady
         then seq (setConditionNow E (ksst_Conditions st) ConditionTypeReady ''True'' ''AllComponentsReady'' ''All configured components are ready'') (\<lambda>cs.
              seq (setConditionNow E cs ConditionTypeProgressing ''False'' ''DeploymentComplete'' ''All components deployed'') (\<lambda>cs.
              ret (st\<lparr>ksst_Phase := PhaseRunning, ksst_Conditions := cs\<rparr>)))
         else seq (setConditionNow E (ksst_Conditions st) ConditionTypeReady ''False'' ''ComponentsProgressing'' ''Some components are not yet ready'') (\<lambda>cs.
              seq (setConditionNow E cs ConditionTypeProgressing ''True'' ''ComponentsProgressing'' ''Waiting for components'') (\<lambda>cs.
              ret (st\<lparr>ksst_Phase := PhaseProgressing, ksst_Conditions := cs\<rparr>))))"

definition aggregateStatus :: "'s env \<Rightarrow> KeaServer \<Rightarrow> ('s, KeaServerStatus) op" where
  "aggregateStatus E server =
     (let meta = ksv_ObjectMeta server; ns = om_Namespace meta; n = om_Name meta
      in seq (isChildReady E ns (n @ ''-dhcp4'') KDhcp4) (\<lambda>b4.
         seq (isChildReady E ns (n @ ''-dhcp6'') KDhcp6) (\<lambda>b6.
         seq (isChildReady E ns (n @ ''-ctrl-agent'') KControlAgent) (\<lambda>bca.
         seq (isChildReady E ns (n @ ''-ddns'') KDdns) (\<lambda>bdd.
         seq (isChildReady E ns (n @ ''-stork-server'') KStorkServer) (\<lambda>bss.
         overallPhase E (ksv_Spec server)
           ((ksv_Status server)\<lparr>ksst_Dhcp4Ready := b4, ksst_Dhcp6Ready := b6, ksst_ControlAgentReady := bca,
              ksst_DhcpDdnsReady := bdd, ksst_StorkServerReady := bss, ksst_ObservedGeneration := om_Generation meta\<rparr>)))))))"

section \<open>Reconcile\<close>

definition as_keaserver :: "kobj \<Rightarrow> KeaServer option" where
  "as_keaserver x = (case x of OKeaServer y \<Rightarrow> Some y | _ \<Rightarrow> None)"

definition with_status_ks :: "KeaServer \<Rightarrow> KeaServerStatus \<Rightarrow> kobj" where
  "with_status_ks server st = OKeaServer (server\<lparr>ksv_Status := st\<rparr>)"

definition reconcileChildren :: "'s env \<Rightarrow> KeaServer \<Rightarrow> ('s, unit) op" where
  "reconcileChildren E server =
     seq (wrap_err ''reconciling DHCPv4 child'' (reconcileDhcp4 E server)) (\<lambda>_.
     seq (wrap_err ''reconciling DHCPv6 child'' (reconcileDhcp6 E server)) (\<lambda>_.
     seq (wrap_err ''reconciling ControlAgent child'' (reconcileControlAgent E server)) (\<lambda>_.
     seq (wrap_err ''reconciling DHCP-DDNS child'' (reconcileDhcpDdns E server)) (\<lambda>_.
     wrap_err ''reconciling StorkServer child'' (reconcileStorkServer E server)))))"

definition reconcileKeaServer :: "'s env \<Rightarrow> KeaServer \<Rightarrow> ('s, unit) op" where
  "reconcileKeaServer E server =
     seq (reconcileChildren E server) (\<lambda>_.
     seq (aggregateStatus E server) (\<lambda>st.
     seq (wrap_err ''updating status'' (api_StatusUpdate E (with_status_ks server st))) (\<lambda>_.
     event E (with_status_ks server st) ''Normal'' ''Reconciled'' ''Successfully reconciled KeaServer'')))"

definition ReconcileKeaServer :: "'s env \<Rightarrow> string \<Rightarrow> string \<Rightarrow> ('s, unit) op" where
  "ReconcileKeaServer E ns name = fetch_and E KKeaServer as_keaserver (reconcileKeaServer E) ns name"

section \<open>The contract of a child step\<close>

text \<open>
  A child kind: its empty object has the given name, and writing a spec does not move an
  object. The step then touches only the child's key, and after it the child exists, owned
  by the umbrella, exactly when a spec is given.
\<close>

definition child_state :: "'s look \<Rightarrow> string \<Rightarrow> okey \<Rightarrow> bool \<Rightarrow> 's \<Rightarrow> bool" where
  "child_state look uid K configured s =
     (case look s K of None \<Rightarrow> \<not> configured | Some y \<Rightarrow> configured \<and> obj_owner y = Some uid)"

locale child_component =
  fixes k :: okind
    and child :: "ObjectMeta \<Rightarrow> kobj"
    and put :: "'sp \<Rightarrow> kobj \<Rightarrow> kobj"
  assumes child_key: "obj_key (child m) = (k, om_Namespace m, om_Name m)"
    and put_key: "obj_key (put sp x) = obj_key x"
    and put_owner: "obj_owner (put sp x) = obj_owner x"
begin

lemma keeps_child:
  assumes law: "store_law E look" and E: "env_keeps E W I"
    and cov: "spec \<noteq> None \<Longrightarrow> covers W (om_UID owner) (k, om_Namespace owner, name)"
    and del: "\<And>x. spec = None \<Longrightarrow> obj_key x = (k, om_Namespace owner, name) \<Longrightarrow> W WDelete x"
  shows "keeps I (reconcileChild E owner k name spec child put)"
  unfolding keeps_def
proof (intro allI impI)
  fix s assume I: "I s"
  obtain r s1 where g: "api_Get E k (om_Namespace owner) name s = (r, s1)" by fastforce
  with keeps_env(1) [OF E] I have I1: "I s1" by (metis keeps_def snd_conv)
  have upd: "keeps I (api_CreateOrUpdate E (child (zero_ObjectMeta\<lparr>om_Name := name, om_Namespace := om_Namespace owner\<rparr>))
      (\<lambda>live. api_SetControllerReference E owner (put sp live)))" if "spec \<noteq> None" for sp
    by (rule keeps_CreateOrUpdate [OF E])
      (use cov [OF that] in \<open>auto simp: child_key put_key put_owner covers_def claims_def claimable_def dest: scr_lawD [OF store_lawD(1) [OF law]]\<close>)
  have "keeps I (api_Delete E x)" if "r = Inr x" "spec = None" for x
    using del [OF that(2)] get_found(2) [OF law] g that(1) by (intro keeps_env(7) [OF E]) auto
  with upd I1 show "I (snd (reconcileChild E owner k name spec child put s))"
    by (auto simp: reconcileChild_def seq_def attempt_def g ret_def fail_def keeps_def split: option.split sum.split)
qed

lemma child_post:
  assumes law: "store_law E look"
  shows "valid (\<lambda>_. True) (reconcileChild E owner k name spec child put)
           (\<lambda>_. child_state look (om_UID owner) (k, om_Namespace owner, name) (spec \<noteq> None))"
proof (rule validI)
  fix s u s' assume m: "reconcileChild E owner k name spec child put s = (Inr u, s')"
  obtain r s1 where g: "api_Get E k (om_Namespace owner) name s = (r, s1)" by fastforce
  have same: "look s1 = look s" using get_look [OF law, of k "om_Namespace owner" name s] g by simp
  let ?K = "(k, om_Namespace owner, name)"
  show "child_state look (om_UID owner) ?K (spec \<noteq> None) s'"
  proof (cases spec)
    case None
    show ?thesis
    proof (cases r)
      case (Inl e)
      with m None g have "IsNotFound e" "s' = s1"
        by (simp_all add: reconcileChild_def seq_def attempt_def ret_def fail_def split: if_splits)
      with get_missing [OF law] g Inl same None show ?thesis by (simp add: child_state_def)
    next
      case (Inr x)
      with m None g have "api_Delete E x s1 = (Inr u, s')" by (simp add: reconcileChild_def seq_def attempt_def)
      with get_found(2) [OF law] g Inr None show ?thesis
        by (auto simp: child_state_def elim: delete_cases [OF law])
    qed
  next
    case (Some sp)
    let ?c = "child (zero_ObjectMeta\<lparr>om_Name := name, om_Namespace := om_Namespace owner\<rparr>)"
    from m Some g have c: "api_CreateOrUpdate E ?c (\<lambda>live. api_SetControllerReference E owner (put sp live)) s1 = (Inr u, s')"
      by (simp add: reconcileChild_def seq_def attempt_def)
    show ?thesis
      by (rule apply_cases [OF law c])
        (auto simp: child_key Some child_state_def persisted_def dest: scr_lawD [OF store_lawD(1) [OF law]])
  qed
qed

end

interpretation ch4: child_component KDhcp4 "\<lambda>m. ODhcp4 (zero_KeaDhcp4Server\<lparr>kd4_ObjectMeta := m\<rparr>)" put_dhcp4
  by unfold_locales (simp_all add: obj_key_def obj_owner_def put_dhcp4_def split: kobj.split)

interpretation ch6: child_component KDhcp6 "\<lambda>m. ODhcp6 (zero_KeaDhcp6Server\<lparr>kd6_ObjectMeta := m\<rparr>)" put_dhcp6
  by unfold_locales (simp_all add: obj_key_def obj_owner_def put_dhcp6_def split: kobj.split)

interpretation chca: child_component KControlAgent "\<lambda>m. OControlAgent (zero_KeaControlAgent\<lparr>kca_ObjectMeta := m\<rparr>)" put_control_agent
  by unfold_locales (simp_all add: obj_key_def obj_owner_def put_control_agent_def split: kobj.split)

interpretation chdd: child_component KDdns "\<lambda>m. ODdns (zero_KeaDhcpDdns\<lparr>kdd_ObjectMeta := m\<rparr>)" put_ddns
  by unfold_locales (simp_all add: obj_key_def obj_owner_def put_ddns_def split: kobj.split)

interpretation chss: child_component KStorkServer "\<lambda>m. OStorkServer (zero_KeaStorkServer\<lparr>kss_ObjectMeta := m\<rparr>)" put_stork
  by unfold_locales (simp_all add: obj_key_def obj_owner_def put_stork_def split: kobj.split)

section \<open>All children\<close>

definition child_table :: "KeaServer \<Rightarrow> (okey \<times> bool) list" where
  "child_table server =
     (let ns = om_Namespace (ksv_ObjectMeta server); n = om_Name (ksv_ObjectMeta server); spec = ksv_Spec server
      in [((KDhcp4, ns, n @ ''-dhcp4''), ks_Dhcp4 spec \<noteq> None), ((KDhcp6, ns, n @ ''-dhcp6''), ks_Dhcp6 spec \<noteq> None),
          ((KControlAgent, ns, n @ ''-ctrl-agent''), ks_ControlAgent spec \<noteq> None), ((KDdns, ns, n @ ''-ddns''), ks_DhcpDdns spec \<noteq> None),
          ((KStorkServer, ns, n @ ''-stork-server''), ks_StorkServer spec \<noteq> None)])"

lemma child_table_unique: "(K, c) \<in> set (child_table cr) \<Longrightarrow> (K, c') \<in> set (child_table cr) \<Longrightarrow> c = c'"
  by (rule eq_key_imp_eq_value [of "child_table cr"]) (simp_all add: child_table_def Let_def)

lemmas child_steps = reconcileDhcp4_def reconcileDhcp6_def reconcileControlAgent_def reconcileDhcpDdns_def reconcileStorkServer_def

lemma keeps_child_step:
  assumes "store_law E look" "env_keeps E W I"
    and "\<forall>(K, c) \<in> set (child_table server).
      (if c then covers W (om_UID (ksv_ObjectMeta server)) K else (\<forall>x. obj_key x = K \<longrightarrow> W WDelete x))"
  shows "keeps I (reconcileDhcp4 E server)" "keeps I (reconcileDhcp6 E server)" "keeps I (reconcileControlAgent E server)"
    "keeps I (reconcileDhcpDdns E server)" "keeps I (reconcileStorkServer E server)"
  using assms(3) unfolding child_steps child_table_def Let_def
  by (intro ch4.keeps_child [OF assms(1,2)] ch6.keeps_child [OF assms(1,2)] chca.keeps_child [OF assms(1,2)]
      chdd.keeps_child [OF assms(1,2)] chss.keeps_child [OF assms(1,2)]; simp)+

lemma keeps_reconcileChildren:
  assumes "store_law E look" "env_keeps E W I"
    and "\<forall>(K, c) \<in> set (child_table server).
      (if c then covers W (om_UID (ksv_ObjectMeta server)) K else (\<forall>x. obj_key x = K \<longrightarrow> W WDelete x))"
  shows "keeps I (reconcileChildren E server)"
  unfolding reconcileChildren_def by (intro keeps_rules keeps_child_step [OF assms])

text \<open>A child step leaves the other children alone.\<close>

lemma keeps_other_child:
  assumes law: "store_law E look"
  shows "k \<noteq> KDhcp4 \<Longrightarrow> keeps (\<lambda>s. P (look s (k, K))) (reconcileDhcp4 E server)"
    and "k \<noteq> KDhcp6 \<Longrightarrow> keeps (\<lambda>s. P (look s (k, K))) (reconcileDhcp6 E server)"
    and "k \<noteq> KControlAgent \<Longrightarrow> keeps (\<lambda>s. P (look s (k, K))) (reconcileControlAgent E server)"
    and "k \<noteq> KDdns \<Longrightarrow> keeps (\<lambda>s. P (look s (k, K))) (reconcileDhcpDdns E server)"
    and "k \<noteq> KStorkServer \<Longrightarrow> keeps (\<lambda>s. P (look s (k, K))) (reconcileStorkServer E server)"
  unfolding child_steps
  by (intro ch4.keeps_child [OF law env_keeps_look [OF law]] ch6.keeps_child [OF law env_keeps_look [OF law]]
      chca.keeps_child [OF law env_keeps_look [OF law]] chdd.keeps_child [OF law env_keeps_look [OF law]]
      chss.keeps_child [OF law env_keeps_look [OF law]]; auto simp: covers_def)+

lemma children_post:
  assumes law: "store_law E look"
  shows "valid (\<lambda>_. True) (reconcileChildren E server)
           (\<lambda>_ s. list_all (\<lambda>(K, c). child_state look (om_UID (ksv_ObjectMeta server)) K c s) (child_table server))"
proof -
  let ?u = "om_UID (ksv_ObjectMeta server)"
  let ?S = "\<lambda>k n c s. child_state look ?u (k, om_Namespace (ksv_ObjectMeta server), om_Name (ksv_ObjectMeta server) @ n) c s"
  let ?sp = "ksv_Spec server"
  let ?P4 = "?S KDhcp4 ''-dhcp4'' (ks_Dhcp4 ?sp \<noteq> None)" let ?P6 = "?S KDhcp6 ''-dhcp6'' (ks_Dhcp6 ?sp \<noteq> None)"
  let ?Pca = "?S KControlAgent ''-ctrl-agent'' (ks_ControlAgent ?sp \<noteq> None)" let ?Pdd = "?S KDdns ''-ddns'' (ks_DhcpDdns ?sp \<noteq> None)"
  let ?Pss = "?S KStorkServer ''-stork-server'' (ks_StorkServer ?sp \<noteq> None)"
  have post: "valid (\<lambda>_. True) (reconcileDhcp4 E server) (\<lambda>_. ?P4)" "valid (\<lambda>_. True) (reconcileDhcp6 E server) (\<lambda>_. ?P6)"
    "valid (\<lambda>_. True) (reconcileControlAgent E server) (\<lambda>_. ?Pca)" "valid (\<lambda>_. True) (reconcileDhcpDdns E server) (\<lambda>_. ?Pdd)"
    "valid (\<lambda>_. True) (reconcileStorkServer E server) (\<lambda>_. ?Pss)"
    unfolding child_steps by (rule ch4.child_post [OF law] ch6.child_post [OF law] chca.child_post [OF law]
        chdd.child_post [OF law] chss.child_post [OF law])+
  note k = keeps_other_child [OF law, THEN valid_keeps]
  have add: "valid (\<lambda>_. True) m (\<lambda>_. Q) \<Longrightarrow> valid R m (\<lambda>_. R) \<Longrightarrow> valid R (wrap_err w m) (\<lambda>_ s. R s \<and> Q s)"
    for m :: "('a, unit) op" and Q R w
    by (rule valid_wrap) (unfold valid_def, blast)
  have 2: "valid ?P4 (wrap_err w (reconcileDhcp6 E server)) (\<lambda>_ s. ?P4 s \<and> ?P6 s)" for w
    unfolding child_state_def by (rule add [OF post(2) [unfolded child_state_def]]) (rule k, simp)
  have 3: "valid (\<lambda>s. ?P4 s \<and> ?P6 s) (wrap_err w (reconcileControlAgent E server)) (\<lambda>_ s. (?P4 s \<and> ?P6 s) \<and> ?Pca s)" for w
    unfolding child_state_def by (rule add [OF post(3) [unfolded child_state_def]]) (intro valid_conj k, simp_all)
  have 4: "valid (\<lambda>s. (?P4 s \<and> ?P6 s) \<and> ?Pca s) (wrap_err w (reconcileDhcpDdns E server)) (\<lambda>_ s. ((?P4 s \<and> ?P6 s) \<and> ?Pca s) \<and> ?Pdd s)" for w
    unfolding child_state_def by (rule add [OF post(4) [unfolded child_state_def]]) (intro valid_conj k, simp_all)
  have 5: "valid (\<lambda>s. ((?P4 s \<and> ?P6 s) \<and> ?Pca s) \<and> ?Pdd s) (wrap_err w (reconcileStorkServer E server))
      (\<lambda>_ s. (((?P4 s \<and> ?P6 s) \<and> ?Pca s) \<and> ?Pdd s) \<and> ?Pss s)" for w
    unfolding child_state_def by (rule add [OF post(5) [unfolded child_state_def]]) (intro valid_conj k, simp_all)
  have "valid (\<lambda>_. True) (reconcileChildren E server) (\<lambda>_ s. (((?P4 s \<and> ?P6 s) \<and> ?Pca s) \<and> ?Pdd s) \<and> ?Pss s)"
    unfolding reconcileChildren_def by (rule valid_seq [OF valid_wrap [OF post(1)]] valid_seq [OF 2] valid_seq [OF 3] valid_seq [OF 4] 5)+
  then show ?thesis by (rule valid_post) (simp add: child_table_def Let_def)
qed

section \<open>A whole reconciliation\<close>

lemma isChildReady_post:
  assumes law: "store_law E look"
  shows "valid (\<lambda>s. look s = L) (isChildReady E ns n k) (\<lambda>b s. look s = L \<and> (b \<longrightarrow> (\<exists>x. L (k, ns, n) = Some x \<and> child_ready x)))"
proof (rule validI)
  fix s b s' assume L: "look s = L" and m: "isChildReady E ns n k s = (Inr b, s')"
  obtain r s1 where g: "api_Get E k ns n s = (r, s1)" by fastforce
  have "look s1 = look s" using get_look [OF law, of k ns n s] g by simp
  with m g L get_found(1) [OF law, of k ns n s _ s1]
  show "look s' = L \<and> (b \<longrightarrow> (\<exists>x. L (k, ns, n) = Some x \<and> child_ready x))"
    by (cases r) (auto simp: isChildReady_def seq_def attempt_def ret_def)
qed

definition phase_of :: "bool list \<Rightarrow> string" where
  "phase_of bs = (if bs = [] then ''Pending'' else if list_all id bs then PhaseRunning else PhaseProgressing)"

lemma keeps_overallPhase: "env_keeps E W I \<Longrightarrow> keeps I (overallPhase E spec st)"
  unfolding overallPhase_def Let_def by (intro keeps_rules keeps_setConditionNow)

lemma setConditionNow_result:
  "setConditionNow E cs t v r m s = (Inr cs', s') \<Longrightarrow> \<exists>now. cs' = setCondition now cs t v r m"
  by (auto simp: setConditionNow_def seq_def ret_def split: prod.splits sum.splits)

lemma overallPhase_result:
  assumes "overallPhase E spec st s = (Inr st', s')"
  shows "st' = st\<lparr>ksst_Phase := phase_of (configured_ready spec st), ksst_Conditions := ksst_Conditions st'\<rparr>
     \<and> cond_status (ksst_Conditions st') ConditionTypeReady
         = Some (if phase_of (configured_ready spec st) = PhaseRunning then ''True'' else ''False'')"
  using assms
  by (auto simp: overallPhase_def phase_of_def Let_def seq_def ret_def condition_defs PhaseRunning_def PhaseProgressing_def
      dest!: setConditionNow_result split: if_splits prod.splits sum.splits)

text \<open>The readiness flags of a status, in the order of the children.\<close>

definition ready_flags :: "KeaServerStatus \<Rightarrow> bool list" where
  "ready_flags st = [ksst_Dhcp4Ready st, ksst_Dhcp6Ready st, ksst_ControlAgentReady st, ksst_DhcpDdnsReady st, ksst_StorkServerReady st]"

lemma configured_ready_cong: "ready_flags st = ready_flags st' \<Longrightarrow> configured_ready spec st = configured_ready spec st'"
  by (simp add: ready_flags_def configured_ready_def)

lemma aggregateStatus_post:
  assumes law: "store_law E look"
  shows "valid (\<lambda>s. look s = L) (aggregateStatus E server)
     (\<lambda>st s. look s = L
        \<and> ksst_ObservedGeneration st = om_Generation (ksv_ObjectMeta server)
        \<and> ksst_Phase st = phase_of (configured_ready (ksv_Spec server) st)
        \<and> cond_status (ksst_Conditions st) ConditionTypeReady = Some (if ksst_Phase st = PhaseRunning then ''True'' else ''False'')
        \<and> list_all2 (\<lambda>b (K, c). b \<longrightarrow> (\<exists>x. L K = Some x \<and> child_ready x)) (ready_flags st) (child_table server))"
proof -
  let ?meta = "ksv_ObjectMeta server" let ?ns = "om_Namespace ?meta" let ?n = "om_Name ?meta"
  let ?ok = "\<lambda>k n b. b \<longrightarrow> (\<exists>x. L (k, ?ns, ?n @ n) = Some x \<and> child_ready x)"
  have child: "valid (\<lambda>s. look s = L \<and> Q) (isChildReady E ?ns (?n @ n) k) (\<lambda>b s. look s = L \<and> Q \<and> ?ok k n b)" for k n Q
    using isChildReady_post [OF law, of L ?ns "?n @ n" k] unfolding valid_def by blast
  show ?thesis
    unfolding aggregateStatus_def Let_def
  proof (rule valid_seq [OF valid_pre [OF child [where Q = True]]], simp, rule valid_seq [OF child], rule valid_seq [OF child],
      rule valid_seq [OF child], rule valid_seq [OF child], rule validI, elim conjE, intro conjI)
    fix b4 b6 bca bdd bss s st s'
    assume L: "look s = L" and ok: "?ok KDhcp4 ''-dhcp4'' b4" "?ok KDhcp6 ''-dhcp6'' b6" "?ok KControlAgent ''-ctrl-agent'' bca"
        "?ok KDdns ''-ddns'' bdd" "?ok KStorkServer ''-stork-server'' bss"
      and m: "overallPhase E (ksv_Spec server)
        ((ksv_Status server)\<lparr>ksst_Dhcp4Ready := b4, ksst_Dhcp6Ready := b6, ksst_ControlAgentReady := bca,
           ksst_DhcpDdnsReady := bdd, ksst_StorkServerReady := bss, ksst_ObservedGeneration := om_Generation ?meta\<rparr>) s = (Inr st, s')"
    note r = overallPhase_result [OF m]
    have fields: "ksst_Dhcp4Ready st = b4" "ksst_Dhcp6Ready st = b6" "ksst_ControlAgentReady st = bca" "ksst_DhcpDdnsReady st = bdd"
        "ksst_StorkServerReady st = bss" "ksst_ObservedGeneration st = om_Generation ?meta"
      by (subst r [THEN conjunct1], simp)+
    have cr: "configured_ready (ksv_Spec server) ((ksv_Status server)\<lparr>ksst_Dhcp4Ready := b4, ksst_Dhcp6Ready := b6, ksst_ControlAgentReady := bca,
           ksst_DhcpDdnsReady := bdd, ksst_StorkServerReady := bss, ksst_ObservedGeneration := om_Generation ?meta\<rparr>)
        = configured_ready (ksv_Spec server) st"
      by (rule configured_ready_cong) (simp add: ready_flags_def fields)
    show "look s' = L"
      by (rule keepsD [OF keeps_overallPhase [OF env_keeps_reads [OF law, where P = "\<lambda>l. l = L"]] L m])
    show "ksst_ObservedGeneration st = om_Generation ?meta" by (rule fields)
    show ph: "ksst_Phase st = phase_of (configured_ready (ksv_Spec server) st)"
      unfolding cr [symmetric] by (subst r [THEN conjunct1]) simp
    show "cond_status (ksst_Conditions st) ConditionTypeReady = Some (if ksst_Phase st = PhaseRunning then ''True'' else ''False'')"
      using r [THEN conjunct2] unfolding cr ph .
    have "ready_flags st = [b4, b6, bca, bdd, bss]" by (simp add: ready_flags_def fields)
    with ok show "list_all2 (\<lambda>b (K, c). b \<longrightarrow> (\<exists>x. L K = Some x \<and> child_ready x)) (ready_flags st) (child_table server)"
      by (simp add: child_table_def Let_def)
  qed
qed

lemma umbrella_success:
  assumes law: "store_law E look" and cr: "look s (KKeaServer, ns, n) = Some (OKeaServer cr)"
    and m: "ReconcileKeaServer E ns n s = (Inr (), s')"
  obtains st where "look s' (KKeaServer, ns, n) = Some (OKeaServer (cr\<lparr>ksv_Status := st\<rparr>))"
    and "ksst_ObservedGeneration st = om_Generation (ksv_ObjectMeta cr)"
    and "ksst_Phase st = phase_of (configured_ready (ksv_Spec cr) st)"
    and "cond_status (ksst_Conditions st) ConditionTypeReady = Some (if ksst_Phase st = PhaseRunning then ''True'' else ''False'')"
    and "list_all2 (\<lambda>b (K, c). b \<longrightarrow> (\<exists>x. look s' K = Some x \<and> child_ready x)) (ready_flags st) (child_table cr)"
    and "list_all (\<lambda>(K, c). child_state look (om_UID (ksv_ObjectMeta cr)) K c s') (child_table cr)"
proof -
  let ?K = "(KKeaServer, ns, n)"
  have key: "om_Namespace (ksv_ObjectMeta cr) = ns" "om_Name (ksv_ObjectMeta cr) = n"
    using store_lawD(4) [OF law cr] by (simp_all add: obj_key_def)
  obtain s1 where s1: "look s1 = look s" and b: "reconcileKeaServer E cr s1 = (Inr (), s')"
    using fetch_success [OF law cr _ m [unfolded ReconcileKeaServer_def], of cr] by (auto simp: as_keaserver_def)
  from b obtain s2 st s3 s4 where ch: "reconcileChildren E cr s1 = (Inr (), s2)" and ag: "aggregateStatus E cr s2 = (Inr st, s3)"
      and up: "api_StatusUpdate E (with_status_ks cr st) s3 = (Inr (), s4)"
      and ev: "s' = api_Event E (with_status_ks cr st) ''Normal'' ''Reconciled'' ''Successfully reconciled KeaServer'' s4"
    unfolding reconcileKeaServer_def
    by (auto elim!: seq_success dest!: wrap_success simp: event_def modify_def)
  have "keeps (\<lambda>s. look s ?K = Some (OKeaServer cr)) (reconcileChildren E cr)"
    by (rule keeps_reconcileChildren [OF law env_keeps_look [OF law]]) (auto simp: child_table_def Let_def covers_def)
  from keepsD [OF this _ ch] s1 cr have cr2: "look s2 ?K = Some (OKeaServer cr)" by simp
  note A = validD [OF aggregateStatus_post [OF law] refl ag]
  have "look s' = look s4" using ev store_lawD(2) [OF law] by (simp add: read_law_def)
  moreover have k: "obj_key (with_status_ks cr st) = ?K" using key by (simp add: with_status_ks_def obj_key_def)
  obtain l where "look s3 ?K = Some l" "look s4 = (look s3)(?K \<mapsto> set_status l (with_status_ks cr st))"
    by (rule status_cases [OF law up]) (simp_all add: k)
  moreover have "look s3 = look s2" using A by blast
  ultimately have fin: "look s' = (look s2)(?K \<mapsto> OKeaServer (cr\<lparr>ksv_Status := st\<rparr>))"
    using cr2 by (auto simp: set_status_def with_status_ks_def)
  have other: "look s' K = look s2 K" if "K \<in> fst ` set (child_table cr)" for K
    using that fin by (auto simp: child_table_def Let_def)
  have "list_all (\<lambda>(K, c). child_state look (om_UID (ksv_ObjectMeta cr)) K c s2) (child_table cr)"
    using validD [OF children_post [OF law] TrueI ch] .
  then have "list_all (\<lambda>(K, c). child_state look (om_UID (ksv_ObjectMeta cr)) K c s') (child_table cr)"
    using other by (force simp: list_all_iff child_state_def)
  moreover have "list_all2 (\<lambda>b (K, c). b \<longrightarrow> (\<exists>x. look s' K = Some x \<and> child_ready x)) (ready_flags st) (child_table cr)"
    using A other by (simp add: child_table_def Let_def ready_flags_def)
  ultimately show thesis using that fin A by auto
qed

definition desired_children :: "KeaServer \<Rightarrow> okey set" where
  "desired_children cr = {K. (K, True) \<in> set (child_table cr)}"

lemma desired_children_filter: "desired_children cr = fst ` set (filter snd (child_table cr))"
  by (force simp: desired_children_def)

text \<open>
  C7: the umbrella implements its specification, one child per configured component. After a
  successful reconciliation the conventional child resources that exist are exactly those
  of the configured components, and each is controlled by the umbrella resource.
\<close>

theorem umbrella_children_match_spec:
  assumes "store_law E look" and "look s (KKeaServer, ns, n) = Some (OKeaServer cr)"
    and "ReconcileKeaServer E ns n s = (Inr (), s')"
  shows "{K \<in> fst ` set (child_table cr). look s' K \<noteq> None} = desired_children cr
     \<and> (\<forall>K \<in> desired_children cr. \<exists>x. look s' K = Some x \<and> obj_owner x = Some (om_UID (ksv_ObjectMeta cr)))"
proof -
  from umbrella_success [OF assms] have
    "list_all (\<lambda>(K, c). child_state look (om_UID (ksv_ObjectMeta cr)) K c s') (child_table cr)" by blast
  then have st: "(K, c) \<in> set (child_table cr) \<Longrightarrow>
      (case look s' K of None \<Rightarrow> \<not> c | Some x \<Rightarrow> c \<and> obj_owner x = Some (om_UID (ksv_ObjectMeta cr)))" for K c
    by (auto simp: list_all_iff child_state_def)
  have "K \<in> desired_children cr" if "K \<in> fst ` set (child_table cr)" "look s' K \<noteq> None" for K
  proof -
    from that(1) obtain c where c: "(K, c) \<in> set (child_table cr)" by fastforce
    with st [OF c] that(2) have "c" by (simp split: option.splits)
    with c show ?thesis by (simp add: desired_children_def)
  qed
  moreover have own: "\<exists>x. look s' K = Some x \<and> obj_owner x = Some (om_UID (ksv_ObjectMeta cr))" if "K \<in> desired_children cr" for K
    using st [of K True] that by (simp add: desired_children_def split: option.splits)
  moreover have "K \<in> fst ` set (child_table cr)" if "K \<in> desired_children cr" for K
    using that by (simp add: desired_children_def rev_image_eqI)
  ultimately show ?thesis by (simp add: set_eq_iff) blast
qed

definition sample_umbrella :: KeaServer where
  "sample_umbrella = zero_KeaServer
     \<lparr>ksv_ObjectMeta := zero_ObjectMeta\<lparr>om_Name := ''k'', om_Namespace := ''kea'', om_UID := ''u1''\<rparr>,
      ksv_Spec := (ksv_Spec zero_KeaServer)\<lparr>ks_Dhcp4 := Some zero_KeaDhcp4ServerSpec\<rparr>\<rparr>"

definition stale_dhcp6 :: KeaDhcp6Server where
  "stale_dhcp6 = zero_KeaDhcp6Server
     \<lparr>kd6_ObjectMeta := zero_ObjectMeta\<lparr>om_Name := ''k-dhcp6'', om_Namespace := ''kea'', om_ControllerOwner := Some ''u1''\<rparr>\<rparr>"

definition sample_cluster :: mem where
  "sample_cluster = mem_init [OKeaServer sample_umbrella, ODhcp6 stale_dhcp6]"

lemma sample_umbrella_runs:
  "fst (ReconcileKeaServer (mem_env False) ''kea'' ''k'' sample_cluster) = Inr ()"
  "mem_look sample_cluster (KKeaServer, ''kea'', ''k'') = Some (OKeaServer sample_umbrella)"
  by code_simp+

theorem umbrella_children_match_spec_witness:
  "mem_look sample_cluster (KDhcp6, ''kea'', ''k-dhcp6'') \<noteq> None
   \<and> {K \<in> fst ` set (child_table sample_umbrella). mem_look (snd (ReconcileKeaServer (mem_env False) ''kea'' ''k'' sample_cluster)) K \<noteq> None}
     = desired_children sample_umbrella
   \<and> desired_children sample_umbrella = {(KDhcp4, ''kea'', ''k-dhcp4'')}"
proof -
  obtain s' where "ReconcileKeaServer (mem_env False) ''kea'' ''k'' sample_cluster = (Inr (), s')"
    using sample_umbrella_runs(1) by (metis prod.collapse)
  with umbrella_children_match_spec [OF mem_store_law sample_umbrella_runs(2) this]
  have "{K \<in> fst ` set (child_table sample_umbrella). mem_look (snd (ReconcileKeaServer (mem_env False) ''kea'' ''k'' sample_cluster)) K \<noteq> None}
     = desired_children sample_umbrella" by simp
  moreover have "desired_children sample_umbrella = {(KDhcp4, ''kea'', ''k-dhcp4'')}"
    by (auto simp: desired_children_def child_table_def sample_umbrella_def zero_KeaServer_def zero_KeaServerSpec_def Let_def)
  moreover have "mem_look sample_cluster (KDhcp6, ''kea'', ''k-dhcp6'') \<noteq> None" by code_simp
  ultimately show ?thesis by blast
qed

text \<open>
  C8: the status of the umbrella is sound. After a successful reconciliation the resource is
  unchanged but for its status; the phase is \<^verbatim>\<open>Pending\<close> exactly when nothing is configured, the
  Ready condition is true exactly in phase \<^verbatim>\<open>Running\<close>, and \<^verbatim>\<open>Running\<close> means that a component is
  configured and every configured child exists in the cluster and is ready.
\<close>

theorem umbrella_status_sound:
  assumes "store_law E look" and "look s (KKeaServer, ns, n) = Some (OKeaServer cr)"
    and "ReconcileKeaServer E ns n s = (Inr (), s')"
  shows "\<exists>st. look s' (KKeaServer, ns, n) = Some (OKeaServer (cr\<lparr>ksv_Status := st\<rparr>))
     \<and> ksst_ObservedGeneration st = om_Generation (ksv_ObjectMeta cr)
     \<and> ksst_Phase st \<in> {''Pending'', PhaseRunning, PhaseProgressing}
     \<and> (ksst_Phase st = ''Pending'') = (desired_children cr = {})
     \<and> (cond_status (ksst_Conditions st) ConditionTypeReady = Some ''True'') = (ksst_Phase st = PhaseRunning)
     \<and> (ksst_Phase st = PhaseRunning \<longrightarrow>
          (\<forall>K \<in> desired_children cr. \<exists>x. look s' K = Some x \<and> child_ready x))"
proof -
  from umbrella_success [OF assms] obtain st where
    1: "look s' (KKeaServer, ns, n) = Some (OKeaServer (cr\<lparr>ksv_Status := st\<rparr>))"
       "ksst_ObservedGeneration st = om_Generation (ksv_ObjectMeta cr)"
    and ph: "ksst_Phase st = phase_of (configured_ready (ksv_Spec cr) st)"
    and c: "cond_status (ksst_Conditions st) ConditionTypeReady = Some (if ksst_Phase st = PhaseRunning then ''True'' else ''False'')"
    and fl: "list_all2 (\<lambda>b (K, c). b \<longrightarrow> (\<exists>x. look s' K = Some x \<and> child_ready x)) (ready_flags st) (child_table cr)" by blast
  have e: "(configured_ready (ksv_Spec cr) st = []) = (desired_children cr = {})"
    by (simp add: desired_children_filter configured_ready_def child_table_def Let_def)
  have "\<forall>K \<in> desired_children cr. \<exists>x. look s' K = Some x \<and> child_ready x" if "list_all id (configured_ready (ksv_Spec cr) st)"
    using that fl by (auto simp: configured_ready_def desired_children_def child_table_def ready_flags_def Let_def split: if_splits)
  then show ?thesis
    using 1 c by (intro exI [of _ st]) (simp add: ph phase_of_def e PhaseRunning_def PhaseProgressing_def)
qed

theorem umbrella_status_sound_witness:
  "\<exists>st. mem_look (snd (ReconcileKeaServer (mem_env False) ''kea'' ''k'' sample_cluster)) (KKeaServer, ''kea'', ''k'')
       = Some (OKeaServer (sample_umbrella\<lparr>ksv_Status := st\<rparr>))
     \<and> ksst_Phase st \<noteq> ''Pending''"
proof -
  obtain s' where r: "ReconcileKeaServer (mem_env False) ''kea'' ''k'' sample_cluster = (Inr (), s')"
    using sample_umbrella_runs(1) by (metis prod.collapse)
  moreover have "desired_children sample_umbrella \<noteq> {}"
    by (auto simp: desired_children_def child_table_def sample_umbrella_def zero_KeaServer_def zero_KeaServerSpec_def Let_def)
  ultimately show ?thesis
    using umbrella_status_sound [OF mem_store_law sample_umbrella_runs(2) r] by auto
qed

section \<open>What the reconciler writes\<close>

lemma keeps_aggregateStatus: "env_keeps E W I \<Longrightarrow> keeps I (aggregateStatus E server)"
  unfolding aggregateStatus_def isChildReady_def Let_def
  by (intro keeps_rules keeps_overallPhase keeps_env(1))

lemma umbrella_frame_body:
  assumes law: "store_law E look"
    and fr: "frame look s0 (om_UID (ksv_ObjectMeta cr)) (desired_children cr) {} (fst ` set (child_table cr) - desired_children cr)
      (KKeaServer, om_Namespace (ksv_ObjectMeta cr), om_Name (ksv_ObjectMeta cr)) s"
  shows "frame look s0 (om_UID (ksv_ObjectMeta cr)) (desired_children cr) {} (fst ` set (child_table cr) - desired_children cr)
      (KKeaServer, om_Namespace (ksv_ObjectMeta cr), om_Name (ksv_ObjectMeta cr)) (snd (reconcileKeaServer E cr s))"
proof -
  let ?u = "om_UID (ksv_ObjectMeta cr)" let ?A = "desired_children cr" let ?D = "fst ` set (child_table cr) - desired_children cr"
  let ?K = "(KKeaServer, om_Namespace (ksv_ObjectMeta cr), om_Name (ksv_ObjectMeta cr))"
  have E: "env_keeps E (permits ?u ?A {} ?D ?K) (frame look s0 ?u ?A {} ?D ?K)"
    by (rule env_keeps_frame [OF law]) simp_all
  have "keeps (frame look s0 ?u ?A {} ?D ?K) (reconcileKeaServer E cr)"
    unfolding reconcileKeaServer_def
    by (intro keeps_rules keeps_reconcileChildren [OF law E] keeps_aggregateStatus [OF E] keeps_env(8) [OF E] keeps_event [OF E])
      (auto simp: covers_def permits_def with_status_ks_def desired_children_def obj_key_def
        intro: rev_image_eqI dest: child_table_unique)
  with fr show ?thesis by (simp add: keeps_def)
qed

end
