(* ===== verification/Operator.thy ===== *)
theory Operator
  imports Dhcp4Controller Dhcp6Controller CtrlAgentController DdnsController StorkController KeaServerController
begin

text \<open>
  The operator as a whole (\<^verbatim>\<open>src/cmd/main.go\<close>): the set-up at start, the dispatch of a request to
  the reconciler registered for its kind, and runs of the manager as a step relation: any
  sequence of set-ups, reconciliations, and changes other actors make in between.
\<close>

definition startup :: "'s env \<Rightarrow> ('s, unit) op" where
  "startup E =
     seq (EnsureDefaultNamespace E) (\<lambda>_.
       if env_IsOpenShift E then seq (EnsureSCC E) (\<lambda>_. EnsureSCCClusterRole E) else ret ())"

text \<open>The reconciler registered for a kind; requests of other kinds do not arise.\<close>

definition Reconcile :: "'s env \<Rightarrow> okind \<Rightarrow> string \<Rightarrow> string \<Rightarrow> ('s, unit) op" where
  "Reconcile E k ns n =
     (case k of
        KDhcp4 \<Rightarrow> ReconcileDhcp4 E ns n
      | KDhcp6 \<Rightarrow> ReconcileDhcp6 E ns n
      | KControlAgent \<Rightarrow> ReconcileControlAgent E ns n
      | KDdns \<Rightarrow> ReconcileDdns E ns n
      | KKeaServer \<Rightarrow> ReconcileKeaServer E ns n
      | KStorkServer \<Rightarrow> ReconcileStorkServer E ns n
      | _ \<Rightarrow> ret ())"

definition resource_kinds :: "okind set" where
  "resource_kinds = {KDhcp4, KDhcp6, KControlAgent, KDdns, KStorkServer, KKeaServer}"

section \<open>What one reconciliation may change\<close>

text \<open>Keys a resource's reconciler applies, may create, and deletes.\<close>

definition footprint_of :: "kobj \<Rightarrow> okey set" where
  "footprint_of x =
     (case x of
        ODhcp4 cr \<Rightarrow> footprint4 cr
      | ODhcp6 cr \<Rightarrow> footprint6 cr
      | OControlAgent cr \<Rightarrow> footprint_ca cr
      | ODdns cr \<Rightarrow> footprint_dd cr
      | OStorkServer cr \<Rightarrow> footprint_ss cr
      | OKeaServer cr \<Rightarrow> desired_children cr
      | _ \<Rightarrow> {})"

definition creates_of :: "kobj \<Rightarrow> okey set" where
  "creates_of x = (if Api.kind_of x = KKeaServer then {} else {scc_key (om_Namespace (obj_meta x)) (om_Name (obj_meta x))})"

definition deletes_of :: "kobj \<Rightarrow> okey set" where
  "deletes_of x = (case x of OKeaServer cr \<Rightarrow> fst ` set (child_table cr) - desired_children cr | _ \<Rightarrow> {})"

lemma umbrella_frame:
  assumes law: "store_law E look" and cr: "look s (KKeaServer, ns, n) = Some (OKeaServer cr)"
  shows "frame look s (om_UID (ksv_ObjectMeta cr)) (desired_children cr) {} (fst ` set (child_table cr) - desired_children cr)
           (KKeaServer, ns, n) (snd (ReconcileKeaServer E ns n s))"
proof -
  obtain r s' where m: "ReconcileKeaServer E ns n s = (r, s')" by fastforce
  have key: "om_Namespace (ksv_ObjectMeta cr) = ns" "om_Name (ksv_ObjectMeta cr) = n"
    using store_lawD(4) [OF law cr] by (simp_all add: obj_key_def)
  show ?thesis
  proof (rule fetch_runs [OF law cr _ m [unfolded ReconcileKeaServer_def], of cr])
    fix s1 assume "look s1 = look s" and b: "reconcileKeaServer E cr s1 = (r, s')"
    with umbrella_frame_body [OF law, of s cr s1] show ?thesis by (simp add: key m frame_same [of look s1 s])
  qed (auto simp: as_keaserver_def m intro: frame_same)
qed

text \<open>A resource that is gone: every reconciler only reads.\<close>

lemma fetch_absent:
  assumes law: "store_law E look" and "look s (k, ns, n) = None"
  shows "look (snd (fetch_and E k sel body ns n s)) = look s"
proof -
  obtain r s1 where g: "api_Get E k ns n s = (r, s1)" by fastforce
  have same: "look s1 = look s" using get_look [OF law, of k ns n s] g by simp
  from assms(2) get_found [OF law, of k ns n s _ s1] g obtain e where "r = Inl e" by (cases r) auto
  with g same show ?thesis by (simp add: fetch_and_def get_as_def seq_def attempt_def ret_def fail_def)
qed

lemmas Reconcile_defs = ReconcileDhcp4_def ReconcileDhcp6_def ReconcileControlAgent_def ReconcileDdns_def ReconcileStorkServer_def ReconcileKeaServer_def

lemma Reconcile_absent:
  "store_law E look \<Longrightarrow> look s (k, ns, n) = None \<Longrightarrow> look (snd (Reconcile E k ns n s)) = look s"
  by (cases k) (simp_all add: Reconcile_def Reconcile_defs fetch_absent ret_def)

lemma Reconcile_frame:
  assumes law: "store_law E look" and x: "look s (k, ns, n) = Some x"
  shows "frame look s (om_UID (obj_meta x)) (footprint_of x) (creates_of x) (deletes_of x) (k, ns, n) (snd (Reconcile E k ns n s))"
proof -
  have key: "Api.kind_of x = k" "om_Namespace (obj_meta x) = ns" "om_Name (obj_meta x) = n"
    using store_lawD(4) [OF law x] by (simp_all add: obj_key_def)
  show ?thesis
  proof (cases x)
    case (ODhcp4 cr)
    with key c4.reconcile_frame [OF law, of s ns n x cr] x show ?thesis
      by (simp add: Reconcile_def ReconcileDhcp4_def as_dhcp4_def footprint_of_def creates_of_def deletes_of_def)
  next
    case (ODhcp6 cr)
    with key c6.reconcile_frame [OF law, of s ns n x cr] x show ?thesis
      by (simp add: Reconcile_def ReconcileDhcp6_def as_dhcp6_def footprint_of_def creates_of_def deletes_of_def)
  next
    case (OControlAgent cr)
    with key cca.reconcile_frame [OF law, of s ns n x cr] x show ?thesis
      by (simp add: Reconcile_def ReconcileControlAgent_def as_ca_def footprint_of_def creates_of_def deletes_of_def)
  next
    case (ODdns cr)
    with key cdd.reconcile_frame [OF law, of s ns n x cr] x show ?thesis
      by (simp add: Reconcile_def ReconcileDdns_def as_dd_def footprint_of_def creates_of_def deletes_of_def)
  next
    case (OStorkServer cr)
    with key css.reconcile_frame [OF law, of s ns n x cr] x show ?thesis
      by (simp add: Reconcile_def ReconcileStorkServer_def as_storkserver_def footprint_of_def creates_of_def deletes_of_def)
  next
    case (OKeaServer cr)
    with key umbrella_frame [OF law, of s ns n cr] x show ?thesis
      by (simp add: Reconcile_def footprint_of_def creates_of_def deletes_of_def)
  qed (use key in \<open>auto simp: Reconcile_def ret_def\<close>)
qed

section \<open>When it succeeds\<close>

definition sound_of :: "'s env \<Rightarrow> kobj \<Rightarrow> bool" where
  "sound_of E x = (case x of ODhcp4 cr \<Rightarrow> sound4 E cr | _ \<Rightarrow> True)"

lemma Reconcile_succeeds:
  assumes E: "answers E look" and x: "look s (k, ns, n) = Some x" and k: "k \<in> resource_kinds - {KKeaServer}" and "sound_of E x"
    and free: "\<forall>K \<in> footprint_of x. was_claimable (om_UID (obj_meta x)) (look s K)"
  shows "\<exists>s'. Reconcile E k ns n s = (Inr (), s') \<and> (\<forall>K \<in> footprint_of x. was_claimable (om_UID (obj_meta x)) (look s' K))"
proof -
  have key: "Api.kind_of x = k" using store_lawD(4) [OF answersD(1) [OF E] x] by (simp add: obj_key_def)
  show ?thesis
  proof (cases x)
    case (ODhcp4 cr)
    with key l4.reconcile_succeeds [OF E, of s ns n x cr] x assms(4) free show ?thesis
      by (simp add: Reconcile_def ReconcileDhcp4_def as_dhcp4_def footprint_of_def sound_of_def)
  next
    case (ODhcp6 cr)
    with key l6.reconcile_succeeds [OF E, of s ns n x cr] x free show ?thesis
      by (simp add: Reconcile_def ReconcileDhcp6_def as_dhcp6_def footprint_of_def)
  next
    case (OControlAgent cr)
    with key lca.reconcile_succeeds [OF E, of s ns n x cr] x free show ?thesis
      by (simp add: Reconcile_def ReconcileControlAgent_def as_ca_def footprint_of_def)
  next
    case (ODdns cr)
    with key ldd.reconcile_succeeds [OF E, of s ns n x cr] x free show ?thesis
      by (simp add: Reconcile_def ReconcileDdns_def as_dd_def footprint_of_def)
  next
    case (OStorkServer cr)
    with key lss.reconcile_succeeds [OF E, of s ns n x cr] x free show ?thesis
      by (simp add: Reconcile_def ReconcileStorkServer_def as_storkserver_def footprint_of_def)
  qed (use key k in \<open>auto simp: resource_kinds_def\<close>)
qed

section \<open>Iteration order of Go maps\<close>

text \<open>
  The order in which a loop visits a Go map may be another one each time. \<open>reorder ho ao E\<close> is the
  environment in which the loops over the peers' host names and addresses run in the orders \<open>ho\<close>
  and \<open>ao\<close>; the laws of the API server do not depend on them.
\<close>

definition reorder ::
  "(string strmap \<Rightarrow> string strmap) \<Rightarrow> ((int, string) gomap \<Rightarrow> (int, string) gomap) \<Rightarrow> 's env \<Rightarrow> 's env" where
  "reorder ho ao E = E\<lparr>env_HostOrder := ho, env_AddrOrder := ao\<rparr>"

named_theorems order_free \<open>what does not depend on the iteration order of maps\<close>

lemma reorder_simps [simp, order_free]:
  "api_Get (reorder ho ao E) = api_Get E" "api_List (reorder ho ao E) = api_List E"
  "api_Create (reorder ho ao E) = api_Create E" "api_Delete (reorder ho ao E) = api_Delete E"
  "api_StatusUpdate (reorder ho ao E) = api_StatusUpdate E" "api_CreateOrUpdate (reorder ho ao E) = api_CreateOrUpdate E"
  "api_SetControllerReference (reorder ho ao E) = api_SetControllerReference E" "api_Event (reorder ho ao E) = api_Event E"
  "env_Now (reorder ho ao E) = env_Now E" "env_RandRead (reorder ho ao E) = env_RandRead E"
  "env_IsOpenShift (reorder ho ao E) = env_IsOpenShift E" "env_Unmarshal (reorder ho ao E) = env_Unmarshal E"
  "env_ErrorText (reorder ho ao E) = env_ErrorText E" "env_URLHostname (reorder ho ao E) = env_URLHostname E"
  by (simp_all add: reorder_def)

lemma reorder_id [simp]: "reorder (env_HostOrder E) (env_AddrOrder E) E = E"
  by (simp add: reorder_def)

lemma reorder_laws [simp]:
  "store_law (reorder ho ao E) look = store_law E look" "up_law (reorder ho ao E) look = up_law E look"
  "answers (reorder ho ao E) look = answers E look" "sound_of (reorder ho ao E) x = sound_of E x"
proof -
  show s: "store_law (reorder ho ao E) look = store_law E look"
    by (simp only: store_law_def scr_law_def read_law_def write_law_def reorder_simps)
  show u: "up_law (reorder ho ao E) look = up_law E look"
    by (simp only: up_law_def reorder_simps)
  show "answers (reorder ho ao E) look = answers E look"
    by (simp only: answers_def s u)
  show "sound_of (reorder ho ao E) x = sound_of E x"
    by (simp only: sound_of_def sound4_def reorder_simps)
qed

section \<open>Runs\<close>

text \<open>A create never replaces an object that exists.\<close>

lemma env_keeps_existing:
  assumes law: "store_law E look"
  shows "env_keeps E (\<lambda>w _. w = WCreate) (\<lambda>s. look s K = Some x)"
proof -
  note reads = env_keeps_reads [OF law, of "\<lambda>l. l K = Some x", unfolded env_keeps_def]
  have "keeps (\<lambda>s. look s K = Some x) (api_Create E y)" for y
    unfolding keeps_def
  proof (intro allI impI)
    fix s assume "look s K = Some x"
    then show "look (snd (api_Create E y s)) K = Some x"
      by (cases rule: create_cases [OF law, of y s "fst (api_Create E y s)" "snd (api_Create E y s)"]) auto
  qed
  with reads show ?thesis unfolding env_keeps_def by simp
qed

lemma keeps_startup: "env_keeps E W I \<Longrightarrow> (\<And>y. W WCreate y) \<Longrightarrow> keeps I (startup E)"
  unfolding startup_def EnsureDefaultNamespace_def EnsureSCC_def EnsureSCCClusterRole_def ignore_exists_def
  by (intro keeps_rules keeps_env(1) keeps_env(6))

text \<open>
  A run, seen from one object: the operator starts (again) or handles a request for a resource
  whose UID is not \<open>u\<close>, each time with iteration orders of its own, and between these steps other
  actors may change everything but the object at \<open>K\<close>.
\<close>

inductive operator_run :: "'s env \<Rightarrow> 's look \<Rightarrow> string \<Rightarrow> okey \<Rightarrow> 's \<Rightarrow> 's \<Rightarrow> bool"
  for E :: "'s env" and look :: "'s look" and u :: string and K :: okey and s0 :: 's where
  run_start: "operator_run E look u K s0 s0"
| run_setup: "operator_run E look u K s0 s \<Longrightarrow> operator_run E look u K s0 (snd (startup E s))"
| run_request: "operator_run E look u K s0 s \<Longrightarrow> \<forall>x. look s (k, ns, n) = Some x \<longrightarrow> om_UID (obj_meta x) \<noteq> u \<Longrightarrow>
    operator_run E look u K s0 (snd (Reconcile (reorder ho ao E) k ns n s))"
| run_other: "operator_run E look u K s0 s \<Longrightarrow> look s' K = look s K \<Longrightarrow> operator_run E look u K s0 s'"

lemma deletes_resources: "K \<in> deletes_of x \<Longrightarrow> fst K \<in> resource_kinds"
  by (auto simp: deletes_of_def resource_kinds_def child_table_def Let_def split: kobj.splits)

lemma Reconcile_other_kind: "k \<notin> resource_kinds \<Longrightarrow> Reconcile E k ns n = ret ()"
  by (cases k) (simp_all add: resource_kinds_def Reconcile_def)

lemma Reconcile_foreign:
  assumes law: "store_law E look" and K: "look s K = Some y" "obj_owner y = Some u" "fst K \<notin> resource_kinds"
    and u: "\<forall>x. look s (k, ns, n) = Some x \<longrightarrow> om_UID (obj_meta x) \<noteq> u"
  shows "look (snd (Reconcile E k ns n s)) K = Some y"
proof (cases "k \<in> resource_kinds")
  case True
  show ?thesis
  proof (cases "look s (k, ns, n)")
    case None
    with Reconcile_absent [OF law None] K(1) show ?thesis by simp
  next
    case (Some x)
    have "\<not> claimable (om_UID (obj_meta x)) y" using u Some K(2) by (simp add: claimable_def)
    moreover have "K \<notin> deletes_of x" "K \<noteq> (k, ns, n)" using deletes_resources [of K x] K(3) True by auto
    ultimately show ?thesis by (intro frame_foreign [OF Reconcile_frame [OF law Some] K(1)])
  qed
qed (simp add: Reconcile_other_kind ret_def K(1))

end
