(* ===== verification/MapOrder.thy ===== *)
theory MapOrder
  imports Operator
begin

text \<open>
  Where the iteration order of Go maps matters. Everything a controller does is the same under
  every order of its map loops, except for the workload of a DHCPv4 server with high
  availability, whose StatefulSet is assembled in such loops.
\<close>

section \<open>Steps that do not depend on the order\<close>

lemma reorder_buildMutateFn [order_free]: "buildMutateFn (reorder ho ao E) = buildMutateFn E"
  by (intro ext) (simp only: buildMutateFn_def order_free)

lemma reorder_reconcileResource [order_free]: "reconcileResource (reorder ho ao E) = reconcileResource E"
  by (intro ext) (simp only: reconcileResource_def order_free)

lemma reorder_mutateRoute [order_free]: "mutateRoute (reorder ho ao E) = mutateRoute E"
  by (intro ext) (simp only: mutateRoute_def order_free)

lemma reorder_reconcileRoute [order_free]: "reconcileRoute (reorder ho ao E) = reconcileRoute E"
  by (intro ext) (simp only: reconcileRoute_def order_free)

lemma reorder_setConditionNow [order_free]: "setConditionNow (reorder ho ao E) = setConditionNow E"
  by (intro ext) (simp only: setConditionNow_def order_free)

lemma reorder_setReadyStatus [order_free]: "setReadyStatus (reorder ho ao E) = setReadyStatus E"
  by (intro ext) (simp only: setReadyStatus_def order_free)

lemma reorder_get_as [order_free]: "get_as (reorder ho ao E) = get_as E"
  by (intro ext) (simp only: get_as_def order_free)

lemma reorder_resolveSecretValue [order_free]: "resolveSecretValue (reorder ho ao E) = resolveSecretValue E"
  by (intro ext) (simp only: resolveSecretValue_def order_free)

lemma reorder_resolveStorkServer [order_free]: "resolveStorkServer (reorder ho ao E) = resolveStorkServer E"
  by (intro ext) (simp only: resolveStorkServer_def order_free)

lemma reorder_resolveStorkAgent [order_free]: "resolveStorkAgent (reorder ho ao E) = resolveStorkAgent E"
  by (intro ext) (simp only: resolveStorkAgent_def order_free)

lemma reorder_ensureSCCRoleBinding [order_free]: "ensureSCCRoleBinding (reorder ho ao E) = ensureSCCRoleBinding E"
  by (intro ext) (simp only: ensureSCCRoleBinding_def order_free)

lemma reorder_bindSCC [order_free]: "bindSCC (reorder ho ao E) = bindSCC E"
  by (intro ext) (simp only: bindSCC_def order_free)

lemma reorder_fetch_and [order_free]: "fetch_and (reorder ho ao E) = fetch_and E"
  by (intro ext) (simp only: fetch_and_def order_free)

lemma reorder_event [order_free]: "event (reorder ho ao E) = event E"
  by (intro ext) (simp only: event_def order_free)

lemma reorder_reconcile_as [order_free]: "reconcile_as d (reorder ho ao E) = reconcile_as d E"
  by (intro ext) (simp only: reconcile_as_def order_free)

lemma reorder_renderErrorExit [order_free]: "renderErrorExit (reorder ho ao E) = renderErrorExit E"
  by (intro ext) (simp only: renderErrorExit_def order_free)

lemma reorder_markConfigValid [order_free]: "markConfigValid (reorder ho ao E) = markConfigValid E"
  by (intro ext) (simp only: markConfigValid_def order_free)

lemma reorder_reconcileControlService [order_free]: "reconcileControlService (reorder ho ao E) = reconcileControlService E"
  by (intro ext) (simp only: reconcileControlService_def order_free)

lemma reorder_reconcileStorkMonitoring [order_free]: "reconcileStorkMonitoring (reorder ho ao E) = reconcileStorkMonitoring E"
  by (intro ext) (simp only: reconcileStorkMonitoring_def order_free)

lemma reorder_readyReplicasOf [order_free]: "readyReplicasOf (reorder ho ao E) = readyReplicasOf E"
  by (intro ext) (simp only: readyReplicasOf_def order_free)

lemma reorder_writeReadyStatus [order_free]: "writeReadyStatus (reorder ho ao E) = writeReadyStatus E"
  by (intro ext) (simp only: writeReadyStatus_def order_free)

lemma reorder_resolveDhcp4StorkAgent [order_free]: "resolveDhcp4StorkAgent (reorder ho ao E) = resolveDhcp4StorkAgent E"
  by (intro ext) (simp only: resolveDhcp4StorkAgent_def order_free)

lemma reorder_ha_configs_loop [order_free]: "ha_configs_loop (reorder ho ao E) r meta peers co lbls is h = ha_configs_loop E r meta peers co lbls is h"
  by (induction "is" arbitrary: h) (simp_all only: ha_configs_loop.simps order_free)

lemma reorder_reconcileHAConfigs [order_free]: "reconcileHAConfigs (reorder ho ao E) = reconcileHAConfigs E"
  by (intro ext) (simp only: reconcileHAConfigs_def order_free)

lemma reorder_reconcileDhcp4Deployment [order_free]: "reconcileDhcp4Deployment (reorder ho ao E) = reconcileDhcp4Deployment E"
  by (intro ext) (simp only: reconcileDhcp4Deployment_def order_free)

lemma reorder_reconcileDhcp4ControlService [order_free]: "reconcileDhcp4ControlService (reorder ho ao E) = reconcileDhcp4ControlService E"
  by (intro ext) (simp only: reconcileDhcp4ControlService_def order_free)

lemma reorder_reconcileDhcp4StorkMonitoring [order_free]: "reconcileDhcp4StorkMonitoring (reorder ho ao E) = reconcileDhcp4StorkMonitoring E"
  by (intro ext) (simp only: reconcileDhcp4StorkMonitoring_def order_free)

lemma reorder_updateDhcp4Status [order_free]: "updateDhcp4Status (reorder ho ao E) = updateDhcp4Status E"
  by (intro ext) (simp only: updateDhcp4Status_def order_free)

lemma reorder_reconcileDhcp4Config [order_free]: "reconcileDhcp4Config (reorder ho ao E) = reconcileDhcp4Config E"
  by (intro ext) (simp only: reconcileDhcp4Config_def order_free)

lemma reorder_resolveDhcp6StorkAgent [order_free]: "resolveDhcp6StorkAgent (reorder ho ao E) = resolveDhcp6StorkAgent E"
  by (intro ext) (simp only: resolveDhcp6StorkAgent_def order_free)

lemma reorder_reconcileDhcp6ControlService [order_free]: "reconcileDhcp6ControlService (reorder ho ao E) = reconcileDhcp6ControlService E"
  by (intro ext) (simp only: reconcileDhcp6ControlService_def order_free)

lemma reorder_reconcileDhcp6StorkMonitoring [order_free]: "reconcileDhcp6StorkMonitoring (reorder ho ao E) = reconcileDhcp6StorkMonitoring E"
  by (intro ext) (simp only: reconcileDhcp6StorkMonitoring_def order_free)

lemma reorder_updateDhcp6Status [order_free]: "updateDhcp6Status (reorder ho ao E) = updateDhcp6Status E"
  by (intro ext) (simp only: updateDhcp6Status_def order_free)

lemma reorder_reconcileDhcp6Server [order_free]: "reconcileDhcp6Server (reorder ho ao E) = reconcileDhcp6Server E"
  by (intro ext) (simp only: reconcileDhcp6Server_def order_free)

lemma reorder_ReconcileDhcp6 [order_free]: "ReconcileDhcp6 (reorder ho ao E) = ReconcileDhcp6 E"
  by (intro ext) (simp only: ReconcileDhcp6_def order_free)

lemma reorder_reconcileControlAgentService [order_free]: "reconcileControlAgentService (reorder ho ao E) = reconcileControlAgentService E"
  by (intro ext) (simp only: reconcileControlAgentService_def order_free)

lemma reorder_reconcileKeaControlAgent [order_free]: "reconcileKeaControlAgent (reorder ho ao E) = reconcileKeaControlAgent E"
  by (intro ext) (simp only: reconcileKeaControlAgent_def order_free)

lemma reorder_ReconcileControlAgent [order_free]: "ReconcileControlAgent (reorder ho ao E) = ReconcileControlAgent E"
  by (intro ext) (simp only: ReconcileControlAgent_def order_free)

lemma reorder_reconcileDdnsService [order_free]: "reconcileDdnsService (reorder ho ao E) = reconcileDdnsService E"
  by (intro ext) (simp only: reconcileDdnsService_def order_free)

lemma reorder_reconcileKeaDhcpDdns [order_free]: "reconcileKeaDhcpDdns (reorder ho ao E) = reconcileKeaDhcpDdns E"
  by (intro ext) (simp only: reconcileKeaDhcpDdns_def order_free)

lemma reorder_ReconcileDdns [order_free]: "ReconcileDdns (reorder ho ao E) = ReconcileDdns E"
  by (intro ext) (simp only: ReconcileDdns_def order_free)

lemma reorder_getRouteURL [order_free]: "getRouteURL (reorder ho ao E) = getRouteURL E"
  by (intro ext) (simp only: getRouteURL_def order_free)

lemma reorder_ensureSecret [order_free]: "ensureSecret (reorder ho ao E) = ensureSecret E"
  by (intro ext) (simp only: ensureSecret_def order_free)

lemma reorder_reconcileAdminSecret [order_free]: "reconcileAdminSecret (reorder ho ao E) = reconcileAdminSecret E"
  by (intro ext) (simp only: reconcileAdminSecret_def order_free)

lemma reorder_reconcileTokenSecret [order_free]: "reconcileTokenSecret (reorder ho ao E) = reconcileTokenSecret E"
  by (intro ext) (simp only: reconcileTokenSecret_def order_free)

lemma reorder_reconcileStorkRoute [order_free]: "reconcileStorkRoute (reorder ho ao E) = reconcileStorkRoute E"
  by (intro ext) (simp only: reconcileStorkRoute_def order_free)

lemma reorder_actualRouteURL [order_free]: "actualRouteURL (reorder ho ao E) = actualRouteURL E"
  by (intro ext) (simp only: actualRouteURL_def order_free)

lemma reorder_reconcileKeaStorkServer [order_free]: "reconcileKeaStorkServer (reorder ho ao E) = reconcileKeaStorkServer E"
  by (intro ext) (simp only: reconcileKeaStorkServer_def order_free)

lemma reorder_ReconcileStorkServer [order_free]: "ReconcileStorkServer (reorder ho ao E) = ReconcileStorkServer E"
  by (intro ext) (simp only: ReconcileStorkServer_def order_free)

lemma reorder_reconcileChild [order_free]: "reconcileChild (reorder ho ao E) = reconcileChild E"
  by (intro ext) (simp only: reconcileChild_def order_free)

lemma reorder_reconcileDhcp4 [order_free]: "reconcileDhcp4 (reorder ho ao E) = reconcileDhcp4 E"
  by (intro ext) (simp only: reconcileDhcp4_def order_free)

lemma reorder_reconcileDhcp6 [order_free]: "reconcileDhcp6 (reorder ho ao E) = reconcileDhcp6 E"
  by (intro ext) (simp only: reconcileDhcp6_def order_free)

lemma reorder_reconcileControlAgent [order_free]: "reconcileControlAgent (reorder ho ao E) = reconcileControlAgent E"
  by (intro ext) (simp only: reconcileControlAgent_def order_free)

lemma reorder_reconcileDhcpDdns [order_free]: "reconcileDhcpDdns (reorder ho ao E) = reconcileDhcpDdns E"
  by (intro ext) (simp only: reconcileDhcpDdns_def order_free)

lemma reorder_reconcileStorkServer [order_free]: "reconcileStorkServer (reorder ho ao E) = reconcileStorkServer E"
  by (intro ext) (simp only: reconcileStorkServer_def order_free)

lemma reorder_isChildReady [order_free]: "isChildReady (reorder ho ao E) = isChildReady E"
  by (intro ext) (simp only: isChildReady_def order_free)

lemma reorder_overallPhase [order_free]: "overallPhase (reorder ho ao E) = overallPhase E"
  by (intro ext) (simp only: overallPhase_def order_free)

lemma reorder_aggregateStatus [order_free]: "aggregateStatus (reorder ho ao E) = aggregateStatus E"
  by (intro ext) (simp only: aggregateStatus_def order_free)

lemma reorder_reconcileChildren [order_free]: "reconcileChildren (reorder ho ao E) = reconcileChildren E"
  by (intro ext) (simp only: reconcileChildren_def order_free)

lemma reorder_reconcileKeaServer [order_free]: "reconcileKeaServer (reorder ho ao E) = reconcileKeaServer E"
  by (intro ext) (simp only: reconcileKeaServer_def order_free)

lemma reorder_ReconcileKeaServer [order_free]: "ReconcileKeaServer (reorder ho ao E) = ReconcileKeaServer E"
  by (intro ext) (simp only: ReconcileKeaServer_def order_free)

section \<open>DHCPv4 servers without high availability\<close>

lemma reorder_publishDhcp4 [order_free]: "publishDhcp4 (reorder ho ao E) = publishDhcp4 E"
  by (intro ext) (simp only: publishDhcp4_def order_free)

lemma fill_server4_no_ha: "d4_HighAvailability (kd4_Spec cr) = None \<Longrightarrow> d4_HighAvailability (kd4_Spec (fill_server4 cr)) = None"
  by (simp add: fill_server4_def fillPeerURLs_def Let_def)

lemma reorder_reconcileDhcp4Server:
  assumes "d4_HighAvailability (kd4_Spec cr) = None"
  shows "reconcileDhcp4Server (reorder ho ao E) cr = reconcileDhcp4Server E cr"
proof -
  have "rolloutDhcp4 (reorder ho ao E) (fill_server4 cr) = rolloutDhcp4 E (fill_server4 cr)"
    by (intro ext) (simp only: rolloutDhcp4_def reconcileDhcp4Workload_def fill_server4_no_ha [OF assms] option.case order_free)
  then show ?thesis by (simp only: reconcileDhcp4Server_def Let_def order_free)
qed

text \<open>
  The orders a later run may use without rendering another workload: any, unless the resource is
  a DHCPv4 server with high availability.
\<close>

definition order_matters :: "kobj \<Rightarrow> bool" where
  "order_matters x = (case x of ODhcp4 cr \<Rightarrow> d4_HighAvailability (kd4_Spec cr) \<noteq> None | _ \<Rightarrow> False)"

lemma fetch_and_cong:
  assumes "store_law E look" "look s (kd, ns, n) = Some x" "\<And>cr. sel x = Some cr \<Longrightarrow> body cr = body' cr"
  shows "fetch_and E kd sel body ns n s = fetch_and E kd sel body' ns n s"
proof -
  obtain r s1 where g: "api_Get E kd ns n s = (r, s1)" by fastforce
  have "r = Inr y \<Longrightarrow> y = x" for y using get_found(1) [OF assms(1), of kd ns n s y s1] g assms(2) by simp
  with g assms(3) show ?thesis
    by (cases r; cases "sel x") (auto simp: fetch_and_def get_as_def seq_def attempt_def decode_def ret_def fail_def)
qed

lemma Reconcile_reorder:
  assumes law: "store_law E look" and x: "look s (k, ns, n) = Some x" and "\<not> order_matters x"
  shows "Reconcile (reorder ho ao E) k ns n s = Reconcile E k ns n s"
proof (cases "k = KDhcp4")
  case True
  have "ReconcileDhcp4 (reorder ho ao E) ns n s = ReconcileDhcp4 E ns n s"
    unfolding ReconcileDhcp4_def reorder_fetch_and
  proof (rule fetch_and_cong [OF law x [unfolded True]])
    fix cr assume "as_dhcp4 x = Some cr"
    then have "x = ODhcp4 cr" by (cases x) (simp_all add: as_dhcp4_def)
    with assms(3) show "reconcileDhcp4Server (reorder ho ao E) cr = reconcileDhcp4Server E cr"
      by (intro reorder_reconcileDhcp4Server) (simp add: order_matters_def)
  qed
  with True show ?thesis by (simp add: Reconcile_def)
next
  case False
  then show ?thesis by (cases k) (simp_all add: Reconcile_def order_free)
qed

end
