(* ===== verification/Replay.thy ===== *)
theory Replay
  imports MemEnv
begin

text \<open>
  Running a reconciliation twice. \<open>replays\<close> relates a run with a later one of the same code: the first
  run succeeds, and against the cluster it leaves, the second run succeeds too and changes
  nothing. The judgement composes along the code: a step is replayed against the final state
  when no later step writes what it depends on.
\<close>

section \<open>Further laws of the API server\<close>

text \<open>
  A mutate function is idempotent when it leaves an object it has produced as it is.
  Re-applying such a function to the object that the server stored for it changes nothing:
  defaults are filled in the same way again, and an update without a difference is not
  stored. Creates of absent objects and deletes of present ones are accepted.
\<close>

definition idempotent :: "(kobj \<Rightarrow> goerror + kobj) \<Rightarrow> bool" where
  "idempotent f = (\<forall>l l'. f l = Inr l' \<longrightarrow> f l' = Inr l')"

definition settle_law :: "'s env \<Rightarrow> 's look \<Rightarrow> bool" where
  "settle_law E look =
     ((\<forall>x f s s' t t'. api_CreateOrUpdate E x f s = (Inr (), s') \<longrightarrow> idempotent f \<longrightarrow> look t (obj_key x) = look s' (obj_key x) \<longrightarrow>
         api_CreateOrUpdate E x f t = (Inr (), t') \<longrightarrow> look t' = look t)
      \<and> (\<forall>x s. look s (obj_key x) = None \<longrightarrow> fst (api_Create E x s) = Inr ())
      \<and> (\<forall>x s. look s (obj_key x) \<noteq> None \<longrightarrow> fst (api_Delete E x s) = Inr ()))"

definition steady :: "'s env \<Rightarrow> 's look \<Rightarrow> bool" where
  "steady E look = (answers E look \<and> list_law E look \<and> settle_law E look)"

lemma steadyD:
  assumes "steady E look"
  shows "answers E look" "store_law E look" "up_law E look" "list_law E look"
    and "api_CreateOrUpdate E x f s = (Inr (), s') \<Longrightarrow> idempotent f \<Longrightarrow> look t (obj_key x) = look s' (obj_key x) \<Longrightarrow>
         api_CreateOrUpdate E x f t = (Inr (), t') \<Longrightarrow> look t' = look t"
    and "look s (obj_key x) = None \<Longrightarrow> fst (api_Create E x s) = Inr ()"
    and "look s (obj_key x) \<noteq> None \<Longrightarrow> fst (api_Delete E x s) = Inr ()"
proof -
  note st = assms [unfolded steady_def]
  show "answers E look" "store_law E look" "up_law E look" "list_law E look"
    using st answersD(1,2) by blast+
  note law = conjunct2 [OF conjunct2 [OF st], unfolded settle_law_def]
  show "api_CreateOrUpdate E x f s = (Inr (), s') \<Longrightarrow> idempotent f \<Longrightarrow> look t (obj_key x) = look s' (obj_key x) \<Longrightarrow>
         api_CreateOrUpdate E x f t = (Inr (), t') \<Longrightarrow> look t' = look t"
    using conjunct1 [OF law] by blast
  show "look s (obj_key x) = None \<Longrightarrow> fst (api_Create E x s) = Inr ()"
    "look s (obj_key x) \<noteq> None \<Longrightarrow> fst (api_Delete E x s) = Inr ()"
    using conjunct2 [OF law] by blast+
qed

lemma mem_settle_law: "settle_law (mem_env b) mem_look"
  unfolding settle_law_def
proof (intro conjI allI impI)
  fix x f s s' t t'
  assume 1: "api_CreateOrUpdate (mem_env b) x f s = (Inr (), s')" and f: "idempotent f"
    and same: "mem_look t (obj_key x) = mem_look s' (obj_key x)" and 2: "api_CreateOrUpdate (mem_env b) x f t = (Inr (), t')"
  from 1 obtain l' where l': "f (case mem_look s (obj_key x) of None \<Rightarrow> x | Some l \<Rightarrow> l) = Inr l'" "obj_key l' = obj_key x" "s' = mem_put l' s"
    by (auto simp: mem_env_simps split: sum.splits if_splits)
  then have t: "mem_look t (obj_key x) = Some l'" by (simp add: same mem_look_put)
  moreover have "f l' = Inr l'" using f l'(1) unfolding idempotent_def by blast
  ultimately have "t' = mem_put l' t" using 2 l'(2) by (simp add: mem_env_simps)
  then show "mem_look t' = mem_look t" using t l'(2) by (simp add: mem_look_put fun_upd_idem)
qed (auto simp: mem_env_simps split: option.split)

section \<open>The judgement\<close>

text \<open>
  \<open>replays look L I A W V m m'\<close>: from a state in \<open>I\<close>, \<open>m\<close> gives a value \<open>x\<close>, stays in \<open>I\<close> and writes only keys in
  \<open>W\<close>; when the objects it depends on, those at \<open>A\<close>, are still the same in the cluster \<open>L\<close>, then \<open>m'\<close>
  succeeds on every state with the objects \<open>L\<close>, leaves them as they are, and gives a value that
  \<open>V\<close> relates to \<open>x\<close>.
\<close>

definition replays ::
  "'s look \<Rightarrow> (okey \<Rightarrow> kobj option) \<Rightarrow> ('s \<Rightarrow> bool) \<Rightarrow> okey set \<Rightarrow> okey set \<Rightarrow> ('a \<Rightarrow> 'b \<Rightarrow> bool) \<Rightarrow> ('s, 'a) op \<Rightarrow> ('s, 'b) op \<Rightarrow> bool" where
  "replays look L I A W V m m' =
     (\<forall>s. I s \<longrightarrow>
        (\<exists>x s'. m s = (Inr x, s') \<and> I s' \<and> (\<forall>K. K \<notin> W \<longrightarrow> look s' K = look s K) \<and> (\<exists>x'. V x x')
           \<and> ((\<forall>K \<in> A. look s' K = L K) \<longrightarrow>
                (\<forall>t. look t = L \<longrightarrow> (\<exists>x' t'. m' t = (Inr x', t') \<and> look t' = L \<and> V x x')))))"

named_theorems replay_rules \<open>introduction rules for replays\<close>

lemma replaysI:
  assumes "\<And>s. I s \<Longrightarrow> \<exists>x s'. m s = (Inr x, s') \<and> I s' \<and> (\<forall>K. K \<notin> W \<longrightarrow> look s' K = look s K) \<and> (\<exists>x'. V x x')
           \<and> ((\<forall>K \<in> A. look s' K = L K) \<longrightarrow> (\<forall>t. look t = L \<longrightarrow> (\<exists>x' t'. m' t = (Inr x', t') \<and> look t' = L \<and> V x x')))"
  shows "replays look L I A W V m m'"
  using assms unfolding replays_def by blast

lemma replaysE:
  assumes "replays look L I A W V m m'" "I s"
  obtains x s' x0 where "m s = (Inr x, s')" "I s'" "\<And>K. K \<notin> W \<Longrightarrow> look s' K = look s K" "V x x0"
    "\<And>t. \<forall>K \<in> A. look s' K = L K \<Longrightarrow> look t = L \<Longrightarrow> \<exists>x' t'. m' t = (Inr x', t') \<and> look t' = L \<and> V x x'"
  using assms unfolding replays_def by metis

lemma replays_mono:
  assumes "replays look L I A W V m m'" "A \<subseteq> A'" "W \<subseteq> W'" "\<And>x x'. V x x' \<Longrightarrow> V' x x'"
  shows "replays look L I A' W' V' m m'"
proof (rule replaysI)
  fix s assume "I s"
  from assms(1) this obtain x s' x0 where m: "m s = (Inr x, s')" "I s'" "\<And>K. K \<notin> W \<Longrightarrow> look s' K = look s K" "V x x0"
    "\<And>t. \<forall>K \<in> A. look s' K = L K \<Longrightarrow> look t = L \<Longrightarrow> \<exists>x' t'. m' t = (Inr x', t') \<and> look t' = L \<and> V x x'" by (rule replaysE) blast
  have "\<forall>t. look t = L \<longrightarrow> (\<exists>x' t'. m' t = (Inr x', t') \<and> look t' = L \<and> V' x x')" if "\<forall>K \<in> A'. look s' K = L K"
    using m(5) that assms(2,4) by (metis subsetD)
  moreover have "\<forall>K. K \<notin> W' \<longrightarrow> look s' K = look s K" "\<exists>x'. V' x x'" using m(3,4) assms(3,4) by blast+
  ultimately show "\<exists>x s'. m s = (Inr x, s') \<and> I s' \<and> (\<forall>K. K \<notin> W' \<longrightarrow> look s' K = look s K) \<and> (\<exists>x'. V' x x')
           \<and> ((\<forall>K \<in> A'. look s' K = L K) \<longrightarrow> (\<forall>t. look t = L \<longrightarrow> (\<exists>x' t'. m' t = (Inr x', t') \<and> look t' = L \<and> V' x x')))"
    using m(1,2) by (intro exI [of _ x] exI [of _ s']) simp
qed

lemma replays_ret: "V x x' \<Longrightarrow> replays look L I A W V (ret x) (ret x')"
  by (auto simp: replays_def ret_def)

lemma replays_seq [replay_rules]:
  assumes m: "replays look L I A1 W1 V m m'" and f: "\<And>x x'. V x x' \<Longrightarrow> replays look L I A2 W2 V2 (f x) (f' x')" and disj: "A1 \<inter> W2 = {}"
  shows "replays look L I (A1 \<union> A2) (W1 \<union> W2) V2 (seq m f) (seq m' f')"
proof (rule replaysI)
  fix s assume "I s"
  from m this obtain x s1 x0 where 1: "m s = (Inr x, s1)" "I s1" "\<And>K. K \<notin> W1 \<Longrightarrow> look s1 K = look s K" "V x x0"
    and r1: "\<And>t. \<forall>K \<in> A1. look s1 K = L K \<Longrightarrow> look t = L \<Longrightarrow> \<exists>x' t'. m' t = (Inr x', t') \<and> look t' = L \<and> V x x'" by (rule replaysE) blast
  from f [OF 1(4)] 1(2) obtain y s2 y0 where 2: "f x s1 = (Inr y, s2)" "I s2" "\<And>K. K \<notin> W2 \<Longrightarrow> look s2 K = look s1 K" "V2 y y0" by (rule replaysE) blast
  have later: "\<exists>y' t'. seq m' f' t = (Inr y', t') \<and> look t' = L \<and> V2 y y'" if A: "\<forall>K \<in> A1 \<union> A2. look s2 K = L K" and t: "look t = L" for t
  proof -
    have "\<forall>K \<in> A1. look s1 K = L K" using A disj 2(3) by (metis UnI1 disjoint_iff)
    from r1 [OF this t] obtain x' t1 where t1: "m' t = (Inr x', t1)" "look t1 = L" "V x x'" by blast
    from f [OF t1(3)] 1(2) have "\<exists>y' t'. f' x' t1 = (Inr y', t') \<and> look t' = L \<and> V2 y y'"
      by (rule replaysE) (use A 2(1) t1(2) in auto)
    with t1(1) show ?thesis by (simp add: seq_def)
  qed
  have "\<forall>K. K \<notin> W1 \<union> W2 \<longrightarrow> look s2 K = look s K" using 1(3) 2(3) by simp
  with later 1(1) 2 show "\<exists>x s'. seq m f s = (Inr x, s') \<and> I s' \<and> (\<forall>K. K \<notin> W1 \<union> W2 \<longrightarrow> look s' K = look s K) \<and> (\<exists>x'. V2 x x')
           \<and> ((\<forall>K \<in> A1 \<union> A2. look s' K = L K) \<longrightarrow> (\<forall>t. look t = L \<longrightarrow> (\<exists>x' t'. seq m' f' t = (Inr x', t') \<and> look t' = L \<and> V2 x x')))"
    by (intro exI [of _ y] exI [of _ s2]) (auto simp: seq_def)
qed

lemma replays_wrap [replay_rules]: "replays look L I A W V m m' \<Longrightarrow> replays look L I A W V (wrap_err e m) (wrap_err e' m')"
  unfolding replays_def wrap_err_def by fastforce

definition both_ok :: "('a \<Rightarrow> 'b \<Rightarrow> bool) \<Rightarrow> goerror + 'a \<Rightarrow> goerror + 'b \<Rightarrow> bool" where
  "both_ok V r r' = (\<exists>x x'. r = Inr x \<and> r' = Inr x' \<and> V x x')"

lemma replays_attempt [replay_rules]: "replays look L I A W V m m' \<Longrightarrow> replays look L I A W (both_ok V) (attempt m) (attempt m')"
  unfolding replays_def attempt_def both_ok_def by fastforce

lemma replays_if [replay_rules]:
  "(b \<Longrightarrow> replays look L I A W V m m') \<Longrightarrow> (\<not> b \<Longrightarrow> replays look L I A W V n n') \<Longrightarrow>
   replays look L I A W V (if b then m else n) (if b then m' else n')"
  by simp

lemma replays_option [replay_rules]:
  "(c = None \<Longrightarrow> replays look L I A W V m m') \<Longrightarrow> (\<And>y. c = Some y \<Longrightarrow> replays look L I A W V (f y) (f' y)) \<Longrightarrow>
   replays look L I A W V (case c of None \<Rightarrow> m | Some y \<Rightarrow> f y) (case c of None \<Rightarrow> m' | Some y \<Rightarrow> f' y)"
  by (cases c) auto

lemma replays_for_each:
  assumes "\<And>i. i \<in> set is \<Longrightarrow> replays look L I {K i} {K i} (\<lambda>_ _. True) (f i) (f' i)" "distinct (map K is)"
  shows "replays look L I (K ` set is) (K ` set is) (\<lambda>_ _. True) (for_each f is) (for_each f' is)"
  using assms
proof (induction "is")
  case (Cons i "is")
  have "replays look L I ({K i} \<union> K ` set is) ({K i} \<union> K ` set is) (\<lambda>_ _. True) (seq (f i) (\<lambda>_. for_each f is)) (seq (f' i) (\<lambda>_. for_each f' is))"
    by (rule replays_seq [where V = "\<lambda>_ _. True"]) (use Cons in auto)
  then show ?case by simp
qed (simp add: replays_ret)

text \<open>Steps that only read, with a value that depends on the objects at \<open>A\<close>.\<close>

lemma replays_read:
  assumes I: "\<And>s s'. I s \<Longrightarrow> look s' = look s \<Longrightarrow> I s'"
    and ok: "\<And>s. \<exists>x s'. m s = (Inr x, s') \<and> look s' = look s" "\<And>s. \<exists>x s'. m' s = (Inr x, s') \<and> look s' = look s"
    and rel: "\<And>s t x s' x' t'. m s = (Inr x, s') \<Longrightarrow> m' t = (Inr x', t') \<Longrightarrow> \<forall>K \<in> A. look s K = look t K \<Longrightarrow> look t = L \<Longrightarrow> V x x'"
    and tot: "\<And>x. \<exists>x'. V x x'"
  shows "replays look L I A W V m m'"
proof (rule replaysI)
  fix s assume s: "I s"
  obtain x s' where m: "m s = (Inr x, s')" "look s' = look s" using ok(1) by blast
  have "\<exists>x' t'. m' t = (Inr x', t') \<and> look t' = L \<and> V x x'" if "\<forall>K \<in> A. look s' K = L K" "look t = L" for t
  proof -
    obtain x' t' where m': "m' t = (Inr x', t')" "look t' = look t" using ok(2) by blast
    with rel [OF m(1) m'(1) _ that(2)] that m(2) show ?thesis by auto
  qed
  with m s tot I [OF s m(2)]
  show "\<exists>x s'. m s = (Inr x, s') \<and> I s' \<and> (\<forall>K. K \<notin> W \<longrightarrow> look s' K = look s K) \<and> (\<exists>x'. V x x')
           \<and> ((\<forall>K \<in> A. look s' K = L K) \<longrightarrow> (\<forall>t. look t = L \<longrightarrow> (\<exists>x' t'. m' t = (Inr x', t') \<and> look t' = L \<and> V x x')))"
    by (intro exI [of _ x] exI [of _ s']) auto
qed

lemma look_reads:
  assumes "steady E look"
  shows "\<exists>x s'. event E o1 t r m s = (Inr x, s') \<and> look s' = look s" "\<exists>x s'. env_Now E s = (Inr x, s') \<and> look s' = look s"
    "\<exists>x s'. env_RandRead E n s = (Inr x, s') \<and> look s' = look s"
proof -
  note rl = store_lawD(2) [OF steadyD(2) [OF assms], unfolded read_law_def]
  show "\<exists>x s'. event E o1 t r m s = (Inr x, s') \<and> look s' = look s" using rl by (simp add: event_def modify_def)
  show "\<exists>x s'. env_Now E s = (Inr x, s') \<and> look s' = look s" using rl up_lawD(6) [OF steadyD(3) [OF assms]] by (metis prod.collapse)
  show "\<exists>x s'. env_RandRead E n s = (Inr x, s') \<and> look s' = look s" using rl up_lawD(7) [OF steadyD(3) [OF assms]] by (metis prod.collapse)
qed

lemma replays_event:
  "steady E look \<Longrightarrow> replays look L (ready look u F c) A W (\<lambda>_ _. True) (event E o1 t r m) (event E o2 t' r' m')"
  by (rule replays_read, blast intro: ready_same) (simp_all only: look_reads simp_thms)

lemma replays_Now: "steady E look \<Longrightarrow> replays look L (ready look u F c) A W (\<lambda>_ _. True) (env_Now E) (env_Now E)"
  by (rule replays_read) (auto intro: ready_same look_reads)

text \<open>A typed read gives the same object again, or fails again in the same way.\<close>

definition same_read :: "goerror + 'a \<Rightarrow> goerror + 'a \<Rightarrow> bool" where
  "same_read r r' = (case r of Inr y \<Rightarrow> r' = Inr y | Inl e \<Rightarrow> (\<exists>e'. r' = Inl e' \<and> IsNotFound e' = IsNotFound e))"

lemma get_as_reads:
  assumes "steady E look"
  shows "\<exists>r s'. get_as E k sel ns n s = (r, s') \<and> look s' = look s
     \<and> (case look s (k, ns, n) of
          None \<Rightarrow> \<exists>e. r = Inl e \<and> IsNotFound e
        | Some x \<Rightarrow> (case sel x of None \<Rightarrow> r = Inl (ApiError ''decode'') | Some y \<Rightarrow> r = Inr y))"
proof -
  obtain g s' where g: "api_Get E k ns n s = (g, s')" by fastforce
  have "look s' = look s" using get_look [OF steadyD(2) [OF assms], of k ns n s] g by simp
  with g up_lawD(1,2) [OF steadyD(3) [OF assms], of s k ns n] show ?thesis
    by (cases "look s (k, ns, n)") (auto simp: get_as_def seq_def decode_def fail_def ret_def split: option.split)
qed

lemma replays_get_as:
  assumes "steady E look"
  shows "replays look L (ready look u F c) {(k, ns, n)} W same_read (attempt (get_as E k sel ns n)) (attempt (get_as E k sel ns n))"
proof (rule replays_read, blast intro: ready_same)
  fix s t x s' x' t'
  assume "attempt (get_as E k sel ns n) s = (Inr x, s')" "attempt (get_as E k sel ns n) t = (Inr x', t')" "\<forall>K \<in> {(k, ns, n)}. look s K = look t K"
  then have g: "get_as E k sel ns n s = (x, s')" "get_as E k sel ns n t = (x', t')" and eq: "look t (k, ns, n) = look s (k, ns, n)"
    by (simp_all add: attempt_def split: prod.splits)
  from get_as_reads [OF assms, of k sel ns n s] get_as_reads [OF assms, of k sel ns n t] show "same_read x x'"
    by (cases "look s (k, ns, n)"; cases "Option.bind (look s (k, ns, n)) sel") (auto simp: g eq same_read_def split: option.splits)
next
  show "\<exists>x'. same_read x x'" for x :: "goerror + 'b" by (cases x) (auto simp: same_read_def)
  show "\<exists>x s'. attempt (get_as E k sel ns n) s = (Inr x, s') \<and> look s' = look s" for s
    using get_as_reads [OF assms, of k sel ns n s] by (auto simp: attempt_def)
  then show "\<exists>x s'. attempt (get_as E k sel ns n) s = (Inr x, s') \<and> look s' = look s" for s .
qed

lemma replays_readyReplicasOf:
  assumes "steady E look"
  shows "replays look L (ready look u F c) {(k, ns, n)} {} (=) (readyReplicasOf E k sel r ns n) (readyReplicasOf E k sel r ns n)"
  unfolding readyReplicasOf_def
  by (rule replays_mono [OF replays_seq [OF replays_get_as [OF assms] replays_ret [where A = "{}" and W = "{}"]]])
    (auto simp: same_read_def split: sum.splits)

section \<open>Applied objects\<close>

lemma keepClusterIP_idem: "keepClusterIP (keepClusterIP l d) d = keepClusterIP l d"
  by (simp add: keepClusterIP_def Let_def)

lemma with_labels_idem: "with_labels (own u (with_labels l d)) d = own u (with_labels l d)"
  by (simp add: with_labels_def own_def)

lemma own_idem [simp]: "own u (own u m) = own u m"
  by (simp add: own_def)

lemma set_owner_idem [simp]: "set_owner u (set_owner u x) = set_owner u x"
  by (cases x) simp_all

lemma applyDesired_idem: "applyDesired d (set_owner u (applyDesired d l)) = set_owner u (applyDesired d l)"
  by (cases d; cases l) (simp_all add: applyDesired_def keepClusterIP_idem with_labels_idem)

lemma scr_answers:
  assumes "answers E look" "claimable (om_UID owner) x"
  shows "api_SetControllerReference E owner x = Inr (set_owner (om_UID owner) x)"
  using up_lawD(5) [OF answersD(2) [OF assms(1)] assms(2)] scr_lawD [OF answersD(3) [OF assms(1)], of owner x] by auto

lemma idempotent_owned:
  assumes E: "answers E look" and g: "\<And>l. g (set_owner (om_UID owner) (g l)) = set_owner (om_UID owner) (g l)"
  shows "idempotent (\<lambda>l. api_SetControllerReference E owner (g l))"
  unfolding idempotent_def
proof (intro allI impI)
  fix l l' assume "api_SetControllerReference E owner (g l) = Inr l'"
  then have "l' = set_owner (om_UID owner) (g l)" using scr_lawD [OF answersD(3) [OF E]] by blast
  then show "api_SetControllerReference E owner (g l') = Inr l'"
    using scr_answers [OF E, of owner l'] by (simp add: g claimable_def)
qed

text \<open>A create-or-update step with an idempotent mutate function, which succeeds whenever nobody else controls the object.\<close>

lemma replays_apply:
  assumes E: "steady E look" and f: "idempotent f" and K: "obj_key x \<in> F"
    and ok: "\<And>A c. obj_key x \<in> A \<Longrightarrow> succeeds (ready look u A c) (api_CreateOrUpdate E x f)"
    and own: "\<And>l l'. f l = Inr l' \<Longrightarrow> obj_owner l' = Some u"
  shows "replays look L (ready look u F c) {obj_key x} {obj_key x} (\<lambda>_ _. True) (api_CreateOrUpdate E x f) (api_CreateOrUpdate E x f)"
proof (rule replaysI)
  fix s assume I: "ready look u F c s"
  from succeedsD [OF ok [OF K] I] obtain s' where m: "api_CreateOrUpdate E x f s = (Inr (), s')" "ready look u F c s'" by auto
  obtain l l' y where y: "f l = Inr l'" "persisted l' y" "look s' = (look s)(obj_key x \<mapsto> y)"
    by (rule apply_cases [OF steadyD(2) [OF E] m(1)]) auto
  have "\<exists>x' t'. api_CreateOrUpdate E x f t = (Inr x', t') \<and> look t' = L" if A: "\<forall>K \<in> {obj_key x}. look s' K = L K" and t: "look t = L" for t
  proof -
    have "look t (obj_key x) = Some y" using A t y(3) by simp
    then have "ready look u {obj_key x} (obj_key x) t"
      using own [OF y(1)] y(2) by (simp add: ready_def was_claimable_def claimable_def persisted_def)
    from succeedsD [OF ok this] obtain t' where t': "api_CreateOrUpdate E x f t = (Inr (), t')" by auto
    with steadyD(5) [OF E m(1) f _ t'] A t show ?thesis by auto
  qed
  with m y(3) show "\<exists>v s'. api_CreateOrUpdate E x f s = (Inr v, s') \<and> ready look u F c s' \<and> (\<forall>K. K \<notin> {obj_key x} \<longrightarrow> look s' K = look s K) \<and> (\<exists>v'. True)
       \<and> ((\<forall>K \<in> {obj_key x}. look s' K = L K) \<longrightarrow> (\<forall>t. look t = L \<longrightarrow> (\<exists>v' t'. api_CreateOrUpdate E x f t = (Inr v', t') \<and> look t' = L \<and> True)))"
    by (intro exI [of _ "()"] exI [of _ s']) auto
qed

text \<open>The three uses of create-or-update set the owner last; \<open>g\<close> is what they do before.\<close>

lemma succeeds_owned:
  assumes E: "answers E look" and g: "\<And>l. obj_owner (g l) = obj_owner l" "\<And>l. obj_key l = obj_key x \<Longrightarrow> obj_key (g l) = obj_key l"
    and x: "claimable (om_UID owner) x" and K: "obj_key x \<in> A"
  shows "succeeds (ready look (om_UID owner) A c) (api_CreateOrUpdate E x (\<lambda>l. api_SetControllerReference E owner (g l)))"
proof (rule succeedsI)
  let ?u = "om_UID owner" and ?f = "\<lambda>l. api_SetControllerReference E owner (g l)"
  show "keeps (ready look ?u A c) (api_CreateOrUpdate E x ?f)"
    by (rule keeps_CreateOrUpdate [OF answersD(4) [OF E]])
      (auto simp: harmless_def claims_def claimable_def g(1) dest!: scr_lawD [OF answersD(3) [OF E]])
  fix s assume I: "ready look ?u A c s"
  let ?l = "case look s (obj_key x) of None \<Rightarrow> x | Some l \<Rightarrow> l"
  have "claimable ?u ?l" using I K x by (auto simp: ready_def was_claimable_def split: option.split)
  then have "?f ?l = Inr (set_owner ?u (g ?l))" by (intro scr_answers [OF E]) (simp add: claimable_def g(1))
  moreover have "obj_key ?l = obj_key x" using store_lawD(4) [OF answersD(1) [OF E], of s "obj_key x"] by (auto split: option.split)
  ultimately show "\<exists>r. fst (api_CreateOrUpdate E x ?f s) = Inr r"
    by (intro exI, rule_tac up_lawD(3) [OF answersD(2) [OF E], where l' = "set_owner ?u (g ?l)"]) (simp_all add: g(2))
qed

lemma replays_owned:
  assumes E: "steady E look" and g: "\<And>l. obj_owner (g l) = obj_owner l" "\<And>l. obj_key l = obj_key x \<Longrightarrow> obj_key (g l) = obj_key l"
    "\<And>l. g (set_owner (om_UID owner) (g l)) = set_owner (om_UID owner) (g l)"
    and x: "claimable (om_UID owner) x" "obj_key x \<in> F"
  shows "replays look L (ready look (om_UID owner) F c) {obj_key x} {obj_key x} (\<lambda>_ _. True)
     (api_CreateOrUpdate E x (\<lambda>l. api_SetControllerReference E owner (g l))) (api_CreateOrUpdate E x (\<lambda>l. api_SetControllerReference E owner (g l)))"
proof (rule replays_apply [OF E])
  show "idempotent (\<lambda>l. api_SetControllerReference E owner (g l))" by (rule idempotent_owned [OF steadyD(1) [OF E] g(3)])
  show "succeeds (ready look (om_UID owner) A c) (api_CreateOrUpdate E x (\<lambda>l. api_SetControllerReference E owner (g l)))"
    if "obj_key x \<in> A" for A c by (rule succeeds_owned [OF steadyD(1) [OF E] g(1,2) x(1) that])
  show "obj_owner l' = Some (om_UID owner)" if "api_SetControllerReference E owner (g l) = Inr l'" for l l'
    using scr_lawD [OF answersD(3) [OF steadyD(1) [OF E]] that] by simp
qed (rule x)

lemma seq_lift_ok [simp]: "seq (wrap_err w (lift (Inr x))) f = f x"
  by (rule ext) (simp add: seq_def wrap_err_def lift_def)

lemma replays_reconcileResource:
  assumes E: "steady E look" and obj: "obj_key obj \<in> F" "obj_owner obj = None"
  shows "replays look L (ready look (om_UID owner) F c) {obj_key obj} {obj_key obj} (\<lambda>_ _. True) (reconcileResource E owner obj) (reconcileResource E owner obj)"
proof -
  let ?o = "set_owner (om_UID owner) obj"
  have scr: "api_SetControllerReference E owner obj = Inr ?o"
    by (rule scr_answers [OF steadyD(1) [OF E]]) (simp add: claimable_def obj(2))
  have "replays look L (ready look (om_UID owner) F c) {obj_key ?o} {obj_key ?o} (\<lambda>_ _. True)
     (api_CreateOrUpdate E ?o (\<lambda>l. api_SetControllerReference E owner (applyDesired ?o l)))
     (api_CreateOrUpdate E ?o (\<lambda>l. api_SetControllerReference E owner (applyDesired ?o l)))"
    by (rule replays_owned [OF E _ _ applyDesired_idem]) (simp_all add: claimable_def obj(1) key_applyDesired)
  from replays_wrap [OF this] show ?thesis
    by (simp add: reconcileResource_def scr buildMutateFn_def [abs_def])
qed

lemma replays_reconcile_as:
  assumes "steady E look" "obj_key obj \<in> F" "obj_owner obj = None"
  shows "replays look L (ready look (om_UID owner) F c) {obj_key obj} {obj_key obj} (\<lambda>_ _. True) (reconcile_as w E owner obj) (reconcile_as w E owner obj)"
  unfolding reconcile_as_def by (rule replays_wrap [OF replays_reconcileResource [OF assms]])

text \<open>The same with the key given, for objects that depend on looked-up values.\<close>

lemma replays_apply_at:
  assumes "steady E look" "obj_key obj = K" "K \<in> F" "obj_owner obj = None"
  shows "replays look L (ready look (om_UID owner) F c) {K} {K} (\<lambda>_ _. True) (reconcile_as w E owner obj) (reconcile_as w E owner obj)"
  using replays_reconcile_as [OF assms(1), of obj F L owner c w] assms(2-) by simp

section \<open>Routes\<close>

lemma map_set_again: "map_set (map_set m k v) k v = map_set m k v"
  by (induction m) auto

lemma map_set_below: "k' < k \<Longrightarrow> map_set (map_set (map_set m k v) k' v') k v = map_set (map_set m k v) k' v'"
  by (induction m) (auto simp: map_set_again)

lemma jset_again: "jset k v (jset k v j) = jset k v j"
  by (cases j) (simp_all add: map_set_again)

lemma jset_below: "k' < k \<Longrightarrow> jset k v (jset k' v' (jset k v j)) = jset k' v' (jset k v j)"
  by (cases j) (simp_all add: map_set_below)

lemma metadata_below_spec: "''metadata'' < ''spec''"
  by code_simp

text \<open>The two writes into the tree of a Route, for a given spec and given labels.\<close>

definition put_spec :: "json option \<Rightarrow> json \<Rightarrow> json" where
  "put_spec sp j = (case sp of None \<Rightarrow> j | Some v \<Rightarrow> jset ''spec'' v j)"

definition put_labels :: "json option \<Rightarrow> json \<Rightarrow> json" where
  "put_labels lb j =
     (case lb of None \<Rightarrow> j | Some v \<Rightarrow> (case jfield ''metadata'' j of None \<Rightarrow> j | Some md \<Rightarrow> jset ''metadata'' (jset ''labels'' v md) j))"

lemma applyRoute_put:
  "applyRoute d l = l\<lparr>un_Object := put_labels (Option.bind (jfield ''metadata'' (un_Object d)) (jfield ''labels''))
     (put_spec (jfield ''spec'' (un_Object d)) (un_Object l))\<rparr>"
  by (simp add: applyRoute_def put_labels_def put_spec_def Let_def)

lemma put_spec_again: "put_spec sp (put_labels lb (put_spec sp j)) = put_labels lb (put_spec sp j)"
  by (cases sp; cases lb) (simp_all add: put_spec_def put_labels_def jset_again jset_below [OF metadata_below_spec] split: option.split)

lemma put_labels_again: "put_labels lb (put_labels lb j) = put_labels lb j"
proof (cases "lb = None \<or> jfield ''metadata'' j = None")
  case False
  then obtain v md where "lb = Some v" "jfield ''metadata'' j = Some md" by auto
  then show ?thesis by (cases j) (simp_all add: put_labels_def map_laws jset_again map_set_again)
qed (cases lb; auto simp: put_labels_def)

lemma applyRoute_idem: "applyRoute d ((applyRoute d l)\<lparr>un_Owner := o'\<rparr>) = (applyRoute d l)\<lparr>un_Owner := o'\<rparr>"
  by (simp add: applyRoute_put put_spec_again put_labels_again)

lemma replays_reconcileRoute:
  assumes E: "steady E look" and K: "obj_key (route_obj j) \<in> F"
  shows "replays look L (ready look (om_UID owner) F c) {obj_key (route_obj j)} {obj_key (route_obj j)} (\<lambda>_ _. True) (reconcileRoute E owner j) (reconcileRoute E owner j)"
proof -
  let ?u = "om_UID owner"
  let ?d = "\<lparr>un_Kind = kindRoute, un_Owner = Some ?u, un_Object = j\<rparr>"
  let ?g = "\<lambda>l. case l of OUnstructured l' \<Rightarrow> OUnstructured (applyRoute ?d l') | _ \<Rightarrow> l"
  have scr: "api_SetControllerReference E owner (route_obj j) = Inr (OUnstructured ?d)"
    using scr_answers [OF steadyD(1) [OF E], of owner "route_obj j"] by (simp add: route_obj_def claimable_def obj_owner_def)
  have d: "OUnstructured ?d = set_owner ?u (route_obj j)" by (simp add: route_obj_def)
  have f: "mutateRoute E owner (OUnstructured ?d) = (\<lambda>l. api_SetControllerReference E owner (?g l))"
    by (rule ext) (simp add: mutateRoute_def split: kobj.split)
  have "replays look L (ready look ?u F c) {obj_key (OUnstructured ?d)} {obj_key (OUnstructured ?d)} (\<lambda>_ _. True)
     (api_CreateOrUpdate E (OUnstructured ?d) (\<lambda>l. api_SetControllerReference E owner (?g l)))
     (api_CreateOrUpdate E (OUnstructured ?d) (\<lambda>l. api_SetControllerReference E owner (?g l)))"
  proof (rule replays_owned [OF E])
    show "?g (set_owner ?u (?g l)) = set_owner ?u (?g l)" for l by (cases l) (simp_all add: applyRoute_idem)
    show "obj_owner (?g l) = obj_owner l" for l by (cases l) simp_all
    show "obj_key (?g l) = obj_key l" for l by (cases l) simp_all
    show "claimable ?u (OUnstructured ?d)" by (simp add: claimable_def obj_owner_def)
    show "obj_key (OUnstructured ?d) \<in> F" using K by (simp only: d key_set_owner)
  qed
  from replays_wrap [OF this] have "replays look L (ready look ?u F c) {obj_key (route_obj j)} {obj_key (route_obj j)} (\<lambda>_ _. True)
     (wrap_err ''reconciling Route'' (api_CreateOrUpdate E (OUnstructured ?d) (mutateRoute E owner (OUnstructured ?d))))
     (wrap_err ''reconciling Route'' (api_CreateOrUpdate E (OUnstructured ?d) (mutateRoute E owner (OUnstructured ?d))))"
    unfolding f by (simp only: d key_set_owner)
  then show ?thesis by (simp add: reconcileRoute_def scr)
qed

section \<open>The SCC binding\<close>

lemma get_present:
  assumes "steady E look" "look s (k, ns, n) = Some x"
  obtains s' where "api_Get E k ns n s = (Inr x, s')" "look s' = look s"
  using up_lawD(1) [OF steadyD(3) [OF assms(1)] assms(2)] get_look [OF steadyD(2) [OF assms(1)], of k ns n s]
  by (cases "api_Get E k ns n s") auto

lemma get_absent:
  assumes "steady E look" "look s (k, ns, n) = None"
  obtains e s' where "api_Get E k ns n s = (Inl e, s')" "IsNotFound e" "look s' = look s"
  using up_lawD(2) [OF steadyD(3) [OF assms(1)] assms(2)] get_look [OF steadyD(2) [OF assms(1)], of k ns n s]
  by (cases "api_Get E k ns n s") auto

text \<open>
  Objects that are made once: the step leaves an object at its key and touches no other, and
  does nothing when there is one.
\<close>

lemma replays_once:
  assumes ok: "succeeds (ready look u F c) m"
    and made: "valid (\<lambda>_. True) m (\<lambda>_ s. look s K \<noteq> None)"
    and others: "\<And>K' v. K' \<noteq> K \<Longrightarrow> keeps (\<lambda>s. look s K' = v) m"
    and found: "\<And>t. look t K \<noteq> None \<Longrightarrow> \<exists>x t'. m t = (Inr x, t') \<and> look t' = look t"
  shows "replays look L (ready look u F c) {K} {K} (\<lambda>_ _. True) m m"
proof (rule replaysI)
  fix s assume I: "ready look u F c s"
  obtain x s' where m: "m s = (Inr x, s')" "ready look u F c s'" using succeedsD [OF ok I] by blast
  have K: "look s' K \<noteq> None" using validD [OF made _ m(1)] by simp
  have "\<forall>K'. K' \<notin> {K} \<longrightarrow> look s' K' = look s K'" using keepsD [OF others _ m(1)] by simp
  moreover have "\<exists>x' t'. m t = (Inr x', t') \<and> look t' = L" if "\<forall>K' \<in> {K}. look s' K' = L K'" "look t = L" for t
    using found [of t] K that by auto
  ultimately show "\<exists>x s'. m s = (Inr x, s') \<and> ready look u F c s' \<and> (\<forall>K'. K' \<notin> {K} \<longrightarrow> look s' K' = look s K') \<and> (\<exists>x'. True)
       \<and> ((\<forall>K' \<in> {K}. look s' K' = L K') \<longrightarrow> (\<forall>t. look t = L \<longrightarrow> (\<exists>x' t'. m t = (Inr x', t') \<and> look t' = L \<and> True)))"
    using m by (intro exI [of _ x] exI [of _ s']) auto
qed

lemma bindSCC_made:
  assumes E: "steady E look" and on: "env_IsOpenShift E" "om_Namespace owner = DefaultNamespace"
  shows "valid (\<lambda>_. True) (bindSCC E owner) (\<lambda>_ s. look s (scc_key (om_Namespace owner) (om_Name owner)) \<noteq> None)"
proof (rule validI)
  let ?K = "scc_key (om_Namespace owner) (om_Name owner)" and ?n = "''kea-dhcp-scc-'' @ ServiceAccountName (om_Name owner)"
  let ?rb = "ORoleBinding (scc_binding (om_Namespace owner) (om_Name owner))"
  have rb: "obj_key ?rb = ?K" by (simp add: obj_key_def scc_binding_def scc_key_def object_meta_def Let_def)
  fix s u s' assume m: "bindSCC E owner s = (Inr u, s')"
  show "look s' ?K \<noteq> None"
  proof (cases "look s (KRoleBinding, om_Namespace owner, ?n)")
    case None
    obtain e s1 where g: "api_Get E KRoleBinding (om_Namespace owner) ?n s = (Inl e, s1)" "look s1 = look s"
      by (rule get_absent [OF E, OF None]) blast
    then obtain s2 where cr: "api_Create E ?rb s1 = (Inr (), s2)"
      using steadyD(6) [OF E, of s1 ?rb] None rb by (cases "api_Create E ?rb s1") (auto simp: scc_key_def)
    have "s' = s2" using m on g(1) cr by (simp add: bindSCC_def ensureSCCRoleBinding_def ignore_exists_def seq_def attempt_def ret_def)
    then show ?thesis
      using store_lawD(3) [OF steadyD(2) [OF E], unfolded write_law_def, THEN conjunct1, rule_format, OF cr] rb by auto
  next
    case (Some x)
    obtain s1 where "api_Get E KRoleBinding (om_Namespace owner) ?n s = (Inr x, s1)" "look s1 = look s"
      by (rule get_present [OF E, OF Some])
    with m on Some show ?thesis by (simp add: bindSCC_def ensureSCCRoleBinding_def seq_def attempt_def ret_def scc_key_def)
  qed
qed

lemma replays_bindSCC:
  assumes E: "steady E look"
  shows "replays look L (ready look u F c) {scc_key (om_Namespace owner) (om_Name owner)} {scc_key (om_Namespace owner) (om_Name owner)}
     (\<lambda>_ _. True) (bindSCC E owner) (bindSCC E owner)"
proof (cases "env_IsOpenShift E \<and> om_Namespace owner = DefaultNamespace")
  case True
  let ?K = "scc_key (om_Namespace owner) (om_Name owner)"
  show ?thesis
  proof (rule replays_once [OF succeeds_bindSCC [OF steadyD(1) [OF E]] bindSCC_made [OF E]])
    show "env_IsOpenShift E" "om_Namespace owner = DefaultNamespace" using True by simp_all
    show "keeps (\<lambda>s. look s K' = v) (bindSCC E owner)" if "K' \<noteq> ?K" for K' v
      using that by (intro keeps_bindSCC [OF env_keeps_look [OF steadyD(2) [OF E]]]) auto
    show "\<exists>x t'. bindSCC E owner t = (Inr x, t') \<and> look t' = look t" if ex: "look t ?K \<noteq> None" for t
    proof -
      obtain x where "look t (KRoleBinding, om_Namespace owner, ''kea-dhcp-scc-'' @ ServiceAccountName (om_Name owner)) = Some x"
        using ex by (auto simp: scc_key_def)
      then show ?thesis
        by (rule get_present [OF E]) (use True in \<open>simp add: bindSCC_def ensureSCCRoleBinding_def seq_def attempt_def ret_def\<close>)
    qed
  qed
next
  case False
  then show ?thesis unfolding bindSCC_def by (simp only: if_False replays_ret simp_thms)
qed

section \<open>Discovery of the Stork server\<close>

text \<open>
  Without a reference the sidecar's server is the first one listed in the namespace. The order
  of a list is not fixed, so the choice is stable only when there is at most one.
\<close>

definition single_stork :: "(okey \<Rightarrow> kobj option) \<Rightarrow> string \<Rightarrow> bool" where
  "single_stork L ns = (\<forall>n n' x x'. L (KStorkServer, ns, n) = Some x \<longrightarrow> L (KStorkServer, ns, n') = Some x' \<longrightarrow> n = n')"

definition stork_stable :: "(okey \<Rightarrow> kobj option) \<Rightarrow> string \<Rightarrow> StorkAgentConfig option \<Rightarrow> bool" where
  "stork_stable L ns cfg =
     (case cfg of None \<Rightarrow> True
      | Some c \<Rightarrow> sa_Enabled c \<and> sa_ServerURL c = '''' \<and> sa_StorkServerRef c = None \<longrightarrow> single_stork L ns)"

definition stork_reads :: "okey set" where
  "stork_reads = {K. fst K = KStorkServer \<or> fst K = KSecret}"

lemma distinct_single: "distinct xs \<Longrightarrow> set xs \<subseteq> {z} \<Longrightarrow> xs = [] \<or> xs = [z]"
  by (cases xs; cases "tl xs") auto

lemma replays_list_single:
  assumes E: "steady E look" and single: "single_stork L ns"
  shows "replays look L (ready look u F c) stork_reads {} (=) (attempt (api_List E KStorkServer ns)) (attempt (api_List E KStorkServer ns))"
proof (rule replays_read, blast intro: ready_same)
  note lst = list_lawE [OF steadyD(2,4) [OF E]]
  have ok: "\<exists>x s'. attempt (api_List E KStorkServer ns) s = (Inr x, s') \<and> look s' = look s" for s
    by (rule lst [of KStorkServer ns s]) (simp add: attempt_def)
  show "\<exists>x s'. attempt (api_List E KStorkServer ns) s = (Inr x, s') \<and> look s' = look s"
    "\<exists>x s'. attempt (api_List E KStorkServer ns) s = (Inr x, s') \<and> look s' = look s" for s by (rule ok)+
  fix s t x s' x' t'
  assume m: "attempt (api_List E KStorkServer ns) s = (Inr x, s')" "attempt (api_List E KStorkServer ns) t = (Inr x', t')"
    and eq: "\<forall>K \<in> stork_reads. look s K = look t K" and t: "look t = L"
  obtain xs s1 where xs: "api_List E KStorkServer ns s = (Inr xs, s1)" "distinct xs" "\<And>y. y \<in> set xs \<longleftrightarrow> (\<exists>n. look s (KStorkServer, ns, n) = Some y)"
    by (rule lst [of KStorkServer ns s]) blast
  obtain ys t1 where ys: "api_List E KStorkServer ns t = (Inr ys, t1)" "distinct ys" "\<And>y. y \<in> set ys \<longleftrightarrow> (\<exists>n. look t (KStorkServer, ns, n) = Some y)"
    by (rule lst [of KStorkServer ns t]) blast
  have same: "look s (KStorkServer, ns, n) = L (KStorkServer, ns, n)" for n using eq t by (simp add: stork_reads_def)
  have eqs: "set ys = set xs" using xs(3) ys(3) same t by auto
  have "xs = ys"
  proof (cases xs)
    case Nil
    with eqs show ?thesis by simp
  next
    case (Cons z zs)
    obtain n where n: "L (KStorkServer, ns, n) = Some z" using xs(3) [of z] Cons same by auto
    have "y = z" if y: "y \<in> set xs" for y
    proof -
      obtain n' where n': "L (KStorkServer, ns, n') = Some y" using xs(3) [of y] y same by auto
      with n single [unfolded single_stork_def] have "n = n'" by blast
      with n n' show ?thesis by simp
    qed
    then have "set xs \<subseteq> {z}" by blast
    with distinct_single [OF xs(2)] distinct_single [OF ys(2)] eqs Cons show ?thesis by auto
  qed
  then show "x = x'" using m xs(1) ys(1) by (simp add: attempt_def)
qed simp

lemma replays_resolveStorkServer:
  assumes E: "steady E look" and single: "ref = None \<Longrightarrow> single_stork L ns"
  shows "replays look L (ready look u F c) stork_reads {} (=) (resolveStorkServer E ns ref) (resolveStorkServer E ns ref)"
proof (cases ref)
  case None
  have "replays look L (ready look u F c) (stork_reads \<union> {}) ({} \<union> {}) (=)
     (seq (attempt (api_List E KStorkServer ns)) f) (seq (attempt (api_List E KStorkServer ns)) f)"
    if "\<And>r. replays look L (ready look u F c) {} {} (=) (f r) (f r)" for f :: "goerror + kobj list \<Rightarrow> ('a, StorkServerInfo option) op"
    by (rule replays_seq [OF replays_list_single [OF E single [OF None]]]) (use that in auto)
  with None show ?thesis unfolding resolveStorkServer_def by (auto simp: replays_ret split: sum.split list.split)
next
  case (Some r)
  have "replays look L (ready look u F c) ({(KStorkServer, ns, lor_Name r)} \<union> {}) ({} \<union> {}) (=) (resolveStorkServer E ns ref) (resolveStorkServer E ns ref)"
    unfolding resolveStorkServer_def Some option.case
    by (rule replays_seq [OF replays_get_as [OF E]]) (auto simp: same_read_def replays_ret split: sum.splits)
  then show ?thesis by (rule replays_mono) (auto simp: stork_reads_def)
qed

lemma replays_secret:
  assumes E: "steady E look"
  shows "replays look L (ready look u F c) stork_reads {} (=)
     (seq (attempt (resolveSecretValue E ns (Some ref) key)) (\<lambda>r. ret (case r of Inl _ \<Rightarrow> d | Inr t \<Rightarrow> t)))
     (seq (attempt (resolveSecretValue E ns (Some ref) key)) (\<lambda>r. ret (case r of Inl _ \<Rightarrow> d | Inr t \<Rightarrow> t)))" (is "replays _ _ _ _ _ _ ?m ?m")
proof (rule replays_read, blast intro: ready_same)
  let ?v = "\<lambda>x. case Option.bind x as_secret of None \<Rightarrow> d | Some sec \<Rightarrow> (case map_get (sec_Data sec) key of None \<Rightarrow> d | Some val \<Rightarrow> val)"
  have val: "\<exists>s'. ?m s = (Inr (?v (look s (KSecret, ns, lor_Name ref))), s') \<and> look s' = look s" for s
    using get_as_reads [OF E, of KSecret as_secret ns "lor_Name ref" s]
    by (cases "look s (KSecret, ns, lor_Name ref)"; cases "Option.bind (look s (KSecret, ns, lor_Name ref)) as_secret")
      (auto simp: resolveSecretValue_def seq_def attempt_def ret_def fail_def split: option.split option.split_asm)
  then show "\<exists>x s'. ?m s = (Inr x, s') \<and> look s' = look s" "\<exists>x s'. ?m s = (Inr x, s') \<and> look s' = look s" for s by blast+
  fix s t x s' x' t'
  assume "?m s = (Inr x, s')" "?m t = (Inr x', t')" "\<forall>K \<in> stork_reads. look s K = look t K"
  with val [of s] val [of t] show "x = x'" by (simp add: stork_reads_def)
qed simp

lemma replays_lift: "replays look L I A W (=) (lift (Inr x)) (lift (Inr x))"
  by (simp add: replays_def lift_def)

lemma ResolveStorkParams_Some: "\<exists>p. ResolveStorkParams (Some c) t = Inr p"
  by (simp add: ResolveStorkParams_def)

lemma replays_resolveStorkAgent:
  assumes E: "steady E look" and st: "stork_stable L ns cfg"
  shows "replays look L (ready look u F c) stork_reads {} (=) (resolveStorkAgent E ns cfg) (resolveStorkAgent E ns cfg)"
proof (cases "\<exists>a. cfg = Some a \<and> sa_Enabled a")
  case True
  then obtain a where a: "cfg = Some a" "sa_Enabled a" by blast
  note single = st [unfolded stork_stable_def a(1) option.case]
  have ref: "replays look L (ready look u F c) stork_reads {} (=)
      (if sa_ServerURL a = '''' then seq (resolveStorkServer E ns (sa_StorkServerRef a)) f else ret a)
      (if sa_ServerURL a = '''' then seq (resolveStorkServer E ns (sa_StorkServerRef a)) f else ret a)"
    if f: "\<And>i. replays look L (ready look u F c) {} {} (=) (f i) (f i)" for f
    using replays_seq [OF replays_resolveStorkServer [OF E], of "sa_StorkServerRef a" L ns u F c "{}" "{}" "(=)" f f] f single a(2)
    by (auto simp: replays_ret)
  have tok: "replays look L (ready look u F c) stork_reads {} (=)
      (case r of None \<Rightarrow> ret '''' | Some ref \<Rightarrow> seq (attempt (resolveSecretValue E ns (Some ref) ''token'')) (\<lambda>r. ret (case r of Inl _ \<Rightarrow> '''' | Inr t \<Rightarrow> t)))
      (case r of None \<Rightarrow> ret '''' | Some ref \<Rightarrow> seq (attempt (resolveSecretValue E ns (Some ref) ''token'')) (\<lambda>r. ret (case r of Inl _ \<Rightarrow> '''' | Inr t \<Rightarrow> t)))" for r
    by (cases r) (simp_all add: replays_ret replays_secret [OF E])
  have par: "replays look L (ready look u F c) {} {} (=) (wrap_err w (lift (ResolveStorkParams (Some b) t))) (wrap_err w (lift (ResolveStorkParams (Some b) t)))" for w b t
    using ResolveStorkParams_Some [of b t] by (auto intro!: replays_wrap simp: replays_lift)
  have rest: "replays look L (ready look u F c) (stork_reads \<union> {}) ({} \<union> {}) (=) (rest b) (rest b)"
    if "rest = (\<lambda>b. seq (case sa_ServerTokenSecretRef b of None \<Rightarrow> ret ''''
        | Some ref \<Rightarrow> seq (attempt (resolveSecretValue E ns (Some ref) ''token'')) (\<lambda>r. ret (case r of Inl _ \<Rightarrow> '''' | Inr t \<Rightarrow> t)))
        (\<lambda>t. wrap_err ''resolving stork agent params'' (lift (ResolveStorkParams (Some b) t))))" for rest b
    unfolding that by (rule replays_seq [OF tok]) (simp_all add: par)
  have "replays look L (ready look u F c) (stork_reads \<union> (stork_reads \<union> {})) ({} \<union> ({} \<union> {})) (=) (resolveStorkAgent E ns cfg) (resolveStorkAgent E ns cfg)"
    unfolding resolveStorkAgent_def a(1) option.case if_not_P [OF not_not [THEN iffD2, OF a(2)]]
  proof (rule replays_seq [OF ref])
    show "replays look L (ready look u F c) {} {} (=)
       (case i of None \<Rightarrow> ret a | Some i \<Rightarrow> ret (a\<lparr>sa_ServerURL := ssi_ServerURL i, sa_ServerTokenSecretRef := Some \<lparr>lor_Name = ssi_TokenSecretName i\<rparr>\<rparr>))
       (case i of None \<Rightarrow> ret a | Some i \<Rightarrow> ret (a\<lparr>sa_ServerURL := ssi_ServerURL i, sa_ServerTokenSecretRef := Some \<lparr>lor_Name = ssi_TokenSecretName i\<rparr>\<rparr>))" for i
      by (simp add: replays_ret split: option.split)
    show "\<And>x x'. x = x' \<Longrightarrow> replays look L (ready look u F c) (stork_reads \<union> {}) ({} \<union> {}) (=)
       (seq (case sa_ServerTokenSecretRef x of None \<Rightarrow> ret ''''
        | Some ref \<Rightarrow> seq (attempt (resolveSecretValue E ns (Some ref) ''token'')) (\<lambda>r. ret (case r of Inl _ \<Rightarrow> '''' | Inr t \<Rightarrow> t)))
        (\<lambda>t. wrap_err ''resolving stork agent params'' (lift (ResolveStorkParams (Some x) t))))
       (seq (case sa_ServerTokenSecretRef x' of None \<Rightarrow> ret ''''
        | Some ref \<Rightarrow> seq (attempt (resolveSecretValue E ns (Some ref) ''token'')) (\<lambda>r. ret (case r of Inl _ \<Rightarrow> '''' | Inr t \<Rightarrow> t)))
        (\<lambda>t. wrap_err ''resolving stork agent params'' (lift (ResolveStorkParams (Some x') t))))"
      by (simp only: rest [OF refl])
  qed simp
  then show ?thesis by simp
next
  case False
  then show ?thesis by (cases cfg) (auto simp: resolveStorkAgent_def replays_ret)
qed

section \<open>Shared steps\<close>

lemma replays_reconcileControlService:
  assumes "steady E look" "(KService, om_Namespace meta, ServiceName (om_Name meta) co) \<in> F"
  defines "K \<equiv> (KService, om_Namespace meta, ServiceName (om_Name meta) co)"
  shows "replays look L (ready look (om_UID meta) F c) {K} {K} (\<lambda>_ _. True) (reconcileControlService E meta sock co) (reconcileControlService E meta sock co)"
  unfolding reconcileControlService_def K_def
  using replays_reconcile_as [OF assms(1), of "OService (BuildService (service_params meta co (control_port sock) ''TCP''))" F L meta c] assms(2)
  by (auto intro!: replays_option replays_if simp: replays_ret)

lemma replays_reconcileStorkMonitoring:
  assumes E: "steady E look" and F: "stork_keys meta co \<subseteq> F"
  shows "replays look L (ready look (om_UID meta) F c) (stork_keys meta co) (stork_keys meta co) (\<lambda>_ _. True)
     (reconcileStorkMonitoring E meta co agent) (reconcileStorkMonitoring E meta co agent)"
proof (cases agent)
  case None
  then show ?thesis by (simp add: reconcileStorkMonitoring_def replays_ret)
next
  case (Some a)
  let ?R = "replays look L (ready look (om_UID meta) F c)"
  let ?K1 = "(KPodMonitor, om_Namespace meta, PodMonitorName (om_Name meta) co)"
    and ?K2 = "(KService, om_Namespace meta, StorkMetricsServiceName (om_Name meta) co)"
    and ?K3 = "(KUnstructured kindRoute, om_Namespace meta, StorkRouteName (om_Name meta) co)"
  let ?pm = "OPodMonitor (BuildPodMonitor (om_Namespace meta) (om_Name meta) co)"
  let ?sp = "\<lparr>smp_Namespace = om_Namespace meta, smp_CRName = om_Name meta, smp_Component = co,
       smp_AgentPort = ssp_Port a, smp_PrometheusPort = ssp_PrometheusPort a\<rparr>"
  let ?rp = "\<lparr>srp_Namespace = om_Namespace meta, srp_CRName = om_Name meta, srp_Component = co, srp_PrometheusPort = ssp_PrometheusPort a\<rparr>"
  have 1: "?R {?K1} {?K1} (both_ok (\<lambda>_ _. True)) (attempt (reconcileResource E meta ?pm)) (attempt (reconcileResource E meta ?pm))"
    using replays_reconcileResource [OF E, of ?pm F L meta c] F by (intro replays_attempt) (simp add: stork_keys_def)
  have 2: "?R {?K2} {?K2} (\<lambda>_ _. True) (reconcile_as w E meta (OService (BuildStorkMetricsService ?sp))) (reconcile_as w E meta (OService (BuildStorkMetricsService ?sp)))" for w
    using replays_reconcile_as [OF E, of "OService (BuildStorkMetricsService ?sp)" F L meta c w] F by (simp add: stork_keys_def)
  have "?R {?K3} {?K3} (both_ok (\<lambda>_ _. True)) (attempt (reconcileRoute E meta (BuildStorkMetricsRoute ?rp))) (attempt (reconcileRoute E meta (BuildStorkMetricsRoute ?rp)))"
    using replays_reconcileRoute [OF E, of "BuildStorkMetricsRoute ?rp" F L meta c] F by (intro replays_attempt) (simp add: stork_keys_def)
  then have 3: "?R ({?K3} \<union> {}) ({?K3} \<union> {}) (\<lambda>_ _. True)
      (if env_IsOpenShift E then seq (attempt (reconcileRoute E meta (BuildStorkMetricsRoute ?rp))) (\<lambda>_. ret ()) else ret ())
      (if env_IsOpenShift E then seq (attempt (reconcileRoute E meta (BuildStorkMetricsRoute ?rp))) (\<lambda>_. ret ()) else ret ())"
    by (intro replays_if replays_seq) (simp_all add: replays_ret)
  have "?R ({?K1} \<union> ({?K2} \<union> ({?K3} \<union> {}))) ({?K1} \<union> ({?K2} \<union> ({?K3} \<union> {}))) (\<lambda>_ _. True)
      (reconcileStorkMonitoring E meta co agent) (reconcileStorkMonitoring E meta co agent)"
    unfolding reconcileStorkMonitoring_def Some option.case
    by (rule replays_seq [OF 1], rule replays_seq [OF 2], rule 3) simp_all
  then show ?thesis by (rule replays_mono) (auto simp: stork_keys_def)
qed

section \<open>Status\<close>

text \<open>A condition that is there with the same values is written without effect.\<close>

lemma setCondition_noop:
  "find_condition cs t = Some c \<Longrightarrow> cond_Status c = st \<Longrightarrow> cond_Reason c = r \<Longrightarrow> cond_Message c = m \<Longrightarrow> setCondition now cs t st r m = cs"
  by (induction cs) auto

definition config_valid :: "string \<Rightarrow> 'a ComponentStatus_scheme \<Rightarrow> 'a ComponentStatus_scheme" where
  "config_valid now st = st\<lparr>st_Conditions := setCondition now (st_Conditions st) ConditionTypeConfigValid ''True'' ''ConfigRendered''
     ''Configuration rendered successfully''\<rparr>"

lemma find_ready_conditions:
  "find_condition (ready_conditions n1 n2 a b cs) ConditionTypeConfigValid = find_condition cs ConditionTypeConfigValid"
  by (simp add: ready_conditions_def find_setCondition condition_defs)

lemma config_valid_again:
  "config_valid now (set_ready_status n1 n2 a b (g (config_valid n st))) = set_ready_status n1 n2 a b (g (config_valid n st))"
  if "\<And>st. st_Conditions (g st) = st_Conditions st"
proof -
  let ?cs = "ready_conditions n1 n2 a b (st_Conditions (g (config_valid n st)))"
  have "setCondition now ?cs ConditionTypeConfigValid ''True'' ''ConfigRendered'' ''Configuration rendered successfully'' = ?cs"
    by (rule setCondition_noop, simp add: find_ready_conditions that config_valid_def find_setCondition) simp_all
  then show ?thesis by (simp add: config_valid_def [of now] set_ready_status_def)
qed

lemma replays_markConfigValid:
  fixes st st' :: "'b ComponentStatus_scheme"
  assumes "steady E look"
  shows "replays look L (ready look u F c) {} {} (\<lambda>x x'. (\<exists>n. x = config_valid n st) \<and> (\<exists>n. x' = config_valid n st'))
     (markConfigValid E st) (markConfigValid E st')"
proof -
  have m: "markConfigValid E st s = (case env_Now E s of (Inl e, s1) \<Rightarrow> (Inl e, s1) | (Inr n, s1) \<Rightarrow> (Inr (config_valid n st), s1))"
    for st :: "'b ComponentStatus_scheme" and s
    by (simp add: markConfigValid_def setConditionNow_def config_valid_def seq_def ret_def split: prod.split sum.split)
  have ok: "\<exists>n s'. markConfigValid E st s = (Inr (config_valid n st), s') \<and> look s' = look s" for st :: "'b ComponentStatus_scheme" and s
    using look_reads(2) [OF assms, of s] by (auto simp: m)
  show ?thesis
  proof (rule replaysI)
    fix s assume I: "ready look u F c s"
    obtain n s' where s': "markConfigValid E st s = (Inr (config_valid n st), s')" "look s' = look s" using ok by blast
    then show "\<exists>x s'. markConfigValid E st s = (Inr x, s') \<and> ready look u F c s' \<and> (\<forall>K. K \<notin> {} \<longrightarrow> look s' K = look s K)
         \<and> (\<exists>x'. (\<exists>n. x = config_valid n st) \<and> (\<exists>n. x' = config_valid n st'))
         \<and> ((\<forall>K \<in> {}. look s' K = L K) \<longrightarrow> (\<forall>t. look t = L \<longrightarrow> (\<exists>x' t'. markConfigValid E st' t = (Inr x', t') \<and> look t' = L
              \<and> (\<exists>n. x = config_valid n st) \<and> (\<exists>n. x' = config_valid n st'))))"
      using ready_same [OF s'(2) I] ok [of st'] by (intro exI [of _ "config_valid n st"] exI [of _ s']) (auto, metis)
  qed
qed

lemma replays_setReadyStatus:
  fixes st st' :: "'b ComponentStatus_scheme"
  assumes "steady E look"
  shows "replays look L (ready look u F c) {} {}
     (\<lambda>x x'. (\<exists>n1 n2. x = set_ready_status n1 n2 a b st) \<and> (\<exists>n1 n2. x' = set_ready_status n1 n2 a b st'))
     (setReadyStatus E a b st) (setReadyStatus E a b st')"
  unfolding setReadyStatus_def
  by (rule replays_mono [OF replays_seq [OF replays_Now [OF assms, where A = "{}" and W = "{}"]
        replays_seq [OF replays_Now [OF assms, where A = "{}" and W = "{}"] replays_ret [where A = "{}" and W = "{}"
          and V = "\<lambda>x x'. (\<exists>n1 n2. x = set_ready_status n1 n2 a b st) \<and> (\<exists>n1 n2. x' = set_ready_status n1 n2 a b st')"]]]])
    auto

text \<open>The status write is replayed when the second status is the one that was stored.\<close>

lemma replays_StatusUpdate:
  assumes E: "steady E look" and key: "obj_key x = c" "obj_key x' = c"
    and settled: "\<And>l. L c = Some (set_status l x) \<Longrightarrow> obj_key l = c \<Longrightarrow> set_status (set_status l x) x' = set_status l x"
  shows "replays look L (ready look u F c) {c} {c} (\<lambda>_ _. True) (api_StatusUpdate E x) (api_StatusUpdate E x')"
proof (rule replaysI)
  fix s assume I: "ready look u F c s"
  obtain s' where m: "api_StatusUpdate E x s = (Inr (), s')" "ready look u F c s'"
    using succeedsD [OF succeeds_status [OF steadyD(1) [OF E] key(1)] I] by auto
  obtain l where l: "look s c = Some l" "look s' = (look s)(c \<mapsto> set_status l x)"
    by (rule status_cases [OF steadyD(2) [OF E] m(1)]) (auto simp: key)
  have kl: "obj_key l = c" by (rule store_lawD(4) [OF steadyD(2) [OF E], OF l(1)])
  have "\<exists>v' t'. api_StatusUpdate E x' t = (Inr v', t') \<and> look t' = L" if A: "\<forall>K \<in> {c}. look s' K = L K" and t: "look t = L" for t
  proof -
    have Lc: "L c = Some (set_status l x)" using A l(2) by simp
    then have "fst (api_StatusUpdate E x' t) = Inr ()" using up_lawD(4) [OF steadyD(3) [OF E], of t x'] t key(2) by simp
    then obtain t' where t': "api_StatusUpdate E x' t = (Inr (), t')" by (cases "api_StatusUpdate E x' t") auto
    obtain k where "look t c = Some k" "look t' = (look t)(c \<mapsto> set_status k x')"
      by (rule status_cases [OF steadyD(2) [OF E] t']) (auto simp: key)
    with Lc t settled [OF Lc kl] have "look t' = L" by (simp add: fun_upd_idem)
    with t' show ?thesis by blast
  qed
  with m l(2) show "\<exists>v s'. api_StatusUpdate E x s = (Inr v, s') \<and> ready look u F c s' \<and> (\<forall>K. K \<notin> {c} \<longrightarrow> look s' K = look s K) \<and> (\<exists>v'. True)
       \<and> ((\<forall>K \<in> {c}. look s' K = L K) \<longrightarrow> (\<forall>t. look t = L \<longrightarrow> (\<exists>v' t'. api_StatusUpdate E x' t = (Inr v', t') \<and> look t' = L \<and> True)))"
    by (intro exI [of _ "()"] exI [of _ s']) auto
qed

lemma replays_writeReadyStatus:
  fixes st st' :: "'b ComponentStatus_scheme"
  assumes E: "steady E look" and key: "\<And>st. obj_key (wr st) = c"
    and settled: "\<And>l n1 n2 m1 m2. L c = Some (set_status l (wr (set_ready_status n1 n2 a b st))) \<Longrightarrow> obj_key l = c \<Longrightarrow>
      set_ready_status m1 m2 a b st' = set_ready_status n1 n2 a b st"
  shows "replays look L (ready look u F c) {c} {c} (\<lambda>_ _. True) (writeReadyStatus E wr a b st) (writeReadyStatus E wr a b st')"
proof -
  have upd: "replays look L (ready look u F c) {c} {c} (\<lambda>_ _. True) (api_StatusUpdate E (wr x)) (api_StatusUpdate E (wr x'))"
    if "(\<exists>n1 n2. x = set_ready_status n1 n2 a b st) \<and> (\<exists>n1 n2. x' = set_ready_status n1 n2 a b st')" for x x'
  proof (rule replays_StatusUpdate [OF E key key])
    fix l assume L: "L c = Some (set_status l (wr x))" and l: "obj_key l = c"
    from that obtain n1 n2 m1 m2 where "x = set_ready_status n1 n2 a b st" "x' = set_ready_status m1 m2 a b st'" by blast
    with settled [of l n1 n2 m1 m2] L l have "x' = x" by simp
    moreover have "Api.kind_of l = Api.kind_of (wr x)" by (rule kind_of_same_key) (simp add: key l)
    ultimately show "set_status (set_status l (wr x)) (wr x') = set_status l (wr x)" by (simp add: set_status_twice)
  qed
  have "replays look L (ready look u F c) ({} \<union> ({c} \<union> {})) ({} \<union> ({c} \<union> {})) (\<lambda>_ _. True) (writeReadyStatus E wr a b st) (writeReadyStatus E wr a b st')"
    unfolding writeReadyStatus_def
    by (rule replays_seq [OF replays_setReadyStatus [OF E]], rule replays_seq [OF replays_wrap [OF upd]]) (simp_all add: replays_ret)
  then show ?thesis by simp
qed

end
