(* ===== verification/UmbrellaReplay.thy ===== *)
theory UmbrellaReplay
  imports KeaServerController Replay
begin

text \<open>
  The umbrella controller run twice: applying the children again changes nothing, deleting
  the unconfigured ones again finds nothing, and the aggregated status is the stored one.
\<close>

section \<open>Reading a child\<close>

lemma get_as_Some: "get_as E k Some ns n = api_Get E k ns n"
  by (rule ext) (simp add: get_as_def seq_def decode_def ret_def split: prod.split sum.split)

lemmas replays_Get = replays_get_as [where sel = Some, unfolded get_as_Some]

lemma replays_any_Get:
  assumes E: "steady E look"
  shows "replays look L (ready look u F c) {} {} (\<lambda>_ _. True) (attempt (api_Get E k ns n)) (attempt (api_Get E k ns n))"
proof (rule replays_read, blast intro: ready_same)
  show "\<exists>x s'. attempt (api_Get E k ns n) s = (Inr x, s') \<and> look s' = look s"
    "\<exists>x s'. attempt (api_Get E k ns n) s = (Inr x, s') \<and> look s' = look s" for s
    using get_as_reads [OF E, of k Some ns n s] unfolding get_as_Some by (auto simp: attempt_def)
qed simp_all

lemma replays_isChildReady:
  assumes "steady E look"
  shows "replays look L (ready look u F c) {(k, ns, n)} {} (=) (isChildReady E ns n k) (isChildReady E ns n k)"
  unfolding isChildReady_def
  by (rule replays_mono [OF replays_seq [OF replays_Get [OF assms] replays_ret [where A = "{}" and W = "{}"]]])
    (auto simp: same_read_def split: sum.splits)

section \<open>A child step again\<close>

text \<open>A child kind whose spec is written idempotently and whose empty object has no owner.\<close>

locale settling_child = child_component k child put
  for k :: okind and child :: "ObjectMeta \<Rightarrow> kobj" and put :: "'sp \<Rightarrow> kobj \<Rightarrow> kobj" +
  assumes put_again: "put sp (set_owner u (put sp x)) = set_owner u (put sp x)"
    and child_owner: "obj_owner (child m) = om_ControllerOwner m"
begin

lemma replays_remove:
  assumes E: "steady E look" and K: "(k, om_Namespace owner, name) \<notin> F" "(k, om_Namespace owner, name) \<noteq> c"
  shows "replays look L (ready look (om_UID owner) F c) {(k, om_Namespace owner, name)} {(k, om_Namespace owner, name)} (\<lambda>_ _. True)
     (reconcileChild E owner k name None child put) (reconcileChild E owner k name None child put)"
proof -
  let ?K = "(k, om_Namespace owner, name)" and ?m = "reconcileChild E owner k name None child put"
  have gone: "\<exists>t'. ?m t = (Inr (), t') \<and> look t' = look t" if "look t ?K = None" for t
    by (rule get_absent [OF E, OF that]) (simp add: reconcileChild_def seq_def attempt_def ret_def)
  have run: "\<exists>s'. ?m s = (Inr (), s') \<and> look s' = (look s)(?K := None)" for s
  proof (cases "look s ?K")
    case (Some x)
    note kx = store_lawD(4) [OF steadyD(2) [OF E], OF Some]
    obtain s1 where s1: "api_Get E k (om_Namespace owner) name s = (Inr x, s1)" "look s1 = look s" by (rule get_present [OF E, OF Some])
    then obtain s2 where s2: "api_Delete E x s1 = (Inr (), s2)"
      using steadyD(7) [OF E, of s1 x] Some kx by (cases "api_Delete E x s1") auto
    have "look s2 = (look s)(?K := None)" by (rule delete_cases [OF steadyD(2) [OF E] s2]) (use s1(2) kx in auto)
    with s1 s2 show ?thesis by (simp add: reconcileChild_def seq_def attempt_def)
  qed (use gone [of s] in \<open>auto simp: fun_upd_idem\<close>)
  show ?thesis
  proof (rule replaysI)
    fix s assume I: "ready look (om_UID owner) F c s"
    obtain s' where s': "?m s = (Inr (), s')" "look s' = (look s)(?K := None)" using run by blast
    have "\<exists>x' t'. ?m t = (Inr x', t') \<and> look t' = L" if "\<forall>K \<in> {?K}. look s' K = L K" "look t = L" for t
      using gone [of t] that s'(2) by auto
    moreover have "ready look (om_UID owner) F c s'" using I K s'(2) by (auto simp: ready_def)
    ultimately show "\<exists>x s'. ?m s = (Inr x, s') \<and> ready look (om_UID owner) F c s' \<and> (\<forall>K'. K' \<notin> {?K} \<longrightarrow> look s' K' = look s K') \<and> (\<exists>x'. True)
         \<and> ((\<forall>K' \<in> {?K}. look s' K' = L K') \<longrightarrow> (\<forall>t. look t = L \<longrightarrow> (\<exists>x' t'. ?m t = (Inr x', t') \<and> look t' = L \<and> True)))"
      using s' by (intro exI [of _ "()"] exI [of _ s']) auto
  qed
qed

lemma replays_child:
  assumes E: "steady E look" and K: "(k, om_Namespace owner, name) \<in> F \<longleftrightarrow> spec \<noteq> None" "(k, om_Namespace owner, name) \<noteq> c"
  shows "replays look L (ready look (om_UID owner) F c) {(k, om_Namespace owner, name)} {(k, om_Namespace owner, name)} (\<lambda>_ _. True)
     (reconcileChild E owner k name spec child put) (reconcileChild E owner k name spec child put)"
proof (cases spec)
  case (Some sp)
  let ?K = "(k, om_Namespace owner, name)"
  let ?c = "child (zero_ObjectMeta\<lparr>om_Name := name, om_Namespace := om_Namespace owner\<rparr>)"
  have c: "obj_key ?c = ?K" "obj_owner ?c = None" by (simp_all add: child_key child_owner zero_ObjectMeta_def)
  have up: "replays look L (ready look (om_UID owner) F c) {?K} {?K} (\<lambda>_ _. True)
     (api_CreateOrUpdate E ?c (\<lambda>l. api_SetControllerReference E owner (put sp l))) (api_CreateOrUpdate E ?c (\<lambda>l. api_SetControllerReference E owner (put sp l)))"
    using replays_owned [OF E, where g = "put sp" and x = ?c and owner = owner and F = F and L = L and c = c] K(1) Some
    by (simp add: put_owner put_key put_again c claimable_def)
  have "replays look L (ready look (om_UID owner) F c) ({} \<union> {?K}) ({} \<union> {?K}) (\<lambda>_ _. True)
     (reconcileChild E owner k name spec child put) (reconcileChild E owner k name spec child put)"
    unfolding reconcileChild_def Some option.case by (rule replays_seq [OF replays_any_Get [OF E] up]) simp
  then show ?thesis by simp
qed (use replays_remove [OF E, of owner name F c L] K in simp)

end

interpretation sch4: settling_child KDhcp4 "\<lambda>m. ODhcp4 (zero_KeaDhcp4Server\<lparr>kd4_ObjectMeta := m\<rparr>)" put_dhcp4
  by unfold_locales (simp_all add: obj_owner_def put_dhcp4_def split: kobj.split)

interpretation sch6: settling_child KDhcp6 "\<lambda>m. ODhcp6 (zero_KeaDhcp6Server\<lparr>kd6_ObjectMeta := m\<rparr>)" put_dhcp6
  by unfold_locales (simp_all add: obj_owner_def put_dhcp6_def split: kobj.split)

interpretation schca: settling_child KControlAgent "\<lambda>m. OControlAgent (zero_KeaControlAgent\<lparr>kca_ObjectMeta := m\<rparr>)" put_control_agent
  by unfold_locales (simp_all add: obj_owner_def put_control_agent_def split: kobj.split)

interpretation schdd: settling_child KDdns "\<lambda>m. ODdns (zero_KeaDhcpDdns\<lparr>kdd_ObjectMeta := m\<rparr>)" put_ddns
  by unfold_locales (simp_all add: obj_owner_def put_ddns_def split: kobj.split)

interpretation schss: settling_child KStorkServer "\<lambda>m. OStorkServer (zero_KeaStorkServer\<lparr>kss_ObjectMeta := m\<rparr>)" put_stork
  by unfold_locales (simp_all add: obj_owner_def put_stork_def split: kobj.split)

section \<open>The aggregated status again\<close>

definition overall :: "string \<Rightarrow> string \<Rightarrow> KeaServerSpec \<Rightarrow> KeaServerStatus \<Rightarrow> KeaServerStatus" where
  "overall n1 n2 spec st =
     (let bs = configured_ready spec st
      in if bs = []
         then st\<lparr>ksst_Phase := ''Pending'', ksst_Conditions := setCondition n1 (ksst_Conditions st) ConditionTypeReady ''False'' ''NoComponents'' ''No components configured''\<rparr>
         else if list_all id bs
         then st\<lparr>ksst_Phase := PhaseRunning, ksst_Conditions :=
           setCondition n2 (setCondition n1 (ksst_Conditions st) ConditionTypeReady ''True'' ''AllComponentsReady'' ''All configured components are ready'')
             ConditionTypeProgressing ''False'' ''DeploymentComplete'' ''All components deployed''\<rparr>
         else st\<lparr>ksst_Phase := PhaseProgressing, ksst_Conditions :=
           setCondition n2 (setCondition n1 (ksst_Conditions st) ConditionTypeReady ''False'' ''ComponentsProgressing'' ''Some components are not yet ready'')
             ConditionTypeProgressing ''True'' ''ComponentsProgressing'' ''Waiting for components''\<rparr>)"

definition child_flags :: "KeaServer \<Rightarrow> bool \<Rightarrow> bool \<Rightarrow> bool \<Rightarrow> bool \<Rightarrow> bool \<Rightarrow> KeaServerStatus \<Rightarrow> KeaServerStatus" where
  "child_flags server b4 b6 bca bdd bss st = st\<lparr>ksst_Dhcp4Ready := b4, ksst_Dhcp6Ready := b6, ksst_ControlAgentReady := bca,
     ksst_DhcpDdnsReady := bdd, ksst_StorkServerReady := bss, ksst_ObservedGeneration := om_Generation (ksv_ObjectMeta server)\<rparr>"

lemma setCondition_pair:
  "t \<noteq> t' \<Longrightarrow> setCondition n4 (setCondition n3 (setCondition n2 (setCondition n1 cs t s r m) t' s' r' m') t s r m) t' s' r' m'
     = setCondition n2 (setCondition n1 cs t s r m) t' s' r' m'"
  using setCondition_commute [OF _ disjI2 [OF setCondition_present], of t t' n3] by (simp add: setCondition_idem)

lemma overall_settled:
  "overall m1 m2 spec (child_flags cr b4 b6 bca bdd bss (overall n1 n2 spec (child_flags cr b4 b6 bca bdd bss st)))
     = overall n1 n2 spec (child_flags cr b4 b6 bca bdd bss st)"
proof -
  let ?f = "child_flags cr b4 b6 bca bdd bss"
  have flags: "?f (overall n1 n2 spec (?f st)) = overall n1 n2 spec (?f st)"
    by (simp add: overall_def child_flags_def Let_def)
  have "configured_ready spec (overall n1 n2 spec (?f st)) = configured_ready spec (?f st)"
    by (rule configured_ready_cong) (simp add: overall_def ready_flags_def child_flags_def Let_def)
  then show ?thesis
    unfolding flags by (simp add: overall_def [of m1] ) (simp add: overall_def Let_def setCondition_idem setCondition_pair condition_defs)
qed

lemma replays_setConditionNow:
  assumes "steady E look"
  shows "replays look L (ready look u F c) {} {} (\<lambda>x x'. (\<exists>n. x = setCondition n cs t s r m) \<and> (\<exists>n. x' = setCondition n cs' t s r m))
     (setConditionNow E cs t s r m) (setConditionNow E cs' t s r m)"
  unfolding setConditionNow_def
  by (rule replays_mono [OF replays_seq [OF replays_Now [OF assms, where A = "{}" and W = "{}"] replays_ret [where A = "{}" and W = "{}"
          and V = "\<lambda>x x'. (\<exists>n. x = setCondition n cs t s r m) \<and> (\<exists>n. x' = setCondition n cs' t s r m)"]]])
    auto

lemma replays_overallPhase:
  assumes E: "steady E look" and same: "configured_ready spec st' = configured_ready spec st"
  shows "replays look L (ready look u F c) {} {} (\<lambda>x x'. (\<exists>n1 n2. x = overall n1 n2 spec st) \<and> (\<exists>n1 n2. x' = overall n1 n2 spec st'))
     (overallPhase E spec st) (overallPhase E spec st')"
proof -
  let ?V = "\<lambda>x x'. (\<exists>n1 n2. x = overall n1 n2 spec st) \<and> (\<exists>n1 n2. x' = overall n1 n2 spec st')"
  let ?R = "replays look L (ready look u F c)"
  note cn = replays_seq [OF replays_setConditionNow [OF E]]
  have 1: "?R ({} \<union> {}) ({} \<union> {}) ?V (overallPhase E spec st) (overallPhase E spec st')" if "configured_ready spec st = []"
    unfolding overallPhase_def Let_def same that
    by (simp only: simp_thms if_True if_False, rule cn) (auto intro!: replays_ret simp: overall_def same that)
  have 2: "?R ({} \<union> ({} \<union> {})) ({} \<union> ({} \<union> {})) ?V (overallPhase E spec st) (overallPhase E spec st')" if "configured_ready spec st \<noteq> []"
  proof (cases "list_all id (configured_ready spec st)")
    case True
    show ?thesis unfolding overallPhase_def Let_def same
      by (simp only: that True simp_thms if_True if_False, rule cn, rule cn) (use that True in \<open>auto intro!: replays_ret simp: overall_def same\<close>)
  next
    case False
    show ?thesis unfolding overallPhase_def Let_def same
      by (simp only: that False simp_thms if_True if_False, rule cn, rule cn) (use that False in \<open>auto intro!: replays_ret simp: overall_def same\<close>)
  qed
  from 1 2 show ?thesis by fastforce
qed

section \<open>The whole reconciliation again\<close>

lemma replays_reconcileChildren:
  assumes E: "steady E look" and c: "fst c = KKeaServer"
  shows "\<exists>A W. replays look L (ready look (om_UID (ksv_ObjectMeta cr)) (desired_children cr) c) A W (\<lambda>_ _. True)
     (reconcileChildren E cr) (reconcileChildren E (cr\<lparr>ksv_Status := st\<rparr>))
     \<and> A = fst ` set (child_table cr) \<and> W = A"
proof -
  have put: "ksv_ObjectMeta (cr\<lparr>ksv_Status := st\<rparr>) = ksv_ObjectMeta cr" "ksv_Spec (cr\<lparr>ksv_Status := st\<rparr>) = ksv_Spec cr" by simp_all
  have des: "((KDhcp4, K) \<in> desired_children cr) = (K = (om_Namespace (ksv_ObjectMeta cr), om_Name (ksv_ObjectMeta cr) @ ''-dhcp4'') \<and> ks_Dhcp4 (ksv_Spec cr) \<noteq> None)"
    "((KDhcp6, K) \<in> desired_children cr) = (K = (om_Namespace (ksv_ObjectMeta cr), om_Name (ksv_ObjectMeta cr) @ ''-dhcp6'') \<and> ks_Dhcp6 (ksv_Spec cr) \<noteq> None)"
    "((KControlAgent, K) \<in> desired_children cr) = (K = (om_Namespace (ksv_ObjectMeta cr), om_Name (ksv_ObjectMeta cr) @ ''-ctrl-agent'') \<and> ks_ControlAgent (ksv_Spec cr) \<noteq> None)"
    "((KDdns, K) \<in> desired_children cr) = (K = (om_Namespace (ksv_ObjectMeta cr), om_Name (ksv_ObjectMeta cr) @ ''-ddns'') \<and> ks_DhcpDdns (ksv_Spec cr) \<noteq> None)"
    "((KStorkServer, K) \<in> desired_children cr) = (K = (om_Namespace (ksv_ObjectMeta cr), om_Name (ksv_ObjectMeta cr) @ ''-stork-server'') \<and> ks_StorkServer (ksv_Spec cr) \<noteq> None)"
    for K by (auto simp: desired_children_def child_table_def Let_def)
  note steps = replays_seq [OF replays_wrap [OF sch4.replays_child [OF E]]] replays_seq [OF replays_wrap [OF sch6.replays_child [OF E]]]
    replays_seq [OF replays_wrap [OF schca.replays_child [OF E]]] replays_seq [OF replays_wrap [OF schdd.replays_child [OF E]]]
    replays_wrap [OF schss.replays_child [OF E]]
  show ?thesis
    unfolding reconcileChildren_def child_steps put
    by (rule exI, rule exI, rule conjI, rule steps(1), simp add: des, use c in force, rule steps(2), simp add: des, use c in force,
        rule steps(3), simp add: des, use c in force, rule steps(4), simp add: des, use c in force, rule steps(5), simp add: des, use c in force)
      (auto simp: child_table_def Let_def)
qed

lemma replays_aggregateStatus:
  assumes E: "steady E look"
  shows "replays look L (ready look u F c) (fst ` set (child_table cr)) {}
     (\<lambda>x x'. \<exists>b4 b6 bca bdd bss n1 n2 m1 m2. x = overall n1 n2 (ksv_Spec cr) (child_flags cr b4 b6 bca bdd bss (ksv_Status cr))
        \<and> x' = overall m1 m2 (ksv_Spec cr) (child_flags cr b4 b6 bca bdd bss st))
     (aggregateStatus E cr) (aggregateStatus E (cr\<lparr>ksv_Status := st\<rparr>))" (is "replays _ _ ?I ?A _ ?V ?m ?m'")
proof -
  have put: "ksv_ObjectMeta (cr\<lparr>ksv_Status := st\<rparr>) = ksv_ObjectMeta cr" "ksv_Spec (cr\<lparr>ksv_Status := st\<rparr>) = ksv_Spec cr"
    "ksv_Status (cr\<lparr>ksv_Status := st\<rparr>) = st" by simp_all
  have same: "configured_ready sp (child_flags cr b4 b6 bca bdd bss st) = configured_ready sp (child_flags cr b4 b6 bca bdd bss st')" for sp b4 b6 bca bdd bss st st'
    by (rule configured_ready_cong) (simp add: ready_flags_def child_flags_def)
  note step = replays_seq [OF replays_isChildReady [OF E]]
  have "\<exists>A W. replays look L ?I A W ?V ?m ?m' \<and> A \<subseteq> ?A \<and> W \<subseteq> {}"
    unfolding aggregateStatus_def Let_def put child_flags_def [symmetric]
    by (rule exI, rule exI, rule conjI, rule step, hypsubst, rule step, hypsubst, rule step, hypsubst, rule step, hypsubst, rule step, hypsubst,
        rule replays_mono [OF replays_overallPhase [OF E same] order_refl order_refl], blast)
      (auto simp: child_table_def Let_def)
  then show ?thesis by (auto elim: replays_mono)
qed

lemma stored_status_ks:
  "L c = Some (OKeaServer (cr\<lparr>ksv_Status := a\<rparr>)) \<Longrightarrow> L c = Some (set_status l (with_status_ks cr' b)) \<Longrightarrow> obj_key l = (KKeaServer, K) \<Longrightarrow> a = b"
  by (cases l) (auto simp: set_status_def with_status_ks_def obj_key_def dest: arg_cong [of _ _ ksv_Status])

lemma replays_ks:
  assumes E: "steady E look"
    and L: "L (KKeaServer, om_Namespace (ksv_ObjectMeta cr), om_Name (ksv_ObjectMeta cr)) = Some (OKeaServer (cr\<lparr>ksv_Status := stL\<rparr>))"
  shows "\<exists>A W. replays look L (ready look (om_UID (ksv_ObjectMeta cr)) (desired_children cr) (KKeaServer, om_Namespace (ksv_ObjectMeta cr), om_Name (ksv_ObjectMeta cr)))
     A W (\<lambda>_ _. True) (reconcileKeaServer E cr) (reconcileKeaServer E (cr\<lparr>ksv_Status := stL\<rparr>))"
proof -
  let ?m = "ksv_ObjectMeta cr" let ?c = "(KKeaServer, om_Namespace ?m, om_Name ?m)"
  let ?R = "replays look L (ready look (om_UID ?m) (desired_children cr) ?c)" let ?T = "fst ` set (child_table cr)"
  have put: "with_status_ks (cr\<lparr>ksv_Status := stL\<rparr>) = with_status_ks cr" by (simp add: fun_eq_iff with_status_ks_def)
  have key: "obj_key (with_status_ks cr x) = ?c" for x by (simp add: with_status_ks_def obj_key_def)
  have 1: "?R ?T ?T (\<lambda>_ _. True) (reconcileChildren E cr) (reconcileChildren E (cr\<lparr>ksv_Status := stL\<rparr>))"
    using replays_reconcileChildren [OF E, of ?c L cr stL] by auto
  have upd: "?R {?c} {?c} (\<lambda>_ _. True) (api_StatusUpdate E (with_status_ks cr x)) (api_StatusUpdate E (with_status_ks cr x'))"
    if x: "x = overall n1 n2 (ksv_Spec cr) (child_flags cr b4 b6 bca bdd bss (ksv_Status cr))"
      and x': "x' = overall m1 m2 (ksv_Spec cr) (child_flags cr b4 b6 bca bdd bss stL)" for x x' n1 n2 m1 m2 b4 b6 bca bdd bss
  proof (rule replays_StatusUpdate [OF E key key])
    fix l assume "L ?c = Some (set_status l (with_status_ks cr x))" and l: "obj_key l = ?c"
    from stored_status_ks [where L = L, OF L, OF this] have "x' = x" unfolding x x' by (simp add: overall_settled)
    moreover have "Api.kind_of l = Api.kind_of (with_status_ks cr x)" by (rule kind_of_same_key) (simp add: l key)
    ultimately show "set_status (set_status l (with_status_ks cr x)) (with_status_ks cr x') = set_status l (with_status_ks cr x)"
      by (simp add: set_status_twice)
  qed
  show ?thesis
    unfolding reconcileKeaServer_def put
    by (rule exI, rule exI, rule replays_seq [OF 1], rule replays_seq [OF replays_aggregateStatus [OF E]], elim exE conjE,
        rule replays_seq [OF replays_wrap [OF upd]], assumption, assumption, rule replays_event [where A = "{}" and W = "{}", OF E])
      (auto simp: child_table_def Let_def)
qed

end
