(* ===== verification/Dhcp4HA.thy ===== *)
theory Dhcp4HA
  imports Dhcp4Controller
begin

text \<open>
  The rollout of a DHCPv4 server with high availability: one ConfigMap per ordinal, with the
  name of its own peer, and a StatefulSet whose pods carry the combined hash.
\<close>

lemma HAConfigMapName_eq [simp]: "HAConfigMapName n co (int i) = HAConfigMapName n co (int j) \<longleftrightarrow> i = j"
  by (simp add: HAConfigMapName_def)

lemma ha_config_map_simps [simp]:
  "obj_key (OConfigMap (ha_config_map meta co lbls i json)) = (KConfigMap, om_Namespace meta, HAConfigMapName (om_Name meta) co (int i))"
  "obj_owner (OConfigMap (ha_config_map meta co lbls i json)) = None"
  "cm_Data (ha_config_map meta co lbls i json) = map_lit [(ConfigFileName co, json)]"
  by (simp_all add: obj_key_def obj_owner_def ha_config_map_def ConfigMapMeta_def object_meta_def zero_ObjectMeta_def)

text \<open>A stored ConfigMap with exactly the given file.\<close>

definition holds_config :: "string \<Rightarrow> string \<Rightarrow> kobj option \<Rightarrow> bool" where
  "holds_config co json v = (\<exists>cm. v = Some (OConfigMap cm) \<and> cm_Data cm = map_lit [(ConfigFileName co, json)])"

lemma ha_configs_post:
  assumes E: "answers E look" and "distinct is" and "\<forall>i \<in> set is. RenderJSONWithServerName4 (env_Unmarshal E) r (ha_server_name peers i) = Inr (json i)"
    and "\<forall>i \<in> set is. (KConfigMap, om_Namespace meta, HAConfigMapName (om_Name meta) co (int i)) \<in> F"
  shows "valid (ready look (om_UID meta) F c) (ha_configs_loop E r meta peers co lbls is h)
     (\<lambda>h' s. h' = h @ concat (map (\<lambda>i. ComputeHash (json i)) is)
        \<and> (\<forall>i \<in> set is. holds_config co (json i) (look s (KConfigMap, om_Namespace meta, HAConfigMapName (om_Name meta) co (int i)))))"
  using assms(2-)
proof (induction "is" arbitrary: h)
  case (Cons i "is")
  let ?K = "\<lambda>i. (KConfigMap, om_Namespace meta, HAConfigMapName (om_Name meta) co (int i))"
  let ?o = "OConfigMap (ha_config_map meta co lbls i (json i))"
  note law = answersD(1) [OF E]
  show ?case
  proof (rule validI)
    fix s h' s' assume I: "ready look (om_UID meta) F c s" and m: "ha_configs_loop E r meta peers co lbls (i # is) h s = (Inr h', s')"
    have "succeeds (ready look (om_UID meta) F c) (reconcileResource E meta ?o)"
      by (rule succeeds_reconcileResource [OF E]) (use Cons.prems in simp_all)
    from succeedsD [OF this I] obtain s1 where s1: "reconcileResource E meta ?o s = (Inr (), s1)" "ready look (om_UID meta) F c s1" by auto
    have m1: "ha_configs_loop E r meta peers co lbls is (h @ ComputeHash (json i)) s1 = (Inr h', s')"
      using m s1(1) Cons.prems(2) by (simp add: seq_def attempt_def)
    have rest: "h' = (h @ ComputeHash (json i)) @ concat (map (\<lambda>i. ComputeHash (json i)) is) \<and> (\<forall>j \<in> set is. holds_config co (json j) (look s' (?K j)))"
      using validD [OF Cons.IH s1(2) m1] Cons.prems by simp
    obtain y where y: "look s1 (?K i) = Some y" "persisted (set_owner (om_UID meta) ?o) y"
      using validD [OF reconcileResource_post [OF law] TrueI s1(1)] by auto
    then have q: "holds_config co (json i) (look s1 (?K i))"
      by (cases y) (auto simp: holds_config_def persisted_def same_content_def)
    have kp: "keeps (\<lambda>s. holds_config co (json i) (look s (?K i))) (ha_configs_loop E r meta peers co lbls is (h @ ComputeHash (json i)))"
      by (rule keeps_ha_configs_loop [OF env_keeps_look [OF law] store_lawD(1) [OF law]])
        (use Cons.prems in \<open>auto intro!: covers_other\<close>)
    from keepsD [OF kp q m1] rest show "h' = h @ concat (map (\<lambda>i. ComputeHash (json i)) (i # is))
        \<and> (\<forall>j \<in> set (i # is). holds_config co (json j) (look s' (?K j)))" by simp
  qed
qed (simp add: valid_def ret_def)

lemma RenderJSONWithServerName4_total: "\<exists>json. RenderJSONWithServerName4 unm r name = Inr json"
  using rd4.render_total by (fastforce simp: RenderJSONWithServerName4_def)

lemma fill_server4_names:
  assumes "d4_HighAvailability (kd4_Spec cr) = Some ha"
  obtains ha' where "d4_HighAvailability (kd4_Spec (fill_server4 cr)) = Some ha'" "ha_server_name (ha_Peers ha') = ha_server_name (ha_Peers ha)"
proof (rule that)
  show "d4_HighAvailability (kd4_Spec (fill_server4 cr)) =
      Some (ha\<lparr>ha_Peers := fill_peers (om_Namespace (kd4_ObjectMeta cr)) (om_Name (kd4_ObjectMeta cr)) ComponentDhcp4 (control_port (d4_ControlSocket (kd4_Spec cr))) (ha_Peers ha)\<rparr>)"
    by (simp add: fill_server4_def fillPeerURLs_def assms Let_def)
qed (simp add: ha_server_name_def fill_peers_def fill_peer_def fun_eq_iff nth_enumerate_eq)

section \<open>The rollout\<close>

text \<open>The configuration of every replica, in the order of the ordinals, and the hash of their hashes.\<close>

definition combined_hash :: "(nat \<Rightarrow> string) \<Rightarrow> int32 \<Rightarrow> string" where
  "combined_hash json replicas = ComputeHash (concat (map (\<lambda>i. ComputeHash (json i)) (ordinals replicas)))"

lemma ha_config4_post:
  assumes E: "answers E look" and ha: "d4_HighAvailability (kd4_Spec cr) \<noteq> None" and m: "m = kd4_ObjectMeta cr"
    and k: "k = replicas_or_one (d4_Replicas (kd4_Spec cr))"
    and json: "\<And>i. RenderJSONWithServerName4 (env_Unmarshal E) r (ha_server_name (ha_Peers ha) i) = Inr (json i)"
  shows "valid (ready look (om_UID m) (footprint4 cr) c) (reconcileHAConfigs E r m ha ComponentDhcp4 lbls k)
     (\<lambda>h s. h = combined_hash json k
        \<and> (\<forall>i \<in> set (ordinals k). holds_config ComponentDhcp4 (json i) (look s (KConfigMap, om_Namespace m, HAConfigMapName (om_Name m) ComponentDhcp4 (int i)))))"
proof (rule validI)
  fix s h s' assume I: "ready look (om_UID m) (footprint4 cr) c s" and run: "reconcileHAConfigs E r m ha ComponentDhcp4 lbls k s = (Inr h, s')"
  from run obtain h0 where c0: "ha_configs_loop E r m (ha_Peers ha) ComponentDhcp4 lbls (ordinals k) '''' s = (Inr h0, s')" and h: "h = ComputeHash h0"
    by (auto simp: reconcileHAConfigs_def ret_def elim!: seq_success)
  have keys: "\<forall>i \<in> set (ordinals k). (KConfigMap, om_Namespace m, HAConfigMapName (om_Name m) ComponentDhcp4 (int i)) \<in> footprint4 cr"
    using ha by (auto simp: footprint4_def config_keys4_def m k Let_def)
  have "distinct (ordinals k)" by (simp add: ordinals_def)
  from validD [OF ha_configs_post [OF E this _ keys] I c0, of json] json
  show "h = combined_hash json k \<and> (\<forall>i \<in> set (ordinals k). holds_config ComponentDhcp4 (json i) (look s' (KConfigMap, om_Namespace m, HAConfigMapName (om_Name m) ComponentDhcp4 (int i))))"
    by (simp add: h combined_hash_def)
qed

text \<open>What follows the configuration writes no ConfigMap.\<close>

lemma rollout_keeps_configs:
  assumes law: "store_law E look"
  shows "keeps (\<lambda>s. P (look s (KConfigMap, K))) (rolloutDhcp4 E server lbls (replicas_or_one (d4_Replicas (kd4_Spec server))) env h)"
proof (rule keeps_rolloutDhcp4)
  show "may_write E (\<lambda>w y. obj_key y \<noteq> (KConfigMap, K)) (\<lambda>s. P (look s (KConfigMap, K))) (kd4_ObjectMeta server) (with_status4 server)"
    unfolding may_write_def using env_keeps_look [OF law, where K = "(KConfigMap, K)"] store_lawD(1) [OF law]
    by (simp add: scc_key_def) (simp add: with_status4_def obj_key_def)
qed (auto simp: rollout_keys4_def workload_keys4_def publish_keys4_def stork_keys_def Let_def intro!: covers_other split: option.splits)

lemma ha_configs_keep_resource:
  assumes law: "store_law E look"
  shows "keeps (\<lambda>s. look s (KDhcp4, K) = v) (reconcileHAConfigs E r m ha co lbls k)"
  unfolding reconcileHAConfigs_def
  by (intro keeps_rules keeps_ha_configs_loop [OF env_keeps_look [OF law, where P = "\<lambda>w. w = v"] store_lawD(1) [OF law]]) (auto intro!: covers_other)

text \<open>
  C6: the rollout of a DHCPv4 server with high availability. When the API server
  answers and accepts every write, nobody else controls its objects, the replica count is not
  negative and the peer hostnames pass validation, the reconciliation succeeds, and afterwards every
  replica's ConfigMap holds the configuration rendered with the name of its own peer (or the
  generated name past the list), the pods of the StatefulSet carry the hash of all of these
  together, so they restart when any of them changes, and the status reports that hash.
\<close>

theorem dhcp4_ha_rollout_consistent:
  assumes "store_law E look" and "up_law E look" and "look s (KDhcp4, ns, n) = Some (ODhcp4 cr)"
    and "d4_HighAvailability (kd4_Spec cr) = Some ha" and "sound4 E cr"
    and "\<forall>K \<in> footprint4 cr. was_claimable (om_UID (kd4_ObjectMeta cr)) (look s K)"
  shows "\<exists>s' json sts st. ReconcileDhcp4 E ns n s = (Inr (), s')
     \<and> (\<forall>i \<in> set (ordinals (replicas_or_one (d4_Replicas (kd4_Spec cr)))).
          RenderJSONWithServerName4 (env_Unmarshal E) (snd (dhcp4_renderer (kd4_Spec (fill_server4 cr)))) (ha_server_name (ha_Peers ha) i) = Inr (json i)
          \<and> holds_config ComponentDhcp4 (json i) (look s' (KConfigMap, ns, HAConfigMapName n ComponentDhcp4 (int i))))
     \<and> look s' (KStatefulSet, ns, StatefulSetName n ComponentDhcp4) = Some (OStatefulSet sts)
     \<and> pod_hash (OStatefulSet sts) = Some (combined_hash json (replicas_or_one (d4_Replicas (kd4_Spec cr))))
     \<and> look s' (KDhcp4, ns, n) = Some (ODhcp4 (cr\<lparr>kd4_Status := st\<rparr>))
     \<and> st_ConfigHash st = combined_hash json (replicas_or_one (d4_Replicas (kd4_Spec cr)))
     \<and> st_ObservedGeneration st = om_Generation (kd4_ObjectMeta cr)"
proof -
  note law = assms(1) have E: "answers E look" using assms(1,2) by (simp add: answers_def)
  have key: "om_Namespace (kd4_ObjectMeta cr) = ns" "om_Name (kd4_ObjectMeta cr) = n"
    using store_lawD(4) [OF law assms(3)] by (simp_all add: obj_key_def)
  let ?f = "fill_server4 cr" let ?k = "replicas_or_one (d4_Replicas (kd4_Spec cr))"
  let ?r = "snd (dhcp4_renderer (kd4_Spec ?f))" let ?e = "fst (dhcp4_renderer (kd4_Spec ?f))" let ?lbls = "CommonLabels n ComponentDhcp4"
  let ?C = "\<lambda>i. (KConfigMap, ns, HAConfigMapName n ComponentDhcp4 (int i))"
  obtain ha' where ha': "d4_HighAvailability (kd4_Spec ?f) = Some ha'" "ha_server_name (ha_Peers ha') = ha_server_name (ha_Peers ha)"
    by (rule fill_server4_names [OF assms(4)])
  define json where "json i = projr (RenderJSONWithServerName4 (env_Unmarshal E) ?r (ha_server_name (ha_Peers ha) i))" for i
  have json: "RenderJSONWithServerName4 (env_Unmarshal E) ?r (ha_server_name (ha_Peers ha) i) = Inr (json i)" for i
    using RenderJSONWithServerName4_total [of "env_Unmarshal E" ?r "ha_server_name (ha_Peers ha) i"] by (auto simp: json_def)
  obtain s' where run: "ReconcileDhcp4 E ns n s = (Inr (), s')"
    using l4.reconcile_succeeds [OF E, of s ns n "ODhcp4 cr" cr] assms(3,5,6) by (auto simp: ReconcileDhcp4_def as_dhcp4_def)
  obtain s1 where s1: "look s1 = look s" and b: "reconcileDhcp4Server E cr s1 = (Inr (), s')"
    using fetch_success [OF law assms(3) _ run [unfolded ReconcileDhcp4_def], of cr] by (auto simp: as_dhcp4_def)
  from b obtain h s2 where c: "reconcileHAConfigs E ?r (kd4_ObjectMeta cr) ha' ComponentDhcp4 ?lbls ?k s1 = (Inr h, s2)"
      and r: "rolloutDhcp4 E ?f ?lbls ?k ?e h s2 = (Inr (), s')"
    by (auto simp: reconcileDhcp4Server_def reconcileDhcp4Config_def ha'(1) Let_def key elim!: seq_success)
  have I: "ready look (om_UID (kd4_ObjectMeta cr)) (footprint4 cr) (KDhcp4, ns, n) s1" using assms(3,6) s1 by (simp add: ready_def)
  have post: "h = combined_hash json ?k \<and> (\<forall>i \<in> set (ordinals ?k). holds_config ComponentDhcp4 (json i) (look s2 (?C i)))"
    using validD [OF ha_config4_post [OF E _ refl refl] I c, of json] json ha'(2) assms(4) by (simp add: key)
  have l2: "look s2 (KDhcp4, ns, n) = Some (ODhcp4 cr)" using keepsD [OF ha_configs_keep_resource [OF law] _ c] s1 assms(3) by simp
  have cms: "holds_config ComponentDhcp4 (json i) (look s' (?C i))" if "i \<in> set (ordinals ?k)" for i
    using keepsD [OF rollout_keeps_configs [OF law, of _ _ ?f, unfolded fill_server4_fields] _ r] post that by blast
  obtain x st where x: "look s' (workload_key4 ?f) = Some x" "pod_hash x = Some h"
    and st: "look s' (KDhcp4, ns, n) = Some (ODhcp4 (cr\<lparr>kd4_Status := st\<rparr>))" "st_ConfigHash st = h" "st_ObservedGeneration st = om_Generation (kd4_ObjectMeta cr)"
    using rollout_post [OF law refl, where cr = ?f and stored = cr, unfolded fill_server4_fields key, OF l2 r] by blast
  obtain sts where "x = OStatefulSet sts" using store_lawD(4) [OF law x(1)] by (cases x) (auto simp: workload_key4_def ha'(1) obj_key_def)
  with x have "look s' (KStatefulSet, ns, StatefulSetName n ComponentDhcp4) = Some (OStatefulSet sts)" "pod_hash (OStatefulSet sts) = Some h"
    by (simp_all add: workload_key4_def ha'(1) key)
  with run json cms st post show ?thesis by (intro exI [of _ s'] exI [of _ json] exI [of _ sts] exI [of _ st]) simp
qed

lemma sample4_ha_sound:
  "mem_look (mem_init [ODhcp4 sample4_ha]) (KDhcp4, ''kea'', ''d'') = Some (ODhcp4 sample4_ha)"
  "\<forall>K \<in> A. was_claimable u (mem_look (mem_init [ODhcp4 sample4_ha]) K)" "sound4 (mem_env b) sample4_ha"
  by (simp_all add: mem_single obj_key_def was_claimable_def claimable_def obj_owner_def sample4_ha_def sample4_def zero_ObjectMeta_def
      sound4_def peers_valid_def mem_env_def replicas_or_one_def list_all_iff split: option.split)

theorem dhcp4_ha_rollout_consistent_witness:
  "\<exists>s' json sts. ReconcileDhcp4 (mem_env True) ''kea'' ''d'' (mem_init [ODhcp4 sample4_ha]) = (Inr (), s')
     \<and> holds_config ComponentDhcp4 (json 0) (mem_look s' (KConfigMap, ''kea'', HAConfigMapName ''d'' ComponentDhcp4 0))
     \<and> holds_config ComponentDhcp4 (json 1) (mem_look s' (KConfigMap, ''kea'', HAConfigMapName ''d'' ComponentDhcp4 1))
     \<and> mem_look s' (KStatefulSet, ''kea'', StatefulSetName ''d'' ComponentDhcp4) = Some (OStatefulSet sts)
     \<and> pod_hash (OStatefulSet sts) = Some (ComputeHash (ComputeHash (json 0) @ ComputeHash (json (1::nat))))"
proof -
  have k: "ordinals (replicas_or_one (d4_Replicas (kd4_Spec sample4_ha))) = [0, 1]"
    by (simp add: sample4_ha_def replicas_or_one_def ordinals_def numeral_2_eq_2)
  have "d4_HighAvailability (kd4_Spec sample4_ha) = Some (zero_HAConfig\<lparr>ha_Peers := [zero_HAPeer\<lparr>peer_Name := ''a''\<rparr>]\<rparr>)"
    by (simp add: sample4_ha_def)
  from dhcp4_ha_rollout_consistent [OF mem_store_law mem_up_law sample4_ha_sound(1) this sample4_ha_sound(3,2)]
  show ?thesis by (simp add: k combined_hash_def) (metis One_nat_def)
qed

end
