(* ===== verification/Convergence.thy ===== *)
theory Convergence
  imports MapOrder UmbrellaReplay Dhcp4HA
begin

text \<open>
  Reconciliation reaches a fixed point. For each controller: once a reconciliation
  has succeeded, another one of the same resource succeeds as well and leaves every object of
  the cluster, its own status included, as it is.
\<close>

section \<open>The contract\<close>

text \<open>A fetched resource is handed to the body; the second run fetches what the first one stored.\<close>

lemma fetched:
  assumes E: "steady E look" and x: "look s (kd, ns, n) = Some x" "sel x = Some cr"
  obtains s0 where "look s0 = look s" "fetch_and E kd sel body ns n s = body cr s0"
proof -
  obtain s0 where "api_Get E kd ns n s = (Inr x, s0)" "look s0 = look s" by (rule get_present [OF E, OF x(1)])
  with x(2) that show thesis by (simp add: fetch_and_def get_as_def seq_def attempt_def decode_def ret_def)
qed

lemma settles_run:
  assumes E: "steady E look" and x: "look s (kd, ns, n) = Some x" "sel x = Some cr"
    and r: "fetch_and E kd sel body ns n s = (Inr (), s1)" and y: "look s1 (kd, ns, n) = Some y" "sel y = Some cr'"
    and I: "\<And>s0. look s0 = look s \<Longrightarrow> I s0" and rp: "replays look (look s1) I A W (\<lambda>_ _. True) (body cr) (body cr')" and t: "look t = look s1"
  shows "\<exists>t1. fetch_and E kd sel body ns n t = (Inr (), t1) \<and> look t1 = look s1"
proof -
  obtain s0 where s0: "look s0 = look s" "fetch_and E kd sel body ns n s = body cr s0" by (rule fetched [OF E, of s kd ns n x sel cr body]) (use x in simp_all)
  obtain t0 where t0: "look t0 = look t" "fetch_and E kd sel body ns n t = body cr' t0"
    by (rule fetched [OF E, of t kd ns n y sel cr' body]) (use t y in simp_all)
  have "\<exists>x' t1. body cr' t0 = (Inr x', t1) \<and> look t1 = look s1"
    by (rule replaysE [OF rp, OF I [OF s0(1)]]) (use r s0(2) t0(1) t in auto)
  then show ?thesis using t0(2) by auto
qed

text \<open>
  A controller whose body can be replayed against its own result. \<open>put cr st\<close> is the resource with
  another status, which is what the second run fetches; \<open>stable\<close> is a condition on the cluster under
  which what the body looks up does not depend on the order of a list.
\<close>

locale settling_controller = live_controller kd sel meta wr foot body sound
  for kd :: okind and sel :: "kobj \<Rightarrow> 'a option" and meta :: "'a \<Rightarrow> ObjectMeta" and wr :: "'a \<Rightarrow> 'st \<Rightarrow> kobj"
    and foot :: "'a \<Rightarrow> okey set" and body :: "'s env \<Rightarrow> 'a \<Rightarrow> ('s, unit) op" and sound :: "'s env \<Rightarrow> 'a \<Rightarrow> bool" +
  fixes put :: "'a \<Rightarrow> 'st \<Rightarrow> 'a" and stable :: "(okey \<Rightarrow> kobj option) \<Rightarrow> 'a \<Rightarrow> bool"
  assumes sel_status: "sel x = Some cr \<Longrightarrow> set_status y x = x \<Longrightarrow> obj_key y = obj_key x \<Longrightarrow> \<exists>st. sel y = Some (put cr st)"
    and put_meta: "meta (put cr st) = meta cr"
    and body_replays: "steady E look \<Longrightarrow> sound E cr \<Longrightarrow> stable L cr \<Longrightarrow>
      L (kd, om_Namespace (meta cr), om_Name (meta cr)) = Some y \<Longrightarrow> sel y = Some (put cr st) \<Longrightarrow>
      \<exists>A W. replays look L (ready look (om_UID (meta cr)) (foot cr) (kd, om_Namespace (meta cr), om_Name (meta cr))) A W (\<lambda>_ _. True)
        (body E cr) (body E (put cr st))"
    and foot_kd: "(kd, K) \<notin> foot cr"
begin

lemma reconcile_settles:
  assumes E: "steady E look" and x: "look s (kd, ns, n) = Some x" "sel x = Some cr" and "sound E cr"
    and free: "\<forall>K \<in> foot cr. was_claimable (om_UID (meta cr)) (look s K)"
  shows "\<exists>s1. fetch_and E kd sel (body E) ns n s = (Inr (), s1)
     \<and> (stable (look s1) cr \<longrightarrow> (\<forall>t. look t = look s1 \<longrightarrow> (\<exists>t1. fetch_and E kd sel (body E) ns n t = (Inr (), t1) \<and> look t1 = look s1)))"
proof -
  note law = steadyD(2) [OF E]
  have key: "om_Namespace (meta cr) = ns" "om_Name (meta cr) = n"
    using store_lawD(4) [OF law, OF x(1)] sel_meta [OF x(2)] by (simp_all add: obj_key_def)
  obtain s1 where r: "fetch_and E kd sel (body E) ns n s = (Inr (), s1)"
    using reconcile_succeeds [OF steadyD(1) [OF E], of s ns n x cr] x assms(4) free by blast
  have fr: "frame look s (om_UID (meta cr)) (foot cr) {scc_key ns n} {} (kd, ns, n) s1"
    using reconcile_frame [OF law, of s ns n x cr] x r by simp
  obtain y st where y: "look s1 (kd, ns, n) = Some y" "sel y = Some (put cr st)"
  proof -
    from fr [unfolded frame_def, THEN spec [of _ "(kd, ns, n)"]] x(1) foot_kd kd_binding
    obtain y where y: "look s1 (kd, ns, n) = Some y" "y = x \<or> set_status y x = x" by (auto simp: scc_key_def)
    have "set_status x x = x" by (cases x) (simp_all add: set_status_def)
    with y(2) have "set_status y x = x" by blast
    moreover have "obj_key y = obj_key x" using store_lawD(4) [OF law, OF y(1)] store_lawD(4) [OF law, OF x(1)] by simp
    ultimately show thesis using sel_status [OF x(2)] y(1) that by blast
  qed
  have ready: "ready look (om_UID (meta cr)) (foot cr) (kd, ns, n) s0" if "look s0 = look s" for s0
    using free x(1) that by (simp add: ready_def)
  have "\<exists>t1. fetch_and E kd sel (body E) ns n t = (Inr (), t1) \<and> look t1 = look s1" if st: "stable (look s1) cr" and t: "look t = look s1" for t
  proof -
    obtain A W where rp: "replays look (look s1) (ready look (om_UID (meta cr)) (foot cr) (kd, ns, n)) A W (\<lambda>_ _. True) (body E cr) (body E (put cr st))"
      using body_replays [OF E assms(4) st, of y st] y by (auto simp: key)
    from E x r y ready rp t show ?thesis by (rule settles_run)
  qed
  with r show ?thesis by blast
qed

end

section \<open>The status a second run writes\<close>

text \<open>A status computed again from the stored one is the stored one.\<close>

lemma status_settled:
  assumes "\<And>st. st_Conditions (g st) = st_Conditions st" "\<And>st n1 n2. g (set_ready_status n1 n2 a b (g st)) = set_ready_status n1 n2 a b (g st)"
    and "stL = set_ready_status n1 n2 a b (g (config_valid n st))"
  shows "set_ready_status m1 m2 a b (g (config_valid m stL)) = set_ready_status n1 n2 a b (g (config_valid n st))"
proof -
  have "config_valid m stL = stL" unfolding assms(3) by (rule config_valid_again [OF assms(1)])
  then show ?thesis by (simp add: assms(2,3)) (simp add: set_ready_status_def ready_conditions_idem)
qed

lemma component_status_settled:
  "stL = set_ready_status n1 n2 a b (component_status meta co h a (config_valid n st)) \<Longrightarrow>
   set_ready_status m1 m2 a b (component_status meta co h a (config_valid m stL)) = set_ready_status n1 n2 a b (component_status meta co h a (config_valid n st))"
  by (erule status_settled [rotated 2]) (simp_all add: component_status_def set_ready_status_def)

text \<open>The stored status is the one that was written.\<close>

lemma stored_status_ca:
  "L c = Some (OControlAgent (cr\<lparr>kca_Status := a\<rparr>)) \<Longrightarrow> L c = Some (set_status l (with_status_ca cr' b)) \<Longrightarrow> obj_key l = (KControlAgent, K) \<Longrightarrow> a = b"
  by (cases l) (auto simp: set_status_def with_status_ca_def obj_key_def dest: arg_cong [of _ _ kca_Status])

lemma stored_status_dd:
  "L c = Some (ODdns (cr\<lparr>kdd_Status := a\<rparr>)) \<Longrightarrow> L c = Some (set_status l (with_status_dd cr' b)) \<Longrightarrow> obj_key l = (KDdns, K) \<Longrightarrow> a = b"
  by (cases l) (auto simp: set_status_def with_status_dd_def obj_key_def dest: arg_cong [of _ _ kdd_Status])

lemma stored_status6:
  "L c = Some (ODhcp6 (cr\<lparr>kd6_Status := a\<rparr>)) \<Longrightarrow> L c = Some (set_status l (with_status6 cr' b)) \<Longrightarrow> obj_key l = (KDhcp6, K) \<Longrightarrow> a = b"
  by (cases l) (auto simp: set_status_def with_status6_def obj_key_def dest: arg_cong [of _ _ kd6_Status])

lemma stored_status4:
  "L c = Some (ODhcp4 (cr\<lparr>kd4_Status := a\<rparr>)) \<Longrightarrow> L c = Some (set_status l (with_status4 cr' b)) \<Longrightarrow> obj_key l = (KDhcp4, K) \<Longrightarrow> a = b"
  by (cases l) (auto simp: set_status_def with_status4_def obj_key_def dest: arg_cong [of _ _ kd4_Status])

lemma stored_status_ss:
  "L c = Some (OStorkServer (cr\<lparr>kss_Status := a\<rparr>)) \<Longrightarrow> L c = Some (set_status l (with_status_ss cr' b)) \<Longrightarrow> obj_key l = (KStorkServer, K) \<Longrightarrow> a = b"
  by (cases l) (auto simp: set_status_def with_status_ss_def obj_key_def dest: arg_cong [of _ _ kss_Status])

text \<open>Only the written status of the fetched copy matters.\<close>

lemma with_status_put [simp]:
  "with_status_ca (c1\<lparr>kca_Status := s1\<rparr>) = with_status_ca c1" "with_status_dd (c2\<lparr>kdd_Status := s2\<rparr>) = with_status_dd c2"
  "with_status6 (c3\<lparr>kd6_Status := s3\<rparr>) = with_status6 c3" "with_status4 (c4\<lparr>kd4_Status := s4\<rparr>) = with_status4 c4"
  "with_status_ss (c5\<lparr>kss_Status := s5\<rparr>) = with_status_ss c5"
  by (simp_all add: fun_eq_iff with_status_ca_def with_status_dd_def with_status6_def with_status4_def with_status_ss_def)

section \<open>The component controllers\<close>

lemma replays_ca:
  assumes E: "steady E look"
    and L: "L (KControlAgent, om_Namespace (kca_ObjectMeta cr), om_Name (kca_ObjectMeta cr)) = Some (OControlAgent (cr\<lparr>kca_Status := stL\<rparr>))"
  shows "\<exists>A W. replays look L (ready look (om_UID (kca_ObjectMeta cr)) (footprint_ca cr) (KControlAgent, om_Namespace (kca_ObjectMeta cr), om_Name (kca_ObjectMeta cr)))
     A W (\<lambda>_ _. True) (reconcileKeaControlAgent E cr) (reconcileKeaControlAgent E (cr\<lparr>kca_Status := stL\<rparr>))"
proof -
  obtain json where j: "RenderJSONCtrlAgent (env_Unmarshal E) (snd (ctrl_agent_renderer (kca_Spec cr))) = Inr json"
    using RenderJSONCtrlAgent_total by blast
  note ap = replays_seq [OF replays_reconcile_as [OF E]]
  show ?thesis
    unfolding reconcileKeaControlAgent_def reconcileControlAgentService_def Let_def
    by (simp add: j, rule exI, rule exI, rule replays_seq [OF replays_markConfigValid [OF E]],
        rule ap, simp add: footprint_ca_def Let_def, simp, rule ap, simp add: footprint_ca_def Let_def, simp,
        rule replays_seq [OF replays_bindSCC [OF E]], rule ap, simp add: footprint_ca_def Let_def, simp,
        rule ap, simp add: footprint_ca_def Let_def, simp, rule replays_seq [OF replays_readyReplicasOf [OF E]], elim conjE exE, hypsubst,
        rule replays_seq [OF replays_writeReadyStatus [OF E]], simp add: cca.wr_key, rule component_status_settled,
        erule stored_status_ca [where L = L, OF L], assumption, rule replays_event [where A = "{}" and W = "{}", OF E])
      (simp_all add: scc_key_def)
qed

lemma replays_dd:
  assumes E: "steady E look"
    and L: "L (KDdns, om_Namespace (kdd_ObjectMeta cr), om_Name (kdd_ObjectMeta cr)) = Some (ODdns (cr\<lparr>kdd_Status := stL\<rparr>))"
  shows "\<exists>A W. replays look L (ready look (om_UID (kdd_ObjectMeta cr)) (footprint_dd cr) (KDdns, om_Namespace (kdd_ObjectMeta cr), om_Name (kdd_ObjectMeta cr)))
     A W (\<lambda>_ _. True) (reconcileKeaDhcpDdns E cr) (reconcileKeaDhcpDdns E (cr\<lparr>kdd_Status := stL\<rparr>))"
proof -
  obtain json where j: "RenderJSONDdns (env_Unmarshal E) (snd (ddns_renderer (kdd_Spec cr))) = Inr json"
    using RenderJSONDdns_total by blast
  let ?K = "(KService, om_Namespace (kdd_ObjectMeta cr), ServiceName (om_Name (kdd_ObjectMeta cr)) ComponentDdns)"
  let ?c = "(KDdns, om_Namespace (kdd_ObjectMeta cr), om_Name (kdd_ObjectMeta cr))"
  have svc: "replays look L (ready look (om_UID (kdd_ObjectMeta cr)) (footprint_dd cr) ?c) {?K} {?K} (\<lambda>_ _. True)
      (reconcileDdnsService E cr ComponentDdns) (reconcileDdnsService E (cr\<lparr>kdd_Status := stL\<rparr>) ComponentDdns)"
  proof (cases "dd_Port (kdd_Spec cr)")
    case (Some port)
    then show ?thesis
      using replays_reconcile_as [OF E, of "OService (BuildService (service_params (kdd_ObjectMeta cr) ComponentDdns port ''UDP''))" "footprint_dd cr" L "kdd_ObjectMeta cr" ?c]
      by (simp add: reconcileDdnsService_def footprint_dd_def Let_def)
  qed (simp add: reconcileDdnsService_def replays_ret)
  note ap = replays_seq [OF replays_reconcile_as [OF E]]
  show ?thesis
    unfolding reconcileKeaDhcpDdns_def Let_def
    by (simp add: j, rule exI, rule exI, rule replays_seq [OF replays_markConfigValid [OF E]],
        rule ap, simp add: footprint_dd_def Let_def, simp, rule ap, simp add: footprint_dd_def Let_def, simp,
        rule replays_seq [OF replays_bindSCC [OF E]], rule ap, simp add: footprint_dd_def Let_def, simp,
        rule replays_seq [OF svc], rule replays_seq [OF replays_readyReplicasOf [OF E]], elim conjE exE, hypsubst,
        rule replays_seq [OF replays_writeReadyStatus [OF E]], simp add: cdd.wr_key, rule component_status_settled,
        erule stored_status_dd [where L = L, OF L], assumption, rule replays_event [where A = "{}" and W = "{}", OF E])
      (simp_all add: scc_key_def)
qed

lemma fill_server6_put: "fill_server6 (cr\<lparr>kd6_Status := st\<rparr>) = (fill_server6 cr)\<lparr>kd6_Status := st\<rparr>"
  by (simp add: fill_server6_def Let_def)

lemma service_names_differ:
  "ServiceName n co \<noteq> StorkMetricsServiceName n co" "HeadlessServiceName n co \<noteq> StorkMetricsServiceName n co"
  "ServiceName n co \<noteq> HeadlessServiceName n co"
  by (simp_all add: ServiceName_def StorkMetricsServiceName_def HeadlessServiceName_def)

lemma replays6:
  assumes E: "steady E look" and stable: "stork_stable L (om_Namespace (kd6_ObjectMeta cr)) (d6_Stork (kd6_Spec (fill_server6 cr)))"
    and L: "L (KDhcp6, om_Namespace (kd6_ObjectMeta cr), om_Name (kd6_ObjectMeta cr)) = Some (ODhcp6 (cr\<lparr>kd6_Status := stL\<rparr>))"
  shows "\<exists>A W. replays look L (ready look (om_UID (kd6_ObjectMeta cr)) (footprint6 cr) (KDhcp6, om_Namespace (kd6_ObjectMeta cr), om_Name (kd6_ObjectMeta cr)))
     A W (\<lambda>_ _. True) (reconcileDhcp6Server E cr) (reconcileDhcp6Server E (cr\<lparr>kd6_Status := stL\<rparr>))"
proof -
  obtain json where j: "RenderJSON6 (env_Unmarshal E) (snd (dhcp6_renderer (kd6_Spec (fill_server6 cr)))) = Inr json"
    using RenderJSON6_total by blast
  have pp: "resolveDhcp6PodParams ((fill_server6 cr)\<lparr>kd6_Status := stL\<rparr>) = resolveDhcp6PodParams (fill_server6 cr)"
    by (simp add: resolveDhcp6PodParams_def)
  have sub: "stork_keys (kd6_ObjectMeta cr) ComponentDhcp6 \<subseteq> footprint6 cr" by (auto simp: footprint6_def Let_def)
  note ap = replays_seq [OF replays_reconcile_as [OF E]]
  show ?thesis
    unfolding reconcileDhcp6Server_def Let_def fill_server6_put resolveDhcp6StorkAgent_def reconcileDhcp6ControlService_def
      reconcileDhcp6StorkMonitoring_def updateDhcp6Status_def pp
    by (simp add: j, rule exI, rule exI, rule replays_seq [OF replays_markConfigValid [OF E]],
        rule ap, simp add: footprint6_def Let_def, simp, rule ap, simp add: footprint6_def Let_def, simp,
        rule replays_seq [OF replays_bindSCC [OF E]], rule replays_seq [OF replays_resolveStorkAgent [OF E stable]], hypsubst,
        rule replays_seq [OF replays_apply_at [OF E, where K = "(KDeployment, om_Namespace (kd6_ObjectMeta cr), DeploymentName (om_Name (kd6_ObjectMeta cr)) ComponentDhcp6)"]],
        simp, simp add: footprint6_def Let_def, simp, rule replays_seq [OF replays_reconcileControlService [OF E]],
        simp add: footprint6_def Let_def, rule replays_seq [OF replays_reconcileStorkMonitoring [OF E sub]],
        rule replays_seq, rule replays_seq [OF replays_readyReplicasOf [OF E]], elim conjE exE, hypsubst,
        rule replays_writeReadyStatus [OF E], simp add: c6.wr_key, rule component_status_settled,
        erule stored_status6 [where L = L, OF L], assumption, simp, rule replays_event [where A = "{}" and W = "{}", OF E])
      (auto simp: scc_key_def stork_keys_def stork_reads_def service_names_differ)
qed

section \<open>The DHCPv4 controller\<close>

lemma PerPodServiceName_inj [simp]: "(PerPodServiceName n co (int i) = PerPodServiceName n co (int j)) = (i = j)"
  by (simp add: PerPodServiceName_def)

lemma digits_not: "\<not> is_digit c \<Longrightarrow> dec_nat i \<noteq> c # cs"
  using dec_nat_digits [of i] by (metis list.set_intros(1))

lemma PerPodServiceName_other:
  "PerPodServiceName n co (int i) \<noteq> HeadlessServiceName n co" "PerPodServiceName n co (int i) \<noteq> StorkMetricsServiceName n co"
  "PerPodServiceName n co (int i) \<noteq> ServiceName n co"
  by (simp_all add: PerPodServiceName_def HeadlessServiceName_def StorkMetricsServiceName_def ServiceName_def digits_not is_digit_def)

lemma replays_ha_loop:
  assumes E: "steady E look" and F: "\<forall>i \<in> set is. (KConfigMap, om_Namespace meta, HAConfigMapName (om_Name meta) co (int i)) \<in> F" and "distinct is"
  defines "K \<equiv> \<lambda>i. (KConfigMap, om_Namespace meta, HAConfigMapName (om_Name meta) co (int i))"
  shows "replays look L (ready look (om_UID meta) F c) (K ` set is) (K ` set is) (=)
     (ha_configs_loop E r meta peers co lbls is h) (ha_configs_loop E r meta peers co lbls is h)"
  using assms(2,3)
proof (induction "is" arbitrary: h)
  case (Cons i "is")
  let ?R = "replays look L (ready look (om_UID meta) F c)"
  have IH: "?R (K ` set is) (K ` set is) (=) (ha_configs_loop E r meta peers co lbls is h) (ha_configs_loop E r meta peers co lbls is h)" for h
    using Cons by simp
  show ?case
  proof (cases "RenderJSONWithServerName4 (env_Unmarshal E) r (ha_server_name peers i)")
    case (Inl e)
    with replays_mono [OF IH] show ?thesis by (simp add: subset_insertI)
  next
    case (Inr json)
    let ?o = "OConfigMap (ha_config_map meta co lbls i json)"
    have o: "obj_key ?o = K i" "obj_owner ?o = None"
      by (simp_all add: K_def obj_key_def obj_owner_def ha_config_map_def ConfigMapMeta_def object_meta_def zero_ObjectMeta_def)
    have "K i \<in> F" using Cons.prems by (simp add: K_def)
    then have 1: "?R {K i} {K i} (both_ok (\<lambda>_ _. True)) (attempt (reconcileResource E meta ?o)) (attempt (reconcileResource E meta ?o))"
      using replays_attempt [OF replays_reconcileResource [OF E, of ?o F L meta c]] o by simp
    have "?R ({K i} \<union> K ` set is) ({K i} \<union> K ` set is) (=) (ha_configs_loop E r meta peers co lbls (i # is) h) (ha_configs_loop E r meta peers co lbls (i # is) h)"
      unfolding ha_configs_loop.simps Inr sum.case
      by (rule replays_seq [OF 1]) (use IH Cons.prems in \<open>auto simp: K_def\<close>)
    then show ?thesis by simp
  qed
qed (simp add: replays_ret)

lemma replays_config4:
  fixes server :: KeaDhcp4Server
  assumes E: "steady E look" and F: "config_keys4 server \<subseteq> F" and k: "k = replicas_or_one (d4_Replicas (kd4_Spec server))"
  shows "replays look L (ready look (om_UID (kd4_ObjectMeta server)) F c) (config_keys4 server) (config_keys4 server) (=)
     (reconcileDhcp4Config E server r ComponentDhcp4 lbls k) (reconcileDhcp4Config E (server\<lparr>kd4_Status := stL\<rparr>) r ComponentDhcp4 lbls k)"
proof -
  let ?m = "kd4_ObjectMeta server"
  let ?R = "replays look L (ready look (om_UID ?m) F c)"
  obtain json where j: "RenderJSON4 (env_Unmarshal E) r = Inr json" using RenderJSON4_total by blast
  show ?thesis
  proof (cases "d4_HighAvailability (kd4_Spec server)")
    case None
    let ?o = "OConfigMap (BuildConfigMap (om_Namespace ?m) (om_Name ?m) ComponentDhcp4 json lbls)"
    let ?K = "(KConfigMap, om_Namespace ?m, ConfigMapName (om_Name ?m) ComponentDhcp4)"
    have "?R ({?K} \<union> {}) ({?K} \<union> {}) (=) (seq (reconcile_as w E ?m ?o) (\<lambda>_. ret h)) (seq (reconcile_as w E ?m ?o) (\<lambda>_. ret h))" for w h
      by (rule replays_seq [OF replays_apply_at [OF E]]) (use F None in \<open>simp_all add: config_keys4_def Let_def replays_ret\<close>)
    with None show ?thesis by (simp add: reconcileDhcp4Config_def config_keys4_def j Let_def)
  next
    case (Some ha)
    let ?C = "(\<lambda>i. (KConfigMap, om_Namespace ?m, HAConfigMapName (om_Name ?m) ComponentDhcp4 (int i))) ` set (ordinals k)"
    have "?R (?C \<union> {}) (?C \<union> {}) (=) (reconcileHAConfigs E r ?m ha ComponentDhcp4 lbls k) (reconcileHAConfigs E r ?m ha ComponentDhcp4 lbls k)"
      unfolding reconcileHAConfigs_def
      by (rule replays_seq [OF replays_ha_loop [OF E]]) (use F Some k in \<open>auto simp: config_keys4_def Let_def ordinals_def replays_ret\<close>)
    with Some k show ?thesis by (simp add: reconcileDhcp4Config_def config_keys4_def Let_def)
  qed
qed

lemma put_status4:
  "kd4_ObjectMeta (server\<lparr>kd4_Status := st\<rparr>) = kd4_ObjectMeta server" "kd4_Spec (server\<lparr>kd4_Status := st\<rparr>) = kd4_Spec server"
  "kd4_Status (server\<lparr>kd4_Status := st\<rparr>) = st" "nadInterface (server\<lparr>kd4_Status := st\<rparr>) = nadInterface server"
  "nadSubnet (server\<lparr>kd4_Status := st\<rparr>) = nadSubnet server" "resolveDhcp4PodParams (server\<lparr>kd4_Status := st\<rparr>) = resolveDhcp4PodParams server"
  by (simp_all add: nadInterface_def nadSubnet_def resolveDhcp4PodParams_def)

lemma replays_workload4:
  assumes E: "steady E look" and F: "workload_keys4 server \<subseteq> F" and k: "k = replicas_or_one (d4_Replicas (kd4_Spec server))"
    and valid: "case d4_HighAvailability (kd4_Spec server) of None \<Rightarrow> True | Some ha \<Rightarrow> peers_valid (env_URLHostname E) (ha_Peers ha)"
  shows "replays look L (ready look (om_UID (kd4_ObjectMeta server)) F c) (workload_keys4 server) (workload_keys4 server) (=)
     (reconcileDhcp4Workload E server ComponentDhcp4 pp k h env agent)
     (reconcileDhcp4Workload E (server\<lparr>kd4_Status := stL\<rparr>) ComponentDhcp4 pp k h env agent)"
proof -
  let ?m = "kd4_ObjectMeta server" let ?ns = "om_Namespace ?m" and ?n = "om_Name ?m"
  let ?R = "replays look L (ready look (om_UID ?m) F c)"
  show ?thesis
  proof (cases "d4_HighAvailability (kd4_Spec server)")
    case None
    let ?K = "(KDeployment, ?ns, DeploymentName ?n ComponentDhcp4)"
    have "?R ({?K} \<union> {?K}) ({?K} \<union> {}) (=) (reconcileDhcp4Deployment E server ComponentDhcp4 pp k h env agent)
        (reconcileDhcp4Deployment E (server\<lparr>kd4_Status := stL\<rparr>) ComponentDhcp4 pp k h env agent)"
      unfolding reconcileDhcp4Deployment_def Let_def put_status4
      by (rule replays_seq [OF replays_apply_at [OF E]])
        (use F None in \<open>simp_all add: workload_keys4_def Let_def replays_readyReplicasOf [OF E]\<close>)
    with None show ?thesis by (simp add: reconcileDhcp4Workload_def workload_keys4_def Let_def)
  next
    case (Some ha)
    let ?H = "(KService, ?ns, HeadlessServiceName ?n ComponentDhcp4)" and ?S = "(KStatefulSet, ?ns, StatefulSetName ?n ComponentDhcp4)"
    let ?P = "\<lambda>i. (KService, ?ns, PerPodServiceName ?n ComponentDhcp4 (int i))"
    have keys: "?H \<in> F" "?S \<in> F" "\<forall>i \<in> set (ordinals k). ?P i \<in> F"
      using F Some k by (auto simp: workload_keys4_def Let_def)
    obtain hosts where hosts: "peer_hostnames (env_URLHostname E) ?m ComponentDhcp4 (enumerate 0 (ha_Peers ha)) [] = Inr hosts"
      using peer_hostnames_result [of "env_URLHostname E" ?m ComponentDhcp4 "enumerate 0 (ha_Peers ha)" "[]"] valid Some by auto
    have ps: "ha_statefulset_params (server\<lparr>kd4_Status := stL\<rparr>) co' pp' k' h' e' a' p' m' = ha_statefulset_params server co' pp' k' h' e' a' p' m'"
      for co' pp' k' h' e' a' p' m' by (simp add: ha_statefulset_params_def put_status4)
    have pods: "?R (?P ` set (ordinals k)) (?P ` set (ordinals k)) (\<lambda>_ _. True) (for_each f (ordinals k)) (for_each f (ordinals k))"
      if "\<And>i. i \<in> set (ordinals k) \<Longrightarrow> ?R {?P i} {?P i} (\<lambda>_ _. True) (f i) (f i)" for f
      by (rule replays_for_each [OF that]) (simp_all add: ordinals_def distinct_map inj_on_def)
    have "?R ({?H} \<union> (?P ` set (ordinals k) \<union> ({} \<union> ({?S} \<union> {?S})))) ({?H} \<union> (?P ` set (ordinals k) \<union> ({} \<union> ({?S} \<union> {})))) (=)
        (reconcileDhcp4HAWorkload E server ComponentDhcp4 pp k h env agent ha)
        (reconcileDhcp4HAWorkload E (server\<lparr>kd4_Status := stL\<rparr>) ComponentDhcp4 pp k h env agent ha)"
      unfolding reconcileDhcp4HAWorkload_def Let_def ps put_status4 hosts
      by (rule replays_seq [OF replays_apply_at [OF E]], simp, simp add: keys, simp, rule replays_seq [OF pods], rule replays_apply_at [OF E],
          simp, use keys(3) in blast, simp, rule replays_seq [OF replays_lift [where A = "{}" and W = "{}"]], hypsubst,
          rule replays_seq [OF replays_apply_at [OF E]], simp add: ha_statefulset_params_def Let_def, simp add: keys, simp,
          rule replays_readyReplicasOf [OF E])
        (auto simp: PerPodServiceName_other PerPodServiceName_other [symmetric])
    then have "?R (workload_keys4 server) (workload_keys4 server) (=)
        (reconcileDhcp4HAWorkload E server ComponentDhcp4 pp k h env agent ha)
        (reconcileDhcp4HAWorkload E (server\<lparr>kd4_Status := stL\<rparr>) ComponentDhcp4 pp k h env agent ha)"
      by (rule replays_mono) (use Some k in \<open>auto simp: workload_keys4_def Let_def\<close>)
    with Some show ?thesis by (simp add: reconcileDhcp4Workload_def)
  qed
qed

lemma status4_settled:
  "stL = set_ready_status n1 n2 a b ((component_status meta co h a (config_valid n st))\<lparr>d4st_NADAddresses := as\<rparr>) \<Longrightarrow>
   set_ready_status m1 m2 a b ((component_status meta co h a (config_valid m stL))\<lparr>d4st_NADAddresses := as\<rparr>)
     = set_ready_status n1 n2 a b ((component_status meta co h a (config_valid n st))\<lparr>d4st_NADAddresses := as\<rparr>)"
  by (erule status_settled [where g = "\<lambda>st. (component_status meta co h a st)\<lparr>d4st_NADAddresses := as\<rparr>", rotated 2])
    (simp_all add: component_status_def set_ready_status_def)

lemma seq_lift: "seq (lift (Inr x)) f = f x"
  by (rule ext) (simp add: seq_def lift_def)

lemma replays_publish4:
  assumes E: "steady E look" and F: "publish_keys4 server \<subseteq> F" and k: "0 \<le> sint k"
    and c: "c = (KDhcp4, om_Namespace (kd4_ObjectMeta server), om_Name (kd4_ObjectMeta server))"
    and L: "L c = Some (ODhcp4 (cr\<lparr>kd4_Status := stL\<rparr>))"
  shows "replays look L (ready look (om_UID (kd4_ObjectMeta server)) F c) (insert c (publish_keys4 server)) (insert c (publish_keys4 server)) (\<lambda>_ _. True)
     (publishDhcp4 E server (config_valid n st) h a k agent) (publishDhcp4 E (server\<lparr>kd4_Status := stL\<rparr>) (config_valid m stL) h a k agent)"
proof -
  obtain as where as: "computeNADAddresses (nadSubnet server) (sint k) = Inr as" using nad_total [OF k] by blast
  have keys: "(KService, om_Namespace (kd4_ObjectMeta server), ServiceName (om_Name (kd4_ObjectMeta server)) ComponentDhcp4) \<in> F"
    "stork_keys (kd4_ObjectMeta server) ComponentDhcp4 \<subseteq> F"
    using F by (auto simp: publish_keys4_def)
  have upd: "replays look L (ready look (om_UID (kd4_ObjectMeta server)) F c) {c} {c} (\<lambda>_ _. True)
      (writeReadyStatus E (with_status4 server) a k ((component_status (kd4_ObjectMeta server) ComponentDhcp4 h a (config_valid n st))\<lparr>d4st_NADAddresses := as\<rparr>))
      (writeReadyStatus E (with_status4 server) a k ((component_status (kd4_ObjectMeta server) ComponentDhcp4 h a (config_valid m stL))\<lparr>d4st_NADAddresses := as\<rparr>))"
    by (rule replays_writeReadyStatus [OF E], simp add: with_status4_def obj_key_def c, rule status4_settled, erule stored_status4 [where L = L, OF L])
      (simp add: c)
  have "replays look L (ready look (om_UID (kd4_ObjectMeta server)) F c)
     ({(KService, om_Namespace (kd4_ObjectMeta server), ServiceName (om_Name (kd4_ObjectMeta server)) ComponentDhcp4)}
        \<union> (stork_keys (kd4_ObjectMeta server) ComponentDhcp4 \<union> ({c} \<union> {})))
     ({(KService, om_Namespace (kd4_ObjectMeta server), ServiceName (om_Name (kd4_ObjectMeta server)) ComponentDhcp4)}
        \<union> (stork_keys (kd4_ObjectMeta server) ComponentDhcp4 \<union> ({c} \<union> {}))) (\<lambda>_ _. True)
     (publishDhcp4 E server (config_valid n st) h a k agent) (publishDhcp4 E (server\<lparr>kd4_Status := stL\<rparr>) (config_valid m stL) h a k agent)"
    unfolding publishDhcp4_def updateDhcp4Status_def reconcileDhcp4ControlService_def reconcileDhcp4StorkMonitoring_def Let_def put_status4
      with_status_put as seq_lift
    by (rule replays_seq [OF replays_reconcileControlService [OF E keys(1)]], rule replays_seq [OF replays_reconcileStorkMonitoring [OF E keys(2)]],
        rule replays_seq [OF upd], rule replays_event [OF E])
      (auto simp: c stork_keys_def service_names_differ)
  then show ?thesis by (rule replays_mono) (auto simp: publish_keys4_def)
qed

lemma fill_server4_put: "fill_server4 (cr\<lparr>kd4_Status := st\<rparr>) = (fill_server4 cr)\<lparr>kd4_Status := st\<rparr>"
  by (simp add: fill_server4_def Let_def)

lemma footprint4_sets:
  "publish_keys4 cr \<inter> workload_keys4 cr = {}" "config_keys4 cr \<inter> rollout_keys4 cr = {}"
  "(KServiceAccount, K) \<notin> workload_keys4 cr" "(KServiceAccount, K) \<notin> publish_keys4 cr" "(KDhcp4, K) \<notin> footprint4 cr" "(KRoleBinding, K) \<notin> footprint4 cr"
  "(KStorkServer, K) \<notin> footprint4 cr" "(KSecret, K) \<notin> footprint4 cr"
  by (auto simp: publish_keys4_def workload_keys4_def config_keys4_def rollout_keys4_def footprint4_def stork_keys_def Let_def service_names_differ
      PerPodServiceName_other PerPodServiceName_other [symmetric] service_names_differ [symmetric] split: option.splits)

lemma replays4:
  assumes E: "steady E look" and sound: "sound4 E cr"
    and stable: "stork_stable L (om_Namespace (kd4_ObjectMeta cr)) (d4_Stork (kd4_Spec (fill_server4 cr)))"
    and L: "L (KDhcp4, om_Namespace (kd4_ObjectMeta cr), om_Name (kd4_ObjectMeta cr)) = Some (ODhcp4 (cr\<lparr>kd4_Status := stL\<rparr>))"
  shows "\<exists>A W. replays look L (ready look (om_UID (kd4_ObjectMeta cr)) (footprint4 cr) (KDhcp4, om_Namespace (kd4_ObjectMeta cr), om_Name (kd4_ObjectMeta cr)))
     A W (\<lambda>_ _. True) (reconcileDhcp4Server E cr) (reconcileDhcp4Server E (cr\<lparr>kd4_Status := stL\<rparr>))"
proof -
  let ?s = "fill_server4 cr" let ?k = "replicas_or_one (d4_Replicas (kd4_Spec cr))"
  let ?c = "(KDhcp4, om_Namespace (kd4_ObjectMeta cr), om_Name (kd4_ObjectMeta cr))"
  let ?R = "replays look L (ready look (om_UID (kd4_ObjectMeta cr)) (footprint4 cr) ?c)"
  have sub: "config_keys4 ?s \<subseteq> footprint4 cr" "workload_keys4 ?s \<subseteq> footprint4 cr" "publish_keys4 ?s \<subseteq> footprint4 cr"
    by (auto simp: footprint4_def rollout_keys4_def)
  have 1: "?R (config_keys4 cr) (config_keys4 cr) (=) (reconcileDhcp4Config E ?s r ComponentDhcp4 lbls ?k)
      (reconcileDhcp4Config E (?s\<lparr>kd4_Status := stL\<rparr>) r ComponentDhcp4 lbls ?k)" for r lbls
    using replays_config4 [OF E sub(1), of ?k L ?c r lbls stL] by simp
  have 2: "?R (workload_keys4 cr) (workload_keys4 cr) (=) (reconcileDhcp4Workload E ?s ComponentDhcp4 pp ?k h env agent)
      (reconcileDhcp4Workload E (?s\<lparr>kd4_Status := stL\<rparr>) ComponentDhcp4 pp ?k h env agent)" for pp h env agent
    using replays_workload4 [OF E sub(2), of ?k L ?c pp h env agent stL] sound by (simp add: sound4_def)
  have 3: "?R (insert ?c (publish_keys4 cr)) (insert ?c (publish_keys4 cr)) (\<lambda>_ _. True) (publishDhcp4 E ?s (config_valid n st) h a ?k agent)
      (publishDhcp4 E (?s\<lparr>kd4_Status := stL\<rparr>) (config_valid m stL) h a ?k agent)" for n st h a agent m
    using replays_publish4 [OF E sub(3), where k = ?k and c = ?c and L = L and cr = cr and stL = stL and n = n and st = st and h = h and a = a
        and agent = agent and m = m] sound L by (simp add: sound4_def)
  show ?thesis
    unfolding reconcileDhcp4Server_def rolloutDhcp4_def resolveDhcp4StorkAgent_def Let_def fill_server4_put put_status4
    by (simp only: fill_server4_fields, rule exI, rule exI, rule replays_seq [OF 1], hypsubst, rule replays_seq [OF replays_markConfigValid [OF E]],
        rule replays_seq [OF replays_apply_at [OF E]], simp, simp add: footprint4_def rollout_keys4_def, simp,
        rule replays_seq [OF replays_bindSCC [OF E]], rule replays_seq [OF replays_resolveStorkAgent [OF E stable]], hypsubst,
        rule replays_seq [OF 2], elim conjE exE, hypsubst, rule 3)
      (use footprint4_sets [where cr = cr] in \<open>auto simp: scc_key_def stork_reads_def rollout_keys4_def footprint4_def\<close>)
qed

section \<open>The Stork server controller\<close>

lemma replays_ensureSecret:
  assumes E: "steady E look" and key: "\<And>bs. obj_key (OSecret (build bs)) = (KSecret, om_Namespace meta, name)"
    and own: "\<And>bs. obj_owner (OSecret (build bs)) = None" and F: "(KSecret, om_Namespace meta, name) \<in> F"
  shows "replays look L (ready look (om_UID meta) F c) {(KSecret, om_Namespace meta, name)} {(KSecret, om_Namespace meta, name)} (\<lambda>_ _. True)
     (ensureSecret E meta what gen name build) (ensureSecret E meta what gen name build)"
proof (rule replays_once)
  let ?K = "(KSecret, om_Namespace meta, name)"
  note law = steadyD(2) [OF E]
  show "succeeds (ready look (om_UID meta) F c) (ensureSecret E meta what gen name build)"
    by (rule succeeds_ensureSecret [OF steadyD(1) [OF E]]) (simp_all add: key own F)
  show "valid (\<lambda>_. True) (ensureSecret E meta what gen name build) (\<lambda>_ s. look s ?K \<noteq> None)"
  proof (rule validI)
    fix s u s' assume "ensureSecret E meta what gen name build s = (Inr u, s')"
    from validD [OF ensureSecret_post [OF law key] refl this] show "look s' ?K \<noteq> None"
      by (auto simp: secret_after_def split: option.splits)
  qed
  show "keeps (\<lambda>s. look s K' = v) (ensureSecret E meta what gen name build)" if "K' \<noteq> ?K" for K' v
    using that by (intro keeps_ensureSecret [OF env_keeps_look [OF law] store_lawD(1) [OF law]]) (auto simp: key covers_def)
  show "\<exists>x t'. ensureSecret E meta what gen name build t = (Inr x, t') \<and> look t' = look t" if ex: "look t ?K \<noteq> None" for t
  proof -
    obtain x where x: "look t ?K = Some x" using ex by blast
    obtain y where "as_secret x = Some y" using secret_decodes [OF store_lawD(4) [OF law, OF x]] by blast
    with get_as_reads [OF E, of KSecret as_secret "om_Namespace meta" name t] x show ?thesis
      by (auto simp: ensureSecret_def seq_def attempt_def ret_def)
  qed
qed

text \<open>The provisional URL, the URL of the admitted Route, and the fields the reconciler sets.\<close>

definition stork_url0 :: "'s env \<Rightarrow> ObjectMeta \<Rightarrow> KeaStorkServerStatus \<Rightarrow> KeaStorkServerStatus" where
  "stork_url0 E meta st =
     (if env_IsOpenShift E
      then st\<lparr>ssst_URL := ''https://'' @ ServiceName (om_Name meta) StorkServerComponent @ ''-'' @ om_Namespace meta @ ''.apps.'' @ ''cluster.local''\<rparr>
      else st)"

definition stork_url1 :: "'s env \<Rightarrow> string \<Rightarrow> KeaStorkServerStatus \<Rightarrow> KeaStorkServerStatus" where
  "stork_url1 E url st = (if env_IsOpenShift E \<and> url \<noteq> '''' then st\<lparr>ssst_URL := url\<rparr> else st)"

definition stork_fields :: "KeaStorkServer \<Rightarrow> int32 \<Rightarrow> KeaStorkServerStatus \<Rightarrow> KeaStorkServerStatus" where
  "stork_fields cr a st = st\<lparr>st_ReadyReplicas := a, st_ObservedGeneration := om_Generation (kss_ObjectMeta cr),
     ssst_AdminSecretName := ssv_AdminSecretName (storkServerParams cr), ssst_ServerTokenSecretName := ssv_ServerTokenSecretName (storkServerParams cr)\<rparr>"

lemma stork_status_settled:
  assumes "stL = stork_url1 E url (set_ready_status n1 n2 a b (stork_fields cr a (stork_url0 E meta st)))"
  shows "stork_url1 E url (set_ready_status m1 m2 a b (stork_fields cr a (stork_url0 E meta stL))) = stL"
  unfolding assms by (simp add: stork_url1_def stork_url0_def stork_fields_def set_ready_status_def ready_conditions_idem)

lemma replays_storkRoute:
  assumes E: "steady E look" and F: "(KUnstructured kindRoute, om_Namespace (kss_ObjectMeta cr), ServiceName (om_Name (kss_ObjectMeta cr)) StorkServerComponent) \<in> F"
  defines "K \<equiv> (KUnstructured kindRoute, om_Namespace (kss_ObjectMeta cr), ServiceName (om_Name (kss_ObjectMeta cr)) StorkServerComponent)"
  shows "replays look L (ready look (om_UID (kss_ObjectMeta cr)) F c) {K} {K}
     (\<lambda>x x'. x = stork_url0 E (kss_ObjectMeta cr) (kss_Status cr) \<and> x' = stork_url0 E (kss_ObjectMeta cr) stL)
     (reconcileStorkRoute E cr) (reconcileStorkRoute E (cr\<lparr>kss_Status := stL\<rparr>))"
proof (cases "env_IsOpenShift E")
  case True
  have put: "kss_ObjectMeta (cr\<lparr>kss_Status := stL\<rparr>) = kss_ObjectMeta cr" "kss_Status (cr\<lparr>kss_Status := stL\<rparr>) = stL" by simp_all
  let ?j = "BuildStorkServerRoute (om_Namespace (kss_ObjectMeta cr)) (om_Name (kss_ObjectMeta cr))"
  have r: "replays look L (ready look (om_UID (kss_ObjectMeta cr)) F c) {K} {K} (both_ok (\<lambda>_ _. True))
      (attempt (reconcileRoute E (kss_ObjectMeta cr) ?j)) (attempt (reconcileRoute E (kss_ObjectMeta cr) ?j))"
    using replays_attempt [OF replays_reconcileRoute [OF E, of ?j F L "kss_ObjectMeta cr" c]] F by (simp add: K_def)
  have "replays look L (ready look (om_UID (kss_ObjectMeta cr)) F c) ({K} \<union> {}) ({K} \<union> {})
     (\<lambda>x x'. x = stork_url0 E (kss_ObjectMeta cr) (kss_Status cr) \<and> x' = stork_url0 E (kss_ObjectMeta cr) stL)
     (reconcileStorkRoute E cr) (reconcileStorkRoute E (cr\<lparr>kss_Status := stL\<rparr>))"
    unfolding reconcileStorkRoute_def Let_def if_P [OF True] put
    by (rule replays_seq [OF r]) (simp_all add: replays_ret stork_url0_def True)
  then show ?thesis by simp
qed (simp add: reconcileStorkRoute_def replays_ret stork_url0_def)

lemma replays_actualRouteURL:
  fixes cr :: KeaStorkServer
  assumes E: "steady E look"
  defines "K \<equiv> (KUnstructured kindRoute, om_Namespace (kss_ObjectMeta cr), ServiceName (om_Name (kss_ObjectMeta cr)) StorkServerComponent)"
  shows "replays look L (ready look u F c) {K} {} (\<lambda>x x'. \<exists>url. x = stork_url1 E url st \<and> x' = stork_url1 E url st')
     (actualRouteURL E cr st) (actualRouteURL E (cr\<lparr>kss_Status := stL\<rparr>) st')"
proof (cases "env_IsOpenShift E")
  case True
  have put: "kss_ObjectMeta (cr\<lparr>kss_Status := stL\<rparr>) = kss_ObjectMeta cr" by simp
  have url: "replays look L (ready look u F c) ({K} \<union> {}) ({} \<union> {}) (=) (getRouteURL E (om_Namespace (kss_ObjectMeta cr)) (ServiceName (om_Name (kss_ObjectMeta cr)) StorkServerComponent))
      (getRouteURL E (om_Namespace (kss_ObjectMeta cr)) (ServiceName (om_Name (kss_ObjectMeta cr)) StorkServerComponent))"
    unfolding getRouteURL_def K_def
    by (rule replays_seq [OF replays_get_as [OF E]]) (auto simp: replays_ret same_read_def split: sum.splits)
  have "replays look L (ready look u F c) (({K} \<union> {}) \<union> {}) (({} \<union> {}) \<union> {}) (\<lambda>x x'. \<exists>url. x = stork_url1 E url st \<and> x' = stork_url1 E url st')
     (actualRouteURL E cr st) (actualRouteURL E (cr\<lparr>kss_Status := stL\<rparr>) st')"
    unfolding actualRouteURL_def Let_def if_P [OF True] put
    by (rule replays_seq [OF url]) (auto intro!: replays_ret simp: stork_url1_def True)
  then show ?thesis by simp
qed (auto simp: actualRouteURL_def stork_url1_def intro!: replays_ret)

lemma replays_ss:
  assumes E: "steady E look"
    and L: "L (KStorkServer, om_Namespace (kss_ObjectMeta cr), om_Name (kss_ObjectMeta cr)) = Some (OStorkServer (cr\<lparr>kss_Status := stL\<rparr>))"
  shows "\<exists>A W. replays look L (ready look (om_UID (kss_ObjectMeta cr)) (footprint_ss cr) (KStorkServer, om_Namespace (kss_ObjectMeta cr), om_Name (kss_ObjectMeta cr)))
     A W (\<lambda>_ _. True) (reconcileKeaStorkServer E cr) (reconcileKeaStorkServer E (cr\<lparr>kss_Status := stL\<rparr>))"
proof -
  let ?m = "kss_ObjectMeta cr" let ?c = "(KStorkServer, om_Namespace ?m, om_Name ?m)"
  have put: "kss_ObjectMeta (cr\<lparr>kss_Status := stL\<rparr>) = ?m" "storkServerParams (cr\<lparr>kss_Status := stL\<rparr>) = storkServerParams cr"
    "kss_Spec (cr\<lparr>kss_Status := stL\<rparr>) = kss_Spec cr" by (simp_all add: storkServerParams_def)
  have keys: "(KServiceAccount, om_Namespace ?m, ServiceAccountName (om_Name ?m)) \<in> footprint_ss cr"
    "(KSecret, om_Namespace ?m, StorkAdminSecretName (om_Name ?m)) \<in> footprint_ss cr"
    "(KSecret, om_Namespace ?m, StorkServerTokenSecretName (om_Name ?m)) \<in> footprint_ss cr"
    "(KDeployment, om_Namespace ?m, DeploymentName (om_Name ?m) StorkServerComponent) \<in> footprint_ss cr"
    "(KService, om_Namespace ?m, ServiceName (om_Name ?m) StorkServerComponent) \<in> footprint_ss cr"
    "(KUnstructured kindRoute, om_Namespace ?m, ServiceName (om_Name ?m) StorkServerComponent) \<in> footprint_ss cr"
    by (simp_all add: footprint_ss_def Let_def)
  have upd: "replays look L (ready look (om_UID ?m) (footprint_ss cr) ?c) {?c} {?c} (\<lambda>_ _. True)
      (api_StatusUpdate E (with_status_ss cr x)) (api_StatusUpdate E (with_status_ss cr x'))"
    if x: "x = stork_url1 E url (set_ready_status n1 n2 a b (stork_fields cr a (stork_url0 E ?m st)))"
      and x': "x' = stork_url1 E url (set_ready_status m1 m2 a b (stork_fields cr a (stork_url0 E ?m stL)))" for x x' url n1 n2 m1 m2 a b st
  proof (rule replays_StatusUpdate [OF E])
    fix l assume "L ?c = Some (set_status l (with_status_ss cr x))" and l: "obj_key l = ?c"
    from stored_status_ss [where L = L, OF L, OF this] have "x' = x" unfolding x x' using stork_status_settled by metis
    moreover have "Api.kind_of l = Api.kind_of (with_status_ss cr x)" by (rule kind_of_same_key) (simp add: l css.wr_key)
    ultimately show "set_status (set_status l (with_status_ss cr x)) (with_status_ss cr x') = set_status l (with_status_ss cr x)"
      by (simp add: set_status_twice)
  qed (simp_all add: css.wr_key)
  note ap = replays_seq [OF replays_apply_at [OF E]] and sec = replays_seq [OF replays_ensureSecret [OF E]]
  show ?thesis
    unfolding reconcileKeaStorkServer_def reconcileAdminSecret_def reconcileTokenSecret_def Let_def put stork_fields_def [symmetric] with_status_put
    by (rule exI, rule exI, rule ap, simp, simp add: keys, simp, rule sec, simp, simp, rule keys, rule sec, simp, simp, rule keys,
        rule ap, simp, simp add: keys, simp, rule ap, simp, simp add: keys, simp, rule replays_seq [OF replays_storkRoute [OF E keys(6)]],
        rule replays_seq [OF replays_readyReplicasOf [OF E]], elim conjE, hypsubst, rule replays_seq [OF replays_setReadyStatus [OF E]],
        elim conjE exE, hypsubst, rule replays_seq [OF replays_actualRouteURL [OF E]], elim conjE exE, hypsubst,
        rule replays_seq [OF replays_wrap [OF upd [OF refl refl]]], rule replays_event [where A = "{}" and W = "{}", OF E])
      (auto simp: StorkAdminSecretName_def StorkServerTokenSecretName_def)
qed

section \<open>Every component controller settles\<close>

text \<open>An object that differs from another in its status only is that object with its own status.\<close>

lemma put_back:
  "x0\<lparr>kd4_Status := s0\<rparr> = y0 \<Longrightarrow> \<exists>st. x0 = y0\<lparr>kd4_Status := st\<rparr>"
  "x1\<lparr>kd6_Status := s1\<rparr> = y1 \<Longrightarrow> \<exists>st. x1 = y1\<lparr>kd6_Status := st\<rparr>"
  "x2\<lparr>kca_Status := s2\<rparr> = y2 \<Longrightarrow> \<exists>st. x2 = y2\<lparr>kca_Status := st\<rparr>"
  "x3\<lparr>kdd_Status := s3\<rparr> = y3 \<Longrightarrow> \<exists>st. x3 = y3\<lparr>kdd_Status := st\<rparr>"
  "x4\<lparr>kss_Status := s4\<rparr> = y4 \<Longrightarrow> \<exists>st. x4 = y4\<lparr>kss_Status := st\<rparr>"
  by (rule exI [of _ "kd4_Status x0"], force, rule exI [of _ "kd6_Status x1"], force, rule exI [of _ "kca_Status x2"], force, rule exI [of _ "kdd_Status x3"], force, rule exI [of _ "kss_Status x4"], force)

interpretation s4: settling_controller KDhcp4 as_dhcp4 kd4_ObjectMeta "\<lambda>s. with_status4 (fill_server4 s)" footprint4 reconcileDhcp4Server sound4
  "\<lambda>cr st. cr\<lparr>kd4_Status := st\<rparr>" "\<lambda>L cr. stork_stable L (om_Namespace (kd4_ObjectMeta cr)) (d4_Stork (kd4_Spec (fill_server4 cr)))"
proof unfold_locales
  fix x y cr assume "as_dhcp4 x = Some cr" "set_status y x = x" "obj_key y = obj_key x"
  then show "\<exists>st. as_dhcp4 y = Some (cr\<lparr>kd4_Status := st\<rparr>)"
    by (cases x; cases y) (auto simp: as_dhcp4_def set_status_def obj_key_def dest: put_back)
next
  fix E :: "'s env" and look L cr st y
  assume "as_dhcp4 y = Some (cr\<lparr>kd4_Status := st\<rparr>)" "L (KDhcp4, om_Namespace (kd4_ObjectMeta cr), om_Name (kd4_ObjectMeta cr)) = Some y"
    and a: "steady E look" "sound4 E cr" "stork_stable L (om_Namespace (kd4_ObjectMeta cr)) (d4_Stork (kd4_Spec (fill_server4 cr)))"
  then have "L (KDhcp4, om_Namespace (kd4_ObjectMeta cr), om_Name (kd4_ObjectMeta cr)) = Some (ODhcp4 (cr\<lparr>kd4_Status := st\<rparr>))"
    by (cases y) (simp_all add: as_dhcp4_def)
  then show "\<exists>A W. replays look L (ready look (om_UID (kd4_ObjectMeta cr)) (footprint4 cr) (KDhcp4, om_Namespace (kd4_ObjectMeta cr), om_Name (kd4_ObjectMeta cr)))
     A W (\<lambda>_ _. True) (reconcileDhcp4Server E cr) (reconcileDhcp4Server E (cr\<lparr>kd4_Status := st\<rparr>))"
    by (rule replays4 [OF a])
qed (use footprint4_sets in auto)

interpretation s6: settling_controller KDhcp6 as_dhcp6 kd6_ObjectMeta "\<lambda>s. with_status6 (fill_server6 s)" footprint6 reconcileDhcp6Server "\<lambda>_ _. True"
  "\<lambda>cr st. cr\<lparr>kd6_Status := st\<rparr>" "\<lambda>L cr. stork_stable L (om_Namespace (kd6_ObjectMeta cr)) (d6_Stork (kd6_Spec (fill_server6 cr)))"
proof unfold_locales
  fix x y cr assume "as_dhcp6 x = Some cr" "set_status y x = x" "obj_key y = obj_key x"
  then show "\<exists>st. as_dhcp6 y = Some (cr\<lparr>kd6_Status := st\<rparr>)"
    by (cases x; cases y) (auto simp: as_dhcp6_def set_status_def obj_key_def dest: put_back)
next
  fix E :: "'s env" and look L cr st y
  assume "as_dhcp6 y = Some (cr\<lparr>kd6_Status := st\<rparr>)" "L (KDhcp6, om_Namespace (kd6_ObjectMeta cr), om_Name (kd6_ObjectMeta cr)) = Some y"
    and a: "steady E look" "stork_stable L (om_Namespace (kd6_ObjectMeta cr)) (d6_Stork (kd6_Spec (fill_server6 cr)))"
  then have "L (KDhcp6, om_Namespace (kd6_ObjectMeta cr), om_Name (kd6_ObjectMeta cr)) = Some (ODhcp6 (cr\<lparr>kd6_Status := st\<rparr>))"
    by (cases y) (simp_all add: as_dhcp6_def)
  then show "\<exists>A W. replays look L (ready look (om_UID (kd6_ObjectMeta cr)) (footprint6 cr) (KDhcp6, om_Namespace (kd6_ObjectMeta cr), om_Name (kd6_ObjectMeta cr)))
     A W (\<lambda>_ _. True) (reconcileDhcp6Server E cr) (reconcileDhcp6Server E (cr\<lparr>kd6_Status := st\<rparr>))"
    by (rule replays6 [OF a])
qed (auto simp: footprint6_def Let_def stork_keys_def split: option.splits)

interpretation sca: settling_controller KControlAgent as_ca kca_ObjectMeta with_status_ca footprint_ca reconcileKeaControlAgent "\<lambda>_ _. True"
  "\<lambda>cr st. cr\<lparr>kca_Status := st\<rparr>" "\<lambda>_ _. True"
proof unfold_locales
  fix x y cr assume "as_ca x = Some cr" "set_status y x = x" "obj_key y = obj_key x"
  then show "\<exists>st. as_ca y = Some (cr\<lparr>kca_Status := st\<rparr>)"
    by (cases x; cases y) (auto simp: as_ca_def set_status_def obj_key_def dest: put_back)
next
  fix E :: "'s env" and look L cr st y
  assume "as_ca y = Some (cr\<lparr>kca_Status := st\<rparr>)" "L (KControlAgent, om_Namespace (kca_ObjectMeta cr), om_Name (kca_ObjectMeta cr)) = Some y"
    and a: "steady E look"
  then have "L (KControlAgent, om_Namespace (kca_ObjectMeta cr), om_Name (kca_ObjectMeta cr)) = Some (OControlAgent (cr\<lparr>kca_Status := st\<rparr>))"
    by (cases y) (simp_all add: as_ca_def)
  then show "\<exists>A W. replays look L (ready look (om_UID (kca_ObjectMeta cr)) (footprint_ca cr) (KControlAgent, om_Namespace (kca_ObjectMeta cr), om_Name (kca_ObjectMeta cr)))
     A W (\<lambda>_ _. True) (reconcileKeaControlAgent E cr) (reconcileKeaControlAgent E (cr\<lparr>kca_Status := st\<rparr>))"
    by (rule replays_ca [OF a])
qed (auto simp: footprint_ca_def Let_def stork_keys_def split: option.splits)

interpretation sdd: settling_controller KDdns as_dd kdd_ObjectMeta with_status_dd footprint_dd reconcileKeaDhcpDdns "\<lambda>_ _. True"
  "\<lambda>cr st. cr\<lparr>kdd_Status := st\<rparr>" "\<lambda>_ _. True"
proof unfold_locales
  fix x y cr assume "as_dd x = Some cr" "set_status y x = x" "obj_key y = obj_key x"
  then show "\<exists>st. as_dd y = Some (cr\<lparr>kdd_Status := st\<rparr>)"
    by (cases x; cases y) (auto simp: as_dd_def set_status_def obj_key_def dest: put_back)
next
  fix E :: "'s env" and look L cr st y
  assume "as_dd y = Some (cr\<lparr>kdd_Status := st\<rparr>)" "L (KDdns, om_Namespace (kdd_ObjectMeta cr), om_Name (kdd_ObjectMeta cr)) = Some y"
    and a: "steady E look"
  then have "L (KDdns, om_Namespace (kdd_ObjectMeta cr), om_Name (kdd_ObjectMeta cr)) = Some (ODdns (cr\<lparr>kdd_Status := st\<rparr>))"
    by (cases y) (simp_all add: as_dd_def)
  then show "\<exists>A W. replays look L (ready look (om_UID (kdd_ObjectMeta cr)) (footprint_dd cr) (KDdns, om_Namespace (kdd_ObjectMeta cr), om_Name (kdd_ObjectMeta cr)))
     A W (\<lambda>_ _. True) (reconcileKeaDhcpDdns E cr) (reconcileKeaDhcpDdns E (cr\<lparr>kdd_Status := st\<rparr>))"
    by (rule replays_dd [OF a])
qed (auto simp: footprint_dd_def Let_def stork_keys_def split: option.splits)

interpretation sss: settling_controller KStorkServer as_storkserver kss_ObjectMeta with_status_ss footprint_ss reconcileKeaStorkServer "\<lambda>_ _. True"
  "\<lambda>cr st. cr\<lparr>kss_Status := st\<rparr>" "\<lambda>_ _. True"
proof unfold_locales
  fix x y cr assume "as_storkserver x = Some cr" "set_status y x = x" "obj_key y = obj_key x"
  then show "\<exists>st. as_storkserver y = Some (cr\<lparr>kss_Status := st\<rparr>)"
    by (cases x; cases y) (auto simp: as_storkserver_def set_status_def obj_key_def dest: put_back)
next
  fix E :: "'s env" and look L cr st y
  assume "as_storkserver y = Some (cr\<lparr>kss_Status := st\<rparr>)" "L (KStorkServer, om_Namespace (kss_ObjectMeta cr), om_Name (kss_ObjectMeta cr)) = Some y"
    and a: "steady E look"
  then have "L (KStorkServer, om_Namespace (kss_ObjectMeta cr), om_Name (kss_ObjectMeta cr)) = Some (OStorkServer (cr\<lparr>kss_Status := st\<rparr>))"
    by (cases y) (simp_all add: as_storkserver_def)
  then show "\<exists>A W. replays look L (ready look (om_UID (kss_ObjectMeta cr)) (footprint_ss cr) (KStorkServer, om_Namespace (kss_ObjectMeta cr), om_Name (kss_ObjectMeta cr)))
     A W (\<lambda>_ _. True) (reconcileKeaStorkServer E cr) (reconcileKeaStorkServer E (cr\<lparr>kss_Status := st\<rparr>))"
    by (rule replays_ss [OF a])
qed (auto simp: footprint_ss_def Let_def stork_keys_def split: option.splits)

section \<open>Dispatch\<close>

text \<open>What must hold for the second run to find the same Stork server: at most one in the namespace when it is discovered.\<close>

definition stable_of :: "(okey \<Rightarrow> kobj option) \<Rightarrow> kobj \<Rightarrow> bool" where
  "stable_of L x =
     (case x of
        ODhcp4 cr \<Rightarrow> stork_stable L (om_Namespace (kd4_ObjectMeta cr)) (d4_Stork (kd4_Spec (fill_server4 cr)))
      | ODhcp6 cr \<Rightarrow> stork_stable L (om_Namespace (kd6_ObjectMeta cr)) (d6_Stork (kd6_Spec (fill_server6 cr)))
      | _ \<Rightarrow> True)"

lemma stork_stable_mono:
  "stork_stable L ns cfg \<Longrightarrow> (\<And>n. L' (KStorkServer, ns, n) \<noteq> None \<Longrightarrow> L (KStorkServer, ns, n) \<noteq> None) \<Longrightarrow> stork_stable L' ns cfg"
  unfolding stork_stable_def single_stork_def by (simp split: option.splits)

lemma stable_of_frame:
  assumes st: "stable_of L x" and fr: "frame look s u (footprint_of x) (creates_of x) D c s'" and L: "L = look s" and x: "look s c = Some x"
  shows "stable_of (look s') x"
proof -
  have "look s (KStorkServer, ns, n) \<noteq> None" if "look s' (KStorkServer, ns, n) \<noteq> None" "Api.kind_of x = KDhcp4 \<or> Api.kind_of x = KDhcp6" for ns n
    using fr [unfolded frame_def, THEN spec [of _ "(KStorkServer, ns, n)"]] that footprint4_sets(7)
    by (cases x) (auto simp: footprint_of_def creates_of_def footprint6_def stork_keys_def Let_def scc_key_def split: option.splits)
  then show ?thesis using st unfolding L
    by (cases x) (auto simp: stable_of_def elim!: stork_stable_mono)
qed

text \<open>The umbrella controller: its body creates and deletes resources, so it has a frame of its own.\<close>

lemma umbrella_settles:
  assumes E: "steady E look" and x: "look s (KKeaServer, ns, n) = Some (OKeaServer cr)"
    and free: "\<forall>K \<in> desired_children cr. was_claimable (om_UID (ksv_ObjectMeta cr)) (look s K)"
  shows "\<exists>s1. ReconcileKeaServer E ns n s = (Inr (), s1)
     \<and> (\<forall>t. look t = look s1 \<longrightarrow> (\<exists>t1. ReconcileKeaServer E ns n t = (Inr (), t1) \<and> look t1 = look s1))"
proof -
  let ?I = "ready look (om_UID (ksv_ObjectMeta cr)) (desired_children cr) (KKeaServer, ns, n)"
  note law = steadyD(2) [OF E]
  have key: "om_Namespace (ksv_ObjectMeta cr) = ns" "om_Name (ksv_ObjectMeta cr) = n"
    using store_lawD(4) [OF law, OF x] by (simp_all add: obj_key_def)
  have rp: "\<exists>A W. replays look L ?I A W (\<lambda>_ _. True) (reconcileKeaServer E cr) (reconcileKeaServer E (cr\<lparr>ksv_Status := st\<rparr>))"
    if "L (KKeaServer, ns, n) = Some (OKeaServer (cr\<lparr>ksv_Status := st\<rparr>))" for L st
    using replays_ks [OF E, of L cr st] that by (simp add: key)
  have I: "?I s0" if "look s0 = look s" for s0 using free x that by (simp add: ready_def)
  obtain s0 where s0: "look s0 = look s" "ReconcileKeaServer E ns n s = reconcileKeaServer E cr s0"
    unfolding ReconcileKeaServer_def by (rule fetched [OF E, OF x, of as_keaserver cr]) (auto simp: as_keaserver_def)
  have "\<exists>s1. reconcileKeaServer E cr s0 = (Inr (), s1)"
  proof -
    from rp [of "look s" "ksv_Status cr"] x obtain A W where "replays look (look s) ?I A W (\<lambda>_ _. True) (reconcileKeaServer E cr) (reconcileKeaServer E cr)" by auto
    from this I [OF s0(1)] show ?thesis by (rule replaysE) auto
  qed
  then obtain s1 where r: "ReconcileKeaServer E ns n s = (Inr (), s1)" using s0(2) by auto
  obtain st where st: "look s1 (KKeaServer, ns, n) = Some (OKeaServer (cr\<lparr>ksv_Status := st\<rparr>))" by (rule umbrella_success [OF law, OF x r])
  obtain A W where rp1: "replays look (look s1) ?I A W (\<lambda>_ _. True) (reconcileKeaServer E cr) (reconcileKeaServer E (cr\<lparr>ksv_Status := st\<rparr>))"
    using rp [of "look s1" st, OF st] by blast
  have "\<exists>t1. ReconcileKeaServer E ns n t = (Inr (), t1) \<and> look t1 = look s1" if "look t = look s1" for t
    using settles_run [OF E, OF x _ r [unfolded ReconcileKeaServer_def] st _ I rp1 that] by (simp add: as_keaserver_def ReconcileKeaServer_def)
  with r show ?thesis by blast
qed

lemma Reconcile_settles:
  assumes E: "steady E look" and x: "look s (k, ns, n) = Some x" and k: "k \<in> resource_kinds" and "sound_of E x"
    and free: "\<forall>K \<in> footprint_of x. was_claimable (om_UID (obj_meta x)) (look s K)"
  shows "\<exists>s1. Reconcile E k ns n s = (Inr (), s1)
     \<and> (stable_of (look s1) x \<longrightarrow> (\<forall>t. look t = look s1 \<longrightarrow> (\<exists>t1. Reconcile E k ns n t = (Inr (), t1) \<and> look t1 = look s1)))"
proof -
  have key: "Api.kind_of x = k" using store_lawD(4) [OF steadyD(2) [OF E] x] by (simp add: obj_key_def)
  show ?thesis
  proof (cases x)
    case (ODhcp4 cr)
    with key s4.reconcile_settles [OF E, of s ns n x cr] x assms(4) free show ?thesis
      by (simp add: Reconcile_def ReconcileDhcp4_def as_dhcp4_def footprint_of_def sound_of_def stable_of_def)
  next
    case (ODhcp6 cr)
    with key s6.reconcile_settles [OF E, of s ns n x cr] x free show ?thesis
      by (simp add: Reconcile_def ReconcileDhcp6_def as_dhcp6_def footprint_of_def stable_of_def)
  next
    case (OControlAgent cr)
    with key sca.reconcile_settles [OF E, of s ns n x cr] x free show ?thesis
      by (simp add: Reconcile_def ReconcileControlAgent_def as_ca_def footprint_of_def stable_of_def)
  next
    case (ODdns cr)
    with key sdd.reconcile_settles [OF E, of s ns n x cr] x free show ?thesis
      by (simp add: Reconcile_def ReconcileDdns_def as_dd_def footprint_of_def stable_of_def)
  next
    case (OStorkServer cr)
    with key sss.reconcile_settles [OF E, of s ns n x cr] x free show ?thesis
      by (simp add: Reconcile_def ReconcileStorkServer_def as_storkserver_def footprint_of_def stable_of_def)
  next
    case (OKeaServer cr)
    with key umbrella_settles [OF E, of s ns n cr] x free show ?thesis
      by (auto simp: Reconcile_def footprint_of_def)
  qed (use key k in \<open>auto simp: resource_kinds_def\<close>)
qed

lemma Reconcile_converges:
  assumes E: "steady E look" and x: "look s (k, ns, n) = Some x" and k: "k \<in> resource_kinds" and sound: "sound_of E x"
    and free: "\<forall>K \<in> footprint_of x. was_claimable (om_UID (obj_meta x)) (look s K)" and stable: "stable_of (look s) x"
  shows "\<exists>s1. Reconcile E k ns n s = (Inr (), s1) \<and> (\<forall>t. look t = look s1 \<longrightarrow> (\<exists>t1. Reconcile E k ns n t = (Inr (), t1) \<and> look t1 = look s1))"
proof -
  obtain s1 where s1: "Reconcile E k ns n s = (Inr (), s1)"
    "stable_of (look s1) x \<longrightarrow> (\<forall>t. look t = look s1 \<longrightarrow> (\<exists>t1. Reconcile E k ns n t = (Inr (), t1) \<and> look t1 = look s1))"
    using Reconcile_settles [OF E, of s k ns n x] x k sound free by blast
  have "stable_of (look s1) x"
    using stable_of_frame [OF stable Reconcile_frame [OF steadyD(2) [OF E], OF x], of] x s1(1) by simp
  with s1 show ?thesis by blast
qed

text \<open>Later runs, with iteration orders of their own.\<close>

lemma status_keeps_order: "set_status y x = x \<Longrightarrow> obj_key y = obj_key x \<Longrightarrow> order_matters y = order_matters x"
  by (cases x; cases y) (auto simp: set_status_def obj_key_def order_matters_def dest!: put_back)

lemma footprint4_status: "footprint4 (cr\<lparr>kd4_Status := st\<rparr>) = footprint4 cr" "sound4 E (cr\<lparr>kd4_Status := st\<rparr>) = sound4 E cr"
proof -
  have f: "fill_server4 (cr\<lparr>kd4_Status := st\<rparr>) = (fill_server4 cr)\<lparr>kd4_Status := st\<rparr>" by (simp add: fill_server4_def Let_def)
  show "footprint4 (cr\<lparr>kd4_Status := st\<rparr>) = footprint4 cr"
    by (simp add: footprint4_def config_keys4_def rollout_keys4_def workload_keys4_def publish_keys4_def f Let_def cong: option.case_cong)
  show "sound4 E (cr\<lparr>kd4_Status := st\<rparr>) = sound4 E cr" by (simp add: sound4_def f)
qed

lemma status_keeps_sound:
  "set_status y x = x \<Longrightarrow> obj_key y = obj_key x \<Longrightarrow> order_matters x \<Longrightarrow>
   sound_of E y = sound_of E x \<and> footprint_of y = footprint_of x \<and> om_UID (obj_meta y) = om_UID (obj_meta x)"
  by (cases x; cases y)
    (auto simp: set_status_def obj_key_def order_matters_def sound_of_def footprint_of_def footprint4_status dest!: put_back)

lemma own_key_untouched:
  "Api.kind_of x = k \<Longrightarrow> (k, K) \<notin> footprint_of x" "Api.kind_of x = k \<Longrightarrow> k \<in> resource_kinds \<Longrightarrow> (k, K) \<notin> creates_of x"
  "Api.kind_of x = k \<Longrightarrow> (k, K) \<notin> deletes_of x"
proof -
  show "Api.kind_of x = k \<Longrightarrow> (k, K) \<notin> footprint_of x"
    by (cases x; cases K) (auto simp: footprint_of_def footprint4_sets footprint6_def footprint_ca_def footprint_dd_def footprint_ss_def stork_keys_def
        desired_children_def child_table_def Let_def split: option.splits)
  show "Api.kind_of x = k \<Longrightarrow> k \<in> resource_kinds \<Longrightarrow> (k, K) \<notin> creates_of x"
    by (auto simp: creates_of_def scc_key_def resource_kinds_def)
  show "Api.kind_of x = k \<Longrightarrow> (k, K) \<notin> deletes_of x"
    by (cases x) (auto simp: deletes_of_def child_table_def Let_def)
qed

lemma Reconcile_keeps_resource:
  assumes law: "store_law E look" and x: "look s (k, ns, n) = Some x" and k: "k \<in> resource_kinds" and r: "Reconcile E k ns n s = (r, s1)"
  obtains y where "look s1 (k, ns, n) = Some y" "set_status y x = x" "obj_key y = obj_key x"
proof -
  have key: "Api.kind_of x = k" using store_lawD(4) [OF law x] by (simp add: obj_key_def)
  have self: "set_status x x = x" by (cases x) (simp_all add: set_status_def)
  from Reconcile_frame [OF law x] r
  have "frame look s (om_UID (obj_meta x)) (footprint_of x) (creates_of x) (deletes_of x) (k, ns, n) s1" by simp
  from this [unfolded frame_def, THEN spec [of _ "(k, ns, n)"]] own_key_untouched [OF key] k x self
  obtain y where y: "look s1 (k, ns, n) = Some y" "set_status y x = x" by auto
  moreover have "obj_key y = obj_key x" using store_lawD(4) [OF law y(1)] store_lawD(4) [OF law x] by simp
  ultimately show thesis by (rule that)
qed

lemma Reconcile_converges_reordered:
  assumes E: "steady E look" and x: "look s (k, ns, n) = Some x" and k: "k \<in> resource_kinds" and sound: "sound_of E x"
    and free: "\<forall>K \<in> footprint_of x. was_claimable (om_UID (obj_meta x)) (look s K)" and stable: "stable_of (look s) x"
  shows "\<exists>s1. Reconcile E k ns n s = (Inr (), s1) \<and> (\<forall>t ho ao. look t = look s1 \<longrightarrow>
      (\<exists>t1. Reconcile (reorder ho ao E) k ns n t = (Inr (), t1)
        \<and> (look t1 = look s1 \<or> order_matters x \<and> (ho, ao) \<noteq> (env_HostOrder E, env_AddrOrder E))))"
proof -
  note law = steadyD(2) [OF E]
  obtain s1 where s1: "Reconcile E k ns n s = (Inr (), s1)"
    "\<forall>t. look t = look s1 \<longrightarrow> (\<exists>t1. Reconcile E k ns n t = (Inr (), t1) \<and> look t1 = look s1)"
    using Reconcile_converges [OF E, of s k ns n x] x k sound free stable by blast
  obtain y where y: "look s1 (k, ns, n) = Some y" "set_status y x = x" "obj_key y = obj_key x"
    by (rule Reconcile_keeps_resource [OF law x k s1(1)])
  have "\<exists>t1. Reconcile (reorder ho ao E) k ns n t = (Inr (), t1)
      \<and> (look t1 = look s1 \<or> order_matters x \<and> (ho, ao) \<noteq> (env_HostOrder E, env_AddrOrder E))" if t: "look t = look s1" for t ho ao
  proof (cases "order_matters x")
    case False
    then have "Reconcile (reorder ho ao E) k ns n t = Reconcile E k ns n t"
      using Reconcile_reorder [OF law, of t k ns n y] y t status_keeps_order [OF y(2,3)] by simp
    with s1(2) t show ?thesis by metis
  next
    case True
    have k4: "k \<in> resource_kinds - {KKeaServer}"
      using True store_lawD(4) [OF law x] k by (cases x) (auto simp: order_matters_def obj_key_def)
    have same: "sound_of E y = sound_of E x" "footprint_of y = footprint_of x" "om_UID (obj_meta y) = om_UID (obj_meta x)"
      using status_keeps_sound [OF y(2,3) True] by blast+
    have "\<forall>K \<in> footprint_of x. was_claimable (om_UID (obj_meta x)) (look s1 K)"
      using Reconcile_succeeds [OF steadyD(1) [OF E] x k4 sound free] s1(1) by auto
    then have "\<exists>t1. Reconcile (reorder ho ao E) k ns n t = (Inr (), t1)"
      using Reconcile_succeeds [of "reorder ho ao E" look t k ns n y] k4 sound same y(1) t steadyD(1) [OF E] by auto
    then show ?thesis
    proof (cases "(ho, ao) = (env_HostOrder E, env_AddrOrder E)")
      case True
      with s1(2) t show ?thesis by auto
    qed (use \<open>order_matters x\<close> in blast)
  qed
  with s1(1) show ?thesis by blast
qed

end
