(* ===== verification/WellTyped.thy ===== *)
theory WellTyped
  imports Operator
begin

text \<open>
  The statuses the controllers write are instances of the API types: the conditions form a map
  keyed by their type, as the list markers of \<^verbatim>\<open>ComponentStatus\<close> and \<^verbatim>\<open>KeaServerStatus\<close> in
  \<^verbatim>\<open>src/api/v1alpha1\<close> demand (the API server rejects a list with a duplicate), each condition is
  true, false or unknown, and the phase is one of those the API names.
\<close>

section \<open>Well-typed statuses\<close>

definition conditions_ok :: "ConditionStatus list \<Rightarrow> bool" where
  "conditions_ok cs = (distinct (map cond_Type cs) \<and> list_all (\<lambda>c. cond_Status c \<in> {''True'', ''False'', ''Unknown''}) cs)"

definition phase_ok :: "string \<Rightarrow> bool" where
  "phase_ok p = (p \<in> {'''', ''Pending'', PhaseProgressing, PhaseRunning, PhaseError})"

definition status_ok :: "kobj \<Rightarrow> bool" where
  "status_ok x =
     (case x of
        OKeaServer c \<Rightarrow> phase_ok (ksst_Phase (ksv_Status c)) \<and> conditions_ok (ksst_Conditions (ksv_Status c))
      | _ \<Rightarrow> (case phase_and_conditions x of None \<Rightarrow> True | Some (p, cs) \<Rightarrow> phase_ok p \<and> conditions_ok cs))"

lemma conditions_setCondition:
  "conditions_ok cs \<Longrightarrow> st \<in> {''True'', ''False'', ''Unknown''} \<Longrightarrow> conditions_ok (setCondition now cs t st r m)"
proof -
  assume ok: "conditions_ok cs" and st: "st \<in> {''True'', ''False'', ''Unknown''}"
  have "list_all (\<lambda>c. cond_Status c \<in> {''True'', ''False'', ''Unknown''}) (setCondition now cs t st r m)"
    using ok st by (induction cs) (auto simp: conditions_ok_def)
  moreover have "distinct (map cond_Type (setCondition now cs t st r m))" using ok by (auto simp: types_setCondition conditions_ok_def)
  ultimately show ?thesis by (simp add: conditions_ok_def)
qed

lemma set_ready_status_ok:
  "conditions_ok (st_Conditions st) \<Longrightarrow> conditions_ok (st_Conditions (set_ready_status n1 n2 a b st)) \<and> phase_ok (st_Phase (set_ready_status n1 n2 a b st))"
  by (simp add: set_ready_status_def ready_conditions_def phase_ok_def conditions_setCondition)

lemma status_ok_set: "Api.kind_of l = Api.kind_of x \<Longrightarrow> status_ok (set_status l x) = status_ok x"
  by (cases l; cases x) (simp_all add: set_status_def status_ok_def phase_and_conditions_def)

section \<open>The invariant\<close>

text \<open>The object at a key is well typed; a status may be written there when it is.\<close>

definition typed :: "kobj option \<Rightarrow> bool" where
  "typed v = (case v of None \<Rightarrow> True | Some y \<Rightarrow> status_ok y)"

definition writes_typed :: "okey \<Rightarrow> wop \<Rightarrow> kobj \<Rightarrow> bool" where
  "writes_typed K w y = (obj_key y \<noteq> K \<or> w = WStatus \<and> status_ok y)"

lemma env_keeps_typed:
  assumes law: "store_law E look"
  shows "env_keeps E (writes_typed K) (\<lambda>s. typed (look s K))"
proof -
  have "keeps (\<lambda>s. typed (look s K)) (api_StatusUpdate E x)" if x: "writes_typed K WStatus x" for x
    unfolding keeps_def
  proof (intro allI impI)
    fix s assume s: "typed (look s K)"
    show "typed (look (snd (api_StatusUpdate E x s)) K)"
    proof (rule status_cases [OF law, of x s "fst (api_StatusUpdate E x s)" "snd (api_StatusUpdate E x s)"])
      fix l assume l: "look s (obj_key x) = Some l" "look (snd (api_StatusUpdate E x s)) = (look s)(obj_key x \<mapsto> set_status l x)"
      have "Api.kind_of l = Api.kind_of x" by (rule kind_of_same_key) (rule store_lawD(4) [OF law l(1)])
      with l s x show ?thesis by (auto simp: writes_typed_def typed_def status_ok_set)
    qed (use s in simp_all)
  qed
  with env_keeps_look [OF law, where K = K and P = typed] show ?thesis by (simp add: env_keeps_def writes_typed_def)
qed

lemma covers_typed: "K' \<noteq> K \<Longrightarrow> covers (writes_typed K) u K'"
  by (simp add: covers_def writes_typed_def)

text \<open>Operations that keep an invariant and give a value with a property.\<close>

definition gives :: "('s \<Rightarrow> bool) \<Rightarrow> ('a \<Rightarrow> bool) \<Rightarrow> ('s, 'a) op \<Rightarrow> bool" where
  "gives I V m = (\<forall>s r s'. I s \<longrightarrow> m s = (r, s') \<longrightarrow> I s' \<and> (\<forall>x. r = Inr x \<longrightarrow> V x))"

lemma givesI: "keeps I m \<Longrightarrow> (\<And>s x s'. m s = (Inr x, s') \<Longrightarrow> V x) \<Longrightarrow> gives I V m"
  unfolding gives_def by (metis keepsD)

lemma keeps_seq_gives: "gives I V m \<Longrightarrow> (\<And>x. V x \<Longrightarrow> keeps I (f x)) \<Longrightarrow> keeps I (seq m f)"
  unfolding gives_def keeps_def seq_def by (auto split: prod.split sum.split)

lemma gives_setReadyStatus:
  assumes "env_keeps E W I" "conditions_ok (st_Conditions st)"
  shows "gives I (\<lambda>st. conditions_ok (st_Conditions st) \<and> phase_ok (st_Phase st)) (setReadyStatus E a b st)"
  by (rule givesI [OF keeps_setReadyStatus [OF assms(1)]])
    (auto simp: setReadyStatus_def ret_def set_ready_status_ok [OF assms(2)] elim!: seq_success)

lemma gives_markConfigValid:
  assumes "env_keeps E W I" "conditions_ok (st_Conditions st)"
  shows "gives I (\<lambda>st. conditions_ok (st_Conditions st)) (markConfigValid E st)"
  by (rule givesI [OF keeps_markConfigValid [OF assms(1)]])
    (auto simp: markConfigValid_def ret_def setConditionNow_def conditions_setCondition [OF assms(2)] elim!: seq_success)

lemma keeps_writeTyped:
  assumes "env_keeps E W I" "conditions_ok (st_Conditions st)"
    and "\<And>st. conditions_ok (st_Conditions st) \<Longrightarrow> phase_ok (st_Phase st) \<Longrightarrow> W WStatus (wr st)"
  shows "keeps I (writeReadyStatus E wr a b st)"
  unfolding writeReadyStatus_def
  by (rule keeps_seq_gives [OF gives_setReadyStatus [OF assms(1,2)]]) (intro keeps_rules keeps_env(8) [OF assms(1)] assms(3); simp)

lemma keeps_errorTyped:
  assumes "env_keeps E W I" "conditions_ok (st_Conditions st)"
    and "\<And>st. conditions_ok (st_Conditions st) \<Longrightarrow> phase_ok (st_Phase st) \<Longrightarrow> W WStatus (wr st)"
  shows "keeps I (renderErrorExit E wr st err)"
proof -
  have "gives I conditions_ok (setConditionNow E (st_Conditions st) t ''False'' r m)" for t r m
    by (rule givesI [OF keeps_setConditionNow [OF assms(1)]])
      (auto simp: setConditionNow_def ret_def conditions_setCondition [OF assms(2)] elim!: seq_success)
  then show ?thesis
    unfolding renderErrorExit_def Let_def
    by (rule keeps_seq_gives) (intro keeps_rules keeps_event [OF assms(1)] keeps_env(8) [OF assms(1)] assms(3); simp add: phase_ok_def)
qed

section \<open>The controllers\<close>

lemma scc_typed: "kd \<noteq> KRoleBinding \<Longrightarrow> writes_typed (kd, K) WCreate (ORoleBinding (scc_binding ns n))"
  by (simp add: writes_typed_def scc_key_def)

lemma typed_ca:
  assumes law: "store_law E look" and ok: "status_ok (OControlAgent cr)"
    and K: "K = (KControlAgent, om_Namespace (kca_ObjectMeta cr), om_Name (kca_ObjectMeta cr))"
  shows "keeps (\<lambda>s. typed (look s K)) (reconcileKeaControlAgent E cr)"
proof -
  note E = env_keeps_typed [OF law, of K] and scr = store_lawD(1) [OF law]
  have st: "conditions_ok (st_Conditions (kca_Status cr))" using ok by (simp add: status_ok_def phase_and_conditions_def)
  have wr: "writes_typed K WStatus (with_status_ca cr st)" if "conditions_ok (st_Conditions st)" "phase_ok (st_Phase st)" for st
    using that by (simp add: writes_typed_def with_status_ca_def status_ok_def phase_and_conditions_def)
  show ?thesis
    unfolding reconcileKeaControlAgent_def reconcileControlAgentService_def Let_def
    by (intro keeps_sum keeps_errorTyped [OF E st wr] keeps_seq_gives [OF gives_markConfigValid [OF E st]] keeps_writeTyped [OF E _ wr] keeps_rules
        keeps_readyReplicasOf [OF E] keeps_event [OF E] keeps_bindSCC [OF E] keeps_reconcile_as [OF E scr])
      (auto simp: K component_status_def intro!: covers_typed scc_typed)
qed

lemma typed_dd:
  assumes law: "store_law E look" and ok: "status_ok (ODdns cr)"
    and K: "K = (KDdns, om_Namespace (kdd_ObjectMeta cr), om_Name (kdd_ObjectMeta cr))"
  shows "keeps (\<lambda>s. typed (look s K)) (reconcileKeaDhcpDdns E cr)"
proof -
  note E = env_keeps_typed [OF law, of K] and scr = store_lawD(1) [OF law]
  have st: "conditions_ok (st_Conditions (kdd_Status cr))" using ok by (simp add: status_ok_def phase_and_conditions_def)
  have wr: "writes_typed K WStatus (with_status_dd cr st)" if "conditions_ok (st_Conditions st)" "phase_ok (st_Phase st)" for st
    using that by (simp add: writes_typed_def with_status_dd_def status_ok_def phase_and_conditions_def)
  show ?thesis
    unfolding reconcileKeaDhcpDdns_def reconcileDdnsService_def Let_def
    by (intro keeps_sum keeps_errorTyped [OF E st wr] keeps_seq_gives [OF gives_markConfigValid [OF E st]] keeps_writeTyped [OF E _ wr] keeps_rules
        keeps_readyReplicasOf [OF E] keeps_event [OF E] keeps_bindSCC [OF E] keeps_reconcile_as [OF E scr])
      (auto simp: K component_status_def intro!: covers_typed scc_typed)
qed

lemma typed6:
  assumes law: "store_law E look" and ok: "status_ok (ODhcp6 cr)"
    and K: "K = (KDhcp6, om_Namespace (kd6_ObjectMeta cr), om_Name (kd6_ObjectMeta cr))"
  shows "keeps (\<lambda>s. typed (look s K)) (reconcileDhcp6Server E cr)"
proof -
  note E = env_keeps_typed [OF law, of K] and scr = store_lawD(1) [OF law]
  have st: "conditions_ok (st_Conditions (kd6_Status cr))" using ok by (simp add: status_ok_def phase_and_conditions_def)
  have wr: "writes_typed K WStatus (with_status6 (fill_server6 cr) st)" if "conditions_ok (st_Conditions st)" "phase_ok (st_Phase st)" for st
    using that by (simp add: writes_typed_def with_status6_def status_ok_def phase_and_conditions_def)
  show ?thesis
    unfolding reconcileDhcp6Server_def Let_def fill_server6_fields resolveDhcp6StorkAgent_def updateDhcp6Status_def
      reconcileDhcp6ControlService_def reconcileDhcp6StorkMonitoring_def
    by (intro keeps_sum keeps_errorTyped [OF E st wr] keeps_seq_gives [OF gives_markConfigValid [OF E st]] keeps_writeTyped [OF E _ wr] keeps_rules
        keeps_readyReplicasOf [OF E] keeps_event [OF E] keeps_bindSCC [OF E] keeps_reconcile_as [OF E scr] keeps_resolveStorkAgent [OF E]
        keeps_reconcileControlService [OF E scr] keeps_reconcileStorkMonitoring [OF E scr])
      (auto simp: K component_status_def stork_keys_def intro!: covers_typed scc_typed)
qed

lemma typed4:
  assumes law: "store_law E look" and ok: "status_ok (ODhcp4 cr)"
    and K: "K = (KDhcp4, om_Namespace (kd4_ObjectMeta cr), om_Name (kd4_ObjectMeta cr))"
  shows "keeps (\<lambda>s. typed (look s K)) (reconcileDhcp4Server E cr)"
proof -
  let ?f = "fill_server4 cr" let ?k = "replicas_or_one (d4_Replicas (kd4_Spec cr))"
  note E = env_keeps_typed [OF law, of K] and scr = store_lawD(1) [OF law]
  have st: "conditions_ok (st_Conditions (kd4_Status cr))" using ok by (simp add: status_ok_def phase_and_conditions_def)
  have wr: "writes_typed K WStatus (with_status4 ?f st)" if "conditions_ok (st_Conditions st)" "phase_ok (st_Phase st)" for st
    using that by (simp add: writes_typed_def with_status4_def status_ok_def phase_and_conditions_def)
  have config: "keeps (\<lambda>s. typed (look s K)) (reconcileDhcp4Config E ?f r ComponentDhcp4 lbls ?k)" for r lbls
    unfolding reconcileDhcp4Config_def reconcileHAConfigs_def Let_def fill_server4_fields
    by (intro keeps_option keeps_sum keeps_errorTyped [OF E st wr] keeps_rules keeps_ha_configs_loop [OF E scr] keeps_reconcile_as [OF E scr])
      (auto simp: K intro!: covers_typed)
  have workload: "keeps (\<lambda>s. typed (look s K)) (reconcileDhcp4Workload E ?f ComponentDhcp4 pp ?k h env agent)" for pp h env agent
    by (rule keeps_reconcileDhcp4Workload [OF E scr, of ?f, unfolded fill_server4_fields])
      (auto simp: K workload_keys4_def Let_def intro!: covers_typed split: option.splits)
  have publish: "keeps (\<lambda>s. typed (look s K)) (publishDhcp4 E ?f st h a ?k agent)" if "conditions_ok (st_Conditions st)" for st h a agent
    unfolding publishDhcp4_def updateDhcp4Status_def reconcileDhcp4ControlService_def reconcileDhcp4StorkMonitoring_def Let_def
    by (intro keeps_writeTyped [OF E _ wr] keeps_rules keeps_event [OF E] keeps_reconcileControlService [OF E scr] keeps_reconcileStorkMonitoring [OF E scr])
      (use that in \<open>auto simp: K component_status_def stork_keys_def intro!: covers_typed\<close>)
  show ?thesis
    unfolding reconcileDhcp4Server_def rolloutDhcp4_def resolveDhcp4StorkAgent_def Let_def fill_server4_fields
    by (intro keeps_seq_gives [OF gives_markConfigValid [OF E st]] config workload publish keeps_rules keeps_bindSCC [OF E]
        keeps_reconcile_as [OF E scr] keeps_resolveStorkAgent [OF E])
      (auto simp: K intro!: covers_typed scc_typed)
qed

lemma typed_ss:
  assumes law: "store_law E look" and ok: "status_ok (OStorkServer cr)"
    and K: "K = (KStorkServer, om_Namespace (kss_ObjectMeta cr), om_Name (kss_ObjectMeta cr))"
  shows "keeps (\<lambda>s. typed (look s K)) (reconcileKeaStorkServer E cr)"
proof -
  let ?I = "\<lambda>s. typed (look s K)"
  note E = env_keeps_typed [OF law, of K] and scr = store_lawD(1) [OF law]
  have st: "conditions_ok (st_Conditions (kss_Status cr))" using ok by (simp add: status_ok_def phase_and_conditions_def)
  have wr: "writes_typed K WStatus (with_status_ss cr st)" if "conditions_ok (st_Conditions st)" "phase_ok (st_Phase st)" for st
    using that by (simp add: writes_typed_def with_status_ss_def status_ok_def phase_and_conditions_def)
  have route: "gives ?I (\<lambda>st. conditions_ok (st_Conditions st)) (reconcileStorkRoute E cr)"
  proof (rule givesI)
    show "keeps ?I (reconcileStorkRoute E cr)"
      unfolding reconcileStorkRoute_def Let_def
      by (intro keeps_rules keeps_reconcileRoute [OF E scr]) (auto simp: K intro!: covers_typed)
  qed (use st in \<open>auto simp: reconcileStorkRoute_def Let_def ret_def elim!: seq_success split: if_splits\<close>)
  have url: "gives ?I (\<lambda>st. conditions_ok (st_Conditions st) \<and> phase_ok (st_Phase st)) (actualRouteURL E cr st)"
    if "conditions_ok (st_Conditions st) \<and> phase_ok (st_Phase st)" for st
  proof (rule givesI)
    show "keeps ?I (actualRouteURL E cr st)"
      unfolding actualRouteURL_def getRouteURL_def Let_def by (intro keeps_rules keeps_get_as [OF E])
  qed (use that in \<open>auto simp: actualRouteURL_def Let_def ret_def elim!: seq_success split: if_splits\<close>)
  show ?thesis
    unfolding reconcileKeaStorkServer_def reconcileAdminSecret_def reconcileTokenSecret_def Let_def
    by (intro keeps_seq_gives [OF route] keeps_seq_gives [OF gives_setReadyStatus [OF E]] keeps_seq_gives [OF url] keeps_rules
        keeps_readyReplicasOf [OF E] keeps_event [OF E] keeps_env(8) [OF E] wr keeps_reconcile_as [OF E scr] keeps_ensureSecret [OF E scr])
      (auto simp: K intro!: covers_typed)
qed

lemma overallPhase_ok:
  assumes "overallPhase E spec st s = (Inr st', s')" "conditions_ok (ksst_Conditions st)"
  shows "conditions_ok (ksst_Conditions st') \<and> phase_ok (ksst_Phase st')"
  using assms
  by (auto simp: overallPhase_def Let_def ret_def phase_ok_def conditions_setCondition dest!: setConditionNow_result elim!: seq_success split: if_splits)

lemma typed_ks:
  assumes law: "store_law E look" and ok: "status_ok (OKeaServer cr)"
    and K: "K = (KKeaServer, om_Namespace (ksv_ObjectMeta cr), om_Name (ksv_ObjectMeta cr))"
  shows "keeps (\<lambda>s. typed (look s K)) (reconcileKeaServer E cr)"
proof -
  let ?I = "\<lambda>s. typed (look s K)"
  note E = env_keeps_typed [OF law, of K]
  have agg: "gives ?I (\<lambda>st. conditions_ok (ksst_Conditions st) \<and> phase_ok (ksst_Phase st)) (aggregateStatus E cr)"
  proof (rule givesI)
    show "keeps ?I (aggregateStatus E cr)"
      unfolding aggregateStatus_def isChildReady_def Let_def by (intro keeps_rules keeps_env(1) [OF E] keeps_overallPhase [OF E])
    show "conditions_ok (ksst_Conditions st) \<and> phase_ok (ksst_Phase st)" if "aggregateStatus E cr s = (Inr st, s')" for s st s'
      using that ok by (auto simp: aggregateStatus_def Let_def status_ok_def elim!: seq_success dest!: overallPhase_ok)
  qed
  have children: "keeps ?I (reconcileChildren E cr)"
    by (rule keeps_reconcileChildren [OF law E]) (auto simp: K child_table_def Let_def writes_typed_def intro!: covers_typed)
  show ?thesis
    unfolding reconcileKeaServer_def
    by (intro keeps_seq_gives [OF agg] keeps_rules children keeps_event [OF E] keeps_env(8) [OF E])
      (simp add: writes_typed_def with_status_ks_def status_ok_def)
qed

section \<open>Every kind\<close>

lemma fetch_typed:
  assumes law: "store_law E look" and x: "look s (k, ns, n) = Some x" "sel x = Some cr" and ok: "status_ok x"
    and body: "keeps (\<lambda>s. typed (look s (k, ns, n))) (body cr)"
  shows "typed (look (snd (fetch_and E k sel body ns n s)) (k, ns, n))"
proof -
  obtain r s' where m: "fetch_and E k sel body ns n s = (r, s')" by fastforce
  have t: "typed (look s (k, ns, n))" using x(1) ok by (simp add: typed_def)
  show ?thesis
    by (rule fetch_runs [OF law x(1,2) m]) (use m t in \<open>auto dest: keepsD [OF body, rotated]\<close>)
qed

text \<open>
  C9: type preservation. Whatever a reconciliation does and however it ends, the resource
  that had a well-typed status still has one: condition types are unique, condition statuses
  are True, False or Unknown, the phase is one of the API's.
\<close>

theorem reconcile_keeps_status_typed:
  assumes "store_law E look" and "look s (k, ns, n) = Some x" and "status_ok x"
    and "look (snd (Reconcile E k ns n s)) (k, ns, n) = Some y"
  shows "status_ok y"
proof -
  note law = assms(1) note x = assms(2)
  have key: "Api.kind_of x = k" "om_Namespace (obj_meta x) = ns" "om_Name (obj_meta x) = n"
    using store_lawD(4) [OF law x] by (simp_all add: obj_key_def)
  have "typed (look (snd (Reconcile E k ns n s)) (k, ns, n))"
  proof (cases x)
    case (ODhcp4 cr)
    with key fetch_typed [OF law, of s k ns n x as_dhcp4 cr "reconcileDhcp4Server E"] typed4 [OF law, of cr "(k, ns, n)"] x assms(3)
    show ?thesis by (simp add: Reconcile_def ReconcileDhcp4_def as_dhcp4_def)
  next
    case (ODhcp6 cr)
    with key fetch_typed [OF law, of s k ns n x as_dhcp6 cr "reconcileDhcp6Server E"] typed6 [OF law, of cr "(k, ns, n)"] x assms(3)
    show ?thesis by (simp add: Reconcile_def ReconcileDhcp6_def as_dhcp6_def)
  next
    case (OControlAgent cr)
    with key fetch_typed [OF law, of s k ns n x as_ca cr "reconcileKeaControlAgent E"] typed_ca [OF law, of cr "(k, ns, n)"] x assms(3)
    show ?thesis by (simp add: Reconcile_def ReconcileControlAgent_def as_ca_def)
  next
    case (ODdns cr)
    with key fetch_typed [OF law, of s k ns n x as_dd cr "reconcileKeaDhcpDdns E"] typed_dd [OF law, of cr "(k, ns, n)"] x assms(3)
    show ?thesis by (simp add: Reconcile_def ReconcileDdns_def as_dd_def)
  next
    case (OStorkServer cr)
    with key fetch_typed [OF law, of s k ns n x as_storkserver cr "reconcileKeaStorkServer E"] typed_ss [OF law, of cr "(k, ns, n)"] x assms(3)
    show ?thesis by (simp add: Reconcile_def ReconcileStorkServer_def as_storkserver_def)
  next
    case (OKeaServer cr)
    with key fetch_typed [OF law, of s k ns n x as_keaserver cr "reconcileKeaServer E"] typed_ks [OF law, of cr "(k, ns, n)"] x assms(3)
    show ?thesis by (simp add: Reconcile_def ReconcileKeaServer_def as_keaserver_def)
  qed (use key x assms(3) in \<open>auto simp: Reconcile_def ret_def typed_def\<close>)
  with assms(4) show ?thesis by (simp add: typed_def)
qed

theorem reconcile_keeps_status_typed_witness:
  "\<exists>y. mem_look (snd (Reconcile (mem_env False) KKeaServer ''kea'' ''k'' sample_cluster)) (KKeaServer, ''kea'', ''k'') = Some y \<and> status_ok y"
proof -
  obtain s' where r: "ReconcileKeaServer (mem_env False) ''kea'' ''k'' sample_cluster = (Inr (), s')"
    using sample_umbrella_runs(1) by (metis prod.collapse)
  obtain st where st: "mem_look s' (KKeaServer, ''kea'', ''k'') = Some (OKeaServer (sample_umbrella\<lparr>ksv_Status := st\<rparr>))"
    by (rule umbrella_success [OF mem_store_law sample_umbrella_runs(2) r])
  have "status_ok (OKeaServer sample_umbrella)"
    by (simp add: status_ok_def sample_umbrella_def zero_KeaServer_def zero_KeaServerStatus_def phase_ok_def conditions_ok_def)
  from reconcile_keeps_status_typed [OF mem_store_law [of False] sample_umbrella_runs(2) this] st r show ?thesis by (auto simp: Reconcile_def)
qed

end
