(* ===== verification/Watches.thy ===== *)
theory Watches
  imports Operator
begin

text \<open>
  What wakes the reconcilers: the \<^verbatim>\<open>SetupWithManager\<close> of each controller under
  \<^verbatim>\<open>src/internal/controller\<close>, as the data it hands to the builder of controller-runtime, and the
  requests an event on an object leads to. The builder is not part of the repository; the
  relation \<open>wakes\<close> states its documented behaviour: \<^verbatim>\<open>For\<close> gives a request for the object itself,
  \<^verbatim>\<open>Owns\<close> one for its controller owner, when that is of the controller's kind, and \<^verbatim>\<open>Watches\<close>
  those its map function returns.
\<close>

section \<open>The registrations\<close>

record 's controller_setup =
  cs_For :: okind
  cs_Owns :: "okind list"
  cs_Watches :: "(okind \<times> ('s env \<Rightarrow> kobj \<Rightarrow> ('s, (string \<times> string) list) op)) list"

definition SetupWithManager_dhcp4 :: "'s controller_setup" where
  "SetupWithManager_dhcp4 =
     \<lparr>cs_For = KDhcp4,
      cs_Owns = [KDeployment, KStatefulSet, KConfigMap, KService, KServiceAccount, KPodMonitor],
      cs_Watches = [(KStorkServer, enqueueStorkDependents listStorkEnabledDhcp4)]\<rparr>"

definition SetupWithManager_dhcp6 :: "'s controller_setup" where
  "SetupWithManager_dhcp6 =
     \<lparr>cs_For = KDhcp6,
      cs_Owns = [KDeployment, KStatefulSet, KConfigMap, KService, KServiceAccount, KPodMonitor],
      cs_Watches = [(KStorkServer, enqueueStorkDependents listStorkEnabledDhcp6)]\<rparr>"

definition SetupWithManager_ctrl_agent :: "'s controller_setup" where
  "SetupWithManager_ctrl_agent =
     \<lparr>cs_For = KControlAgent, cs_Owns = [KDeployment, KConfigMap, KService, KServiceAccount], cs_Watches = []\<rparr>"

definition SetupWithManager_ddns :: "'s controller_setup" where
  "SetupWithManager_ddns =
     \<lparr>cs_For = KDdns, cs_Owns = [KDeployment, KConfigMap, KService, KServiceAccount], cs_Watches = []\<rparr>"

definition SetupWithManager_stork :: "'s controller_setup" where
  "SetupWithManager_stork =
     \<lparr>cs_For = KStorkServer, cs_Owns = [KDeployment, KService, KServiceAccount, KSecret], cs_Watches = []\<rparr>"

definition SetupWithManager_keaserver :: "'s controller_setup" where
  "SetupWithManager_keaserver =
     \<lparr>cs_For = KKeaServer, cs_Owns = [KDhcp4, KDhcp6, KControlAgent, KDdns, KStorkServer], cs_Watches = []\<rparr>"

text \<open>In the order \<^verbatim>\<open>main\<close> registers them.\<close>

definition controllers :: "'s controller_setup list" where
  "controllers =
     [SetupWithManager_dhcp4, SetupWithManager_dhcp6, SetupWithManager_ctrl_agent, SetupWithManager_ddns,
      SetupWithManager_keaserver, SetupWithManager_stork]"

lemmas setups = SetupWithManager_dhcp4_def SetupWithManager_dhcp6_def SetupWithManager_ctrl_agent_def
  SetupWithManager_ddns_def SetupWithManager_stork_def SetupWithManager_keaserver_def

section \<open>Requests\<close>

inductive wakes :: "'s env \<Rightarrow> 's look \<Rightarrow> 's \<Rightarrow> kobj \<Rightarrow> okey \<Rightarrow> bool"
  for E :: "'s env" and look :: "'s look" and s :: 's and y :: kobj where
  wakes_for: "c \<in> set (controllers :: 's controller_setup list) \<Longrightarrow> Api.kind_of y = cs_For c \<Longrightarrow> wakes E look s y (obj_key y)"
| wakes_owns: "c \<in> set (controllers :: 's controller_setup list) \<Longrightarrow> Api.kind_of y \<in> set (cs_Owns c) \<Longrightarrow> look s (cs_For c, ns, n) = Some x \<Longrightarrow>
    obj_owner y = Some (om_UID (obj_meta x)) \<Longrightarrow> wakes E look s y (cs_For c, ns, n)"
| wakes_watches: "c \<in> set controllers \<Longrightarrow> (Api.kind_of y, f) \<in> set (cs_Watches c) \<Longrightarrow> fst (f E y s) = Inr reqs \<Longrightarrow>
    (ns, n) \<in> set reqs \<Longrightarrow> wakes E look s y (cs_For c, ns, n)"

inductive_cases wakesE: "wakes E look s y K"

text \<open>Every kind a reconciler applies is owned by its controller, but for Routes.\<close>

lemma owned_kinds:
  assumes "K \<in> footprint_of x" "fst K \<noteq> KUnstructured kindRoute"
  shows "\<exists>c \<in> set (controllers :: 's controller_setup list). cs_For c = Api.kind_of x \<and> fst K \<in> set (cs_Owns c)"
  using assms
  by (cases x)
    (auto simp: footprint_of_def controllers_def setups footprint4_def config_keys4_def rollout_keys4_def workload_keys4_def
      publish_keys4_def footprint6_def footprint_ca_def footprint_dd_def footprint_ss_def stork_keys_def desired_children_def
      child_table_def Let_def split: if_splits option.splits)

lemma route_wakes_nobody: "Api.kind_of y = KUnstructured u \<Longrightarrow> \<not> wakes E look s y K"
  by (auto simp: controllers_def setups elim!: wakesE)

text \<open>
  C12: drift is noticed. When an object in the footprint of a resource, under the control of
  that resource, is changed or deleted, the resource is reconciled again; the only exception
  are OpenShift Routes, whose changes wake no controller at all.
\<close>

theorem operator_watches_footprint:
  assumes "look s (k, ns, n) = Some x" and "obj_key x = (k, ns, n)"
    and "obj_key y \<in> footprint_of x" and "obj_owner y = Some (om_UID (obj_meta x))"
  shows "wakes E look s y (k, ns, n) \<longleftrightarrow> Api.kind_of y \<noteq> KUnstructured kindRoute"
proof
  assume "Api.kind_of y \<noteq> KUnstructured kindRoute"
  with owned_kinds [OF assms(3)] obtain c where "c \<in> set (controllers :: 'a controller_setup list)" "cs_For c = Api.kind_of x" "Api.kind_of y \<in> set (cs_Owns c)"
    by (auto simp: obj_key_def)
  with assms show "wakes E look s y (k, ns, n)" by (metis wakes_owns key_kind)
qed (auto simp: route_wakes_nobody)

text \<open>The requests for the listed resources that satisfy a predicate.\<close>

lemma listed_requests:
  assumes law: "store_law E look" and mem: "\<And>x. x \<in> set xs \<longleftrightarrow> (\<exists>n. look s (k, ns, n) = Some x)"
    and meta: "\<And>x c. sel x = Some c \<Longrightarrow> obj_meta x = meta c"
  shows "(ns', n) \<in> set (map (\<lambda>c. (om_Namespace (meta c), om_Name (meta c))) (filter P (List.map_filter sel xs)))
     \<longleftrightarrow> ns' = ns \<and> (\<exists>x c. look s (k, ns, n) = Some x \<and> sel x = Some c \<and> P c)" (is "?l \<longleftrightarrow> ?r")
proof -
  have key: "look s (k, a, b) = Some x \<Longrightarrow> sel x = Some c \<Longrightarrow> om_Namespace (meta c) = a \<and> om_Name (meta c) = b" for a b x c
    using store_lawD(4) [OF law, of s "(k, a, b)" x] meta [of x c] by (simp add: obj_key_def)
  show ?thesis
  proof
    assume ?l
    then obtain x c n' where "look s (k, ns, n') = Some x" "sel x = Some c" "P c" "ns' = om_Namespace (meta c)" "n = om_Name (meta c)"
      by (auto simp: set_map_filter mem)
    with key [OF this(1,2)] show ?r by auto
  next
    assume ?r
    then obtain x c where x: "ns' = ns" "look s (k, ns, n) = Some x" "sel x = Some c" "P c" by blast
    then have "x \<in> set xs" using mem by blast
    with x have "c \<in> set (filter P (List.map_filter sel xs))" by (auto simp: set_map_filter)
    with key [OF x(2,3)] x(1) show ?l by (auto simp: image_iff)
  qed
qed

lemma stork_watch:
  assumes law: "store_law E look" "list_law E look"
  shows "\<exists>reqs. fst (enqueueStorkDependents listStorkEnabledDhcp4 E y s) = Inr reqs
     \<and> (\<forall>ns n. (ns, n) \<in> set reqs \<longleftrightarrow> ns = om_Namespace (obj_meta y)
          \<and> (\<exists>cr. look s (KDhcp4, ns, n) = Some (ODhcp4 cr) \<and> stork_enabled (d4_Stork (kd4_Spec cr))))" (is ?A4)
    and "\<exists>reqs. fst (enqueueStorkDependents listStorkEnabledDhcp6 E y s) = Inr reqs
     \<and> (\<forall>ns n. (ns, n) \<in> set reqs \<longleftrightarrow> ns = om_Namespace (obj_meta y)
          \<and> (\<exists>cr. look s (KDhcp6, ns, n) = Some (ODhcp6 cr) \<and> stork_enabled (d6_Stork (kd6_Spec cr))))" (is ?A6)
proof -
  let ?ns = "om_Namespace (obj_meta y)"
  have sel: "(as_dhcp4 x = Some c4) = (x = ODhcp4 c4)" "(as_dhcp6 x = Some c6) = (x = ODhcp6 c6)" for x c4 c6
    by (cases x; auto simp: as_dhcp4_def as_dhcp6_def)+
  obtain xs s' where l: "api_List E KDhcp4 ?ns s = (Inr xs, s')" and mem: "\<And>x. x \<in> set xs \<longleftrightarrow> (\<exists>n. look s (KDhcp4, ?ns, n) = Some x)"
    by (rule list_lawE [OF law, of KDhcp4 ?ns s]) blast
  show ?A4
    using listed_requests [OF law(1) mem, of as_dhcp4 kd4_ObjectMeta]
    by (auto simp: enqueueStorkDependents_def listStorkEnabledDhcp4_def seq_def attempt_def ret_def l sel)
  obtain ys t' where l6: "api_List E KDhcp6 ?ns s = (Inr ys, t')" and mem6: "\<And>x. x \<in> set ys \<longleftrightarrow> (\<exists>n. look s (KDhcp6, ?ns, n) = Some x)"
    by (rule list_lawE [OF law, of KDhcp6 ?ns s]) blast
  show ?A6
    using listed_requests [OF law(1) mem6, of as_dhcp6 kd6_ObjectMeta]
    by (auto simp: enqueueStorkDependents_def listStorkEnabledDhcp6_def seq_def attempt_def ret_def l6 sel)
qed

text \<open>
  C21: an event on a Stork server wakes its dependents and no other DHCP server: exactly the
  DHCPv4 and DHCPv6 servers of its namespace whose Stork agent is enabled.
\<close>

theorem stork_event_wakes_dependents:
  assumes "store_law E look" and "list_law E look"
  shows "(wakes E look s (OStorkServer srv) (KDhcp4, ns, n) \<longleftrightarrow> ns = om_Namespace (kss_ObjectMeta srv)
       \<and> (\<exists>cr. look s (KDhcp4, ns, n) = Some (ODhcp4 cr) \<and> stork_enabled (d4_Stork (kd4_Spec cr))))
     \<and> (wakes E look s (OStorkServer srv) (KDhcp6, ns, n) \<longleftrightarrow> ns = om_Namespace (kss_ObjectMeta srv)
       \<and> (\<exists>cr. look s (KDhcp6, ns, n) = Some (ODhcp6 cr) \<and> stork_enabled (d6_Stork (kd6_Spec cr))))"
proof -
  let ?y = "OStorkServer srv"
  have "wakes E look s ?y (KDhcp4, ns, n) \<longleftrightarrow>
      (\<exists>reqs. fst (enqueueStorkDependents listStorkEnabledDhcp4 E ?y s) = Inr reqs \<and> (ns, n) \<in> set reqs)"
    using wakes_watches [of SetupWithManager_dhcp4 ?y "enqueueStorkDependents listStorkEnabledDhcp4" E s]
    by (auto simp: controllers_def setups obj_key_def elim!: wakesE)
  moreover have "wakes E look s ?y (KDhcp6, ns, n) \<longleftrightarrow>
      (\<exists>reqs. fst (enqueueStorkDependents listStorkEnabledDhcp6 E ?y s) = Inr reqs \<and> (ns, n) \<in> set reqs)"
    using wakes_watches [of SetupWithManager_dhcp6 ?y "enqueueStorkDependents listStorkEnabledDhcp6" E s]
    by (auto simp: controllers_def setups obj_key_def elim!: wakesE)
  ultimately show ?thesis using stork_watch(1) [OF assms, of ?y s] stork_watch(2) [OF assms, of ?y s] by auto
qed

text \<open>A namespace with one server whose agent is enabled and one without an agent.\<close>

definition watch_server :: "string \<Rightarrow> StorkAgentConfig option \<Rightarrow> KeaDhcp4Server" where
  "watch_server n c = zero_KeaDhcp4Server\<lparr>kd4_ObjectMeta := zero_ObjectMeta\<lparr>om_Name := n, om_Namespace := ''kea'', om_UID := n\<rparr>,
     kd4_Spec := (kd4_Spec zero_KeaDhcp4Server)\<lparr>d4_Stork := c\<rparr>\<rparr>"

theorem stork_event_wakes_dependents_witness:
  "let s = mem_init [ODhcp4 (watch_server ''a'' (Some (zero_StorkAgentConfig\<lparr>sa_Enabled := True\<rparr>))), ODhcp4 (watch_server ''b'' None)];
       y = OStorkServer (zero_KeaStorkServer\<lparr>kss_ObjectMeta := zero_ObjectMeta\<lparr>om_Name := ''st'', om_Namespace := ''kea''\<rparr>\<rparr>)
   in wakes (mem_env False) mem_look s y (KDhcp4, ''kea'', ''a'') \<and> \<not> wakes (mem_env False) mem_look s y (KDhcp4, ''kea'', ''b'')"
  unfolding Let_def using stork_event_wakes_dependents [OF mem_store_law mem_list_law]
  by (simp add: mem_look_def mem_init_def watch_server_def obj_key_def stork_enabled_def)

theorem operator_watches_footprint_witness:
  "let x = ODhcp4 (watch_server ''a'' None);
       y = set_owner ''a'' (OServiceAccount (BuildServiceAccount ''kea'' ''a'' (map_lit [])))
   in wakes (mem_env False) mem_look (mem_init [x]) y (KDhcp4, ''kea'', ''a'')"
proof -
  let ?x = "ODhcp4 (watch_server ''a'' None)"
  let ?y = "set_owner ''a'' (OServiceAccount (BuildServiceAccount ''kea'' ''a'' (map_lit [])))"
  have x: "obj_key ?x = (KDhcp4, ''kea'', ''a'')" by (simp add: obj_key_def watch_server_def)
  have y: "obj_key ?y = (KServiceAccount, ''kea'', ServiceAccountName ''a'')" "obj_owner ?y = Some ''a''"
    by (simp_all del: set_owner.simps)
  have "obj_key ?y \<in> footprint_of ?x"
    unfolding y by (simp add: footprint_of_def footprint4_def rollout_keys4_def watch_server_def)
  moreover have "mem_look (mem_init [?x]) (KDhcp4, ''kea'', ''a'') = Some ?x" by (simp add: mem_look_def mem_init_def x)
  moreover have "obj_owner ?y = Some (om_UID (obj_meta ?x))" unfolding y by (simp add: watch_server_def)
  ultimately have "wakes (mem_env False) mem_look (mem_init [?x]) ?y (KDhcp4, ''kea'', ''a'')"
    using operator_watches_footprint [OF _ x, of mem_look "mem_init [?x]" ?y "mem_env False"] by simp
  then show ?thesis by (simp only: Let_def)
qed

end
