(* ===== verification/Platform.thy ===== *)
theory Platform
  imports Prelude
begin

text \<open>
  Platform detection (\<^verbatim>\<open>src/internal/platform/detect.go\<close>). The discovery client is a parameter: what
  creating it and asking for the server's groups gives at the time of a probe. \<^verbatim>\<open>sync.Once\<close> is
  a flag of the detector, set when its function has run.
\<close>

record platformDetector =
  pd_once :: bool
  pd_isOpenShift :: bool

definition NewDetector :: platformDetector where
  "NewDetector = \<lparr>pd_once = False, pd_isOpenShift = False\<rparr>"

text \<open>The two calls of a probe: the client, and the names of the API groups.\<close>

record probe =
  pr_client :: "goerror + unit"
  pr_groups :: "goerror + string list"

definition detect :: "probe \<Rightarrow> bool" where
  "detect p =
     (case pr_client p of
        Inl err \<Rightarrow> False
      | Inr _ \<Rightarrow>
          (case pr_groups p of
             Inl err \<Rightarrow> False
           | Inr groups \<Rightarrow> list_ex (\<lambda>g. g = ''route.openshift.io'') groups))"

definition IsOpenShift :: "probe \<Rightarrow> platformDetector \<Rightarrow> bool \<times> platformDetector" where
  "IsOpenShift p d =
     (let d = (if pd_once d then d else d\<lparr>pd_once := True, pd_isOpenShift := detect p\<rparr>)
      in (pd_isOpenShift d, d))"

text \<open>The answers to a sequence of calls, each with the probe it would see.\<close>

fun answers_of :: "probe list \<Rightarrow> platformDetector \<Rightarrow> bool list" where
  "answers_of [] d = []"
| "answers_of (p # ps) d = (case IsOpenShift p d of (b, d') \<Rightarrow> b # answers_of ps d')"

lemma answers_cached: "pd_once d \<Longrightarrow> answers_of ps d = replicate (length ps) (pd_isOpenShift d)"
  by (induction ps) (simp_all add: IsOpenShift_def)

text \<open>
  C40: the detector gives one answer for the life of the process, the one of the first call,
  whatever later probes would see. This includes a first call that failed: an API server that
  is not reachable at that moment makes an OpenShift cluster count as plain Kubernetes for good.
\<close>

theorem platform_first_probe_sticks:
  "answers_of (p # ps) NewDetector = replicate (Suc (length ps)) (detect p)
   \<and> (detect p = (\<exists>u gs. pr_client p = Inr u \<and> pr_groups p = Inr gs \<and> ''route.openshift.io'' \<in> set gs))
   \<and> answers_of [p\<lparr>pr_client := Inr (), pr_groups := Inl e\<rparr>, p\<lparr>pr_client := Inr (), pr_groups := Inr [''route.openshift.io'']\<rparr>] NewDetector
       = [False, False]"
  by (auto simp: IsOpenShift_def NewDetector_def answers_cached detect_def list_ex_iff split: sum.splits)

end
