(* ===== verification/Manager.thy ===== *)
theory Manager
  imports Watches Platform
begin

text \<open>
  The process of the operator (\<^verbatim>\<open>src/cmd/main.go\<close>): its command line, the options of the manager,
  and \<^verbatim>\<open>main\<close> itself with its exits. What \<^verbatim>\<open>main\<close> calls of controller-runtime and client-go are the
  fields of a record \<open>runtime\<close> over the state of the process and the cluster; the Go package
  \<^verbatim>\<open>flag\<close> is modelled.
\<close>

section \<open>Command line\<close>

record manager_flags =
  mf_metricsAddr :: string
  mf_probeAddr :: string
  mf_enableLeaderElection :: bool
  mf_secureMetrics :: bool
  mf_enableHTTP2 :: bool

definition default_flags :: manager_flags where
  "default_flags =
     \<lparr>mf_metricsAddr = ''0'', mf_probeAddr = '':8081'', mf_enableLeaderElection = False,
      mf_secureMetrics = True, mf_enableHTTP2 = False\<rparr>"

text \<open>\<^verbatim>\<open>strconv.ParseBool\<close>\<close>

definition parse_bool :: "string \<Rightarrow> bool option" where
  "parse_bool v =
     (if v \<in> set [''1'', ''t'', ''T'', ''TRUE'', ''true'', ''True''] then Some True
      else if v \<in> set [''0'', ''f'', ''F'', ''FALSE'', ''false'', ''False''] then Some False
      else None)"

text \<open>
  The formal flags: whether a flag is boolean, and what setting it does (nothing on a value
  that does not parse). Flags that zap and client-go register on the same command line are a
  parameter \<open>other\<close>: whether such a flag is boolean, and which values it takes.
\<close>

type_synonym other_flags = "string \<Rightarrow> (bool \<times> (string \<Rightarrow> bool)) option"

definition formal_flag :: "other_flags \<Rightarrow> string \<Rightarrow> (bool \<times> (string \<Rightarrow> manager_flags \<Rightarrow> manager_flags option)) option" where
  "formal_flag other name =
     (if name = ''metrics-bind-address'' then Some (False, \<lambda>v fl. Some (fl\<lparr>mf_metricsAddr := v\<rparr>))
      else if name = ''health-probe-bind-address'' then Some (False, \<lambda>v fl. Some (fl\<lparr>mf_probeAddr := v\<rparr>))
      else if name = ''leader-elect'' then Some (True, \<lambda>v fl. map_option (\<lambda>b. fl\<lparr>mf_enableLeaderElection := b\<rparr>) (parse_bool v))
      else if name = ''metrics-secure'' then Some (True, \<lambda>v fl. map_option (\<lambda>b. fl\<lparr>mf_secureMetrics := b\<rparr>) (parse_bool v))
      else if name = ''enable-http2'' then Some (True, \<lambda>v fl. map_option (\<lambda>b. fl\<lparr>mf_enableHTTP2 := b\<rparr>) (parse_bool v))
      else map_option (\<lambda>(isBool, ok). (isBool, \<lambda>v fl. if ok v then Some fl else None)) (other name))"

text \<open>The shape of an argument: not a flag, the terminator \<open>--\<close>, a syntax error, or a flag with its value, if it has one.\<close>

datatype flag_arg = NotAFlag | Terminator | BadSyntax | FlagArg string "string option"

definition flag_arg :: "string \<Rightarrow> flag_arg" where
  "flag_arg s =
     (if length s < 2 \<or> hd s \<noteq> CHR ''-'' then NotAFlag
      else if s = ''--'' then Terminator
      else let name = (if s ! 1 = CHR ''-'' then drop 2 s else drop 1 s)
           in if name = '''' \<or> hd name = CHR ''-'' \<or> hd name = CHR ''='' then BadSyntax
              else (case dropWhile (\<lambda>c. c \<noteq> CHR ''='') name of
                      [] \<Rightarrow> FlagArg name None
                    | _ # val \<Rightarrow> FlagArg (takeWhile (\<lambda>c. c \<noteq> CHR ''='') name) (Some val)))"

datatype flag_error = ErrHelp | FlagError

text \<open>
  The value a flag gets, and the arguments left: its own, \<open>true\<close> for a boolean flag, or the next
  argument.
\<close>

definition flag_value :: "bool \<Rightarrow> string option \<Rightarrow> string list \<Rightarrow> (string \<times> string list) option" where
  "flag_value isBool val args =
     (case val of
        Some v \<Rightarrow> Some (v, args)
      | None \<Rightarrow> if isBool then Some (''true'', args) else (case args of [] \<Rightarrow> None | v # rest \<Rightarrow> Some (v, rest)))"

lemma flag_value_rest: "flag_value b val args = Some (v, rest) \<Longrightarrow> length rest \<le> length args \<and> set rest \<subseteq> set args"
  by (auto simp: flag_value_def split: option.splits if_splits list.splits)

text \<open>\<^verbatim>\<open>FlagSet.Parse\<close>: the flags, or the error that ends the process; arguments after the flags are ignored.\<close>

function parse_flags :: "other_flags \<Rightarrow> string list \<Rightarrow> manager_flags \<Rightarrow> flag_error + manager_flags" where
  "parse_flags other [] fl = Inr fl"
| "parse_flags other (s # args) fl =
     (case flag_arg s of
        NotAFlag \<Rightarrow> Inr fl
      | Terminator \<Rightarrow> Inr fl
      | BadSyntax \<Rightarrow> Inl FlagError
      | FlagArg name val \<Rightarrow>
          (case formal_flag other name of
             None \<Rightarrow> Inl (if name = ''help'' \<or> name = ''h'' then ErrHelp else FlagError)
           | Some (isBool, assign) \<Rightarrow>
               (case flag_value isBool val args of
                  None \<Rightarrow> Inl FlagError
                | Some (v, rest) \<Rightarrow>
                    (case assign v fl of None \<Rightarrow> Inl FlagError | Some fl \<Rightarrow> parse_flags other rest fl))))"
  by pat_completeness auto
termination
  by (relation "measure (\<lambda>(other, args, fl). length args)") (auto dest: flag_value_rest)

section \<open>Options of the manager\<close>

record tls_config =
  tls_NextProtos :: "string list"

type_synonym tls_option = "tls_config \<Rightarrow> tls_config"

definition disableHTTP2 :: tls_option where
  "disableHTTP2 c = c\<lparr>tls_NextProtos := [''http/1.1'']\<rparr>"

definition tlsOpts :: "manager_flags \<Rightarrow> tls_option list" where
  "tlsOpts fl = (if \<not> mf_enableHTTP2 fl then [disableHTTP2] else [])"

text \<open>The filter, when there is one, is \<^verbatim>\<open>filters.WithAuthenticationAndAuthorization\<close>.\<close>

datatype filter_provider = WithAuthenticationAndAuthorization

record metrics_options =
  me_BindAddress :: string
  me_SecureServing :: bool
  me_TLSOpts :: "tls_option list"
  me_FilterProvider :: "filter_provider option"

definition metricsServerOptions :: "manager_flags \<Rightarrow> metrics_options" where
  "metricsServerOptions fl =
     (let m = \<lparr>me_BindAddress = mf_metricsAddr fl, me_SecureServing = mf_secureMetrics fl, me_TLSOpts = tlsOpts fl,
               me_FilterProvider = None\<rparr>
      in if mf_secureMetrics fl then m\<lparr>me_FilterProvider := Some WithAuthenticationAndAuthorization\<rparr> else m)"

text \<open>The scheme: the packages added to it, in order, and the kinds the API package registers with its builder.\<close>

datatype scheme_part = ClientGoScheme | KeaV1alpha1 | MonitoringV1

definition scheme :: "scheme_part list" where
  "scheme = [ClientGoScheme, KeaV1alpha1, MonitoringV1]"

definition GroupVersion :: "string \<times> string" where
  "GroupVersion = (''kea.openshift.io'', ''v1alpha1'')"

record manager_options =
  mo_Scheme :: "scheme_part list"
  mo_Metrics :: metrics_options
  mo_WebhookTLSOpts :: "tls_option list"
  mo_HealthProbeBindAddress :: string
  mo_LeaderElection :: bool
  mo_LeaderElectionID :: string

definition manager_options :: "manager_flags \<Rightarrow> manager_options" where
  "manager_options fl =
     \<lparr>mo_Scheme = scheme, mo_Metrics = metricsServerOptions fl, mo_WebhookTLSOpts = tlsOpts fl,
      mo_HealthProbeBindAddress = mf_probeAddr fl, mo_LeaderElection = mf_enableLeaderElection fl,
      mo_LeaderElectionID = ''b0ac40cb.openshift.io''\<rparr>"

section \<open>main\<close>

text \<open>
  A registered reconciler: its watches, the name of its event recorder and whether it works on
  OpenShift. \<open>rt_Complete\<close> is the builder's last call.
\<close>

record 's registration =
  re_Setup :: "'s controller_setup"
  re_Recorder :: string
  re_IsOpenShift :: bool

definition registrations :: "bool \<Rightarrow> 's registration list" where
  "registrations isOpenShift =
     map (\<lambda>(setup, recorder). \<lparr>re_Setup = setup, re_Recorder = recorder, re_IsOpenShift = isOpenShift\<rparr>)
       [(SetupWithManager_dhcp4, ''keadhcp4server-controller''),
        (SetupWithManager_dhcp6, ''keadhcp6server-controller''),
        (SetupWithManager_ctrl_agent, ''keacontrolagent-controller''),
        (SetupWithManager_ddns, ''keadhcpddns-controller''),
        (SetupWithManager_keaserver, ''keaserver-controller''),
        (SetupWithManager_stork, ''keastorkserver-controller'')]"

record 's runtime =
  rt_GetConfig :: "('s, unit) op"
  rt_NewManager :: "manager_options \<Rightarrow> ('s, unit) op"
  rt_Discover :: "'s \<Rightarrow> probe \<times> 's"
  rt_NewClient :: "('s, unit) op"
  rt_Complete :: "'s registration \<Rightarrow> ('s, unit) op"
  rt_AddHealthzCheck :: "string \<Rightarrow> ('s, unit) op"
  rt_AddReadyzCheck :: "string \<Rightarrow> ('s, unit) op"
  rt_Start :: "('s, unit) op"

text \<open>
  Everything up to the start. \<^verbatim>\<open>GetConfigOrDie\<close> and each logged error end the process with code 1,
  which is the one use of an error here, so they are the errors of the operation.
\<close>

definition manager_setup :: "'s runtime \<Rightarrow> 's env \<Rightarrow> manager_flags \<Rightarrow> ('s, unit) op" where
  "manager_setup R E fl =
     seq (rt_GetConfig R) (\<lambda>_.
     seq (rt_NewManager R (manager_options fl)) (\<lambda>_.
     seq (rt_GetConfig R) (\<lambda>_.
     seq (\<lambda>s. apfst Inr (rt_Discover R s)) (\<lambda>p.
     let isOpenShift = fst (IsOpenShift p NewDetector)
     in seq (rt_GetConfig R) (\<lambda>_.
        seq (rt_NewClient R) (\<lambda>_.
        seq (startup (E\<lparr>env_IsOpenShift := isOpenShift\<rparr>)) (\<lambda>_.
        seq (for_each (rt_Complete R) (registrations isOpenShift)) (\<lambda>_.
        seq (rt_AddHealthzCheck R ''healthz'') (\<lambda>_.
        rt_AddReadyzCheck R ''readyz'')))))))))"

datatype outcome = Exit nat | Returned

definition main :: "'s runtime \<Rightarrow> 's env \<Rightarrow> other_flags \<Rightarrow> string list \<Rightarrow> 's \<Rightarrow> outcome \<times> 's" where
  "main R E other args s =
     (case parse_flags other args default_flags of
        Inl ErrHelp \<Rightarrow> (Exit 0, s)
      | Inl FlagError \<Rightarrow> (Exit 2, s)
      | Inr fl \<Rightarrow>
          (case seq (manager_setup R E fl) (\<lambda>_. rt_Start R) s of
             (Inl err, s') \<Rightarrow> (Exit 1, s')
           | (Inr _, s') \<Rightarrow> (Returned, s')))"

section \<open>Properties\<close>

text \<open>The name an argument sets, when it is a flag.\<close>

definition sets_flag :: "string \<Rightarrow> string \<Rightarrow> bool" where
  "sets_flag name s = (case flag_arg s of FlagArg n _ \<Rightarrow> n = name | _ \<Rightarrow> False)"

text \<open>A flag no argument names keeps its value.\<close>

lemma formal_flag_frame:
  assumes "formal_flag other name = Some (b, assign)" "assign v fl = Some fl'"
  shows "name \<noteq> ''enable-http2'' \<Longrightarrow> mf_enableHTTP2 fl' = mf_enableHTTP2 fl"
    and "name \<noteq> ''metrics-secure'' \<Longrightarrow> mf_secureMetrics fl' = mf_secureMetrics fl"
  using assms by (auto simp: formal_flag_def split: if_splits option.splits)

lemma parse_flags_frame:
  "parse_flags other args fl = Inr fl' \<Longrightarrow>
   ((\<forall>s \<in> set args. \<not> sets_flag ''enable-http2'' s) \<longrightarrow> mf_enableHTTP2 fl' = mf_enableHTTP2 fl)
   \<and> ((\<forall>s \<in> set args. \<not> sets_flag ''metrics-secure'' s) \<longrightarrow> mf_secureMetrics fl' = mf_secureMetrics fl)"
proof (induction other args fl rule: parse_flags.induct)
  case (2 other s args fl)
  show ?case
  proof (cases "flag_arg s")
    case (FlagArg name val)
    show ?thesis
    proof (cases "\<exists>b assign v rest fl1. formal_flag other name = Some (b, assign) \<and> flag_value b val args = Some (v, rest) \<and> assign v fl = Some fl1")
      case True
      then obtain b assign v rest fl1 where st: "formal_flag other name = Some (b, assign)" "flag_value b val args = Some (v, rest)"
        "assign v fl = Some fl1" by blast
      with 2 FlagArg flag_value_rest [OF st(2)] formal_flag_frame [OF st(1,3)] show ?thesis
        by (fastforce simp: sets_flag_def)
    next
      case False
      with 2(2) FlagArg show ?thesis by (auto split: option.splits prod.splits if_splits)
    qed
  qed (use 2(2) in auto)
qed simp

text \<open>
  C22: secure by default. When no argument names \<^verbatim>\<open>enable-http2\<close> or \<^verbatim>\<open>metrics-secure\<close>, whatever else is
  on the command line, the metrics endpoint is served over TLS, behind authentication and
  authorization, and both servers negotiate HTTP/1.1 only; without arguments the metrics
  endpoint is off and there is no leader election.
\<close>

theorem manager_secure_by_default:
  assumes "parse_flags other args default_flags = Inr fl"
    and "\<forall>s \<in> set args. \<not> sets_flag ''enable-http2'' s \<and> \<not> sets_flag ''metrics-secure'' s"
  shows "me_SecureServing (mo_Metrics (manager_options fl)) \<and> me_FilterProvider (mo_Metrics (manager_options fl)) = Some WithAuthenticationAndAuthorization
     \<and> tls_NextProtos (fold (\<lambda>f. f) (me_TLSOpts (mo_Metrics (manager_options fl))) c) = [''http/1.1'']
     \<and> tls_NextProtos (fold (\<lambda>f. f) (mo_WebhookTLSOpts (manager_options fl)) c) = [''http/1.1'']
     \<and> (args = [] \<longrightarrow> me_BindAddress (mo_Metrics (manager_options fl)) = ''0'' \<and> \<not> mo_LeaderElection (manager_options fl))"
  using parse_flags_frame [OF assms(1)] assms
  by (auto simp: manager_options_def metricsServerOptions_def tlsOpts_def disableHTTP2_def default_flags_def Let_def)

theorem manager_secure_by_default_witness:
  "let args = [''--leader-elect'', ''-metrics-bind-address'', '':8443'', ''--zap-devel=true'', ''extra''];
       other = (\<lambda>n. if n = ''zap-devel'' then Some (True, \<lambda>v. v = ''true'' \<or> v = ''false'') else None);
       fl = default_flags\<lparr>mf_enableLeaderElection := True, mf_metricsAddr := '':8443''\<rparr>
   in parse_flags other args default_flags = Inr fl
      \<and> me_FilterProvider (mo_Metrics (manager_options fl)) = Some WithAuthenticationAndAuthorization"
proof -
  let ?args = "[''--leader-elect'', ''-metrics-bind-address'', '':8443'', ''--zap-devel=true'', ''extra'']"
  let ?o = "\<lambda>n. if n = ''zap-devel'' then Some (True, \<lambda>v. v = ''true'' \<or> v = ''false'') else None"
  let ?fl = "default_flags\<lparr>mf_enableLeaderElection := True, mf_metricsAddr := '':8443''\<rparr>"
  have p: "parse_flags ?o ?args default_flags = Inr ?fl"
    by (simp add: flag_arg_def formal_flag_def flag_value_def parse_bool_def Let_def)
  moreover have "\<forall>s \<in> set ?args. \<not> sets_flag ''enable-http2'' s \<and> \<not> sets_flag ''metrics-secure'' s"
    by (simp add: sets_flag_def flag_arg_def Let_def)
  ultimately show ?thesis using manager_secure_by_default [of ?o ?args ?fl] by (simp only: Let_def)
qed

section \<open>What the manager finds when it starts\<close>

text \<open>
  Of the runtime: before the start, only the calls for the cluster set-up change the objects of
  the cluster, and \<open>regs\<close>, the kinds with a registered
  reconciler and its platform, grows with each completed builder. Of the API
  server: a create is refused as already existing only when the object exists.
\<close>

definition registered :: "'s registration \<Rightarrow> okind \<times> bool" where
  "registered r = (cs_For (re_Setup r), re_IsOpenShift r)"

definition runtime_law :: "'s runtime \<Rightarrow> 's env \<Rightarrow> 's look \<Rightarrow> ('s \<Rightarrow> (okind \<times> bool) list) \<Rightarrow> bool" where
  "runtime_law R E look regs =
     ((\<forall>s. look (snd (rt_GetConfig R s)) = look s \<and> regs (snd (rt_GetConfig R s)) = regs s)
      \<and> (\<forall>s p. look (snd (rt_NewManager R p s)) = look s \<and> regs (snd (rt_NewManager R p s)) = regs s)
      \<and> (\<forall>s. look (snd (rt_Discover R s)) = look s \<and> regs (snd (rt_Discover R s)) = regs s)
      \<and> (\<forall>s. look (snd (rt_NewClient R s)) = look s \<and> regs (snd (rt_NewClient R s)) = regs s)
      \<and> (\<forall>s r x s'. rt_Complete R r s = (Inr x, s') \<longrightarrow> look s' = look s \<and> regs s' = regs s @ [registered r])
      \<and> (\<forall>s p. look (snd (rt_AddHealthzCheck R p s)) = look s \<and> regs (snd (rt_AddHealthzCheck R p s)) = regs s)
      \<and> (\<forall>s p. look (snd (rt_AddReadyzCheck R p s)) = look s \<and> regs (snd (rt_AddReadyzCheck R p s)) = regs s)
      \<and> (\<forall>s x. regs (snd (api_Create E x s)) = regs s) \<and> (\<forall>s k ns n. regs (snd (api_Get E k ns n s)) = regs s))"

definition exists_law :: "'s env \<Rightarrow> 's look \<Rightarrow> bool" where
  "exists_law E look = (\<forall>x s e s'. api_Create E x s = (Inl e, s') \<longrightarrow> IsAlreadyExists e \<longrightarrow> look s (obj_key x) \<noteq> None)"

lemma store_law_openshift [simp]: "store_law (E\<lparr>env_IsOpenShift := b\<rparr>) look = store_law E look"
  by (simp add: store_law_def scr_law_def read_law_def write_law_def)

lemma ensured_create:
  assumes law: "store_law E look" "exists_law E look" and m: "ignore_exists w (api_Create E x) s = (Inr u, s')"
  shows "look s' (obj_key x) \<noteq> None"
proof -
  obtain r s1 where c: "api_Create E x s = (r, s1)" by fastforce
  show ?thesis
  proof (cases r)
    case (Inl e)
    with m c have e: "IsAlreadyExists e" "s' = s1" by (auto simp: ignore_exists_def seq_def attempt_def ret_def fail_def split: if_splits)
    have "look s (obj_key x) \<noteq> None" using law(2) c Inl e(1) unfolding exists_law_def by blast
    moreover have "look s1 = look s \<or> look s1 (obj_key x) \<noteq> None" by (rule create_cases [OF law(1) c]) auto
    ultimately show ?thesis using e(2) by auto
  next
    case (Inr v)
    with m c have "s' = s1" by (simp add: ignore_exists_def seq_def attempt_def ret_def)
    with store_lawD(3) [OF law(1), unfolded write_law_def, THEN conjunct1, rule_format, OF c] Inr show ?thesis by auto
  qed
qed

definition scc_present :: "'s look \<Rightarrow> 's \<Rightarrow> bool" where
  "scc_present look s = (look s (KUnstructured ''SecurityContextConstraints'', '''', sccName) \<noteq> None \<and> look s (KClusterRole, '''', sccClusterRole) \<noteq> None)"

lemma scc_key_object:
  "obj_key (OUnstructured \<lparr>un_Kind = ''SecurityContextConstraints'', un_Owner = None, un_Object = scc_object\<rparr>)
     = (KUnstructured ''SecurityContextConstraints'', '''', sccName)"
  by (simp add: obj_key_def un_meta_field_def scc_object_def json_str_def map_get_lit zero_ObjectMeta_def Let_def)

lemma valid_got:
  assumes law: "store_law E look" and f: "\<And>e. valid (\<lambda>_. True) (f e) (\<lambda>_ s. look s (k, ns, n) \<noteq> None)"
  shows "valid (\<lambda>_. True) (seq (attempt (api_Get E k ns n)) (\<lambda>r. case r of Inr _ \<Rightarrow> ret () | Inl e \<Rightarrow> f e)) (\<lambda>_ s. look s (k, ns, n) \<noteq> None)"
proof (rule validI)
  fix s u s' assume m: "seq (attempt (api_Get E k ns n)) (\<lambda>r. case r of Inr _ \<Rightarrow> ret () | Inl e \<Rightarrow> f e) s = (Inr u, s')"
  obtain r s1 where g: "api_Get E k ns n s = (r, s1)" by fastforce
  with m get_look [OF law, of k ns n s] get_found [OF law, of k ns n s] validD [OF f] show "look s' (k, ns, n) \<noteq> None"
    by (cases r) (auto simp: seq_def attempt_def ret_def)
qed

lemma startup_post:
  assumes law: "store_law E look" "exists_law E look"
  shows "valid (\<lambda>_. True) (startup E) (\<lambda>_ s. look s (KNamespace, '''', DefaultNamespace) \<noteq> None \<and> (env_IsOpenShift E \<longrightarrow> scc_present look s))"
proof -
  let ?N = "(KNamespace, '''', DefaultNamespace)" and ?S = "(KUnstructured ''SecurityContextConstraints'', '''', sccName)"
    and ?C = "(KClusterRole, '''', sccClusterRole)"
  let ?x = "OUnstructured \<lparr>un_Kind = ''SecurityContextConstraints'', un_Owner = None, un_Object = scc_object\<rparr>"
  have kept: "valid (\<lambda>s. look s K \<noteq> None) m (\<lambda>_ s. look s K \<noteq> None)"
    if "\<And>x. keeps (\<lambda>s. look s K = Some x) m" for K and m :: "('a, unit) op"
    using that unfolding valid_def keeps_def by (metis not_None_eq snd_conv)
  note ex = env_keeps_existing [OF law(1)]
  have k1: "keeps (\<lambda>s. look s K = Some x) (EnsureSCC E)" for K x
    unfolding EnsureSCC_def by (intro keeps_rules keeps_env(1) [OF ex] keeps_env(6) [OF ex]) simp
  have k2: "keeps (\<lambda>s. look s K = Some x) (EnsureSCCClusterRole E)" for K x
    unfolding EnsureSCCClusterRole_def ignore_exists_def by (intro keeps_rules keeps_env(1) [OF ex] keeps_env(6) [OF ex]) simp
  have p1: "valid (\<lambda>_. True) (EnsureDefaultNamespace E) (\<lambda>_ s. look s ?N \<noteq> None)"
    by (rule validI, unfold EnsureDefaultNamespace_def, drule ensured_create [OF law]) (simp add: obj_key_def zero_ObjectMeta_def)
  have p2: "valid (\<lambda>_. True) (EnsureSCC E) (\<lambda>_ s. look s ?S \<noteq> None)"
    unfolding EnsureSCC_def
  proof (rule valid_got [OF law(1)], rule validI)
    fix e s u s'
    assume "(if \<not> IsNotFound e then fail (Wrap ''checking SCC'' e) else wrap_err ''creating SCC'' (api_Create E ?x)) s = (Inr u, s')"
    then have c: "api_Create E ?x s = (Inr u, s')"
      by (auto simp: fail_def wrap_err_def split: if_splits prod.splits sum.splits)
    then have "look s' (obj_key ?x) \<noteq> None"
      using store_lawD(3) [OF law(1), unfolded write_law_def, THEN conjunct1, rule_format, OF c] by auto
    then show "look s' ?S \<noteq> None" by (simp only: scc_key_object not_False_eq_True)
  qed
  have p3: "valid (\<lambda>_. True) (EnsureSCCClusterRole E) (\<lambda>_ s. look s ?C \<noteq> None)"
    unfolding EnsureSCCClusterRole_def
    by (rule valid_got [OF law(1)], rule validI, drule ensured_create [OF law]) (simp add: obj_key_def zero_ObjectMeta_def)
  have p4: "valid (\<lambda>s. look s ?N \<noteq> None) (EnsureSCC E) (\<lambda>_ s. look s ?N \<noteq> None \<and> look s ?S \<noteq> None)"
    using valid_conj [OF kept [OF k1] p2] by simp
  have p5: "valid (\<lambda>s. look s ?N \<noteq> None \<and> look s ?S \<noteq> None) (EnsureSCCClusterRole E) (\<lambda>_ s. look s ?N \<noteq> None \<and> scc_present look s)"
    using valid_conj [OF valid_conj [OF kept [OF k2] kept [OF k2]] p3] by (simp add: scc_present_def conj_assoc)
  show ?thesis
  proof (cases "env_IsOpenShift E")
    case True
    then show ?thesis unfolding startup_def by (simp only: if_True simp_thms) (rule valid_seq [OF p1 valid_seq [OF p4 p5]])
  next
    case False
    then show ?thesis unfolding startup_def by (simp only: if_False simp_thms) (rule valid_seq [OF p1], simp add: valid_def ret_def)
  qed
qed

lemma for_each_Complete:
  assumes "\<And>s r x s'. rt_Complete R r s = (Inr x, s') \<Longrightarrow> look s' = look s \<and> regs s' = regs s @ [registered r]"
  shows "for_each (rt_Complete R) rs s = (Inr u, s') \<Longrightarrow> look s' = look s \<and> regs s' = regs s @ map registered rs"
proof (induction rs arbitrary: s)
  case (Cons r rs)
  then obtain s1 where "rt_Complete R r s = (Inr (), s1)" "for_each (rt_Complete R) rs s1 = (Inr u, s')"
    by (auto simp: seq_def split: prod.splits sum.splits)
  with Cons.IH assms show ?case by fastforce
qed (simp add: ret_def)

lemma seq_successE:
  assumes "seq m f s = (Inr y, s')"
  obtains x s1 where "m s = (Inr x, s1)" "f x s1 = (Inr y, s')"
  using assms by (auto simp: seq_def split: prod.splits sum.splits)

lemma manager_setup_post:
  fixes E :: "'s env"
  assumes law: "store_law E look" "exists_law E look" and R: "runtime_law R E look regs" and m: "manager_setup R E fl s = (Inr u, s')"
  shows "\<exists>b. regs s' = regs s @ map registered (registrations b :: 's registration list) \<and> look s' (KNamespace, '''', DefaultNamespace) \<noteq> None \<and> (b \<longrightarrow> scc_present look s')"
proof -
  note q = R [unfolded runtime_law_def]
  from m obtain s1 s2 s3 s4 p s5 s6 s7 s8 s9 b where
    1: "rt_GetConfig R s = (Inr (), s1)" "rt_NewManager R (manager_options fl) s1 = (Inr (), s2)" "rt_GetConfig R s2 = (Inr (), s3)"
      "rt_Discover R s3 = (p, s4)" "rt_GetConfig R s4 = (Inr (), s5)" "rt_NewClient R s5 = (Inr (), s6)"
    and 2: "startup (E\<lparr>env_IsOpenShift := b\<rparr>) s6 = (Inr (), s7)"
    and 3: "for_each (rt_Complete R) (registrations b) s7 = (Inr (), s8)"
    and 4: "rt_AddHealthzCheck R ''healthz'' s8 = (Inr (), s9)" "rt_AddReadyzCheck R ''readyz'' s9 = (Inr u, s')"
    unfolding manager_setup_def Let_def by (elim seq_successE) (auto simp: apfst_def map_prod_def split: prod.splits)
  have r6: "regs s6 = regs s" using 1 q by (metis snd_conv)
  have "keeps (\<lambda>s. regs s = regs s6) (startup (E\<lparr>env_IsOpenShift := b\<rparr>))"
    unfolding startup_def EnsureDefaultNamespace_def EnsureSCC_def EnsureSCCClusterRole_def ignore_exists_def
    by (intro keeps_rules) (use q in \<open>simp_all add: keeps_def\<close>)
  from keepsD [OF this refl 2] have r7: "regs s7 = regs s" by (simp add: r6)
  have law': "exists_law (E\<lparr>env_IsOpenShift := b\<rparr>) look" using law(2) by (simp add: exists_law_def)
  from validD [OF startup_post [of "E\<lparr>env_IsOpenShift := b\<rparr>" look] _ 2] law(1) law'
  have p7: "look s7 (KNamespace, '''', DefaultNamespace) \<noteq> None \<and> (b \<longrightarrow> scc_present look s7)" by simp
  have "look s8 = look s7 \<and> regs s8 = regs s7 @ map registered (registrations b :: 's registration list)" by (rule for_each_Complete [OF _ 3]) (use q in blast)
  moreover have "look s' = look s8" "regs s' = regs s8" using 4 q by (metis snd_conv)+
  ultimately show ?thesis using p7 r7 by (intro exI [of _ b]) (simp add: scc_present_def)
qed

text \<open>
  C13: the manager starts only when everything it needs is there. When \<^verbatim>\<open>main\<close> returns, the
  manager was started in a state in which all six reconcilers were registered, one for each
  resource kind of the API and all with the same platform, the default namespace existed, and
  on OpenShift the SCC and its ClusterRole too. A failure before that ends the process with
  code 1 in the state of the failure: the manager is not started.
\<close>

theorem manager_starts_prepared:
  assumes "store_law E look" and "exists_law E look" and "runtime_law R E look regs" and "regs s = []"
    and "parse_flags other args default_flags = Inr fl"
  shows "(case manager_setup R E fl s of
       (Inl e, s1) \<Rightarrow> main R E other args s = (Exit 1, s1)
     | (Inr _, s1) \<Rightarrow>
         (\<exists>b. regs s1 = map (\<lambda>k. (k, b)) [KDhcp4, KDhcp6, KControlAgent, KDdns, KKeaServer, KStorkServer] \<and> (b \<longrightarrow> scc_present look s1))
         \<and> look s1 (KNamespace, '''', DefaultNamespace) \<noteq> None
         \<and> main R E other args s = (case rt_Start R s1 of (Inl e, s2) \<Rightarrow> (Exit 1, s2) | (Inr _, s2) \<Rightarrow> (Returned, s2)))"
proof -
  obtain r s1 where m: "manager_setup R E fl s = (r, s1)" by fastforce
  have main: "main R E other args s = (case seq (manager_setup R E fl) (\<lambda>_. rt_Start R) s of (Inl err, s') \<Rightarrow> (Exit 1, s') | (Inr _, s') \<Rightarrow> (Returned, s'))"
    by (simp add: main_def assms(5))
  show ?thesis
  proof (cases r)
    case (Inl e)
    then show ?thesis by (simp add: main m seq_def)
  next
    case (Inr u)
    obtain b where "regs s1 = map (\<lambda>k. (k, b)) [KDhcp4, KDhcp6, KControlAgent, KDdns, KKeaServer, KStorkServer]
        \<and> look s1 (KNamespace, '''', DefaultNamespace) \<noteq> None \<and> (b \<longrightarrow> scc_present look s1)"
      using manager_setup_post [OF assms(1-3) m [unfolded Inr]] assms(4) by (auto simp: registrations_def registered_def setups)
    then show ?thesis by (auto simp: main m Inr seq_def)
  qed
qed

text \<open>A runtime over the in-memory cluster, whose event log takes the registrations.\<close>

definition mem_runtime :: "bool \<Rightarrow> mem runtime" where
  "mem_runtime b =
     \<lparr>rt_GetConfig = ret (), rt_NewManager = (\<lambda>_. ret ()),
      rt_Discover = (\<lambda>s. (\<lparr>pr_client = Inr (), pr_groups = Inr (if b then [''route.openshift.io''] else [])\<rparr>, s)),
      rt_NewClient = ret (),
      rt_Complete = (\<lambda>r s. (Inr (), s\<lparr>mem_events := mem_events s @ [((cs_For (re_Setup r), '''', ''''), re_Recorder r, if re_IsOpenShift r then ''1'' else '''')]\<rparr>)),
      rt_AddHealthzCheck = (\<lambda>_. ret ()), rt_AddReadyzCheck = (\<lambda>_. ret ()), rt_Start = ret ()\<rparr>"

definition mem_regs :: "mem \<Rightarrow> (okind \<times> bool) list" where
  "mem_regs s = map (\<lambda>((k, _), _, r). (k, r = ''1'')) (mem_events s)"

lemma mem_runtime_law: "runtime_law (mem_runtime b) (mem_env b') mem_look mem_regs"
  by (auto simp: runtime_law_def mem_runtime_def ret_def mem_regs_def registered_def mem_env_simps mem_put_def split: option.split)

lemma mem_exists_law: "exists_law (mem_env b) mem_look"
  by (auto simp: exists_law_def mem_env_simps split: option.splits)

theorem manager_starts_prepared_witness:
  "case main (mem_runtime True) (mem_env False) (\<lambda>_. None) [] (mem_init []) of
     (r, s) \<Rightarrow> r = Returned \<and> scc_present mem_look s \<and> mem_look s (KNamespace, '''', DefaultNamespace) \<noteq> None
       \<and> mem_regs s = map (\<lambda>k. (k, True)) [KDhcp4, KDhcp6, KControlAgent, KDdns, KKeaServer, KStorkServer]"
proof -
  let ?m = "manager_setup (mem_runtime True) (mem_env False) default_flags (mem_init [])"
  obtain r s1 where m: "?m = (r, s1)" by fastforce
  have "fst ?m = Inr () \<and> mem_regs (snd ?m) = map (\<lambda>k. (k, True)) [KDhcp4, KDhcp6, KControlAgent, KDdns, KKeaServer, KStorkServer]"
    by (simp add: manager_setup_def mem_runtime_def seq_def ret_def startup_def Let_def apfst_def IsOpenShift_def NewDetector_def detect_def
        EnsureDefaultNamespace_def EnsureSCC_def EnsureSCCClusterRole_def ignore_exists_def attempt_def wrap_err_def mem_env_simps
        mem_init_def mem_look_def mem_put_def mem_regs_def registrations_def setups obj_key_def DefaultNamespace_def)
  with m have "r = Inr ()" "mem_regs s1 = map (\<lambda>k. (k, True)) [KDhcp4, KDhcp6, KControlAgent, KDdns, KKeaServer, KStorkServer]" by simp_all
  moreover have "mem_regs (mem_init []) = []" "rt_Start (mem_runtime True) s1 = (Inr (), s1)"
    by (simp_all add: mem_regs_def mem_init_def mem_runtime_def ret_def)
  ultimately show ?thesis
    using manager_starts_prepared [OF mem_store_law mem_exists_law mem_runtime_law [of True False], of "mem_init []" "\<lambda>_. None" "[]" default_flags]
    by (auto simp: m)
qed

end
