(* ===== verification/ConsolePlugin.thy ===== *)
theory ConsolePlugin
  imports CtrlAgentController
begin

text \<open>
  The backend of the console plugin (\<^verbatim>\<open>src/console-plugin/pkg\<close>): discovery of the control agents,
  the client of their REST interface, and the handlers that aggregate leases. The HTTP transport
  and the typed decoders of \<^verbatim>\<open>json.Unmarshal\<close> are the fields of a record \<open>web\<close>, over a state of
  the network; log output is left out.
\<close>

section \<open>discovery.go\<close>

text \<open>
  A value of an unstructured object, as far as \<^verbatim>\<open>DiscoverAgents\<close> tells it apart. A float carries
  what Go's conversion to \<^verbatim>\<open>int32\<close> gives for it.
\<close>

datatype iface = IInt64 int64 | IFloat64 int32 | IOther

text \<open>A listed resource: name, namespace and the \<^verbatim>\<open>spec\<close> when it is a map.\<close>

record agent_item =
  ai_Name :: string
  ai_Namespace :: string
  ai_Spec :: "iface strmap option"

record AgentEndpoint =
  ae_Name :: string
  ae_Namespace :: string
  ae_URL :: string
  ae_Port :: int32

definition agent_port :: "iface strmap option \<Rightarrow> int32" where
  "agent_port spec =
     (case spec of
        None \<Rightarrow> 8000
      | Some m \<Rightarrow>
          (case map_get m ''http-port'' of
             Some (IInt64 v) \<Rightarrow> word_of_int (sint v)
           | Some (IFloat64 v) \<Rightarrow> v
           | _ \<Rightarrow> 8000))"

definition agent_endpoint :: "agent_item \<Rightarrow> AgentEndpoint" where
  "agent_endpoint item =
     (let name = ai_Name item; namespace = ai_Namespace item; port = agent_port (ai_Spec item);
          serviceName = name @ ''-ctrl-agent'';
          url = ''http://'' @ serviceName @ ''.'' @ namespace @ ''.svc.cluster.local:'' @ dec_int32 port @ ''/''
      in \<lparr>ae_Name = name, ae_Namespace = namespace, ae_URL = url, ae_Port = port\<rparr>)"

definition DiscoverAgents :: "('s, agent_item list) op \<Rightarrow> ('s, AgentEndpoint list) op" where
  "DiscoverAgents list_agents =
     seq (wrap_err ''failed to list KeaControlAgent resources'' list_agents) (\<lambda>items. ret (map agent_endpoint items))"

section \<open>client.go\<close>

record KeaCommand =
  kc_Command :: string
  kc_Service :: "string list"
  kc_Arguments :: "json option"

record KeaResponse =
  kr_Result :: int
  kr_Text :: string
  kr_Arguments :: string

record Lease4 =
  l4_IPAddress :: string
  l4_HWAddress :: string
  l4_ClientID :: string
  l4_ValidLft :: int64
  l4_CLTT :: int64
  l4_SubnetID :: int
  l4_FqdnFwd :: bool
  l4_FqdnRev :: bool
  l4_Hostname :: string
  l4_State :: int

record Lease6 =
  l6_IPAddress :: string
  l6_DUID :: string
  l6_IAID :: int
  l6_SubnetID :: int
  l6_ValidLft :: int64
  l6_CLTT :: int64
  l6_PreferredLft :: int64
  l6_Hostname :: string
  l6_State :: int
  l6_Type :: string
  l6_PrefixLen :: int
  l6_FqdnFwd :: bool
  l6_FqdnRev :: bool

text \<open>\<^verbatim>\<open>json.Marshal\<close>: the encoding of \<^theory_text>\<open>GoJson\<close> without white space.\<close>

fun json_compact :: "json \<Rightarrow> string"
  and compact_elems :: "json list \<Rightarrow> string"
  and compact_members :: "(string \<times> json) list \<Rightarrow> string" where
  "json_compact JNull = ''null''"
| "json_compact (JBool b) = (if b then ''true'' else ''false'')"
| "json_compact (JNum n) = n"
| "json_compact (JStr s) = json_string s"
| "json_compact (JArr xs) = CHR ''['' # compact_elems xs @ [CHR '']'']"
| "json_compact (JObj m) = CHR ''{'' # compact_members m @ [CHR ''}'']"
| "compact_elems [] = []"
| "compact_elems (x # xs) = json_compact x @ (if xs = [] then [] else CHR '','' # compact_elems xs)"
| "compact_members [] = []"
| "compact_members ((k, x) # m) =
     json_string k @ CHR '':'' # json_compact x @ (if m = [] then [] else CHR '','' # compact_members m)"

definition command_json :: "KeaCommand \<Rightarrow> json" where
  "command_json cmd =
     JObj ([(''command'', JStr (kc_Command cmd)), (''service'', JStrs (kc_Service cmd))]
           @ (case kc_Arguments cmd of None \<Rightarrow> [] | Some a \<Rightarrow> [(''arguments'', a)]))"

text \<open>
  The network: a URL may be unfit for a request, a POST gives a status code and a body to be
  read. The decoders give the values of the parsed JSON, or nothing on a syntax or type error.
\<close>

record 's web =
  web_NewRequest :: "string \<Rightarrow> goerror option"
  web_Post :: "string \<Rightarrow> string \<Rightarrow> ('s, int \<times> (goerror + string)) op"
  dec_responses :: "string \<Rightarrow> KeaResponse list option"
  dec_leases4 :: "string \<Rightarrow> Lease4 list option"
  dec_leases6 :: "string \<Rightarrow> Lease6 list option"

definition SendCommand :: "'s web \<Rightarrow> string \<Rightarrow> KeaCommand \<Rightarrow> ('s, KeaResponse list) op" where
  "SendCommand N agentURL cmd =
     (case web_NewRequest N agentURL of
        Some err \<Rightarrow> fail (Wrap ''failed to create request'' err)
      | None \<Rightarrow>
          seq (wrap_err ''failed to send request'' (web_Post N agentURL (json_compact (command_json cmd)))) (\<lambda>(status, body).
          case body of
            Inl err \<Rightarrow> fail (Wrap ''failed to read response body'' err)
          | Inr respBody \<Rightarrow>
              if status \<noteq> 200 then fail (Errorf ''unexpected status code'')
              else (case dec_responses N respBody of
                      None \<Rightarrow> fail (Errorf ''failed to unmarshal response'')
                    | Some responses \<Rightarrow> ret responses)))"

text \<open>The common text of \<^verbatim>\<open>GetLeases4\<close> and \<^verbatim>\<open>GetLeases6\<close>: the command, then the first response.\<close>

definition lease_command :: "string \<Rightarrow> string \<Rightarrow> KeaCommand" where
  "lease_command command service =
     \<lparr>kc_Command = command, kc_Service = [service],
      kc_Arguments = Some (JObj (map_lit [(''from'', JStr ''start''), (''limit'', JInt 10000)]))\<rparr>"

definition leases_of_responses :: "(string \<Rightarrow> 'l list option) \<Rightarrow> KeaResponse list \<Rightarrow> goerror + 'l list" where
  "leases_of_responses dec responses =
     (case responses of
        [] \<Rightarrow> Inl (Errorf ''empty response'')
      | first # _ \<Rightarrow>
          if kr_Result first = 3 then Inr []
          else if kr_Result first \<noteq> 0 then Inl (Errorf ''kea error'')
          else (case dec (kr_Arguments first) of
                  None \<Rightarrow> Inl (Errorf ''failed to unmarshal lease arguments'')
                | Some leases \<Rightarrow> Inr leases))"

definition GetLeases4 :: "'s web \<Rightarrow> string \<Rightarrow> ('s, Lease4 list) op" where
  "GetLeases4 N agentURL =
     seq (SendCommand N agentURL (lease_command ''lease4-get-page'' ''dhcp4'')) (\<lambda>responses.
     lift (leases_of_responses (dec_leases4 N) responses))"

definition GetLeases6 :: "'s web \<Rightarrow> string \<Rightarrow> ('s, Lease6 list) op" where
  "GetLeases6 N agentURL =
     seq (SendCommand N agentURL (lease_command ''lease6-get-page'' ''dhcp6'')) (\<lambda>responses.
     lift (leases_of_responses (dec_leases6 N) responses))"

section \<open>handler.go\<close>

definition lease4_json :: "Lease4 \<Rightarrow> json" where
  "lease4_json l =
     JObj ([(''ip-address'', JStr (l4_IPAddress l)), (''hw-address'', JStr (l4_HWAddress l))]
       @ (if l4_ClientID l = '''' then [] else [(''client-id'', JStr (l4_ClientID l))])
       @ [(''valid-lft'', JInt64 (l4_ValidLft l)), (''cltt'', JInt64 (l4_CLTT l)), (''subnet-id'', JInt (l4_SubnetID l)),
          (''fqdn-fwd'', JBool (l4_FqdnFwd l)), (''fqdn-rev'', JBool (l4_FqdnRev l)), (''hostname'', JStr (l4_Hostname l)),
          (''state'', JInt (l4_State l))])"

definition lease6_json :: "Lease6 \<Rightarrow> json" where
  "lease6_json l =
     JObj ([(''ip-address'', JStr (l6_IPAddress l)), (''duid'', JStr (l6_DUID l)), (''iaid'', JInt (l6_IAID l)),
            (''subnet-id'', JInt (l6_SubnetID l)), (''valid-lft'', JInt64 (l6_ValidLft l)), (''cltt'', JInt64 (l6_CLTT l)),
            (''preferred-lft'', JInt64 (l6_PreferredLft l)), (''hostname'', JStr (l6_Hostname l)), (''state'', JInt (l6_State l)),
            (''type'', JStr (l6_Type l))]
       @ (if l6_PrefixLen l = 0 then [] else [(''prefix-len'', JInt (l6_PrefixLen l))])
       @ [(''fqdn-fwd'', JBool (l6_FqdnFwd l)), (''fqdn-rev'', JBool (l6_FqdnRev l))])"

text \<open>\<^verbatim>\<open>queriedAgents\<close> is nil, and encoded as null, until an agent has answered.\<close>

definition LeaseResponse :: "('l \<Rightarrow> json) \<Rightarrow> 'l list \<Rightarrow> string list \<Rightarrow> json" where
  "LeaseResponse enc leases agents =
     JObj [(''leases'', JArr (map enc leases)), (''count'', JInt (int (length leases))),
           (''agents'', if agents = [] then JNull else JStrs agents)]"

definition AgentResponse :: "AgentEndpoint list \<Rightarrow> json" where
  "AgentResponse agents =
     JObj [(''agents'', JArr (map (\<lambda>a. JObj [(''name'', JStr (ae_Name a)), (''namespace'', JStr (ae_Namespace a)),
       (''url'', JStr (ae_URL a)), (''port'', JInt32 (ae_Port a))]) agents))]"

record http_reply =
  hr_Status :: int
  hr_Header :: "string strmap"
  hr_Body :: string

definition writeJSON :: "int \<Rightarrow> json \<Rightarrow> http_reply" where
  "writeJSON status data =
     \<lparr>hr_Status = status,
      hr_Header = map_lit [(''Content-Type'', ''application/json''), (''Access-Control-Allow-Origin'', ''*''),
        (''Access-Control-Allow-Methods'', ''GET, OPTIONS''), (''Access-Control-Allow-Headers'', ''Content-Type'')],
      hr_Body = json_compact data @ [CHR 0x0A]\<rparr>"

definition writeError :: "int \<Rightarrow> string \<Rightarrow> http_reply" where
  "writeError status msg = writeJSON status (JObj [(''error'', JStr msg)])"

text \<open>The loop over the agents: a filtered agent is skipped, one that fails is only logged.\<close>

fun collect_leases ::
  "(string \<Rightarrow> ('s, 'l list) op) \<Rightarrow> string \<Rightarrow> AgentEndpoint list \<Rightarrow> 'l list \<Rightarrow> string list \<Rightarrow> ('s, 'l list \<times> string list) op" where
  "collect_leases get namespaceFilter [] allLeases queriedAgents = ret (allLeases, queriedAgents)"
| "collect_leases get namespaceFilter (agent # agents) allLeases queriedAgents =
     (if namespaceFilter \<noteq> '''' \<and> ae_Namespace agent \<noteq> namespaceFilter
      then collect_leases get namespaceFilter agents allLeases queriedAgents
      else seq (attempt (get (ae_URL agent))) (\<lambda>r.
             case r of
               Inl err \<Rightarrow> collect_leases get namespaceFilter agents allLeases queriedAgents
             | Inr leases \<Rightarrow> collect_leases get namespaceFilter agents (allLeases @ leases) (queriedAgents @ [ae_URL agent])))"

definition lease_handler ::
  "(string \<Rightarrow> ('s, 'l list) op) \<Rightarrow> ('l \<Rightarrow> json) \<Rightarrow> ('s, agent_item list) op \<Rightarrow> string \<Rightarrow> ('s, http_reply) op" where
  "lease_handler get enc list_agents namespaceFilter =
     seq (attempt (DiscoverAgents list_agents)) (\<lambda>r.
       case r of
         Inl err \<Rightarrow> ret (writeError 500 ''failed to discover agents'')
       | Inr agents \<Rightarrow>
           seq (collect_leases get namespaceFilter agents [] []) (\<lambda>(allLeases, queriedAgents).
           ret (writeJSON 200 (LeaseResponse enc allLeases queriedAgents))))"

definition Handler_GetLeases4 :: "'s web \<Rightarrow> ('s, agent_item list) op \<Rightarrow> string \<Rightarrow> ('s, http_reply) op" where
  "Handler_GetLeases4 N = lease_handler (GetLeases4 N) lease4_json"

definition Handler_GetLeases6 :: "'s web \<Rightarrow> ('s, agent_item list) op \<Rightarrow> string \<Rightarrow> ('s, http_reply) op" where
  "Handler_GetLeases6 N = lease_handler (GetLeases6 N) lease6_json"

definition ListAgents :: "('s, agent_item list) op \<Rightarrow> ('s, http_reply) op" where
  "ListAgents list_agents =
     seq (attempt (DiscoverAgents list_agents)) (\<lambda>r.
       ret (case r of
              Inl err \<Rightarrow> writeError 500 ''failed to discover agents''
            | Inr agents \<Rightarrow> writeJSON 200 (AgentResponse agents)))"

definition Healthz :: http_reply where
  "Healthz = writeJSON 200 (JObj [(''status'', JStr ''ok'')])"

section \<open>Properties\<close>

text \<open>The reference: ask the agents one after another and note what each gives.\<close>

fun ask_all :: "(string \<Rightarrow> ('s, 'l list) op) \<Rightarrow> AgentEndpoint list \<Rightarrow> 's \<Rightarrow> (AgentEndpoint \<times> (goerror + 'l list)) list \<times> 's" where
  "ask_all get [] s = ([], s)"
| "ask_all get (a # as) s =
     (case get (ae_URL a) s of (r, s1) \<Rightarrow> (case ask_all get as s1 of (outs, s2) \<Rightarrow> ((a, r) # outs, s2)))"

fun answered :: "(AgentEndpoint \<times> (goerror + 'l list)) list \<Rightarrow> (AgentEndpoint \<times> 'l list) list" where
  "answered [] = []"
| "answered ((a, Inl e) # outs) = answered outs"
| "answered ((a, Inr ls) # outs) = (a, ls) # answered outs"

definition in_scope :: "string \<Rightarrow> AgentEndpoint \<Rightarrow> bool" where
  "in_scope ns a = (ns = '''' \<or> ae_Namespace a = ns)"

lemma collect_leases_ref:
  "collect_leases get ns as ls us s =
     (case ask_all get (filter (in_scope ns) as) s of
        (outs, s') \<Rightarrow> (Inr (ls @ concat (map snd (answered outs)), us @ map (ae_URL \<circ> fst) (answered outs)), s'))"
proof (induction as arbitrary: ls us s)
  case Nil
  then show ?case by (simp add: ret_def)
next
  case (Cons a as)
  then show ?case
    by (auto simp: in_scope_def seq_def attempt_def split: prod.split sum.split)
qed

lemma lease_handler_ref:
  "lease_handler get enc la ns s =
     (case la s of
        (Inl e, s1) \<Rightarrow> (Inr (writeError 500 ''failed to discover agents''), s1)
      | (Inr items, s1) \<Rightarrow>
          (case ask_all get (filter (in_scope ns) (map agent_endpoint items)) s1 of
             (outs, s2) \<Rightarrow> (Inr (writeJSON 200 (LeaseResponse enc (concat (map snd (answered outs))) (map (ae_URL \<circ> fst) (answered outs)))), s2)))"
  by (simp add: lease_handler_def DiscoverAgents_def seq_def attempt_def wrap_err_def ret_def collect_leases_ref split: prod.split sum.split)

text \<open>
  C36: the lease endpoints aggregate. When the agents can be listed, the reply is always 200:
  its leases are those of the agents in the requested namespace that answered, in the order of
  the list, and its agents are exactly the URLs of these; an agent that fails changes neither.
  Only a failed listing gives an error, and no agent is contacted then.
\<close>

theorem console_leases_aggregate:
  "Handler_GetLeases4 N la ns s =
     (case la s of
        (Inl e, s1) \<Rightarrow> (Inr (writeError 500 ''failed to discover agents''), s1)
      | (Inr items, s1) \<Rightarrow>
          (case ask_all (GetLeases4 N) (filter (in_scope ns) (map agent_endpoint items)) s1 of
             (outs, s2) \<Rightarrow> (Inr (writeJSON 200 (LeaseResponse lease4_json (concat (map snd (answered outs))) (map (ae_URL \<circ> fst) (answered outs)))), s2)))
   \<and> Handler_GetLeases6 N la ns s =
     (case la s of
        (Inl e, s1) \<Rightarrow> (Inr (writeError 500 ''failed to discover agents''), s1)
      | (Inr items, s1) \<Rightarrow>
          (case ask_all (GetLeases6 N) (filter (in_scope ns) (map agent_endpoint items)) s1 of
             (outs, s2) \<Rightarrow> (Inr (writeJSON 200 (LeaseResponse lease6_json (concat (map snd (answered outs))) (map (ae_URL \<circ> fst) (answered outs)))), s2)))"
  by (simp only: Handler_GetLeases4_def Handler_GetLeases6_def lease_handler_ref)

text \<open>The listed form of a resource: name, namespace, and the port when the spec has one.\<close>

definition describes :: "agent_item \<Rightarrow> KeaControlAgent \<Rightarrow> bool" where
  "describes item cr =
     (ai_Name item = om_Name (kca_ObjectMeta cr) \<and> ai_Namespace item = om_Namespace (kca_ObjectMeta cr)
      \<and> (case ai_Spec item of
           None \<Rightarrow> False
         | Some m \<Rightarrow> map_get m ''http-port'' = map_option (\<lambda>p. IInt64 (word_of_int (sint p))) (ca_HTTPPort (kca_Spec cr))))"

lemma int32_in_int64: "scast (scast (p :: int32) :: int64) = p"
  by (rule scast_up_scast_id) (simp add: is_up)

text \<open>
  C37: the plugin talks to the Service the operator makes. For a control agent that the list
  describes, the discovered URL has the name, the namespace and the port of the one port of the
  Service its reconciler applies, in every case of the optional port.
\<close>

theorem console_reaches_control_agent:
  assumes "describes item cr"
  shows "\<exists>svc port. reconcileControlAgentService E cr ComponentCtrlAgent = reconcile_as ''Service'' E (kca_ObjectMeta cr) (OService svc)
     \<and> svs_Ports (svc_Spec svc) = [port]
     \<and> ae_URL (agent_endpoint item) = ''http://'' @ om_Name (svc_Meta svc) @ ''.'' @ om_Namespace (svc_Meta svc)
          @ ''.svc.cluster.local:'' @ dec_int32 (sp_Port port) @ ''/''
     \<and> ae_Port (agent_endpoint item) = sp_Port port"
  using assms
  by (auto simp: describes_def reconcileControlAgentService_def agent_endpoint_def agent_port_def BuildService_def component_port_def
      object_meta_def ServiceName_def ComponentCtrlAgent_def service_params_def int32_in_int64 Let_def
      split: option.splits intro!: exI)

theorem console_reaches_control_agent_witness:
  "describes \<lparr>ai_Name = ''a'', ai_Namespace = ''kea'', ai_Spec = Some (map_lit [(''http-port'', IInt64 9000)])\<rparr>
     (zero_KeaControlAgent\<lparr>kca_ObjectMeta := zero_ObjectMeta\<lparr>om_Name := ''a'', om_Namespace := ''kea''\<rparr>,
        kca_Spec := (kca_Spec zero_KeaControlAgent)\<lparr>ca_HTTPPort := Some 9000\<rparr>\<rparr>)
   \<and> ae_URL (agent_endpoint \<lparr>ai_Name = ''a'', ai_Namespace = ''kea'', ai_Spec = Some (map_lit [(''http-port'', IInt64 9000)])\<rparr>)
       = ''http://a-ctrl-agent.kea.svc.cluster.local:9000/''"
proof -
  let ?i = "\<lparr>ai_Name = ''a'', ai_Namespace = ''kea'', ai_Spec = Some (map_lit [(''http-port'', IInt64 9000)])\<rparr>"
  let ?c = "zero_KeaControlAgent\<lparr>kca_ObjectMeta := zero_ObjectMeta\<lparr>om_Name := ''a'', om_Namespace := ''kea''\<rparr>,
        kca_Spec := (kca_Spec zero_KeaControlAgent)\<lparr>ca_HTTPPort := Some 9000\<rparr>\<rparr>"
  have d: "describes ?i ?c" by (simp add: describes_def map_get_lit)
  have "digit_char 9 = CHR ''9''" "digit_char 0 = CHR ''0''" by code_simp+
  then have "dec_int32 9000 = ''9000''" by (simp add: dec_int32_def dec_int_def dec_nat.simps)
  then have "ae_URL (agent_endpoint ?i) = ''http://a-ctrl-agent.kea.svc.cluster.local:9000/''"
    by (simp add: agent_endpoint_def agent_port_def map_get_lit Let_def)
  with d console_reaches_control_agent [OF d] show ?thesis by blast
qed

end
