(* ===== verification/ConsoleBackend.thy ===== *)
theory ConsoleBackend
  imports ConsolePlugin
begin

text \<open>
  The process of the console plugin's backend (\<^verbatim>\<open>src/console-plugin/cmd/backend/main.go\<close>): the
  clients it needs, the port, and the routes. The multiplexer of \<^verbatim>\<open>net/http\<close> is modelled as far as
  the four patterns use it: they are literal paths without a verb or a host. A request with the
  URI \<^verbatim>\<open>*\<close> is refused, the path of a CONNECT request is taken as it is, and any other request whose
  path is not clean is redirected to the clean one. Paths are those of requests without percent
  escapes.
\<close>

section \<open>Clean paths\<close>

fun split_slash :: "string \<Rightarrow> string list" where
  "split_slash [] = [[]]"
| "split_slash (c # cs) =
     (if c = CHR ''/'' then [] # split_slash cs
      else (case split_slash cs of [] \<Rightarrow> [[c]] | seg # segs \<Rightarrow> (c # seg) # segs))"

fun join_slash :: "string list \<Rightarrow> string" where
  "join_slash [] = []"
| "join_slash (seg # segs) = (if segs = [] then seg else seg @ CHR ''/'' # join_slash segs)"

text \<open>\<^verbatim>\<open>path.Clean\<close> of a rooted path, on its segments; the first argument holds those kept, last first.\<close>

fun clean_segs :: "string list \<Rightarrow> string list \<Rightarrow> string list" where
  "clean_segs kept [] = rev kept"
| "clean_segs kept (seg # segs) =
     (if seg = '''' \<or> seg = ''.'' then clean_segs kept segs
      else if seg = ''..'' then clean_segs (tl kept) segs
      else clean_segs (seg # kept) segs)"

text \<open>\<^verbatim>\<open>cleanPath\<close> of \<^verbatim>\<open>net/http\<close>: a trailing slash is kept.\<close>

definition rooted :: "string \<Rightarrow> string" where
  "rooted p = (if p = '''' then ''/'' else if hd p \<noteq> CHR ''/'' then CHR ''/'' # p else p)"

definition cleanPath :: "string \<Rightarrow> string" where
  "cleanPath p =
     (let p = rooted p; np = CHR ''/'' # join_slash (clean_segs [] (split_slash p))
      in if last p = CHR ''/'' \<and> np \<noteq> ''/'' then np @ ''/'' else np)"

section \<open>Routes\<close>

datatype endpoint = EpLeases4 | EpLeases6 | EpAgents | EpHealthz

definition routes :: "(string \<times> endpoint) list" where
  "routes = [(''/api/v1/leases4'', EpLeases4), (''/api/v1/leases6'', EpLeases6), (''/api/v1/agents'', EpAgents), (''/healthz'', EpHealthz)]"

datatype dispatch = ToEndpoint endpoint | RedirectTo string | NotFound404 | BadRequest400

definition mux :: "string \<Rightarrow> string \<Rightarrow> dispatch" where
  "mux verb p =
     (if p = ''*'' then BadRequest400
      else if verb \<noteq> ''CONNECT'' \<and> cleanPath p \<noteq> p then RedirectTo (cleanPath p)
      else (case map_of routes p of None \<Rightarrow> NotFound404 | Some e \<Rightarrow> ToEndpoint e))"

definition serve_endpoint :: "'s web \<Rightarrow> ('s, agent_item list) op \<Rightarrow> string \<Rightarrow> endpoint \<Rightarrow> ('s, http_reply) op" where
  "serve_endpoint N list_agents namespaceFilter e =
     (case e of
        EpLeases4 \<Rightarrow> Handler_GetLeases4 N list_agents namespaceFilter
      | EpLeases6 \<Rightarrow> Handler_GetLeases6 N list_agents namespaceFilter
      | EpAgents \<Rightarrow> ListAgents list_agents
      | EpHealthz \<Rightarrow> ret Healthz)"

text \<open>The handler that answers a request, when the multiplexer hands it to one of the program's.\<close>

definition served :: "'s web \<Rightarrow> ('s, agent_item list) op \<Rightarrow> string \<Rightarrow> string \<Rightarrow> string \<Rightarrow> ('s, http_reply) op option" where
  "served N list_agents namespaceFilter verb p =
     (case mux verb p of ToEndpoint e \<Rightarrow> Some (serve_endpoint N list_agents namespaceFilter e) | _ \<Rightarrow> None)"

section \<open>main\<close>

definition backend_port :: "string \<Rightarrow> string" where
  "backend_port BACKEND_PORT = (if BACKEND_PORT = '''' then ''9444'' else BACKEND_PORT)"

definition NewServiceDiscovery :: "('s, unit) op \<Rightarrow> ('s, unit) op \<Rightarrow> ('s, unit) op" where
  "NewServiceDiscovery inClusterConfig newForConfig =
     seq (wrap_err ''failed to get in-cluster config'' inClusterConfig) (\<lambda>_.
     wrap_err ''failed to create dynamic client'' newForConfig)"

text \<open>\<^verbatim>\<open>log.Fatalf\<close> ends the process with code 1, also when the server stops.\<close>

definition backend_main :: "string \<Rightarrow> ('s, unit) op \<Rightarrow> ('s, unit) op \<Rightarrow> (string \<Rightarrow> ('s, unit) op) \<Rightarrow> 's \<Rightarrow> nat \<times> 's" where
  "backend_main BACKEND_PORT inClusterConfig newForConfig listenAndServe s =
     (let port = backend_port BACKEND_PORT
      in case seq (NewServiceDiscovery inClusterConfig newForConfig) (\<lambda>_. listenAndServe (CHR '':'' # port)) s of
           (Inl err, s') \<Rightarrow> (1, s')
         | (Inr _, s') \<Rightarrow> (0, s'))"

section \<open>Cleaning is idempotent\<close>

definition clean_seg :: "string \<Rightarrow> bool" where
  "clean_seg seg = (seg \<noteq> '''' \<and> seg \<noteq> ''.'' \<and> seg \<noteq> ''..'' \<and> CHR ''/'' \<notin> set seg)"

lemma split_slash_nonempty [simp]: "split_slash cs \<noteq> []"
  by (induction cs) (auto split: list.split)

lemma split_no_slash: "seg \<in> set (split_slash cs) \<Longrightarrow> CHR ''/'' \<notin> set seg"
  by (induction cs arbitrary: seg) (auto split: list.splits if_splits)

lemma clean_segs_clean:
  "list_all (\<lambda>seg. CHR ''/'' \<notin> set seg) segs \<Longrightarrow> list_all clean_seg kept \<Longrightarrow> list_all clean_seg (clean_segs kept segs)"
proof (induction segs arbitrary: kept)
  case (Cons a segs)
  have "list_all clean_seg (tl kept)" using Cons.prems(2) by (cases kept) simp_all
  moreover have "a \<noteq> [] \<Longrightarrow> a \<noteq> ''.'' \<Longrightarrow> a \<noteq> ''..'' \<Longrightarrow> list_all clean_seg (a # kept)" using Cons.prems by (simp add: clean_seg_def [of a])
  ultimately show ?case using Cons by simp
qed (simp add: list_all_iff)

lemma clean_segs_id: "\<forall>seg \<in> set segs. clean_seg seg \<Longrightarrow> clean_segs kept (segs @ rest) = clean_segs (rev segs @ kept) rest"
  by (induction segs arbitrary: kept) (auto simp: clean_seg_def)

lemma split_append: "CHR ''/'' \<notin> set seg \<Longrightarrow> split_slash (seg @ CHR ''/'' # p) = seg # split_slash p"
  by (induction seg) auto

lemma split_seg: "CHR ''/'' \<notin> set seg \<Longrightarrow> split_slash seg = [seg]"
  by (induction seg) auto

lemma split_join:
  "\<forall>seg \<in> set segs. clean_seg seg \<Longrightarrow> segs \<noteq> [] \<Longrightarrow> split_slash (join_slash segs) = segs \<and> split_slash (join_slash segs @ ''/'') = segs @ ['''']"
proof (induction segs)
  case (Cons seg segs)
  then have "CHR ''/'' \<notin> set seg" by (simp add: clean_seg_def)
  with Cons show ?case by (auto simp: split_append split_seg)
qed simp

lemma last_join: "\<forall>seg \<in> set segs. clean_seg seg \<Longrightarrow> segs \<noteq> [] \<Longrightarrow> join_slash segs \<noteq> [] \<and> last (join_slash segs) \<noteq> CHR ''/''"
proof (induction segs)
  case (Cons seg segs)
  then have seg: "seg \<noteq> []" "CHR ''/'' \<notin> set seg" by (simp_all add: clean_seg_def)
  then have "last seg \<noteq> CHR ''/''" by (metis last_in_set)
  with Cons seg(1) show ?case by simp
qed simp

lemma cleanPath_idem: "cleanPath (cleanPath p) = cleanPath p"
proof -
  define segs where "segs = clean_segs [] (split_slash (rooted p))"
  have clean: "\<forall>seg \<in> set segs. clean_seg seg"
    using clean_segs_clean [of "split_slash (rooted p)" "[]"] split_no_slash [of _ "rooted p"] by (simp add: list_all_iff segs_def)
  have "cleanPath p = (if last (rooted p) = CHR ''/'' \<and> join_slash segs \<noteq> [] then CHR ''/'' # join_slash segs @ ''/'' else CHR ''/'' # join_slash segs)"
    by (simp add: cleanPath_def segs_def Let_def)
  then consider "segs = []" "cleanPath p = ''/''" | "segs \<noteq> []" "cleanPath p = CHR ''/'' # join_slash segs"
    | "segs \<noteq> []" "cleanPath p = CHR ''/'' # join_slash segs @ ''/''"
    using last_join [OF clean] by (cases "segs = []") (auto split: if_splits)
  then show ?thesis
  proof cases
    case 1
    then show ?thesis by (simp add: cleanPath_def rooted_def)
  next
    case 2
    with split_join [OF clean] clean_segs_id [OF clean, of "[]" "[]"] last_join [OF clean] show ?thesis
      by (simp add: cleanPath_def rooted_def)
  next
    case 3
    with split_join [OF clean] clean_segs_id [OF clean, of "[]" "['''']"] last_join [OF clean] show ?thesis
      by (simp add: cleanPath_def rooted_def)
  qed
qed

lemma routes_clean: "list_all (\<lambda>(p, e). cleanPath p = p \<and> p \<noteq> ''*'') routes"
  by code_simp

lemma mux_endpoint: "mux verb p = ToEndpoint e \<longleftrightarrow> map_of routes p = Some e"
proof
  assume "map_of routes p = Some e"
  then have "(p, e) \<in> set routes" by (rule map_of_SomeD)
  then have "cleanPath p = p \<and> p \<noteq> ''*''" using routes_clean by (auto simp: list_all_iff)
  with \<open>map_of routes p = Some e\<close> show "mux verb p = ToEndpoint e" by (simp add: mux_def)
qed (auto simp: mux_def split: if_splits option.splits)


end
