(* ===== verification/GoHeap.thy ===== *)
theory GoHeap
  imports Prelude
begin

text \<open>
  The part of Go's memory the generated deep copies
  (\<^verbatim>\<open>src/api/v1alpha1/zz_generated.deepcopy.go\<close>) work on: values that may hold references, a
  heap of cells, the statements the generator emits (\<^verbatim>\<open>new\<close>, \<^verbatim>\<open>make\<close>, \<^verbatim>\<open>copy\<close>, the element
  loops, the assignments to fields of \<^verbatim>\<open>out\<close>), and what it means that a value denotes a tree
  using a given set of addresses. The rules at the end say which statement copies a value of
  which declared type deeply.
\<close>

section \<open>Values and the heap\<close>

type_synonym addr = nat

text \<open>
  A struct is a value, kept inline as in Go; pointers, slices and maps refer to cells. A slice
  is a backing array with an offset and a length. \<^verbatim>\<open>None\<close> is nil. \<^verbatim>\<open>VZero\<close> stands for storage
  that \<^verbatim>\<open>new\<close> or \<^verbatim>\<open>make\<close> zeroed and no statement has written yet; it denotes nothing.
\<close>

datatype gval =
    VZero
  | VInt32 int32
  | VInt64 int64
  | VBool bool
  | VStr string
  | VPtr "addr option"
  | VSlice "(addr \<times> nat \<times> nat) option"
  | VMap "addr option"
  | VStruct "(string \<times> gval) list"

datatype cell = CVal gval | CArr "gval list" | CMap "(string \<times> gval) list"

record gheap =
  hp_cells :: "addr \<Rightarrow> cell option"
  hp_next :: addr

definition heap_ok :: "gheap \<Rightarrow> bool" where
  "heap_ok h \<longleftrightarrow> dom (hp_cells h) \<subseteq> {..<hp_next h}"

definition alloc :: "cell \<Rightarrow> gheap \<Rightarrow> addr \<times> gheap" where
  "alloc c h = (hp_next h, h\<lparr>hp_cells := (hp_cells h)(hp_next h \<mapsto> c), hp_next := Suc (hp_next h)\<rparr>)"

definition store :: "addr \<Rightarrow> cell \<Rightarrow> gheap \<Rightarrow> gheap" where
  "store a c h = h\<lparr>hp_cells := (hp_cells h)(a \<mapsto> c)\<rparr>"

definition load_val :: "gheap \<Rightarrow> addr \<Rightarrow> gval" where
  "load_val h a = (case hp_cells h a of Some (CVal v) \<Rightarrow> v | _ \<Rightarrow> VZero)"

definition load_arr :: "gheap \<Rightarrow> addr \<Rightarrow> gval list" where
  "load_arr h a = (case hp_cells h a of Some (CArr vs) \<Rightarrow> vs | _ \<Rightarrow> [])"

definition load_map :: "gheap \<Rightarrow> addr \<Rightarrow> (string \<times> gval) list" where
  "load_map h a = (case hp_cells h a of Some (CMap kvs) \<Rightarrow> kvs | _ \<Rightarrow> [])"

definition load_elem :: "gheap \<Rightarrow> addr \<Rightarrow> nat \<Rightarrow> gval" where
  "load_elem h a i = (let vs = load_arr h a in if i < length vs then vs ! i else VZero)"

definition store_elem :: "addr \<Rightarrow> nat \<Rightarrow> gval \<Rightarrow> gheap \<Rightarrow> gheap" where
  "store_elem a i v h = store a (CArr ((load_arr h a)[i := v])) h"

text \<open>Fields of a struct value, by name.\<close>

definition field :: "string \<Rightarrow> gval \<Rightarrow> gval" where
  "field f v = (case v of VStruct fs \<Rightarrow> (case map_of fs f of Some x \<Rightarrow> x | None \<Rightarrow> VZero) | _ \<Rightarrow> VZero)"

definition set_field :: "string \<Rightarrow> gval \<Rightarrow> gval \<Rightarrow> gval" where
  "set_field f w v =
     (case v of VStruct fs \<Rightarrow> VStruct (map (\<lambda>p. if fst p = f then (f, w) else p) fs) | _ \<Rightarrow> v)"

section \<open>The generated statements\<close>

text \<open>
  A copier is the body of a \<^verbatim>\<open>DeepCopyInto\<close>: from the value at \<^verbatim>\<open>in\<close> and the heap to the value it
  leaves at \<^verbatim>\<open>out\<close> and the heap after it. (\<^verbatim>\<open>out\<close> is new storage in every caller, distinct from
  \<^verbatim>\<open>in\<close>, so the value is all the routine passes on.)
\<close>

type_synonym copier = "gval \<Rightarrow> gheap \<Rightarrow> gval \<times> gheap"

text \<open>\<^verbatim>\<open>*out = *in\<close> and \<^verbatim>\<open>out.F = in.F\<close>: the bits are copied, references with them.\<close>

definition assign :: copier where "assign v h = (v, h)"

text \<open>\<^verbatim>\<open>if in.F != nil { *out = new(T); (*in).DeepCopyInto(*out) }\<close>, and with \<^const>\<open>assign\<close> as the
  copier \<^verbatim>\<open>**out = **in\<close>. The same statements make up \<^verbatim>\<open>DeepCopy\<close>.\<close>

definition copy_ptr :: "copier \<Rightarrow> copier" where
  "copy_ptr c v h =
     (case v of
        VPtr (Some a) \<Rightarrow>
          (case alloc (CVal VZero) h of
             (b, h1) \<Rightarrow> (case c (load_val h1 a) h1 of (w, h2) \<Rightarrow> (VPtr (Some b), store b (CVal w) h2)))
      | _ \<Rightarrow> (v, h))"

text \<open>\<^verbatim>\<open>for i := range *in { (*in)[i].DeepCopyInto(&(*out)[i]) }\<close>, from index \<^verbatim>\<open>i\<close> with \<^verbatim>\<open>k\<close> rounds
  to go.\<close>

primrec copy_elems :: "copier \<Rightarrow> addr \<Rightarrow> nat \<Rightarrow> addr \<Rightarrow> nat \<Rightarrow> nat \<Rightarrow> gheap \<Rightarrow> gheap" where
  "copy_elems c a off b i 0 h = h"
| "copy_elems c a off b i (Suc k) h =
     (case c (load_elem h a (off + i)) h of
        (w, h1) \<Rightarrow> copy_elems c a off b (Suc i) k (store_elem b i w h1))"

text \<open>\<^verbatim>\<open>if in.F != nil { *out = make([]T, len(*in)); for ... }\<close>\<close>

definition copy_slice :: "copier \<Rightarrow> copier" where
  "copy_slice c v h =
     (case v of
        VSlice (Some (a, off, n)) \<Rightarrow>
          (case alloc (CArr (replicate n VZero)) h of
             (b, h1) \<Rightarrow> (VSlice (Some (b, 0, n)), copy_elems c a off b 0 n h1))
      | _ \<Rightarrow> (v, h))"

text \<open>\<^verbatim>\<open>if in.F != nil { *out = make([]T, len(*in)); copy(*out, *in) }\<close>\<close>

definition copy_flat_slice :: copier where
  "copy_flat_slice v h =
     (case v of
        VSlice (Some (a, off, n)) \<Rightarrow>
          (case alloc (CArr (replicate n VZero)) h of
             (b, h1) \<Rightarrow> (VSlice (Some (b, 0, n)), store b (CArr (take n (drop off (load_arr h1 a)))) h1))
      | _ \<Rightarrow> (v, h))"

text \<open>
  \<^verbatim>\<open>if in.F != nil { *out = make(map[string]string, len(*in)); for key, val := range *in \<close>
  \<^verbatim>\<open>{ (*out)[key] = val } }\<close>. The entries of a map are listed in the order the \<^verbatim>\<open>range\<close> meets them.
\<close>

definition map_put :: "string \<Rightarrow> gval \<Rightarrow> (string \<times> gval) list \<Rightarrow> (string \<times> gval) list" where
  "map_put k v kvs =
     (if k \<in> fst ` set kvs then map (\<lambda>p. if fst p = k then (k, v) else p) kvs else kvs @ [(k, v)])"

primrec copy_entries :: "addr \<Rightarrow> (string \<times> gval) list \<Rightarrow> gheap \<Rightarrow> gheap" where
  "copy_entries b [] h = h"
| "copy_entries b (p # ps) h =
     copy_entries b ps (store b (CMap (map_put (fst p) (snd p) (load_map h b))) h)"

definition copy_map :: copier where
  "copy_map v h =
     (case v of
        VMap (Some a) \<Rightarrow>
          (case alloc (CMap []) h of (b, h1) \<Rightarrow> (VMap (Some b), copy_entries b (load_map h1 a) h1))
      | _ \<Rightarrow> (v, h))"

text \<open>A whole body: \<^verbatim>\<open>*out = *in\<close>, then one statement per listed field, each reading the field of
  \<^verbatim>\<open>in\<close> and writing the field of \<^verbatim>\<open>out\<close>.\<close>

primrec copy_fields :: "(string \<times> copier) list \<Rightarrow> gval \<Rightarrow> gval \<Rightarrow> gheap \<Rightarrow> gval \<times> gheap" where
  "copy_fields [] v out h = (out, h)"
| "copy_fields (s # ss) v out h =
     (case snd s (field (fst s) v) h of (w, h1) \<Rightarrow> copy_fields ss v (set_field (fst s) w out) h1)"

definition copy_struct :: "(string \<times> copier) list \<Rightarrow> copier" where
  "copy_struct ss v h = copy_fields ss v v h"

section \<open>What a value denotes\<close>

datatype tree =
    LInt32 int32
  | LInt64 int64
  | LBool bool
  | LStr string
  | NNil
  | NRef tree
  | NSeq "tree list"
  | NMap "string list" "tree list"
  | NStruct "string list" "tree list"

text \<open>\<open>denotes h A v t\<close>: in heap \<open>h\<close> the value \<open>v\<close> denotes the tree \<open>t\<close>, and every cell that is
  read to see that lies in \<open>A\<close>. Only finite, acyclic structures denote a tree.\<close>

inductive denotes :: "gheap \<Rightarrow> addr set \<Rightarrow> gval \<Rightarrow> tree \<Rightarrow> bool" for h A where
  denotes_int32: "denotes h A (VInt32 i) (LInt32 i)"
| denotes_int64: "denotes h A (VInt64 j) (LInt64 j)"
| denotes_bool: "denotes h A (VBool b) (LBool b)"
| denotes_str: "denotes h A (VStr s) (LStr s)"
| denotes_nilp: "denotes h A (VPtr None) NNil"
| denotes_nils: "denotes h A (VSlice None) NNil"
| denotes_nilm: "denotes h A (VMap None) NNil"
| denotes_ptr: "a \<in> A \<Longrightarrow> hp_cells h a = Some (CVal v) \<Longrightarrow> denotes h A v t \<Longrightarrow> denotes h A (VPtr (Some a)) (NRef t)"
| denotes_slice: "a \<in> A \<Longrightarrow> hp_cells h a = Some (CArr vs) \<Longrightarrow> off + n \<le> length vs \<Longrightarrow>
    list_all2 (denotes h A) (take n (drop off vs)) ts \<Longrightarrow> denotes h A (VSlice (Some (a, off, n))) (NSeq ts)"
| denotes_map: "a \<in> A \<Longrightarrow> hp_cells h a = Some (CMap kvs) \<Longrightarrow> distinct (map fst kvs) \<Longrightarrow>
    list_all2 (denotes h A) (map snd kvs) ts \<Longrightarrow> denotes h A (VMap (Some a)) (NMap (map fst kvs) ts)"
| denotes_struct: "list_all2 (denotes h A) (map snd fs) ts \<Longrightarrow> denotes h A (VStruct fs) (NStruct (map fst fs) ts)"
monos list_all2_mono

inductive_cases denotes_ptrE: "denotes h A (VPtr (Some a)) t"
inductive_cases denotes_sliceE: "denotes h A (VSlice (Some s)) t"
inductive_cases denotes_mapE: "denotes h A (VMap (Some a)) t"
inductive_cases denotes_structE: "denotes h A (VStruct fs) t"

inductive_simps denotes_nilp_iff [simp]: "denotes h A (VPtr None) t"
inductive_simps denotes_nils_iff [simp]: "denotes h A (VSlice None) t"
inductive_simps denotes_nilm_iff [simp]: "denotes h A (VMap None) t"
inductive_simps denotes_zero_iff [simp]: "denotes h A VZero t"
inductive_simps denotes_int32_iff [simp]: "denotes h A (VInt32 i) t"
inductive_simps denotes_int64_iff [simp]: "denotes h A (VInt64 j) t"
inductive_simps denotes_bool_iff [simp]: "denotes h A (VBool b) t"
inductive_simps denotes_str_iff [simp]: "denotes h A (VStr s) t"
inductive_simps denotes_ptr_iff: "denotes h A (VPtr (Some a)) t"
inductive_simps denotes_slice_iff: "denotes h A (VSlice (Some (a, off, n))) t"
inductive_simps denotes_map_iff: "denotes h A (VMap (Some a)) t"
inductive_simps denotes_struct_iff: "denotes h A (VStruct fs) t"

text \<open>Two heaps agree on a set of addresses; a heap extends another when it agrees with it on
  everything the other has allocated.\<close>

definition agree :: "addr set \<Rightarrow> gheap \<Rightarrow> gheap \<Rightarrow> bool" where
  "agree A h h' \<longleftrightarrow> (\<forall>a \<in> A. hp_cells h' a = hp_cells h a)"

definition extends :: "gheap \<Rightarrow> gheap \<Rightarrow> bool" where
  "extends h h' \<longleftrightarrow> hp_next h \<le> hp_next h' \<and> agree {..<hp_next h} h h'"

lemma denotes_frame: "denotes h A v t \<Longrightarrow> agree A h h' \<Longrightarrow> denotes h' A v t"
proof (induction rule: denotes.induct)
  case (denotes_slice a vs off n ts)
  then show ?case by (intro denotes.denotes_slice) (auto simp: agree_def elim: list.rel_mono_strong)
next
  case (denotes_map a kvs ts)
  then show ?case by (intro denotes.denotes_map) (auto simp: agree_def elim: list.rel_mono_strong)
next
  case (denotes_struct fs ts)
  then show ?case by (intro denotes.denotes_struct) (auto elim: list.rel_mono_strong)
next
  case (denotes_ptr a v t)
  then show ?case by (intro denotes.denotes_ptr) (auto simp: agree_def)
qed (rule denotes.intros)+

lemma denotes_mono: "denotes h A v t \<Longrightarrow> A \<subseteq> B \<Longrightarrow> denotes h B v t"
proof (induction rule: denotes.induct)
  case (denotes_slice a vs off n ts)
  then show ?case by (intro denotes.denotes_slice) (auto elim: list.rel_mono_strong)
next
  case (denotes_map a kvs ts)
  then show ?case by (intro denotes.denotes_map) (auto elim: list.rel_mono_strong)
next
  case (denotes_struct fs ts)
  then show ?case by (intro denotes.denotes_struct) (auto elim: list.rel_mono_strong)
next
  case (denotes_ptr a v t)
  then show ?case by (intro denotes.denotes_ptr) auto
qed (rule denotes.intros)+

lemma denotes_below: "denotes h A v t \<Longrightarrow> heap_ok h \<Longrightarrow> denotes h (A \<inter> {..<hp_next h}) v t"
proof (induction rule: denotes.induct)
  case (denotes_slice a vs off n ts)
  then show ?case by (intro denotes.denotes_slice) (auto simp: heap_ok_def elim: list.rel_mono_strong)
next
  case (denotes_map a kvs ts)
  then show ?case by (intro denotes.denotes_map) (auto simp: heap_ok_def elim: list.rel_mono_strong)
next
  case (denotes_struct fs ts)
  then show ?case by (intro denotes.denotes_struct) (auto elim: list.rel_mono_strong)
next
  case (denotes_ptr a v t)
  then show ?case by (intro denotes.denotes_ptr) (auto simp: heap_ok_def)
qed (rule denotes.intros)+

text \<open>A value denotes at most one tree.\<close>

lemma list_all2_right_unique:
  "list_all2 (\<lambda>v t. R v t \<and> (\<forall>t'. S v t' \<longrightarrow> t' = t)) vs ts \<Longrightarrow> list_all2 S vs ts' \<Longrightarrow> ts' = ts"
  by (induction vs ts arbitrary: ts' rule: list_all2_induct) (auto simp: list_all2_Cons1)

lemma denotes_unique: "denotes h A v t \<Longrightarrow> denotes h B v t' \<Longrightarrow> t' = t"
proof (induction arbitrary: t' rule: denotes.induct)
  case (denotes_ptr a v t)
  then show ?case by (auto elim!: denotes_ptrE)
next
  case (denotes_slice a vs off n ts)
  then show ?case by (auto elim!: denotes_sliceE dest!: list_all2_right_unique)
next
  case (denotes_map a kvs ts)
  then show ?case by (auto elim!: denotes_mapE dest!: list_all2_right_unique)
next
  case (denotes_struct fs ts)
  then show ?case by (auto elim!: denotes_structE dest!: list_all2_right_unique)
qed simp_all

section \<open>Declared types\<close>

text \<open>
  The types the API structs are declared with. \<open>TPlain\<close> is a struct of another package that the
  generator copies by assignment, whose values hold no reference at all; \<open>TExt\<close> is a type of
  another package that brings its own \<^verbatim>\<open>DeepCopyInto\<close>.
\<close>

datatype goty =
    TString
  | TInt32
  | TInt64
  | TBool
  | TPlain
  | TPtr goty
  | TSlice goty
  | TStrMap
  | TStruct "(string \<times> goty) list"
  | TExt string

fun plain :: "gval \<Rightarrow> bool" where
  "plain (VStruct fs) = list_all (\<lambda>p. plain (snd p)) fs"
| "plain VZero = False"
| "plain (VPtr p) = False"
| "plain (VSlice s) = False"
| "plain (VMap m) = False"
| "plain v = True"

fun is_str :: "gval \<Rightarrow> bool" where
  "is_str (VStr s) = True"
| "is_str _ = False"

text \<open>\<open>typed L h ty v\<close>: \<open>v\<close> is a value of type \<open>ty\<close> in \<open>h\<close>; \<open>L\<close> says which values the types of other
  packages have.\<close>

type_synonym ext_types = "string \<Rightarrow> gheap \<Rightarrow> gval \<Rightarrow> bool"

fun typed :: "ext_types \<Rightarrow> gheap \<Rightarrow> goty \<Rightarrow> gval \<Rightarrow> bool" where
  "typed L h TString v = is_str v"
| "typed L h TInt32 v = (case v of VInt32 i \<Rightarrow> True | _ \<Rightarrow> False)"
| "typed L h TInt64 v = (case v of VInt64 i \<Rightarrow> True | _ \<Rightarrow> False)"
| "typed L h TBool v = (case v of VBool b \<Rightarrow> True | _ \<Rightarrow> False)"
| "typed L h TPlain v = plain v"
| "typed L h (TPtr t) v =
     (case v of
        VPtr None \<Rightarrow> True
      | VPtr (Some a) \<Rightarrow> (case hp_cells h a of Some (CVal w) \<Rightarrow> typed L h t w | _ \<Rightarrow> False)
      | _ \<Rightarrow> False)"
| "typed L h (TSlice t) v =
     (case v of
        VSlice None \<Rightarrow> True
      | VSlice (Some (a, off, n)) \<Rightarrow>
          (case hp_cells h a of
             Some (CArr vs) \<Rightarrow> off + n \<le> length vs \<and> list_all (typed L h t) (take n (drop off vs))
           | _ \<Rightarrow> False)
      | _ \<Rightarrow> False)"
| "typed L h TStrMap v =
     (case v of
        VMap None \<Rightarrow> True
      | VMap (Some a) \<Rightarrow> (case hp_cells h a of Some (CMap kvs) \<Rightarrow> list_all (\<lambda>p. is_str (snd p)) kvs | _ \<Rightarrow> False)
      | _ \<Rightarrow> False)"
| "typed L h (TStruct fts) v =
     (case v of VStruct fs \<Rightarrow> list_all2 (\<lambda>d p. fst p = fst d \<and> typed L h (snd d) (snd p)) fts fs | _ \<Rightarrow> False)"
| "typed L h (TExt n) v = L n h v"

text \<open>Types whose values hold no reference, so that assigning them copies them deeply.\<close>

fun flat :: "goty \<Rightarrow> bool" where
  "flat TString = True"
| "flat TInt32 = True"
| "flat TInt64 = True"
| "flat TBool = True"
| "flat TPlain = True"
| "flat (TStruct fts) = list_all (\<lambda>d. flat (snd d)) fts"
| "flat _ = False"

section \<open>Deep copies\<close>

text \<open>
  What \<^verbatim>\<open>DeepCopyInto\<close> promises for a type: given a value of the type that denotes a tree, it
  changes no cell that was allocated before, and leaves a value of the same type that denotes
  the same tree through newly allocated cells only.
\<close>

definition deep_copies :: "ext_types \<Rightarrow> goty \<Rightarrow> copier \<Rightarrow> bool" where
  "deep_copies L ty c \<longleftrightarrow>
     (\<forall>h v t A. heap_ok h \<longrightarrow> typed L h ty v \<longrightarrow> denotes h A v t \<longrightarrow>
        (case c v h of (w, h') \<Rightarrow>
           heap_ok h' \<and> extends h h' \<and> typed L h' ty w \<and> denotes h' {hp_next h..<hp_next h'} w t))"

text \<open>The types of other packages: that a value has such a type depends on the cells it denotes
  its tree through and on no other, and their \<^verbatim>\<open>DeepCopyInto\<close> copies deeply.\<close>

definition ext_local :: "ext_types \<Rightarrow> bool" where
  "ext_local L \<longleftrightarrow> (\<forall>n h h' A v t. L n h v \<longrightarrow> denotes h A v t \<longrightarrow> agree A h h' \<longrightarrow> L n h' v)"

definition ext_law :: "ext_types \<Rightarrow> (string \<Rightarrow> copier) \<Rightarrow> bool" where
  "ext_law L X \<longleftrightarrow> ext_local L \<and> (\<forall>n. deep_copies L (TExt n) (X n))"

subsection \<open>Heap facts\<close>

lemma agree_refl [simp]: "agree A h h"
  by (simp add: agree_def)

lemma agree_trans: "agree A h h' \<Longrightarrow> agree A h' h'' \<Longrightarrow> agree A h h''"
  by (simp add: agree_def)

lemma agree_subset: "agree B h h' \<Longrightarrow> A \<subseteq> B \<Longrightarrow> agree A h h'"
  by (auto simp: agree_def)

lemma extends_refl [simp]: "extends h h"
  by (simp add: extends_def)

lemma extends_trans: "extends h h' \<Longrightarrow> extends h' h'' \<Longrightarrow> extends h h''"
  by (auto simp: extends_def agree_def)

lemma extends_agree: "extends h h' \<Longrightarrow> A \<subseteq> {..<hp_next h} \<Longrightarrow> agree A h h'"
  by (auto simp: extends_def intro: agree_subset)

lemma extends_next: "extends h h' \<Longrightarrow> hp_next h \<le> hp_next h'"
  by (simp add: extends_def)

lemma extends_cells: "extends h h' \<Longrightarrow> a < hp_next h \<Longrightarrow> hp_cells h' a = hp_cells h a"
  by (simp add: extends_def agree_def)

lemma heap_okD: "heap_ok h \<Longrightarrow> hp_cells h a = Some c \<Longrightarrow> a < hp_next h"
  by (auto simp: heap_ok_def)

lemma store_simps [simp]:
  "hp_cells (store a c h) = (hp_cells h)(a \<mapsto> c)" "hp_next (store a c h) = hp_next h"
  by (simp_all add: store_def)

lemma store_store [simp]: "store a c (store a d h) = store a c h"
  by (simp add: store_def)

lemma heap_ok_store: "heap_ok h \<Longrightarrow> a < hp_next h \<Longrightarrow> heap_ok (store a c h)"
  by (auto simp: heap_ok_def)

lemma agree_store: "a \<notin> A \<Longrightarrow> agree A h (store a c h)"
  by (simp add: agree_def)

lemma alloc_props:
  assumes "alloc c h = (b, h1)"
  shows "b = hp_next h" "hp_next h1 = Suc b" "hp_cells h1 b = Some c" "extends h h1" "heap_ok h \<Longrightarrow> heap_ok h1"
  using assms by (auto simp: alloc_def extends_def agree_def heap_ok_def split: if_splits) (meson domI lessThan_iff less_SucI subsetD)

lemma denotes_extends: "denotes h A v t \<Longrightarrow> heap_ok h \<Longrightarrow> extends h h' \<Longrightarrow> denotes h' (A \<inter> {..<hp_next h}) v t"
  by (rule denotes_frame [OF denotes_below]) (auto intro: extends_agree)

lemma typed_frame:
  assumes "ext_local L"
  shows "typed L h ty v \<Longrightarrow> denotes h A v t \<Longrightarrow> agree A h h' \<Longrightarrow> typed L h' ty v"
proof (induction ty arbitrary: v t)
  case (TPtr ty)
  then show ?case
    by (auto split: gval.splits option.splits cell.splits elim!: denotes_ptrE simp: agree_def)
next
  case (TSlice ty)
  from TSlice.prems show ?case
  proof (cases v)
    case (VSlice s)
    show ?thesis
    proof (cases s)
      case (Some p)
      obtain a off n where p: "p = (a, off, n)" by (cases p)
      from TSlice.prems(2) VSlice Some p obtain vs ts where vs: "a \<in> A" "hp_cells h a = Some (CArr vs)" "off + n \<le> length vs"
        "list_all2 (denotes h A) (take n (drop off vs)) ts" by (auto elim!: denotes_sliceE)
      have "typed L h' ty x" if "x \<in> set (take n (drop off vs))" for x
      proof -
        from that vs(4) obtain u where "denotes h A x u" by (auto simp: list_all2_conv_all_nth in_set_conv_nth)
        moreover have "typed L h ty x" using TSlice.prems(1) VSlice Some p vs that by (simp add: list_all_iff)
        ultimately show ?thesis using TSlice.IH TSlice.prems(3) by blast
      qed
      then show ?thesis using VSlice Some p vs TSlice.prems(3) by (auto simp: agree_def list_all_iff)
    qed (use VSlice in simp)
  qed auto
next
  case (TStruct fts)
  from TStruct.prems show ?case
  proof (cases v)
    case (VStruct fs)
    from TStruct.prems(2) VStruct obtain ts where ts: "list_all2 (denotes h A) (map snd fs) ts"
      by (auto elim!: denotes_structE)
    from TStruct.prems(1) VStruct have ty: "list_all2 (\<lambda>d p. fst p = fst d \<and> typed L h (snd d) (snd p)) fts fs" by simp
    have "fst (fs ! i) = fst (fts ! i) \<and> typed L h' (snd (fts ! i)) (snd (fs ! i))" if i: "i < length fts" for i
    proof -
      have "denotes h A (snd (fs ! i)) (ts ! i)" using ts ty i by (auto simp: list_all2_conv_all_nth)
      moreover have "snd (fts ! i) \<in> Basic_BNFs.snds (fts ! i)" by (cases "fts ! i") (simp add: Basic_BNFs.snds.simps)
      ultimately show ?thesis
        using ty i TStruct.IH [of "fts ! i" "snd (fts ! i)"] TStruct.prems(3) by (auto simp: list_all2_conv_all_nth)
    qed
    then show ?thesis using VStruct ty by (auto simp: list_all2_conv_all_nth)
  qed auto
next
  case (TExt n)
  then show ?case using assms by (simp add: ext_local_def) blast
qed (auto split: gval.splits option.splits cell.splits elim!: denotes_mapE simp: agree_def)

lemma typed_list_frame:
  assumes "ext_local L" "agree A h h'"
  shows "list_all2 (denotes h A) vs ts \<Longrightarrow> list_all (typed L h ty) vs \<Longrightarrow> list_all (typed L h' ty) vs"
  by (induction vs ts rule: list_all2_induct) (auto intro: typed_frame [OF assms(1) _ _ assms(2)])

lemma store_same: "hp_cells h a = Some c \<Longrightarrow> store a c h = h"
  by (simp add: store_def fun_upd_idem)

lemma denotes_list_below: "list_all2 (denotes h A) vs ts \<Longrightarrow> heap_ok h \<Longrightarrow> list_all2 (denotes h (A \<inter> {..<hp_next h})) vs ts"
  by (auto elim!: list_all2_mono intro: denotes_below)

lemma denotes_list_frame: "list_all2 (denotes h A) vs ts \<Longrightarrow> agree A h h' \<Longrightarrow> list_all2 (denotes h' A) vs ts"
  by (auto elim!: list_all2_mono intro: denotes_frame)

lemma denotes_list_mono: "list_all2 (denotes h A) vs ts \<Longrightarrow> A \<subseteq> B \<Longrightarrow> list_all2 (denotes h B) vs ts"
  by (auto elim!: list_all2_mono intro: denotes_mono)

subsection \<open>What each statement copies\<close>

lemma deep_copiesD:
  assumes "deep_copies L ty c" "heap_ok h" "typed L h ty v" "denotes h A v t" "c v h = (w, h')"
  shows "heap_ok h'" "extends h h'" "typed L h' ty w" "denotes h' {hp_next h..<hp_next h'} w t"
  using assms unfolding deep_copies_def by (metis (mono_tags, lifting) case_prod_conv)+

lemma plain_denotes: "plain v \<Longrightarrow> denotes h A v t \<Longrightarrow> denotes h' B v t"
proof (induction v arbitrary: t rule: plain.induct)
  case (1 fs)
  from "1.prems"(2) obtain ts where t: "t = NStruct (map fst fs) ts" and ts: "list_all2 (denotes h A) (map snd fs) ts"
    by (auto elim!: denotes_structE)
  have "list_all2 (denotes h' B) (map snd fs) ts"
    using ts "1.IH" "1.prems"(1) by (auto simp: list_all2_conv_all_nth list_all_length)
  then show ?case unfolding t by (rule denotes_struct)
qed auto

lemma is_str_plain: "is_str v \<Longrightarrow> plain v"
  by (cases v) auto

lemma flat_denotes: "flat ty \<Longrightarrow> typed L h ty v \<Longrightarrow> plain v"
proof (induction ty arbitrary: v)
  case (TStruct fts)
  from TStruct.prems(2) obtain fs where v: "v = VStruct fs" by (cases v) auto
  have "plain (snd (fs ! i))" if i: "i < length fs" for i
  proof -
    have "snd (fts ! i) \<in> Basic_BNFs.snds (fts ! i)" by (cases "fts ! i") (simp add: Basic_BNFs.snds.simps)
    then show ?thesis
      using TStruct.prems v i TStruct.IH [of "fts ! i" "snd (fts ! i)"]
      by (auto simp: list_all2_conv_all_nth list_all_length)
  qed
  then show ?case unfolding v by (simp add: list_all_length)
qed (auto simp: is_str_plain split: gval.splits)

lemma deep_copies_assign: "flat ty \<Longrightarrow> deep_copies L ty assign"
  by (auto simp: deep_copies_def assign_def intro: plain_denotes dest: flat_denotes)

lemma deep_copies_ptr:
  assumes L: "ext_local L" and c: "deep_copies L ty c"
  shows "deep_copies L (TPtr ty) (copy_ptr c)"
  unfolding deep_copies_def
proof (intro allI impI)
  fix h v t A
  assume h: "heap_ok h" and ty: "typed L h (TPtr ty) v" and d: "denotes h A v t"
  show "case copy_ptr c v h of (w, h') \<Rightarrow>
     heap_ok h' \<and> extends h h' \<and> typed L h' (TPtr ty) w \<and> denotes h' {hp_next h..<hp_next h'} w t"
  proof (cases "v = VPtr None")
    case False
    with ty obtain a where v: "v = VPtr (Some a)" by (auto split: gval.splits option.splits)
    with d obtain x u where x: "hp_cells h a = Some (CVal x)" "denotes h A x u" and t: "t = NRef u"
      by (auto elim: denotes_ptrE)
    have tx: "typed L h ty x" using ty v x by simp
    obtain b h1 where al: "alloc (CVal VZero) h = (b, h1)" by (cases "alloc (CVal VZero) h")
    obtain w h2 where cw: "c (load_val h1 a) h1 = (w, h2)" by (cases "c (load_val h1 a) h1")
    note b = alloc_props [OF al]
    have "hp_cells h1 a = Some (CVal x)" using extends_cells [OF b(4)] heap_okD [OF h x(1)] x(1) by simp
    then have lx: "load_val h1 a = x" by (simp add: load_val_def)
    have d1: "denotes h1 (A \<inter> {..<hp_next h}) x u" by (rule denotes_extends [OF x(2) h b(4)])
    have t1: "typed L h1 ty x"
      by (rule typed_frame [OF L tx denotes_below [OF x(2) h]]) (auto intro: extends_agree [OF b(4)])
    note C = deep_copiesD [OF c b(5) [OF h] t1 d1 cw [unfolded lx]]
    let ?h = "store b (CVal w) h2"
    have "b < hp_next h2" using extends_next [OF C(2)] b(2) by simp
    moreover have ag: "agree {hp_next h1..<hp_next h2} h2 ?h" using b(2) by (intro agree_store) auto
    moreover have "denotes ?h {hp_next h1..<hp_next h2} w u" by (rule denotes_frame [OF C(4) ag])
    then have "denotes ?h {hp_next h..<hp_next ?h} w u" using b(1,2) by (rule_tac denotes_mono) auto
    moreover have "typed L ?h ty w" by (rule typed_frame [OF L C(3,4) ag])
    moreover have "extends h ?h"
      using extends_trans [OF b(4) C(2)] b(1) by (auto simp: extends_def agree_def)
    ultimately show ?thesis
      using v t al cw C(1) b(1) by (auto simp: copy_ptr_def heap_ok_store intro!: denotes_ptr)
  qed (use h d in \<open>auto simp: copy_ptr_def intro: denotes.intros\<close>)
qed

text \<open>One round of the element loop, and then all of them.\<close>

lemma copy_elem_step:
  assumes L: "ext_local L" and c: "deep_copies L ty c" and h: "heap_ok h"
    and x: "typed L h ty x" "denotes h A x u" and cw: "c x h = (w, h1)"
    and ys: "hp_cells h b = Some (CArr ys)" and h2: "h2 = store_elem b i w h1"
  shows "heap_ok h2" "hp_next h \<le> hp_next h2" "hp_cells h2 b = Some (CArr (ys[i := w]))"
    "agree ({..<hp_next h} - {b}) h h2" "typed L h2 ty w" "denotes h2 {hp_next h..<hp_next h2} w u"
proof -
  note C = deep_copiesD [OF c h x cw]
  have b: "b < hp_next h" by (rule heap_okD [OF h ys])
  have sb: "h2 = store b (CArr (ys[i := w])) h1"
    using extends_cells [OF C(2) b] ys h2 by (simp add: store_elem_def load_arr_def)
  have ag: "agree {hp_next h..<hp_next h1} h1 h2" using b unfolding sb by (intro agree_store) auto
  show "heap_ok h2" unfolding sb using C(1) b extends_next [OF C(2)] by (simp add: heap_ok_store)
  show "hp_next h \<le> hp_next h2" using extends_next [OF C(2)] by (simp add: sb)
  show "hp_cells h2 b = Some (CArr (ys[i := w]))" by (simp add: sb)
  show "agree ({..<hp_next h} - {b}) h h2" using C(2) unfolding sb by (auto simp: extends_def agree_def)
  show "typed L h2 ty w" by (rule typed_frame [OF L C(3,4) ag])
  show "denotes h2 {hp_next h..<hp_next h2} w u" using denotes_frame [OF C(4) ag] by (simp add: sb)
qed

lemma copy_elems_spec:
  assumes L: "ext_local L" and c: "deep_copies L ty c" and "a \<noteq> b"
  shows "heap_ok h \<Longrightarrow> hp_cells h a = Some (CArr xs) \<Longrightarrow> off + i + k \<le> length xs \<Longrightarrow>
    list_all (typed L h ty) (take k (drop (off + i) xs)) \<Longrightarrow> list_all2 (denotes h A) (take k (drop (off + i) xs)) ts \<Longrightarrow>
    b \<notin> A \<Longrightarrow> hp_cells h b = Some (CArr ys) \<Longrightarrow> length ys = i + k \<Longrightarrow>
    copy_elems c a off b i k h = h' \<Longrightarrow>
    heap_ok h' \<and> hp_next h \<le> hp_next h' \<and> agree ({..<hp_next h} - {b}) h h' \<and>
    (\<exists>ws. hp_cells h' b = Some (CArr (take i ys @ ws)) \<and> length ws = k \<and> list_all (typed L h' ty) ws
       \<and> list_all2 (denotes h' {hp_next h..<hp_next h'}) ws ts)"
proof (induction k arbitrary: i h ys ts A)
  case 0
  then show ?case by simp
next
  case (Suc k)
  let ?x = "xs ! (off + i)" and ?xs = "take k (drop (off + Suc i) xs)" and ?A = "A \<inter> {..<hp_next h}"
  note h = Suc.prems(1) and xs = Suc.prems(2) and ys = Suc.prems(7)
  have split: "take (Suc k) (drop (off + i) xs) = ?x # ?xs"
    using Suc.prems(3) by (simp add: Cons_nth_drop_Suc [symmetric])
  with Suc.prems(4,5) obtain u us where x: "typed L h ty ?x" "denotes h A ?x u" and ts: "ts = u # us"
    and tus: "list_all (typed L h ty) ?xs" and us: "list_all2 (denotes h A) ?xs us" by (auto simp: list_all2_Cons1)
  obtain w h1 where cw: "c ?x h = (w, h1)" by (cases "c ?x h")
  define h2 where "h2 = store_elem b i w h1"
  note S = copy_elem_step [OF L c h x cw ys h2_def]
  have a: "a < hp_next h" by (rule heap_okD [OF h xs])
  have agA: "agree ?A h h2" using S(4) Suc.prems(6) by (rule_tac agree_subset) auto
  note usb = denotes_list_below [OF us h]
  have eq: "copy_elems c a off b (Suc i) k h2 = h'"
    using Suc.prems(3,9) xs cw by (simp add: load_elem_def load_arr_def h2_def)
  have IH: "heap_ok h' \<and> hp_next h2 \<le> hp_next h' \<and> agree ({..<hp_next h2} - {b}) h2 h' \<and>
    (\<exists>ws. hp_cells h' b = Some (CArr (take (Suc i) (ys[i := w]) @ ws)) \<and> length ws = k \<and> list_all (typed L h' ty) ws
       \<and> list_all2 (denotes h' {hp_next h2..<hp_next h'}) ws us)"
    by (rule Suc.IH [OF S(1) _ _ typed_list_frame [OF L agA usb tus] denotes_list_frame [OF usb agA] _ S(3) _ eq])
      (use S(4) a assms(3) xs Suc.prems in \<open>auto simp: agree_def\<close>)
  then obtain ws where ws: "hp_cells h' b = Some (CArr (take (Suc i) (ys[i := w]) @ ws))" "length ws = k"
    "list_all (typed L h' ty) ws" "list_all2 (denotes h' {hp_next h2..<hp_next h'}) ws us" by blast
  have ag: "agree {hp_next h..<hp_next h2} h2 h'"
    using IH heap_okD [OF h ys] by (rule_tac agree_subset [of "{..<hp_next h2} - {b}"]) auto
  have "denotes h' {hp_next h..<hp_next h'} w u"
    using IH by (intro denotes_mono [OF denotes_frame [OF S(6) ag]]) auto
  moreover have "typed L h' ty w" by (rule typed_frame [OF L S(5,6) ag])
  moreover have "list_all2 (denotes h' {hp_next h..<hp_next h'}) ws us"
    by (rule denotes_list_mono [OF ws(4)]) (use S(2) in auto)
  moreover have "take (Suc i) (ys[i := w]) = take i ys @ [w]" using Suc.prems(8) by (simp add: take_Suc_conv_app_nth)
  moreover have "agree ({..<hp_next h} - {b}) h h'"
    using IH S(2) by (intro agree_trans [OF S(4)]) (auto intro: agree_subset)
  ultimately show ?case using IH S(2) ws ts by (auto intro!: exI [of _ "w # ws"])
qed

lemma deep_copies_slice:
  assumes L: "ext_local L" and c: "deep_copies L ty c"
  shows "deep_copies L (TSlice ty) (copy_slice c)"
  unfolding deep_copies_def
proof (intro allI impI)
  fix h v t A
  assume h: "heap_ok h" and ty: "typed L h (TSlice ty) v" and d: "denotes h A v t"
  show "case copy_slice c v h of (w, h') \<Rightarrow>
     heap_ok h' \<and> extends h h' \<and> typed L h' (TSlice ty) w \<and> denotes h' {hp_next h..<hp_next h'} w t"
  proof (cases "v = VSlice None")
    case False
    with ty obtain a off n where v: "v = VSlice (Some (a, off, n))" by (auto split: gval.splits option.splits)
    with d obtain xs ts where xs: "hp_cells h a = Some (CArr xs)" "off + n \<le> length xs"
      and ts: "list_all2 (denotes h A) (take n (drop off xs)) ts" and t: "t = NSeq ts" by (auto elim: denotes_sliceE)
    have txs: "list_all (typed L h ty) (take n (drop off xs))" using ty v xs by simp
    obtain b h1 where al: "alloc (CArr (replicate n VZero)) h = (b, h1)" by (cases "alloc (CArr (replicate n VZero)) h")
    note b = alloc_props [OF al]
    have ab: "a < b" using heap_okD [OF h xs(1)] b(1) by simp
    have agA: "agree (A \<inter> {..<hp_next h}) h h1" by (rule extends_agree [OF b(4)]) auto
    note tsb = denotes_list_below [OF ts h]
    have t1: "list_all (typed L h1 ty) (take n (drop (off + 0) xs))" using typed_list_frame [OF L agA tsb txs] by simp
    have d1: "list_all2 (denotes h1 (A \<inter> {..<hp_next h})) (take n (drop (off + 0) xs)) ts"
      using denotes_list_frame [OF tsb agA] by simp
    define h' where "h' = copy_elems c a off b 0 n h1"
    have S: "heap_ok h' \<and> hp_next h1 \<le> hp_next h' \<and> agree ({..<hp_next h1} - {b}) h1 h' \<and>
      (\<exists>ws. hp_cells h' b = Some (CArr (take 0 (replicate n VZero) @ ws)) \<and> length ws = n \<and> list_all (typed L h' ty) ws
         \<and> list_all2 (denotes h' {hp_next h1..<hp_next h'}) ws ts)"
      by (rule copy_elems_spec [OF L c _ b(5) [OF h] _ _ t1 d1 _ b(3) _ h'_def [symmetric]])
        (use ab xs b extends_cells [OF b(4)] in auto)
    then obtain ws where ws: "hp_cells h' b = Some (CArr ws)" "length ws = n" "list_all (typed L h' ty) ws"
      "list_all2 (denotes h' {hp_next h1..<hp_next h'}) ws ts" by auto
    have "list_all2 (denotes h' {hp_next h..<hp_next h'}) ws ts"
      by (rule denotes_list_mono [OF ws(4)]) (use b in auto)
    moreover have "extends h h'"
      using S b by (auto simp: extends_def agree_def)
    moreover have "copy_slice c v h = (VSlice (Some (b, 0, n)), h')" using v al by (simp add: copy_slice_def h'_def)
    ultimately show ?thesis using t ws S b by (auto intro!: denotes_slice)
  qed (use h d in \<open>auto simp: copy_slice_def intro: denotes.intros\<close>)
qed

text \<open>The built-in \<^verbatim>\<open>copy\<close> leaves what the element loop with assignments would.\<close>

lemma copy_elems_assign:
  "hp_cells h a = Some (CArr xs) \<Longrightarrow> off + i + k \<le> length xs \<Longrightarrow> a \<noteq> b \<Longrightarrow> hp_cells h b = Some (CArr ys) \<Longrightarrow>
   length ys = i + k \<Longrightarrow> copy_elems assign a off b i k h = store b (CArr (take i ys @ take k (drop (off + i) xs))) h"
proof (induction k arbitrary: i h ys)
  case 0
  then show ?case by (simp add: store_same)
next
  case (Suc k)
  have "take (Suc k) (drop (off + i) xs) = xs ! (off + i) # take k (drop (off + Suc i) xs)"
    using Suc.prems(2) by (simp add: Cons_nth_drop_Suc [symmetric])
  then show ?case
    using Suc by (simp add: assign_def load_elem_def load_arr_def store_elem_def Suc.IH [of _ _ "ys[i := xs ! (off + i)]"]
        take_Suc_conv_app_nth)
qed

lemma copy_flat_slice_eq: "typed L h (TSlice ty) v \<Longrightarrow> heap_ok h \<Longrightarrow> copy_flat_slice v h = copy_slice assign v h"
  by (auto simp: copy_flat_slice_def copy_slice_def load_arr_def alloc_def copy_elems_assign
      split: gval.splits option.splits cell.splits dest: heap_okD)

lemma deep_copies_flat_slice: "ext_local L \<Longrightarrow> flat ty \<Longrightarrow> deep_copies L (TSlice ty) copy_flat_slice"
  using deep_copies_slice [OF _ deep_copies_assign] by (simp add: deep_copies_def copy_flat_slice_eq cong: conj_cong)

lemma copy_entries_spec:
  "hp_cells h b = Some (CMap kvs) \<Longrightarrow> distinct (map fst (kvs @ ps)) \<Longrightarrow> copy_entries b ps h = store b (CMap (kvs @ ps)) h"
proof (induction ps arbitrary: kvs h)
  case Nil
  then show ?case by (simp add: store_same)
next
  case (Cons p ps)
  then have "map_put (fst p) (snd p) kvs = kvs @ [p]" by (auto simp: map_put_def)
  then show ?case using Cons.prems Cons.IH [of "store b (CMap (kvs @ [p])) h" "kvs @ [p]"]
    by (simp add: load_map_def)
qed

lemma deep_copies_map: "deep_copies L TStrMap copy_map"
  unfolding deep_copies_def
proof (intro allI impI)
  fix h v t A
  assume h: "heap_ok h" and ty: "typed L h TStrMap v" and d: "denotes h A v t"
  show "case copy_map v h of (w, h') \<Rightarrow>
     heap_ok h' \<and> extends h h' \<and> typed L h' TStrMap w \<and> denotes h' {hp_next h..<hp_next h'} w t"
  proof (cases "v = VMap None")
    case False
    with ty obtain a where v: "v = VMap (Some a)" by (auto split: gval.splits option.splits)
    with d obtain kvs ts where kvs: "hp_cells h a = Some (CMap kvs)" "distinct (map fst kvs)"
      and ts: "list_all2 (denotes h A) (map snd kvs) ts" and t: "t = NMap (map fst kvs) ts" by (auto elim: denotes_mapE)
    have st: "list_all (\<lambda>p. is_str (snd p)) kvs" using ty v kvs by simp
    then have pl: "list_all (\<lambda>p. plain (snd p)) kvs" by (auto simp: list_all_iff is_str_plain)
    obtain b h1 where al: "alloc (CMap []) h = (b, h1)" by (cases "alloc (CMap []) h")
    note b = alloc_props [OF al]
    have "load_map h1 a = kvs"
      using extends_cells [OF b(4) heap_okD [OF h kvs(1)]] kvs(1) by (simp add: load_map_def)
    then have eq: "copy_map v h = (VMap (Some b), store b (CMap kvs) h1)"
      using v al copy_entries_spec [OF b(3), of kvs] kvs(2) by (simp add: copy_map_def)
    let ?h = "store b (CMap kvs) h1"
    have "list_all2 (denotes ?h {hp_next h..<hp_next ?h}) (map snd kvs) ts"
      using ts pl plain_denotes [of _ h A] by (simp add: list_all2_conv_all_nth list_all_length)
    moreover have "extends h ?h" using b(1,4) by (auto simp: extends_def agree_def)
    ultimately show ?thesis
      unfolding eq using t kvs(2) st b h by (auto simp: heap_ok_store intro!: denotes_map)
  qed (use h d in \<open>auto simp: copy_map_def intro: denotes.intros\<close>)
qed

lemma deep_copies_ext: "ext_law L X \<Longrightarrow> deep_copies L (TExt n) (X n)"
  by (simp add: ext_law_def)

lemma ext_law_local: "ext_law L X \<Longrightarrow> ext_local L"
  by (simp add: ext_law_def)

text \<open>A struct is copied deeply when the statements follow the declaration: one for each field
  whose type holds references, in the order of the fields, with a copier for the field's type;
  a field without a statement has a flat type.\<close>

fun covers :: "ext_types \<Rightarrow> (string \<times> goty) list \<Rightarrow> (string \<times> copier) list \<Rightarrow> bool" where
  "covers L [] ss = (ss = [])"
| "covers L (d # ds) [] = (flat (snd d) \<and> covers L ds [])"
| "covers L (d # ds) (s # ss) =
     (if fst d = fst s then deep_copies L (snd d) (snd s) \<and> covers L ds ss
      else flat (snd d) \<and> covers L ds (s # ss))"

lemma covers_steps: "covers L ds ss \<Longrightarrow> s \<in> set ss \<Longrightarrow> \<exists>d \<in> set ds. fst d = fst s \<and> deep_copies L (snd d) (snd s)"
  by (induction L ds ss rule: covers.induct) (auto split: if_splits)

lemma covers_rest: "covers L ds ss \<Longrightarrow> d \<in> set ds \<Longrightarrow> fst d \<notin> fst ` set ss \<Longrightarrow> flat (snd d)"
  by (induction L ds ss rule: covers.induct) (auto split: if_splits)

lemma map_of_mem: "distinct (map fst ds) \<Longrightarrow> d \<in> set ds \<Longrightarrow> map_of ds (fst d) = Some (snd d)"
  by (cases d) simp

lemma field_mem: "distinct (map fst fs) \<Longrightarrow> p \<in> set fs \<Longrightarrow> field (fst p) (VStruct fs) = snd p"
  by (simp add: field_def map_of_mem)

lemma field_nth: "distinct (map fst fs) \<Longrightarrow> i < length fs \<Longrightarrow> field (fst (fs ! i)) (VStruct fs) = snd (fs ! i)"
  by (simp add: field_mem)

lemma map_of_set_field:
  "map_of (map (\<lambda>p. if fst p = f then (f, w) else p) fs) g = (if g = f \<and> f \<in> fst ` set fs then Some w else map_of fs g)"
  by (induction fs) (auto simp: rev_image_eqI)

lemma field_set_field: "f \<in> fst ` set fs \<Longrightarrow>
    field g (set_field f w (VStruct fs)) = (if g = f then w else field g (VStruct fs))"
  by (simp add: field_def set_field_def map_of_set_field)

lemma set_field_struct: "\<exists>os'. set_field f w (VStruct os) = VStruct os' \<and> map fst os' = map fst os"
  by (simp add: set_field_def comp_def if_distrib cong: if_cong)

text \<open>A struct seen by its field names.\<close>

lemma struct_viewE:
  assumes d: "distinct (map fst ds)" and ty: "typed L h (TStruct ds) v" and dv: "denotes h A v t"
  shows "\<exists>fs T. v = VStruct fs \<and> map fst fs = map fst ds \<and> t = NStruct (map fst ds) (map T (map fst ds)) \<and>
    (\<forall>e \<in> set ds. typed L h (snd e) (field (fst e) v) \<and> denotes h A (field (fst e) v) (T (fst e)))"
proof -
  from ty obtain fs where v: "v = VStruct fs" and fs: "list_all2 (\<lambda>d p. fst p = fst d \<and> typed L h (snd d) (snd p)) ds fs"
    by (auto split: gval.splits)
  from dv v obtain ts where t: "t = NStruct (map fst fs) ts" and ts: "list_all2 (denotes h A) (map snd fs) ts"
    by (auto elim: denotes_structE)
  have nm: "map fst fs = map fst ds" using fs by (auto simp: list_all2_conv_all_nth intro: nth_equalityI)
  define T where "T f = the (map_of (zip (map fst ds) ts) f)" for f
  have len: "length fs = length ds" "length ts = length ds" using list_all2_lengthD [OF fs] list_all2_lengthD [OF ts] by auto
  have T: "T (fst (ds ! i)) = ts ! i" if "i < length ds" for i
    using map_of_zip_nth [of "map fst ds" ts i] that d len by (simp add: T_def)
  then have "ts = map T (map fst ds)" using len by (auto intro: nth_equalityI)
  moreover have "typed L h (snd e) (field (fst e) v) \<and> denotes h A (field (fst e) v) (T (fst e))" if "e \<in> set ds" for e
  proof -
    from that obtain i where i: "i < length ds" "e = ds ! i" by (auto simp: in_set_conv_nth)
    have "fst (fs ! i) = fst e" using fs i by (auto simp: list_all2_conv_all_nth)
    then have "field (fst e) v = snd (fs ! i)" using field_nth [of fs i] nm d i len v by simp
    then show ?thesis using fs ts i T [OF i(1)] by (auto simp: list_all2_conv_all_nth)
  qed
  ultimately show ?thesis using v nm t by auto
qed

lemma struct_viewI:
  assumes d: "distinct (map fst ds)" and nm: "map fst fs = map fst ds"
    and f: "\<And>e. e \<in> set ds \<Longrightarrow> typed L h (snd e) (field (fst e) (VStruct fs)) \<and> denotes h A (field (fst e) (VStruct fs)) (T (fst e))"
  shows "typed L h (TStruct ds) (VStruct fs) \<and> denotes h A (VStruct fs) (NStruct (map fst ds) (map T (map fst ds)))"
proof -
  have len: "length fs = length ds" using nm by (metis length_map)
  have i: "fst (fs ! i) = fst (ds ! i) \<and> typed L h (snd (ds ! i)) (snd (fs ! i)) \<and> denotes h A (snd (fs ! i)) (T (fst (ds ! i)))"
    if i: "i < length ds" for i
  proof -
    have "fst (fs ! i) = fst (ds ! i)" using nm i len by (metis nth_map)
    moreover from this have "field (fst (ds ! i)) (VStruct fs) = snd (fs ! i)" using field_nth [of fs i] nm d i len by simp
    ultimately show ?thesis using f [of "ds ! i"] i by simp
  qed
  have "list_all2 (denotes h A) (map snd fs) (map T (map fst ds))" using i len by (simp add: list_all2_conv_all_nth)
  from denotes_struct [OF this] show ?thesis using i len nm by (simp add: list_all2_conv_all_nth)
qed

lemma copy_fields_spec:
  assumes L: "ext_local L" and A: "A \<subseteq> {..<N}" and v: "v = VStruct fs"
  shows "heap_ok h \<Longrightarrow> N \<le> hp_next h \<Longrightarrow>
    (\<And>f. f \<in> fst ` set fs \<Longrightarrow> typed L h (Ty f) (field f v) \<and> denotes h A (field f v) (T f)) \<Longrightarrow>
    (\<And>s. s \<in> set ss \<Longrightarrow> fst s \<in> fst ` set fs \<and> deep_copies L (Ty (fst s)) (snd s)) \<Longrightarrow>
    map fst os = map fst fs \<Longrightarrow>
    (\<And>f. f \<in> D \<Longrightarrow> typed L h (Ty f) (field f (VStruct os)) \<and> denotes h {N..<hp_next h} (field f (VStruct os)) (T f)) \<Longrightarrow>
    copy_fields ss v (VStruct os) h = (w, h') \<Longrightarrow>
    heap_ok h' \<and> extends h h' \<and> (\<exists>os'. w = VStruct os' \<and> map fst os' = map fst fs) \<and>
    (\<forall>f \<in> D \<union> fst ` set ss. typed L h' (Ty f) (field f w) \<and> denotes h' {N..<hp_next h'} (field f w) (T f))"
proof (induction ss arbitrary: os h D)
  case Nil
  then show ?case by auto
next
  case (Cons s ss)
  let ?f = "fst s"
  have f: "?f \<in> fst ` set fs" "deep_copies L (Ty ?f) (snd s)" using Cons.prems(4) by auto
  obtain x h1 where sx: "snd s (field ?f v) h = (x, h1)" by (cases "snd s (field ?f v) h")
  note C = deep_copiesD [OF f(2) Cons.prems(1) conjunct1 [OF Cons.prems(3) [OF f(1)]] conjunct2 [OF Cons.prems(3) [OF f(1)]] sx]
  have n: "N \<le> hp_next h1" using extends_next [OF C(2)] Cons.prems(2) by simp
  obtain os1 where os1: "set_field ?f x (VStruct os) = VStruct os1" "map fst os1 = map fst os"
    using set_field_struct by blast
  have "?f \<in> fst ` set os" using f(1) Cons.prems(5) by (metis list.set_map)
  then have fd: "field g (VStruct os1) = (if g = ?f then x else field g (VStruct os))" for g
    using field_set_field [of ?f os g x] os1(1) by simp
  have ag: "agree A h h1" "agree {N..<hp_next h} h h1" using A Cons.prems(2) by (auto intro!: extends_agree [OF C(2)])
  have "heap_ok h' \<and> extends h1 h' \<and> (\<exists>os'. w = VStruct os' \<and> map fst os' = map fst fs) \<and>
    (\<forall>f \<in> insert ?f D \<union> fst ` set ss. typed L h' (Ty f) (field f w) \<and> denotes h' {N..<hp_next h'} (field f w) (T f))"
  proof (rule Cons.IH [OF C(1) n])
    show "typed L h1 (Ty g) (field g v) \<and> denotes h1 A (field g v) (T g)" if "g \<in> fst ` set fs" for g
      using Cons.prems(3) [OF that] typed_frame [OF L _ _ ag(1)] denotes_frame [OF _ ag(1)] by blast
    show "typed L h1 (Ty g) (field g (VStruct os1)) \<and> denotes h1 {N..<hp_next h1} (field g (VStruct os1)) (T g)"
      if g: "g \<in> insert ?f D" for g
    proof (cases "g = ?f")
      case True
      have "denotes h1 {N..<hp_next h1} x (T g)" using Cons.prems(2) True by (auto intro: denotes_mono [OF C(4)])
      then show ?thesis using C(3) fd True by simp
    next
      case False
      then have d: "typed L h (Ty g) (field g (VStruct os))" "denotes h {N..<hp_next h} (field g (VStruct os)) (T g)"
        using Cons.prems(6) [of g] g by auto
      have "denotes h1 {N..<hp_next h1} (field g (VStruct os)) (T g)"
        using extends_next [OF C(2)] by (auto intro: denotes_mono [OF denotes_frame [OF d(2) ag(2)]])
      then show ?thesis using typed_frame [OF L d ag(2)] fd False by simp
    qed
    show "copy_fields ss v (VStruct os1) h1 = (w, h')" using Cons.prems(7) sx os1(1) by simp
  qed (use Cons.prems os1(2) in auto)
  then show ?case using extends_trans [OF C(2)] by auto
qed

lemma deep_copies_struct:
  assumes L: "ext_local L" and d: "distinct (map fst ds)" and cov: "covers L ds ss"
  shows "deep_copies L (TStruct ds) (copy_struct ss)"
  unfolding deep_copies_def
proof (intro allI impI)
  fix h v t A
  assume h: "heap_ok h" and ty: "typed L h (TStruct ds) v" and dv: "denotes h A v t"
  from struct_viewE [OF d ty denotes_below [OF dv h]] obtain fs T
    where v: "v = VStruct fs" "map fst fs = map fst ds" and t: "t = NStruct (map fst ds) (map T (map fst ds))"
      and f: "\<And>e. e \<in> set ds \<Longrightarrow> typed L h (snd e) (field (fst e) v) \<and> denotes h (A \<inter> {..<hp_next h}) (field (fst e) v) (T (fst e))"
    by blast
  define Ty where "Ty f = the (map_of ds f)" for f
  have Ty: "Ty (fst e) = snd e" if "e \<in> set ds" for e using map_of_mem [OF d that] by (simp add: Ty_def)
  have keys: "fst ` set fs = fst ` set ds" using v(2) by (metis list.set_map)
  obtain w h' where cw: "copy_struct ss v h = (w, h')" by (cases "copy_struct ss v h")
  let ?D = "{f \<in> fst ` set ds. flat (Ty f)}"
  have S: "heap_ok h' \<and> extends h h' \<and> (\<exists>os'. w = VStruct os' \<and> map fst os' = map fst fs) \<and>
    (\<forall>f \<in> ?D \<union> fst ` set ss. typed L h' (Ty f) (field f w) \<and> denotes h' {hp_next h..<hp_next h'} (field f w) (T f))"
  proof (rule copy_fields_spec [OF L _ v(1) h])
    show "typed L h (Ty g) (field g v) \<and> denotes h (A \<inter> {..<hp_next h}) (field g v) (T g)" if "g \<in> fst ` set fs" for g
      using that f Ty keys by auto
    show "fst s \<in> fst ` set fs \<and> deep_copies L (Ty (fst s)) (snd s)" if "s \<in> set ss" for s
      using covers_steps [OF cov that] Ty keys by force
    show "typed L h (Ty g) (field g (VStruct fs)) \<and> denotes h {hp_next h..<hp_next h} (field g (VStruct fs)) (T g)" if g: "g \<in> ?D" for g
    proof -
      obtain e where e: "e \<in> set ds" "g = fst e" using g by blast
      have "plain (field g v)" using f [OF e(1)] g Ty [OF e(1)] e(2) flat_denotes by auto
      from plain_denotes [OF this, of h "A \<inter> {..<hp_next h}"] show ?thesis using f [OF e(1)] Ty [OF e(1)] e(2) v(1) by simp
    qed
    show "copy_fields ss v (VStruct fs) h = (w, h')" using cw v(1) by (simp add: copy_struct_def)
  qed auto
  then obtain os where w: "w = VStruct os" "map fst os = map fst ds" using v(2) by auto
  have "typed L h' (snd e) (field (fst e) w) \<and> denotes h' {hp_next h..<hp_next h'} (field (fst e) w) (T (fst e))" if "e \<in> set ds" for e
  proof -
    have "fst e \<in> ?D \<union> fst ` set ss" using covers_rest [OF cov that] Ty [OF that] that by auto
    from bspec [OF S [THEN conjunct2, THEN conjunct2, THEN conjunct2] this] show ?thesis using Ty [OF that] by simp
  qed
  then have "typed L h' (TStruct ds) w \<and> denotes h' {hp_next h..<hp_next h'} w t"
    unfolding w(1) t by (rule struct_viewI [OF d w(2)])
  then show "case copy_struct ss v h of (w, h') \<Rightarrow>
     heap_ok h' \<and> extends h h' \<and> typed L h' (TStruct ds) w \<and> denotes h' {hp_next h..<hp_next h'} w t"
    using cw S by simp
qed

section \<open>Clients of a copy\<close>

text \<open>
  What code can do that holds one reference: write the cells it owns and allocate new ones,
  which it then owns too. The state is the set of owned addresses and the heap.
\<close>

inductive owner_step :: "addr set \<times> gheap \<Rightarrow> addr set \<times> gheap \<Rightarrow> bool" where
  owner_write: "a \<in> A \<Longrightarrow> owner_step (A, h) (A, store a c h)"
| owner_alloc: "alloc c h = (b, h') \<Longrightarrow> owner_step (A, h) (insert b A, h')"

inductive_cases owner_stepE: "owner_step (A, h) s"

abbreviation owner_steps :: "addr set \<times> gheap \<Rightarrow> addr set \<times> gheap \<Rightarrow> bool" where
  "owner_steps \<equiv> rtranclp owner_step"

text \<open>Addresses below the allocation limit that are not owned are never owned later, and their
  cells never change.\<close>

lemma owner_steps_frame:
  "owner_steps s s' \<Longrightarrow> fst s \<inter> P = {} \<Longrightarrow> P \<subseteq> {..<hp_next (snd s)} \<Longrightarrow>
   agree P (snd s) (snd s') \<and> fst s' \<inter> P = {} \<and> P \<subseteq> {..<hp_next (snd s')}"
proof (induction rule: rtranclp_induct)
  case base
  then show ?case by simp
next
  case (step y z)
  obtain A h where y: "y = (A, h)" by (cases y)
  from step.IH step.prems y have IH: "agree P (snd s) h" "A \<inter> P = {}" "P \<subseteq> {..<hp_next h}" by auto
  from step.hyps(2) [unfolded y] show ?case
    by (rule owner_stepE) (use IH in \<open>auto simp: agree_def alloc_def\<close>)
qed

lemma owner_frame:
  "owner_steps (A, h) (B, h') \<Longrightarrow> A \<inter> P = {} \<Longrightarrow> P \<subseteq> {..<hp_next h} \<Longrightarrow> agree P h h'"
  using owner_steps_frame [of "(A, h)" "(B, h')" P] by simp

text \<open>The contract of a \<^verbatim>\<open>DeepCopyInto\<close> as clients use it.\<close>

locale deep_copier =
  fixes L :: ext_types and ty :: goty and copy_into :: copier
  assumes types_local: "ext_local L"
    and copies: "deep_copies L ty copy_into"
begin

text \<open>\<^verbatim>\<open>DeepCopy\<close> of a pointer: nil for nil, otherwise a new pointer to the same tree.\<close>

lemma copy_result:
  assumes "heap_ok h" "typed L h (TPtr ty) p" "denotes h A p t" "copy_ptr copy_into p h = (q, h')"
  shows "heap_ok h'" "extends h h'" "typed L h' (TPtr ty) q" "denotes h' {hp_next h..<hp_next h'} q t"
  by (rule deep_copiesD [OF deep_copies_ptr [OF types_local copies] assms])+

lemma original_kept:
  assumes "heap_ok h" "typed L h (TPtr ty) p" "denotes h A p t" "copy_ptr copy_into p h = (q, h')"
    and "owner_steps ({hp_next h..<hp_next h'}, h') (B, h2)"
  shows "denotes h2 (A \<inter> {..<hp_next h}) p t"
proof -
  note C = copy_result [OF assms(1-4)]
  have "agree {..<hp_next h} h' h2"
    by (rule owner_frame [OF assms(5)]) (use extends_next [OF C(2)] in auto)
  then show ?thesis
    using denotes_extends [OF assms(3,1) C(2)] by (auto intro: denotes_frame agree_subset)
qed

lemma copy_kept:
  assumes "heap_ok h" "typed L h (TPtr ty) p" "denotes h A p t" "copy_ptr copy_into p h = (q, h')"
    and "owner_steps ({..<hp_next h}, h') (B, h2)"
  shows "denotes h2 {hp_next h..<hp_next h'} q t"
proof -
  note C = copy_result [OF assms(1-4)]
  have "agree {hp_next h..<hp_next h'} h' h2"
    by (rule owner_frame [OF assms(5)]) auto
  then show ?thesis by (rule denotes_frame [OF C(4)])
qed

end

end
