(* ===== verification/DeepCopyTypes.thy ===== *)
theory DeepCopyTypes
  imports GoHeap
begin

text \<open>
  The layout of the API structs as \<^verbatim>\<open>src/api/v1alpha1/*_types.go\<close> declare them: for each struct its
  fields in order, with what matters for copying of their types. These come from the type
  declarations, not from the generated code, so that the generated code can be checked
  against them.

  \<^verbatim>\<open>DatabaseType\<close> and \<^verbatim>\<open>corev1.PullPolicy\<close> are named strings; \<^verbatim>\<open>corev1.LocalObjectReference\<close> (one string)
  and \<^verbatim>\<open>metav1.TypeMeta\<close> (two strings) hold no reference. The other types of the Kubernetes packages
  are \<open>TExt\<close> with the name the source uses.
\<close>

definition ty_ControlSocket :: goty where
  "ty_ControlSocket = TStruct
    [(''SocketType'', TString), (''SocketName'', TString), (''SocketPort'', TPtr TInt32),
     (''SocketAddress'', TString)]"

definition ty_AgentControlSockets :: goty where
  "ty_AgentControlSockets = TStruct
    [(''Dhcp4'', TPtr ty_ControlSocket), (''Dhcp6'', TPtr ty_ControlSocket),
     (''D2'', TPtr ty_ControlSocket)]"

definition ty_AuthClient :: goty where
  "ty_AuthClient = TStruct
    [(''User'', TString), (''PasswordSecretKeyRef'', TPtr (TExt ''corev1.SecretKeySelector''))]"

definition ty_AuthConfig :: goty where
  "ty_AuthConfig = TStruct
    [(''Type'', TString), (''Realm'', TString), (''Clients'', TSlice ty_AuthClient),
     (''CredentialsSecretRef'', TPtr TPlain)]"

definition ty_OptionData :: goty where
  "ty_OptionData = TStruct
    [(''Name'', TString), (''Code'', TPtr TInt32), (''Space'', TString), (''CSVFormat'', TPtr TBool),
     (''Data'', TString), (''AlwaysSend'', TPtr TBool), (''NeverSend'', TPtr TBool)]"

definition ty_ClientClass :: goty where
  "ty_ClientClass = TStruct
    [(''Name'', TString), (''Test'', TString), (''OptionData'', TSlice ty_OptionData),
     (''OnlyIfRequired'', TPtr TBool), (''ValidLifetime'', TPtr TInt32),
     (''MinValidLifetime'', TPtr TInt32), (''MaxValidLifetime'', TPtr TInt32)]"

definition ty_ConditionStatus :: goty where
  "ty_ConditionStatus = TStruct
    [(''Type'', TString), (''Status'', TString), (''LastTransitionTime'', TString),
     (''Reason'', TString), (''Message'', TString)]"

definition ty_ComponentStatus :: goty where
  "ty_ComponentStatus = TStruct
    [(''Conditions'', TSlice ty_ConditionStatus), (''Phase'', TString),
     (''ObservedGeneration'', TInt64), (''ConfigMapRef'', TString), (''ReadyReplicas'', TInt32),
     (''ConfigHash'', TString)]"

definition ty_ContainerConfig :: goty where
  "ty_ContainerConfig = TStruct
    [(''Image'', TString), (''ImagePullPolicy'', TString),
     (''Resources'', TExt ''corev1.ResourceRequirements''), (''ImagePullSecrets'', TSlice TPlain)]"

definition ty_DNSServer :: goty where
  "ty_DNSServer = TStruct
    [(''IPAddress'', TString), (''Port'', TPtr TInt32)]"

definition ty_DDNSDomain :: goty where
  "ty_DDNSDomain = TStruct
    [(''Name'', TString), (''KeyName'', TString), (''DNSServers'', TSlice ty_DNSServer)]"

definition ty_DDNSConfig :: goty where
  "ty_DDNSConfig = TStruct
    [(''DDNSDomains'', TSlice ty_DDNSDomain)]"

definition ty_DatabaseConfig :: goty where
  "ty_DatabaseConfig = TStruct
    [(''Type'', TString), (''Persist'', TPtr TBool), (''Name'', TString), (''Host'', TString),
     (''Port'', TPtr TInt32), (''CredentialsSecretRef'', TPtr TPlain),
     (''ConnectTimeout'', TPtr TInt32), (''MaxReconnectTries'', TPtr TInt32),
     (''ReconnectWaitTime'', TPtr TInt32), (''OnFail'', TString), (''RetryOnStartup'', TPtr TBool),
     (''LFCInterval'', TPtr TInt32), (''MaxRowErrors'', TPtr TInt32), (''ReadOnly'', TPtr TBool),
     (''ReadTimeout'', TPtr TInt32), (''WriteTimeout'', TPtr TInt32), (''TCPUserTimeout'', TPtr TInt32)]"

definition ty_HAPeer :: goty where
  "ty_HAPeer = TStruct
    [(''Name'', TString), (''URL'', TString), (''Role'', TString), (''Address'', TString),
     (''AutoFailover'', TPtr TBool)]"

definition ty_TLSConfig :: goty where
  "ty_TLSConfig = TStruct
    [(''SecretRef'', TPlain), (''CertRequired'', TPtr TBool)]"

definition ty_HAMultiThreading :: goty where
  "ty_HAMultiThreading = TStruct
    [(''EnableMultiThreading'', TPtr TBool), (''HTTPClientThreads'', TPtr TInt32),
     (''HTTPListenerThreads'', TPtr TInt32)]"

definition ty_HAConfig :: goty where
  "ty_HAConfig = TStruct
    [(''ThisServerName'', TString), (''Mode'', TString), (''HeartbeatDelay'', TPtr TInt32),
     (''MaxResponseDelay'', TPtr TInt32), (''MaxAckDelay'', TPtr TInt32),
     (''MaxUnackedClients'', TPtr TInt32), (''Peers'', TSlice ty_HAPeer), (''TLS'', TPtr ty_TLSConfig),
     (''SendLeaseUpdates'', TPtr TBool), (''SyncLeases'', TPtr TBool), (''SyncTimeout'', TPtr TInt32),
     (''SyncPageLimit'', TPtr TInt32), (''DelayedUpdatesLimit'', TPtr TInt32),
     (''MultiThreading'', TPtr ty_HAMultiThreading)]"

definition ty_HookLibrary :: goty where
  "ty_HookLibrary = TStruct
    [(''Library'', TString), (''Parameters'', TPtr (TExt ''apiextensionsv1.JSON''))]"

definition ty_InterfacesConfig :: goty where
  "ty_InterfacesConfig = TStruct
    [(''Interfaces'', TSlice TString), (''DHCPSocketType'', TString), (''OutboundInterface'', TString),
     (''ReDetect'', TPtr TBool), (''ServiceSocketsRequireAll'', TPtr TBool),
     (''ServiceSocketsMaxRetries'', TPtr TInt32), (''ServiceSocketsRetryWaitTime'', TPtr TInt32)]"

definition ty_PodPlacement :: goty where
  "ty_PodPlacement = TStruct
    [(''NodeSelector'', TStrMap), (''Tolerations'', TSlice (TExt ''corev1.Toleration'')),
     (''Affinity'', TPtr (TExt ''corev1.Affinity'')), (''PodAnnotations'', TStrMap)]"

definition ty_LogOutputOption :: goty where
  "ty_LogOutputOption = TStruct
    [(''Output'', TString), (''Maxsize'', TPtr TInt64), (''Maxver'', TPtr TInt32),
     (''Flush'', TPtr TBool), (''Pattern'', TString)]"

definition ty_LoggerConfig :: goty where
  "ty_LoggerConfig = TStruct
    [(''Name'', TString), (''Severity'', TString), (''DebugLevel'', TPtr TInt32),
     (''OutputOptions'', TSlice ty_LogOutputOption)]"

definition ty_KeaControlAgentSpec :: goty where
  "ty_KeaControlAgentSpec = TStruct
    [(''Container'', ty_ContainerConfig), (''Replicas'', TPtr TInt32),
     (''Placement'', TPtr ty_PodPlacement), (''HTTPHost'', TString), (''HTTPPort'', TPtr TInt32),
     (''TLS'', TPtr ty_TLSConfig), (''ControlSockets'', TPtr ty_AgentControlSockets),
     (''Authentication'', TPtr ty_AuthConfig), (''HooksLibraries'', TSlice ty_HookLibrary),
     (''Loggers'', TSlice ty_LoggerConfig)]"

definition ty_KeaControlAgentStatus :: goty where
  "ty_KeaControlAgentStatus = TStruct
    [(''ComponentStatus'', ty_ComponentStatus)]"

definition ty_KeaControlAgent :: goty where
  "ty_KeaControlAgent = TStruct
    [(''TypeMeta'', TPlain), (''ObjectMeta'', TExt ''metav1.ObjectMeta''),
     (''Spec'', ty_KeaControlAgentSpec), (''Status'', ty_KeaControlAgentStatus)]"

definition ty_KeaControlAgentList :: goty where
  "ty_KeaControlAgentList = TStruct
    [(''TypeMeta'', TPlain), (''ListMeta'', TExt ''metav1.ListMeta''),
     (''Items'', TSlice ty_KeaControlAgent)]"

definition ty_Pool4 :: goty where
  "ty_Pool4 = TStruct
    [(''Pool'', TString), (''OptionData'', TSlice ty_OptionData), (''ClientClass'', TString),
     (''RequireClientClasses'', TSlice TString)]"

definition ty_Reservation :: goty where
  "ty_Reservation = TStruct
    [(''HWAddress'', TString), (''ClientID'', TString), (''DUID'', TString), (''CircuitID'', TString),
     (''FlexID'', TString), (''Hostname'', TString), (''IPAddress'', TString),
     (''IPAddresses'', TSlice TString), (''Prefixes'', TSlice TString),
     (''OptionData'', TSlice ty_OptionData), (''ClientClasses'', TSlice TString),
     (''NextServer'', TString), (''BootFileName'', TString), (''ServerHostname'', TString)]"

definition ty_RelayInfo :: goty where
  "ty_RelayInfo = TStruct
    [(''IPAddresses'', TSlice TString)]"

definition ty_Subnet4 :: goty where
  "ty_Subnet4 = TStruct
    [(''ID'', TInt32), (''Subnet'', TString), (''Pools'', TSlice ty_Pool4),
     (''OptionData'', TSlice ty_OptionData), (''Reservations'', TSlice ty_Reservation),
     (''ClientClass'', TString), (''RequireClientClasses'', TSlice TString), (''Interface'', TString),
     (''Relay'', TPtr ty_RelayInfo), (''ValidLifetime'', TPtr TInt32),
     (''MinValidLifetime'', TPtr TInt32), (''MaxValidLifetime'', TPtr TInt32),
     (''RenewTimer'', TPtr TInt32), (''RebindTimer'', TPtr TInt32), (''Authoritative'', TPtr TBool),
     (''ReservationMode'', TString), (''MatchClientID'', TPtr TBool), (''NextServer'', TString),
     (''BootFileName'', TString), (''ServerHostname'', TString), (''UserContext'', TString)]"

definition ty_SharedNetwork4 :: goty where
  "ty_SharedNetwork4 = TStruct
    [(''Name'', TString), (''Subnet4'', TSlice ty_Subnet4), (''Interface'', TString),
     (''OptionData'', TSlice ty_OptionData), (''Relay'', TPtr ty_RelayInfo),
     (''ClientClass'', TString), (''RequireClientClasses'', TSlice TString),
     (''ValidLifetime'', TPtr TInt32), (''MinValidLifetime'', TPtr TInt32),
     (''MaxValidLifetime'', TPtr TInt32), (''RenewTimer'', TPtr TInt32),
     (''RebindTimer'', TPtr TInt32), (''Authoritative'', TPtr TBool)]"

definition ty_OptionDef :: goty where
  "ty_OptionDef = TStruct
    [(''Name'', TString), (''Code'', TInt32), (''Type'', TString), (''Array'', TPtr TBool),
     (''RecordTypes'', TString), (''Encapsulate'', TString), (''Space'', TString)]"

definition ty_MultiThreadingConfig :: goty where
  "ty_MultiThreadingConfig = TStruct
    [(''EnableMultiThreading'', TPtr TBool), (''ThreadPoolSize'', TPtr TInt32),
     (''PacketQueueSize'', TPtr TInt32)]"

definition ty_StorkAgentConfig :: goty where
  "ty_StorkAgentConfig = TStruct
    [(''Enabled'', TBool), (''Image'', TString), (''ImagePullPolicy'', TString),
     (''Resources'', TExt ''corev1.ResourceRequirements''), (''ServerURL'', TString),
     (''ServerTokenSecretRef'', TPtr TPlain), (''StorkServerRef'', TPtr TPlain),
     (''Port'', TPtr TInt32), (''PrometheusPort'', TPtr TInt32),
     (''Env'', TSlice (TExt ''corev1.EnvVar''))]"

definition ty_KeaDhcp4ServerSpec :: goty where
  "ty_KeaDhcp4ServerSpec = TStruct
    [(''Container'', ty_ContainerConfig), (''Replicas'', TPtr TInt32),
     (''Placement'', TPtr ty_PodPlacement), (''HostNetwork'', TPtr TBool),
     (''InterfacesConfig'', ty_InterfacesConfig), (''LeaseDatabase'', TPtr ty_DatabaseConfig),
     (''HostsDatabase'', TPtr ty_DatabaseConfig), (''HostsDatabases'', TSlice ty_DatabaseConfig),
     (''Subnet4'', TSlice ty_Subnet4), (''SharedNetworks'', TSlice ty_SharedNetwork4),
     (''OptionData'', TSlice ty_OptionData), (''OptionDef'', TSlice ty_OptionDef),
     (''ClientClasses'', TSlice ty_ClientClass), (''Reservations'', TSlice ty_Reservation),
     (''HostReservationIdentifiers'', TSlice TString), (''HooksLibraries'', TSlice ty_HookLibrary),
     (''ControlSocket'', TPtr ty_ControlSocket), (''Loggers'', TSlice ty_LoggerConfig),
     (''ValidLifetime'', TPtr TInt32), (''MinValidLifetime'', TPtr TInt32),
     (''MaxValidLifetime'', TPtr TInt32), (''RenewTimer'', TPtr TInt32),
     (''RebindTimer'', TPtr TInt32), (''CalculateTeeTimes'', TPtr TBool),
     (''T1Percent'', TPtr TString), (''T2Percent'', TPtr TString), (''Authoritative'', TPtr TBool),
     (''MatchClientID'', TPtr TBool), (''ServerTag'', TString), (''NextServer'', TString),
     (''BootFileName'', TString), (''ServerHostname'', TString), (''DDNSSendUpdates'', TPtr TBool),
     (''DDNSOverrideNoUpdate'', TPtr TBool), (''DDNSOverrideClientUpdate'', TPtr TBool),
     (''DDNSReplaceClientName'', TString), (''DDNSGeneratedPrefix'', TString),
     (''DDNSQualifyingSuffix'', TString), (''DDNSUseConflictResolution'', TPtr TBool),
     (''HighAvailability'', TPtr ty_HAConfig), (''MultiThreading'', TPtr ty_MultiThreadingConfig),
     (''Stork'', TPtr ty_StorkAgentConfig)]"

definition ty_KeaDhcp4ServerStatus :: goty where
  "ty_KeaDhcp4ServerStatus = TStruct
    [(''ComponentStatus'', ty_ComponentStatus), (''NADAddresses'', TSlice TString)]"

definition ty_KeaDhcp4Server :: goty where
  "ty_KeaDhcp4Server = TStruct
    [(''TypeMeta'', TPlain), (''ObjectMeta'', TExt ''metav1.ObjectMeta''),
     (''Spec'', ty_KeaDhcp4ServerSpec), (''Status'', ty_KeaDhcp4ServerStatus)]"

definition ty_KeaDhcp4ServerList :: goty where
  "ty_KeaDhcp4ServerList = TStruct
    [(''TypeMeta'', TPlain), (''ListMeta'', TExt ''metav1.ListMeta''),
     (''Items'', TSlice ty_KeaDhcp4Server)]"

definition ty_Pool6 :: goty where
  "ty_Pool6 = TStruct
    [(''Pool'', TString), (''OptionData'', TSlice ty_OptionData), (''ClientClass'', TString),
     (''RequireClientClasses'', TSlice TString)]"

definition ty_PDPool :: goty where
  "ty_PDPool = TStruct
    [(''Prefix'', TString), (''PrefixLen'', TInt32), (''DelegatedLen'', TInt32),
     (''ExcludedPrefix'', TString), (''ExcludedPrefixLen'', TPtr TInt32),
     (''OptionData'', TSlice ty_OptionData), (''ClientClass'', TString)]"

definition ty_Subnet6 :: goty where
  "ty_Subnet6 = TStruct
    [(''ID'', TInt32), (''Subnet'', TString), (''Pools'', TSlice ty_Pool6),
     (''PDPools'', TSlice ty_PDPool), (''OptionData'', TSlice ty_OptionData),
     (''Reservations'', TSlice ty_Reservation), (''ClientClass'', TString),
     (''RequireClientClasses'', TSlice TString), (''Interface'', TString), (''InterfaceID'', TString),
     (''Relay'', TPtr ty_RelayInfo), (''PreferredLifetime'', TPtr TInt32),
     (''ValidLifetime'', TPtr TInt32), (''MinValidLifetime'', TPtr TInt32),
     (''MaxValidLifetime'', TPtr TInt32), (''RenewTimer'', TPtr TInt32),
     (''RebindTimer'', TPtr TInt32), (''RapidCommit'', TPtr TBool), (''ReservationMode'', TString)]"

definition ty_SharedNetwork6 :: goty where
  "ty_SharedNetwork6 = TStruct
    [(''Name'', TString), (''Subnet6'', TSlice ty_Subnet6), (''Interface'', TString),
     (''InterfaceID'', TString), (''OptionData'', TSlice ty_OptionData),
     (''Relay'', TPtr ty_RelayInfo), (''ClientClass'', TString), (''PreferredLifetime'', TPtr TInt32),
     (''ValidLifetime'', TPtr TInt32), (''RenewTimer'', TPtr TInt32), (''RebindTimer'', TPtr TInt32),
     (''RapidCommit'', TPtr TBool)]"

definition ty_KeaDhcp6ServerSpec :: goty where
  "ty_KeaDhcp6ServerSpec = TStruct
    [(''Container'', ty_ContainerConfig), (''Replicas'', TPtr TInt32),
     (''Placement'', TPtr ty_PodPlacement), (''HostNetwork'', TPtr TBool),
     (''InterfacesConfig'', ty_InterfacesConfig), (''LeaseDatabase'', TPtr ty_DatabaseConfig),
     (''HostsDatabase'', TPtr ty_DatabaseConfig), (''HostsDatabases'', TSlice ty_DatabaseConfig),
     (''Subnet6'', TSlice ty_Subnet6), (''SharedNetworks'', TSlice ty_SharedNetwork6),
     (''OptionData'', TSlice ty_OptionData), (''OptionDef'', TSlice ty_OptionDef),
     (''ClientClasses'', TSlice ty_ClientClass), (''Reservations'', TSlice ty_Reservation),
     (''HostReservationIdentifiers'', TSlice TString), (''HooksLibraries'', TSlice ty_HookLibrary),
     (''ControlSocket'', TPtr ty_ControlSocket), (''Loggers'', TSlice ty_LoggerConfig),
     (''PreferredLifetime'', TPtr TInt32), (''ValidLifetime'', TPtr TInt32),
     (''MinValidLifetime'', TPtr TInt32), (''MaxValidLifetime'', TPtr TInt32),
     (''RenewTimer'', TPtr TInt32), (''RebindTimer'', TPtr TInt32),
     (''CalculateTeeTimes'', TPtr TBool), (''T1Percent'', TPtr TString), (''T2Percent'', TPtr TString),
     (''ServerTag'', TString), (''RapidCommit'', TPtr TBool), (''DDNSSendUpdates'', TPtr TBool),
     (''DDNSQualifyingSuffix'', TString), (''HighAvailability'', TPtr ty_HAConfig),
     (''MultiThreading'', TPtr ty_MultiThreadingConfig), (''Stork'', TPtr ty_StorkAgentConfig)]"

definition ty_KeaDhcp6ServerStatus :: goty where
  "ty_KeaDhcp6ServerStatus = TStruct
    [(''ComponentStatus'', ty_ComponentStatus)]"

definition ty_KeaDhcp6Server :: goty where
  "ty_KeaDhcp6Server = TStruct
    [(''TypeMeta'', TPlain), (''ObjectMeta'', TExt ''metav1.ObjectMeta''),
     (''Spec'', ty_KeaDhcp6ServerSpec), (''Status'', ty_KeaDhcp6ServerStatus)]"

definition ty_KeaDhcp6ServerList :: goty where
  "ty_KeaDhcp6ServerList = TStruct
    [(''TypeMeta'', TPlain), (''ListMeta'', TExt ''metav1.ListMeta''),
     (''Items'', TSlice ty_KeaDhcp6Server)]"

definition ty_TSIGKey :: goty where
  "ty_TSIGKey = TStruct
    [(''Name'', TString), (''Algorithm'', TString), (''DigestBits'', TPtr TInt32),
     (''SecretRef'', TPtr (TExt ''corev1.SecretKeySelector''))]"

definition ty_KeaDhcpDdnsSpec :: goty where
  "ty_KeaDhcpDdnsSpec = TStruct
    [(''Container'', ty_ContainerConfig), (''Replicas'', TPtr TInt32),
     (''Placement'', TPtr ty_PodPlacement), (''IPAddress'', TString), (''Port'', TPtr TInt32),
     (''DNSServerTimeout'', TPtr TInt32), (''NCRProtocol'', TString), (''NCRFormat'', TString),
     (''TSIGKeys'', TSlice ty_TSIGKey), (''ForwardDDNS'', TPtr ty_DDNSConfig),
     (''ReverseDDNS'', TPtr ty_DDNSConfig), (''ControlSocket'', TPtr ty_ControlSocket),
     (''HooksLibraries'', TSlice ty_HookLibrary), (''Loggers'', TSlice ty_LoggerConfig)]"

definition ty_KeaDhcpDdnsStatus :: goty where
  "ty_KeaDhcpDdnsStatus = TStruct
    [(''ComponentStatus'', ty_ComponentStatus)]"

definition ty_KeaDhcpDdns :: goty where
  "ty_KeaDhcpDdns = TStruct
    [(''TypeMeta'', TPlain), (''ObjectMeta'', TExt ''metav1.ObjectMeta''),
     (''Spec'', ty_KeaDhcpDdnsSpec), (''Status'', ty_KeaDhcpDdnsStatus)]"

definition ty_KeaDhcpDdnsList :: goty where
  "ty_KeaDhcpDdnsList = TStruct
    [(''TypeMeta'', TPlain), (''ListMeta'', TExt ''metav1.ListMeta''),
     (''Items'', TSlice ty_KeaDhcpDdns)]"

definition ty_StorkServerDatabase :: goty where
  "ty_StorkServerDatabase = TStruct
    [(''Host'', TString), (''Port'', TPtr TInt32), (''Name'', TString),
     (''CredentialsSecretRef'', TPlain), (''SSLMode'', TString)]"

definition ty_KeaStorkServerSpec :: goty where
  "ty_KeaStorkServerSpec = TStruct
    [(''Container'', ty_ContainerConfig), (''Replicas'', TPtr TInt32),
     (''Database'', ty_StorkServerDatabase), (''Port'', TPtr TInt32), (''EnableMetrics'', TPtr TBool),
     (''Placement'', TPtr ty_PodPlacement)]"

definition ty_KeaServerSpec :: goty where
  "ty_KeaServerSpec = TStruct
    [(''Dhcp4'', TPtr ty_KeaDhcp4ServerSpec), (''Dhcp6'', TPtr ty_KeaDhcp6ServerSpec),
     (''ControlAgent'', TPtr ty_KeaControlAgentSpec), (''DhcpDdns'', TPtr ty_KeaDhcpDdnsSpec),
     (''StorkServer'', TPtr ty_KeaStorkServerSpec)]"

definition ty_KeaServerStatus :: goty where
  "ty_KeaServerStatus = TStruct
    [(''Conditions'', TSlice ty_ConditionStatus), (''ObservedGeneration'', TInt64),
     (''Phase'', TString), (''Dhcp4Ready'', TBool), (''Dhcp6Ready'', TBool),
     (''ControlAgentReady'', TBool), (''DhcpDdnsReady'', TBool), (''StorkServerReady'', TBool)]"

definition ty_KeaServer :: goty where
  "ty_KeaServer = TStruct
    [(''TypeMeta'', TPlain), (''ObjectMeta'', TExt ''metav1.ObjectMeta''),
     (''Spec'', ty_KeaServerSpec), (''Status'', ty_KeaServerStatus)]"

definition ty_KeaServerList :: goty where
  "ty_KeaServerList = TStruct
    [(''TypeMeta'', TPlain), (''ListMeta'', TExt ''metav1.ListMeta''), (''Items'', TSlice ty_KeaServer)]"

definition ty_KeaStorkServerStatus :: goty where
  "ty_KeaStorkServerStatus = TStruct
    [(''ComponentStatus'', ty_ComponentStatus), (''URL'', TString), (''AdminSecretName'', TString),
     (''ServerTokenSecretName'', TString)]"

definition ty_KeaStorkServer :: goty where
  "ty_KeaStorkServer = TStruct
    [(''TypeMeta'', TPlain), (''ObjectMeta'', TExt ''metav1.ObjectMeta''),
     (''Spec'', ty_KeaStorkServerSpec), (''Status'', ty_KeaStorkServerStatus)]"

definition ty_KeaStorkServerList :: goty where
  "ty_KeaStorkServerList = TStruct
    [(''TypeMeta'', TPlain), (''ListMeta'', TExt ''metav1.ListMeta''),
     (''Items'', TSlice ty_KeaStorkServer)]"

end
