(* ===== verification/DeepCopy.thy ===== *)
theory DeepCopy
  imports DeepCopyTypes
begin

text \<open>
  The deep copies of the API types (\<^verbatim>\<open>src/api/v1alpha1/zz_generated.deepcopy.go\<close>): one
  \<^verbatim>\<open>DeepCopyInto\<close> and one \<^verbatim>\<open>DeepCopy\<close> per struct and one \<^verbatim>\<open>DeepCopyObject\<close> per root kind, statement by
  statement over the memory of \<^verbatim>\<open>GoHeap\<close>, callees first. \<open>X\<close> is the \<^verbatim>\<open>DeepCopyInto\<close> of the types of
  other packages, by name. The theorems show that every routine copies the declared type deeply
  and that a client of a copy cannot reach the original.
\<close>

section \<open>The generated routines\<close>

text \<open>\<^verbatim>\<open>DeepCopyObject\<close> wraps the pointer in an interface value (its dynamic type beside it), and
  returns the nil interface rather than a typed nil pointer.\<close>

definition as_object :: "string \<Rightarrow> gval \<times> gheap \<Rightarrow> (string \<times> gval) option \<times> gheap" where
  "as_object kind r = (case r of (c, h) \<Rightarrow> if c \<noteq> VPtr None then (Some (kind, c), h) else (None, h))"

definition DeepCopyInto_ControlSocket :: copier where
  "DeepCopyInto_ControlSocket = copy_struct
    [(''SocketPort'', copy_ptr assign)]"

definition DeepCopy_ControlSocket :: copier where
  "DeepCopy_ControlSocket = copy_ptr DeepCopyInto_ControlSocket"

definition DeepCopyInto_AgentControlSockets :: copier where
  "DeepCopyInto_AgentControlSockets = copy_struct
    [(''Dhcp4'', copy_ptr DeepCopyInto_ControlSocket),
     (''Dhcp6'', copy_ptr DeepCopyInto_ControlSocket), (''D2'', copy_ptr DeepCopyInto_ControlSocket)]"

definition DeepCopy_AgentControlSockets :: copier where
  "DeepCopy_AgentControlSockets = copy_ptr DeepCopyInto_AgentControlSockets"

definition DeepCopyInto_AuthClient :: "(string \<Rightarrow> copier) \<Rightarrow> copier" where
  "DeepCopyInto_AuthClient X = copy_struct
    [(''PasswordSecretKeyRef'', copy_ptr (X ''corev1.SecretKeySelector''))]"

definition DeepCopy_AuthClient :: "(string \<Rightarrow> copier) \<Rightarrow> copier" where
  "DeepCopy_AuthClient X = copy_ptr (DeepCopyInto_AuthClient X)"

definition DeepCopyInto_AuthConfig :: "(string \<Rightarrow> copier) \<Rightarrow> copier" where
  "DeepCopyInto_AuthConfig X = copy_struct
    [(''Clients'', copy_slice (DeepCopyInto_AuthClient X)), (''CredentialsSecretRef'', copy_ptr assign)]"

definition DeepCopy_AuthConfig :: "(string \<Rightarrow> copier) \<Rightarrow> copier" where
  "DeepCopy_AuthConfig X = copy_ptr (DeepCopyInto_AuthConfig X)"

definition DeepCopyInto_OptionData :: copier where
  "DeepCopyInto_OptionData = copy_struct
    [(''Code'', copy_ptr assign), (''CSVFormat'', copy_ptr assign), (''AlwaysSend'', copy_ptr assign),
     (''NeverSend'', copy_ptr assign)]"

definition DeepCopy_OptionData :: copier where
  "DeepCopy_OptionData = copy_ptr DeepCopyInto_OptionData"

definition DeepCopyInto_ClientClass :: copier where
  "DeepCopyInto_ClientClass = copy_struct
    [(''OptionData'', copy_slice DeepCopyInto_OptionData), (''OnlyIfRequired'', copy_ptr assign),
     (''ValidLifetime'', copy_ptr assign), (''MinValidLifetime'', copy_ptr assign),
     (''MaxValidLifetime'', copy_ptr assign)]"

definition DeepCopy_ClientClass :: copier where
  "DeepCopy_ClientClass = copy_ptr DeepCopyInto_ClientClass"

definition DeepCopyInto_ConditionStatus :: copier where
  "DeepCopyInto_ConditionStatus = copy_struct []"

definition DeepCopy_ConditionStatus :: copier where
  "DeepCopy_ConditionStatus = copy_ptr DeepCopyInto_ConditionStatus"

definition DeepCopyInto_ComponentStatus :: copier where
  "DeepCopyInto_ComponentStatus = copy_struct
    [(''Conditions'', copy_flat_slice)]"

definition DeepCopy_ComponentStatus :: copier where
  "DeepCopy_ComponentStatus = copy_ptr DeepCopyInto_ComponentStatus"

definition DeepCopyInto_ContainerConfig :: "(string \<Rightarrow> copier) \<Rightarrow> copier" where
  "DeepCopyInto_ContainerConfig X = copy_struct
    [(''Resources'', X ''corev1.ResourceRequirements''), (''ImagePullSecrets'', copy_flat_slice)]"

definition DeepCopy_ContainerConfig :: "(string \<Rightarrow> copier) \<Rightarrow> copier" where
  "DeepCopy_ContainerConfig X = copy_ptr (DeepCopyInto_ContainerConfig X)"

definition DeepCopyInto_DNSServer :: copier where
  "DeepCopyInto_DNSServer = copy_struct
    [(''Port'', copy_ptr assign)]"

definition DeepCopy_DNSServer :: copier where
  "DeepCopy_DNSServer = copy_ptr DeepCopyInto_DNSServer"

definition DeepCopyInto_DDNSDomain :: copier where
  "DeepCopyInto_DDNSDomain = copy_struct
    [(''DNSServers'', copy_slice DeepCopyInto_DNSServer)]"

definition DeepCopy_DDNSDomain :: copier where
  "DeepCopy_DDNSDomain = copy_ptr DeepCopyInto_DDNSDomain"

definition DeepCopyInto_DDNSConfig :: copier where
  "DeepCopyInto_DDNSConfig = copy_struct
    [(''DDNSDomains'', copy_slice DeepCopyInto_DDNSDomain)]"

definition DeepCopy_DDNSConfig :: copier where
  "DeepCopy_DDNSConfig = copy_ptr DeepCopyInto_DDNSConfig"

definition DeepCopyInto_DatabaseConfig :: copier where
  "DeepCopyInto_DatabaseConfig = copy_struct
    [(''Persist'', copy_ptr assign), (''Port'', copy_ptr assign),
     (''CredentialsSecretRef'', copy_ptr assign), (''ConnectTimeout'', copy_ptr assign),
     (''MaxReconnectTries'', copy_ptr assign), (''ReconnectWaitTime'', copy_ptr assign),
     (''RetryOnStartup'', copy_ptr assign), (''LFCInterval'', copy_ptr assign),
     (''MaxRowErrors'', copy_ptr assign), (''ReadOnly'', copy_ptr assign),
     (''ReadTimeout'', copy_ptr assign), (''WriteTimeout'', copy_ptr assign),
     (''TCPUserTimeout'', copy_ptr assign)]"

definition DeepCopy_DatabaseConfig :: copier where
  "DeepCopy_DatabaseConfig = copy_ptr DeepCopyInto_DatabaseConfig"

definition DeepCopyInto_HAPeer :: copier where
  "DeepCopyInto_HAPeer = copy_struct
    [(''AutoFailover'', copy_ptr assign)]"

definition DeepCopy_HAPeer :: copier where
  "DeepCopy_HAPeer = copy_ptr DeepCopyInto_HAPeer"

definition DeepCopyInto_TLSConfig :: copier where
  "DeepCopyInto_TLSConfig = copy_struct
    [(''SecretRef'', assign), (''CertRequired'', copy_ptr assign)]"

definition DeepCopy_TLSConfig :: copier where
  "DeepCopy_TLSConfig = copy_ptr DeepCopyInto_TLSConfig"

definition DeepCopyInto_HAMultiThreading :: copier where
  "DeepCopyInto_HAMultiThreading = copy_struct
    [(''EnableMultiThreading'', copy_ptr assign), (''HTTPClientThreads'', copy_ptr assign),
     (''HTTPListenerThreads'', copy_ptr assign)]"

definition DeepCopy_HAMultiThreading :: copier where
  "DeepCopy_HAMultiThreading = copy_ptr DeepCopyInto_HAMultiThreading"

definition DeepCopyInto_HAConfig :: copier where
  "DeepCopyInto_HAConfig = copy_struct
    [(''HeartbeatDelay'', copy_ptr assign), (''MaxResponseDelay'', copy_ptr assign),
     (''MaxAckDelay'', copy_ptr assign), (''MaxUnackedClients'', copy_ptr assign),
     (''Peers'', copy_slice DeepCopyInto_HAPeer), (''TLS'', copy_ptr DeepCopyInto_TLSConfig),
     (''SendLeaseUpdates'', copy_ptr assign), (''SyncLeases'', copy_ptr assign),
     (''SyncTimeout'', copy_ptr assign), (''SyncPageLimit'', copy_ptr assign),
     (''DelayedUpdatesLimit'', copy_ptr assign),
     (''MultiThreading'', copy_ptr DeepCopyInto_HAMultiThreading)]"

definition DeepCopy_HAConfig :: copier where
  "DeepCopy_HAConfig = copy_ptr DeepCopyInto_HAConfig"

definition DeepCopyInto_HookLibrary :: "(string \<Rightarrow> copier) \<Rightarrow> copier" where
  "DeepCopyInto_HookLibrary X = copy_struct
    [(''Parameters'', copy_ptr (X ''apiextensionsv1.JSON''))]"

definition DeepCopy_HookLibrary :: "(string \<Rightarrow> copier) \<Rightarrow> copier" where
  "DeepCopy_HookLibrary X = copy_ptr (DeepCopyInto_HookLibrary X)"

definition DeepCopyInto_InterfacesConfig :: copier where
  "DeepCopyInto_InterfacesConfig = copy_struct
    [(''Interfaces'', copy_flat_slice), (''ReDetect'', copy_ptr assign),
     (''ServiceSocketsRequireAll'', copy_ptr assign), (''ServiceSocketsMaxRetries'', copy_ptr assign),
     (''ServiceSocketsRetryWaitTime'', copy_ptr assign)]"

definition DeepCopy_InterfacesConfig :: copier where
  "DeepCopy_InterfacesConfig = copy_ptr DeepCopyInto_InterfacesConfig"

definition DeepCopyInto_PodPlacement :: "(string \<Rightarrow> copier) \<Rightarrow> copier" where
  "DeepCopyInto_PodPlacement X = copy_struct
    [(''NodeSelector'', copy_map), (''Tolerations'', copy_slice (X ''corev1.Toleration'')),
     (''Affinity'', copy_ptr (X ''corev1.Affinity'')), (''PodAnnotations'', copy_map)]"

definition DeepCopy_PodPlacement :: "(string \<Rightarrow> copier) \<Rightarrow> copier" where
  "DeepCopy_PodPlacement X = copy_ptr (DeepCopyInto_PodPlacement X)"

definition DeepCopyInto_LogOutputOption :: copier where
  "DeepCopyInto_LogOutputOption = copy_struct
    [(''Maxsize'', copy_ptr assign), (''Maxver'', copy_ptr assign), (''Flush'', copy_ptr assign)]"

definition DeepCopy_LogOutputOption :: copier where
  "DeepCopy_LogOutputOption = copy_ptr DeepCopyInto_LogOutputOption"

definition DeepCopyInto_LoggerConfig :: copier where
  "DeepCopyInto_LoggerConfig = copy_struct
    [(''DebugLevel'', copy_ptr assign), (''OutputOptions'', copy_slice DeepCopyInto_LogOutputOption)]"

definition DeepCopy_LoggerConfig :: copier where
  "DeepCopy_LoggerConfig = copy_ptr DeepCopyInto_LoggerConfig"

definition DeepCopyInto_KeaControlAgentSpec :: "(string \<Rightarrow> copier) \<Rightarrow> copier" where
  "DeepCopyInto_KeaControlAgentSpec X = copy_struct
    [(''Container'', DeepCopyInto_ContainerConfig X), (''Replicas'', copy_ptr assign),
     (''Placement'', copy_ptr (DeepCopyInto_PodPlacement X)), (''HTTPPort'', copy_ptr assign),
     (''TLS'', copy_ptr DeepCopyInto_TLSConfig),
     (''ControlSockets'', copy_ptr DeepCopyInto_AgentControlSockets),
     (''Authentication'', copy_ptr (DeepCopyInto_AuthConfig X)),
     (''HooksLibraries'', copy_slice (DeepCopyInto_HookLibrary X)),
     (''Loggers'', copy_slice DeepCopyInto_LoggerConfig)]"

definition DeepCopy_KeaControlAgentSpec :: "(string \<Rightarrow> copier) \<Rightarrow> copier" where
  "DeepCopy_KeaControlAgentSpec X = copy_ptr (DeepCopyInto_KeaControlAgentSpec X)"

definition DeepCopyInto_KeaControlAgentStatus :: copier where
  "DeepCopyInto_KeaControlAgentStatus = copy_struct
    [(''ComponentStatus'', DeepCopyInto_ComponentStatus)]"

definition DeepCopy_KeaControlAgentStatus :: copier where
  "DeepCopy_KeaControlAgentStatus = copy_ptr DeepCopyInto_KeaControlAgentStatus"

definition DeepCopyInto_KeaControlAgent :: "(string \<Rightarrow> copier) \<Rightarrow> copier" where
  "DeepCopyInto_KeaControlAgent X = copy_struct
    [(''TypeMeta'', assign), (''ObjectMeta'', X ''metav1.ObjectMeta''),
     (''Spec'', DeepCopyInto_KeaControlAgentSpec X), (''Status'', DeepCopyInto_KeaControlAgentStatus)]"

definition DeepCopy_KeaControlAgent :: "(string \<Rightarrow> copier) \<Rightarrow> copier" where
  "DeepCopy_KeaControlAgent X = copy_ptr (DeepCopyInto_KeaControlAgent X)"

definition DeepCopyObject_KeaControlAgent :: "(string \<Rightarrow> copier) \<Rightarrow> gval \<Rightarrow> gheap \<Rightarrow> (string \<times> gval) option \<times> gheap" where
  "DeepCopyObject_KeaControlAgent X v h = as_object ''KeaControlAgent'' (DeepCopy_KeaControlAgent X v h)"

definition DeepCopyInto_KeaControlAgentList :: "(string \<Rightarrow> copier) \<Rightarrow> copier" where
  "DeepCopyInto_KeaControlAgentList X = copy_struct
    [(''TypeMeta'', assign), (''ListMeta'', X ''metav1.ListMeta''),
     (''Items'', copy_slice (DeepCopyInto_KeaControlAgent X))]"

definition DeepCopy_KeaControlAgentList :: "(string \<Rightarrow> copier) \<Rightarrow> copier" where
  "DeepCopy_KeaControlAgentList X = copy_ptr (DeepCopyInto_KeaControlAgentList X)"

definition DeepCopyObject_KeaControlAgentList :: "(string \<Rightarrow> copier) \<Rightarrow> gval \<Rightarrow> gheap \<Rightarrow> (string \<times> gval) option \<times> gheap" where
  "DeepCopyObject_KeaControlAgentList X v h = as_object ''KeaControlAgentList'' (DeepCopy_KeaControlAgentList X v h)"

definition DeepCopyInto_Pool4 :: copier where
  "DeepCopyInto_Pool4 = copy_struct
    [(''OptionData'', copy_slice DeepCopyInto_OptionData), (''RequireClientClasses'', copy_flat_slice)]"

definition DeepCopy_Pool4 :: copier where
  "DeepCopy_Pool4 = copy_ptr DeepCopyInto_Pool4"

definition DeepCopyInto_Reservation :: copier where
  "DeepCopyInto_Reservation = copy_struct
    [(''IPAddresses'', copy_flat_slice), (''Prefixes'', copy_flat_slice),
     (''OptionData'', copy_slice DeepCopyInto_OptionData), (''ClientClasses'', copy_flat_slice)]"

definition DeepCopy_Reservation :: copier where
  "DeepCopy_Reservation = copy_ptr DeepCopyInto_Reservation"

definition DeepCopyInto_RelayInfo :: copier where
  "DeepCopyInto_RelayInfo = copy_struct
    [(''IPAddresses'', copy_flat_slice)]"

definition DeepCopy_RelayInfo :: copier where
  "DeepCopy_RelayInfo = copy_ptr DeepCopyInto_RelayInfo"

definition DeepCopyInto_Subnet4 :: copier where
  "DeepCopyInto_Subnet4 = copy_struct
    [(''Pools'', copy_slice DeepCopyInto_Pool4), (''OptionData'', copy_slice DeepCopyInto_OptionData),
     (''Reservations'', copy_slice DeepCopyInto_Reservation),
     (''RequireClientClasses'', copy_flat_slice), (''Relay'', copy_ptr DeepCopyInto_RelayInfo),
     (''ValidLifetime'', copy_ptr assign), (''MinValidLifetime'', copy_ptr assign),
     (''MaxValidLifetime'', copy_ptr assign), (''RenewTimer'', copy_ptr assign),
     (''RebindTimer'', copy_ptr assign), (''Authoritative'', copy_ptr assign),
     (''MatchClientID'', copy_ptr assign)]"

definition DeepCopy_Subnet4 :: copier where
  "DeepCopy_Subnet4 = copy_ptr DeepCopyInto_Subnet4"

definition DeepCopyInto_SharedNetwork4 :: copier where
  "DeepCopyInto_SharedNetwork4 = copy_struct
    [(''Subnet4'', copy_slice DeepCopyInto_Subnet4),
     (''OptionData'', copy_slice DeepCopyInto_OptionData),
     (''Relay'', copy_ptr DeepCopyInto_RelayInfo), (''RequireClientClasses'', copy_flat_slice),
     (''ValidLifetime'', copy_ptr assign), (''MinValidLifetime'', copy_ptr assign),
     (''MaxValidLifetime'', copy_ptr assign), (''RenewTimer'', copy_ptr assign),
     (''RebindTimer'', copy_ptr assign), (''Authoritative'', copy_ptr assign)]"

definition DeepCopy_SharedNetwork4 :: copier where
  "DeepCopy_SharedNetwork4 = copy_ptr DeepCopyInto_SharedNetwork4"

definition DeepCopyInto_OptionDef :: copier where
  "DeepCopyInto_OptionDef = copy_struct
    [(''Array'', copy_ptr assign)]"

definition DeepCopy_OptionDef :: copier where
  "DeepCopy_OptionDef = copy_ptr DeepCopyInto_OptionDef"

definition DeepCopyInto_MultiThreadingConfig :: copier where
  "DeepCopyInto_MultiThreadingConfig = copy_struct
    [(''EnableMultiThreading'', copy_ptr assign), (''ThreadPoolSize'', copy_ptr assign),
     (''PacketQueueSize'', copy_ptr assign)]"

definition DeepCopy_MultiThreadingConfig :: copier where
  "DeepCopy_MultiThreadingConfig = copy_ptr DeepCopyInto_MultiThreadingConfig"

definition DeepCopyInto_StorkAgentConfig :: "(string \<Rightarrow> copier) \<Rightarrow> copier" where
  "DeepCopyInto_StorkAgentConfig X = copy_struct
    [(''Resources'', X ''corev1.ResourceRequirements''), (''ServerTokenSecretRef'', copy_ptr assign),
     (''StorkServerRef'', copy_ptr assign), (''Port'', copy_ptr assign),
     (''PrometheusPort'', copy_ptr assign), (''Env'', copy_slice (X ''corev1.EnvVar''))]"

definition DeepCopy_StorkAgentConfig :: "(string \<Rightarrow> copier) \<Rightarrow> copier" where
  "DeepCopy_StorkAgentConfig X = copy_ptr (DeepCopyInto_StorkAgentConfig X)"

definition DeepCopyInto_KeaDhcp4ServerSpec :: "(string \<Rightarrow> copier) \<Rightarrow> copier" where
  "DeepCopyInto_KeaDhcp4ServerSpec X = copy_struct
    [(''Container'', DeepCopyInto_ContainerConfig X), (''Replicas'', copy_ptr assign),
     (''Placement'', copy_ptr (DeepCopyInto_PodPlacement X)), (''HostNetwork'', copy_ptr assign),
     (''InterfacesConfig'', DeepCopyInto_InterfacesConfig),
     (''LeaseDatabase'', copy_ptr DeepCopyInto_DatabaseConfig),
     (''HostsDatabase'', copy_ptr DeepCopyInto_DatabaseConfig),
     (''HostsDatabases'', copy_slice DeepCopyInto_DatabaseConfig),
     (''Subnet4'', copy_slice DeepCopyInto_Subnet4),
     (''SharedNetworks'', copy_slice DeepCopyInto_SharedNetwork4),
     (''OptionData'', copy_slice DeepCopyInto_OptionData),
     (''OptionDef'', copy_slice DeepCopyInto_OptionDef),
     (''ClientClasses'', copy_slice DeepCopyInto_ClientClass),
     (''Reservations'', copy_slice DeepCopyInto_Reservation),
     (''HostReservationIdentifiers'', copy_flat_slice),
     (''HooksLibraries'', copy_slice (DeepCopyInto_HookLibrary X)),
     (''ControlSocket'', copy_ptr DeepCopyInto_ControlSocket),
     (''Loggers'', copy_slice DeepCopyInto_LoggerConfig), (''ValidLifetime'', copy_ptr assign),
     (''MinValidLifetime'', copy_ptr assign), (''MaxValidLifetime'', copy_ptr assign),
     (''RenewTimer'', copy_ptr assign), (''RebindTimer'', copy_ptr assign),
     (''CalculateTeeTimes'', copy_ptr assign), (''T1Percent'', copy_ptr assign),
     (''T2Percent'', copy_ptr assign), (''Authoritative'', copy_ptr assign),
     (''MatchClientID'', copy_ptr assign), (''DDNSSendUpdates'', copy_ptr assign),
     (''DDNSOverrideNoUpdate'', copy_ptr assign), (''DDNSOverrideClientUpdate'', copy_ptr assign),
     (''DDNSUseConflictResolution'', copy_ptr assign),
     (''HighAvailability'', copy_ptr DeepCopyInto_HAConfig),
     (''MultiThreading'', copy_ptr DeepCopyInto_MultiThreadingConfig),
     (''Stork'', copy_ptr (DeepCopyInto_StorkAgentConfig X))]"

definition DeepCopy_KeaDhcp4ServerSpec :: "(string \<Rightarrow> copier) \<Rightarrow> copier" where
  "DeepCopy_KeaDhcp4ServerSpec X = copy_ptr (DeepCopyInto_KeaDhcp4ServerSpec X)"

definition DeepCopyInto_KeaDhcp4ServerStatus :: copier where
  "DeepCopyInto_KeaDhcp4ServerStatus = copy_struct
    [(''ComponentStatus'', DeepCopyInto_ComponentStatus), (''NADAddresses'', copy_flat_slice)]"

definition DeepCopy_KeaDhcp4ServerStatus :: copier where
  "DeepCopy_KeaDhcp4ServerStatus = copy_ptr DeepCopyInto_KeaDhcp4ServerStatus"

definition DeepCopyInto_KeaDhcp4Server :: "(string \<Rightarrow> copier) \<Rightarrow> copier" where
  "DeepCopyInto_KeaDhcp4Server X = copy_struct
    [(''TypeMeta'', assign), (''ObjectMeta'', X ''metav1.ObjectMeta''),
     (''Spec'', DeepCopyInto_KeaDhcp4ServerSpec X), (''Status'', DeepCopyInto_KeaDhcp4ServerStatus)]"

definition DeepCopy_KeaDhcp4Server :: "(string \<Rightarrow> copier) \<Rightarrow> copier" where
  "DeepCopy_KeaDhcp4Server X = copy_ptr (DeepCopyInto_KeaDhcp4Server X)"

definition DeepCopyObject_KeaDhcp4Server :: "(string \<Rightarrow> copier) \<Rightarrow> gval \<Rightarrow> gheap \<Rightarrow> (string \<times> gval) option \<times> gheap" where
  "DeepCopyObject_KeaDhcp4Server X v h = as_object ''KeaDhcp4Server'' (DeepCopy_KeaDhcp4Server X v h)"

definition DeepCopyInto_KeaDhcp4ServerList :: "(string \<Rightarrow> copier) \<Rightarrow> copier" where
  "DeepCopyInto_KeaDhcp4ServerList X = copy_struct
    [(''TypeMeta'', assign), (''ListMeta'', X ''metav1.ListMeta''),
     (''Items'', copy_slice (DeepCopyInto_KeaDhcp4Server X))]"

definition DeepCopy_KeaDhcp4ServerList :: "(string \<Rightarrow> copier) \<Rightarrow> copier" where
  "DeepCopy_KeaDhcp4ServerList X = copy_ptr (DeepCopyInto_KeaDhcp4ServerList X)"

definition DeepCopyObject_KeaDhcp4ServerList :: "(string \<Rightarrow> copier) \<Rightarrow> gval \<Rightarrow> gheap \<Rightarrow> (string \<times> gval) option \<times> gheap" where
  "DeepCopyObject_KeaDhcp4ServerList X v h = as_object ''KeaDhcp4ServerList'' (DeepCopy_KeaDhcp4ServerList X v h)"

definition DeepCopyInto_Pool6 :: copier where
  "DeepCopyInto_Pool6 = copy_struct
    [(''OptionData'', copy_slice DeepCopyInto_OptionData), (''RequireClientClasses'', copy_flat_slice)]"

definition DeepCopy_Pool6 :: copier where
  "DeepCopy_Pool6 = copy_ptr DeepCopyInto_Pool6"

definition DeepCopyInto_PDPool :: copier where
  "DeepCopyInto_PDPool = copy_struct
    [(''ExcludedPrefixLen'', copy_ptr assign), (''OptionData'', copy_slice DeepCopyInto_OptionData)]"

definition DeepCopy_PDPool :: copier where
  "DeepCopy_PDPool = copy_ptr DeepCopyInto_PDPool"

definition DeepCopyInto_Subnet6 :: copier where
  "DeepCopyInto_Subnet6 = copy_struct
    [(''Pools'', copy_slice DeepCopyInto_Pool6), (''PDPools'', copy_slice DeepCopyInto_PDPool),
     (''OptionData'', copy_slice DeepCopyInto_OptionData),
     (''Reservations'', copy_slice DeepCopyInto_Reservation),
     (''RequireClientClasses'', copy_flat_slice), (''Relay'', copy_ptr DeepCopyInto_RelayInfo),
     (''PreferredLifetime'', copy_ptr assign), (''ValidLifetime'', copy_ptr assign),
     (''MinValidLifetime'', copy_ptr assign), (''MaxValidLifetime'', copy_ptr assign),
     (''RenewTimer'', copy_ptr assign), (''RebindTimer'', copy_ptr assign),
     (''RapidCommit'', copy_ptr assign)]"

definition DeepCopy_Subnet6 :: copier where
  "DeepCopy_Subnet6 = copy_ptr DeepCopyInto_Subnet6"

definition DeepCopyInto_SharedNetwork6 :: copier where
  "DeepCopyInto_SharedNetwork6 = copy_struct
    [(''Subnet6'', copy_slice DeepCopyInto_Subnet6),
     (''OptionData'', copy_slice DeepCopyInto_OptionData),
     (''Relay'', copy_ptr DeepCopyInto_RelayInfo), (''PreferredLifetime'', copy_ptr assign),
     (''ValidLifetime'', copy_ptr assign), (''RenewTimer'', copy_ptr assign),
     (''RebindTimer'', copy_ptr assign), (''RapidCommit'', copy_ptr assign)]"

definition DeepCopy_SharedNetwork6 :: copier where
  "DeepCopy_SharedNetwork6 = copy_ptr DeepCopyInto_SharedNetwork6"

definition DeepCopyInto_KeaDhcp6ServerSpec :: "(string \<Rightarrow> copier) \<Rightarrow> copier" where
  "DeepCopyInto_KeaDhcp6ServerSpec X = copy_struct
    [(''Container'', DeepCopyInto_ContainerConfig X), (''Replicas'', copy_ptr assign),
     (''Placement'', copy_ptr (DeepCopyInto_PodPlacement X)), (''HostNetwork'', copy_ptr assign),
     (''InterfacesConfig'', DeepCopyInto_InterfacesConfig),
     (''LeaseDatabase'', copy_ptr DeepCopyInto_DatabaseConfig),
     (''HostsDatabase'', copy_ptr DeepCopyInto_DatabaseConfig),
     (''HostsDatabases'', copy_slice DeepCopyInto_DatabaseConfig),
     (''Subnet6'', copy_slice DeepCopyInto_Subnet6),
     (''SharedNetworks'', copy_slice DeepCopyInto_SharedNetwork6),
     (''OptionData'', copy_slice DeepCopyInto_OptionData),
     (''OptionDef'', copy_slice DeepCopyInto_OptionDef),
     (''ClientClasses'', copy_slice DeepCopyInto_ClientClass),
     (''Reservations'', copy_slice DeepCopyInto_Reservation),
     (''HostReservationIdentifiers'', copy_flat_slice),
     (''HooksLibraries'', copy_slice (DeepCopyInto_HookLibrary X)),
     (''ControlSocket'', copy_ptr DeepCopyInto_ControlSocket),
     (''Loggers'', copy_slice DeepCopyInto_LoggerConfig), (''PreferredLifetime'', copy_ptr assign),
     (''ValidLifetime'', copy_ptr assign), (''MinValidLifetime'', copy_ptr assign),
     (''MaxValidLifetime'', copy_ptr assign), (''RenewTimer'', copy_ptr assign),
     (''RebindTimer'', copy_ptr assign), (''CalculateTeeTimes'', copy_ptr assign),
     (''T1Percent'', copy_ptr assign), (''T2Percent'', copy_ptr assign),
     (''RapidCommit'', copy_ptr assign), (''DDNSSendUpdates'', copy_ptr assign),
     (''HighAvailability'', copy_ptr DeepCopyInto_HAConfig),
     (''MultiThreading'', copy_ptr DeepCopyInto_MultiThreadingConfig),
     (''Stork'', copy_ptr (DeepCopyInto_StorkAgentConfig X))]"

definition DeepCopy_KeaDhcp6ServerSpec :: "(string \<Rightarrow> copier) \<Rightarrow> copier" where
  "DeepCopy_KeaDhcp6ServerSpec X = copy_ptr (DeepCopyInto_KeaDhcp6ServerSpec X)"

definition DeepCopyInto_KeaDhcp6ServerStatus :: copier where
  "DeepCopyInto_KeaDhcp6ServerStatus = copy_struct
    [(''ComponentStatus'', DeepCopyInto_ComponentStatus)]"

definition DeepCopy_KeaDhcp6ServerStatus :: copier where
  "DeepCopy_KeaDhcp6ServerStatus = copy_ptr DeepCopyInto_KeaDhcp6ServerStatus"

definition DeepCopyInto_KeaDhcp6Server :: "(string \<Rightarrow> copier) \<Rightarrow> copier" where
  "DeepCopyInto_KeaDhcp6Server X = copy_struct
    [(''TypeMeta'', assign), (''ObjectMeta'', X ''metav1.ObjectMeta''),
     (''Spec'', DeepCopyInto_KeaDhcp6ServerSpec X), (''Status'', DeepCopyInto_KeaDhcp6ServerStatus)]"

definition DeepCopy_KeaDhcp6Server :: "(string \<Rightarrow> copier) \<Rightarrow> copier" where
  "DeepCopy_KeaDhcp6Server X = copy_ptr (DeepCopyInto_KeaDhcp6Server X)"

definition DeepCopyObject_KeaDhcp6Server :: "(string \<Rightarrow> copier) \<Rightarrow> gval \<Rightarrow> gheap \<Rightarrow> (string \<times> gval) option \<times> gheap" where
  "DeepCopyObject_KeaDhcp6Server X v h = as_object ''KeaDhcp6Server'' (DeepCopy_KeaDhcp6Server X v h)"

definition DeepCopyInto_KeaDhcp6ServerList :: "(string \<Rightarrow> copier) \<Rightarrow> copier" where
  "DeepCopyInto_KeaDhcp6ServerList X = copy_struct
    [(''TypeMeta'', assign), (''ListMeta'', X ''metav1.ListMeta''),
     (''Items'', copy_slice (DeepCopyInto_KeaDhcp6Server X))]"

definition DeepCopy_KeaDhcp6ServerList :: "(string \<Rightarrow> copier) \<Rightarrow> copier" where
  "DeepCopy_KeaDhcp6ServerList X = copy_ptr (DeepCopyInto_KeaDhcp6ServerList X)"

definition DeepCopyObject_KeaDhcp6ServerList :: "(string \<Rightarrow> copier) \<Rightarrow> gval \<Rightarrow> gheap \<Rightarrow> (string \<times> gval) option \<times> gheap" where
  "DeepCopyObject_KeaDhcp6ServerList X v h = as_object ''KeaDhcp6ServerList'' (DeepCopy_KeaDhcp6ServerList X v h)"

definition DeepCopyInto_TSIGKey :: "(string \<Rightarrow> copier) \<Rightarrow> copier" where
  "DeepCopyInto_TSIGKey X = copy_struct
    [(''DigestBits'', copy_ptr assign), (''SecretRef'', copy_ptr (X ''corev1.SecretKeySelector''))]"

definition DeepCopy_TSIGKey :: "(string \<Rightarrow> copier) \<Rightarrow> copier" where
  "DeepCopy_TSIGKey X = copy_ptr (DeepCopyInto_TSIGKey X)"

definition DeepCopyInto_KeaDhcpDdnsSpec :: "(string \<Rightarrow> copier) \<Rightarrow> copier" where
  "DeepCopyInto_KeaDhcpDdnsSpec X = copy_struct
    [(''Container'', DeepCopyInto_ContainerConfig X), (''Replicas'', copy_ptr assign),
     (''Placement'', copy_ptr (DeepCopyInto_PodPlacement X)), (''Port'', copy_ptr assign),
     (''DNSServerTimeout'', copy_ptr assign), (''TSIGKeys'', copy_slice (DeepCopyInto_TSIGKey X)),
     (''ForwardDDNS'', copy_ptr DeepCopyInto_DDNSConfig),
     (''ReverseDDNS'', copy_ptr DeepCopyInto_DDNSConfig),
     (''ControlSocket'', copy_ptr DeepCopyInto_ControlSocket),
     (''HooksLibraries'', copy_slice (DeepCopyInto_HookLibrary X)),
     (''Loggers'', copy_slice DeepCopyInto_LoggerConfig)]"

definition DeepCopy_KeaDhcpDdnsSpec :: "(string \<Rightarrow> copier) \<Rightarrow> copier" where
  "DeepCopy_KeaDhcpDdnsSpec X = copy_ptr (DeepCopyInto_KeaDhcpDdnsSpec X)"

definition DeepCopyInto_KeaDhcpDdnsStatus :: copier where
  "DeepCopyInto_KeaDhcpDdnsStatus = copy_struct
    [(''ComponentStatus'', DeepCopyInto_ComponentStatus)]"

definition DeepCopy_KeaDhcpDdnsStatus :: copier where
  "DeepCopy_KeaDhcpDdnsStatus = copy_ptr DeepCopyInto_KeaDhcpDdnsStatus"

definition DeepCopyInto_KeaDhcpDdns :: "(string \<Rightarrow> copier) \<Rightarrow> copier" where
  "DeepCopyInto_KeaDhcpDdns X = copy_struct
    [(''TypeMeta'', assign), (''ObjectMeta'', X ''metav1.ObjectMeta''),
     (''Spec'', DeepCopyInto_KeaDhcpDdnsSpec X), (''Status'', DeepCopyInto_KeaDhcpDdnsStatus)]"

definition DeepCopy_KeaDhcpDdns :: "(string \<Rightarrow> copier) \<Rightarrow> copier" where
  "DeepCopy_KeaDhcpDdns X = copy_ptr (DeepCopyInto_KeaDhcpDdns X)"

definition DeepCopyObject_KeaDhcpDdns :: "(string \<Rightarrow> copier) \<Rightarrow> gval \<Rightarrow> gheap \<Rightarrow> (string \<times> gval) option \<times> gheap" where
  "DeepCopyObject_KeaDhcpDdns X v h = as_object ''KeaDhcpDdns'' (DeepCopy_KeaDhcpDdns X v h)"

definition DeepCopyInto_KeaDhcpDdnsList :: "(string \<Rightarrow> copier) \<Rightarrow> copier" where
  "DeepCopyInto_KeaDhcpDdnsList X = copy_struct
    [(''TypeMeta'', assign), (''ListMeta'', X ''metav1.ListMeta''),
     (''Items'', copy_slice (DeepCopyInto_KeaDhcpDdns X))]"

definition DeepCopy_KeaDhcpDdnsList :: "(string \<Rightarrow> copier) \<Rightarrow> copier" where
  "DeepCopy_KeaDhcpDdnsList X = copy_ptr (DeepCopyInto_KeaDhcpDdnsList X)"

definition DeepCopyObject_KeaDhcpDdnsList :: "(string \<Rightarrow> copier) \<Rightarrow> gval \<Rightarrow> gheap \<Rightarrow> (string \<times> gval) option \<times> gheap" where
  "DeepCopyObject_KeaDhcpDdnsList X v h = as_object ''KeaDhcpDdnsList'' (DeepCopy_KeaDhcpDdnsList X v h)"

definition DeepCopyInto_StorkServerDatabase :: copier where
  "DeepCopyInto_StorkServerDatabase = copy_struct
    [(''Port'', copy_ptr assign), (''CredentialsSecretRef'', assign)]"

definition DeepCopy_StorkServerDatabase :: copier where
  "DeepCopy_StorkServerDatabase = copy_ptr DeepCopyInto_StorkServerDatabase"

definition DeepCopyInto_KeaStorkServerSpec :: "(string \<Rightarrow> copier) \<Rightarrow> copier" where
  "DeepCopyInto_KeaStorkServerSpec X = copy_struct
    [(''Container'', DeepCopyInto_ContainerConfig X), (''Replicas'', copy_ptr assign),
     (''Database'', DeepCopyInto_StorkServerDatabase), (''Port'', copy_ptr assign),
     (''EnableMetrics'', copy_ptr assign), (''Placement'', copy_ptr (DeepCopyInto_PodPlacement X))]"

definition DeepCopy_KeaStorkServerSpec :: "(string \<Rightarrow> copier) \<Rightarrow> copier" where
  "DeepCopy_KeaStorkServerSpec X = copy_ptr (DeepCopyInto_KeaStorkServerSpec X)"

definition DeepCopyInto_KeaServerSpec :: "(string \<Rightarrow> copier) \<Rightarrow> copier" where
  "DeepCopyInto_KeaServerSpec X = copy_struct
    [(''Dhcp4'', copy_ptr (DeepCopyInto_KeaDhcp4ServerSpec X)),
     (''Dhcp6'', copy_ptr (DeepCopyInto_KeaDhcp6ServerSpec X)),
     (''ControlAgent'', copy_ptr (DeepCopyInto_KeaControlAgentSpec X)),
     (''DhcpDdns'', copy_ptr (DeepCopyInto_KeaDhcpDdnsSpec X)),
     (''StorkServer'', copy_ptr (DeepCopyInto_KeaStorkServerSpec X))]"

definition DeepCopy_KeaServerSpec :: "(string \<Rightarrow> copier) \<Rightarrow> copier" where
  "DeepCopy_KeaServerSpec X = copy_ptr (DeepCopyInto_KeaServerSpec X)"

definition DeepCopyInto_KeaServerStatus :: copier where
  "DeepCopyInto_KeaServerStatus = copy_struct
    [(''Conditions'', copy_flat_slice)]"

definition DeepCopy_KeaServerStatus :: copier where
  "DeepCopy_KeaServerStatus = copy_ptr DeepCopyInto_KeaServerStatus"

definition DeepCopyInto_KeaServer :: "(string \<Rightarrow> copier) \<Rightarrow> copier" where
  "DeepCopyInto_KeaServer X = copy_struct
    [(''TypeMeta'', assign), (''ObjectMeta'', X ''metav1.ObjectMeta''),
     (''Spec'', DeepCopyInto_KeaServerSpec X), (''Status'', DeepCopyInto_KeaServerStatus)]"

definition DeepCopy_KeaServer :: "(string \<Rightarrow> copier) \<Rightarrow> copier" where
  "DeepCopy_KeaServer X = copy_ptr (DeepCopyInto_KeaServer X)"

definition DeepCopyObject_KeaServer :: "(string \<Rightarrow> copier) \<Rightarrow> gval \<Rightarrow> gheap \<Rightarrow> (string \<times> gval) option \<times> gheap" where
  "DeepCopyObject_KeaServer X v h = as_object ''KeaServer'' (DeepCopy_KeaServer X v h)"

definition DeepCopyInto_KeaServerList :: "(string \<Rightarrow> copier) \<Rightarrow> copier" where
  "DeepCopyInto_KeaServerList X = copy_struct
    [(''TypeMeta'', assign), (''ListMeta'', X ''metav1.ListMeta''),
     (''Items'', copy_slice (DeepCopyInto_KeaServer X))]"

definition DeepCopy_KeaServerList :: "(string \<Rightarrow> copier) \<Rightarrow> copier" where
  "DeepCopy_KeaServerList X = copy_ptr (DeepCopyInto_KeaServerList X)"

definition DeepCopyObject_KeaServerList :: "(string \<Rightarrow> copier) \<Rightarrow> gval \<Rightarrow> gheap \<Rightarrow> (string \<times> gval) option \<times> gheap" where
  "DeepCopyObject_KeaServerList X v h = as_object ''KeaServerList'' (DeepCopy_KeaServerList X v h)"

definition DeepCopyInto_KeaStorkServerStatus :: copier where
  "DeepCopyInto_KeaStorkServerStatus = copy_struct
    [(''ComponentStatus'', DeepCopyInto_ComponentStatus)]"

definition DeepCopy_KeaStorkServerStatus :: copier where
  "DeepCopy_KeaStorkServerStatus = copy_ptr DeepCopyInto_KeaStorkServerStatus"

definition DeepCopyInto_KeaStorkServer :: "(string \<Rightarrow> copier) \<Rightarrow> copier" where
  "DeepCopyInto_KeaStorkServer X = copy_struct
    [(''TypeMeta'', assign), (''ObjectMeta'', X ''metav1.ObjectMeta''),
     (''Spec'', DeepCopyInto_KeaStorkServerSpec X), (''Status'', DeepCopyInto_KeaStorkServerStatus)]"

definition DeepCopy_KeaStorkServer :: "(string \<Rightarrow> copier) \<Rightarrow> copier" where
  "DeepCopy_KeaStorkServer X = copy_ptr (DeepCopyInto_KeaStorkServer X)"

definition DeepCopyObject_KeaStorkServer :: "(string \<Rightarrow> copier) \<Rightarrow> gval \<Rightarrow> gheap \<Rightarrow> (string \<times> gval) option \<times> gheap" where
  "DeepCopyObject_KeaStorkServer X v h = as_object ''KeaStorkServer'' (DeepCopy_KeaStorkServer X v h)"

definition DeepCopyInto_KeaStorkServerList :: "(string \<Rightarrow> copier) \<Rightarrow> copier" where
  "DeepCopyInto_KeaStorkServerList X = copy_struct
    [(''TypeMeta'', assign), (''ListMeta'', X ''metav1.ListMeta''),
     (''Items'', copy_slice (DeepCopyInto_KeaStorkServer X))]"

definition DeepCopy_KeaStorkServerList :: "(string \<Rightarrow> copier) \<Rightarrow> copier" where
  "DeepCopy_KeaStorkServerList X = copy_ptr (DeepCopyInto_KeaStorkServerList X)"

definition DeepCopyObject_KeaStorkServerList :: "(string \<Rightarrow> copier) \<Rightarrow> gval \<Rightarrow> gheap \<Rightarrow> (string \<times> gval) option \<times> gheap" where
  "DeepCopyObject_KeaStorkServerList X v h = as_object ''KeaStorkServerList'' (DeepCopy_KeaStorkServerList X v h)"

text \<open>All of them: each declared type with its \<^verbatim>\<open>DeepCopyInto\<close>, and each root kind with its
  \<^verbatim>\<open>DeepCopyObject\<close>.\<close>

definition api_copiers :: "(string \<Rightarrow> copier) \<Rightarrow> (goty \<times> copier) list" where
  "api_copiers X =
    [(ty_ControlSocket, DeepCopyInto_ControlSocket),
     (ty_AgentControlSockets, DeepCopyInto_AgentControlSockets),
     (ty_AuthClient, DeepCopyInto_AuthClient X), (ty_AuthConfig, DeepCopyInto_AuthConfig X),
     (ty_OptionData, DeepCopyInto_OptionData), (ty_ClientClass, DeepCopyInto_ClientClass),
     (ty_ConditionStatus, DeepCopyInto_ConditionStatus),
     (ty_ComponentStatus, DeepCopyInto_ComponentStatus),
     (ty_ContainerConfig, DeepCopyInto_ContainerConfig X), (ty_DNSServer, DeepCopyInto_DNSServer),
     (ty_DDNSDomain, DeepCopyInto_DDNSDomain), (ty_DDNSConfig, DeepCopyInto_DDNSConfig),
     (ty_DatabaseConfig, DeepCopyInto_DatabaseConfig), (ty_HAPeer, DeepCopyInto_HAPeer),
     (ty_TLSConfig, DeepCopyInto_TLSConfig), (ty_HAMultiThreading, DeepCopyInto_HAMultiThreading),
     (ty_HAConfig, DeepCopyInto_HAConfig), (ty_HookLibrary, DeepCopyInto_HookLibrary X),
     (ty_InterfacesConfig, DeepCopyInto_InterfacesConfig),
     (ty_PodPlacement, DeepCopyInto_PodPlacement X),
     (ty_LogOutputOption, DeepCopyInto_LogOutputOption), (ty_LoggerConfig, DeepCopyInto_LoggerConfig),
     (ty_KeaControlAgentSpec, DeepCopyInto_KeaControlAgentSpec X),
     (ty_KeaControlAgentStatus, DeepCopyInto_KeaControlAgentStatus),
     (ty_KeaControlAgent, DeepCopyInto_KeaControlAgent X),
     (ty_KeaControlAgentList, DeepCopyInto_KeaControlAgentList X), (ty_Pool4, DeepCopyInto_Pool4),
     (ty_Reservation, DeepCopyInto_Reservation), (ty_RelayInfo, DeepCopyInto_RelayInfo),
     (ty_Subnet4, DeepCopyInto_Subnet4), (ty_SharedNetwork4, DeepCopyInto_SharedNetwork4),
     (ty_OptionDef, DeepCopyInto_OptionDef),
     (ty_MultiThreadingConfig, DeepCopyInto_MultiThreadingConfig),
     (ty_StorkAgentConfig, DeepCopyInto_StorkAgentConfig X),
     (ty_KeaDhcp4ServerSpec, DeepCopyInto_KeaDhcp4ServerSpec X),
     (ty_KeaDhcp4ServerStatus, DeepCopyInto_KeaDhcp4ServerStatus),
     (ty_KeaDhcp4Server, DeepCopyInto_KeaDhcp4Server X),
     (ty_KeaDhcp4ServerList, DeepCopyInto_KeaDhcp4ServerList X), (ty_Pool6, DeepCopyInto_Pool6),
     (ty_PDPool, DeepCopyInto_PDPool), (ty_Subnet6, DeepCopyInto_Subnet6),
     (ty_SharedNetwork6, DeepCopyInto_SharedNetwork6),
     (ty_KeaDhcp6ServerSpec, DeepCopyInto_KeaDhcp6ServerSpec X),
     (ty_KeaDhcp6ServerStatus, DeepCopyInto_KeaDhcp6ServerStatus),
     (ty_KeaDhcp6Server, DeepCopyInto_KeaDhcp6Server X),
     (ty_KeaDhcp6ServerList, DeepCopyInto_KeaDhcp6ServerList X), (ty_TSIGKey, DeepCopyInto_TSIGKey X),
     (ty_KeaDhcpDdnsSpec, DeepCopyInto_KeaDhcpDdnsSpec X),
     (ty_KeaDhcpDdnsStatus, DeepCopyInto_KeaDhcpDdnsStatus),
     (ty_KeaDhcpDdns, DeepCopyInto_KeaDhcpDdns X),
     (ty_KeaDhcpDdnsList, DeepCopyInto_KeaDhcpDdnsList X),
     (ty_StorkServerDatabase, DeepCopyInto_StorkServerDatabase),
     (ty_KeaStorkServerSpec, DeepCopyInto_KeaStorkServerSpec X),
     (ty_KeaServerSpec, DeepCopyInto_KeaServerSpec X),
     (ty_KeaServerStatus, DeepCopyInto_KeaServerStatus), (ty_KeaServer, DeepCopyInto_KeaServer X),
     (ty_KeaServerList, DeepCopyInto_KeaServerList X),
     (ty_KeaStorkServerStatus, DeepCopyInto_KeaStorkServerStatus),
     (ty_KeaStorkServer, DeepCopyInto_KeaStorkServer X),
     (ty_KeaStorkServerList, DeepCopyInto_KeaStorkServerList X)]"

definition api_objects ::
  "(string \<Rightarrow> copier) \<Rightarrow> (goty \<times> (gval \<Rightarrow> gheap \<Rightarrow> (string \<times> gval) option \<times> gheap)) list" where
  "api_objects X =
    [(ty_KeaControlAgent, DeepCopyObject_KeaControlAgent X),
     (ty_KeaControlAgentList, DeepCopyObject_KeaControlAgentList X),
     (ty_KeaDhcp4Server, DeepCopyObject_KeaDhcp4Server X),
     (ty_KeaDhcp4ServerList, DeepCopyObject_KeaDhcp4ServerList X),
     (ty_KeaDhcp6Server, DeepCopyObject_KeaDhcp6Server X),
     (ty_KeaDhcp6ServerList, DeepCopyObject_KeaDhcp6ServerList X),
     (ty_KeaDhcpDdns, DeepCopyObject_KeaDhcpDdns X),
     (ty_KeaDhcpDdnsList, DeepCopyObject_KeaDhcpDdnsList X),
     (ty_KeaServer, DeepCopyObject_KeaServer X), (ty_KeaServerList, DeepCopyObject_KeaServerList X),
     (ty_KeaStorkServer, DeepCopyObject_KeaStorkServer X),
     (ty_KeaStorkServerList, DeepCopyObject_KeaStorkServerList X)]"

section \<open>Every routine copies its type deeply\<close>

named_theorems copy_rules \<open>which statement copies which type deeply\<close>

declare deep_copies_assign [copy_rules] deep_copies_ptr [copy_rules] deep_copies_slice [copy_rules]
  deep_copies_flat_slice [copy_rules] deep_copies_map [copy_rules] deep_copies_ext [copy_rules]
  ext_law_local [copy_rules]

lemma flat_ConditionStatus [simp]: "flat ty_ConditionStatus"
  by (simp add: ty_ConditionStatus_def)

lemma deep_copies_ControlSocket [copy_rules]: "ext_local L \<Longrightarrow> deep_copies L ty_ControlSocket DeepCopyInto_ControlSocket"
  unfolding ty_ControlSocket_def DeepCopyInto_ControlSocket_def
  by (rule deep_copies_struct) (simp_all add: copy_rules)

lemma deep_copies_AgentControlSockets [copy_rules]: "ext_local L \<Longrightarrow> deep_copies L ty_AgentControlSockets DeepCopyInto_AgentControlSockets"
  unfolding ty_AgentControlSockets_def DeepCopyInto_AgentControlSockets_def
  by (rule deep_copies_struct) (simp_all add: copy_rules)

lemma deep_copies_AuthClient [copy_rules]: "ext_law L X \<Longrightarrow> deep_copies L ty_AuthClient (DeepCopyInto_AuthClient X)"
  unfolding ty_AuthClient_def DeepCopyInto_AuthClient_def
  by (rule deep_copies_struct [OF ext_law_local]) (simp_all add: copy_rules)

lemma deep_copies_AuthConfig [copy_rules]: "ext_law L X \<Longrightarrow> deep_copies L ty_AuthConfig (DeepCopyInto_AuthConfig X)"
  unfolding ty_AuthConfig_def DeepCopyInto_AuthConfig_def
  by (rule deep_copies_struct [OF ext_law_local]) (simp_all add: copy_rules)

lemma deep_copies_OptionData [copy_rules]: "ext_local L \<Longrightarrow> deep_copies L ty_OptionData DeepCopyInto_OptionData"
  unfolding ty_OptionData_def DeepCopyInto_OptionData_def
  by (rule deep_copies_struct) (simp_all add: copy_rules)

lemma deep_copies_ClientClass [copy_rules]: "ext_local L \<Longrightarrow> deep_copies L ty_ClientClass DeepCopyInto_ClientClass"
  unfolding ty_ClientClass_def DeepCopyInto_ClientClass_def
  by (rule deep_copies_struct) (simp_all add: copy_rules)

lemma deep_copies_ConditionStatus [copy_rules]: "ext_local L \<Longrightarrow> deep_copies L ty_ConditionStatus DeepCopyInto_ConditionStatus"
  unfolding ty_ConditionStatus_def DeepCopyInto_ConditionStatus_def
  by (rule deep_copies_struct) (simp_all add: copy_rules)

lemma deep_copies_ComponentStatus [copy_rules]: "ext_local L \<Longrightarrow> deep_copies L ty_ComponentStatus DeepCopyInto_ComponentStatus"
  unfolding ty_ComponentStatus_def DeepCopyInto_ComponentStatus_def
  by (rule deep_copies_struct) (simp_all add: copy_rules)

lemma deep_copies_ContainerConfig [copy_rules]: "ext_law L X \<Longrightarrow> deep_copies L ty_ContainerConfig (DeepCopyInto_ContainerConfig X)"
  unfolding ty_ContainerConfig_def DeepCopyInto_ContainerConfig_def
  by (rule deep_copies_struct [OF ext_law_local]) (simp_all add: copy_rules)

lemma deep_copies_DNSServer [copy_rules]: "ext_local L \<Longrightarrow> deep_copies L ty_DNSServer DeepCopyInto_DNSServer"
  unfolding ty_DNSServer_def DeepCopyInto_DNSServer_def
  by (rule deep_copies_struct) (simp_all add: copy_rules)

lemma deep_copies_DDNSDomain [copy_rules]: "ext_local L \<Longrightarrow> deep_copies L ty_DDNSDomain DeepCopyInto_DDNSDomain"
  unfolding ty_DDNSDomain_def DeepCopyInto_DDNSDomain_def
  by (rule deep_copies_struct) (simp_all add: copy_rules)

lemma deep_copies_DDNSConfig [copy_rules]: "ext_local L \<Longrightarrow> deep_copies L ty_DDNSConfig DeepCopyInto_DDNSConfig"
  unfolding ty_DDNSConfig_def DeepCopyInto_DDNSConfig_def
  by (rule deep_copies_struct) (simp_all add: copy_rules)

lemma deep_copies_DatabaseConfig [copy_rules]: "ext_local L \<Longrightarrow> deep_copies L ty_DatabaseConfig DeepCopyInto_DatabaseConfig"
  unfolding ty_DatabaseConfig_def DeepCopyInto_DatabaseConfig_def
  by (rule deep_copies_struct) (simp_all add: copy_rules)

lemma deep_copies_HAPeer [copy_rules]: "ext_local L \<Longrightarrow> deep_copies L ty_HAPeer DeepCopyInto_HAPeer"
  unfolding ty_HAPeer_def DeepCopyInto_HAPeer_def
  by (rule deep_copies_struct) (simp_all add: copy_rules)

lemma deep_copies_TLSConfig [copy_rules]: "ext_local L \<Longrightarrow> deep_copies L ty_TLSConfig DeepCopyInto_TLSConfig"
  unfolding ty_TLSConfig_def DeepCopyInto_TLSConfig_def
  by (rule deep_copies_struct) (simp_all add: copy_rules)

lemma deep_copies_HAMultiThreading [copy_rules]: "ext_local L \<Longrightarrow> deep_copies L ty_HAMultiThreading DeepCopyInto_HAMultiThreading"
  unfolding ty_HAMultiThreading_def DeepCopyInto_HAMultiThreading_def
  by (rule deep_copies_struct) (simp_all add: copy_rules)

lemma deep_copies_HAConfig [copy_rules]: "ext_local L \<Longrightarrow> deep_copies L ty_HAConfig DeepCopyInto_HAConfig"
  unfolding ty_HAConfig_def DeepCopyInto_HAConfig_def
  by (rule deep_copies_struct) (simp_all add: copy_rules)

lemma deep_copies_HookLibrary [copy_rules]: "ext_law L X \<Longrightarrow> deep_copies L ty_HookLibrary (DeepCopyInto_HookLibrary X)"
  unfolding ty_HookLibrary_def DeepCopyInto_HookLibrary_def
  by (rule deep_copies_struct [OF ext_law_local]) (simp_all add: copy_rules)

lemma deep_copies_InterfacesConfig [copy_rules]: "ext_local L \<Longrightarrow> deep_copies L ty_InterfacesConfig DeepCopyInto_InterfacesConfig"
  unfolding ty_InterfacesConfig_def DeepCopyInto_InterfacesConfig_def
  by (rule deep_copies_struct) (simp_all add: copy_rules)

lemma deep_copies_PodPlacement [copy_rules]: "ext_law L X \<Longrightarrow> deep_copies L ty_PodPlacement (DeepCopyInto_PodPlacement X)"
  unfolding ty_PodPlacement_def DeepCopyInto_PodPlacement_def
  by (rule deep_copies_struct [OF ext_law_local]) (simp_all add: copy_rules)

lemma deep_copies_LogOutputOption [copy_rules]: "ext_local L \<Longrightarrow> deep_copies L ty_LogOutputOption DeepCopyInto_LogOutputOption"
  unfolding ty_LogOutputOption_def DeepCopyInto_LogOutputOption_def
  by (rule deep_copies_struct) (simp_all add: copy_rules)

lemma deep_copies_LoggerConfig [copy_rules]: "ext_local L \<Longrightarrow> deep_copies L ty_LoggerConfig DeepCopyInto_LoggerConfig"
  unfolding ty_LoggerConfig_def DeepCopyInto_LoggerConfig_def
  by (rule deep_copies_struct) (simp_all add: copy_rules)

lemma deep_copies_KeaControlAgentSpec [copy_rules]: "ext_law L X \<Longrightarrow> deep_copies L ty_KeaControlAgentSpec (DeepCopyInto_KeaControlAgentSpec X)"
  unfolding ty_KeaControlAgentSpec_def DeepCopyInto_KeaControlAgentSpec_def
  by (rule deep_copies_struct [OF ext_law_local]) (simp_all add: copy_rules)

lemma deep_copies_KeaControlAgentStatus [copy_rules]: "ext_local L \<Longrightarrow> deep_copies L ty_KeaControlAgentStatus DeepCopyInto_KeaControlAgentStatus"
  unfolding ty_KeaControlAgentStatus_def DeepCopyInto_KeaControlAgentStatus_def
  by (rule deep_copies_struct) (simp_all add: copy_rules)

lemma deep_copies_KeaControlAgent [copy_rules]: "ext_law L X \<Longrightarrow> deep_copies L ty_KeaControlAgent (DeepCopyInto_KeaControlAgent X)"
  unfolding ty_KeaControlAgent_def DeepCopyInto_KeaControlAgent_def
  by (rule deep_copies_struct [OF ext_law_local]) (simp_all add: copy_rules)

lemma deep_copies_KeaControlAgentList [copy_rules]: "ext_law L X \<Longrightarrow> deep_copies L ty_KeaControlAgentList (DeepCopyInto_KeaControlAgentList X)"
  unfolding ty_KeaControlAgentList_def DeepCopyInto_KeaControlAgentList_def
  by (rule deep_copies_struct [OF ext_law_local]) (simp_all add: copy_rules)

lemma deep_copies_Pool4 [copy_rules]: "ext_local L \<Longrightarrow> deep_copies L ty_Pool4 DeepCopyInto_Pool4"
  unfolding ty_Pool4_def DeepCopyInto_Pool4_def
  by (rule deep_copies_struct) (simp_all add: copy_rules)

lemma deep_copies_Reservation [copy_rules]: "ext_local L \<Longrightarrow> deep_copies L ty_Reservation DeepCopyInto_Reservation"
  unfolding ty_Reservation_def DeepCopyInto_Reservation_def
  by (rule deep_copies_struct) (simp_all add: copy_rules)

lemma deep_copies_RelayInfo [copy_rules]: "ext_local L \<Longrightarrow> deep_copies L ty_RelayInfo DeepCopyInto_RelayInfo"
  unfolding ty_RelayInfo_def DeepCopyInto_RelayInfo_def
  by (rule deep_copies_struct) (simp_all add: copy_rules)

lemma deep_copies_Subnet4 [copy_rules]: "ext_local L \<Longrightarrow> deep_copies L ty_Subnet4 DeepCopyInto_Subnet4"
  unfolding ty_Subnet4_def DeepCopyInto_Subnet4_def
  by (rule deep_copies_struct) (simp_all add: copy_rules)

lemma deep_copies_SharedNetwork4 [copy_rules]: "ext_local L \<Longrightarrow> deep_copies L ty_SharedNetwork4 DeepCopyInto_SharedNetwork4"
  unfolding ty_SharedNetwork4_def DeepCopyInto_SharedNetwork4_def
  by (rule deep_copies_struct) (simp_all add: copy_rules)

lemma deep_copies_OptionDef [copy_rules]: "ext_local L \<Longrightarrow> deep_copies L ty_OptionDef DeepCopyInto_OptionDef"
  unfolding ty_OptionDef_def DeepCopyInto_OptionDef_def
  by (rule deep_copies_struct) (simp_all add: copy_rules)

lemma deep_copies_MultiThreadingConfig [copy_rules]: "ext_local L \<Longrightarrow> deep_copies L ty_MultiThreadingConfig DeepCopyInto_MultiThreadingConfig"
  unfolding ty_MultiThreadingConfig_def DeepCopyInto_MultiThreadingConfig_def
  by (rule deep_copies_struct) (simp_all add: copy_rules)

lemma deep_copies_StorkAgentConfig [copy_rules]: "ext_law L X \<Longrightarrow> deep_copies L ty_StorkAgentConfig (DeepCopyInto_StorkAgentConfig X)"
  unfolding ty_StorkAgentConfig_def DeepCopyInto_StorkAgentConfig_def
  by (rule deep_copies_struct [OF ext_law_local]) (simp_all add: copy_rules)

lemma deep_copies_KeaDhcp4ServerSpec [copy_rules]: "ext_law L X \<Longrightarrow> deep_copies L ty_KeaDhcp4ServerSpec (DeepCopyInto_KeaDhcp4ServerSpec X)"
  unfolding ty_KeaDhcp4ServerSpec_def DeepCopyInto_KeaDhcp4ServerSpec_def
  by (rule deep_copies_struct [OF ext_law_local]) (simp_all add: copy_rules)

lemma deep_copies_KeaDhcp4ServerStatus [copy_rules]: "ext_local L \<Longrightarrow> deep_copies L ty_KeaDhcp4ServerStatus DeepCopyInto_KeaDhcp4ServerStatus"
  unfolding ty_KeaDhcp4ServerStatus_def DeepCopyInto_KeaDhcp4ServerStatus_def
  by (rule deep_copies_struct) (simp_all add: copy_rules)

lemma deep_copies_KeaDhcp4Server [copy_rules]: "ext_law L X \<Longrightarrow> deep_copies L ty_KeaDhcp4Server (DeepCopyInto_KeaDhcp4Server X)"
  unfolding ty_KeaDhcp4Server_def DeepCopyInto_KeaDhcp4Server_def
  by (rule deep_copies_struct [OF ext_law_local]) (simp_all add: copy_rules)

lemma deep_copies_KeaDhcp4ServerList [copy_rules]: "ext_law L X \<Longrightarrow> deep_copies L ty_KeaDhcp4ServerList (DeepCopyInto_KeaDhcp4ServerList X)"
  unfolding ty_KeaDhcp4ServerList_def DeepCopyInto_KeaDhcp4ServerList_def
  by (rule deep_copies_struct [OF ext_law_local]) (simp_all add: copy_rules)

lemma deep_copies_Pool6 [copy_rules]: "ext_local L \<Longrightarrow> deep_copies L ty_Pool6 DeepCopyInto_Pool6"
  unfolding ty_Pool6_def DeepCopyInto_Pool6_def
  by (rule deep_copies_struct) (simp_all add: copy_rules)

lemma deep_copies_PDPool [copy_rules]: "ext_local L \<Longrightarrow> deep_copies L ty_PDPool DeepCopyInto_PDPool"
  unfolding ty_PDPool_def DeepCopyInto_PDPool_def
  by (rule deep_copies_struct) (simp_all add: copy_rules)

lemma deep_copies_Subnet6 [copy_rules]: "ext_local L \<Longrightarrow> deep_copies L ty_Subnet6 DeepCopyInto_Subnet6"
  unfolding ty_Subnet6_def DeepCopyInto_Subnet6_def
  by (rule deep_copies_struct) (simp_all add: copy_rules)

lemma deep_copies_SharedNetwork6 [copy_rules]: "ext_local L \<Longrightarrow> deep_copies L ty_SharedNetwork6 DeepCopyInto_SharedNetwork6"
  unfolding ty_SharedNetwork6_def DeepCopyInto_SharedNetwork6_def
  by (rule deep_copies_struct) (simp_all add: copy_rules)

lemma deep_copies_KeaDhcp6ServerSpec [copy_rules]: "ext_law L X \<Longrightarrow> deep_copies L ty_KeaDhcp6ServerSpec (DeepCopyInto_KeaDhcp6ServerSpec X)"
  unfolding ty_KeaDhcp6ServerSpec_def DeepCopyInto_KeaDhcp6ServerSpec_def
  by (rule deep_copies_struct [OF ext_law_local]) (simp_all add: copy_rules)

lemma deep_copies_KeaDhcp6ServerStatus [copy_rules]: "ext_local L \<Longrightarrow> deep_copies L ty_KeaDhcp6ServerStatus DeepCopyInto_KeaDhcp6ServerStatus"
  unfolding ty_KeaDhcp6ServerStatus_def DeepCopyInto_KeaDhcp6ServerStatus_def
  by (rule deep_copies_struct) (simp_all add: copy_rules)

lemma deep_copies_KeaDhcp6Server [copy_rules]: "ext_law L X \<Longrightarrow> deep_copies L ty_KeaDhcp6Server (DeepCopyInto_KeaDhcp6Server X)"
  unfolding ty_KeaDhcp6Server_def DeepCopyInto_KeaDhcp6Server_def
  by (rule deep_copies_struct [OF ext_law_local]) (simp_all add: copy_rules)

lemma deep_copies_KeaDhcp6ServerList [copy_rules]: "ext_law L X \<Longrightarrow> deep_copies L ty_KeaDhcp6ServerList (DeepCopyInto_KeaDhcp6ServerList X)"
  unfolding ty_KeaDhcp6ServerList_def DeepCopyInto_KeaDhcp6ServerList_def
  by (rule deep_copies_struct [OF ext_law_local]) (simp_all add: copy_rules)

lemma deep_copies_TSIGKey [copy_rules]: "ext_law L X \<Longrightarrow> deep_copies L ty_TSIGKey (DeepCopyInto_TSIGKey X)"
  unfolding ty_TSIGKey_def DeepCopyInto_TSIGKey_def
  by (rule deep_copies_struct [OF ext_law_local]) (simp_all add: copy_rules)

lemma deep_copies_KeaDhcpDdnsSpec [copy_rules]: "ext_law L X \<Longrightarrow> deep_copies L ty_KeaDhcpDdnsSpec (DeepCopyInto_KeaDhcpDdnsSpec X)"
  unfolding ty_KeaDhcpDdnsSpec_def DeepCopyInto_KeaDhcpDdnsSpec_def
  by (rule deep_copies_struct [OF ext_law_local]) (simp_all add: copy_rules)

lemma deep_copies_KeaDhcpDdnsStatus [copy_rules]: "ext_local L \<Longrightarrow> deep_copies L ty_KeaDhcpDdnsStatus DeepCopyInto_KeaDhcpDdnsStatus"
  unfolding ty_KeaDhcpDdnsStatus_def DeepCopyInto_KeaDhcpDdnsStatus_def
  by (rule deep_copies_struct) (simp_all add: copy_rules)

lemma deep_copies_KeaDhcpDdns [copy_rules]: "ext_law L X \<Longrightarrow> deep_copies L ty_KeaDhcpDdns (DeepCopyInto_KeaDhcpDdns X)"
  unfolding ty_KeaDhcpDdns_def DeepCopyInto_KeaDhcpDdns_def
  by (rule deep_copies_struct [OF ext_law_local]) (simp_all add: copy_rules)

lemma deep_copies_KeaDhcpDdnsList [copy_rules]: "ext_law L X \<Longrightarrow> deep_copies L ty_KeaDhcpDdnsList (DeepCopyInto_KeaDhcpDdnsList X)"
  unfolding ty_KeaDhcpDdnsList_def DeepCopyInto_KeaDhcpDdnsList_def
  by (rule deep_copies_struct [OF ext_law_local]) (simp_all add: copy_rules)

lemma deep_copies_StorkServerDatabase [copy_rules]: "ext_local L \<Longrightarrow> deep_copies L ty_StorkServerDatabase DeepCopyInto_StorkServerDatabase"
  unfolding ty_StorkServerDatabase_def DeepCopyInto_StorkServerDatabase_def
  by (rule deep_copies_struct) (simp_all add: copy_rules)

lemma deep_copies_KeaStorkServerSpec [copy_rules]: "ext_law L X \<Longrightarrow> deep_copies L ty_KeaStorkServerSpec (DeepCopyInto_KeaStorkServerSpec X)"
  unfolding ty_KeaStorkServerSpec_def DeepCopyInto_KeaStorkServerSpec_def
  by (rule deep_copies_struct [OF ext_law_local]) (simp_all add: copy_rules)

lemma deep_copies_KeaServerSpec [copy_rules]: "ext_law L X \<Longrightarrow> deep_copies L ty_KeaServerSpec (DeepCopyInto_KeaServerSpec X)"
  unfolding ty_KeaServerSpec_def DeepCopyInto_KeaServerSpec_def
  by (rule deep_copies_struct [OF ext_law_local]) (simp_all add: copy_rules)

lemma deep_copies_KeaServerStatus [copy_rules]: "ext_local L \<Longrightarrow> deep_copies L ty_KeaServerStatus DeepCopyInto_KeaServerStatus"
  unfolding ty_KeaServerStatus_def DeepCopyInto_KeaServerStatus_def
  by (rule deep_copies_struct) (simp_all add: copy_rules)

lemma deep_copies_KeaServer [copy_rules]: "ext_law L X \<Longrightarrow> deep_copies L ty_KeaServer (DeepCopyInto_KeaServer X)"
  unfolding ty_KeaServer_def DeepCopyInto_KeaServer_def
  by (rule deep_copies_struct [OF ext_law_local]) (simp_all add: copy_rules)

lemma deep_copies_KeaServerList [copy_rules]: "ext_law L X \<Longrightarrow> deep_copies L ty_KeaServerList (DeepCopyInto_KeaServerList X)"
  unfolding ty_KeaServerList_def DeepCopyInto_KeaServerList_def
  by (rule deep_copies_struct [OF ext_law_local]) (simp_all add: copy_rules)

lemma deep_copies_KeaStorkServerStatus [copy_rules]: "ext_local L \<Longrightarrow> deep_copies L ty_KeaStorkServerStatus DeepCopyInto_KeaStorkServerStatus"
  unfolding ty_KeaStorkServerStatus_def DeepCopyInto_KeaStorkServerStatus_def
  by (rule deep_copies_struct) (simp_all add: copy_rules)

lemma deep_copies_KeaStorkServer [copy_rules]: "ext_law L X \<Longrightarrow> deep_copies L ty_KeaStorkServer (DeepCopyInto_KeaStorkServer X)"
  unfolding ty_KeaStorkServer_def DeepCopyInto_KeaStorkServer_def
  by (rule deep_copies_struct [OF ext_law_local]) (simp_all add: copy_rules)

lemma deep_copies_KeaStorkServerList [copy_rules]: "ext_law L X \<Longrightarrow> deep_copies L ty_KeaStorkServerList (DeepCopyInto_KeaStorkServerList X)"
  unfolding ty_KeaStorkServerList_def DeepCopyInto_KeaStorkServerList_def
  by (rule deep_copies_struct [OF ext_law_local]) (simp_all add: copy_rules)

section \<open>Types of other packages, concretely\<close>

text \<open>
  An instance of the law on the types of other packages: \<^verbatim>\<open>corev1.SecretKeySelector\<close> has an embedded
  reference, a key and an optional \<^verbatim>\<open>*bool\<close>, and is copied field by field; the other types have
  values without references.
\<close>

definition key_selector_ty :: goty where
  "key_selector_ty = TStruct [(''LocalObjectReference'', TPlain), (''Key'', TPlain), (''Optional'', TPtr TPlain)]"

definition no_ext :: ext_types where "no_ext n h v = False"

definition sample_types :: ext_types where
  "sample_types n h v =
     (if n = ''corev1.SecretKeySelector'' then typed no_ext h key_selector_ty v else plain v)"

definition sample_ext :: "string \<Rightarrow> copier" where
  "sample_ext n =
     (if n = ''corev1.SecretKeySelector'' then copy_struct [(''Optional'', copy_ptr assign)] else assign)"

lemma no_ext_local: "ext_local no_ext"
  by (simp add: ext_local_def no_ext_def)

lemma sample_key_selector: "deep_copies no_ext key_selector_ty (copy_struct [(''Optional'', copy_ptr assign)])"
  unfolding key_selector_ty_def
  by (rule deep_copies_struct [OF no_ext_local]) (simp_all add: copy_rules no_ext_local)

lemma sample_ext_law: "ext_law sample_types sample_ext"
  unfolding ext_law_def
proof
  show "ext_local sample_types"
    using typed_frame [OF no_ext_local] by (simp add: ext_local_def sample_types_def) blast
  show "\<forall>n. deep_copies sample_types (TExt n) (sample_ext n)"
  proof
    fix n
    show "deep_copies sample_types (TExt n) (sample_ext n)"
      using sample_key_selector deep_copies_assign [of TPlain no_ext]
      by (cases "n = ''corev1.SecretKeySelector''") (simp_all add: deep_copies_def sample_types_def sample_ext_def)
  qed
qed

section \<open>What the copies guarantee\<close>

lemma api_copiers_deep:
  assumes "ext_law L X"
  shows "list_all (\<lambda>e. deep_copies L (fst e) (snd e)) (api_copiers X)"
  unfolding api_copiers_def using assms by (simp add: copy_rules)

text \<open>
  C16: Every generated \<^verbatim>\<open>DeepCopyInto\<close> is a deep copy of the type as \<^verbatim>\<open>*_types.go\<close> declares it. For each of
  the sixty API structs, given any value of that type that denotes a tree, the routine
  changes no allocated cell and leaves a value of the same type that denotes the same tree,
  reading only cells the routine allocated itself. So no pointer, slice or map of the original
  is shared with the copy, at any depth; a routine that forgets a reference field, or copies
  it by assignment, does not have this property. The routines of the types of other packages
  are assumed to be deep copies of their types.
\<close>

theorem api_types_copied_deeply:
  assumes "ext_law L X"
  shows "length (api_copiers X) = 60 \<and> list_all (\<lambda>e. deep_copies L (fst e) (snd e)) (api_copiers X)"
  using api_copiers_deep [OF assms] by (simp add: api_copiers_def)

theorem api_types_copied_deeply_witness:
  "length (api_copiers sample_ext) = 60
   \<and> list_all (\<lambda>e. deep_copies sample_types (fst e) (snd e)) (api_copiers sample_ext)"
  by (rule api_types_copied_deeply [OF sample_ext_law])

lemmas object_defs =
  DeepCopyObject_KeaControlAgent_def DeepCopy_KeaControlAgent_def
  DeepCopyObject_KeaControlAgentList_def DeepCopy_KeaControlAgentList_def
  DeepCopyObject_KeaDhcp4Server_def DeepCopy_KeaDhcp4Server_def DeepCopyObject_KeaDhcp4ServerList_def
  DeepCopy_KeaDhcp4ServerList_def DeepCopyObject_KeaDhcp6Server_def DeepCopy_KeaDhcp6Server_def
  DeepCopyObject_KeaDhcp6ServerList_def DeepCopy_KeaDhcp6ServerList_def DeepCopyObject_KeaDhcpDdns_def
  DeepCopy_KeaDhcpDdns_def DeepCopyObject_KeaDhcpDdnsList_def DeepCopy_KeaDhcpDdnsList_def
  DeepCopyObject_KeaServer_def DeepCopy_KeaServer_def DeepCopyObject_KeaServerList_def
  DeepCopy_KeaServerList_def DeepCopyObject_KeaStorkServer_def DeepCopy_KeaStorkServer_def
  DeepCopyObject_KeaStorkServerList_def DeepCopy_KeaStorkServerList_def

lemmas root_copies =
  deep_copies_KeaControlAgent deep_copies_KeaControlAgentList deep_copies_KeaDhcp4Server
  deep_copies_KeaDhcp4ServerList deep_copies_KeaDhcp6Server deep_copies_KeaDhcp6ServerList
  deep_copies_KeaDhcpDdns deep_copies_KeaDhcpDdnsList deep_copies_KeaServer deep_copies_KeaServerList
  deep_copies_KeaStorkServer deep_copies_KeaStorkServerList

text \<open>A \<^verbatim>\<open>DeepCopyObject\<close> for a type: the pointer a deep copy returns, as an interface value.\<close>

definition object_copier :: "ext_types \<Rightarrow> goty \<Rightarrow> (gval \<Rightarrow> gheap \<Rightarrow> (string \<times> gval) option \<times> gheap) \<Rightarrow> bool" where
  "object_copier L ty f \<longleftrightarrow> (\<exists>k c. deep_copies L ty c \<and> (\<forall>v h. f v h = as_object k (copy_ptr c v h)))"

lemma object_copierI:
  "deep_copies L ty c \<Longrightarrow> (\<And>v h. f v h = as_object k (copy_ptr c v h)) \<Longrightarrow> object_copier L ty f"
  by (auto simp: object_copier_def)

lemma api_objects_copy:
  assumes "ext_law L X"
  shows "list_all (\<lambda>e. object_copier L (fst e) (snd e)) (api_objects X)"
  unfolding api_objects_def list.pred_inject fst_conv snd_conv
  by (intro conjI; (rule object_copierI, rule root_copies [OF assms], simp only: object_defs)?) simp

text \<open>
  C17: A client of \<^verbatim>\<open>DeepCopyObject\<close> cannot disturb the object it copied. For each of the twelve root kinds and
  lists, on a non-nil pointer the call returns a non-nil interface value whose pointer denotes
  the same tree as the original; and whatever a holder of the copy then does, in any number of
  steps, writing cells of the copy or cells allocated later, the original still denotes its
  tree. Nor does a holder of the original, by any steps of its own, change what the copy
  denotes. This is what lets the reconcilers change the objects they fetch, the informers'
  store keeping the originals.
\<close>

theorem DeepCopyObject_isolates:
  assumes X: "ext_law L X" and f: "(ty, f) \<in> set (api_objects X)"
    and p: "heap_ok h" "typed L h (TPtr ty) (VPtr (Some a))" "denotes h A (VPtr (Some a)) t"
    and copy: "f (VPtr (Some a)) h = (obj, h1)"
    and client: "owner_steps ({hp_next h..<hp_next h1}, h1) (B, h2)"
    and updater: "owner_steps ({..<hp_next h}, h1) (D, h3)"
  shows "\<exists>k b. obj = Some (k, VPtr (Some b)) \<and> denotes h1 {hp_next h..<hp_next h1} (VPtr (Some b)) t
     \<and> denotes h2 A (VPtr (Some a)) t \<and> denotes h3 {hp_next h..<hp_next h1} (VPtr (Some b)) t"
proof -
  obtain k c where c: "deep_copies L ty c" "f (VPtr (Some a)) h = as_object k (copy_ptr c (VPtr (Some a)) h)"
    using api_objects_copy [OF X] f by (auto simp: list_all_iff object_copier_def)
  note C = deep_copier.intro [OF ext_law_local [OF X] c(1)]
  obtain b h' where q: "copy_ptr c (VPtr (Some a)) h = (VPtr (Some b), h')"
    by (cases "alloc (CVal VZero) h", cases "c (load_val (snd (alloc (CVal VZero) h)) a) (snd (alloc (CVal VZero) h))")
      (auto simp: copy_ptr_def)
  then have obj: "obj = Some (k, VPtr (Some b))" "h1 = h'" using copy c(2) by (auto simp: as_object_def)
  have "denotes h2 (A \<inter> {..<hp_next h}) (VPtr (Some a)) t"
    by (rule deep_copier.original_kept [OF C p q client [unfolded obj(2)]])
  then show ?thesis
    using obj deep_copier.copy_result(4) [OF C p q] deep_copier.copy_kept [OF C p q updater [unfolded obj(2)]]
    by (auto intro: denotes_mono)
qed

definition sample_list :: gval where
  "sample_list = VStruct [(''TypeMeta'', VStruct [(''Kind'', VStr ''KeaServerList''), (''APIVersion'', VStr ''v1alpha1'')]),
     (''ListMeta'', VStruct [(''ResourceVersion'', VStr ''7'')]), (''Items'', VSlice (Some (1, 0, 0)))]"

definition sample_tree :: tree where
  "sample_tree = NRef (NStruct [''TypeMeta'', ''ListMeta'', ''Items'']
     [NStruct [''Kind'', ''APIVersion''] [LStr ''KeaServerList'', LStr ''v1alpha1''],
      NStruct [''ResourceVersion''] [LStr ''7''], NSeq []])"

definition sample_heap :: gheap where
  "sample_heap = \<lparr>hp_cells = [0 \<mapsto> CVal sample_list, 1 \<mapsto> CArr []], hp_next = 2\<rparr>"

lemma sample_typed: "typed sample_types sample_heap (TPtr ty_KeaServerList) (VPtr (Some 0))"
  by (simp add: sample_heap_def sample_list_def ty_KeaServerList_def sample_types_def)

lemma sample_denotes: "denotes sample_heap {0, 1} (VPtr (Some 0)) sample_tree"
  by (simp add: denotes_ptr_iff denotes_struct_iff denotes_slice_iff sample_heap_def sample_list_def sample_tree_def)

text \<open>The list is copied; then one client overwrites the copy's struct, another the original's.\<close>

theorem DeepCopyObject_isolates_witness:
  "\<exists>k b. fst (DeepCopyObject_KeaServerList sample_ext (VPtr (Some 0)) sample_heap) = Some (k, VPtr (Some b))
     \<and> denotes (snd (DeepCopyObject_KeaServerList sample_ext (VPtr (Some 0)) sample_heap)) {2..<4} (VPtr (Some b)) sample_tree
     \<and> denotes (store 2 (CVal (VStr '''')) (snd (DeepCopyObject_KeaServerList sample_ext (VPtr (Some 0)) sample_heap)))
          {0, 1} (VPtr (Some 0)) sample_tree
     \<and> denotes (store 0 (CVal (VStr '''')) (snd (DeepCopyObject_KeaServerList sample_ext (VPtr (Some 0)) sample_heap)))
          {2..<4} (VPtr (Some b)) sample_tree"
proof -
  let ?f = "DeepCopyObject_KeaServerList sample_ext" and ?a = "VPtr (Some 0)"
  have n: "hp_next (snd (?f ?a sample_heap)) = 4"
    by (simp add: object_defs DeepCopyInto_KeaServerList_def copy_ptr_def copy_struct_def copy_slice_def as_object_def
        alloc_def load_val_def sample_heap_def sample_list_def assign_def sample_ext_def field_def set_field_def)
  have m: "(ty_KeaServerList, ?f) \<in> set (api_objects sample_ext)" by (simp add: api_objects_def)
  have o: "owner_steps ({hp_next sample_heap..<hp_next (snd (?f ?a sample_heap))}, snd (?f ?a sample_heap))
     ({hp_next sample_heap..<hp_next (snd (?f ?a sample_heap))}, store 2 (CVal (VStr '''')) (snd (?f ?a sample_heap)))"
    by (rule r_into_rtranclp, rule owner_write) (simp add: n, simp add: sample_heap_def)
  have u: "owner_steps ({..<hp_next sample_heap}, snd (?f ?a sample_heap))
     ({..<hp_next sample_heap}, store 0 (CVal (VStr '''')) (snd (?f ?a sample_heap)))"
    by (rule r_into_rtranclp, rule owner_write) (simp add: sample_heap_def)
  have k: "heap_ok sample_heap" by (simp add: heap_ok_def sample_heap_def)
  have two: "hp_next sample_heap = 2" by (simp add: sample_heap_def)
  show ?thesis
    using DeepCopyObject_isolates [OF sample_ext_law m k sample_typed sample_denotes prod.collapse [symmetric] o u]
    by (simp add: n two)
qed

interpretation ha_copy: deep_copier no_ext ty_HAConfig DeepCopyInto_HAConfig
  by (unfold_locales) (simp_all add: no_ext_local deep_copies_HAConfig)

end
