(* ===== verification/HeapClients.thy ===== *)
theory HeapClients
  imports DeepCopy Credentials Reconciler
begin

text \<open>
  Two places where the controllers write through references, on the memory of \<^verbatim>\<open>GoHeap\<close>:
  \<^verbatim>\<open>fillPeerURLs\<close> (\<^verbatim>\<open>src/internal/controller/reconciler.go\<close>), which fills in the peers of an HA
  configuration in place, and the discovery of the Stork server, which works on
  \<^verbatim>\<open>server.Spec.Stork.DeepCopy()\<close>. The first implements the function on values the rest of the
  development uses; the second leaves the spec alone.
\<close>

section \<open>fillPeerURLs in place\<close>

text \<open>The loop over \<^verbatim>\<open>ha.Peers\<close>, from index \<^verbatim>\<open>i\<close> with \<^verbatim>\<open>k\<close> rounds to go; \<^verbatim>\<open>ha.Peers\<close> is the slice at
  offset \<^verbatim>\<open>off\<close> of the array \<^verbatim>\<open>b\<close>.\<close>

primrec fill_loop :: "(nat \<Rightarrow> string) \<Rightarrow> addr \<Rightarrow> nat \<Rightarrow> nat \<Rightarrow> nat \<Rightarrow> gheap \<Rightarrow> gheap" where
  "fill_loop url b off i 0 h = h"
| "fill_loop url b off i (Suc k) h =
     (let p = load_elem h b (off + i) in
      fill_loop url b off (Suc i) k
        (if field ''URL'' p = VStr '''' then store_elem b (off + i) (set_field ''URL'' (VStr (url i)) p) h else h))"

definition fillPeerURLs_inplace :: "gval \<Rightarrow> string \<Rightarrow> string \<Rightarrow> string \<Rightarrow> int32 \<Rightarrow> gheap \<Rightarrow> gheap" where
  "fillPeerURLs_inplace ha namespace crName component port h =
     (case ha of
        VPtr (Some a) \<Rightarrow>
          (case field ''Peers'' (load_val h a) of
             VSlice (Some (b, off, n)) \<Rightarrow> fill_loop (peer_url namespace crName component port) b off 0 n h
           | _ \<Rightarrow> h)
      | _ \<Rightarrow> h)"

section \<open>Reading an HA configuration off a tree\<close>

definition tfield :: "string \<Rightarrow> tree \<Rightarrow> tree" where
  "tfield f t = (case t of NStruct ns ts \<Rightarrow> (case map_of (zip ns ts) f of Some u \<Rightarrow> u | None \<Rightarrow> NNil) | _ \<Rightarrow> NNil)"

definition tset :: "string \<Rightarrow> tree \<Rightarrow> tree \<Rightarrow> tree" where
  "tset f u t =
     (case t of NStruct ns ts \<Rightarrow> NStruct ns (map (\<lambda>p. if fst p = f then u else snd p) (zip ns ts)) | _ \<Rightarrow> t)"

fun tstr :: "tree \<Rightarrow> string" where
  "tstr (LStr s) = s"
| "tstr _ = ''''"

fun tref :: "(tree \<Rightarrow> 'a) \<Rightarrow> tree \<Rightarrow> 'a option" where
  "tref f (NRef t) = Some (f t)"
| "tref f _ = None"

fun tseq :: "(tree \<Rightarrow> 'a) \<Rightarrow> tree \<Rightarrow> 'a list" where
  "tseq f (NSeq ts) = map f ts"
| "tseq f _ = []"

fun tint32 :: "tree \<Rightarrow> int32" where
  "tint32 (LInt32 i) = i"
| "tint32 _ = 0"

fun tbool :: "tree \<Rightarrow> bool" where
  "tbool (LBool b) = b"
| "tbool _ = False"

definition HAPeer_of :: "tree \<Rightarrow> HAPeer" where
  "HAPeer_of t =
     \<lparr>peer_Name = tstr (tfield ''Name'' t), peer_URL = tstr (tfield ''URL'' t), peer_Role = tstr (tfield ''Role'' t),
      peer_Address = tstr (tfield ''Address'' t), peer_AutoFailover = tref tbool (tfield ''AutoFailover'' t)\<rparr>"

definition TLSConfig_of :: "tree \<Rightarrow> TLSConfig" where
  "TLSConfig_of t =
     \<lparr>tls_SecretRef = \<lparr>lor_Name = tstr (tfield ''Name'' (tfield ''SecretRef'' t))\<rparr>,
      tls_CertRequired = tref tbool (tfield ''CertRequired'' t)\<rparr>"

definition HAMultiThreading_of :: "tree \<Rightarrow> HAMultiThreading" where
  "HAMultiThreading_of t =
     \<lparr>hamt_EnableMultiThreading = tref tbool (tfield ''EnableMultiThreading'' t),
      hamt_HTTPClientThreads = tref tint32 (tfield ''HTTPClientThreads'' t),
      hamt_HTTPListenerThreads = tref tint32 (tfield ''HTTPListenerThreads'' t)\<rparr>"

definition HAConfig_struct :: "tree \<Rightarrow> HAConfig" where
  "HAConfig_struct t =
     \<lparr>ha_ThisServerName = tstr (tfield ''ThisServerName'' t), ha_Mode = tstr (tfield ''Mode'' t),
      ha_HeartbeatDelay = tref tint32 (tfield ''HeartbeatDelay'' t),
      ha_MaxResponseDelay = tref tint32 (tfield ''MaxResponseDelay'' t),
      ha_MaxAckDelay = tref tint32 (tfield ''MaxAckDelay'' t),
      ha_MaxUnackedClients = tref tint32 (tfield ''MaxUnackedClients'' t),
      ha_Peers = tseq HAPeer_of (tfield ''Peers'' t), ha_TLS = tref TLSConfig_of (tfield ''TLS'' t),
      ha_SendLeaseUpdates = tref tbool (tfield ''SendLeaseUpdates'' t),
      ha_SyncLeases = tref tbool (tfield ''SyncLeases'' t),
      ha_SyncTimeout = tref tint32 (tfield ''SyncTimeout'' t),
      ha_SyncPageLimit = tref tint32 (tfield ''SyncPageLimit'' t),
      ha_DelayedUpdatesLimit = tref tint32 (tfield ''DelayedUpdatesLimit'' t),
      ha_MultiThreading = tref HAMultiThreading_of (tfield ''MultiThreading'' t)\<rparr>"

abbreviation HAConfig_of :: "tree \<Rightarrow> HAConfig option" where
  "HAConfig_of \<equiv> tref HAConfig_struct"

section \<open>Updates of structs and arrays\<close>

lemma denotes_set_field:
  assumes "denotes h A (VStruct fs) t" "denotes h A w u"
  shows "denotes h A (set_field f w (VStruct fs)) (tset f u t)"
proof -
  from assms(1) obtain ts where t: "t = NStruct (map fst fs) ts" and ts: "list_all2 (denotes h A) (map snd fs) ts"
    by (auto elim: denotes_structE)
  have l: "list_all2 (denotes h A) (map snd (map (\<lambda>p. if fst p = f then (f, w) else p) fs))
      (map (\<lambda>p. if fst p = f then u else snd p) (zip (map fst fs) ts))"
    using ts assms(2) by (auto simp: list_all2_conv_all_nth)
  have n: "map fst (map (\<lambda>p. if fst p = f then (f, w) else p) fs) = map fst fs" by auto
  show ?thesis
    using denotes_struct [OF l] unfolding n by (simp only: t tset_def set_field_def tree.case gval.case)
qed

lemma denotes_field:
  assumes "denotes h A (VStruct fs) t" "f \<in> fst ` set fs"
  shows "denotes h A (field f (VStruct fs)) (tfield f t)"
proof -
  from assms(1) obtain ts where t: "t = NStruct (map fst fs) ts" and ts: "list_all2 (denotes h A) (map snd fs) ts"
    by (auto elim: denotes_structE)
  from ts assms(2) show ?thesis unfolding t tfield_def field_def
  proof (induction fs arbitrary: ts)
    case (Cons p fs)
    then show ?case by (cases p) (auto simp: list_all2_Cons1 rev_image_eqI)
  qed simp
qed

lemma tfield_tset: "f \<in> set ns \<Longrightarrow> length ts = length ns \<Longrightarrow>
    tfield g (tset f u (NStruct ns ts)) = (if g = f then u else tfield g (NStruct ns ts))"
proof -
  have "length ts = length ns \<Longrightarrow> map_of (zip ns (map (\<lambda>p. if fst p = f then u else snd p) (zip ns ts))) g
    = (if g = f \<and> f \<in> set ns then Some u else map_of (zip ns ts) g)"
    by (induction ns ts rule: list_induct2') auto
  then show "f \<in> set ns \<Longrightarrow> length ts = length ns \<Longrightarrow> ?thesis" by (simp add: tfield_def tset_def)
qed

text \<open>Types without slices: their values never look into an array.\<close>

fun no_slice :: "goty \<Rightarrow> bool" where
  "no_slice (TPtr t) = no_slice t"
| "no_slice (TSlice t) = False"
| "no_slice (TStruct ds) = list_all (\<lambda>d. no_slice (snd d)) ds"
| "no_slice (TExt n) = False"
| "no_slice _ = True"

lemma no_slice_denotes:
  assumes b: "hp_cells h b = Some (CArr xs)"
  shows "no_slice ty \<Longrightarrow> typed L h ty v \<Longrightarrow> denotes h A v t \<Longrightarrow> denotes h (A - {b}) v t"
proof (induction ty arbitrary: v t)
  case TPlain
  from plain_denotes [OF _ TPlain.prems(3)] TPlain.prems(2) show ?case by simp
next
  case TString
  from plain_denotes [OF is_str_plain TString.prems(3)] TString.prems(2) show ?case by simp
next
  case (TPtr ty)
  show ?case
  proof (cases "v = VPtr None")
    case False
    with TPtr.prems obtain a x u where "v = VPtr (Some a)" "a \<in> A" "hp_cells h a = Some (CVal x)" "denotes h A x u" "t = NRef u"
      by (auto split: gval.splits option.splits elim!: denotes_ptrE)
    moreover from this TPtr have "denotes h (A - {b}) x u" by simp
    ultimately show ?thesis using b by (auto intro!: denotes_ptr)
  qed (use TPtr.prems in simp)
next
  case TStrMap
  then show ?case
  proof (cases "v = VMap None")
    case False
    with TStrMap.prems obtain a kvs ts where v: "v = VMap (Some a)" "a \<in> A" "hp_cells h a = Some (CMap kvs)"
      "distinct (map fst kvs)" "list_all2 (denotes h A) (map snd kvs) ts" "t = NMap (map fst kvs) ts"
      by (auto split: gval.splits option.splits elim!: denotes_mapE)
    moreover have "list_all2 (denotes h (A - {b})) (map snd kvs) ts"
      using v(5) TStrMap.prems(2) v(1,3) plain_denotes [OF is_str_plain, of _ h A] by (simp add: list_all2_conv_all_nth list_all_length)
    ultimately show ?thesis using b by (auto intro!: denotes_map)
  qed auto
next
  case (TStruct ds)
  then obtain fs where v: "v = VStruct fs" and fs: "list_all2 (\<lambda>d p. fst p = fst d \<and> typed L h (snd d) (snd p)) ds fs"
    by (auto split: gval.splits)
  from TStruct.prems(3) v obtain ts where t: "t = NStruct (map fst fs) ts" and ts: "list_all2 (denotes h A) (map snd fs) ts"
    by (auto elim!: denotes_structE)
  have "denotes h (A - {b}) (snd (fs ! i)) (ts ! i)" if i: "i < length fs" for i
  proof -
    have "snd (ds ! i) \<in> Basic_BNFs.snds (ds ! i)" by (cases "ds ! i") (simp add: Basic_BNFs.snds.simps)
    then show ?thesis
      using TStruct.prems(1) fs ts i TStruct.IH [of "ds ! i" "snd (ds ! i)"]
      by (auto simp: list_all2_conv_all_nth list_all_length)
  qed
  then show ?case using ts unfolding v t by (intro denotes_struct) (auto simp: list_all2_conv_all_nth)
qed (auto split: gval.splits)

lemma fill_loop_spec:
  assumes "hp_cells h b = Some (CArr xs)" "off + i + k \<le> length xs"
  shows "\<exists>ys. fill_loop url b off i k h = store b (CArr ys) h \<and> length ys = length xs
    \<and> (\<forall>j < length xs. ys ! j =
        (if off + i \<le> j \<and> j < off + i + k \<and> field ''URL'' (xs ! j) = VStr ''''
         then set_field ''URL'' (VStr (url (j - off))) (xs ! j) else xs ! j))"
  using assms
proof (induction k arbitrary: i h xs)
  case 0
  then show ?case by (auto intro!: exI [of _ xs] simp: store_same)
next
  case (Suc k)
  let ?x = "xs ! (off + i)"
  let ?y = "if field ''URL'' ?x = VStr '''' then set_field ''URL'' (VStr (url i)) ?x else ?x"
  let ?h = "store b (CArr (xs[off + i := ?y])) h"
  have "load_elem h b (off + i) = ?x" using Suc.prems by (simp add: load_elem_def load_arr_def)
  then have step: "fill_loop url b off i (Suc k) h = fill_loop url b off (Suc i) k ?h"
    using Suc.prems by (simp add: Let_def store_elem_def load_arr_def store_same)
  obtain ys where ys: "fill_loop url b off (Suc i) k ?h = store b (CArr ys) ?h" "length ys = length xs"
    "\<forall>j < length xs. ys ! j =
        (if off + Suc i \<le> j \<and> j < off + Suc i + k \<and> field ''URL'' (xs[off + i := ?y] ! j) = VStr ''''
         then set_field ''URL'' (VStr (url (j - off))) (xs[off + i := ?y] ! j) else xs[off + i := ?y] ! j)"
    using Suc.IH [of ?h "xs[off + i := ?y]" "Suc i"] Suc.prems by auto
  have nth: "ys ! j = (if off + i \<le> j \<and> j < off + i + Suc k \<and> field ''URL'' (xs ! j) = VStr ''''
         then set_field ''URL'' (VStr (url (j - off))) (xs ! j) else xs ! j)" if "j < length xs" for j
    using ys(3) that Suc.prems by (cases "j = off + i") auto
  have "fill_loop url b off i (Suc k) h = store b (CArr ys) h" unfolding step ys(1) by (rule store_store)
  then show ?case using ys(2) nth by blast
qed

section \<open>The in-place loop implements the function on values\<close>

lemma typed_structD:
  assumes "typed L h (TStruct ds) v"
  shows "\<exists>fs. v = VStruct fs \<and> map fst fs = map fst ds"
proof -
  from assms obtain fs where v: "v = VStruct fs" and fs: "list_all2 (\<lambda>d p. fst p = fst d \<and> typed L h (snd d) (snd p)) ds fs"
    by (auto split: gval.splits)
  have "map fst fs = map fst ds" using fs by (auto simp: list_all2_conv_all_nth intro: nth_equalityI)
  with v show ?thesis by blast
qed

lemma typed_field:
  assumes "typed L h (TStruct ds) (VStruct fs)" "distinct (map fst ds)" "(f, ty) \<in> set ds"
  shows "typed L h ty (field f (VStruct fs))" "f \<in> fst ` set fs"
proof -
  from assms(3) obtain i where i: "i < length ds" "ds ! i = (f, ty)" by (auto simp: in_set_conv_nth)
  have n: "map fst fs = map fst ds" using typed_structD [OF assms(1)] by auto
  then have len: "length fs = length ds" by (metis length_map)
  have fi: "fst (fs ! i) = f" using n i len by (metis fst_conv nth_map)
  have "field f (VStruct fs) = snd (fs ! i)" using field_nth [of fs i] n assms(2) i len fi by simp
  then show "typed L h ty (field f (VStruct fs))" using assms(1) i by (auto simp: list_all2_conv_all_nth)
  show "f \<in> fst ` set fs" using fi i len by (metis image_eqI nth_mem)
qed

text \<open>One peer.\<close>

lemma peer_url_field:
  assumes "typed L h ty_HAPeer x" "denotes h A x u"
  shows "(field ''URL'' x = VStr '''') = (peer_URL (HAPeer_of u) = '''')"
    and "HAPeer_of (tset ''URL'' (LStr s) u) = (HAPeer_of u)\<lparr>peer_URL := s\<rparr>"
proof -
  obtain fs where x: "x = VStruct fs" and n: "map fst fs = [''Name'', ''URL'', ''Role'', ''Address'', ''AutoFailover'']"
    using typed_structD [OF assms(1) [unfolded ty_HAPeer_def]] by auto
  have m: "''URL'' \<in> fst ` set fs" using arg_cong [OF n, of set] by simp
  have t: "typed L h TString (field ''URL'' x)"
    using typed_field(1) [OF assms(1) [unfolded ty_HAPeer_def x], of "''URL''" TString] x by simp
  have d: "denotes h A (field ''URL'' x) (tfield ''URL'' u)"
    using denotes_field [OF assms(2) [unfolded x] m] x by simp
  from t d show "(field ''URL'' x = VStr '''') = (peer_URL (HAPeer_of u) = '''')"
    by (cases "field ''URL'' x") (auto simp: HAPeer_of_def)
  from assms(2) x obtain ts where u: "u = NStruct (map fst fs) ts" "length ts = length (map fst fs)"
    by (auto elim!: denotes_structE dest: list_all2_lengthD)
  show "HAPeer_of (tset ''URL'' (LStr s) u) = (HAPeer_of u)\<lparr>peer_URL := s\<rparr>"
    using u(2) m unfolding u(1) by (simp add: HAPeer_of_def tfield_tset)
qed

lemma no_slice_peer: "no_slice ty_HAPeer"
  by (simp add: ty_HAPeer_def)

text \<open>The tree of a peer after the loop.\<close>

definition tfill :: "(nat \<Rightarrow> string) \<Rightarrow> nat \<times> tree \<Rightarrow> tree" where
  "tfill url e = (if peer_URL (HAPeer_of (snd e)) = '''' then tset ''URL'' (LStr (url (fst e))) (snd e) else snd e)"

lemma fill_peer_list:
  assumes b: "hp_cells h b = Some (CArr xs)" "off + n \<le> length xs"
    and ty: "list_all (typed no_ext h ty_HAPeer) (take n (drop off xs))"
    and us: "list_all2 (denotes h A) (take n (drop off xs)) us"
    and loop: "fill_loop url b off 0 n h = h'"
  shows "\<exists>ys. h' = store b (CArr ys) h \<and> length ys = length xs \<and>
    list_all2 (denotes h' (A - {b})) (take n (drop off ys)) (map (tfill url) (enumerate 0 us))"
proof -
  obtain ys where ys: "h' = store b (CArr ys) h" "length ys = length xs" and nth: "\<forall>j < length xs. ys ! j =
      (if off + 0 \<le> j \<and> j < off + 0 + n \<and> field ''URL'' (xs ! j) = VStr ''''
       then set_field ''URL'' (VStr (url (j - off))) (xs ! j) else xs ! j)"
    using fill_loop_spec [OF b(1), of off 0 n url] b(2) loop by auto
  have len: "length us = n" using list_all2_lengthD [OF us] b(2) by simp
  have "denotes h' (A - {b}) (ys ! (off + j)) (tfill url (j, us ! j))" if j: "j < n" for j
  proof -
    have x: "typed no_ext h ty_HAPeer (xs ! (off + j))" "denotes h A (xs ! (off + j)) (us ! j)"
      using ty us j b(2) by (auto simp: list_all_length list_all2_conv_all_nth)
    have d: "denotes h' (A - {b}) (xs ! (off + j)) (us ! j)"
      by (rule denotes_frame [OF no_slice_denotes [OF b(1) no_slice_peer x]]) (simp add: ys(1) agree_store)
    obtain fs where fs: "xs ! (off + j) = VStruct fs" using x(1) by (auto simp: ty_HAPeer_def split: gval.splits)
    have "ys ! (off + j) = (if field ''URL'' (xs ! (off + j)) = VStr '''' then set_field ''URL'' (VStr (url j)) (xs ! (off + j))
        else xs ! (off + j))" using nth j b(2) by simp
    then show ?thesis
      using d peer_url_field(1) [OF x] denotes_set_field [OF d [unfolded fs], of "VStr (url j)" "LStr (url j)" "''URL''"] fs
      by (simp add: tfill_def)
  qed
  then have "list_all2 (denotes h' (A - {b})) (take n (drop off ys)) (map (tfill url) (enumerate 0 us))"
    using ys(2) b(2) len by (auto simp: list_all2_conv_all_nth nth_enumerate_eq)
  then show ?thesis using ys by blast
qed

lemma fill_peer_values:
  assumes "list_all (typed no_ext h ty_HAPeer) xs" "list_all2 (denotes h A) xs us"
  shows "map HAPeer_of (map (tfill (peer_url ns cr co port)) (enumerate 0 us)) = fill_peers ns cr co port (map HAPeer_of us)"
proof (rule nth_equalityI)
  fix i
  assume "i < length (map HAPeer_of (map (tfill (peer_url ns cr co port)) (enumerate 0 us)))"
  then have i: "i < length us" by simp
  have x: "typed no_ext h ty_HAPeer (xs ! i)" "denotes h A (xs ! i) (us ! i)"
    using assms i by (auto simp: list_all_length list_all2_conv_all_nth)
  show "map HAPeer_of (map (tfill (peer_url ns cr co port)) (enumerate 0 us)) ! i = fill_peers ns cr co port (map HAPeer_of us) ! i"
    using i peer_url_field(2) [OF x] by (simp add: nth_fill_peers tfill_def nth_enumerate_eq)
qed simp

lemma denotes_struct_retree:
  assumes d: "denotes h A (VStruct fs) s" and dist: "distinct (map fst fs)"
    and new: "denotes h' A (field f (VStruct fs)) u"
    and rest: "\<And>p t. p \<in> set fs \<Longrightarrow> fst p \<noteq> f \<Longrightarrow> denotes h A (snd p) t \<Longrightarrow> denotes h' A (snd p) t"
  shows "denotes h' A (VStruct fs) (tset f u s)"
proof -
  from d obtain ts where s: "s = NStruct (map fst fs) ts" and ts: "list_all2 (denotes h A) (map snd fs) ts"
    by (auto elim: denotes_structE)
  have len: "length ts = length fs" using list_all2_lengthD [OF ts] by simp
  have "denotes h' A (snd (fs ! i)) (if fst (fs ! i) = f then u else ts ! i)" if i: "i < length fs" for i
  proof (cases "fst (fs ! i) = f")
    case True
    then show ?thesis using new field_nth [OF dist i] by simp
  next
    case False
    have "denotes h A (snd (fs ! i)) (ts ! i)" using ts i by (simp add: list_all2_conv_all_nth)
    then show ?thesis using rest [of "fs ! i"] False i by simp
  qed
  then have "list_all2 (denotes h' A) (map snd fs) (map (\<lambda>p. if fst p = f then u else snd p) (zip (map fst fs) ts))"
    using len by (simp add: list_all2_conv_all_nth split del: if_split cong: if_cong)
  then show ?thesis unfolding s tset_def tree.case by (rule denotes_struct)
qed

lemma ha_fields:
  "\<exists>ds. ty_HAConfig = TStruct ds \<and> distinct (map fst ds) \<and> (''Peers'', TSlice ty_HAPeer) \<in> set ds
     \<and> list_all (\<lambda>d. fst d \<noteq> ''Peers'' \<longrightarrow> no_slice (snd d)) ds"
  unfolding ty_HAConfig_def by (rule exI, rule conjI, rule refl) (simp add: ty_TLSConfig_def ty_HAMultiThreading_def)

lemma HAConfig_set_peers:
  "''Peers'' \<in> set ns \<Longrightarrow> length ts = length ns \<Longrightarrow>
   HAConfig_struct (tset ''Peers'' (NSeq us) (NStruct ns ts)) = (HAConfig_struct (NStruct ns ts))\<lparr>ha_Peers := map HAPeer_of us\<rparr>"
  by (simp add: HAConfig_struct_def tfield_tset)

lemma fill_struct_refines:
  assumes ty: "typed no_ext h ty_HAConfig v" and d: "denotes h A v s"
    and slice: "field ''Peers'' v = VSlice (Some (b, off, n))"
    and loop: "fill_loop (peer_url ns cr co port) b off 0 n h = h'"
  shows "\<exists>s' ys. denotes h' A v s' \<and> b \<in> A \<and> h' = store b (CArr ys) h \<and> (\<exists>xs. hp_cells h b = Some (CArr xs))
     \<and> HAConfig_struct s' = (HAConfig_struct s)\<lparr>ha_Peers := fill_peers ns cr co port (ha_Peers (HAConfig_struct s))\<rparr>"
proof -
  obtain ds where ds: "ty_HAConfig = TStruct ds" "distinct (map fst ds)" "(''Peers'', TSlice ty_HAPeer) \<in> set ds"
    "list_all (\<lambda>d. fst d \<noteq> ''Peers'' \<longrightarrow> no_slice (snd d)) ds" using ha_fields by blast
  from typed_structD [OF ty [unfolded ds(1)]] obtain fs where v: "v = VStruct fs" and nm: "map fst fs = map fst ds" by blast
  note tf = typed_field [OF ty [unfolded ds(1) v] ds(2)]
  have tp: "typed no_ext h (TSlice ty_HAPeer) (VSlice (Some (b, off, n)))" using tf(1) [OF ds(3)] slice v by simp
  have dp: "denotes h A (VSlice (Some (b, off, n))) (tfield ''Peers'' s)"
    using denotes_field [OF d [unfolded v] tf(2) [OF ds(3)]] slice v by simp
  from dp obtain xs us where b: "b \<in> A" "hp_cells h b = Some (CArr xs)" "off + n \<le> length xs"
    and us: "list_all2 (denotes h A) (take n (drop off xs)) us" and tp': "tfield ''Peers'' s = NSeq us"
    by (auto elim: denotes_sliceE)
  have te: "list_all (typed no_ext h ty_HAPeer) (take n (drop off xs))" using tp b by simp
  obtain ys where ys: "h' = store b (CArr ys) h" "length ys = length xs"
    "list_all2 (denotes h' (A - {b})) (take n (drop off ys)) (map (tfill (peer_url ns cr co port)) (enumerate 0 us))"
    using fill_peer_list [OF b(2,3) te us loop] by blast
  let ?us = "map (tfill (peer_url ns cr co port)) (enumerate 0 us)"
  have "denotes h' A v (tset ''Peers'' (NSeq ?us) s)"
    unfolding v
  proof (rule denotes_struct_retree [OF d [unfolded v]])
    show "distinct (map fst fs)" using nm ds(2) by simp
    show "denotes h' A (field ''Peers'' (VStruct fs)) (NSeq ?us)"
      unfolding slice [unfolded v]
      by (rule denotes_slice [OF b(1), of h' ys]) (use ys b denotes_list_mono [OF ys(3)] in auto)
    show "denotes h' A (snd p) t" if p: "p \<in> set fs" "fst p \<noteq> ''Peers''" and dp: "denotes h A (snd p) t" for p t
    proof -
      have "fst p \<in> fst ` set ds" using p(1) nm by (metis image_eqI list.set_map)
      then obtain ty where m: "(fst p, ty) \<in> set ds" by auto
      have "field (fst p) (VStruct fs) = snd p" using field_mem [OF _ p(1)] nm ds(2) by simp
      then have "typed no_ext h ty (snd p)" "no_slice ty" using tf(1) [OF m] ds(4) m p(2) by (auto simp: list_all_iff)
      then have "denotes h (A - {b}) (snd p) t" using no_slice_denotes [OF b(2)] dp by blast
      then have "denotes h' (A - {b}) (snd p) t" by (rule denotes_frame) (simp add: ys(1) agree_store)
      then show ?thesis by (rule denotes_mono) auto
    qed
  qed
  moreover from d v obtain ts where s: "s = NStruct (map fst fs) ts" "length ts = length (map fst fs)"
    by (auto elim!: denotes_structE dest: list_all2_lengthD)
  moreover have "''Peers'' \<in> set (map fst fs)" using tf(2) [OF ds(3)] by simp
  ultimately show ?thesis
    using b(1,2) ys(1) HAConfig_set_peers [of "map fst fs" ts ?us] fill_peer_values [OF te us, of ns cr co port] tp'
    by (auto simp: HAConfig_struct_def)
qed

lemma fillPeerURLs_inplace_refines:
  assumes ty: "typed no_ext h (TPtr ty_HAConfig) p" and d: "denotes h A p t"
    and run: "fillPeerURLs_inplace p ns cr co port h = h'"
  shows "(\<exists>t'. denotes h' A p t' \<and> HAConfig_of t' = fillPeerURLs (HAConfig_of t) ns cr co port) \<and> agree (- A) h h'"
proof (cases "p = VPtr None")
  case True
  then show ?thesis using d run by (auto simp: fillPeerURLs_inplace_def fillPeerURLs_def)
next
  case False
  with ty d obtain a v s where p: "p = VPtr (Some a)" "a \<in> A" "hp_cells h a = Some (CVal v)" "denotes h A v s" "t = NRef s"
    by (auto split: gval.splits option.splits elim!: denotes_ptrE)
  have tv: "typed no_ext h ty_HAConfig v" using ty p by simp
  obtain ds where ds: "ty_HAConfig = TStruct ds" "distinct (map fst ds)" "(''Peers'', TSlice ty_HAPeer) \<in> set ds"
    using ha_fields by blast
  from typed_structD [OF tv [unfolded ds(1)]] obtain fs where v: "v = VStruct fs" by blast
  note tf = typed_field [OF tv [unfolded ds(1) v] ds(2,3)]
  have run': "h' = (case field ''Peers'' v of VSlice (Some (b, off, n)) \<Rightarrow> fill_loop (peer_url ns cr co port) b off 0 n h | _ \<Rightarrow> h)"
    using run p by (simp add: fillPeerURLs_inplace_def load_val_def)
  show ?thesis
  proof (cases "field ''Peers'' v = VSlice None")
    case True
    then have "tfield ''Peers'' s = NNil" using denotes_field [OF p(4) [unfolded v] tf(2)] v by simp
    then have "HAConfig_of t = fillPeerURLs (HAConfig_of t) ns cr co port"
      using p(5) by (simp add: fillPeerURLs_def fill_peers_def HAConfig_struct_def)
    then show ?thesis using run' True d by auto
  next
    case False
    then obtain b off n where sl: "field ''Peers'' v = VSlice (Some (b, off, n))"
      using tf(1) v by (auto split: gval.splits option.splits)
    then have "fill_loop (peer_url ns cr co port) b off 0 n h = h'" using run' by simp
    from fill_struct_refines [OF tv p(4) sl this] obtain s' ys xs where S: "denotes h' A v s'" "b \<in> A" "h' = store b (CArr ys) h"
      "hp_cells h b = Some (CArr xs)"
      "HAConfig_struct s' = (HAConfig_struct s)\<lparr>ha_Peers := fill_peers ns cr co port (ha_Peers (HAConfig_struct s))\<rparr>" by blast
    have "hp_cells h' a = Some (CVal v)" using p(3) S(3,4) by auto
    then have "denotes h' A p (NRef s')" unfolding p(1) using p(2) S(1) by (intro denotes_ptr)
    moreover have "agree (- A) h h'" using S(2,3) by (simp add: agree_def)
    ultimately show ?thesis using S(5) p(5) by (intro conjI exI [of _ "NRef s'"]) (simp_all add: fillPeerURLs_def)
  qed
qed

text \<open>
  C18: \<^verbatim>\<open>fillPeerURLs\<close> as it is written, a loop that overwrites \<^verbatim>\<open>ha.Peers[i].URL\<close> through the pointer it
  is given, implements the function on values the reconcilers are modelled with. Run on a
  deep copy of an HA configuration (as the client hands out of its store), it leaves the copy
  denoting the completed configuration, and writes only cells of the copy: the original denotes
  what it did before. A nil configuration and a nil or empty list of peers are included.
\<close>

theorem fillPeerURLs_on_copy:
  assumes p: "heap_ok h" "typed no_ext h (TPtr ty_HAConfig) p" "denotes h A p t"
    and copy: "DeepCopy_HAConfig p h = (q, h1)"
    and run: "fillPeerURLs_inplace q ns cr co port h1 = h2"
  shows "(\<exists>t'. denotes h2 {hp_next h..<hp_next h1} q t' \<and> HAConfig_of t' = fillPeerURLs (HAConfig_of t) ns cr co port)
     \<and> agree {..<hp_next h} h h2 \<and> denotes h2 A p t"
proof -
  note C = ha_copy.copy_result [OF p copy [unfolded DeepCopy_HAConfig_def]]
  note R = fillPeerURLs_inplace_refines [OF C(3,4) run]
  have "agree {..<hp_next h} h1 h2" using R by (auto intro: agree_subset)
  then have ag: "agree {..<hp_next h} h h2" using C(2) by (auto simp: extends_def intro: agree_trans)
  have "denotes h2 (A \<inter> {..<hp_next h}) p t"
    by (rule denotes_frame [OF denotes_below [OF p(3,1)]]) (use ag in \<open>auto intro: agree_subset\<close>)
  then have "denotes h2 A p t" by (rule denotes_mono) auto
  then show ?thesis using R ag by blast
qed

text \<open>A configuration with two peers, the second without a URL.\<close>

definition sample_peer :: "string \<Rightarrow> string \<Rightarrow> string \<Rightarrow> gval" where
  "sample_peer name url role = VStruct [(''Name'', VStr name), (''URL'', VStr url), (''Role'', VStr role),
     (''Address'', VStr ''''), (''AutoFailover'', VPtr None)]"

definition sample_peer_tree :: "string \<Rightarrow> string \<Rightarrow> string \<Rightarrow> tree" where
  "sample_peer_tree name url role = NStruct [''Name'', ''URL'', ''Role'', ''Address'', ''AutoFailover'']
     [LStr name, LStr url, LStr role, LStr '''', NNil]"

definition sample_ha :: gval where
  "sample_ha = VStruct [(''ThisServerName'', VStr ''a''), (''Mode'', VStr ''hot-standby''), (''HeartbeatDelay'', VPtr (Some 2)),
     (''MaxResponseDelay'', VPtr None), (''MaxAckDelay'', VPtr None), (''MaxUnackedClients'', VPtr None),
     (''Peers'', VSlice (Some (1, 0, 2))), (''TLS'', VPtr None), (''SendLeaseUpdates'', VPtr None),
     (''SyncLeases'', VPtr None), (''SyncTimeout'', VPtr None), (''SyncPageLimit'', VPtr None),
     (''DelayedUpdatesLimit'', VPtr None), (''MultiThreading'', VPtr None)]"

definition sample_ha_tree :: tree where
  "sample_ha_tree = NRef (NStruct [''ThisServerName'', ''Mode'', ''HeartbeatDelay'', ''MaxResponseDelay'', ''MaxAckDelay'',
       ''MaxUnackedClients'', ''Peers'', ''TLS'', ''SendLeaseUpdates'', ''SyncLeases'', ''SyncTimeout'', ''SyncPageLimit'',
       ''DelayedUpdatesLimit'', ''MultiThreading'']
     [LStr ''a'', LStr ''hot-standby'', NRef (LInt32 5), NNil, NNil, NNil,
      NSeq [sample_peer_tree ''a'' ''http://a'' ''primary'', sample_peer_tree ''b'' '''' ''standby''],
      NNil, NNil, NNil, NNil, NNil, NNil, NNil])"

definition sample_ha_heap :: gheap where
  "sample_ha_heap = \<lparr>hp_cells = [0 \<mapsto> CVal sample_ha,
       1 \<mapsto> CArr [sample_peer ''a'' ''http://a'' ''primary'', sample_peer ''b'' '''' ''standby''], 2 \<mapsto> CVal (VInt32 5)],
     hp_next = 3\<rparr>"

lemma sample_ha_typed: "typed no_ext sample_ha_heap (TPtr ty_HAConfig) (VPtr (Some 0))"
  by (simp add: sample_ha_heap_def sample_ha_def sample_peer_def ty_HAConfig_def ty_HAPeer_def ty_TLSConfig_def
      ty_HAMultiThreading_def)

lemma sample_ha_denotes: "denotes sample_ha_heap {0, 1, 2} (VPtr (Some 0)) sample_ha_tree"
  by (simp add: denotes_ptr_iff denotes_struct_iff denotes_slice_iff sample_ha_heap_def sample_ha_def sample_peer_def
      sample_ha_tree_def sample_peer_tree_def)

lemma sample_ha_ok: "heap_ok sample_ha_heap"
  by (simp add: heap_ok_def sample_ha_heap_def)

theorem fillPeerURLs_on_copy_witness:
  "let r = DeepCopy_HAConfig (VPtr (Some 0)) sample_ha_heap; h2 = fillPeerURLs_inplace (fst r) ''ns'' ''kea'' ''dhcp4'' 8000 (snd r) in
     (\<exists>t'. denotes h2 {3..<hp_next (snd r)} (fst r) t'
        \<and> HAConfig_of t' = fillPeerURLs (HAConfig_of sample_ha_tree) ''ns'' ''kea'' ''dhcp4'' 8000)
     \<and> agree {..<3} sample_ha_heap h2 \<and> denotes h2 {0, 1, 2} (VPtr (Some 0)) sample_ha_tree"
proof -
  have n: "hp_next sample_ha_heap = 3" by (simp add: sample_ha_heap_def)
  show ?thesis
    using fillPeerURLs_on_copy [OF sample_ha_ok sample_ha_typed sample_ha_denotes prod.collapse [symmetric] refl]
    unfolding Let_def n by blast
qed

section \<open>Discovery of the Stork server on a copy of the spec\<close>

text \<open>
  \<^verbatim>\<open>if storkCfg.ServerURL == "" { if info := ...; info != nil { storkCfg.ServerURL = info.ServerURL;\<close>
  \<^verbatim>\<open>storkCfg.ServerTokenSecretRef = &corev1.LocalObjectReference{Name: info.TokenSecretName} } }\<close>;
  \<open>info\<close> is what \<^verbatim>\<open>resolveStorkServer\<close> found.
\<close>

definition discoverStork_inplace :: "StorkServerInfo option \<Rightarrow> gval \<Rightarrow> gheap \<Rightarrow> gheap" where
  "discoverStork_inplace info storkCfg h =
     (case storkCfg of
        VPtr (Some a) \<Rightarrow>
          if field ''ServerURL'' (load_val h a) = VStr '''' then
            (case info of
               None \<Rightarrow> h
             | Some i \<Rightarrow>
                 let h1 = store a (CVal (set_field ''ServerURL'' (VStr (ssi_ServerURL i)) (load_val h a))) h in
                 (case alloc (CVal (VStruct [(''Name'', VStr (ssi_TokenSecretName i))])) h1 of
                    (b, h2) \<Rightarrow>
                      store a (CVal (set_field ''ServerTokenSecretRef'' (VPtr (Some b)) (load_val h2 a))) h2))
          else h
      | _ \<Rightarrow> h)"

text \<open>The same on trees.\<close>

definition tdiscover :: "StorkServerInfo option \<Rightarrow> tree \<Rightarrow> tree" where
  "tdiscover info t =
     (if tfield ''ServerURL'' t = LStr '''' then
        (case info of
           None \<Rightarrow> t
         | Some i \<Rightarrow>
             tset ''ServerTokenSecretRef'' (NRef (NStruct [''Name''] [LStr (ssi_TokenSecretName i)]))
               (tset ''ServerURL'' (LStr (ssi_ServerURL i)) t))
      else t)"

text \<open>What a cell holds is not seen through the cell itself: otherwise its tree would contain
  itself.\<close>

lemma denotes_acyclic_aux:
  assumes cell: "hp_cells h a = Some (CVal x)" and x: "denotes h A x t"
  shows "denotes h B v s \<Longrightarrow> size s \<le> size t \<Longrightarrow> denotes h (B - {a}) v s"
proof (induction rule: denotes.induct)
  case (denotes_ptr a' v u)
  have "a' \<noteq> a"
  proof
    assume "a' = a"
    then have "u = t" using denotes_ptr.hyps cell denotes_unique [OF x] by simp
    then show False using denotes_ptr.prems by simp
  qed
  then show ?case using denotes_ptr by (intro denotes.denotes_ptr) auto
next
  case (denotes_slice a' vs off n ts)
  have "size u \<le> size t" if "u \<in> set ts" for u
    using size_list_estimation' [OF that order_refl, of size] denotes_slice.prems by simp
  then show ?case using denotes_slice cell
    by (intro denotes.denotes_slice) (auto elim!: list.rel_mono_strong)
next
  case (denotes_map a' kvs ts)
  have "size u \<le> size t" if "u \<in> set ts" for u
    using size_list_estimation' [OF that order_refl, of size] denotes_map.prems by simp
  then show ?case using denotes_map cell
    by (intro denotes.denotes_map) (auto elim!: list.rel_mono_strong)
next
  case (denotes_struct fs ts)
  have "size u \<le> size t" if "u \<in> set ts" for u
    using size_list_estimation' [OF that order_refl, of size] denotes_struct.prems by simp
  then show ?case using denotes_struct
    by (intro denotes.denotes_struct) (auto elim!: list.rel_mono_strong)
qed (rule denotes.intros)+

lemma denotes_acyclic: "hp_cells h a = Some (CVal x) \<Longrightarrow> denotes h A x t \<Longrightarrow> denotes h (A - {a}) x t"
  using denotes_acyclic_aux [of h a x A t A x t] by simp

text \<open>Writing a field through a pointer.\<close>

lemma denotes_write_field:
  assumes a: "a \<in> A" "hp_cells h a = Some (CVal (VStruct fs))" and d: "denotes h A (VStruct fs) s"
    and w: "denotes h (A - {a}) w u"
  shows "denotes (store a (CVal (set_field f w (VStruct fs))) h) (A - {a}) (set_field f w (VStruct fs)) (tset f u s)"
  by (rule denotes_frame [OF denotes_set_field [OF denotes_acyclic [OF a(2) d] w]]) (simp add: agree_store)

lemma discover_refines:
  assumes a: "a \<in> A" "hp_cells h a = Some (CVal (VStruct fs))" and d: "denotes h A (VStruct fs) s"
    and f: "''ServerURL'' \<in> fst ` set fs" and str: "is_str (field ''ServerURL'' (VStruct fs))"
    and ok: "heap_ok h" and run: "discoverStork_inplace info (VPtr (Some a)) h = h'"
  shows "denotes h' (A \<union> {hp_next h..<hp_next h'}) (VPtr (Some a)) (NRef (tdiscover info s))
    \<and> agree ({..<hp_next h} - {a}) h h'"
proof -
  have "denotes h A (field ''ServerURL'' (VStruct fs)) (tfield ''ServerURL'' s)" by (rule denotes_field [OF d f])
  then have e: "(field ''ServerURL'' (VStruct fs) = VStr '''') = (tfield ''ServerURL'' s = LStr '''')"
    using str by (cases "field ''ServerURL'' (VStruct fs)") auto
  have lv: "load_val h a = VStruct fs" using a(2) by (simp add: load_val_def)
  show ?thesis
  proof (cases "field ''ServerURL'' (VStruct fs) = VStr '''' \<and> info \<noteq> None")
    case True
    then obtain i where i: "info = Some i" by blast
    let ?v1 = "set_field ''ServerURL'' (VStr (ssi_ServerURL i)) (VStruct fs)"
    let ?h1 = "store a (CVal ?v1) h"
    obtain os where os: "?v1 = VStruct os" using set_field_struct by blast
    obtain b h2 where al: "alloc (CVal (VStruct [(''Name'', VStr (ssi_TokenSecretName i))])) ?h1 = (b, h2)"
      by (cases "alloc (CVal (VStruct [(''Name'', VStr (ssi_TokenSecretName i))])) ?h1")
    note P = alloc_props [OF al]
    have an: "a < hp_next h" by (rule heap_okD [OF ok a(2)])
    have h1: "heap_ok ?h1" by (rule heap_ok_store [OF ok an])
    have c2: "hp_cells h2 a = Some (CVal (VStruct os))" using extends_cells [OF P(4), of a] an os by simp
    have d1: "denotes ?h1 (A - {a}) (VStruct os) (tset ''ServerURL'' (LStr (ssi_ServerURL i)) s)"
      using denotes_write_field [OF a d, of "VStr (ssi_ServerURL i)" "LStr (ssi_ServerURL i)" "''ServerURL''"] os by simp
    have "denotes h2 ((A - {a}) \<inter> {..<hp_next ?h1}) (VStruct os) (tset ''ServerURL'' (LStr (ssi_ServerURL i)) s)"
      by (rule denotes_extends [OF d1 h1 P(4)])
    then have d2: "denotes h2 (insert b A) (VStruct os) (tset ''ServerURL'' (LStr (ssi_ServerURL i)) s)"
      by (rule denotes_mono) auto
    have w: "denotes h2 (insert b A - {a}) (VPtr (Some b)) (NRef (NStruct [''Name''] [LStr (ssi_TokenSecretName i)]))"
      using P(1,3) an by (simp add: denotes_ptr_iff denotes_struct_iff)
    have h': "h' = store a (CVal (set_field ''ServerTokenSecretRef'' (VPtr (Some b)) (VStruct os))) h2"
      using run True i lv al os c2 by (simp add: discoverStork_inplace_def Let_def load_val_def)
    have "denotes h' (insert b A - {a}) (set_field ''ServerTokenSecretRef'' (VPtr (Some b)) (VStruct os)) (tdiscover info s)"
      using denotes_write_field [OF _ c2 d2 w, of "''ServerTokenSecretRef''"] a(1) True i e h' by (simp add: tdiscover_def)
    then have "denotes h' (A \<union> {hp_next h..<hp_next h'}) (VPtr (Some a)) (NRef (tdiscover info s))"
      using a(1) h' P(1,2) by (intro denotes_ptr) (auto elim: denotes_mono)
    moreover have "agree ({..<hp_next h} - {a}) h h'" using h' P(4) by (auto simp: agree_def extends_def)
    ultimately show ?thesis by blast
  next
    case False
    then have h': "h' = h" using run lv by (auto simp: discoverStork_inplace_def split: option.splits)
    then show ?thesis using False a d e by (auto simp: tdiscover_def intro: denotes_ptr)
  qed
qed

lemma stork_config_shape:
  assumes "typed L h ty_StorkAgentConfig v"
  shows "\<exists>fs. v = VStruct fs \<and> ''ServerURL'' \<in> fst ` set fs \<and> is_str (field ''ServerURL'' (VStruct fs))"
proof -
  obtain fs where v: "v = VStruct fs" using typed_structD [OF assms [unfolded ty_StorkAgentConfig_def]] by blast
  have "typed L h TString (field ''ServerURL'' (VStruct fs))" "''ServerURL'' \<in> fst ` set fs"
    by (rule typed_field [OF assms [unfolded ty_StorkAgentConfig_def v]]; simp)+
  then show ?thesis using v by simp
qed

text \<open>
  C19: The reconcilers resolve the Stork server on \<^verbatim>\<open>server.Spec.Stork.DeepCopy()\<close>, not on the spec. After
  the copy and the assignments to \<^verbatim>\<open>storkCfg.ServerURL\<close> and \<^verbatim>\<open>storkCfg.ServerTokenSecretRef\<close>, the
  copy denotes the configuration with exactly these two fields replaced (and only when the URL
  was empty and a server was found), while no cell that was there before has changed, so the
  spec denotes what the user wrote. Only the deep copies of the types of other packages are
  assumed to be deep copies.
\<close>

theorem stork_discovery_on_copy:
  assumes X: "ext_law L X"
    and p: "heap_ok h" "typed L h (TPtr ty_StorkAgentConfig) (VPtr (Some a))" "denotes h A (VPtr (Some a)) (NRef s)"
    and copy: "DeepCopy_StorkAgentConfig X (VPtr (Some a)) h = (q, h1)"
    and run: "discoverStork_inplace info q h1 = h2"
  shows "denotes h2 {hp_next h..<hp_next h2} q (NRef (tdiscover info s)) \<and> agree {..<hp_next h} h h2
     \<and> denotes h2 A (VPtr (Some a)) (NRef s)"
proof -
  note C = deep_copier.copy_result [OF deep_copier.intro [OF ext_law_local [OF X] deep_copies_StorkAgentConfig [OF X]]
      p copy [unfolded DeepCopy_StorkAgentConfig_def]]
  from C(4) obtain b v where b: "q = VPtr (Some b)" "b \<in> {hp_next h..<hp_next h1}" "hp_cells h1 b = Some (CVal v)"
    "denotes h1 {hp_next h..<hp_next h1} v s" by (auto elim: denotes.cases)
  obtain fs where fs: "v = VStruct fs" "''ServerURL'' \<in> fst ` set fs" "is_str (field ''ServerURL'' (VStruct fs))"
    using stork_config_shape [of L h1 v] C(3) b by auto
  have R: "denotes h2 ({hp_next h..<hp_next h1} \<union> {hp_next h1..<hp_next h2}) (VPtr (Some b)) (NRef (tdiscover info s))"
    "agree ({..<hp_next h1} - {b}) h1 h2"
    using discover_refines [OF b(2) b(3,4) [unfolded fs(1)] fs(2,3) C(1)] run b(1) by auto
  have n: "hp_next h1 \<le> hp_next h2"
    using run b(1) by (auto simp: discoverStork_inplace_def Let_def alloc_def split: option.splits if_splits)
  have "agree {..<hp_next h} h1 h2"
    by (rule agree_subset [OF R(2)]) (use b(2) extends_next [OF C(2)] in auto)
  then have ag: "agree {..<hp_next h} h h2" using C(2) by (auto simp: extends_def intro: agree_trans)
  have "denotes h2 (A \<inter> {..<hp_next h}) (VPtr (Some a)) (NRef s)"
    by (rule denotes_frame [OF denotes_below [OF p(3,1)]]) (use ag in \<open>auto intro: agree_subset\<close>)
  then have "denotes h2 A (VPtr (Some a)) (NRef s)" by (rule denotes_mono) auto
  moreover have "denotes h2 {hp_next h..<hp_next h2} q (NRef (tdiscover info s))"
    unfolding b(1) by (rule denotes_mono [OF R(1)]) (use n extends_next [OF C(2)] in auto)
  ultimately show ?thesis using ag by blast
qed

definition sample_stork :: gval where
  "sample_stork = VStruct [(''Enabled'', VBool True), (''Image'', VStr ''''), (''ImagePullPolicy'', VStr ''''),
     (''Resources'', VStruct []), (''ServerURL'', VStr ''''), (''ServerTokenSecretRef'', VPtr None),
     (''StorkServerRef'', VPtr (Some 1)), (''Port'', VPtr None), (''PrometheusPort'', VPtr None), (''Env'', VSlice None)]"

definition sample_stork_tree :: tree where
  "sample_stork_tree = NStruct [''Enabled'', ''Image'', ''ImagePullPolicy'', ''Resources'', ''ServerURL'', ''ServerTokenSecretRef'',
       ''StorkServerRef'', ''Port'', ''PrometheusPort'', ''Env'']
     [LBool True, LStr '''', LStr '''', NStruct [] [], LStr '''', NNil, NRef (NStruct [''Name''] [LStr ''stork'']), NNil, NNil, NNil]"

definition sample_stork_heap :: gheap where
  "sample_stork_heap = \<lparr>hp_cells = [0 \<mapsto> CVal sample_stork, 1 \<mapsto> CVal (VStruct [(''Name'', VStr ''stork'')])], hp_next = 2\<rparr>"

definition sample_info :: StorkServerInfo where
  "sample_info = \<lparr>ssi_ServerURL = ''http://stork:8080'', ssi_TokenSecretName = ''stork-server-token''\<rparr>"

theorem stork_discovery_on_copy_witness:
  "let r = DeepCopy_StorkAgentConfig sample_ext (VPtr (Some 0)) sample_stork_heap;
       h2 = discoverStork_inplace (Some sample_info) (fst r) (snd r) in
     denotes h2 {2..<hp_next h2} (fst r) (NRef (tdiscover (Some sample_info) sample_stork_tree))
     \<and> agree {..<2} sample_stork_heap h2 \<and> denotes h2 {0, 1} (VPtr (Some 0)) (NRef sample_stork_tree)
     \<and> tfield ''ServerURL'' (tdiscover (Some sample_info) sample_stork_tree) = LStr ''http://stork:8080''"
proof -
  have n: "hp_next sample_stork_heap = 2" "heap_ok sample_stork_heap" by (simp_all add: sample_stork_heap_def heap_ok_def)
  have ty: "typed sample_types sample_stork_heap (TPtr ty_StorkAgentConfig) (VPtr (Some 0))"
    by (simp add: sample_stork_heap_def sample_stork_def ty_StorkAgentConfig_def sample_types_def)
  have d: "denotes sample_stork_heap {0, 1} (VPtr (Some 0)) (NRef sample_stork_tree)"
    by (simp add: denotes_ptr_iff denotes_struct_iff sample_stork_heap_def sample_stork_def sample_stork_tree_def)
  have u: "tfield ''ServerURL'' (tdiscover (Some sample_info) sample_stork_tree) = LStr ''http://stork:8080''"
    by (simp add: tdiscover_def sample_stork_tree_def tfield_def tset_def sample_info_def)
  show ?thesis
    using stork_discovery_on_copy [OF sample_ext_law n(2) ty d prod.collapse [symmetric] refl] u
    unfolding Let_def n(1) by blast
qed

end
