(* ===== verification/Spec2Isabelle.thy ===== *)
theory Spec2Isabelle
  imports Convergence WellTyped Manager ConsoleBackend HeapClients
begin

text \<open>
  A verification development of the Kea DHCP operator: a Kubernetes operator in Go that turns
  six kinds of custom resource into Kea and Stork workloads, and the backend of its console
  plugin. Every theory translates code under \<^verbatim>\<open>src/\<close>; this theory imports them all and holds the
  properties that span the controllers.

  \<^bold>\<open>The program.\<close> A resource (\<^verbatim>\<open>api/v1alpha1\<close>) is read by the controller of its kind
  (\<^verbatim>\<open>internal/controller\<close>), which renders the daemon's JSON configuration (\<^verbatim>\<open>internal/kea\<close>), builds
  the Kubernetes objects (\<^verbatim>\<open>internal/resources\<close>), writes them with owner references through the
  shared helpers of \<^verbatim>\<open>reconciler.go\<close>, and reports a status. The umbrella resource \<^verbatim>\<open>KeaServer\<close> makes
  one child resource per component and aggregates their status. \<^verbatim>\<open>cmd/main.go\<close> detects the platform,
  prepares the cluster (\<^verbatim>\<open>setup.go\<close>) and starts the six controllers. The console plugin
  (\<^verbatim>\<open>console-plugin/pkg\<close>) discovers control agents and aggregates leases over HTTP.

  \<^bold>\<open>Foundations.\<close>
  \<^item> \<^theory_text>\<open>Prelude\<close>, \<^theory_text>\<open>GoMap\<close>: errors, decimal rendering, Go maps as sorted association lists (locale
    \<^verbatim>\<open>ordered_map\<close>).
  \<^item> \<^theory_text>\<open>GoJson\<close>, \<^theory_text>\<open>GoJsonInj\<close>: JSON values and the bytes of \<^verbatim>\<open>json.MarshalIndent\<close>, injective on
    well-formed values. \<^theory_text>\<open>GoSha\<close>: SHA-256 for \<^verbatim>\<open>ComputeHash\<close>. \<^theory_text>\<open>GoBase64\<close>: the raw URL encoding.
  \<^item> \<^theory_text>\<open>K8sTypes\<close>, \<^theory_text>\<open>ApiTypes\<close>: Kubernetes and custom-resource structs as records, with the Go
    names; a pointer is an option, \<^verbatim>\<open>int32\<close> a 32-bit word.

  \<^bold>\<open>Configuration\<close> (\<^verbatim>\<open>internal/kea\<close>). \<^theory_text>\<open>KeaConfig\<close> has the shared renderers and the locale
  \<^verbatim>\<open>config_renderer\<close>; \<^theory_text>\<open>Dhcp4Config\<close>, \<^theory_text>\<open>Dhcp6Config\<close>, \<^theory_text>\<open>CtrlAgentConfig\<close> and \<^theory_text>\<open>DdnsConfig\<close> interpret it
  and prove what each section of the bytes says: a declarative table of the root object, hook
  order, the HA section, databases, clients and keys.

  \<^bold>\<open>Objects\<close> (\<^verbatim>\<open>internal/resources\<close>). \<^theory_text>\<open>Names\<close>, \<^theory_text>\<open>Services\<close>, \<^theory_text>\<open>Validate\<close>, \<^theory_text>\<open>Pods\<close>, \<^theory_text>\<open>Deployment\<close>,
  \<^theory_text>\<open>StatefulSet\<close> and \<^theory_text>\<open>StorkServer\<close> build the objects with the scripts as exact texts and prove
  well-formed pods, unique names, separate selectors and inert shell inputs. For two scripts
  there is also what the shell makes of them: which file the init script of a StatefulSet
  copies, and what the substitution script of a Deployment leaves in the configuration.

  \<^bold>\<open>Controllers\<close> (\<^verbatim>\<open>internal/controller\<close>).
  \<^item> \<^theory_text>\<open>Status\<close>, \<^theory_text>\<open>Credentials\<close>, \<^theory_text>\<open>NetAddr\<close>: the pure helpers.
  \<^item> \<^theory_text>\<open>Api\<close>: objects, and the environment record of a controller: client, clock, random source,
    events, platform flag, URL parser, iteration order of maps. A controller is a function on
    the environment's state that gives an error or a value and a new state. \<open>keeps\<close> and
    \<open>env_keeps\<close> state preserved invariants in terms of the writes an environment permits.
  \<^item> \<^theory_text>\<open>Reconciler\<close>: \<^verbatim>\<open>reconciler.go\<close> and \<^verbatim>\<open>setup.go\<close>. \<^theory_text>\<open>ComponentSteps\<close>: the steps the component
    controllers share and the locale \<^verbatim>\<open>component_controller\<close> (a controller that writes only its
    footprint). \<^theory_text>\<open>Dhcp4Controller\<close>, \<^theory_text>\<open>Dhcp6Controller\<close>, \<^theory_text>\<open>CtrlAgentController\<close>, \<^theory_text>\<open>DdnsController\<close> and
    \<^theory_text>\<open>StorkController\<close> model one \<^verbatim>\<open>Reconcile\<close> each and interpret it. \<^theory_text>\<open>KeaServerController\<close> models
    the umbrella, its child steps being interpretations of the locale \<^verbatim>\<open>child_component\<close>.
  \<^item> \<^theory_text>\<open>ApiStore\<close>: the law \<open>store_law\<close> of the API server (which object a call changes and how),
    \<open>frame\<close>, and triples on successful calls. \<^theory_text>\<open>Progress\<close>: the law \<open>up_law\<close> (the server answers),
    \<open>succeeds\<close>, and the locale \<^verbatim>\<open>live_controller\<close> that extends \<^verbatim>\<open>component_controller\<close>.
    \<^theory_text>\<open>MemEnv\<close>: an in-memory environment that satisfies both laws; the closed examples run on it.
  \<^item> \<^theory_text>\<open>Operator\<close>: set-up, dispatch and runs. \<^theory_text>\<open>MapOrder\<close>: every step gives the same result under
    every iteration order of the map loops, the workload of an HA DHCPv4 server apart.
    \<^theory_text>\<open>Platform\<close>: \<^verbatim>\<open>internal/platform\<close>. \<^theory_text>\<open>Dhcp4HA\<close>: the rollout of a DHCPv4 server with high availability. \<^theory_text>\<open>WellTyped\<close>: the statuses of all kinds as instances of
    the API types.
  \<^item> \<^theory_text>\<open>Replay\<close>: the judgement \<open>replays\<close> on a run and a later one of the same code, composed along the
    steps; \<^theory_text>\<open>UmbrellaReplay\<close> (locale \<^verbatim>\<open>settling_child\<close>) and \<^theory_text>\<open>Convergence\<close> (locale \<^verbatim>\<open>settling_controller\<close>,
    extending \<^verbatim>\<open>live_controller\<close> and interpreted on the five component controllers) derive that
    reconciliation reaches a fixed point.

  \<^bold>\<open>Manager\<close> (\<^verbatim>\<open>cmd/main.go\<close>). \<^theory_text>\<open>Watches\<close>: \<^verbatim>\<open>SetupWithManager\<close> of every controller, and which events lead to
  which requests. \<^theory_text>\<open>Manager\<close>: the command line, the options, and \<^verbatim>\<open>main\<close> with its exits.

  \<^bold>\<open>Memory\<close> (\<^verbatim>\<open>api/v1alpha1/zz_generated.deepcopy.go\<close>). Elsewhere values are immutable, so a copy is the
  value; these theories justify that. \<^theory_text>\<open>GoHeap\<close>: values with references, a heap of cells, the
  statements controller-gen emits, the judgement \<open>denotes\<close> (a value denotes a tree through given
  cells) and its frame rules, what it is to copy a declared type deeply, clients as a step
  relation on the cells they own, and the locale \<^verbatim>\<open>deep_copier\<close>. \<^theory_text>\<open>DeepCopyTypes\<close>: the layouts of
  the sixty API structs, lists included. \<^theory_text>\<open>DeepCopy\<close>: every generated routine, and that each copies
  its declared type deeply. \<^theory_text>\<open>HeapClients\<close>: the two places where the controllers write through a
  pointer, \<^verbatim>\<open>fillPeerURLs\<close> and the Stork discovery, refine the functions on values used in
  \<^theory_text>\<open>Credentials\<close> and \<^theory_text>\<open>Reconciler\<close>.

  \<^bold>\<open>Console plugin.\<close> \<^theory_text>\<open>ConsolePlugin\<close>: discovery, client and handlers. \<^theory_text>\<open>ConsoleBackend\<close>: the backend's
  \<^verbatim>\<open>main\<close> and its routing.

  \<^bold>\<open>What is shown.\<close> Here: a reconciliation of any kind changes only what it may, objects of
  other controllers survive every run (custom resources apart), component reconciliations of
  valid specs succeed when the server answers, and one reconciliation of any kind reaches a
  fixed point of the next ones (an HA server under another map order apart). In the
  controllers: a successful DHCPv4 rollout is consistent, with and without HA (ConfigMaps, pod
  annotation and status agree with the rendered bytes), invalid peers stop before the
  workload, generated Secrets are never replaced, the umbrella's children match its spec and
  its status their readiness, statuses stay well typed. In the manager: it starts only when
  everything is registered and prepared, is secure by default, and is woken by changes to what
  it made, Routes apart. In memory: generated copies share nothing with the original, and writes
  through a copy leave it as it was. In the lower theories: the properties of configurations and
  objects listed above. Some properties record a defect (map-order dependence, substitution
  in the wrong files, a cached failed probe, unwatched Routes).

  \<^bold>\<open>Assumptions.\<close> \<open>store_law\<close> and \<open>up_law\<close> are hypotheses on the API server and
  \<^verbatim>\<open>controllerutil\<close>: a call changes at most its own object, \<^verbatim>\<open>SetControllerReference\<close> refuses an
  object with another controller, the server may default other fields but keeps keys,
  owners, data and pod-template metadata; a call is atomic, and other actors act between
  calls only in \<open>operator_run\<close>, at the grain of whole reconciliations. \<open>list_law\<close> (a list has each
  object once, in some order) and \<open>settle_law\<close> (applying an idempotent change again stores
  nothing new) are further hypotheses of the fixed point, with \<open>sound_of\<close> (a DHCPv4 server has a
  replica count that is not negative and valid peer hostnames) and \<open>stable_of\<close> (the sidecar's Stork
  server is not chosen among several). The iteration order of Go maps is an argument of the
  loops that depend on it and may be another one in every run (\<open>reorder\<close>). \<open>exists_law\<close> and
  \<open>runtime_law\<close> are what \<^verbatim>\<open>main\<close> relies on of the server's conflict answers and of
  controller-runtime; each has an instance, the in-memory environment. \<open>ext_law\<close> says that the
  \<^verbatim>\<open>DeepCopyInto\<close> of Kubernetes types copies deeply, with \<open>sample_ext\<close> as its instance; \<^verbatim>\<open>in\<close> and
  \<^verbatim>\<open>out\<close> of a copy are taken to be distinct storage, as in every caller. Parsing of URLs
  and of user JSON is an argument. There is no fuel: every loop is structural or has a
  termination proof.

  \<^bold>\<open>Not modelled.\<close> Logging; texts of wrapped errors beyond their constant part; the work queue,
  leader election and the servers behind the manager's options, which are inside
  controller-runtime; when the informers' store is read and copied (only what a copy
  guarantees); conflicts of concurrent writers within one reconciliation; the plugin's web UI
  (TypeScript) and the HTTP listener; manifests.
\<close>

section \<open>The whole operator\<close>

text \<open>
  C1: what a reconciliation may do to a cluster, for every kind of resource, whether it
  succeeds or fails. An object is changed only if it is in the footprint of the resource, ends
  up controlled by it and had no other controller before; or it is the SCC binding of its
  service account, which is only ever created; or it is the resource itself, whose spec and
  metadata stay. Only the umbrella resource deletes anything, and only the children its spec
  does not ask for. When the resource is gone nothing changes at all.
\<close>

theorem operator_reconcile_frame:
  assumes "store_law E look"
  shows "case look s (k, ns, n) of
     None \<Rightarrow> look (snd (Reconcile E k ns n s)) = look s
   | Some x \<Rightarrow> frame look s (om_UID (obj_meta x)) (footprint_of x) (creates_of x) (deletes_of x) (k, ns, n) (snd (Reconcile E k ns n s))"
  using Reconcile_absent [OF assms] Reconcile_frame [OF assms] by (simp split: option.split)

definition foreign_cm :: ConfigMap where
  "foreign_cm = \<lparr>cm_Meta = zero_ObjectMeta\<lparr>om_Name := ''d-dhcp4'', om_Namespace := ''kea'', om_ControllerOwner := Some ''u9''\<rparr>, cm_Data = []\<rparr>"

lemma foreign_state:
  "mem_look (mem_init [ODhcp4 sample4, OConfigMap foreign_cm]) (KDhcp4, ''kea'', ''d'') = Some (ODhcp4 sample4)"
  "mem_look (mem_init [ODhcp4 sample4, OConfigMap foreign_cm]) (KConfigMap, ''kea'', ''d-dhcp4'') = Some (OConfigMap foreign_cm)"
  "obj_owner (OConfigMap foreign_cm) = Some ''u9''" "om_UID (kd4_ObjectMeta sample4) = ''u1''"
  by (simp_all add: mem_look_def mem_init_def sample4_def foreign_cm_def obj_key_def obj_owner_def)

text \<open>A ConfigMap of another controller survives, even under the name the operator would use.\<close>

theorem operator_reconcile_frame_witness:
  "mem_look (snd (Reconcile (mem_env True) KDhcp4 ''kea'' ''d'' (mem_init [ODhcp4 sample4, OConfigMap foreign_cm]))) (KConfigMap, ''kea'', ''d-dhcp4'')
     = Some (OConfigMap foreign_cm)"
proof -
  let ?s = "mem_init [ODhcp4 sample4, OConfigMap foreign_cm]"
  have "frame mem_look ?s ''u1'' (footprint_of (ODhcp4 sample4)) (creates_of (ODhcp4 sample4)) (deletes_of (ODhcp4 sample4)) (KDhcp4, ''kea'', ''d'')
      (snd (Reconcile (mem_env True) KDhcp4 ''kea'' ''d'' ?s))"
    using operator_reconcile_frame [OF mem_store_law [of True], where s = ?s and k = KDhcp4 and ns = "''kea''" and n = "''d''"] by (simp add: foreign_state)
  from frame_foreign [where look = mem_look, OF this foreign_state(2)] show ?thesis by (simp add: claimable_def foreign_state deletes_of_def)
qed

text \<open>
  C2: the operator never touches a foreign object that is not one of its own custom resources.
  In every run, with any number of restarts and reconciliations of any resources in any order,
  whatever order the map loops take and whatever other actors do to other objects in between,
  an object of a kind other than the six custom resources, whose controller has a UID that is
  not the UID of a reconciled resource, keeps its exact contents. It may have any name, also one
  the operator would use. Custom resources are excluded because the umbrella controller deletes
  a child it does not want by name, whoever owns it.
\<close>

theorem operator_keeps_foreign_objects:
  assumes "store_law E look" and "operator_run E look u K s0 s"
    and "look s0 K = Some x" and "obj_owner x = Some u" and "fst K \<notin> resource_kinds"
  shows "look s K = Some x"
  using assms(2)
proof (induction rule: operator_run.induct)
  case run_start
  then show ?case by (rule assms(3))
next
  case (run_setup s)
  have "keeps (\<lambda>s. look s K = Some x) (startup E)" by (rule keeps_startup [OF env_keeps_existing [OF assms(1)]]) simp
  with run_setup show ?case by (simp add: keeps_def)
next
  case (run_request s k ns n ho ao)
  have "store_law (reorder ho ao E) look" using assms(1) by simp
  from Reconcile_foreign [OF this run_request.IH assms(4,5) run_request.hyps(2)] show ?case .
next
  case (run_other s s')
  then show ?case by simp
qed

theorem operator_keeps_foreign_objects_witness:
  "mem_look (snd (startup (mem_env True) (snd (Reconcile (mem_env True) KDhcp4 ''kea'' ''d'' (mem_init [ODhcp4 sample4, OConfigMap foreign_cm])))))
     (KConfigMap, ''kea'', ''d-dhcp4'') = Some (OConfigMap foreign_cm)"
proof -
  let ?s = "mem_init [ODhcp4 sample4, OConfigMap foreign_cm]"
  have "operator_run (mem_env True) mem_look ''u9'' (KConfigMap, ''kea'', ''d-dhcp4'') ?s
      (snd (startup (mem_env True) (snd (Reconcile (mem_env True) KDhcp4 ''kea'' ''d'' ?s))))"
    using run_setup [OF run_request [OF run_start, where E = "mem_env True" and K = "(KConfigMap, ''kea'', ''d-dhcp4'')"
        and ho = "env_HostOrder (mem_env True)" and ao = "env_AddrOrder (mem_env True)"],
        of mem_look ?s KDhcp4 "''kea''" "''d''" "''u9''"] by (simp add: foreign_state)
  from operator_keeps_foreign_objects [where look = mem_look, OF mem_store_law [of True] this foreign_state(2,3)] show ?thesis by (simp add: resource_kinds_def)
qed

text \<open>
  C4: progress. When the API server answers and nobody else controls an object of the
  footprint, the reconciliation of a component resource returns without error: every DHCPv6
  server, control agent, DDNS server and Stork server, and every DHCPv4 server, HA or not,
  whose replica count is not negative and whose peer hostnames pass validation. Afterwards the
  same holds again, so the next reconciliation succeeds as well.
\<close>

theorem operator_reconcile_succeeds:
  assumes "store_law E look" and "up_law E look" and "look s (k, ns, n) = Some x"
    and "k \<in> {KDhcp4, KDhcp6, KControlAgent, KDdns, KStorkServer}" and "sound_of E x"
    and "\<forall>K \<in> footprint_of x. was_claimable (om_UID (obj_meta x)) (look s K)"
  shows "\<exists>s'. Reconcile E k ns n s = (Inr (), s') \<and> (\<forall>K \<in> footprint_of x. was_claimable (om_UID (obj_meta x)) (look s' K))"
  using Reconcile_succeeds [of E look s k ns n x] assms by (auto simp: answers_def resource_kinds_def)

theorem operator_reconcile_succeeds_witness:
  "fst (Reconcile (mem_env True) KDhcp4 ''kea'' ''d'' (mem_init [ODhcp4 sample4_ha])) = Inr ()"
proof -
  have "sound_of (mem_env True) (ODhcp4 sample4_ha)" by (simp add: sound_of_def sample4_ha_sound)
  then show ?thesis
    using operator_reconcile_succeeds [OF mem_store_law [of True] mem_up_law [of True], of "mem_init [ODhcp4 sample4_ha]" KDhcp4 "''kea''" "''d''" "ODhcp4 sample4_ha"]
      sample4_ha_sound(1,2) by auto
qed

text \<open>
  C3: convergence. Assume that the API server answers and follows its laws, that nobody else
  controls an object of the footprint, that a DHCPv4 server has a replica count that is not
  negative and peer hostnames that pass validation, and that the sidecar's Stork server is not
  chosen among several. Then one reconciliation of a resource of any kind succeeds and brings
  the cluster to a fixed point: a further reconciliation succeeds too and leaves every object as
  it is, its status and transition times included, whatever the clock and the random source
  say by then and whatever iteration orders its map loops take. The one exception is a DHCPv4
  server with high availability whose later run iterates a map in another order: of that run
  only success is claimed, since it builds another StatefulSet.
\<close>

theorem operator_converges:
  assumes "store_law E look" and "up_law E look" and "list_law E look" and "settle_law E look"
    and "look s (k, ns, n) = Some x" and "k \<in> resource_kinds" and "sound_of E x" and "stable_of (look s) x"
    and "\<forall>K \<in> footprint_of x. was_claimable (om_UID (obj_meta x)) (look s K)"
  shows "\<exists>s1. Reconcile E k ns n s = (Inr (), s1)
     \<and> (\<forall>t ho ao. look t = look s1 \<longrightarrow>
          (\<exists>t1. Reconcile (reorder ho ao E) k ns n t = (Inr (), t1)
             \<and> (look t1 = look s1 \<or> order_matters x \<and> (ho, ao) \<noteq> (env_HostOrder E, env_AddrOrder E))))"
proof -
  have "steady E look" using assms(1-4) by (simp add: steady_def answers_def)
  from Reconcile_converges_reordered [OF this, of s k ns n x] assms(5-) show ?thesis by blast
qed

theorem operator_converges_witness:
  "\<exists>s1 s2 s3. Reconcile (mem_env True) KDhcp4 ''kea'' ''d'' (mem_init [ODhcp4 sample4]) = (Inr (), s1)
     \<and> Reconcile (reorder rev rev (mem_env True)) KDhcp4 ''kea'' ''d'' s1 = (Inr (), s2) \<and> mem_look s2 = mem_look s1
     \<and> Reconcile (mem_env True) KDhcp4 ''kea'' ''d'' s2 = (Inr (), s3) \<and> mem_look s3 = mem_look s1"
proof -
  have "stable_of L (ODhcp4 sample4)" for L
    by (simp add: stable_of_def stork_stable_def sample4_def fill_server4_def Let_def zero_KeaDhcp4Server_def zero_KeaDhcp4ServerSpec_def)
  moreover have "\<not> order_matters (ODhcp4 sample4)"
    by (simp add: order_matters_def sample4_def zero_KeaDhcp4Server_def zero_KeaDhcp4ServerSpec_def)
  ultimately obtain s1 where s1: "Reconcile (mem_env True) KDhcp4 ''kea'' ''d'' (mem_init [ODhcp4 sample4]) = (Inr (), s1)"
    and next_run: "mem_look t = mem_look s1 \<Longrightarrow>
      \<exists>t1. Reconcile (reorder ho ao (mem_env True)) KDhcp4 ''kea'' ''d'' t = (Inr (), t1) \<and> mem_look t1 = mem_look s1" for t ho ao
    using operator_converges [OF mem_store_law [of True] mem_up_law [of True] mem_list_law [of True] mem_settle_law [of True],
        of "mem_init [ODhcp4 sample4]" KDhcp4 "''kea''" "''d''" "ODhcp4 sample4"]
      sample4_alone by (auto simp: resource_kinds_def sound_of_def)
  from next_run [of s1 rev rev] obtain s2 where s2: "Reconcile (reorder rev rev (mem_env True)) KDhcp4 ''kea'' ''d'' s1 = (Inr (), s2)" "mem_look s2 = mem_look s1"
    by blast
  from next_run [of s2 "env_HostOrder (mem_env True)" "env_AddrOrder (mem_env True)"] s1 s2 show ?thesis by auto
qed

end
